(* ===== verification/Prelude.thy ===== *)
theory Prelude imports Main "HOL-Library.Word" "HOL-Library.Signed_Division" begin

text \<open>
  The vocabulary the components share: the fixed-width integers of the C sources as machine words,
  C's integer conversions and shifts, the \<open>switch\<close> statement as a finite table, the result type
  of code that can stop the emulator, and the lemmas on them that carry the component proofs.

  C's unsigned and signed integers of one width are the same word type here; the operations say
  which reading they use: \<open>uint\<close>, \<open>drop_bit\<close>, \<open>div\<close> for unsigned ones, \<open>sint\<close>,
  \<open>signed_drop_bit\<close>, \<open><s\<close> and the signed division for signed ones. Arithmetic wraps.
\<close>

unbundle bit_operations_syntax

section \<open>Machine integers\<close>

type_synonym u8 = "8 word"
type_synonym u16 = "16 word"
type_synonym u32 = "32 word"
type_synonym u64 = "64 word"

text \<open>The collections the component proofs pass to the simplifier: \<open>field_bits\<close> holds the
  bitwise readings of field extractors, \<open>hart_simps\<close> the accessor laws of the processor state.\<close>

named_theorems field_bits
named_theorems hart_simps
named_theorems frame_simps

section \<open>Stopping outcomes\<close>

text \<open>
  What can stop the emulator itself while it works for a guest: a failed C assertion, a shift by
  the operand's width or more (undefined in C), a double fetch that the source leaves undefined,
  or a branch the source marks unreachable. \<open>Out_of_fuel\<close> stands for a nesting of traps or a number of
  repeated fetches beyond the bound a definition was given; the source has no such bound.
\<close>

datatype fault =
    Assert_failed
  | Undefined_shift
  | Unreachable_branch
  | Undefined_access
  | Out_of_fuel

type_synonym 'a outcome = "fault + 'a"

definition obind :: "'a outcome \<Rightarrow> ('a \<Rightarrow> 'b outcome) \<Rightarrow> 'b outcome" where
  "obind m f = (case m of Inl e \<Rightarrow> Inl e | Inr x \<Rightarrow> f x)"

lemma obind_simps [simp]:
  "obind (Inl e) f = Inl e"
  "obind (Inr x) f = f x"
  by (simp_all add: obind_def)

lemma obind_Inr_iff: "obind m f = Inr y \<longleftrightarrow> (\<exists>x. m = Inr x \<and> f x = Inr y)"
  by (cases m) auto

section \<open>Switch statements\<close>

text \<open>
  A C \<open>switch\<close> whose cases all assign one value is a finite table; \<open>None\<close> is the
  \<open>default\<close> branch.
\<close>

definition switch :: "'a \<Rightarrow> ('a \<times> 'b) list \<Rightarrow> 'b option" where
  "switch x table = map_of table x"

lemma switch_Nil [simp]: "switch x [] = None"
  by (simp add: switch_def)

lemma switch_Cons [simp]:
  "switch x ((k, v) # table) = (if x = k then Some v else switch x table)"
  by (simp add: switch_def)

lemma switch_SomeD: "switch x table = Some v \<Longrightarrow> v \<in> snd ` set table"
  by (force simp: switch_def dest: map_of_SomeD)

section \<open>Bitwise readings\<close>

lemma nat_less_8_cases: "(n::nat) < 8 \<longleftrightarrow> n \<in> {0, 1, 2, 3, 4, 5, 6, 7}"
  by auto

lemma less_32_all:
  "(\<forall>n<32. P n) \<longleftrightarrow>
    P 0 \<and> P 1 \<and> P 2 \<and> P 3 \<and> P 4 \<and> P 5 \<and> P 6 \<and> P 7 \<and> P 8 \<and> P 9 \<and> P 10 \<and> P 11 \<and>
    P 12 \<and> P 13 \<and> P 14 \<and> P 15 \<and> P 16 \<and> P 17 \<and> P 18 \<and> P 19 \<and> P 20 \<and> P 21 \<and>
    P 22 \<and> P 23 \<and> P 24 \<and> P 25 \<and> P 26 \<and> P 27 \<and> P 28 \<and> P 29 \<and> P 30 \<and> P (31::nat)"
  by (simp add: numeral_eq_Suc All_less_Suc) blast

lemma less_16_all:
  "(\<forall>n<16. P n) \<longleftrightarrow>
    P 0 \<and> P 1 \<and> P 2 \<and> P 3 \<and> P 4 \<and> P 5 \<and> P 6 \<and> P 7 \<and> P 8 \<and> P 9 \<and> P 10 \<and> P 11 \<and>
    P 12 \<and> P 13 \<and> P 14 \<and> P (15::nat)"
  by (simp add: numeral_eq_Suc All_less_Suc) blast

lemma word32_eq_bitsI:
  fixes a b :: u32
  assumes "\<forall>n<32. bit a n = bit b n"
  shows "a = b"
  using assms by (intro bit_word_eqI) simp

lemma word16_eq_bitsI:
  fixes a b :: u16
  assumes "\<forall>n<16. bit a n = bit b n"
  shows "a = b"
  using assms by (intro bit_word_eqI) simp

lemma less_8_all:
  "(\<forall>n<8. P n) \<longleftrightarrow> P 0 \<and> P 1 \<and> P 2 \<and> P 3 \<and> P 4 \<and> P 5 \<and> P 6 \<and> P (7::nat)"
  by (simp add: numeral_eq_Suc All_less_Suc) blast

lemma word8_eq_iff: "a = b \<longleftrightarrow> (\<forall>n<8. bit a n = bit b n)" for a b :: u8
  by (auto intro!: bit_word_eqI)

lemma bit_beyond [simp]:
  "8 \<le> n \<Longrightarrow> \<not> bit (b :: u8) n" "16 \<le> n \<Longrightarrow> \<not> bit (h :: u16) n"
  "32 \<le> n \<Longrightarrow> \<not> bit (w :: u32) n"
  by (auto dest: bit_imp_le_length)

lemma word32_eq_iff: "a = b \<longleftrightarrow> (\<forall>n<32. bit a n = bit b n)" for a b :: u32
  using word32_eq_bitsI by blast

lemma word16_eq_iff: "a = b \<longleftrightarrow> (\<forall>n<16. bit a n = bit b n)" for a b :: u16
  using word16_eq_bitsI by blast

text \<open>The rewrite rules that reduce a bit of a word expression built from masks and shifts.\<close>

lemmas word_bits =
  bit_and_iff bit_or_iff bit_xor_iff bit_not_iff bit_push_bit_iff bit_drop_bit_eq
  bit_unsigned_iff bit_signed_iff bit_signed_drop_bit_iff bit_take_bit_iff
  bit_signed_take_bit_iff

section \<open>Rotations as a pair of shifts\<close>

lemma rotations:
  assumes "0 < k" "k < 32"
  shows "push_bit k x OR drop_bit (32 - k) x = word_rotl k x"
    and "drop_bit k x OR push_bit (32 - k) x = word_rotr k (x :: u32)"
proof -
  have left: "bit (word_rotl k x) n \<longleftrightarrow> bit x (if n < k then n + (32 - k) else n - k)"
    and right: "bit (word_rotr k x) n \<longleftrightarrow> bit x (if n + k < 32 then n + k else n + k - 32)"
    if "n < 32" for n
  proof -
    have "(n + k) mod 32 = (if n + k < 32 then n + k else n + k - 32)"
      "(n + (32 - k)) mod 32 = (if n < k then n + (32 - k) else n - k)"
      using assms that by (auto simp: mod_if)
    then show "bit (word_rotl k x) n \<longleftrightarrow> bit x (if n < k then n + (32 - k) else n - k)"
      "bit (word_rotr k x) n \<longleftrightarrow> bit x (if n + k < 32 then n + k else n + k - 32)"
      using assms that by (simp_all add: bit_word_rotl_iff bit_word_rotr_iff)
  qed
  show "push_bit k x OR drop_bit (32 - k) x = word_rotl k x"
    using assms left by (intro bit_word_eqI) (auto simp: bit_or_iff bit_push_bit_iff bit_drop_bit_eq add.commute)
  show "drop_bit k x OR push_bit (32 - k) x = word_rotr k x"
    using assms right by (intro bit_word_eqI) (auto simp: bit_or_iff bit_push_bit_iff bit_drop_bit_eq add.commute)
qed

section \<open>Sign extension\<close>

definition sign_extend_h :: "u32 \<Rightarrow> u32" where
  "sign_extend_h x = scast (ucast x :: u16)"

definition sign_extend_b :: "u32 \<Rightarrow> u32" where
  "sign_extend_b x = scast (ucast x :: u8)"

lemma bit_sign_extend_h [field_bits]:
  "bit (sign_extend_h x) n \<longleftrightarrow> n < 32 \<and> bit x (min n 15)"
  by (auto simp: sign_extend_h_def word_bits min_def)

lemma bit_sign_extend_b [field_bits]:
  "bit (sign_extend_b x) n \<longleftrightarrow> n < 32 \<and> bit x (min n 7)"
  by (auto simp: sign_extend_b_def word_bits min_def)

end
