(* ===== verification/Vunit.thy ===== *)
theory Vunit imports Prelude begin

text \<open>
  The data of the vector extension: the vector register file and its control registers, which
  \<open>struct riscv_internal\<close> (\<open>src/src/riscv_private.h\<close>) has under \<open>EXT_V\<close>, and the operand fields
  \<open>rv_insn_t\<close> (\<open>src/src/decode.h\<close>) has for it. The scalar components carry them along unused.
\<close>

definition VLEN :: u32 where [simp]: "VLEN = 128"
definition VREG_U32_COUNT :: u32 where [simp]: "VREG_U32_COUNT = 4"

text \<open>\<open>vregs r w\<close> is word \<open>w\<close> of register \<open>r\<close>; the source has 32 registers of \<open>VREG_U32_COUNT\<close> words, and the
  accessors check every index.\<close>

record vunit_t =
  vregs :: "u32 \<Rightarrow> u32 \<Rightarrow> u32"
  csr_vstart :: u32
  csr_vxsat :: u32
  csr_vxrm :: u32
  csr_vcsr :: u32
  csr_vl :: u32
  csr_vtype :: u32
  csr_vlenb :: u32

definition reset_vunit :: "vunit_t \<Rightarrow> vunit_t" where
  "reset_vunit u = u\<lparr>csr_vstart := 0, csr_vxsat := 0, csr_vxrm := 0, csr_vcsr := 0, csr_vl := 0,
     csr_vtype := push_bit 31 1, csr_vlenb := VLEN div 8\<rparr>"

definition zero_vunit :: vunit_t where
  "zero_vunit = \<lparr>vregs = (\<lambda>_ _. 0), csr_vstart = 0, csr_vxsat = 0, csr_vxrm = 0, csr_vcsr = 0,
     csr_vl = 0, csr_vtype = 0, csr_vlenb = 0\<rparr>"

record v_operands_t =
  zimm :: u32
  vd :: u8
  vs1 :: u8
  vs2 :: u8
  vs3 :: u8
  eew :: u8
  vm :: u8

definition no_operands :: v_operands_t where
  "no_operands = \<lparr>zimm = 0, vd = 0, vs1 = 0, vs2 = 0, vs3 = 0, eew = 0, vm = 0\<rparr>"

end
