(* ===== verification/Insn.thy ===== *)
theory Insn imports Vunit begin

text \<open>
  The intermediate representation of \<open>src/src/decode.h\<close>: the opcode enumeration generated by
  \<open>RV_INSN_LIST\<close> and \<open>FUSE_INSN_LIST\<close>, split by the sections of that list (one datatype per
  extension, joined by \<open>rv_opcode\<close>), the static properties the list gives every instruction,
  and the records \<open>opcode_fuse_t\<close> and \<open>rv_insn_t\<close>. The vector section is absent, as in a
  build with \<open>EXT_V\<close> off.
\<close>

section \<open>Opcodes\<close>

datatype (plugins only: code size) rv32i_op =
    rv_insn_nop | rv_insn_lui | rv_insn_auipc | rv_insn_jal | rv_insn_jalr | rv_insn_beq
    | rv_insn_bne | rv_insn_blt | rv_insn_bge | rv_insn_bltu | rv_insn_bgeu | rv_insn_lb
    | rv_insn_lh | rv_insn_lw | rv_insn_lbu | rv_insn_lhu | rv_insn_sb | rv_insn_sh | rv_insn_sw
    | rv_insn_addi | rv_insn_slti | rv_insn_sltiu | rv_insn_xori | rv_insn_ori | rv_insn_andi
    | rv_insn_slli | rv_insn_srli | rv_insn_srai | rv_insn_add | rv_insn_sub | rv_insn_sll
    | rv_insn_slt | rv_insn_sltu | rv_insn_xor | rv_insn_srl | rv_insn_sra | rv_insn_or
    | rv_insn_and | rv_insn_fence | rv_insn_ecall | rv_insn_ebreak

datatype (plugins only: code size) priv_op =
    rv_insn_wfi | rv_insn_uret | rv_insn_sret | rv_insn_hret | rv_insn_mret | rv_insn_sfencevma

datatype (plugins only: code size) zifencei_op =
    rv_insn_fencei

datatype (plugins only: code size) zicsr_op =
    rv_insn_csrrw | rv_insn_csrrs | rv_insn_csrrc | rv_insn_csrrwi | rv_insn_csrrsi
    | rv_insn_csrrci

datatype (plugins only: code size) zba_op =
    rv_insn_sh1add | rv_insn_sh2add | rv_insn_sh3add

datatype (plugins only: code size) zbb_op =
    rv_insn_andn | rv_insn_orn | rv_insn_xnor | rv_insn_clz | rv_insn_ctz | rv_insn_cpop
    | rv_insn_max | rv_insn_maxu | rv_insn_min | rv_insn_minu | rv_insn_sextb | rv_insn_sexth
    | rv_insn_zexth | rv_insn_rol | rv_insn_ror | rv_insn_rori | rv_insn_orcb | rv_insn_rev8

datatype (plugins only: code size) zbc_op =
    rv_insn_clmul | rv_insn_clmulh | rv_insn_clmulr

datatype (plugins only: code size) zbs_op =
    rv_insn_bclr | rv_insn_bclri | rv_insn_bext | rv_insn_bexti | rv_insn_binv | rv_insn_binvi
    | rv_insn_bset | rv_insn_bseti

datatype (plugins only: code size) rv32m_op =
    rv_insn_mul | rv_insn_mulh | rv_insn_mulhsu | rv_insn_mulhu | rv_insn_div | rv_insn_divu
    | rv_insn_rem | rv_insn_remu

datatype (plugins only: code size) rv32a_op =
    rv_insn_lrw | rv_insn_scw | rv_insn_amoswapw | rv_insn_amoaddw | rv_insn_amoxorw
    | rv_insn_amoandw | rv_insn_amoorw | rv_insn_amominw | rv_insn_amomaxw | rv_insn_amominuw
    | rv_insn_amomaxuw

datatype (plugins only: code size) rv32f_op =
    rv_insn_flw | rv_insn_fsw | rv_insn_fmadds | rv_insn_fmsubs | rv_insn_fnmsubs
    | rv_insn_fnmadds | rv_insn_fadds | rv_insn_fsubs | rv_insn_fmuls | rv_insn_fdivs
    | rv_insn_fsqrts | rv_insn_fsgnjs | rv_insn_fsgnjns | rv_insn_fsgnjxs | rv_insn_fmins
    | rv_insn_fmaxs | rv_insn_fcvtws | rv_insn_fcvtwus | rv_insn_fmvxw | rv_insn_feqs
    | rv_insn_flts | rv_insn_fles | rv_insn_fclasss | rv_insn_fcvtsw | rv_insn_fcvtswu
    | rv_insn_fmvwx

datatype (plugins only: code size) rv32c_op =
    rv_insn_caddi4spn | rv_insn_clw | rv_insn_csw | rv_insn_cnop | rv_insn_caddi | rv_insn_cjal
    | rv_insn_cli | rv_insn_caddi16sp | rv_insn_clui | rv_insn_csrli | rv_insn_csrai
    | rv_insn_candi | rv_insn_csub | rv_insn_cxor | rv_insn_cor | rv_insn_cand | rv_insn_cj
    | rv_insn_cbeqz | rv_insn_cbnez | rv_insn_cslli | rv_insn_clwsp | rv_insn_cjr | rv_insn_cmv
    | rv_insn_cebreak | rv_insn_cjalr | rv_insn_cadd | rv_insn_cswsp

datatype (plugins only: code size) rv32fc_op =
    rv_insn_cflwsp | rv_insn_cfswsp | rv_insn_cflw | rv_insn_cfsw

datatype (plugins only: code size) fuse_op =
    rv_insn_fuse1 | rv_insn_fuse2 | rv_insn_fuse3 | rv_insn_fuse4 | rv_insn_fuse5 | rv_insn_fuse6
    | rv_insn_fuse7 | rv_insn_fuse8 | rv_insn_fuse9 | rv_insn_fuse10 | rv_insn_fuse11 | rv_insn_fuse12

datatype (plugins only: code size) rv_opcode =
    RV32I rv32i_op
  | PRIV priv_op
  | ZIFENCEI zifencei_op
  | ZICSR zicsr_op
  | ZBA zba_op
  | ZBB zbb_op
  | ZBC zbc_op
  | ZBS zbs_op
  | RV32M rv32m_op
  | RV32A rv32a_op
  | RV32F rv32f_op
  | RV32C rv32c_op
  | RV32FC rv32fc_op
  | FUSE fuse_op

section \<open>Static properties of the opcodes\<close>

text \<open>The third column of \<open>RV_INSN_LIST\<close>: the length \<open>nextop\<close> adds to the program counter.
  The fused opcodes are not in that list; their handlers advance the counter themselves.\<close>

fun insn_len :: "rv_opcode \<Rightarrow> u32" where
  "insn_len (RV32C _) = 2"
| "insn_len (RV32FC _) = 2"
| "insn_len (FUSE _) = 0"
| "insn_len _ = 4"

text \<open>The second column, which \<open>insn_is_branch\<close> turns into a predicate.\<close>

fun rv32i_can_branch :: "rv32i_op \<Rightarrow> bool" where
  "rv32i_can_branch rv_insn_jal = True"
| "rv32i_can_branch rv_insn_jalr = True"
| "rv32i_can_branch rv_insn_beq = True"
| "rv32i_can_branch rv_insn_bne = True"
| "rv32i_can_branch rv_insn_blt = True"
| "rv32i_can_branch rv_insn_bge = True"
| "rv32i_can_branch rv_insn_bltu = True"
| "rv32i_can_branch rv_insn_bgeu = True"
| "rv32i_can_branch rv_insn_fence = True"
| "rv32i_can_branch rv_insn_ecall = True"
| "rv32i_can_branch rv_insn_ebreak = True"
| "rv32i_can_branch _ = False"

fun rv32c_can_branch :: "rv32c_op \<Rightarrow> bool" where
  "rv32c_can_branch rv_insn_cjal = True"
| "rv32c_can_branch rv_insn_cj = True"
| "rv32c_can_branch rv_insn_cbeqz = True"
| "rv32c_can_branch rv_insn_cbnez = True"
| "rv32c_can_branch rv_insn_cjr = True"
| "rv32c_can_branch rv_insn_cebreak = True"
| "rv32c_can_branch rv_insn_cjalr = True"
| "rv32c_can_branch _ = False"

fun insn_is_branch :: "rv_opcode \<Rightarrow> bool" where
  "insn_is_branch (RV32I i) = rv32i_can_branch i"
| "insn_is_branch (PRIV rv_insn_sret) = True"
| "insn_is_branch (PRIV rv_insn_mret) = True"
| "insn_is_branch (PRIV rv_insn_sfencevma) = True"
| "insn_is_branch (ZIFENCEI rv_insn_fencei) = True"
| "insn_is_branch (ZICSR rv_insn_csrrw) = True"
| "insn_is_branch (RV32C c) = rv32c_can_branch c"
| "insn_is_branch _ = False"

text \<open>The fourth column: what the block translator may continue past.\<close>

fun insn_is_translatable :: "rv_opcode \<Rightarrow> bool" where
  "insn_is_translatable (RV32I i) = (i \<noteq> rv_insn_fence)"
| "insn_is_translatable (RV32M _) = True"
| "insn_is_translatable (RV32C _) = True"
| "insn_is_translatable (RV32FC _) = True"
| "insn_is_translatable _ = False"

section \<open>Instruction records\<close>

text \<open>
  \<open>opcode_fuse_t\<close>, one instruction of a fused sequence, and \<open>rv_insn_t\<close>. The union of \<open>imm\<close>
  and \<open>rs3\<close> is the field \<open>imm\<close>, its least significant byte being \<open>rs3\<close> (little endian); the
  dynamic array behind \<open>fuse\<close> is the list of its elements. The links between instructions
  (\<open>next\<close>, \<open>impl\<close>, \<open>branch_taken\<close>, \<open>branch_untaken\<close>) are the structure of a block: there an
  instruction sequence is a list.
\<close>

record opcode_fuse_t =
  fimm :: u32
  frd :: u8
  frs1 :: u8
  frs2 :: u8
  fopcode :: rv_opcode

record rv_insn_t =
  imm :: u32
  rd :: u8
  rs1 :: u8
  rs2 :: u8
  opcode :: rv_opcode
  shamt :: u8
  rm :: u8
  imm2 :: u32
  fuse :: "opcode_fuse_t list"
  pc :: u32
  vop :: v_operands_t

definition rs3 :: "rv_insn_t \<Rightarrow> u8" where
  "rs3 ir = ucast (imm ir)"

definition set_rs3 :: "u8 \<Rightarrow> rv_insn_t \<Rightarrow> rv_insn_t" where
  "set_rs3 b ir = ir\<lparr>imm := (imm ir AND 0xFFFFFF00) OR ucast b\<rparr>"

text \<open>The instruction the block translator takes from its pool: all bytes zero.\<close>

definition zero_insn :: rv_insn_t where
  "zero_insn = \<lparr>imm = 0, rd = 0, rs1 = 0, rs2 = 0, opcode = RV32I rv_insn_nop, shamt = 0, rm = 0,
     imm2 = 0, fuse = [], pc = 0, vop = no_operands\<rparr>"

lemma rs3_set_rs3 [simp]: "rs3 (set_rs3 b ir) = b"
  by (rule bit_word_eqI) (auto simp: rs3_def set_rs3_def word_bits nat_less_8_cases)

lemma set_rs3_fields [simp]:
  "rd (set_rs3 b ir) = rd ir" "rs1 (set_rs3 b ir) = rs1 ir" "rs2 (set_rs3 b ir) = rs2 ir"
  "opcode (set_rs3 b ir) = opcode ir" "shamt (set_rs3 b ir) = shamt ir" "rm (set_rs3 b ir) = rm ir"
  "pc (set_rs3 b ir) = pc ir" "imm2 (set_rs3 b ir) = imm2 ir" "fuse (set_rs3 b ir) = fuse ir"
  by (simp_all add: set_rs3_def)

text \<open>\<open>rv_reg_zero\<close>, \<open>rv_reg_ra\<close>, \<open>rv_reg_sp\<close>: the register numbers the sources name.\<close>

definition rv_reg_zero :: u8 where [simp]: "rv_reg_zero = 0"
definition rv_reg_ra :: u8 where [simp]: "rv_reg_ra = 1"
definition rv_reg_sp :: u8 where [simp]: "rv_reg_sp = 2"
definition rv_reg_a0 :: u8 where [simp]: "rv_reg_a0 = 10"
definition rv_reg_a1 :: u8 where [simp]: "rv_reg_a1 = 11"
definition rv_reg_a7 :: u8 where [simp]: "rv_reg_a7 = 17"

text \<open>Every register field of an instruction indexes a register file of 32 entries.\<close>

definition regs_in_range :: "rv_insn_t \<Rightarrow> bool" where
  "regs_in_range ir \<longleftrightarrow> rd ir < 32 \<and> rs1 ir < 32 \<and> rs2 ir < 32"

lemma zero_insn_in_range [simp]: "regs_in_range zero_insn"
  by (simp add: regs_in_range_def zero_insn_def)

end
