(* ===== verification/DecodeFields.thy ===== *)
theory DecodeFields imports Insn begin

text \<open>
  The field extractors of \<open>src/src/decode.c\<close> and the masks of \<open>src/src/decode.h\<close>: register
  numbers, function codes and the immediates of the base and the compressed formats, each written
  with the masks, shifts and sign extensions of the source. The lemmas give the bit of the result
  at every position, which is the field layout the comments of the source (and the ISA manual)
  show.
\<close>

section \<open>Masks\<close>

definition INSN_6_2 :: u32 where [simp]: "INSN_6_2 = 0b00000000000000000000000001111100"
definition FR_RD :: u32 where [simp]: "FR_RD = 0b00000000000000000000111110000000"
definition FR_FUNCT3 :: u32 where [simp]: "FR_FUNCT3 = 0b00000000000000000111000000000000"
definition FR_RS1 :: u32 where [simp]: "FR_RS1 = 0b00000000000011111000000000000000"
definition FR_RS2 :: u32 where [simp]: "FR_RS2 = 0b00000001111100000000000000000000"
definition FR_FUNCT7 :: u32 where [simp]: "FR_FUNCT7 = 0b11111110000000000000000000000000"
definition FI_IMM_11_0 :: u32 where [simp]: "FI_IMM_11_0 = 0b11111111111100000000000000000000"
definition FS_IMM_4_0 :: u32 where [simp]: "FS_IMM_4_0 = 0b00000000000000000000111110000000"
definition FS_IMM_11_5 :: u32 where [simp]: "FS_IMM_11_5 = 0b11111110000000000000000000000000"
definition FB_IMM_11 :: u32 where [simp]: "FB_IMM_11 = 0b00000000000000000000000010000000"
definition FB_IMM_4_1 :: u32 where [simp]: "FB_IMM_4_1 = 0b00000000000000000000111100000000"
definition FB_IMM_10_5 :: u32 where [simp]: "FB_IMM_10_5 = 0b01111110000000000000000000000000"
definition FB_IMM_12 :: u32 where [simp]: "FB_IMM_12 = 0b10000000000000000000000000000000"
definition FU_IMM_31_12 :: u32 where [simp]: "FU_IMM_31_12 = 0b11111111111111111111000000000000"
definition FJ_IMM_19_12 :: u32 where [simp]: "FJ_IMM_19_12 = 0b00000000000011111111000000000000"
definition FJ_IMM_11 :: u32 where [simp]: "FJ_IMM_11 = 0b00000000000100000000000000000000"
definition FJ_IMM_10_1 :: u32 where [simp]: "FJ_IMM_10_1 = 0b01111111111000000000000000000000"
definition FJ_IMM_20 :: u32 where [simp]: "FJ_IMM_20 = 0b10000000000000000000000000000000"
definition FR4_RS3 :: u32 where [simp]: "FR4_RS3 = 0b11111000000000000000000000000000"
definition FC_OPCODE :: u32 where [simp]: "FC_OPCODE = 0b00000000000000000000000000000011"
definition FC_FUNC3 :: u32 where [simp]: "FC_FUNC3 = 0b00000000000000001110000000000000"

text \<open>The masks of the compressed formats are applied to 16-bit instructions.\<close>

definition FC_RS1C :: u16 where [simp]: "FC_RS1C = 0b0000001110000000"
definition FC_RS2C :: u16 where [simp]: "FC_RS2C = 0b0000000000011100"
definition FC_RS1 :: u16 where [simp]: "FC_RS1 = 0b0000111110000000"
definition FC_RS2 :: u16 where [simp]: "FC_RS2 = 0b0000000001111100"
definition FC_RDC :: u16 where [simp]: "FC_RDC = 0b0000000000011100"
definition FC_RD :: u16 where [simp]: "FC_RD = 0b0000111110000000"
definition FC_IMM_12_10 :: u32 where [simp]: "FC_IMM_12_10 = 0b0001110000000000"
definition FCI_IMM_12 :: u16 where [simp]: "FCI_IMM_12 = 0b0001000000000000"
definition FCI_IMM_6_2 :: u16 where [simp]: "FCI_IMM_6_2 = 0b0000000001111100"
definition CJ_IMM_11 :: u16 where [simp]: "CJ_IMM_11 = 0b0001000000000000"
definition CJ_IMM_4 :: u16 where [simp]: "CJ_IMM_4 = 0b0000100000000000"
definition CJ_IMM_9_8 :: u16 where [simp]: "CJ_IMM_9_8 = 0b0000011000000000"
definition CJ_IMM_10 :: u16 where [simp]: "CJ_IMM_10 = 0b0000000100000000"
definition CJ_IMM_6 :: u16 where [simp]: "CJ_IMM_6 = 0b0000000010000000"
definition CJ_IMM_7 :: u16 where [simp]: "CJ_IMM_7 = 0b0000000001000000"
definition CJ_IMM_3_1 :: u16 where [simp]: "CJ_IMM_3_1 = 0b0000000000111000"
definition CJ_IMM_5 :: u16 where [simp]: "CJ_IMM_5 = 0b0000000000000100"
definition CB_SHAMT_5 :: u16 where [simp]: "CB_SHAMT_5 = 0b0001000000000000"
definition CB_SHAMT_4_0 :: u16 where [simp]: "CB_SHAMT_4_0 = 0b0000000001111100"

section \<open>Fields of 32-bit instructions\<close>

definition decode_rd :: "u32 \<Rightarrow> u32" where
  "decode_rd insn = drop_bit 7 (insn AND FR_RD)"

definition decode_rs1 :: "u32 \<Rightarrow> u32" where
  "decode_rs1 insn = drop_bit 15 (insn AND FR_RS1)"

definition decode_rs2 :: "u32 \<Rightarrow> u32" where
  "decode_rs2 insn = drop_bit 20 (insn AND FR_RS2)"

definition decode_funct3 :: "u32 \<Rightarrow> u32" where
  "decode_funct3 insn = drop_bit 12 (insn AND FR_FUNCT3)"

definition decode_funct7 :: "u32 \<Rightarrow> u32" where
  "decode_funct7 insn = drop_bit 25 (insn AND FR_FUNCT7)"

definition decode_utype_imm :: "u32 \<Rightarrow> u32" where
  "decode_utype_imm insn = insn AND FU_IMM_31_12"

definition decode_jtype_imm :: "u32 \<Rightarrow> u32" where
  "decode_jtype_imm insn =
    (let dst = insn AND FJ_IMM_20;
         dst = dst OR push_bit 11 (insn AND FJ_IMM_19_12);
         dst = dst OR push_bit 2 (insn AND FJ_IMM_11);
         dst = dst OR drop_bit 9 (insn AND FJ_IMM_10_1)
     in signed_drop_bit 11 dst)"

definition decode_itype_imm :: "u32 \<Rightarrow> u32" where
  "decode_itype_imm insn = signed_drop_bit 20 (insn AND FI_IMM_11_0)"

definition decode_btype_imm :: "u32 \<Rightarrow> u32" where
  "decode_btype_imm insn =
    (let dst = insn AND FB_IMM_12;
         dst = dst OR push_bit 23 (insn AND FB_IMM_11);
         dst = dst OR drop_bit 1 (insn AND FB_IMM_10_5);
         dst = dst OR push_bit 12 (insn AND FB_IMM_4_1)
     in signed_drop_bit 19 dst)"

definition decode_stype_imm :: "u32 \<Rightarrow> u32" where
  "decode_stype_imm insn =
    (let dst = insn AND FS_IMM_11_5;
         dst = dst OR push_bit 13 (insn AND FS_IMM_4_0)
     in signed_drop_bit 20 dst)"

definition decode_r4type_rs3 :: "u32 \<Rightarrow> u32" where
  "decode_r4type_rs3 insn = drop_bit 27 (insn AND FR4_RS3)"

section \<open>Fields of compressed instructions\<close>

definition c_decode_rs1 :: "u16 \<Rightarrow> u16" where
  "c_decode_rs1 insn = drop_bit 7 (insn AND FC_RS1)"

definition c_decode_rs2 :: "u16 \<Rightarrow> u16" where
  "c_decode_rs2 insn = drop_bit 2 (insn AND FC_RS2)"

definition c_decode_rd :: "u16 \<Rightarrow> u16" where
  "c_decode_rd insn = drop_bit 7 (insn AND FC_RD)"

definition c_decode_rs1c :: "u16 \<Rightarrow> u16" where
  "c_decode_rs1c insn = drop_bit 7 (insn AND FC_RS1C)"

definition c_decode_rs2c :: "u16 \<Rightarrow> u16" where
  "c_decode_rs2c insn = drop_bit 2 (insn AND FC_RS2C)"

definition c_decode_rdc :: "u16 \<Rightarrow> u16" where
  "c_decode_rdc insn = drop_bit 2 (insn AND FC_RDC)"

definition c_decode_caddi4spn_nzuimm :: "u16 \<Rightarrow> u16" where
  "c_decode_caddi4spn_nzuimm insn =
    (let tmp = drop_bit 7 (insn AND 0x1800);
         tmp = tmp OR drop_bit 1 (insn AND 0x780);
         tmp = tmp OR drop_bit 4 (insn AND 0x40);
         tmp = tmp OR drop_bit 2 (insn AND 0x20)
     in tmp)"

text \<open>C promotes the 16-bit operand to \<open>int\<close> before it shifts, so the shifts that can leave 16
  bits are taken at 32 bits.\<close>

definition c_decode_caddi16sp_nzimm :: "u16 \<Rightarrow> u32" where
  "c_decode_caddi16sp_nzimm insn =
    (let w = (ucast insn :: u32);
         tmp = drop_bit 3 (w AND 0x1000);
         tmp = tmp OR drop_bit 2 (w AND 0x40);
         tmp = tmp OR push_bit 1 (w AND 0x20);
         tmp = tmp OR push_bit 4 (w AND 0x18);
         tmp = tmp OR push_bit 3 (w AND 0x4)
     in if tmp AND 0x200 \<noteq> 0 then 0xfffffc00 OR tmp else tmp)"

definition c_decode_clui_nzimm :: "u16 \<Rightarrow> u32" where
  "c_decode_clui_nzimm insn =
    (let w = (ucast insn :: u32);
         tmp = push_bit 5 (w AND 0x1000) OR push_bit 10 (w AND 0x7c)
     in if tmp AND 0x20000 \<noteq> 0 then 0xfffc0000 OR tmp else tmp)"

text \<open>The loop over \<open>i = 0 .. 10\<close> that smears the sign bit is the fold over the list of its
  index values.\<close>

definition c_decode_caddi_imm :: "u16 \<Rightarrow> u32" where
  "c_decode_caddi_imm insn =
    (let mask = (push_bit 3 (0x1000 AND insn) :: u16);
         tmp = fold (\<lambda>i t. t OR ucast (drop_bit i mask)) [0..<11] (0 :: u32);
         tmp = tmp OR ucast (drop_bit 2 (insn AND 0x007C))
     in sign_extend_h tmp)"

definition c_decode_citype_imm :: "u16 \<Rightarrow> u32" where
  "c_decode_citype_imm insn =
    (let tmp = (ucast (drop_bit 7 (insn AND FCI_IMM_12)
                       OR drop_bit 2 (insn AND FCI_IMM_6_2)) :: u32)
     in if tmp AND 0x20 \<noteq> 0 then 0xffffffc0 OR tmp else tmp)"

definition c_decode_cjtype_imm :: "u16 \<Rightarrow> u32" where
  "c_decode_cjtype_imm insn =
    (let tmp = drop_bit 2 (insn AND CJ_IMM_3_1);
         tmp = tmp OR drop_bit 7 (insn AND CJ_IMM_4);
         tmp = tmp OR push_bit 3 (insn AND CJ_IMM_5);
         tmp = tmp OR drop_bit 1 (insn AND CJ_IMM_6);
         tmp = tmp OR push_bit 1 (insn AND CJ_IMM_7);
         tmp = tmp OR drop_bit 1 (insn AND CJ_IMM_9_8);
         tmp = tmp OR push_bit 2 (insn AND CJ_IMM_10);
         tmp = tmp OR drop_bit 1 (insn AND CJ_IMM_11);
         tmp = fold (\<lambda>i t. t OR push_bit i (0x0800 AND t)) [1..<5] tmp
     in scast tmp)"

definition c_decode_cbtype_shamt :: "u16 \<Rightarrow> u8" where
  "c_decode_cbtype_shamt insn =
    (let tmp = (ucast (drop_bit 7 (insn AND CB_SHAMT_5)) :: u8);
         tmp = tmp OR ucast (drop_bit 2 (insn AND CB_SHAMT_4_0))
     in tmp)"

definition c_decode_cbtype_imm :: "u16 \<Rightarrow> u16" where
  "c_decode_cbtype_imm insn =
    (let tmp = drop_bit 2 (insn AND 0b0000000000011000);
         tmp = tmp OR drop_bit 7 (insn AND 0b0000110000000000);
         tmp = tmp OR push_bit 3 (insn AND 0b0000000000000100);
         tmp = tmp OR push_bit 1 (insn AND 0b0000000001100000);
         tmp = tmp OR drop_bit 4 (insn AND 0b0001000000000000)
     in fold (\<lambda>i t. t OR push_bit i (0x0100 AND t)) [1..<9] tmp)"

section \<open>The field layouts of the ISA manual\<close>

text \<open>
  \<open>isa_bits w ps\<close> assembles a value from the bits of \<open>w\<close> the list \<open>ps\<close> names, least
  significant first; \<open>rng hi lo\<close> is the field \<open>w[hi:lo]\<close>, \<open>zeros n\<close> a run of \<open>n\<close> zero bits and
  \<open>ext n k\<close> the bit \<open>w[k]\<close> repeated \<open>n\<close> times (sign extension).
\<close>

definition isa_bits :: "'a::len word \<Rightarrow> nat option list \<Rightarrow> u32" where
  "isa_bits w ps =
    horner_sum of_bool 2 (map (\<lambda>p. case p of None \<Rightarrow> False | Some k \<Rightarrow> bit w k) ps)"

definition rng :: "nat \<Rightarrow> nat \<Rightarrow> nat option list" where
  "rng hi lo = map (\<lambda>i. Some (lo + i)) [0..<Suc hi - lo]"

definition zeros :: "nat \<Rightarrow> nat option list" where
  "zeros n = replicate n None"

definition ext :: "nat \<Rightarrow> nat \<Rightarrow> nat option list" where
  "ext n k = replicate n (Some k)"

lemma bit_isa_bits:
  "bit (isa_bits w ps) n \<longleftrightarrow>
    n < 32 \<and> n < length ps \<and> (case ps ! n of None \<Rightarrow> False | Some k \<Rightarrow> bit w k)"
  by (auto simp: isa_bits_def bit_horner_sum_bit_word_iff)

lemma nth_rng: "n < Suc hi - lo \<Longrightarrow> rng hi lo ! n = Some (lo + n)"
  by (simp add: rng_def del: upt_Suc)

lemma nth_zeros: "n < k \<Longrightarrow> zeros k ! n = None"
  by (simp add: zeros_def)

lemma nth_ext: "n < m \<Longrightarrow> ext m k ! n = Some k"
  by (simp add: ext_def)

lemma length_layout [simp]:
  "length (rng hi lo) = Suc hi - lo" "length (zeros k) = k" "length (ext m k) = m"
  by (simp_all add: rng_def zeros_def ext_def del: upt_Suc)

lemmas layout_bits =
  bit_isa_bits nth_append nth_rng nth_zeros nth_ext less_32_all word_bits field_bits

lemma decode_itype_layout: "decode_itype_imm w = isa_bits w (rng 30 20 @ ext 21 31)"
  by (rule word32_eq_bitsI) (simp add: layout_bits decode_itype_imm_def)

lemma decode_stype_layout:
  "decode_stype_imm w = isa_bits w (rng 11 7 @ rng 30 25 @ ext 21 31)"
  by (rule word32_eq_bitsI) (simp add: layout_bits decode_stype_imm_def Let_def)

lemma decode_btype_layout:
  "decode_btype_imm w = isa_bits w (zeros 1 @ rng 11 8 @ rng 30 25 @ rng 7 7 @ ext 20 31)"
  by (rule word32_eq_bitsI) (simp add: layout_bits decode_btype_imm_def Let_def)

lemma decode_utype_layout: "decode_utype_imm w = isa_bits w (zeros 12 @ rng 31 12)"
  by (rule word32_eq_bitsI) (simp add: layout_bits decode_utype_imm_def)

lemma decode_jtype_layout:
  "decode_jtype_imm w =
    isa_bits w (zeros 1 @ rng 30 21 @ rng 20 20 @ rng 19 12 @ ext 12 31)"
  by (rule word32_eq_bitsI) (simp add: layout_bits decode_jtype_imm_def Let_def)

lemma bit_if: "bit (if c then a else b) n = (if c then bit a n else bit b n)"
  by simp

lemma and_single_ne_0: "w AND push_bit k 1 \<noteq> 0 \<longleftrightarrow> bit w k" for w :: "'a::len word"
  by (auto simp: bit_eq_iff [where ?'a = "'a word"] word_bits bit_exp_iff dest: bit_imp_le_length)

lemma test_bit_0x200: "w AND 0x200 \<noteq> 0 \<longleftrightarrow> bit w 9" for w :: u32
  using and_single_ne_0 [of w 9] by simp

lemma test_bit_0x20000: "w AND 0x20000 \<noteq> 0 \<longleftrightarrow> bit w 17" for w :: u32
  using and_single_ne_0 [of w 17] by simp

lemma test_bit_0x20: "w AND 0x20 \<noteq> 0 \<longleftrightarrow> bit w 5" for w :: u32
  using and_single_ne_0 [of w 5] by simp

lemma upt_0_11: "[0..<11] = [0, 1, 2, 3, 4, 5, 6, 7, 8, 9, 10]"
  by (simp add: upt_rec)

lemma bit_times_2: "bit (w * 2) n \<longleftrightarrow> 0 < n \<and> n < LENGTH('a) \<and> bit w (n - 1)"
  for w :: "'a::len word"
  using bit_double_iff [of w n] by (auto simp: mult.commute)

lemmas compressed_layout_defs =
  c_decode_caddi4spn_nzuimm_def c_decode_caddi16sp_nzimm_def c_decode_clui_nzimm_def
  c_decode_caddi_imm_def c_decode_citype_imm_def c_decode_cjtype_imm_def
  c_decode_cbtype_imm_def Let_def bit_if test_bit_0x200 test_bit_0x20000 test_bit_0x20
  upt_0_11 bit_times_2
  numeral_2_eq_2 [symmetric] numeral_3_eq_3 [symmetric]

lemma caddi4spn_layout:
  "ucast (c_decode_caddi4spn_nzuimm w) =
    isa_bits w (zeros 2 @ rng 6 6 @ rng 5 5 @ rng 12 11 @ rng 10 7 @ zeros 22)"
  by (rule word32_eq_bitsI) (simp add: layout_bits compressed_layout_defs)

lemma caddi16sp_layout:
  "c_decode_caddi16sp_nzimm w =
    isa_bits w (zeros 4 @ rng 6 6 @ rng 2 2 @ rng 5 5 @ rng 4 3 @ ext 23 12)"
  by (rule word32_eq_bitsI) (simp add: layout_bits compressed_layout_defs)

lemma clui_layout:
  "c_decode_clui_nzimm w = isa_bits w (zeros 12 @ rng 6 2 @ ext 15 12)"
  by (rule word32_eq_bitsI) (simp add: layout_bits compressed_layout_defs)

lemma caddi_layout: "c_decode_caddi_imm w = isa_bits w (rng 6 2 @ ext 27 12)"
  by (rule word32_eq_bitsI) (simp add: layout_bits compressed_layout_defs)

lemma citype_layout: "c_decode_citype_imm w = isa_bits w (rng 6 2 @ ext 27 12)"
  by (rule word32_eq_bitsI) (simp add: layout_bits compressed_layout_defs)

lemma bit_smear:
  fixes x :: "'a::len word"
  assumes "0 \<notin> set js" and "k < LENGTH('a)"
  shows "bit (fold (\<lambda>i t. t OR push_bit i (2 ^ k AND t)) js x) n \<longleftrightarrow>
    bit x n \<or> (n < LENGTH('a) \<and> (\<exists>i\<in>set js. n = k + i) \<and> bit x k)"
  using assms
proof (induction js arbitrary: x)
  case (Cons j js)
  have keep: "bit (x OR push_bit j (2 ^ k AND x)) k = bit x k"
    using Cons.prems by (auto simp: word_bits bit_exp_iff)
  have new: "bit (x OR push_bit j (2 ^ k AND x)) n \<longleftrightarrow>
      bit x n \<or> (n < LENGTH('a) \<and> n = k + j \<and> bit x k)"
    using Cons.prems by (auto simp: word_bits bit_exp_iff)
  show ?case
    using Cons.IH [of "x OR push_bit j (2 ^ k AND x)"] Cons.prems
    by (simp add: keep new del: push_bit_and) blast
qed simp

lemmas smear_bits =
  bit_smear [where ?'a = 16 and k = 8, simplified] bit_smear [where ?'a = 16 and k = 11, simplified]

lemma cjtype_layout:
  "c_decode_cjtype_imm w =
    isa_bits w (zeros 1 @ rng 5 3 @ rng 11 11 @ rng 2 2 @ rng 7 7 @ rng 6 6 @ rng 10 9
      @ rng 8 8 @ ext 21 12)"
  by (rule word32_eq_bitsI) (simp add: layout_bits smear_bits compressed_layout_defs)

lemma cbtype_layout:
  "sign_extend_h (ucast (c_decode_cbtype_imm w)) =
    isa_bits w (zeros 1 @ rng 4 3 @ rng 11 10 @ rng 2 2 @ rng 6 5 @ ext 24 12)"
  by (rule word32_eq_bitsI) (simp add: layout_bits smear_bits compressed_layout_defs)

section \<open>Register fields\<close>

lemma mask_field: "drop_bit k (w AND push_bit k (mask n)) = take_bit n (drop_bit k w)"
  for w :: "'a::len word"
  by (rule bit_word_eqI) (auto simp: word_bits bit_mask_iff dest: bit_imp_le_length)

lemma decode_reg_fields:
  "decode_rd w = take_bit 5 (drop_bit 7 w)"
  "decode_rs1 w = take_bit 5 (drop_bit 15 w)"
  "decode_rs2 w = take_bit 5 (drop_bit 20 w)"
  "decode_funct3 w = take_bit 3 (drop_bit 12 w)"
  "decode_funct7 w = take_bit 7 (drop_bit 25 w)"
  using mask_field [of 7 w 5] mask_field [of 15 w 5] mask_field [of 20 w 5]
    mask_field [of 12 w 3] mask_field [of 25 w 7]
  by (simp_all add: decode_rd_def decode_rs1_def decode_rs2_def decode_funct3_def
      decode_funct7_def mask_eq_exp_minus_1)

lemma c_decode_reg_fields:
  "c_decode_rd c = take_bit 5 (drop_bit 7 c)"
  "c_decode_rs1 c = take_bit 5 (drop_bit 7 c)"
  "c_decode_rs2 c = take_bit 5 (drop_bit 2 c)"
  "c_decode_rs1c c = take_bit 3 (drop_bit 7 c)"
  "c_decode_rs2c c = take_bit 3 (drop_bit 2 c)"
  "c_decode_rdc c = take_bit 3 (drop_bit 2 c)"
  using mask_field [of 7 c 5] mask_field [of 2 c 5] mask_field [of 7 c 3] mask_field [of 2 c 3]
  by (simp_all add: c_decode_rd_def c_decode_rs1_def c_decode_rs2_def c_decode_rs1c_def
      c_decode_rs2c_def c_decode_rdc_def mask_eq_exp_minus_1)

lemma take_bit_5_reg: "(ucast (take_bit 5 w) :: u8) < 32" for w :: "'a::len word"
proof -
  have "(ucast (take_bit 5 w) :: u8) = take_bit 5 (ucast w)"
    by (rule bit_word_eqI) (auto simp: word_bits)
  also have "\<dots> < 32"
    by (simp add: take_bit_eq_mod word_mod_less_divisor)
  finally show ?thesis .
qed

section \<open>Properties\<close>

text \<open>C4: The immediate of each of the five base formats is, for every instruction word, the value the
  field layout of the ISA manual assembles: which bit of the word lands at which position, the sign
  bit in all higher ones.\<close>

theorem base_immediates:
  "decode_itype_imm w = isa_bits w (rng 30 20 @ ext 21 31)
   \<and> decode_stype_imm w = isa_bits w (rng 11 7 @ rng 30 25 @ ext 21 31)
   \<and> decode_btype_imm w = isa_bits w (zeros 1 @ rng 11 8 @ rng 30 25 @ rng 7 7 @ ext 20 31)
   \<and> decode_utype_imm w = isa_bits w (zeros 12 @ rng 31 12)
   \<and> decode_jtype_imm w = isa_bits w (zeros 1 @ rng 30 21 @ rng 20 20 @ rng 19 12 @ ext 12 31)"
  by (simp only: decode_itype_layout decode_stype_layout decode_btype_layout decode_utype_layout
      decode_jtype_layout)

text \<open>C5: The immediates of the compressed formats are the ones the layout of the C extension assembles,
  for every half word.\<close>

theorem compressed_immediates:
  "ucast (c_decode_caddi4spn_nzuimm w) =
     isa_bits w (zeros 2 @ rng 6 6 @ rng 5 5 @ rng 12 11 @ rng 10 7 @ zeros 22)
   \<and> c_decode_caddi16sp_nzimm w =
     isa_bits w (zeros 4 @ rng 6 6 @ rng 2 2 @ rng 5 5 @ rng 4 3 @ ext 23 12)
   \<and> c_decode_clui_nzimm w = isa_bits w (zeros 12 @ rng 6 2 @ ext 15 12)
   \<and> c_decode_caddi_imm w = isa_bits w (rng 6 2 @ ext 27 12)
   \<and> c_decode_citype_imm w = isa_bits w (rng 6 2 @ ext 27 12)
   \<and> c_decode_cjtype_imm w = isa_bits w (zeros 1 @ rng 5 3 @ rng 11 11 @ rng 2 2 @ rng 7 7 @ rng 6 6
       @ rng 10 9 @ rng 8 8 @ ext 21 12)
   \<and> sign_extend_h (ucast (c_decode_cbtype_imm w)) =
     isa_bits w (zeros 1 @ rng 4 3 @ rng 11 10 @ rng 2 2 @ rng 6 5 @ ext 24 12)"
  by (simp only: caddi4spn_layout caddi16sp_layout clui_layout caddi_layout citype_layout
      cjtype_layout cbtype_layout)

end
