(* ===== verification/DecodeProps.thy ===== *)
theory DecodeProps imports Decode begin

text \<open>
  What the decoder guarantees: the register fields of every decoded instruction lie below 32, the
  jump tables are never indexed out of range, the decoder stops the emulator on exactly one
  group of reserved encodings, and assembling an instruction by the ISA's format tables and
  decoding it gives the instruction back.
\<close>

section \<open>Register ranges\<close>

lemma reg_or_8: "(ucast (take_bit 3 w OR 8) :: u8) < 32" for w :: u16
proof -
  have "(ucast (take_bit 3 w OR 8) :: u8) = take_bit 5 (ucast (take_bit 3 w OR 8))"
    by (rule bit_word_eqI) (auto simp: word_bits nat_less_8_cases)
  then show ?thesis
    by (metis take_bit_5_reg ucast_id)
qed

lemmas reg_field_bounds =
  decode_reg_fields c_decode_reg_fields take_bit_5_reg reg_or_8

lemma reg_32_ranges [simp]:
  "(ucast (decode_rd w) :: u8) < 32" "(ucast (decode_rs1 w) :: u8) < 32"
  "(ucast (decode_rs2 w) :: u8) < 32"
  by (simp_all only: reg_field_bounds)

lemma reg_16_ranges [simp]:
  "(ucast (c_decode_rd c) :: u8) < 32" "(ucast (c_decode_rs1 c) :: u8) < 32"
  "(ucast (c_decode_rs2 c) :: u8) < 32" "(ucast (c_decode_rs1c c OR 8) :: u8) < 32"
  "(ucast (c_decode_rs2c c OR 8) :: u8) < 32" "(ucast (c_decode_rdc c OR 8) :: u8) < 32"
  by (simp_all only: reg_field_bounds)

text \<open>What a table entry must keep.\<close>

definition keeps_regs :: "decode_t \<Rightarrow> bool" where
  "keeps_regs h \<longleftrightarrow>
    (\<forall>ir insn ok ir'. regs_in_range ir \<longrightarrow> h ir insn = Inr (ok, ir') \<longrightarrow> regs_in_range ir')"

lemma keeps_regs_OP:
  assumes "\<And>ir insn. regs_in_range ir \<Longrightarrow> regs_in_range (snd (h ir insn))"
  shows "keeps_regs (OP h)"
  unfolding keeps_regs_def OP_def by (metis assms sum.inject(2) snd_conv)

lemma regs_opcode [simp]:
  "regs_in_range (ir\<lparr>opcode := op\<rparr>) = regs_in_range ir"
  "regs_in_range (ir\<lparr>rm := r\<rparr>) = regs_in_range ir"
  by (simp_all add: regs_in_range_def)

lemma regs_dispatch [simp]: "regs_in_range (snd (dispatch ir c)) = regs_in_range ir"
  by (simp add: dispatch_def split: option.split)

lemma regs_accept [simp]: "regs_in_range (snd (accept ir op)) = regs_in_range ir"
  by (simp add: accept_def)

lemma regs_formats [simp]:
  "regs_in_range ir \<Longrightarrow> regs_in_range (decode_itype ir w)"
  "regs_in_range ir \<Longrightarrow> regs_in_range (decode_utype ir w)"
  "regs_in_range ir \<Longrightarrow> regs_in_range (decode_stype ir w)"
  "regs_in_range ir \<Longrightarrow> regs_in_range (decode_rtype ir w)"
  "regs_in_range ir \<Longrightarrow> regs_in_range (decode_btype ir w)"
  "regs_in_range ir \<Longrightarrow> regs_in_range (decode_jtype ir w)"
  "regs_in_range ir \<Longrightarrow> regs_in_range (decode_r4type ir w)"
  by (simp_all add: regs_in_range_def decode_itype_def decode_utype_def decode_stype_def
      decode_rtype_def decode_btype_def decode_jtype_def decode_r4type_def)

lemmas rv_handler_defs =
  op_load_def op_load_fp_def op_unimp_def op_misc_mem_def op_op_imm_def op_op_imm_slli_def
  op_op_imm_srxi_def op_auipc_def op_store_def op_store_fp_def op_amo_def op_op_def op_lui_def
  op_madd_def op_msub_def op_nmsub_def op_nmadd_def op_op_fp_def op_branch_def op_jalr_def
  op_jal_def op_system_def

lemmas rvc_handler_defs =
  op_caddi4spn_def op_caddi_def op_cslli_def op_cjal_def op_clw_def op_cli_def op_clwsp_def
  op_cflw_def op_clui_def op_cflwsp_def op_ccr_def op_cj_def op_csw_def op_cbeqz_def op_cswsp_def
  op_cfsw_def op_cbnez_def op_cfswsp_def

lemma rv_handlers_keep_regs: "h \<in> set rv_jump_table \<Longrightarrow> keeps_regs h"
  by (simp add: rv_jump_table_def, elim disjE;
      clarsimp intro!: keeps_regs_OP simp: rv_handler_defs Let_def split: option.split)

lemma rvc_total_handlers_keep_regs:
  "regs_in_range ir \<Longrightarrow> regs_in_range (snd (h ir insn))"
  if "h \<in> {op_caddi4spn, op_caddi, op_cslli, op_cjal, op_clw, op_cli, op_clwsp, op_cflw, op_clui,
           op_cflwsp, op_ccr, op_cj, op_csw, op_cbeqz, op_cswsp, op_cfsw, op_cbnez, op_cfswsp,
           op_unimp}"
  using that
  by (auto simp: rvc_handler_defs op_unimp_def Let_def regs_in_range_def accept_def)

lemma op_cmisc_alu_keeps_regs: "keeps_regs op_cmisc_alu"
  by (auto simp: keeps_regs_def op_cmisc_alu_def Let_def accept_def regs_in_range_def
      split: if_splits option.splits)

lemma rvc_handlers_keep_regs: "h \<in> set rvc_jump_table \<Longrightarrow> keeps_regs h"
  by (auto simp: rvc_jump_table_def op_cmisc_alu_keeps_regs
      intro!: keeps_regs_OP rvc_total_handlers_keep_regs)

section \<open>Table indices\<close>

lemma c_index_bound: "unat (c_index insn) < length rvc_jump_table"
proof -
  have "c_index insn = take_bit 5 (c_index insn)"
    by (rule word16_eq_bitsI) (simp add: c_index_def less_16_all word_bits)
  then have "unat (c_index insn) = take_bit 5 (unat (c_index insn))"
    by (metis unsigned_take_bit_eq)
  then show ?thesis
    using take_bit_nat_less_exp [of 5 "unat (c_index insn)"] by (simp add: rvc_jump_table_def)
qed

lemma rv_index_bound: "unat (rv_index insn) < length rv_jump_table"
proof -
  have "rv_index insn = take_bit 5 (rv_index insn)"
    by (rule word32_eq_bitsI) (simp add: rv_index_def less_32_all word_bits)
  then have "unat (rv_index insn) = take_bit 5 (unat (rv_index insn))"
    by (metis unsigned_take_bit_eq)
  then show ?thesis
    using take_bit_nat_less_exp [of 5 "unat (rv_index insn)"] by (simp add: rv_jump_table_def)
qed

lemma rv_decode_keeps_regs: "keeps_regs rv_decode"
proof -
  have c: "keeps_regs (rvc_jump_table ! unat (c_index w))" for w
    using c_index_bound by (intro rvc_handlers_keep_regs nth_mem)
  have r: "keeps_regs (rv_jump_table ! unat (rv_index w))" for w
    using rv_index_bound by (intro rv_handlers_keep_regs nth_mem)
  show ?thesis
    using c r unfolding keeps_regs_def rv_decode_def Let_def by metis
qed

section \<open>The third source register\<close>

text \<open>\<open>gives P\<close>: an accepted instruction satisfies \<open>P\<close>.\<close>

definition gives :: "(rv_insn_t \<Rightarrow> bool) \<Rightarrow> bool \<times> rv_insn_t \<Rightarrow> bool" where
  "gives P r \<longleftrightarrow> (fst r \<longrightarrow> P (snd r))"

lemma gives_simps [simp]:
  "gives P (False, ir)" "gives P (b, ir\<lparr>opcode := op\<rparr>) \<longleftrightarrow> (b \<longrightarrow> P (ir\<lparr>opcode := op\<rparr>))"
  "gives P (accept ir op) \<longleftrightarrow> P (ir\<lparr>opcode := op\<rparr>)" "gives P (dispatch ir None)"
  "gives P (dispatch ir (Some op)) \<longleftrightarrow> P (ir\<lparr>opcode := op\<rparr>)"
  by (simp_all add: gives_def accept_def dispatch_def)

lemma gives_dispatch [simp]: "(\<forall>op\<in>snd ` set t. P (ir\<lparr>opcode := op\<rparr>)) \<Longrightarrow> gives P (dispatch ir (switch x t))"
  using switch_SomeD [of x t] by (cases "switch x t") auto

text \<open>\<open>rs3\<close> shares its byte with the immediate; only the fused multiply-adds read it.\<close>

definition fused_multiply_adds :: "rv_opcode set" where
  "fused_multiply_adds = RV32F ` {rv_insn_fmadds, rv_insn_fmsubs, rv_insn_fnmsubs, rv_insn_fnmadds}"

definition rs3_ok :: "rv_insn_t \<Rightarrow> bool" where
  "rs3_ok ir \<longleftrightarrow> (opcode ir \<in> fused_multiply_adds \<longrightarrow> rs3 ir < 32)"

lemma rs3_ok_opcode [simp]: "rs3_ok (ir\<lparr>opcode := op\<rparr>) \<longleftrightarrow> (op \<in> fused_multiply_adds \<longrightarrow> rs3 ir < 32)"
  by (simp add: rs3_ok_def rs3_def)

lemma r4type_rs3_range: "rs3 (decode_r4type ir w) < 32"
proof -
  have "decode_r4type_rs3 w = take_bit 5 (drop_bit 27 w)"
    by (simp add: decode_r4type_rs3_def word32_eq_iff less_32_all word_bits)
  moreover have "rs3 (decode_r4type ir w) = ucast (decode_r4type_rs3 w)"
    using rs3_set_rs3 by (simp add: decode_r4type_def rs3_def)
  ultimately show ?thesis
    by (simp add: take_bit_5_reg)
qed

lemma op_system_rs3: "gives rs3_ok (op_system ir w)"
  by (auto simp: op_system_def Let_def fused_multiply_adds_def split: option.splits if_splits)

lemma op_cmisc_alu_rs3: "op_cmisc_alu ir w = Inr r \<Longrightarrow> gives rs3_ok r"
  by (auto simp: op_cmisc_alu_def Let_def fused_multiply_adds_def split: option.splits if_splits)

lemma rv_table_rs3: "h \<in> set rv_jump_table \<Longrightarrow> h ir w = Inr r \<Longrightarrow> gives rs3_ok r"
  by (simp add: rv_jump_table_def, elim disjE;
      (clarsimp simp: OP_def op_system_rs3; fail |
       clarsimp simp: OP_def rv_handler_defs Let_def r4type_rs3_range fused_multiply_adds_def
         simp del: switch_Cons switch_Nil split: option.splits; fail))

lemma rvc_table_rs3: "h \<in> set rvc_jump_table \<Longrightarrow> h ir w = Inr r \<Longrightarrow> gives rs3_ok r"
  by (simp add: rvc_jump_table_def, elim disjE;
      (clarsimp simp: op_cmisc_alu_rs3; fail |
       clarsimp simp: OP_def rvc_handler_defs op_unimp_def Let_def fused_multiply_adds_def
         split: option.splits if_splits; fail))

lemma rv_decode_rs3:
  assumes "rv_decode ir w = Inr (True, ir')"
  shows "rs3_ok ir'"
proof -
  have "gives rs3_ok (True, ir')"
    using assms rv_table_rs3 [OF nth_mem [OF rv_index_bound]] rvc_table_rs3 [OF nth_mem [OF c_index_bound]]
    by (auto simp: rv_decode_def Let_def split: if_splits)
  then show ?thesis
    by (simp add: gives_def)
qed

section \<open>The encodings that stop the emulator\<close>

lemma take_bit_2_less: "take_bit 2 w < 4" for w :: u32
  by (simp add: take_bit_eq_mod word_mod_less_divisor)

lemma word_less_4:
  fixes w :: u32
  assumes "w < 4"
  shows "w \<in> {0, 1, 2, 3}"
proof -
  have "unat w < 4"
    using assms by (simp add: word_less_nat_alt)
  then have "unat w = 0 \<or> unat w = 1 \<or> unat w = 2 \<or> unat w = 3"
    by auto
  then have "unat w = unat (0 :: u32) \<or> unat w = unat (1 :: u32) \<or> unat w = unat (2 :: u32)
      \<or> unat w = unat (3 :: u32)"
    by simp
  then show ?thesis
    by (blast dest: unsigned_word_eqI)
qed

lemma funct6_select:
  "cmisc_select w \<in> {0, 1, 2, 3} \<longleftrightarrow> \<not> bit w 12" (is "?sel \<in> _ \<longleftrightarrow> _")
proof
  assume "?sel \<in> {0, 1, 2, 3}"
  then have "\<not> bit ?sel 2" by auto
  then show "\<not> bit w 12" by (simp add: cmisc_select_def word_bits)
next
  assume "\<not> bit w 12"
  then have "?sel = take_bit 2 ?sel"
    by (intro word32_eq_bitsI) (simp add: cmisc_select_def less_32_all word_bits)
  then have "?sel < 4"
    by (metis take_bit_2_less)
  then show "?sel \<in> {0, 1, 2, 3}"
    by (rule word_less_4)
qed

lemma cmisc_funct2_3:
  "cmisc_funct2 w \<noteq> 0 \<and> cmisc_funct2 w \<noteq> 1 \<and> cmisc_funct2 w \<noteq> 2 \<longleftrightarrow> bit w 10 \<and> bit w 11"
proof -
  define f where "f = drop_bit 10 (w AND 0x0C00)"
  have "f = take_bit 2 f"
    unfolding f_def by (rule word32_eq_bitsI) (simp add: less_32_all word_bits)
  then have "f \<in> {0, 1, 2, 3}"
    by (metis take_bit_2_less word_less_4)
  moreover have "bit f 0 = bit w 10" "bit f 1 = bit w 11"
    by (simp_all add: f_def word_bits)
  moreover have "cmisc_funct2 w = ucast f"
    by (simp only: cmisc_funct2_def f_def)
  ultimately show ?thesis
    by auto
qed

lemma op_cmisc_alu_stops:
  "op_cmisc_alu ir w = Inl e \<longleftrightarrow> e = Assert_failed \<and> bit w 10 \<and> bit w 11 \<and> bit w 12"
  using cmisc_funct2_3 [of w] funct6_select [of w]
  by (auto simp: op_cmisc_alu_def Let_def)

lemma rv_table_total: "h \<in> set rv_jump_table \<Longrightarrow> h ir w \<noteq> Inl e"
  by (auto simp: rv_jump_table_def OP_def)

lemma rvc_table_stops:
  assumes "n < length rvc_jump_table"
  shows "(rvc_jump_table ! n) ir w = Inl e \<longleftrightarrow> n = 17 \<and> op_cmisc_alu ir w = Inl e"
proof -
  have "n \<in> set [0..<32]" using assms by (simp add: rvc_jump_table_def)
  then show ?thesis
    by (auto simp: rvc_jump_table_def OP_def upt_rec)
qed

lemma c_index_cmisc_alu:
  "c_index w = 17 \<longleftrightarrow> bit w 0 \<and> \<not> bit w 1 \<and> \<not> bit w 13 \<and> \<not> bit w 14 \<and> bit w 15"
  unfolding word16_eq_iff by (auto simp: c_index_def less_16_all word_bits)

lemma is_compressed_bits: "is_compressed w \<longleftrightarrow> \<not> (bit w 0 \<and> bit w 1)"
  unfolding is_compressed_def word32_eq_iff by (auto simp: less_32_all word_bits)

lemma reserved_arith_bits:
  "w AND 0xFC03 = 0x9C01 \<longleftrightarrow>
    bit w 0 \<and> \<not> bit w 1 \<and> bit w 10 \<and> bit w 11 \<and> bit w 12 \<and> \<not> bit w 13 \<and> \<not> bit w 14 \<and> bit w 15"
  for w :: u32
  unfolding word32_eq_iff by (auto simp: less_32_all word_bits)

lemma bit_low_half: "bit (w AND 0xFFFF) n \<longleftrightarrow> n < 16 \<and> bit w n" for w :: u32
  using bit_take_bit_iff [of 16 w n] by (simp add: take_bit_eq_mask mask_eq_exp_minus_1)

lemma rv_decode_stops:
  "rv_decode ir w = Inl e \<longleftrightarrow> e = Assert_failed \<and> w AND 0xFC03 = 0x9C01"
proof (cases "is_compressed w")
  case True
  define v where "v = w AND 0xFFFF"
  have "unat (c_index v) = 17 \<longleftrightarrow> c_index v = 17"
    using unsigned_word_eqI [of "c_index v" 17, where ?'a = nat] by auto
  with True have "rv_decode ir w = Inl e \<longleftrightarrow> c_index v = 17 \<and> op_cmisc_alu ir v = Inl e"
    by (simp add: rv_decode_def Let_def v_def rvc_table_stops [OF c_index_bound])
  then show ?thesis
    by (auto simp: c_index_cmisc_alu op_cmisc_alu_stops reserved_arith_bits v_def bit_low_half)
next
  case False
  then show ?thesis
    using rv_table_total [OF nth_mem [OF rv_index_bound]]
    by (auto simp: rv_decode_def reserved_arith_bits is_compressed_bits)
qed

section \<open>Properties\<close>

text \<open>C2: Whatever word is decoded, with or without success, the fields \<open>rd\<close>, \<open>rs1\<close> and \<open>rs2\<close> of an
  instruction record that were below 32 stay below 32, and when a fused multiply-add is accepted, its third
  source register \<open>rs3\<close> is below 32 too: no decoded instruction indexes outside the register files.\<close>

theorem decode_registers_in_range:
  assumes "regs_in_range ir" "rv_decode ir w = Inr (ok, ir')"
  shows "regs_in_range ir' \<and> (ok \<and> opcode ir' \<in> fused_multiply_adds \<longrightarrow> rs3 ir' < 32)"
  using assms rv_decode_keeps_regs rv_decode_rs3 [of ir w ir'] by (auto simp: keeps_regs_def rs3_ok_def)

text \<open>\<open>fmadd.s f1, f2, f3, f31\<close>.\<close>

theorem decode_registers_in_range_witness:
  "\<exists>ir'. rv_decode zero_insn 0xF83100C3 = Inr (True, ir') \<and> opcode ir' = RV32F rv_insn_fmadds \<and>
    regs_in_range ir' \<and> rs3 ir' = 31 \<and> rs3 ir' < 32"
proof -
  define ir' where "ir' = zero_insn\<lparr>imm := 31, rd := 1, rs1 := 2, rs2 := 3, opcode := RV32F rv_insn_fmadds\<rparr>"
  have dec: "rv_decode zero_insn 0xF83100C3 = Inr (True, ir')"
    unfolding ir'_def by code_simp
  have "opcode ir' = RV32F rv_insn_fmadds" and "rs3 ir' = 31"
    by (simp_all add: ir'_def rs3_def)
  then show ?thesis
    using dec decode_registers_in_range [OF zero_insn_in_range dec] by (simp add: fused_multiply_adds_def)
qed

text \<open>C3: The decoder is total except on one family of words: it stops in a failed assertion exactly on
  the reserved compressed arithmetic encodings (low half of the form 1001 11.. .... ..01).\<close>

theorem decode_stops_exactly:
  "rv_decode ir w = Inl e \<longleftrightarrow> e = Assert_failed \<and> w AND 0xFC03 = 0x9C01"
  by (rule rv_decode_stops)

end
