(* ===== verification/Assembler.thy ===== *)
theory Assembler imports DecodeProps begin

text \<open>
  An assembler for the 32-bit integer instructions, written from the format tables that the
  comments of \<open>src/src/decode.c\<close> (and the ISA manual) give: the specification the decoder is
  checked against. \<open>rv_decode\<close> takes every well-formed assembled instruction back.
\<close>

section \<open>Instruction words\<close>

text \<open>The 32-bit frame of the formats with a \<open>funct3\<close> field, and of the two without.\<close>

definition frame :: "u32 \<Rightarrow> u32 \<Rightarrow> u32 \<Rightarrow> u32 \<Rightarrow> u32 \<Rightarrow> u32" where
  "frame opc f11_7 f3 f19_15 f31_20 =
    opc OR push_bit 7 f11_7 OR push_bit 12 f3 OR push_bit 15 f19_15 OR push_bit 20 f31_20"

definition frame_u :: "u32 \<Rightarrow> u32 \<Rightarrow> u32 \<Rightarrow> u32" where
  "frame_u opc f11_7 f31_12 = opc OR push_bit 7 f11_7 OR push_bit 12 f31_12"

lemma high_bits_clear:
  fixes w :: "'a::len word"
  assumes "w < 2 ^ k" and "k \<le> n"
  shows "\<not> bit w n"
proof -
  have "take_bit k w = w"
    using assms(1) by (simp add: take_bit_eq_mod mod_word_less)
  then show ?thesis
    using assms(2) by (metis bit_take_bit_iff linorder_not_less)
qed

lemma frame_fields:
  assumes "opc < 128" "f11_7 < 32" "f3 < 8" "f19_15 < 32"
  shows "decode_rd (frame opc f11_7 f3 f19_15 h) = f11_7"
    and "decode_funct3 (frame opc f11_7 f3 f19_15 h) = f3"
    and "decode_rs1 (frame opc f11_7 f3 f19_15 h) = f19_15"
    and "decode_rs2 (frame opc f11_7 f3 f19_15 h) = take_bit 5 h"
    and "decode_funct7 (frame opc f11_7 f3 f19_15 h) = take_bit 7 (drop_bit 5 h)"
    and "decode_itype_imm (frame opc f11_7 f3 f19_15 h) = signed_take_bit 11 h"
    and "rv_index (frame opc f11_7 f3 f19_15 h) = drop_bit 2 opc"
    and "is_compressed (frame opc f11_7 f3 f19_15 h) \<longleftrightarrow> \<not> (bit opc 0 \<and> bit opc 1)"
  using high_bits_clear [of opc 7] high_bits_clear [of f11_7 5] high_bits_clear [of f3 3]
    high_bits_clear [of f19_15 5] assms
  by (simp_all add: word32_eq_iff frame_def decode_reg_fields decode_itype_imm_def rv_index_def
        is_compressed_bits less_32_all word_bits)

lemma frame_u_fields:
  assumes "opc < 128" "f11_7 < 32"
  shows "decode_rd (frame_u opc f11_7 h) = f11_7"
    and "decode_utype_imm (frame_u opc f11_7 h) = push_bit 12 h"
    and "rv_index (frame_u opc f11_7 h) = drop_bit 2 opc"
    and "is_compressed (frame_u opc f11_7 h) \<longleftrightarrow> \<not> (bit opc 0 \<and> bit opc 1)"
  using high_bits_clear [of opc 7] high_bits_clear [of f11_7 5] assms
  by (simp_all add: word32_eq_iff frame_u_def decode_reg_fields decode_utype_imm_def rv_index_def
        is_compressed_bits less_32_all word_bits)

section \<open>The instruction tables\<close>

text \<open>Register-register arithmetic (opcode 0110011): \<open>funct3\<close> and \<open>funct7\<close>.\<close>

definition r_codes :: "(rv_opcode \<times> u32 \<times> u32) list" where
  "r_codes =
    [(RV32I rv_insn_add, 0, 0x00), (RV32I rv_insn_sub, 0, 0x20), (RV32I rv_insn_sll, 1, 0x00),
     (RV32I rv_insn_slt, 2, 0x00), (RV32I rv_insn_sltu, 3, 0x00), (RV32I rv_insn_xor, 4, 0x00),
     (RV32I rv_insn_srl, 5, 0x00), (RV32I rv_insn_sra, 5, 0x20), (RV32I rv_insn_or, 6, 0x00),
     (RV32I rv_insn_and, 7, 0x00), (RV32M rv_insn_mul, 0, 0x01), (RV32M rv_insn_mulh, 1, 0x01),
     (RV32M rv_insn_mulhsu, 2, 0x01), (RV32M rv_insn_mulhu, 3, 0x01),
     (RV32M rv_insn_div, 4, 0x01), (RV32M rv_insn_divu, 5, 0x01), (RV32M rv_insn_rem, 6, 0x01),
     (RV32M rv_insn_remu, 7, 0x01), (ZBA rv_insn_sh1add, 2, 0x10),
     (ZBA rv_insn_sh2add, 4, 0x10), (ZBA rv_insn_sh3add, 6, 0x10), (ZBB rv_insn_andn, 7, 0x20),
     (ZBB rv_insn_orn, 6, 0x20), (ZBB rv_insn_xnor, 4, 0x20), (ZBB rv_insn_max, 6, 0x05),
     (ZBB rv_insn_maxu, 7, 0x05), (ZBB rv_insn_min, 4, 0x05), (ZBB rv_insn_minu, 5, 0x05),
     (ZBB rv_insn_rol, 1, 0x30), (ZBB rv_insn_ror, 5, 0x30), (ZBC rv_insn_clmul, 1, 0x05),
     (ZBC rv_insn_clmulr, 2, 0x05), (ZBC rv_insn_clmulh, 3, 0x05), (ZBS rv_insn_bclr, 1, 0x24),
     (ZBS rv_insn_bext, 5, 0x24), (ZBS rv_insn_binv, 1, 0x34), (ZBS rv_insn_bset, 1, 0x14)]"

text \<open>Atomic memory operations (opcode 0101111, \<open>funct3\<close> 010): \<open>funct5\<close>.\<close>

definition a_codes :: "(rv_opcode \<times> u32) list" where
  "a_codes =
    [(RV32A rv_insn_lrw, 2), (RV32A rv_insn_scw, 3), (RV32A rv_insn_amoswapw, 1),
     (RV32A rv_insn_amoaddw, 0), (RV32A rv_insn_amoxorw, 4), (RV32A rv_insn_amoandw, 12),
     (RV32A rv_insn_amoorw, 8), (RV32A rv_insn_amominw, 16), (RV32A rv_insn_amomaxw, 20),
     (RV32A rv_insn_amominuw, 24), (RV32A rv_insn_amomaxuw, 28)]"

text \<open>Register-immediate arithmetic (0010011), loads (0000011), stores (0100011) and branches
  (1100011): \<open>funct3\<close>.\<close>

definition i_codes :: "(rv_opcode \<times> u32) list" where
  "i_codes =
    [(RV32I rv_insn_addi, 0), (RV32I rv_insn_slti, 2), (RV32I rv_insn_sltiu, 3),
     (RV32I rv_insn_xori, 4), (RV32I rv_insn_ori, 6), (RV32I rv_insn_andi, 7)]"

definition l_codes :: "(rv_opcode \<times> u32) list" where
  "l_codes =
    [(RV32I rv_insn_lb, 0), (RV32I rv_insn_lh, 1), (RV32I rv_insn_lw, 2),
     (RV32I rv_insn_lbu, 4), (RV32I rv_insn_lhu, 5)]"

definition s_codes :: "(rv_opcode \<times> u32) list" where
  "s_codes =
    [(RV32I rv_insn_sb, 0), (RV32I rv_insn_sh, 1), (RV32I rv_insn_sw, 2)]"

definition b_codes :: "(rv_opcode \<times> u32) list" where
  "b_codes =
    [(RV32I rv_insn_beq, 0), (RV32I rv_insn_bne, 1), (RV32I rv_insn_blt, 4),
     (RV32I rv_insn_bge, 5), (RV32I rv_insn_bltu, 6), (RV32I rv_insn_bgeu, 7)]"

text \<open>Shifts and single-bit operations by an immediate: \<open>funct3\<close> and the seven bits above the
  shift amount. Unary operations: \<open>funct3\<close> and the whole immediate.\<close>

definition sh_codes :: "(rv_opcode \<times> u32 \<times> u32) list" where
  "sh_codes =
    [(RV32I rv_insn_slli, 1, 0x00), (RV32I rv_insn_srli, 5, 0x00),
     (RV32I rv_insn_srai, 5, 0x20), (ZBB rv_insn_rori, 5, 0x30), (ZBS rv_insn_bclri, 1, 0x24),
     (ZBS rv_insn_bexti, 5, 0x24), (ZBS rv_insn_binvi, 1, 0x34), (ZBS rv_insn_bseti, 1, 0x14)]"

definition un_codes :: "(rv_opcode \<times> u32 \<times> u32) list" where
  "un_codes =
    [(ZBB rv_insn_clz, 1, 0x600), (ZBB rv_insn_ctz, 1, 0x601), (ZBB rv_insn_cpop, 1, 0x602),
     (ZBB rv_insn_sextb, 1, 0x604), (ZBB rv_insn_sexth, 1, 0x605), (ZBB rv_insn_orcb, 5, 0x287),
     (ZBB rv_insn_rev8, 5, 0x698)]"

section \<open>Assembling\<close>

datatype asm =
    Rfmt rv_opcode u8 u8 u8
  | Afmt rv_opcode u32 u8 u8 u8
  | Ifmt rv_opcode u8 u8 u32
  | Load rv_opcode u8 u8 u32
  | Shift rv_opcode u8 u8 u32
  | Unary rv_opcode u8 u8
  | Store rv_opcode u8 u8 u32
  | Branch rv_opcode u8 u8 u32
  | Lui u8 u32
  | Auipc u8 u32
  | Jal u8 u32
  | Jalr u8 u8 u32

text \<open>The upper twelve bits with a register or shift amount below seven function bits, and the
  split immediates of the store, branch and jump formats.\<close>

definition r_high :: "u32 \<Rightarrow> u32 \<Rightarrow> u32" where
  "r_high r2 f7 = r2 OR push_bit 5 f7"

definition s_low :: "u32 \<Rightarrow> u32" where
  "s_low i = i AND 0x1F"

definition s_high :: "u32 \<Rightarrow> u32 \<Rightarrow> u32" where
  "s_high r2 i = r2 OR push_bit 5 (drop_bit 5 i)"

definition b_low :: "u32 \<Rightarrow> u32" where
  "b_low i = (i AND 0x1E) OR (drop_bit 11 i AND 1)"

definition b_high :: "u32 \<Rightarrow> u32 \<Rightarrow> u32" where
  "b_high r2 i = r2 OR push_bit 5 (drop_bit 5 i AND 0x3F) OR push_bit 11 (drop_bit 12 i AND 1)"

definition j_high :: "u32 \<Rightarrow> u32" where
  "j_high i = (drop_bit 12 i AND 0xFF) OR push_bit 8 (drop_bit 11 i AND 1)
     OR push_bit 9 (drop_bit 1 i AND 0x3FF) OR push_bit 19 (drop_bit 20 i AND 1)"

fun encode :: "asm \<Rightarrow> u32" where
  "encode (Rfmt op d a b) = (case map_of r_codes op of None \<Rightarrow> 0 | Some (f3, f7) \<Rightarrow>
     frame 0b0110011 (ucast d) f3 (ucast a) (r_high (ucast b) f7))"
| "encode (Afmt op aqrl d a b) = (case map_of a_codes op of None \<Rightarrow> 0 | Some f5 \<Rightarrow>
     frame 0b0101111 (ucast d) 2 (ucast a) (r_high (ucast b) (aqrl OR push_bit 2 f5)))"
| "encode (Ifmt op d a i) = (case map_of i_codes op of None \<Rightarrow> 0 | Some f3 \<Rightarrow>
     frame 0b0010011 (ucast d) f3 (ucast a) i)"
| "encode (Load op d a i) = (case map_of l_codes op of None \<Rightarrow> 0 | Some f3 \<Rightarrow>
     frame 0b0000011 (ucast d) f3 (ucast a) i)"
| "encode (Shift op d a sh) = (case map_of sh_codes op of None \<Rightarrow> 0 | Some (f3, f7) \<Rightarrow>
     frame 0b0010011 (ucast d) f3 (ucast a) (r_high sh f7))"
| "encode (Unary op d a) = (case map_of un_codes op of None \<Rightarrow> 0 | Some (f3, i) \<Rightarrow>
     frame 0b0010011 (ucast d) f3 (ucast a) i)"
| "encode (Store op a b i) = (case map_of s_codes op of None \<Rightarrow> 0 | Some f3 \<Rightarrow>
     frame 0b0100011 (s_low i) f3 (ucast a) (s_high (ucast b) i))"
| "encode (Branch op a b i) = (case map_of b_codes op of None \<Rightarrow> 0 | Some f3 \<Rightarrow>
     frame 0b1100011 (b_low i) f3 (ucast a) (b_high (ucast b) i))"
| "encode (Lui d i) = frame_u 0b0110111 (ucast d) (drop_bit 12 i)"
| "encode (Auipc d i) = frame_u 0b0010111 (ucast d) (drop_bit 12 i)"
| "encode (Jal d i) = frame_u 0b1101111 (ucast d) (j_high i)"
| "encode (Jalr d a i) = frame 0b1100111 (ucast d) 0 (ucast a) i"

text \<open>Well-formed instructions: registers below 32, immediates that fit their field, and a
  destination other than \<open>x0\<close> for the arithmetic the decoder turns into \<open>nop\<close> otherwise.\<close>

definition fits :: "nat \<Rightarrow> u32 \<Rightarrow> bool" where
  "fits n i \<longleftrightarrow> signed_take_bit (n - 1) i = i"

fun wf_asm :: "asm \<Rightarrow> bool" where
  "wf_asm (Rfmt op d a b) \<longleftrightarrow> op \<in> fst ` set r_codes \<and> d \<noteq> 0 \<and> d < 32 \<and> a < 32 \<and> b < 32"
| "wf_asm (Afmt op aqrl d a b) \<longleftrightarrow>
     op \<in> fst ` set a_codes \<and> aqrl < 4 \<and> d < 32 \<and> a < 32 \<and> b < 32"
| "wf_asm (Ifmt op d a i) \<longleftrightarrow> op \<in> fst ` set i_codes \<and> d \<noteq> 0 \<and> d < 32 \<and> a < 32 \<and> fits 12 i"
| "wf_asm (Load op d a i) \<longleftrightarrow> op \<in> fst ` set l_codes \<and> d < 32 \<and> a < 32 \<and> fits 12 i"
| "wf_asm (Shift op d a sh) \<longleftrightarrow> op \<in> fst ` set sh_codes \<and> d \<noteq> 0 \<and> d < 32 \<and> a < 32 \<and> sh < 32"
| "wf_asm (Unary op d a) \<longleftrightarrow> op \<in> fst ` set un_codes \<and> d \<noteq> 0 \<and> d < 32 \<and> a < 32"
| "wf_asm (Store op a b i) \<longleftrightarrow> op \<in> fst ` set s_codes \<and> a < 32 \<and> b < 32 \<and> fits 12 i"
| "wf_asm (Branch op a b i) \<longleftrightarrow>
     op \<in> fst ` set b_codes \<and> a < 32 \<and> b < 32 \<and> fits 13 i \<and> \<not> bit i 0"
| "wf_asm (Lui d i) \<longleftrightarrow> d \<noteq> 0 \<and> d < 32 \<and> take_bit 12 i = 0"
| "wf_asm (Auipc d i) \<longleftrightarrow> d \<noteq> 0 \<and> d < 32 \<and> take_bit 12 i = 0"
| "wf_asm (Jal d i) \<longleftrightarrow> d < 32 \<and> fits 21 i \<and> \<not> bit i 0"
| "wf_asm (Jalr d a i) \<longleftrightarrow> d < 32 \<and> a < 32 \<and> fits 12 i"

text \<open>The instruction record an assembled instruction stands for.\<close>

definition the_code :: "('a \<times> 'b) list \<Rightarrow> 'a \<Rightarrow> 'b" where
  "the_code table op = the (map_of table op)"

fun asm_insn :: "asm \<Rightarrow> rv_insn_t" where
  "asm_insn (Rfmt op d a b) = zero_insn\<lparr>rd := d, rs1 := a, rs2 := b, opcode := op\<rparr>"
| "asm_insn (Afmt op aqrl d a b) = zero_insn\<lparr>rd := d, rs1 := a, rs2 := b, opcode := op\<rparr>"
| "asm_insn (Ifmt op d a i) = zero_insn\<lparr>imm := i, rd := d, rs1 := a, opcode := op\<rparr>"
| "asm_insn (Load op d a i) = zero_insn\<lparr>imm := i, rd := d, rs1 := a, opcode := op\<rparr>"
| "asm_insn (Shift op d a sh) = zero_insn\<lparr>
     imm := signed_take_bit 11 (r_high sh (snd (the_code sh_codes op))),
     rd := d, rs1 := a, opcode := op\<rparr>"
| "asm_insn (Unary op d a) = zero_insn\<lparr>imm := snd (the_code un_codes op), rd := d, rs1 := a,
     opcode := op\<rparr>"
| "asm_insn (Store op a b i) = zero_insn\<lparr>imm := i, rs1 := a, rs2 := b, opcode := op\<rparr>"
| "asm_insn (Branch op a b i) = zero_insn\<lparr>imm := i, rs1 := a, rs2 := b, opcode := op\<rparr>"
| "asm_insn (Lui d i) = zero_insn\<lparr>imm := i, rd := d, opcode := RV32I rv_insn_lui\<rparr>"
| "asm_insn (Auipc d i) = zero_insn\<lparr>imm := i, rd := d, opcode := RV32I rv_insn_auipc\<rparr>"
| "asm_insn (Jal d i) = zero_insn\<lparr>imm := i, rd := d, opcode := RV32I rv_insn_jal\<rparr>"
| "asm_insn (Jalr d a i) =
     zero_insn\<lparr>imm := i, rd := d, rs1 := a, opcode := RV32I rv_insn_jalr\<rparr>"

end
