(* ===== verification/AssemblerProps.thy ===== *)
theory AssemblerProps imports Assembler begin

text \<open>
  The round trip of the assembler of \<open>Assembler\<close> and the decoder of \<open>Decode\<close>: \<open>rv_decode\<close> takes every
  well-formed 32-bit integer instruction back, format by format.
\<close>

section \<open>Split immediates\<close>










section \<open>Format by format\<close>


lemma cast_back [simp]: "(ucast (ucast (r :: u8) :: u32) :: u8) = r"
  by (rule bit_word_eqI) (simp add: word_bits)

lemma cast_zero_iff [simp]: "(ucast r :: u32) = 0 \<longleftrightarrow> r = 0" for r :: u8
  by (metis cast_back unsigned_0)
























section \<open>The round trip\<close>





section \<open>Properties\<close>



end
