(* ===== verification/Interfaces.thy ===== *)
theory Interfaces imports Prelude begin

text \<open>
  The contracts between components. \<open>cells\<close> is storage addressed by name: the register files and the
  control and status registers provide it. \<open>bus\<close> is memory behind calls that may fail: guest RAM and
  the memory callbacks of the MMU provide it, the load, store and atomic handlers rely on it.
  \<open>lookup_table\<close> is a table of entries found by their key, whose operations may loop: the block map
  provides it, the two-level block lookup and the translator rely on it.
\<close>

section \<open>Named cells\<close>

locale cells =
  fixes load :: "'c \<Rightarrow> 's \<Rightarrow> 'v"
    and store :: "'c \<Rightarrow> 'v \<Rightarrow> 's \<Rightarrow> 's"
  assumes load_store: "load c (store c v s) = v"
    and store_load: "store c (load c s) s = s"
    and load_other: "c \<noteq> d \<Longrightarrow> load d (store c v s) = load d s"
begin

lemma load_after: "load d (store c v s) = (if d = c then v else load d s)"
  by (simp add: load_store load_other)

text \<open>After a sequence of stores a cell holds the last value stored into it.\<close>

lemma load_fold:
  "load d (fold (\<lambda>(c, v). store c v) ws s) =
    (case map_of (rev ws) d of None \<Rightarrow> load d s | Some v \<Rightarrow> v)"
  by (induction ws arbitrary: s)
    (auto simp: load_after map_add_def map_of_append split: option.splits)

text \<open>A read-modify-write, and that two of them on one cell compose.\<close>

lemma load_modify:
  "load d (store c (f (load c s)) s) = (if d = c then f (load c s) else load d s)"
  by (rule load_after)

lemma modify_modify:
  "load d (store c (g (load c (store c (f (load c s)) s))) (store c (f (load c s)) s)) =
    (if d = c then g (f (load c s)) else load d s)"
  by (simp add: load_after)

end

section \<open>Memory behind fallible calls\<close>

locale bus =
  fixes get :: "'s \<Rightarrow> 'a \<Rightarrow> ('s \<times> 'v) outcome"
    and put :: "'s \<Rightarrow> 'a \<Rightarrow> 'v \<Rightarrow> 's outcome"
    and usable :: "'s \<Rightarrow> 'a \<Rightarrow> bool"
    and apart :: "'a \<Rightarrow> 'a \<Rightarrow> bool"
  assumes read_pure: "usable s a \<Longrightarrow> \<exists>v. get s a = Inr (s, v)"
    and write_defined: "usable s a \<Longrightarrow> \<exists>t. put s a v = Inr t"
    and write_usable: "\<lbrakk>usable s a; put s a v = Inr t\<rbrakk> \<Longrightarrow> usable t b = usable s b"
    and read_written: "\<lbrakk>usable s a; put s a v = Inr t\<rbrakk> \<Longrightarrow> get t a = Inr (t, v)"
    and read_apart: "\<lbrakk>usable s a; put s a v = Inr t; apart a b; usable s b; get s b = Inr (s, w)\<rbrakk>
      \<Longrightarrow> get t b = Inr (t, w)"
begin

lemma write_then_read:
  assumes "usable s a"
  shows "\<exists>t. put s a v = Inr t \<and> obind (put s a v) (\<lambda>t. get t a) = Inr (t, v)"
  using assms write_defined [OF assms, of v] read_written [OF assms] by auto

lemma overwrite:
  assumes "usable s a" "put s a v = Inr t" "put t a w = Inr u"
  shows "get u a = Inr (u, w)"
  using assms read_written write_usable by blast

text \<open>The get-modify-put of the atomic instructions.\<close>

lemma exchange:
  assumes "usable s a"
  shows "\<exists>v t. get s a = Inr (s, v) \<and> put s a (f v) = Inr t
    \<and> get t a = Inr (t, f v)
    \<and> (\<forall>b w. apart a b \<and> usable s b \<and> get s b = Inr (s, w) \<longrightarrow> get t b = Inr (t, w))"
proof -
  obtain v where v: "get s a = Inr (s, v)"
    using read_pure [OF assms] by blast
  obtain t where t: "put s a (f v) = Inr t"
    using write_defined [OF assms] by blast
  show ?thesis
    using v t read_written [OF assms t] read_apart [OF assms t] by blast
qed

text \<open>Two writes apart from each other are both read back.\<close>

lemma two_writes:
  assumes "usable s a" "usable s b" "apart b a" "put s a v = Inr t" "put t b w = Inr u"
  shows "get u a = Inr (u, v)" "get u b = Inr (u, w)"
  using assms write_usable read_written read_apart by metis+

end

section \<open>Tables of keyed entries\<close>

text \<open>The outer option of \<open>find\<close> and \<open>add\<close> is \<open>None\<close> when the operation does not return.\<close>

locale lookup_table =
  fixes find :: "'t \<Rightarrow> 'k \<Rightarrow> 'v option option"
    and add :: "'v \<Rightarrow> 't \<Rightarrow> 't option"
    and clear :: "'t \<Rightarrow> 't"
    and key :: "'v \<Rightarrow> 'k"
    and invar :: "'t \<Rightarrow> bool"
    and room :: "'t \<Rightarrow> bool"
  assumes find_returns: "invar t \<Longrightarrow> \<exists>r. find t k = Some r"
    and find_key: "\<lbrakk>invar t; find t k = Some (Some v)\<rbrakk> \<Longrightarrow> key v = k"
    and clear_invar: "invar t \<Longrightarrow> invar (clear t)"
    and find_clear: "invar t \<Longrightarrow> find (clear t) k = Some None"
    and add_returns: "\<lbrakk>invar t; room t; find t (key v) = Some None\<rbrakk> \<Longrightarrow> \<exists>t'. add v t = Some t' \<and> invar t'"
    and find_add: "\<lbrakk>invar t; room t; find t (key v) = Some None; add v t = Some t'\<rbrakk>
      \<Longrightarrow> find t' k = (if k = key v then Some (Some v) else find t k)"
begin

text \<open>The finite map a table stands for, and what the operations do to it.\<close>

definition entries :: "'t \<Rightarrow> 'k \<Rightarrow> 'v option" where
  "entries t k = (case find t k of Some r \<Rightarrow> r | None \<Rightarrow> None)"

lemma find_entries: "invar t \<Longrightarrow> find t k = Some (entries t k)"
  using find_returns [of t k] by (auto simp: entries_def)

lemma entries_key: "invar t \<Longrightarrow> entries t k = Some v \<Longrightarrow> key v = k"
  using find_key find_entries by metis

lemma entries_clear: "invar t \<Longrightarrow> entries (clear t) = Map.empty"
  by (rule ext) (simp add: entries_def find_clear)

lemma entries_add:
  assumes "invar t" "room t" "entries t (key v) = None" "add v t = Some t'"
  shows "entries t' = (entries t)(key v \<mapsto> v)" "invar t'"
proof -
  have absent: "find t (key v) = Some None"
    using find_entries [OF assms(1)] assms(3) by simp
  show "entries t' = (entries t)(key v \<mapsto> v)"
    by (rule ext) (simp add: entries_def find_add [OF assms(1, 2) absent assms(4)])
  show "invar t'"
    using add_returns [OF assms(1, 2) absent] assms(4) by auto
qed

end

end
