(* ===== verification/Memory.thy ===== *)
theory Memory imports Interfaces begin

text \<open>
  The guest RAM of \<open>src/src/io.c\<close> and \<open>src/src/io.h\<close>: a flat block of bytes with its size, the
  unchecked little-endian accessors the interpreter uses, the checked instruction fetch and the
  checked bulk operations. \<open>mem_base\<close> is the array behind the C pointer, indexed by the byte
  offset; the accessors add their offsets to the pointer, so an index is a natural number and does
  not wrap at 32 bits. Demand paging by signals (\<open>HAVE_MMAP\<close>) is invisible at this level: a
  reclaimed chunk is all zeros before and after.
\<close>

record memory_t =
  mem_base :: "nat \<Rightarrow> u8"
  mem_size :: u64

definition GUEST_RAM_CONTAINS :: "memory_t \<Rightarrow> u32 \<Rightarrow> u64 \<Rightarrow> bool" where
  "GUEST_RAM_CONTAINS m addr len \<longleftrightarrow>
    (ucast addr :: u64) < mem_size m \<and> len \<le> mem_size m - ucast addr"

section \<open>Bytes and words\<close>

definition byte_of :: "'a::len word \<Rightarrow> nat \<Rightarrow> u8" where
  "byte_of w i = ucast (drop_bit (8 * i) w)"

definition word_of_bytes :: "u8 \<Rightarrow> u8 \<Rightarrow> u8 \<Rightarrow> u8 \<Rightarrow> u32" where
  "word_of_bytes b0 b1 b2 b3 =
    ucast b0 OR push_bit 8 (ucast b1) OR push_bit 16 (ucast b2) OR push_bit 24 (ucast b3)"

definition half_of_bytes :: "u8 \<Rightarrow> u8 \<Rightarrow> u16" where
  "half_of_bytes b0 b1 = ucast b0 OR push_bit 8 (ucast b1)"

lemma word_of_bytes_split [simp]:
  "word_of_bytes (byte_of w 0) (byte_of w 1) (byte_of w 2) (byte_of w 3) = w" for w :: u32
  by (rule word32_eq_bitsI) (simp add: word_of_bytes_def byte_of_def less_32_all word_bits)

lemma half_of_bytes_split [simp]: "half_of_bytes (byte_of w 0) (byte_of w 1) = w" for w :: u16
  by (rule word16_eq_bitsI) (simp add: half_of_bytes_def byte_of_def less_16_all word_bits)

lemmas bytes_split [simp] =
  word_of_bytes_split [unfolded One_nat_def] half_of_bytes_split [unfolded One_nat_def]

lemma byte_of_byte [simp]: "byte_of b 0 = b" for b :: u8
  by (simp add: byte_of_def)

lemma bytes_of_word_of_bytes [simp]:
  "byte_of (word_of_bytes b0 b1 b2 b3) 0 = b0" "byte_of (word_of_bytes b0 b1 b2 b3) 1 = b1"
  "byte_of (word_of_bytes b0 b1 b2 b3) 2 = b2" "byte_of (word_of_bytes b0 b1 b2 b3) 3 = b3"
  by (simp_all add: word8_eq_iff word_of_bytes_def byte_of_def less_8_all word_bits)

section \<open>Accessors\<close>

definition memory_read_w :: "memory_t \<Rightarrow> u32 \<Rightarrow> u32" where
  "memory_read_w m addr =
    (let a = unat addr; b = mem_base m in word_of_bytes (b a) (b (a + 1)) (b (a + 2)) (b (a + 3)))"

definition memory_read_s :: "memory_t \<Rightarrow> u32 \<Rightarrow> u16" where
  "memory_read_s m addr =
    (let a = unat addr; b = mem_base m in half_of_bytes (b a) (b (a + 1)))"

definition memory_read_b :: "memory_t \<Rightarrow> u32 \<Rightarrow> u8" where
  "memory_read_b m addr = mem_base m (unat addr)"

definition memory_write_w :: "u32 \<Rightarrow> u32 \<Rightarrow> memory_t \<Rightarrow> memory_t" where
  "memory_write_w addr v m =
    (let a = unat addr
     in m\<lparr>mem_base := (mem_base m)(a := byte_of v 0, a + 1 := byte_of v 1,
            a + 2 := byte_of v 2, a + 3 := byte_of v 3)\<rparr>)"

definition memory_write_s :: "u32 \<Rightarrow> u16 \<Rightarrow> memory_t \<Rightarrow> memory_t" where
  "memory_write_s addr v m =
    (let a = unat addr
     in m\<lparr>mem_base := (mem_base m)(a := byte_of v 0, a + 1 := byte_of v 1)\<rparr>)"

definition memory_write_b :: "u32 \<Rightarrow> u8 \<Rightarrow> memory_t \<Rightarrow> memory_t" where
  "memory_write_b addr v m = m\<lparr>mem_base := (mem_base m)(unat addr := v)\<rparr>"

definition memory_ifetch :: "memory_t \<Rightarrow> u32 \<Rightarrow> u32" where
  "memory_ifetch m addr =
    (if (ucast addr :: u64) + 4 > mem_size m then 0 else memory_read_w m addr)"

text \<open>\<open>memcpy\<close> into guest memory and \<open>memset\<close> over it, behind their bounds checks. \<open>len\<close> is the
  number of bytes the source buffer provides.\<close>

definition memory_write :: "memory_t \<Rightarrow> u32 \<Rightarrow> (nat \<Rightarrow> u8) \<Rightarrow> u32 \<Rightarrow> bool \<times> memory_t" where
  "memory_write m addr src len =
    (if ucast addr \<ge> mem_size m \<or> ucast len > mem_size m - ucast addr then (False, m)
     else (True, m\<lparr>mem_base := (\<lambda>i. if unat addr \<le> i \<and> i < unat addr + unat len
                                   then src (i - unat addr) else mem_base m i)\<rparr>))"

definition memory_fill :: "memory_t \<Rightarrow> u32 \<Rightarrow> u32 \<Rightarrow> u8 \<Rightarrow> bool \<times> memory_t" where
  "memory_fill m addr len v =
    (if ucast addr \<ge> mem_size m \<or> ucast len > mem_size m - ucast addr then (False, m)
     else (True, m\<lparr>mem_base := (\<lambda>i. if unat addr \<le> i \<and> i < unat addr + unat len
                                   then v else mem_base m i)\<rparr>))"

section \<open>Laws of the accessors\<close>

lemma mem_size_writes [simp]:
  "mem_size (memory_write_w a v m) = mem_size m"
  "mem_size (memory_write_s a h m) = mem_size m"
  "mem_size (memory_write_b a b m) = mem_size m"
  by (simp_all add: memory_write_w_def memory_write_s_def memory_write_b_def Let_def)

lemma memory_read_write_w [simp]: "memory_read_w (memory_write_w a v m) a = v"
  by (simp add: memory_read_w_def memory_write_w_def Let_def)

lemma memory_read_write_s [simp]: "memory_read_s (memory_write_s a v m) a = v"
  by (simp add: memory_read_s_def memory_write_s_def Let_def)

lemma memory_read_write_b [simp]: "memory_read_b (memory_write_b a v m) a = v"
  by (simp add: memory_read_b_def memory_write_b_def)

text \<open>Accesses to disjoint byte ranges do not see each other.\<close>

definition disjoint :: "u32 \<Rightarrow> nat \<Rightarrow> u32 \<Rightarrow> nat \<Rightarrow> bool" where
  "disjoint a n b k \<longleftrightarrow> unat a + n \<le> unat b \<or> unat b + k \<le> unat a"

lemma memory_read_write_w_disjoint:
  "disjoint a 4 b 4 \<Longrightarrow> memory_read_w (memory_write_w a v m) b = memory_read_w m b"
  "disjoint a 4 b 2 \<Longrightarrow> memory_read_s (memory_write_w a v m) b = memory_read_s m b"
  "disjoint a 4 b 1 \<Longrightarrow> memory_read_b (memory_write_w a v m) b = memory_read_b m b"
  by (auto simp: memory_read_w_def memory_read_s_def memory_read_b_def memory_write_w_def
      disjoint_def Let_def)

lemma memory_read_write_s_disjoint:
  "disjoint a 2 b 4 \<Longrightarrow> memory_read_w (memory_write_s a h m) b = memory_read_w m b"
  "disjoint a 2 b 2 \<Longrightarrow> memory_read_s (memory_write_s a h m) b = memory_read_s m b"
  "disjoint a 2 b 1 \<Longrightarrow> memory_read_b (memory_write_s a h m) b = memory_read_b m b"
  by (auto simp: memory_read_w_def memory_read_s_def memory_read_b_def memory_write_s_def
      disjoint_def Let_def)

lemma memory_read_write_b_disjoint:
  "disjoint a 1 b 4 \<Longrightarrow> memory_read_w (memory_write_b a c m) b = memory_read_w m b"
  "disjoint a 1 b 2 \<Longrightarrow> memory_read_s (memory_write_b a c m) b = memory_read_s m b"
  "disjoint a 1 b 1 \<Longrightarrow> memory_read_b (memory_write_b a c m) b = memory_read_b m b"
  by (auto simp: memory_read_w_def memory_read_s_def memory_read_b_def memory_write_b_def
      disjoint_def Let_def)

text \<open>The C bounds test, with its subtraction of unsigned 64-bit values, is the mathematical one.\<close>

lemma unat_ucast_u64 [simp]: "unat (ucast (a :: u32) :: u64) = unat a"
  by (simp add: unsigned_ucast_eq take_bit_nat_eq_self_iff order_less_le_trans [OF unsigned_less])

lemma GUEST_RAM_CONTAINS_iff:
  "0 < len \<Longrightarrow> GUEST_RAM_CONTAINS m addr len \<longleftrightarrow> unat addr + unat len \<le> unat (mem_size m)"
proof -
  assume pos: "0 < len"
  show ?thesis
  proof (cases "(ucast addr :: u64) < mem_size m")
    case True
    then have "unat (mem_size m - ucast addr) = unat (mem_size m) - unat addr"
      by (simp add: unat_sub less_imp_le)
    with True show ?thesis
      by (auto simp: GUEST_RAM_CONTAINS_def word_le_nat_alt word_less_nat_alt)
  next
    case False
    with pos show ?thesis
      by (auto simp: GUEST_RAM_CONTAINS_def word_less_nat_alt)
  qed
qed

text \<open>Guest RAM as a bus, for the three access widths.\<close>

interpretation ram_w: bus "\<lambda>m a. Inr (m, memory_read_w m a)" "\<lambda>m a v. Inr (memory_write_w a v m)"
  "\<lambda>m a. GUEST_RAM_CONTAINS m a 4" "\<lambda>a b. disjoint a 4 b 4"
  by unfold_locales (auto simp: GUEST_RAM_CONTAINS_def memory_read_write_w_disjoint)

interpretation ram_s: bus "\<lambda>m a. Inr (m, memory_read_s m a)" "\<lambda>m a v. Inr (memory_write_s a v m)"
  "\<lambda>m a. GUEST_RAM_CONTAINS m a 2" "\<lambda>a b. disjoint a 2 b 2"
  by unfold_locales (auto simp: GUEST_RAM_CONTAINS_def memory_read_write_s_disjoint)

interpretation ram_b: bus "\<lambda>m a. Inr (m, memory_read_b m a)" "\<lambda>m a v. Inr (memory_write_b a v m)"
  "\<lambda>m a. GUEST_RAM_CONTAINS m a 1" "\<lambda>a b. disjoint a 1 b 1"
  by unfold_locales (auto simp: GUEST_RAM_CONTAINS_def memory_read_write_b_disjoint)

end
