(* ===== verification/Hart.thy ===== *)
theory Hart imports Memory Insn begin

text \<open>
  The state of one emulated hart: \<open>struct riscv_internal\<close> of \<open>src/src/riscv_private.h\<close> in the
  interpreter build with \<open>SYSTEM\<close>, \<open>EXT_F\<close> and \<open>Zicsr\<close>, together with the parts of \<open>vm_attr_t\<close>
  (\<open>src/src/riscv.h\<close>) and the file-scope variables of \<open>src/src/emulate.c\<close> and of the softfloat
  interface that its operations read and write. The control and status registers, the attributes
  and the file-scope variables are sub-records. The arrays \<open>X[32]\<close>, \<open>F[32]\<close> and the two TLBs of
  64 entries are functions of their C index; the decoder keeps register indices below 32 and the
  TLB code masks its index, so no access leaves the arrays. The block cache, the pools and the
  debugger members belong to other components.
\<close>

section \<open>Records\<close>

text \<open>\<open>tlb_entry_t\<close>.\<close>

record tlb_entry_t =
  tlb_vpn :: u32
  tlb_ppn :: u32
  tlb_pte_addr :: u32
  tlb_perm :: u8
  tlb_valid :: u8
  tlb_dirty :: u8
  tlb_level :: u8

definition zero_tlb_entry :: tlb_entry_t where
  "zero_tlb_entry = \<lparr>tlb_vpn = 0, tlb_ppn = 0, tlb_pte_addr = 0, tlb_perm = 0, tlb_valid = 0,
     tlb_dirty = 0, tlb_level = 0\<rparr>"

record csrs_t =
  csr_fcsr :: u32
  csr_cycle :: u64
  csr_time0 :: u32
  csr_time1 :: u32
  csr_mstatus :: u32
  csr_mtvec :: u32
  csr_misa :: u32
  csr_mtval :: u32
  csr_mcause :: u32
  csr_mscratch :: u32
  csr_mepc :: u32
  csr_mip :: u32
  csr_mie :: u32
  csr_mtvt :: u32
  csr_mnxti :: u32
  csr_mintstatus :: u32
  csr_mintthresh :: u32
  csr_mideleg :: u32
  csr_medeleg :: u32
  csr_sstatus :: u32
  csr_stvec :: u32
  csr_sip :: u32
  csr_sie :: u32
  csr_scounteren :: u32
  csr_sscratch :: u32
  csr_sepc :: u32
  csr_scause :: u32
  csr_stval :: u32
  csr_satp :: u32

record globals_t =
  need_clear_block_map :: bool
  need_retranslate :: bool
  need_handle_signal :: bool
  reloc_enable_mmu :: bool
  reloc_enable_mmu_jalr_addr :: u32
  is_branch_taken :: bool
  last_pc :: u32
  map_cleared :: bool
  softfloat_roundingMode :: u8
  softfloat_exceptionFlags :: u8

record attr_t =
  ram :: memory_t
  vm_mem_size :: u64
  allow_misalign :: bool

record riscv_t =
  halt :: bool
  hart_id :: u32
  lr_value :: u32
  lr_addr :: u32
  lr_valid :: bool
  X :: "u8 \<Rightarrow> u32"
  PC :: u32
  timer :: u64
  is_trapped :: bool
  F :: "u8 \<Rightarrow> u32"
  csr :: csrs_t
  clic_vector_pc :: u32
  clic_vector_valid :: bool
  priv_mode :: u32
  compressed :: bool
  last_csr_sepc :: u32
  dtlb :: "u32 \<Rightarrow> tlb_entry_t"
  itlb :: "u32 \<Rightarrow> tlb_entry_t"
  timer_offset :: u64
  attr :: attr_t
  glob :: globals_t
  vu :: vunit_t

section \<open>Register files\<close>

definition set_X :: "u8 \<Rightarrow> u32 \<Rightarrow> riscv_t \<Rightarrow> riscv_t" where
  "set_X r v rv = rv\<lparr>X := (X rv)(r := v)\<rparr>"

definition set_F :: "u8 \<Rightarrow> u32 \<Rightarrow> riscv_t \<Rightarrow> riscv_t" where
  "set_F r v rv = rv\<lparr>F := (F rv)(r := v)\<rparr>"

lemma X_set_X [simp]: "X (set_X r v rv) = (X rv)(r := v)"
  by (simp add: set_X_def)

lemma F_set_F [simp]: "F (set_F r v rv) = (F rv)(r := v)"
  by (simp add: set_F_def)

lemma set_X_frame [simp]:
  "F (set_X r v rv) = F rv" "csr (set_X r v rv) = csr rv" "PC (set_X r v rv) = PC rv"
  "glob (set_X r v rv) = glob rv" "attr (set_X r v rv) = attr rv"
  "is_trapped (set_X r v rv) = is_trapped rv" "priv_mode (set_X r v rv) = priv_mode rv"
  "lr_valid (set_X r v rv) = lr_valid rv" "lr_addr (set_X r v rv) = lr_addr rv"
  "dtlb (set_X r v rv) = dtlb rv" "itlb (set_X r v rv) = itlb rv"
  by (simp_all add: set_X_def)

lemma set_X_same [simp]: "set_X r (X rv r) rv = rv"
  by (simp add: set_X_def)

lemma set_X_twice [simp]: "set_X r v (set_X r w rv) = set_X r v rv"
  by (simp add: set_X_def)

lemma set_X_swap: "r \<noteq> s \<Longrightarrow> set_X r v (set_X s w rv) = set_X s w (set_X r v rv)"
  by (simp add: set_X_def fun_upd_twist)

lemma set_F_frame [simp]:
  "X (set_F r v rv) = X rv" "csr (set_F r v rv) = csr rv" "PC (set_F r v rv) = PC rv"
  "glob (set_F r v rv) = glob rv" "attr (set_F r v rv) = attr rv"
  "is_trapped (set_F r v rv) = is_trapped rv"
  by (simp_all add: set_F_def)

interpretation x_regs: cells "\<lambda>r rv. X rv r" set_X
  by unfold_locales simp_all

interpretation f_regs: cells "\<lambda>r rv. F rv r" set_F
  by unfold_locales (simp_all add: set_F_def)

section \<open>File-scope variables\<close>

definition set_glob :: "(globals_t \<Rightarrow> globals_t) \<Rightarrow> riscv_t \<Rightarrow> riscv_t" where
  "set_glob f rv = rv\<lparr>glob := f (glob rv)\<rparr>"

lemma set_glob_frame [simp]:
  "X (set_glob f rv) = X rv" "F (set_glob f rv) = F rv" "csr (set_glob f rv) = csr rv"
  "PC (set_glob f rv) = PC rv" "attr (set_glob f rv) = attr rv" "glob (set_glob f rv) = f (glob rv)"
  "is_trapped (set_glob f rv) = is_trapped rv" "priv_mode (set_glob f rv) = priv_mode rv"
  "dtlb (set_glob f rv) = dtlb rv" "itlb (set_glob f rv) = itlb rv"
  by (simp_all add: set_glob_def)

section \<open>The I/O interface\<close>

text \<open>
  \<open>riscv_io_t\<close>: the callbacks through which the interpreter reaches memory and the system layer. A
  callback may change the whole hart (a page fault runs the guest's trap handler) and may stop the
  emulator, so its result is an \<open>outcome\<close>.
\<close>

record riscv_io_t =
  mem_ifetch :: "riscv_t \<Rightarrow> u32 \<Rightarrow> (riscv_t \<times> u32) outcome"
  mem_read_w :: "riscv_t \<Rightarrow> u32 \<Rightarrow> (riscv_t \<times> u32) outcome"
  mem_read_s :: "riscv_t \<Rightarrow> u32 \<Rightarrow> (riscv_t \<times> u16) outcome"
  mem_read_b :: "riscv_t \<Rightarrow> u32 \<Rightarrow> (riscv_t \<times> u8) outcome"
  mem_write_w :: "riscv_t \<Rightarrow> u32 \<Rightarrow> u32 \<Rightarrow> riscv_t outcome"
  mem_write_s :: "riscv_t \<Rightarrow> u32 \<Rightarrow> u16 \<Rightarrow> riscv_t outcome"
  mem_write_b :: "riscv_t \<Rightarrow> u32 \<Rightarrow> u8 \<Rightarrow> riscv_t outcome"
  on_ecall :: "riscv_t \<Rightarrow> riscv_t outcome"
  on_ebreak :: "riscv_t \<Rightarrow> riscv_t outcome"
  on_trap :: "riscv_t \<Rightarrow> riscv_t outcome"

section \<open>Privilege modes and trap codes\<close>

definition RV_PRIV_U_MODE :: u32 where [simp]: "RV_PRIV_U_MODE = 0"
definition RV_PRIV_S_MODE :: u32 where [simp]: "RV_PRIV_S_MODE = 1"
definition RV_PRIV_M_MODE :: u32 where [simp]: "RV_PRIV_M_MODE = 3"

definition RV_PRIV_IS_U_OR_S_MODE :: "riscv_t \<Rightarrow> bool" where
  "RV_PRIV_IS_U_OR_S_MODE rv \<longleftrightarrow> priv_mode rv \<le> RV_PRIV_S_MODE"

definition ILLEGAL_INSN :: u32 where [simp]: "ILLEGAL_INSN = 2"
definition BREAKPOINT :: u32 where [simp]: "BREAKPOINT = 3"
definition LOAD_MISALIGNED :: u32 where [simp]: "LOAD_MISALIGNED = 4"
definition STORE_MISALIGNED :: u32 where [simp]: "STORE_MISALIGNED = 6"
definition PAGEFAULT_INSN :: u32 where [simp]: "PAGEFAULT_INSN = 12"
definition PAGEFAULT_LOAD :: u32 where [simp]: "PAGEFAULT_LOAD = 13"
definition PAGEFAULT_STORE :: u32 where [simp]: "PAGEFAULT_STORE = 15"
definition ECALL_U :: u32 where [simp]: "ECALL_U = 8"

text \<open>\<open>SET_CAUSE_AND_TVAL_THEN_TRAP\<close> up to its call of \<open>on_trap\<close>, and the whole macro.\<close>

definition set_cause_and_tval :: "u32 \<Rightarrow> u32 \<Rightarrow> riscv_t \<Rightarrow> riscv_t" where
  "set_cause_and_tval cause tval rv0 =
    (let rv = (if cause \<noteq> ECALL_U then rv0\<lparr>is_trapped := True\<rparr> else rv0)
     in if RV_PRIV_IS_U_OR_S_MODE rv
        then rv\<lparr>csr := (csr rv)\<lparr>csr_scause := cause, csr_stval := tval\<rparr>\<rparr>
        else rv\<lparr>csr := (csr rv)\<lparr>csr_mcause := cause, csr_mtval := tval\<rparr>\<rparr>)"

definition SET_CAUSE_AND_TVAL_THEN_TRAP ::
    "riscv_io_t \<Rightarrow> u32 \<Rightarrow> u32 \<Rightarrow> riscv_t \<Rightarrow> riscv_t outcome" where
  "SET_CAUSE_AND_TVAL_THEN_TRAP io cause tval rv = on_trap io (set_cause_and_tval cause tval rv)"

end
