(* ===== verification/Tlb.thy ===== *)
theory Tlb imports Hart begin

text \<open>
  The translation lookaside buffers of \<open>src/src/system.c\<close>: flushing, lookup and population of the
  direct-mapped data and instruction TLBs.
\<close>

section \<open>Constants\<close>

definition PTE_V :: u32 where [simp]: "PTE_V = 0x01"
definition PTE_R :: u32 where [simp]: "PTE_R = 0x02"
definition PTE_W :: u32 where [simp]: "PTE_W = 0x04"
definition PTE_X :: u32 where [simp]: "PTE_X = 0x08"
definition PTE_U :: u32 where [simp]: "PTE_U = 0x10"
definition PTE_A :: u32 where [simp]: "PTE_A = 0x40"
definition PTE_D :: u32 where [simp]: "PTE_D = 0x80"

definition TLB_MASK :: u32 where [simp]: "TLB_MASK = 63"
definition TLB_PAGE_LEVEL_SUPER :: u8 where [simp]: "TLB_PAGE_LEVEL_SUPER = 1"

definition vpn_of :: "u32 \<Rightarrow> u32" where
  "vpn_of vaddr = drop_bit 12 vaddr"

definition tlb_index :: "u32 \<Rightarrow> u32" where
  "tlb_index vaddr = vpn_of vaddr AND TLB_MASK"

section \<open>Page table entries in guest memory\<close>

text \<open>A \<open>pte_t *\<close> points into guest RAM; it is the physical address of the entry. \<open>pte_set\<close> is
  \<open>*pte |= bits\<close>.\<close>

definition pte_at :: "riscv_t \<Rightarrow> u32 \<Rightarrow> u32" where
  "pte_at rv a = memory_read_w (ram (attr rv)) a"

definition set_ram :: "memory_t \<Rightarrow> riscv_t \<Rightarrow> riscv_t" where
  "set_ram m rv = rv\<lparr>attr := (attr rv)\<lparr>ram := m\<rparr>\<rparr>"

definition pte_set :: "u32 \<Rightarrow> u32 \<Rightarrow> riscv_t \<Rightarrow> riscv_t" where
  "pte_set a bits rv = set_ram (memory_write_w a (pte_at rv a OR bits) (ram (attr rv))) rv"

section \<open>Flushing\<close>

definition mmu_tlb_flush_all :: "riscv_t \<Rightarrow> riscv_t" where
  "mmu_tlb_flush_all rv = rv\<lparr>dtlb := (\<lambda>_. zero_tlb_entry), itlb := (\<lambda>_. zero_tlb_entry)\<rparr>"

definition mmu_tlb_flush :: "u32 \<Rightarrow> riscv_t \<Rightarrow> riscv_t" where
  "mmu_tlb_flush vaddr rv0 =
    (let vpn = vpn_of vaddr; idx = tlb_index vaddr;
         d = dtlb rv0 idx;
         rv = (if tlb_valid d \<noteq> 0 \<and> tlb_vpn d = vpn
               then rv0\<lparr>dtlb := (dtlb rv0)(idx := d\<lparr>tlb_valid := 0\<rparr>)\<rparr> else rv0);
         i = itlb rv idx
     in if tlb_valid i \<noteq> 0 \<and> tlb_vpn i = vpn
        then rv\<lparr>itlb := (itlb rv)(idx := i\<lparr>tlb_valid := 0\<rparr>)\<rparr> else rv)"

section \<open>Lookup\<close>

definition page_offset :: "u8 \<Rightarrow> u32 \<Rightarrow> u32" where
  "page_offset level vaddr =
    (if level = TLB_PAGE_LEVEL_SUPER then take_bit 22 vaddr else take_bit 12 vaddr)"

text \<open>The result is the physical address with C's \<open>*hit\<close> and the hart, whose page table entry and
  cached dirty bit a first write through the entry sets.\<close>

definition dtlb_lookup :: "riscv_t \<Rightarrow> u32 \<Rightarrow> bool \<Rightarrow> u32 \<times> bool \<times> riscv_t" where
  "dtlb_lookup rv0 vaddr write =
    (let vpn = vpn_of vaddr; idx = tlb_index vaddr; entry = dtlb rv0 idx
     in if tlb_valid entry \<noteq> 0 \<and> tlb_vpn entry = vpn then
          (let needed = (ucast (if write then PTE_W else PTE_R) :: u8)
           in if tlb_perm entry AND needed = 0 then (0, False, rv0)
              else
                (let rv = (if write \<and> tlb_dirty entry = 0
                           then (pte_set (tlb_pte_addr entry) PTE_D rv0)
                                  \<lparr>dtlb := (dtlb rv0)(idx := entry\<lparr>tlb_dirty := 1\<rparr>)\<rparr>
                           else rv0)
                 in (tlb_ppn entry OR page_offset (tlb_level entry) vaddr, True, rv)))
        else (0, False, rv0))"

definition itlb_lookup :: "riscv_t \<Rightarrow> u32 \<Rightarrow> u32 \<times> bool" where
  "itlb_lookup rv vaddr =
    (let vpn = vpn_of vaddr; entry = itlb rv (tlb_index vaddr)
     in if tlb_valid entry \<noteq> 0 \<and> tlb_vpn entry = vpn then
          (if tlb_perm entry AND ucast PTE_X = 0 then (0, False)
           else (tlb_ppn entry OR page_offset (tlb_level entry) vaddr, True))
        else (0, False))"

section \<open>Population\<close>

definition pte_ppn :: "u32 \<Rightarrow> u32" where
  "pte_ppn pte = push_bit 12 (drop_bit 10 pte)"

definition tlb_entry_for :: "u32 \<Rightarrow> u32 \<Rightarrow> u32 \<Rightarrow> u32 \<Rightarrow> tlb_entry_t" where
  "tlb_entry_for vaddr pte_addr pte level =
    \<lparr>tlb_vpn = vpn_of vaddr, tlb_ppn = pte_ppn pte, tlb_pte_addr = pte_addr,
     tlb_perm = ucast (pte AND (PTE_R OR PTE_W OR PTE_X OR PTE_U)), tlb_valid = 1,
     tlb_dirty = (if pte AND PTE_D \<noteq> 0 then 1 else 0), tlb_level = ucast level\<rparr>"

definition dtlb_populate :: "u32 \<Rightarrow> u32 \<Rightarrow> u32 \<Rightarrow> riscv_t \<Rightarrow> riscv_t" where
  "dtlb_populate vaddr pte_addr level rv =
    rv\<lparr>dtlb := (dtlb rv)(tlb_index vaddr := tlb_entry_for vaddr pte_addr (pte_at rv pte_addr) level)\<rparr>"

definition itlb_populate :: "u32 \<Rightarrow> u32 \<Rightarrow> u32 \<Rightarrow> riscv_t \<Rightarrow> riscv_t" where
  "itlb_populate vaddr pte_addr level rv =
    rv\<lparr>itlb := (itlb rv)(tlb_index vaddr := tlb_entry_for vaddr pte_addr (pte_at rv pte_addr) level)\<rparr>"

section \<open>Laws\<close>

text \<open>\<open>cached\<close>: the TLB holds a valid entry for the page of an address.\<close>

definition dtlb_cached :: "riscv_t \<Rightarrow> u32 \<Rightarrow> bool" where
  "dtlb_cached rv vaddr \<longleftrightarrow>
    tlb_valid (dtlb rv (tlb_index vaddr)) \<noteq> 0 \<and> tlb_vpn (dtlb rv (tlb_index vaddr)) = vpn_of vaddr"

definition itlb_cached :: "riscv_t \<Rightarrow> u32 \<Rightarrow> bool" where
  "itlb_cached rv vaddr \<longleftrightarrow>
    tlb_valid (itlb rv (tlb_index vaddr)) \<noteq> 0 \<and> tlb_vpn (itlb rv (tlb_index vaddr)) = vpn_of vaddr"

lemma flush_all_cached [simp]:
  "\<not> dtlb_cached (mmu_tlb_flush_all rv) v" "\<not> itlb_cached (mmu_tlb_flush_all rv) v"
  by (simp_all add: dtlb_cached_def itlb_cached_def mmu_tlb_flush_all_def zero_tlb_entry_def)

lemma flush_all_frame [simp]:
  "csr (mmu_tlb_flush_all rv) = csr rv" "X (mmu_tlb_flush_all rv) = X rv"
  "attr (mmu_tlb_flush_all rv) = attr rv" "glob (mmu_tlb_flush_all rv) = glob rv"
  "PC (mmu_tlb_flush_all rv) = PC rv"
  by (simp_all add: mmu_tlb_flush_all_def)

lemma dtlb_miss: "\<not> dtlb_cached rv v \<Longrightarrow> dtlb_lookup rv v w = (0, False, rv)"
  by (auto simp: dtlb_lookup_def dtlb_cached_def Let_def)

lemma itlb_miss: "\<not> itlb_cached rv v \<Longrightarrow> itlb_lookup rv v = (0, False)"
  by (auto simp: itlb_lookup_def itlb_cached_def Let_def)

text \<open>A selective flush removes exactly the page of its address from both TLBs.\<close>

lemma flush_cached:
  "dtlb_cached (mmu_tlb_flush v rv) u \<longleftrightarrow> dtlb_cached rv u \<and> vpn_of u \<noteq> vpn_of v"
  "itlb_cached (mmu_tlb_flush v rv) u \<longleftrightarrow> itlb_cached rv u \<and> vpn_of u \<noteq> vpn_of v"
  by (auto simp: mmu_tlb_flush_def dtlb_cached_def itlb_cached_def tlb_index_def Let_def)

text \<open>What a lookup returns after a population.\<close>

lemma dtlb_populate_cached [simp]: "dtlb_cached (dtlb_populate v a l rv) v"
  by (simp add: dtlb_cached_def dtlb_populate_def tlb_entry_for_def)

lemma itlb_populate_cached [simp]: "itlb_cached (itlb_populate v a l rv) v"
  by (simp add: itlb_cached_def itlb_populate_def tlb_entry_for_def)

lemma populate_evicts:
  "dtlb_cached (dtlb_populate v a l rv) u \<longleftrightarrow>
    (if tlb_index u = tlb_index v then vpn_of u = vpn_of v else dtlb_cached rv u)"
  by (auto simp: dtlb_cached_def dtlb_populate_def tlb_entry_for_def)

end
