(* ===== verification/Mmu.thy ===== *)
theory Mmu imports Tlb begin

text \<open>
  Address translation of \<open>src/src/system.c\<close>: the Sv32 page walk, the permission check that raises
  page faults, \<open>mmu_translate\<close> with its retry after the guest's handler ran, and the memory
  callbacks of \<open>mmu_io\<close>. The build is the one with \<open>ELF_LOADER\<close>: no memory-mapped devices, and
  a translated address outside RAM runs into \<open>__UNREACHABLE\<close>. A \<open>pte_t *\<close> is the physical
  address of the entry; \<open>NULL\<close> is \<open>None\<close>.
\<close>

section \<open>The page walk\<close>

definition ppn_is_valid :: "riscv_t \<Rightarrow> u32 \<Rightarrow> bool" where
  "ppn_is_valid rv ppn \<longleftrightarrow> ppn < ucast (vm_mem_size (attr rv) div 4096)"

definition PAGE_TABLE :: "riscv_t \<Rightarrow> u32 \<Rightarrow> u32 option" where
  "PAGE_TABLE rv ppn = (if ppn_is_valid rv ppn then Some (push_bit 12 ppn) else None)"

definition vpn_part :: "nat \<Rightarrow> u32 \<Rightarrow> u32" where
  "vpn_part i vaddr = take_bit 10 (drop_bit (i * 10) (drop_bit 12 vaddr))"

text \<open>The leaf encodings of the four low bits (XWRV): \<open>RO\<close>, \<open>RW\<close>, \<open>EO\<close>, \<open>RX\<close>, \<open>RWX\<close> pages.\<close>

definition leaf_encodings :: "u8 list" where
  "leaf_encodings = [0b0011, 0b0111, 0b1001, 0b1011, 0b1111]"

text \<open>One turn of the loop with \<open>n\<close> turns left (\<open>i = n - 1\<close>); the result is the address of the leaf
  entry with its level.\<close>

fun mmu_walk_loop :: "riscv_t \<Rightarrow> u32 \<Rightarrow> nat \<Rightarrow> u32 \<Rightarrow> (u32 \<times> u32) option" where
  "mmu_walk_loop rv vaddr 0 page_table = None"
| "mmu_walk_loop rv vaddr (Suc i) page_table =
    (let level = 2 - of_nat i;
         pte = page_table + 4 * vpn_part i vaddr;
         xwrv = (ucast (take_bit 4 (pte_at rv pte)) :: u8);
         ppn = drop_bit 10 (pte_at rv pte)
     in if xwrv = 0b0001 then
          (case PAGE_TABLE rv ppn of
             None \<Rightarrow> None
           | Some page_table \<Rightarrow> mmu_walk_loop rv vaddr i page_table)
        else if xwrv \<in> set leaf_encodings then
          (if level = 1 \<and> take_bit 10 ppn \<noteq> 0 then None else Some (pte, level))
        else None)"

definition mmu_walk :: "riscv_t \<Rightarrow> u32 \<Rightarrow> (u32 \<times> u32) option" where
  "mmu_walk rv vaddr =
    (case PAGE_TABLE rv (take_bit 22 (csr_satp (csr rv))) of
       None \<Rightarrow> None
     | Some page_table \<Rightarrow> mmu_walk_loop rv vaddr 2 page_table)"

section \<open>The permission check\<close>

definition SSTATUS_SUM :: u32 where [simp]: "SSTATUS_SUM = 0x40000"
definition SSTATUS_MXR :: u32 where [simp]: "SSTATUS_MXR = 0x80000"

text \<open>The conditions of \<open>MMU_FAULT_CHECK_IMPL\<close> in their order; the argument is the entry the walk
  found. \<open>True\<close> when none of them raises a fault.\<close>

definition mmu_permits :: "riscv_t \<Rightarrow> u32 option \<Rightarrow> u32 \<Rightarrow> bool" where
  "mmu_permits rv pte access_bits =
    (case pte of
       None \<Rightarrow> False
     | Some a \<Rightarrow>
        (let e = pte_at rv a; mxr = SSTATUS_MXR AND csr_sstatus (csr rv) \<noteq> 0
         in if e AND PTE_V = 0 then False
            else if e AND access_bits = 0 then False
            else if (\<not> mxr \<and> e AND PTE_R = 0 \<and> access_bits = PTE_R)
                  \<or> (mxr \<and> (e AND PTE_R) OR (e AND PTE_X) = 0 \<and> access_bits = PTE_R) then False
            else if priv_mode rv = RV_PRIV_S_MODE \<and> SSTATUS_SUM AND csr_sstatus (csr rv) = 0
                  \<and> e AND PTE_U \<noteq> 0 then False
            else True))"

definition fault_cause :: "u32 \<Rightarrow> u32 option" where
  "fault_cause access_bits = switch access_bits
    [(PTE_R, PAGEFAULT_LOAD), (PTE_W, PAGEFAULT_STORE), (PTE_X, PAGEFAULT_INSN)]"

definition mmu_fault_check ::
    "riscv_io_t \<Rightarrow> riscv_t \<Rightarrow> u32 option \<Rightarrow> u32 \<Rightarrow> u32 \<Rightarrow> (riscv_t \<times> bool) outcome" where
  "mmu_fault_check io rv pte vaddr access_bits =
    (case fault_cause access_bits of
       None \<Rightarrow> Inl Unreachable_branch
     | Some cause \<Rightarrow>
        if mmu_permits rv pte access_bits then Inr (rv, True)
        else obind (SET_CAUSE_AND_TVAL_THEN_TRAP io cause vaddr rv) (\<lambda>rv. Inr (rv, False)))"

section \<open>Translation\<close>

definition get_ppn_and_offset :: "u32 \<Rightarrow> u32 \<Rightarrow> u32 \<Rightarrow> u32" where
  "get_ppn_and_offset pte level vaddr =
    pte_ppn pte OR (if level = 1 then take_bit 22 vaddr else take_bit 12 vaddr)"

definition request_retranslation :: "riscv_t \<Rightarrow> riscv_t" where
  "request_retranslation = set_glob (\<lambda>g. g\<lparr>need_retranslate := True, need_handle_signal := True\<rparr>)"

text \<open>The accessed and dirty bits, the TLB entry and the address, once an entry is accepted.\<close>

definition mark_accessed :: "u32 \<Rightarrow> riscv_t \<Rightarrow> riscv_t" where
  "mark_accessed pte rv = (if pte_at rv pte AND PTE_A = 0 then pte_set pte PTE_A rv else rv)"

definition mark_dirty :: "bool \<Rightarrow> u32 \<Rightarrow> riscv_t \<Rightarrow> riscv_t" where
  "mark_dirty rw pte rv =
    (if \<not> rw \<and> pte_at rv pte AND PTE_D = 0 then pte_set pte PTE_D rv else rv)"

definition finish_translation :: "u32 \<Rightarrow> bool \<Rightarrow> u32 \<times> u32 \<Rightarrow> riscv_t \<Rightarrow> riscv_t \<times> u32" where
  "finish_translation vaddr rw leaf rv =
    (let (pte, level) = leaf;
         rv = mark_dirty rw pte (mark_accessed pte rv);
         rv = dtlb_populate vaddr pte level rv
     in (rv, get_ppn_and_offset (pte_at rv pte) level vaddr))"

definition mmu_translate :: "riscv_io_t \<Rightarrow> riscv_t \<Rightarrow> u32 \<Rightarrow> bool \<Rightarrow> (riscv_t \<times> u32) outcome" where
  "mmu_translate io rv vaddr rw =
    (if csr_satp (csr rv) = 0 then Inr (rv, vaddr)
     else case dtlb_lookup rv vaddr (\<not> rw) of
       (paddr, True, rv) \<Rightarrow> Inr (rv, paddr)
     | (_, False, _) \<Rightarrow>
        (let bits = (if rw then PTE_R else PTE_W); leaf = mmu_walk rv vaddr
         in obind (mmu_fault_check io rv (map_option fst leaf) vaddr bits) (\<lambda>(rv, ok).
            if ok then Inr (finish_translation vaddr rw (the leaf) rv)
            else
              (let leaf = mmu_walk rv vaddr
               in obind (mmu_fault_check io rv (map_option fst leaf) vaddr bits) (\<lambda>(rv, ok).
                  case leaf of
                    None \<Rightarrow> Inr (request_retranslation rv, 0)
                  | Some l \<Rightarrow>
                      if \<not> ok then Inr (request_retranslation rv, 0)
                      else Inr (finish_translation vaddr rw l rv))))))"

section \<open>The memory callbacks of \<open>mmu_io\<close>\<close>

definition finish_ifetch :: "u32 \<Rightarrow> u32 \<times> u32 \<Rightarrow> riscv_t \<Rightarrow> riscv_t \<times> u32" where
  "finish_ifetch vaddr leaf rv =
    (let (pte, level) = leaf;
         rv = mark_accessed pte rv;
         rv = itlb_populate vaddr pte level rv
     in (rv, memory_ifetch (ram (attr rv)) (get_ppn_and_offset (pte_at rv pte) level vaddr)))"

definition mmu_ifetch :: "riscv_io_t \<Rightarrow> riscv_t \<Rightarrow> u32 \<Rightarrow> (riscv_t \<times> u32) outcome" where
  "mmu_ifetch io rv vaddr =
    (if csr_satp (csr rv) = 0 then Inr (rv, memory_ifetch (ram (attr rv)) vaddr)
     else if need_retranslate (glob rv) then Inr (rv, 0)
     else case itlb_lookup rv vaddr of
       (paddr, True) \<Rightarrow> Inr (rv, memory_ifetch (ram (attr rv)) paddr)
     | (_, False) \<Rightarrow>
        (let leaf = mmu_walk rv vaddr
         in obind (mmu_fault_check io rv (map_option fst leaf) vaddr PTE_X) (\<lambda>(rv, ok).
            if ok then Inr (finish_ifetch vaddr (the leaf) rv)
            else case mmu_walk rv vaddr of
                None \<Rightarrow> Inr (request_retranslation rv, 0)
              | Some l \<Rightarrow>
                  obind (mmu_fault_check io rv (Some (fst l)) vaddr PTE_X) (\<lambda>(rv, ok).
                  if \<not> ok then Inr (request_retranslation rv, 0)
                  else Inr (finish_ifetch vaddr l rv)))))"

definition mmu_read_w :: "riscv_io_t \<Rightarrow> riscv_t \<Rightarrow> u32 \<Rightarrow> (riscv_t \<times> u32) outcome" where
  "mmu_read_w io rv vaddr =
    obind (mmu_translate io rv vaddr True) (\<lambda>(rv, addr).
      if need_retranslate (glob rv) then Inr (rv, 0)
      else if GUEST_RAM_CONTAINS (ram (attr rv)) addr 4
      then Inr (rv, memory_read_w (ram (attr rv)) addr)
      else Inl Unreachable_branch)"

definition mmu_read_s :: "riscv_io_t \<Rightarrow> riscv_t \<Rightarrow> u32 \<Rightarrow> (riscv_t \<times> u16) outcome" where
  "mmu_read_s io rv vaddr =
    obind (mmu_translate io rv vaddr True) (\<lambda>(rv, addr).
      if need_retranslate (glob rv) then Inr (rv, 0)
      else if GUEST_RAM_CONTAINS (ram (attr rv)) addr 2
      then Inr (rv, memory_read_s (ram (attr rv)) addr)
      else Inl Unreachable_branch)"

definition mmu_read_b :: "riscv_io_t \<Rightarrow> riscv_t \<Rightarrow> u32 \<Rightarrow> (riscv_t \<times> u8) outcome" where
  "mmu_read_b io rv vaddr =
    obind (mmu_translate io rv vaddr True) (\<lambda>(rv, addr).
      if need_retranslate (glob rv) then Inr (rv, 0)
      else if GUEST_RAM_CONTAINS (ram (attr rv)) addr 1
      then Inr (rv, memory_read_b (ram (attr rv)) addr)
      else Inl Unreachable_branch)"

definition mmu_write_w :: "riscv_io_t \<Rightarrow> riscv_t \<Rightarrow> u32 \<Rightarrow> u32 \<Rightarrow> riscv_t outcome" where
  "mmu_write_w io rv vaddr v =
    obind (mmu_translate io rv vaddr False) (\<lambda>(rv, addr).
      if need_retranslate (glob rv) then Inr rv
      else if GUEST_RAM_CONTAINS (ram (attr rv)) addr 4
      then Inr (set_ram (memory_write_w addr v (ram (attr rv))) rv)
      else Inl Unreachable_branch)"

definition mmu_write_s :: "riscv_io_t \<Rightarrow> riscv_t \<Rightarrow> u32 \<Rightarrow> u16 \<Rightarrow> riscv_t outcome" where
  "mmu_write_s io rv vaddr v =
    obind (mmu_translate io rv vaddr False) (\<lambda>(rv, addr).
      if need_retranslate (glob rv) then Inr rv
      else if GUEST_RAM_CONTAINS (ram (attr rv)) addr 2
      then Inr (set_ram (memory_write_s addr v (ram (attr rv))) rv)
      else Inl Unreachable_branch)"

definition mmu_write_b :: "riscv_io_t \<Rightarrow> riscv_t \<Rightarrow> u32 \<Rightarrow> u8 \<Rightarrow> riscv_t outcome" where
  "mmu_write_b io rv vaddr v =
    obind (mmu_translate io rv vaddr False) (\<lambda>(rv, addr).
      if need_retranslate (glob rv) then Inr rv
      else if GUEST_RAM_CONTAINS (ram (attr rv)) addr 1
      then Inr (set_ram (memory_write_b addr v (ram (attr rv))) rv)
      else Inl Unreachable_branch)"

section \<open>The untranslated bus\<close>

text \<open>With translation off and no retranslation pending the callbacks are a bus over guest RAM.\<close>

definition bare :: "riscv_t \<Rightarrow> bool" where
  "bare rv \<longleftrightarrow> csr_satp (csr rv) = 0 \<and> \<not> need_retranslate (glob rv)"

lemma set_ram_frame [simp]:
  "csr (set_ram m rv) = csr rv" "glob (set_ram m rv) = glob rv" "X (set_ram m rv) = X rv"
  "ram (attr (set_ram m rv)) = m" "allow_misalign (attr (set_ram m rv)) = allow_misalign (attr rv)"
  "vm_mem_size (attr (set_ram m rv)) = vm_mem_size (attr rv)" "PC (set_ram m rv) = PC rv"
  "is_trapped (set_ram m rv) = is_trapped rv" "priv_mode (set_ram m rv) = priv_mode rv"
  "dtlb (set_ram m rv) = dtlb rv" "itlb (set_ram m rv) = itlb rv"
  by (simp_all add: set_ram_def)

lemma bare_accesses:
  assumes "bare rv"
  shows "mmu_read_w io rv a = (if GUEST_RAM_CONTAINS (ram (attr rv)) a 4
      then Inr (rv, memory_read_w (ram (attr rv)) a) else Inl Unreachable_branch)"
    and "mmu_read_s io rv a = (if GUEST_RAM_CONTAINS (ram (attr rv)) a 2
      then Inr (rv, memory_read_s (ram (attr rv)) a) else Inl Unreachable_branch)"
    and "mmu_read_b io rv a = (if GUEST_RAM_CONTAINS (ram (attr rv)) a 1
      then Inr (rv, memory_read_b (ram (attr rv)) a) else Inl Unreachable_branch)"
    and "mmu_write_w io rv a v = (if GUEST_RAM_CONTAINS (ram (attr rv)) a 4
      then Inr (set_ram (memory_write_w a v (ram (attr rv))) rv) else Inl Unreachable_branch)"
    and "mmu_write_s io rv a h = (if GUEST_RAM_CONTAINS (ram (attr rv)) a 2
      then Inr (set_ram (memory_write_s a h (ram (attr rv))) rv) else Inl Unreachable_branch)"
    and "mmu_write_b io rv a b = (if GUEST_RAM_CONTAINS (ram (attr rv)) a 1
      then Inr (set_ram (memory_write_b a b (ram (attr rv))) rv) else Inl Unreachable_branch)"
  using assms
  by (simp_all add: bare_def mmu_translate_def mmu_read_w_def mmu_read_s_def mmu_read_b_def
      mmu_write_w_def mmu_write_s_def mmu_write_b_def)

lemma bare_set_ram [simp]: "bare (set_ram m rv) = bare rv"
  by (simp add: bare_def)

interpretation mmu_w: bus "mmu_read_w io" "mmu_write_w io"
  "\<lambda>rv a. bare rv \<and> GUEST_RAM_CONTAINS (ram (attr rv)) a 4" "\<lambda>a b. disjoint a 4 b 4" for io
  by unfold_locales
    (auto simp: bare_accesses GUEST_RAM_CONTAINS_def memory_read_write_w_disjoint split: if_splits)

interpretation mmu_s: bus "mmu_read_s io" "mmu_write_s io"
  "\<lambda>rv a. bare rv \<and> GUEST_RAM_CONTAINS (ram (attr rv)) a 2" "\<lambda>a b. disjoint a 2 b 2" for io
  by unfold_locales
    (auto simp: bare_accesses GUEST_RAM_CONTAINS_def memory_read_write_s_disjoint split: if_splits)

interpretation mmu_b: bus "mmu_read_b io" "mmu_write_b io"
  "\<lambda>rv a. bare rv \<and> GUEST_RAM_CONTAINS (ram (attr rv)) a 1" "\<lambda>a b. disjoint a 1 b 1" for io
  by unfold_locales
    (auto simp: bare_accesses GUEST_RAM_CONTAINS_def memory_read_write_b_disjoint split: if_splits)

text \<open>The callbacks of the system build over an environment that handles traps and calls.\<close>

definition with_mmu :: "riscv_io_t \<Rightarrow> riscv_io_t" where
  "with_mmu env =
    env\<lparr>mem_ifetch := mmu_ifetch env, mem_read_w := mmu_read_w env, mem_read_s := mmu_read_s env,
        mem_read_b := mmu_read_b env, mem_write_w := mmu_write_w env, mem_write_s := mmu_write_s env,
        mem_write_b := mmu_write_b env\<rparr>"

lemma with_mmu_simps [simp]:
  "mem_read_w (with_mmu env) = mmu_read_w env" "mem_read_s (with_mmu env) = mmu_read_s env"
  "mem_read_b (with_mmu env) = mmu_read_b env" "mem_write_w (with_mmu env) = mmu_write_w env"
  "mem_write_s (with_mmu env) = mmu_write_s env" "mem_write_b (with_mmu env) = mmu_write_b env"
  "on_trap (with_mmu env) = on_trap env" "on_ecall (with_mmu env) = on_ecall env"
  "on_ebreak (with_mmu env) = on_ebreak env" "mem_ifetch (with_mmu env) = mmu_ifetch env"
  by (simp_all add: with_mmu_def)

end
