(* ===== verification/Csr.thy ===== *)
theory Csr imports Tlb begin

text \<open>
  Control and status registers (\<open>src/src/emulate.c\<close>): \<open>csr_get_ptr\<close>, which maps a CSR number to a
  member of the hart, the synchronisation of the cycle counter and the three read-modify-write
  functions behind the Zicsr instructions. A C pointer to a member is a value of \<open>csr_ref\<close>, which
  \<open>csr_load\<close> and \<open>csr_store\<close> dereference; two references are equal when the C pointers are.
\<close>

section \<open>References\<close>

datatype (plugins only: code size) csr_ref =
    Mstatus | Mtvec | Mtvt | Hart_id | Mnxti | Mintstatus | Mintthresh | Misa
  | Medeleg | Mideleg | Mscratch | Mepc | Mcause | Mtval | Mip | Mie
  | Cycle_low | Cycle_high | Time_low | Time_high | Fcsr
  | Sstatus | Sie | Stvec | Scounteren | Sscratch | Sepc | Scause | Stval | Sip | Satp

fun csr_load :: "csr_ref \<Rightarrow> riscv_t \<Rightarrow> u32" where
  "csr_load Mstatus rv = csr_mstatus (csr rv)"
| "csr_load Mtvec rv = csr_mtvec (csr rv)"
| "csr_load Mtvt rv = csr_mtvt (csr rv)"
| "csr_load Hart_id rv = hart_id rv"
| "csr_load Mnxti rv = csr_mnxti (csr rv)"
| "csr_load Mintstatus rv = csr_mintstatus (csr rv)"
| "csr_load Mintthresh rv = csr_mintthresh (csr rv)"
| "csr_load Misa rv = csr_misa (csr rv)"
| "csr_load Medeleg rv = csr_medeleg (csr rv)"
| "csr_load Mideleg rv = csr_mideleg (csr rv)"
| "csr_load Mscratch rv = csr_mscratch (csr rv)"
| "csr_load Mepc rv = csr_mepc (csr rv)"
| "csr_load Mcause rv = csr_mcause (csr rv)"
| "csr_load Mtval rv = csr_mtval (csr rv)"
| "csr_load Mip rv = csr_mip (csr rv)"
| "csr_load Mie rv = csr_mie (csr rv)"
| "csr_load Cycle_low rv = ucast (csr_cycle (csr rv))"
| "csr_load Cycle_high rv = ucast (drop_bit 32 (csr_cycle (csr rv)))"
| "csr_load Time_low rv = csr_time0 (csr rv)"
| "csr_load Time_high rv = csr_time1 (csr rv)"
| "csr_load Fcsr rv = csr_fcsr (csr rv)"
| "csr_load Sstatus rv = csr_sstatus (csr rv)"
| "csr_load Sie rv = csr_sie (csr rv)"
| "csr_load Stvec rv = csr_stvec (csr rv)"
| "csr_load Scounteren rv = csr_scounteren (csr rv)"
| "csr_load Sscratch rv = csr_sscratch (csr rv)"
| "csr_load Sepc rv = csr_sepc (csr rv)"
| "csr_load Scause rv = csr_scause (csr rv)"
| "csr_load Stval rv = csr_stval (csr rv)"
| "csr_load Sip rv = csr_sip (csr rv)"
| "csr_load Satp rv = csr_satp (csr rv)"

text \<open>The two halves of the 64-bit counter (little endian).\<close>

definition set_low_half :: "u32 \<Rightarrow> u64 \<Rightarrow> u64" where
  "set_low_half v c = push_bit 32 (drop_bit 32 c) OR ucast v"

definition set_high_half :: "u32 \<Rightarrow> u64 \<Rightarrow> u64" where
  "set_high_half v c = push_bit 32 (ucast v) OR take_bit 32 c"

definition set_csr :: "(csrs_t \<Rightarrow> csrs_t) \<Rightarrow> riscv_t \<Rightarrow> riscv_t" where
  "set_csr f rv = rv\<lparr>csr := f (csr rv)\<rparr>"

fun csr_store :: "csr_ref \<Rightarrow> u32 \<Rightarrow> riscv_t \<Rightarrow> riscv_t" where
  "csr_store Mstatus v rv = set_csr (csr_mstatus_update (\<lambda>_. v)) rv"
| "csr_store Mtvec v rv = set_csr (csr_mtvec_update (\<lambda>_. v)) rv"
| "csr_store Mtvt v rv = set_csr (csr_mtvt_update (\<lambda>_. v)) rv"
| "csr_store Hart_id v rv = rv\<lparr>hart_id := v\<rparr>"
| "csr_store Mnxti v rv = set_csr (csr_mnxti_update (\<lambda>_. v)) rv"
| "csr_store Mintstatus v rv = set_csr (csr_mintstatus_update (\<lambda>_. v)) rv"
| "csr_store Mintthresh v rv = set_csr (csr_mintthresh_update (\<lambda>_. v)) rv"
| "csr_store Misa v rv = set_csr (csr_misa_update (\<lambda>_. v)) rv"
| "csr_store Medeleg v rv = set_csr (csr_medeleg_update (\<lambda>_. v)) rv"
| "csr_store Mideleg v rv = set_csr (csr_mideleg_update (\<lambda>_. v)) rv"
| "csr_store Mscratch v rv = set_csr (csr_mscratch_update (\<lambda>_. v)) rv"
| "csr_store Mepc v rv = set_csr (csr_mepc_update (\<lambda>_. v)) rv"
| "csr_store Mcause v rv = set_csr (csr_mcause_update (\<lambda>_. v)) rv"
| "csr_store Mtval v rv = set_csr (csr_mtval_update (\<lambda>_. v)) rv"
| "csr_store Mip v rv = set_csr (csr_mip_update (\<lambda>_. v)) rv"
| "csr_store Mie v rv = set_csr (csr_mie_update (\<lambda>_. v)) rv"
| "csr_store Cycle_low v rv = set_csr (csr_cycle_update (set_low_half v)) rv"
| "csr_store Cycle_high v rv = set_csr (csr_cycle_update (set_high_half v)) rv"
| "csr_store Time_low v rv = set_csr (csr_time0_update (\<lambda>_. v)) rv"
| "csr_store Time_high v rv = set_csr (csr_time1_update (\<lambda>_. v)) rv"
| "csr_store Fcsr v rv = set_csr (csr_fcsr_update (\<lambda>_. v)) rv"
| "csr_store Sstatus v rv = set_csr (csr_sstatus_update (\<lambda>_. v)) rv"
| "csr_store Sie v rv = set_csr (csr_sie_update (\<lambda>_. v)) rv"
| "csr_store Stvec v rv = set_csr (csr_stvec_update (\<lambda>_. v)) rv"
| "csr_store Scounteren v rv = set_csr (csr_scounteren_update (\<lambda>_. v)) rv"
| "csr_store Sscratch v rv = set_csr (csr_sscratch_update (\<lambda>_. v)) rv"
| "csr_store Sepc v rv = set_csr (csr_sepc_update (\<lambda>_. v)) rv"
| "csr_store Scause v rv = set_csr (csr_scause_update (\<lambda>_. v)) rv"
| "csr_store Stval v rv = set_csr (csr_stval_update (\<lambda>_. v)) rv"
| "csr_store Sip v rv = set_csr (csr_sip_update (\<lambda>_. v)) rv"
| "csr_store Satp v rv = set_csr (csr_satp_update (\<lambda>_. v)) rv"

section \<open>From CSR numbers to references\<close>

definition CSR_FFLAGS :: u32 where [simp]: "CSR_FFLAGS = 0x001"
definition CSR_FRM :: u32 where [simp]: "CSR_FRM = 0x002"
definition FFLAG_MASK :: u32 where [simp]: "FFLAG_MASK = 0x1F"

text \<open>The table of the \<open>switch\<close>.\<close>

definition csr_table :: "(u32 \<times> csr_ref) list" where
  "csr_table =
    [(0x300, Mstatus), (0x305, Mtvec), (0x307, Mtvt), (0xF14, Hart_id), (0x345, Mnxti),
     (0x346, Mintstatus), (0x347, Mintthresh), (0x301, Misa), (0x302, Medeleg), (0x303, Mideleg),
     (0x340, Mscratch), (0x341, Mepc), (0x342, Mcause), (0x343, Mtval), (0x344, Mip), (0x304, Mie),
     (0xC00, Cycle_low), (0xC80, Cycle_high), (0xC01, Time_low), (0xC81, Time_high),
     (0xC02, Cycle_low), (0xC82, Cycle_high), (0xB00, Cycle_low), (0xB80, Cycle_high),
     (0xB02, Cycle_low), (0xB82, Cycle_high), (0x802, Cycle_low), (0x7E2, Cycle_low),
     (0x001, Fcsr), (0x002, Fcsr), (0x003, Fcsr),
     (0x100, Sstatus), (0x104, Sie), (0x105, Stvec), (0x106, Scounteren), (0x140, Sscratch),
     (0x141, Sepc), (0x142, Scause), (0x143, Stval), (0x144, Sip), (0x180, Satp)]"

definition update_time :: "riscv_t \<Rightarrow> riscv_t" where
  "update_time rv0 =
    (let rv = rv0\<lparr>timer := csr_cycle (csr rv0) + timer_offset rv0\<rparr>
     in set_csr (\<lambda>c. c\<lparr>csr_time0 := ucast (timer rv AND 0xFFFFFFFF),
                       csr_time1 := ucast (drop_bit 32 (timer rv))\<rparr>) rv)"

definition csr_get_ptr :: "u32 \<Rightarrow> riscv_t \<Rightarrow> riscv_t \<times> csr_ref option" where
  "csr_get_ptr n rv =
    (let c = switch (n AND 0xFFF) csr_table
     in (if c = Some Time_low \<or> c = Some Time_high then update_time rv else rv, c))"

definition csr_sync_cycle :: "u32 \<Rightarrow> u64 \<Rightarrow> riscv_t \<Rightarrow> riscv_t" where
  "csr_sync_cycle n cycle rv =
    (if n AND 0xFFF \<in> {0xC00, 0xC80, 0xC02, 0xC82, 0xB00, 0xB80, 0xB02, 0xB82, 0xC01, 0xC81,
                        0x802, 0x7E2}
     then set_csr (csr_cycle_update (\<lambda>_. cycle)) rv else rv)"

section \<open>Read, modify, write\<close>

text \<open>What an instruction reads: the two floating-point views take their field out of \<open>fcsr\<close>. The
  test compares the unmasked number.\<close>

definition csr_view :: "u32 \<Rightarrow> u32 \<Rightarrow> u32" where
  "csr_view n out =
    (if n = CSR_FFLAGS then out AND FFLAG_MASK
     else if n = CSR_FRM then drop_bit 5 out AND 7 else out)"

text \<open>The part the three functions share: store the new value and flush the TLBs when \<open>satp\<close>
  changed.\<close>

definition csr_modify :: "(u32 \<Rightarrow> u32) \<Rightarrow> csr_ref \<Rightarrow> riscv_t \<Rightarrow> riscv_t" where
  "csr_modify f c rv0 =
    (let old = csr_load c rv0; rv = csr_store c (f old) rv0
     in if c = Satp \<and> csr_load c rv \<noteq> old then mmu_tlb_flush_all rv else rv)"

definition csr_csrrw :: "u32 \<Rightarrow> u32 \<Rightarrow> u64 \<Rightarrow> riscv_t \<Rightarrow> riscv_t \<times> u32" where
  "csr_csrrw n val cycle rv0 =
    (let rv1 = csr_sync_cycle n cycle rv0
     in case csr_get_ptr n rv1 of
          (rv, None) \<Rightarrow> (rv, 0)
        | (rv, Some c) \<Rightarrow>
            (let out = csr_view n (csr_load c rv);
                 rv = csr_modify (\<lambda>_. val) c rv
             in (if c = Satp then rv\<lparr>glob := (glob rv)\<lparr>need_clear_block_map := True\<rparr>\<rparr> else rv, out)))"

definition csr_csrrs :: "u32 \<Rightarrow> u32 \<Rightarrow> u64 \<Rightarrow> riscv_t \<Rightarrow> riscv_t \<times> u32" where
  "csr_csrrs n val cycle rv0 =
    (let rv1 = csr_sync_cycle n cycle rv0
     in case csr_get_ptr n rv1 of
          (rv, None) \<Rightarrow> (rv, 0)
        | (rv, Some c) \<Rightarrow> (csr_modify (\<lambda>old. old OR val) c rv, csr_view n (csr_load c rv)))"

definition csr_csrrc :: "u32 \<Rightarrow> u32 \<Rightarrow> u64 \<Rightarrow> riscv_t \<Rightarrow> riscv_t \<times> u32" where
  "csr_csrrc n val cycle rv0 =
    (let rv1 = csr_sync_cycle n cycle rv0
     in case csr_get_ptr n rv1 of
          (rv, None) \<Rightarrow> (rv, 0)
        | (rv, Some c) \<Rightarrow> (csr_modify (\<lambda>old. old AND NOT val) c rv, csr_view n (csr_load c rv)))"

section \<open>Laws\<close>

lemma set_csr_frame [simp]:
  "X (set_csr f rv) = X rv" "csr (set_csr f rv) = f (csr rv)" "PC (set_csr f rv) = PC rv"
  "attr (set_csr f rv) = attr rv" "glob (set_csr f rv) = glob rv" "dtlb (set_csr f rv) = dtlb rv"
  "itlb (set_csr f rv) = itlb rv" "F (set_csr f rv) = F rv" "hart_id (set_csr f rv) = hart_id rv"
  "is_trapped (set_csr f rv) = is_trapped rv" "priv_mode (set_csr f rv) = priv_mode rv"
  by (simp_all add: set_csr_def)

lemma set_halves:
  "ucast (set_low_half v c) = v"
  "ucast (drop_bit 32 (set_low_half v c)) = (ucast (drop_bit 32 c) :: u32)"
  "ucast (drop_bit 32 (set_high_half v c)) = v"
  "ucast (set_high_half v c) = (ucast c :: u32)"
  by (simp_all add: word32_eq_iff set_low_half_def set_high_half_def less_32_all word_bits)

lemma csr_load_store [simp]: "csr_load c (csr_store c v rv) = v"
  by (cases c) (simp_all add: set_halves)

lemma csr_store_load [simp]: "csr_store c (csr_load c rv) rv = rv"
proof -
  have low: "set_low_half (ucast w) w = w" and high: "set_high_half (ucast (drop_bit 32 w)) w = w"
    for w :: u64
    by (rule bit_word_eqI; force simp: set_low_half_def set_high_half_def word_bits)+
  show ?thesis
    by (cases c) (simp_all add: set_csr_def low high)
qed

lemma csr_load_store_other:
  "c \<noteq> d \<Longrightarrow> csr_load d (csr_store c v rv) = csr_load d rv"
  by (cases c; cases d; simp add: set_halves)

interpretation csrs: cells csr_load csr_store
  by unfold_locales (simp_all add: csr_load_store_other)

end
