(* ===== verification/Softfp.thy ===== *)
theory Softfp imports Csr begin

text \<open>
  The floating-point glue of \<open>src/src/softfp.h\<close>: classification, the accrued exception flags and the
  rounding mode. The Berkeley SoftFloat library is a submodule that is not part of the sources; it
  is the parameter \<open>softfloat_t\<close>. An operation of it gets the rounding mode its global variable
  holds and returns its result with the exception flags it raises, which the library ORs into
  \<open>softfloat_exceptionFlags\<close>.
\<close>

record softfloat_t =
  flag_invalid :: u8
  flag_infinite :: u8
  flag_overflow :: u8
  flag_underflow :: u8
  flag_inexact :: u8
  round_near_even :: u8
  round_minMag :: u8
  round_min :: u8
  round_max :: u8
  round_near_maxMag :: u8
  f32_mulAdd :: "u8 \<Rightarrow> u32 \<Rightarrow> u32 \<Rightarrow> u32 \<Rightarrow> u32 \<times> u8"
  f32_add :: "u8 \<Rightarrow> u32 \<Rightarrow> u32 \<Rightarrow> u32 \<times> u8"
  f32_sub :: "u8 \<Rightarrow> u32 \<Rightarrow> u32 \<Rightarrow> u32 \<times> u8"
  f32_mul :: "u8 \<Rightarrow> u32 \<Rightarrow> u32 \<Rightarrow> u32 \<times> u8"
  f32_div :: "u8 \<Rightarrow> u32 \<Rightarrow> u32 \<Rightarrow> u32 \<times> u8"
  f32_sqrt :: "u8 \<Rightarrow> u32 \<Rightarrow> u32 \<times> u8"
  f32_isSignalingNaN :: "u32 \<Rightarrow> bool"
  f32_lt_quiet :: "u32 \<Rightarrow> u32 \<Rightarrow> bool \<times> u8"
  f32_eq :: "u32 \<Rightarrow> u32 \<Rightarrow> bool \<times> u8"
  f32_lt :: "u32 \<Rightarrow> u32 \<Rightarrow> bool \<times> u8"
  f32_le :: "u32 \<Rightarrow> u32 \<Rightarrow> bool \<times> u8"
  f32_to_i32 :: "u8 \<Rightarrow> u32 \<Rightarrow> u32 \<times> u8"
  f32_to_ui32 :: "u8 \<Rightarrow> u32 \<Rightarrow> u32 \<times> u8"
  i32_to_f32 :: "u8 \<Rightarrow> u32 \<Rightarrow> u32 \<times> u8"
  ui32_to_f32 :: "u8 \<Rightarrow> u32 \<Rightarrow> u32 \<times> u8"

section \<open>Masks\<close>

definition FMASK_SIGN :: u32 where [simp]: "FMASK_SIGN = 0x80000000"
definition FMASK_EXPN :: u32 where [simp]: "FMASK_EXPN = 0x7F800000"
definition FMASK_FRAC :: u32 where [simp]: "FMASK_FRAC = 0x007FFFFF"
definition FMASK_QNAN :: u32 where [simp]: "FMASK_QNAN = 0x00400000"
definition FFLAG_INVALID_OP :: u32 where [simp]: "FFLAG_INVALID_OP = 0x10"
definition FFLAG_DIV_BY_ZERO :: u32 where [simp]: "FFLAG_DIV_BY_ZERO = 0x08"
definition FFLAG_OVERFLOW :: u32 where [simp]: "FFLAG_OVERFLOW = 0x04"
definition FFLAG_UNDERFLOW :: u32 where [simp]: "FFLAG_UNDERFLOW = 0x02"
definition FFLAG_INEXACT :: u32 where [simp]: "FFLAG_INEXACT = 0x01"
definition RV_NAN :: u32 where [simp]: "RV_NAN = 0x7FC00000"

section \<open>Classification\<close>

definition calc_fclass :: "u32 \<Rightarrow> u32" where
  "calc_fclass f =
    (let sign = f AND FMASK_SIGN; expn = f AND FMASK_EXPN; frac = f AND FMASK_FRAC
     in if expn \<noteq> 0 then
          (if expn \<noteq> FMASK_EXPN then (if sign \<noteq> 0 then 0x002 else 0x040)
           else if frac \<noteq> 0 then (if frac AND FMASK_QNAN \<noteq> 0 then 0x200 else 0x100)
           else if sign = 0 then 0x080 else 0x001)
        else if frac \<noteq> 0 then (if sign \<noteq> 0 then 0x004 else 0x020)
        else (if sign \<noteq> 0 then 0x008 else 0x010))"

definition is_nan :: "u32 \<Rightarrow> bool" where
  "is_nan f \<longleftrightarrow> f AND FMASK_EXPN = FMASK_EXPN \<and> f AND FMASK_FRAC \<noteq> 0"

section \<open>Flags and rounding\<close>

definition or_fcsr :: "u32 \<Rightarrow> riscv_t \<Rightarrow> riscv_t" where
  "or_fcsr bits = set_csr (\<lambda>c. c\<lparr>csr_fcsr := csr_fcsr c OR bits\<rparr>)"

definition set_fflag :: "softfloat_t \<Rightarrow> riscv_t \<Rightarrow> riscv_t" where
  "set_fflag sf rv =
    (let fl = softfloat_exceptionFlags (glob rv);
         rv = (if fl AND flag_invalid sf \<noteq> 0 then or_fcsr FFLAG_INVALID_OP rv else rv);
         rv = (if fl AND flag_infinite sf \<noteq> 0 then or_fcsr FFLAG_DIV_BY_ZERO rv else rv);
         rv = (if fl AND flag_overflow sf \<noteq> 0 then or_fcsr FFLAG_OVERFLOW rv else rv);
         rv = (if fl AND flag_underflow sf \<noteq> 0 then or_fcsr FFLAG_UNDERFLOW rv else rv);
         rv = (if fl AND flag_inexact sf \<noteq> 0 then or_fcsr FFLAG_INEXACT rv else rv)
     in rv\<lparr>glob := (glob rv)\<lparr>softfloat_exceptionFlags := 0\<rparr>\<rparr>)"

text \<open>\<open>rm\<close> is a byte, so the dynamic mode is truncated to eight bits when it replaces it; a mode
  outside the table reaches \<open>__UNREACHABLE\<close>.\<close>

definition set_rounding_mode :: "softfloat_t \<Rightarrow> u8 \<Rightarrow> riscv_t \<Rightarrow> riscv_t outcome" where
  "set_rounding_mode sf rm0 rv =
    (let frm = drop_bit 5 (csr_fcsr (csr rv)) AND NOT (push_bit 3 1);
         rm = (if rm0 = 0b111 then ucast frm else rm0)
     in case switch rm
          [(0b000, round_near_even sf), (0b001, round_minMag sf), (0b010, round_min sf),
           (0b011, round_max sf), (0b100, round_near_maxMag sf)] of
          None \<Rightarrow> Inl Unreachable_branch
        | Some m \<Rightarrow> Inr (rv\<lparr>glob := (glob rv)\<lparr>softfloat_roundingMode := m\<rparr>\<rparr>))"

text \<open>Running a library operation: the flags it raises accrue in the global variable.\<close>

definition raise_flags :: "u8 \<Rightarrow> riscv_t \<Rightarrow> riscv_t" where
  "raise_flags fl rv =
    rv\<lparr>glob := (glob rv)\<lparr>softfloat_exceptionFlags := softfloat_exceptionFlags (glob rv) OR fl\<rparr>\<rparr>"

definition rmode :: "riscv_t \<Rightarrow> u8" where
  "rmode rv = softfloat_roundingMode (glob rv)"

section \<open>The ten classes\<close>

text \<open>The IEEE 754 classes \<open>FCLASS.S\<close> distinguishes, in the order of its result bits.\<close>

definition fp_classes :: "(u32 \<Rightarrow> bool) list" where
  "fp_classes =
    (let neg = (\<lambda>f. bit f 31); e = (\<lambda>f. take_bit 8 (drop_bit 23 f)); m = take_bit 23
     in [\<lambda>f. neg f \<and> e f = 255 \<and> m f = 0,
         \<lambda>f. neg f \<and> e f \<noteq> 0 \<and> e f \<noteq> 255,
         \<lambda>f. neg f \<and> e f = 0 \<and> m f \<noteq> 0,
         \<lambda>f. neg f \<and> e f = 0 \<and> m f = 0,
         \<lambda>f. \<not> neg f \<and> e f = 0 \<and> m f = 0,
         \<lambda>f. \<not> neg f \<and> e f = 0 \<and> m f \<noteq> 0,
         \<lambda>f. \<not> neg f \<and> e f \<noteq> 0 \<and> e f \<noteq> 255,
         \<lambda>f. \<not> neg f \<and> e f = 255 \<and> m f = 0,
         \<lambda>f. e f = 255 \<and> m f \<noteq> 0 \<and> \<not> bit f 22,
         \<lambda>f. e f = 255 \<and> m f \<noteq> 0 \<and> bit f 22])"

lemma float_fields:
  "f AND 0x80000000 = 0 \<longleftrightarrow> \<not> bit f 31"
  "f AND 0x7F800000 = 0 \<longleftrightarrow> take_bit 8 (drop_bit 23 f) = 0"
  "f AND 0x7F800000 = 0x7F800000 \<longleftrightarrow> take_bit 8 (drop_bit 23 f) = 255"
  "f AND 0x007FFFFF = take_bit 23 f"
  "take_bit 23 f AND 0x00400000 = 0 \<longleftrightarrow> \<not> bit f 22"
  for f :: u32
  by (simp_all add: word32_eq_iff less_32_all word_bits)

text \<open>The classes as a case distinction on the three fields, and the result bits.\<close>

lemma fclass_pow2:
  "calc_fclass f \<in> {2 ^ 0, 2 ^ 1, 2 ^ 2, 2 ^ 3, 2 ^ 4, 2 ^ 5, 2 ^ 6, 2 ^ 7, 2 ^ 8, 2 ^ 9}"
  unfolding calc_fclass_def Let_def by auto

lemma calc_fclass_iff:
  "calc_fclass f = 2 ^ 0 \<longleftrightarrow> (fp_classes ! 0) f" "calc_fclass f = 2 ^ 1 \<longleftrightarrow> (fp_classes ! 1) f"
  "calc_fclass f = 2 ^ 2 \<longleftrightarrow> (fp_classes ! 2) f" "calc_fclass f = 2 ^ 3 \<longleftrightarrow> (fp_classes ! 3) f"
  "calc_fclass f = 2 ^ 4 \<longleftrightarrow> (fp_classes ! 4) f" "calc_fclass f = 2 ^ 5 \<longleftrightarrow> (fp_classes ! 5) f"
  "calc_fclass f = 2 ^ 6 \<longleftrightarrow> (fp_classes ! 6) f" "calc_fclass f = 2 ^ 7 \<longleftrightarrow> (fp_classes ! 7) f"
  "calc_fclass f = 2 ^ 8 \<longleftrightarrow> (fp_classes ! 8) f" "calc_fclass f = 2 ^ 9 \<longleftrightarrow> (fp_classes ! 9) f"
  by (simp_all add: calc_fclass_def fp_classes_def Let_def float_fields)

end
