(* ===== verification/Rvop.thy ===== *)
theory Rvop imports Mmu Softfp begin

text \<open>
  The \<open>RVOP\<close> macro of \<open>src/src/emulate.c\<close> and the macros the handlers of
  \<open>src/src/rv32_template.c\<close> are written with. A handler gets the decoded instruction, the cycle
  counter and the program counter as values; it ends by returning a boolean to \<open>rv_step\<close> or by a
  tail call of another instruction's handler. The tail call is the value \<open>Continue\<close>, which names
  the link it follows.
\<close>

section \<open>Control flow\<close>

datatype transfer = To_next | To_taken | To_untaken | To_indirect

text \<open>How the body of a handler ends: it falls through to the signal check, jumps to one of the two
  labels, returns, or tail-calls.\<close>

datatype flow = Fall | Goto_nextop | Goto_end_op | Return_value bool | Tail_call transfer

text \<open>How a handler ends. \<open>Blocks_cleared\<close> is \<open>return false\<close> after \<open>block_map_clear\<close>.\<close>

datatype leave = Returned bool | Blocks_cleared | Continue transfer u64 u32

text \<open>
  What a handler uses beside the hart: the callbacks, the floating-point library, which of the
  links of its instruction are set (\<open>next\<close>, \<open>branch_taken\<close>, \<open>branch_untaken\<close>), and the program
  counters for which the branch history table or \<open>block_find\<close> yields a translated block.
\<close>

record env_t =
  env_io :: riscv_io_t
  env_sf :: softfloat_t
  has_next :: bool
  taken_link :: bool
  untaken_link :: bool
  block_known :: "u32 \<Rightarrow> bool"

type_synonym handler_t = "env_t \<Rightarrow> rv_insn_t \<Rightarrow> u64 \<Rightarrow> u32 \<Rightarrow> riscv_t \<Rightarrow> (leave \<times> riscv_t) outcome"
type_synonym body_t = "env_t \<Rightarrow> rv_insn_t \<Rightarrow> u64 \<Rightarrow> u32 \<Rightarrow> riscv_t \<Rightarrow> (flow \<times> u32 \<times> riscv_t) outcome"

definition set_cycle :: "u64 \<Rightarrow> riscv_t \<Rightarrow> riscv_t" where
  "set_cycle cycle = set_csr (csr_cycle_update (\<lambda>_. cycle))"

definition end_op :: "u64 \<Rightarrow> u32 \<Rightarrow> riscv_t \<Rightarrow> leave \<times> riscv_t" where
  "end_op cycle pcv rv = (Returned True, (set_cycle cycle rv)\<lparr>PC := pcv\<rparr>)"

text \<open>From the label \<open>nextop\<close> on, after the length of the instruction was added; the helper
  \<open>fuse_next_or_stop\<close> of the fused handlers runs the same statements.\<close>

definition next_or_stop :: "env_t \<Rightarrow> u64 \<Rightarrow> u32 \<Rightarrow> riscv_t \<Rightarrow> leave \<times> riscv_t" where
  "next_or_stop env cycle pcv rv =
    (if need_clear_block_map (glob rv) then
       (Blocks_cleared,
        (set_cycle cycle (set_glob (\<lambda>g. g\<lparr>need_clear_block_map := False\<rparr>) rv))\<lparr>PC := pcv\<rparr>)
     else if \<not> has_next env \<or> is_trapped rv then end_op cycle pcv rv
     else (Continue To_next cycle pcv, rv))"

definition signal_taken :: "riscv_t \<Rightarrow> leave \<times> riscv_t" where
  "signal_taken rv = (Returned True, set_glob (\<lambda>g. g\<lparr>need_handle_signal := False\<rparr>) rv)"

definition RVOP :: "rv_opcode \<Rightarrow> body_t \<Rightarrow> handler_t" where
  "RVOP inst code env ir cycle0 pcv0 rv0 =
    (let cycle = cycle0 + 1
     in obind (code env ir cycle pcv0 (rv0\<lparr>PC := pcv0\<rparr>)) (\<lambda>(flow, pcv, rv). Inr (
          case flow of
            Fall \<Rightarrow> if need_handle_signal (glob rv) then signal_taken rv
                    else next_or_stop env cycle (pcv + insn_len inst) rv
          | Goto_nextop \<Rightarrow> next_or_stop env cycle (pcv + insn_len inst) rv
          | Goto_end_op \<Rightarrow> end_op cycle pcv rv
          | Return_value b \<Rightarrow> (Returned b, rv)
          | Tail_call t \<Rightarrow> (Continue t cycle pcv, rv))))"

section \<open>Register-only bodies\<close>

definition straight :: "(rv_insn_t \<Rightarrow> u32 \<Rightarrow> riscv_t \<Rightarrow> riscv_t) \<Rightarrow> body_t" where
  "straight f env ir cycle pcv rv = Inr (Fall, pcv, f ir pcv rv)"

definition straight_checked :: "(rv_insn_t \<Rightarrow> riscv_t \<Rightarrow> riscv_t outcome) \<Rightarrow> body_t" where
  "straight_checked f env ir cycle pcv rv = obind (f ir rv) (\<lambda>rv. Inr (Fall, pcv, rv))"

text \<open>\<open>rd := f rs1 rs2\<close> and \<open>rd := f rs1 imm\<close>.\<close>

definition reg_op :: "(u32 \<Rightarrow> u32 \<Rightarrow> u32) \<Rightarrow> body_t" where
  "reg_op f = straight (\<lambda>ir _ rv. set_X (rd ir) (f (X rv (rs1 ir)) (X rv (rs2 ir))) rv)"

definition imm_op :: "(u32 \<Rightarrow> u32 \<Rightarrow> u32) \<Rightarrow> body_t" where
  "imm_op f = straight (\<lambda>ir _ rv. set_X (rd ir) (f (X rv (rs1 ir)) (imm ir)) rv)"

text \<open>\<open>if (ir->rd) rv->X[ir->rd] = v\<close>.\<close>

definition link_X :: "u8 \<Rightarrow> u32 \<Rightarrow> riscv_t \<Rightarrow> riscv_t" where
  "link_X r v rv = (if r \<noteq> 0 then set_X r v rv else rv)"

text \<open>C shifts by a masked amount.\<close>

definition shl :: "u32 \<Rightarrow> u32 \<Rightarrow> u32" where
  "shl x n = push_bit (unat (n AND 0x1f)) x"

definition shr :: "u32 \<Rightarrow> u32 \<Rightarrow> u32" where
  "shr x n = drop_bit (unat (n AND 0x1f)) x"

definition sar :: "u32 \<Rightarrow> u32 \<Rightarrow> u32" where
  "sar x n = signed_drop_bit (unat (n AND 0x1f)) x"

definition flag :: "bool \<Rightarrow> u32" where
  "flag b = (if b then 1 else 0)"

section \<open>Loads and stores\<close>

text \<open>\<open>RV_EXC_MISALIGN_HANDLER\<close> for a data access, followed by the rest of the body.\<close>

definition misaligned :: "u32 \<Rightarrow> u32 \<Rightarrow> riscv_t \<Rightarrow> bool" where
  "misaligned amask addr rv \<longleftrightarrow> \<not> allow_misalign (attr rv) \<and> addr AND amask \<noteq> 0"

definition misalign_trap :: "bool \<Rightarrow> u64 \<Rightarrow> u32 \<Rightarrow> u32 \<Rightarrow> u32 \<Rightarrow> riscv_t \<Rightarrow> riscv_t" where
  "misalign_trap compress cycle pcv cause addr rv =
    set_cause_and_tval cause addr ((set_cycle cycle (rv\<lparr>compressed := compress\<rparr>))\<lparr>PC := pcv\<rparr>)"

definition misalign_guard ::
    "u32 \<Rightarrow> u32 \<Rightarrow> bool \<Rightarrow> u32 \<Rightarrow> (riscv_t \<Rightarrow> (flow \<times> u32 \<times> riscv_t) outcome) \<Rightarrow>
     env_t \<Rightarrow> u64 \<Rightarrow> u32 \<Rightarrow> riscv_t \<Rightarrow> (flow \<times> u32 \<times> riscv_t) outcome" where
  "misalign_guard amask cause compress addr rest env cycle pcv rv =
    (if misaligned amask addr rv
     then obind (on_trap (env_io env) (misalign_trap compress cycle pcv cause addr rv))
            (\<lambda>rv. Inr (Return_value False, pcv, rv))
     else rest rv)"

type_synonym address_t = "rv_insn_t \<Rightarrow> riscv_t \<Rightarrow> u32"

definition rs1_imm :: address_t where
  "rs1_imm ir rv = X rv (rs1 ir) + imm ir"

definition sp_imm :: address_t where
  "sp_imm ir rv = X rv rv_reg_sp + imm ir"

text \<open>The mask is zero for the byte accesses, which have no handler.\<close>

definition load_op ::
    "u32 \<Rightarrow> bool \<Rightarrow> address_t \<Rightarrow> (riscv_io_t \<Rightarrow> riscv_t \<Rightarrow> u32 \<Rightarrow> (riscv_t \<times> 'v) outcome) \<Rightarrow>
     (rv_insn_t \<Rightarrow> 'v \<Rightarrow> riscv_t \<Rightarrow> riscv_t) \<Rightarrow> body_t" where
  "load_op amask compress address read put env ir cycle pcv rv =
    (let addr = address ir rv
     in misalign_guard amask LOAD_MISALIGNED compress addr
          (\<lambda>rv. obind (read (env_io env) rv addr) (\<lambda>(rv, v). Inr (Fall, pcv, put ir v rv)))
          env cycle pcv rv)"

definition store_op ::
    "u32 \<Rightarrow> bool \<Rightarrow> address_t \<Rightarrow> (rv_insn_t \<Rightarrow> riscv_t \<Rightarrow> 'v) \<Rightarrow>
     (riscv_io_t \<Rightarrow> riscv_t \<Rightarrow> u32 \<Rightarrow> 'v \<Rightarrow> riscv_t outcome) \<Rightarrow> body_t" where
  "store_op amask compress address val write env ir cycle pcv rv =
    (let addr = address ir rv
     in misalign_guard amask STORE_MISALIGNED compress addr
          (\<lambda>rv. obind (write (env_io env) rv addr (val ir rv)) (\<lambda>rv. Inr (Fall, pcv, rv)))
          env cycle pcv rv)"

text \<open>An atomic memory operation: read, link the old value, write the combined one. The operand is
  read after the memory, which may have run a trap handler.\<close>

definition amo_op :: "(u32 \<Rightarrow> u32 \<Rightarrow> u32) \<Rightarrow> body_t" where
  "amo_op f env ir cycle pcv rv =
    (let addr = X rv (rs1 ir)
     in misalign_guard 3 LOAD_MISALIGNED False addr
          (\<lambda>rv. obind (mem_read_w (env_io env) rv addr) (\<lambda>(rv, value1).
             let value2 = X rv (rs2 ir)
             in obind (mem_write_w (env_io env) (link_X (rd ir) value1 rv) addr (f value1 value2))
                  (\<lambda>rv. Inr (Fall, pcv, rv))))
          env cycle pcv rv)"

section \<open>Branches and jumps\<close>

definition set_branch_taken :: "bool \<Rightarrow> riscv_t \<Rightarrow> riscv_t" where
  "set_branch_taken b = set_glob (\<lambda>g. g\<lparr>is_branch_taken := b\<rparr>)"

definition follow :: "transfer \<Rightarrow> u32 \<Rightarrow> riscv_t \<Rightarrow> (flow \<times> u32 \<times> riscv_t) outcome" where
  "follow t pcv rv =
    (if \<not> is_trapped rv then Inr (Tail_call t, pcv, set_glob (\<lambda>g. g\<lparr>last_pc := pcv\<rparr>) rv)
     else Inr (Goto_end_op, pcv, rv))"

definition follow_taken :: "env_t \<Rightarrow> u32 \<Rightarrow> riscv_t \<Rightarrow> (flow \<times> u32 \<times> riscv_t) outcome" where
  "follow_taken env pcv rv =
    (if taken_link env then follow To_taken pcv rv else Inr (Goto_end_op, pcv, rv))"

text \<open>\<open>BRANCH_FUNC\<close>: its condition is the one under which the branch is not taken.\<close>

definition BRANCH_FUNC :: "(u32 \<Rightarrow> u32 \<Rightarrow> bool) \<Rightarrow> body_t" where
  "BRANCH_FUNC untaken_when env ir cycle pcv rv =
    (let note = (\<lambda>b rv. if \<not> is_trapped rv then set_branch_taken b rv else rv)
     in if untaken_when (X rv (rs1 ir)) (X rv (rs2 ir)) then
          (let rv = note False rv
           in if \<not> untaken_link env then Inr (Goto_nextop, pcv, rv)
              else follow To_untaken (pcv + 4) rv)
        else follow_taken env (pcv + imm ir) (note True rv))"

text \<open>The compressed branches record the outcome also inside the trap handler.\<close>

definition cbranch :: "(u32 \<Rightarrow> bool) \<Rightarrow> body_t" where
  "cbranch untaken_when env ir cycle pcv rv =
    (if untaken_when (X rv (rs1 ir)) then
       (let rv = set_branch_taken False rv
        in if \<not> untaken_link env then Inr (Goto_nextop, pcv, rv)
           else follow To_untaken (pcv + 2) rv)
     else follow_taken env (pcv + imm ir) (set_branch_taken True rv))"

text \<open>\<open>LOOKUP_OR_UPDATE_BRANCH_HISTORY_TABLE\<close>, with what follows when it finds no block.\<close>

definition lookup_branch_history ::
    "env_t \<Rightarrow> u32 \<Rightarrow> (riscv_t \<Rightarrow> riscv_t) \<Rightarrow> riscv_t \<Rightarrow> (flow \<times> u32 \<times> riscv_t) outcome" where
  "lookup_branch_history env pcv rest rv =
    (if \<not> is_trapped rv \<and> \<not> reloc_enable_mmu (glob rv) \<and> block_known env pcv
     then Inr (Tail_call To_indirect, pcv, rv)
     else Inr (Goto_end_op, pcv, rest rv))"

section \<open>Floating point\<close>

text \<open>A rounding operation into an \<open>F\<close> register.\<close>

definition fp_round :: "(softfloat_t \<Rightarrow> u8 \<Rightarrow> rv_insn_t \<Rightarrow> riscv_t \<Rightarrow> u32 \<times> u8) \<Rightarrow> body_t" where
  "fp_round f env ir cycle pcv rv =
    obind (set_rounding_mode (env_sf env) (rm ir) rv) (\<lambda>rv.
      let (v, fl) = f (env_sf env) (rmode rv) ir rv
      in Inr (Fall, pcv, set_fflag (env_sf env) (set_F (rd ir) v (raise_flags fl rv))))"

text \<open>A conversion into an integer register, and a comparison.\<close>

definition fp_to_int :: "(softfloat_t \<Rightarrow> u8 \<Rightarrow> u32 \<Rightarrow> u32 \<times> u8) \<Rightarrow> body_t" where
  "fp_to_int f env ir cycle pcv rv =
    obind (set_rounding_mode (env_sf env) (rm ir) rv) (\<lambda>rv.
      let (v, fl) = f (env_sf env) (rmode rv) (F rv (rs1 ir))
      in Inr (Fall, pcv, set_fflag (env_sf env) (link_X (rd ir) v (raise_flags fl rv))))"

definition fp_compare :: "(softfloat_t \<Rightarrow> u32 \<Rightarrow> u32 \<Rightarrow> bool \<times> u8) \<Rightarrow> body_t" where
  "fp_compare f env ir cycle pcv rv =
    (let (b, fl) = f (env_sf env) (F rv (rs1 ir)) (F rv (rs2 ir))
     in Inr (Fall, pcv, set_fflag (env_sf env) (link_X (rd ir) (flag b) (raise_flags fl rv))))"

text \<open>\<open>FMIN.S\<close> and \<open>FMAX.S\<close>: \<open>lt\<close> orders the operands, \<open>neg\<close> is the operand whose sign decides
  between equal ones. The second comparison runs only when the first fails.\<close>

definition fp_select ::
    "(softfloat_t \<Rightarrow> u32 \<Rightarrow> u32 \<Rightarrow> bool \<times> u8) \<Rightarrow> (u32 \<Rightarrow> u32 \<Rightarrow> u32) \<Rightarrow> body_t" where
  "fp_select lt neg env ir cycle pcv rv0 =
    (let a = F rv0 (rs1 ir); b = F rv0 (rs2 ir); s = env_sf env;
         rv = (if f32_isSignalingNaN s a \<or> f32_isSignalingNaN s b
               then or_fcsr FFLAG_INVALID_OP rv0 else rv0);
         (first, fl) = lt s a b; rv = raise_flags fl rv;
         (same, fl) = f32_eq s a b; rv = (if first then rv else raise_flags fl rv);
         less = (first \<or> same \<and> neg a b AND FMASK_SIGN \<noteq> 0)
     in Inr (Fall, pcv,
          if is_nan a \<and> is_nan b then set_F (rd ir) RV_NAN rv
          else set_F (rd ir) (if less \<or> is_nan b then a else b) rv))"

end
