(* ===== verification/ExecBase.thy ===== *)
theory ExecBase imports Rvop begin

text \<open>
  The handlers of \<open>src/src/rv32_template.c\<close> for the base instructions, the privileged ones, Zifencei
  and Zicsr: one definition \<open>do_<name>\<close> per \<open>RVOP(<name>, ...)\<close>.
\<close>

section \<open>RV32I\<close>

definition do_nop :: handler_t where
  "do_nop = RVOP (RV32I rv_insn_nop) (straight (\<lambda>ir _ rv. set_X rv_reg_zero 0 rv))"

definition do_lui :: handler_t where
  "do_lui = RVOP (RV32I rv_insn_lui) (straight (\<lambda>ir _ rv. set_X (rd ir) (imm ir) rv))"

definition do_auipc :: handler_t where
  "do_auipc = RVOP (RV32I rv_insn_auipc) (straight (\<lambda>ir pcv rv. set_X (rd ir) (imm ir + pcv) rv))"

definition do_jal :: handler_t where
  "do_jal = RVOP (RV32I rv_insn_jal)
    (\<lambda>env ir cycle pcv rv. follow_taken env (pcv + imm ir) (link_X (rd ir) (pcv + 4) rv))"

text \<open>The escape from the trap handler after the guest kernel's \<open>relocate_enable_mmu\<close>.\<close>

definition escape_reloc :: "riscv_t \<Rightarrow> riscv_t" where
  "escape_reloc rv =
    (if \<not> reloc_enable_mmu (glob rv) \<and> reloc_enable_mmu_jalr_addr (glob rv) = 0xc00000b4
     then (set_glob (\<lambda>g. g\<lparr>reloc_enable_mmu := True, need_retranslate := True\<rparr>) rv)\<lparr>is_trapped := False\<rparr>
     else rv)"

definition do_jalr :: handler_t where
  "do_jalr = RVOP (RV32I rv_insn_jalr) (\<lambda>env ir cycle pcv rv.
    let target = (X rv (rs1 ir) + imm ir) AND NOT 1
    in lookup_branch_history env target escape_reloc (link_X (rd ir) (pcv + 4) rv))"

definition do_beq :: handler_t where
  "do_beq = RVOP (RV32I rv_insn_beq) (BRANCH_FUNC (\<lambda>x y. x \<noteq> y))"

definition do_bne :: handler_t where
  "do_bne = RVOP (RV32I rv_insn_bne) (BRANCH_FUNC (\<lambda>x y. x = y))"

definition do_blt :: handler_t where
  "do_blt = RVOP (RV32I rv_insn_blt) (BRANCH_FUNC (\<lambda>x y. sint x \<ge> sint y))"

definition do_bge :: handler_t where
  "do_bge = RVOP (RV32I rv_insn_bge) (BRANCH_FUNC (\<lambda>x y. sint x < sint y))"

definition do_bltu :: handler_t where
  "do_bltu = RVOP (RV32I rv_insn_bltu) (BRANCH_FUNC (\<lambda>x y. x \<ge> y))"

definition do_bgeu :: handler_t where
  "do_bgeu = RVOP (RV32I rv_insn_bgeu) (BRANCH_FUNC (\<lambda>x y. x < y))"

definition do_lb :: handler_t where
  "do_lb = RVOP (RV32I rv_insn_lb)
    (load_op 0 False rs1_imm mem_read_b (\<lambda>ir v. set_X (rd ir) (sign_extend_b (ucast v))))"

definition do_lh :: handler_t where
  "do_lh = RVOP (RV32I rv_insn_lh)
    (load_op 1 False rs1_imm mem_read_s (\<lambda>ir v. set_X (rd ir) (sign_extend_h (ucast v))))"

definition do_lw :: handler_t where
  "do_lw = RVOP (RV32I rv_insn_lw)
    (load_op 3 False rs1_imm mem_read_w (\<lambda>ir v. set_X (rd ir) v))"

definition do_lbu :: handler_t where
  "do_lbu = RVOP (RV32I rv_insn_lbu)
    (load_op 0 False rs1_imm mem_read_b (\<lambda>ir v. set_X (rd ir) (ucast v)))"

definition do_lhu :: handler_t where
  "do_lhu = RVOP (RV32I rv_insn_lhu)
    (load_op 1 False rs1_imm mem_read_s (\<lambda>ir v. set_X (rd ir) (ucast v)))"

definition do_sb :: handler_t where
  "do_sb = RVOP (RV32I rv_insn_sb)
    (store_op 0 False rs1_imm (\<lambda>ir rv. ucast (X rv (rs2 ir))) mem_write_b)"

definition do_sh :: handler_t where
  "do_sh = RVOP (RV32I rv_insn_sh)
    (store_op 1 False rs1_imm (\<lambda>ir rv. ucast (X rv (rs2 ir))) mem_write_s)"

definition do_sw :: handler_t where
  "do_sw = RVOP (RV32I rv_insn_sw) (store_op 3 False rs1_imm (\<lambda>ir rv. X rv (rs2 ir)) mem_write_w)"

definition do_addi :: handler_t where
  "do_addi = RVOP (RV32I rv_insn_addi) (imm_op (\<lambda>x i. x + i))"

definition do_slti :: handler_t where
  "do_slti = RVOP (RV32I rv_insn_slti) (imm_op (\<lambda>x i. flag (sint x < sint i)))"

definition do_sltiu :: handler_t where
  "do_sltiu = RVOP (RV32I rv_insn_sltiu) (imm_op (\<lambda>x i. flag (x < i)))"

definition do_xori :: handler_t where
  "do_xori = RVOP (RV32I rv_insn_xori) (imm_op (\<lambda>x i. x XOR i))"

definition do_ori :: handler_t where
  "do_ori = RVOP (RV32I rv_insn_ori) (imm_op (\<lambda>x i. x OR i))"

definition do_andi :: handler_t where
  "do_andi = RVOP (RV32I rv_insn_andi) (imm_op (\<lambda>x i. x AND i))"

text \<open>The helper behind the three immediate shifts tests the opcode of the instruction again.\<close>

definition shift_func :: "rv_insn_t \<Rightarrow> riscv_t \<Rightarrow> riscv_t outcome" where
  "shift_func ir rv =
    (case switch (opcode ir)
       [(RV32I rv_insn_slli, shl), (RV32I rv_insn_srli, shr), (RV32I rv_insn_srai, sar)] of
       None \<Rightarrow> Inl Unreachable_branch
     | Some f \<Rightarrow> Inr (set_X (rd ir) (f (X rv (rs1 ir)) (imm ir)) rv))"

definition do_slli :: handler_t where
  "do_slli = RVOP (RV32I rv_insn_slli) (straight_checked shift_func)"

definition do_srli :: handler_t where
  "do_srli = RVOP (RV32I rv_insn_srli) (straight_checked shift_func)"

definition do_srai :: handler_t where
  "do_srai = RVOP (RV32I rv_insn_srai) (straight_checked shift_func)"

definition do_add :: handler_t where
  "do_add = RVOP (RV32I rv_insn_add) (reg_op (\<lambda>x y. x + y))"

definition do_sub :: handler_t where
  "do_sub = RVOP (RV32I rv_insn_sub) (reg_op (\<lambda>x y. x - y))"

definition do_sll :: handler_t where
  "do_sll = RVOP (RV32I rv_insn_sll) (reg_op shl)"

definition do_slt :: handler_t where
  "do_slt = RVOP (RV32I rv_insn_slt) (reg_op (\<lambda>x y. flag (sint x < sint y)))"

definition do_sltu :: handler_t where
  "do_sltu = RVOP (RV32I rv_insn_sltu) (reg_op (\<lambda>x y. flag (x < y)))"

definition do_xor :: handler_t where
  "do_xor = RVOP (RV32I rv_insn_xor) (reg_op (\<lambda>x y. x XOR y))"

definition do_srl :: handler_t where
  "do_srl = RVOP (RV32I rv_insn_srl) (reg_op shr)"

definition do_sra :: handler_t where
  "do_sra = RVOP (RV32I rv_insn_sra) (reg_op sar)"

definition do_or :: handler_t where
  "do_or = RVOP (RV32I rv_insn_or) (reg_op (\<lambda>x y. x OR y))"

definition do_and :: handler_t where
  "do_and = RVOP (RV32I rv_insn_and) (reg_op (\<lambda>x y. x AND y))"

definition do_fence :: handler_t where
  "do_fence = RVOP (RV32I rv_insn_fence) (\<lambda>env ir cycle pcv rv. Inr (Goto_end_op, pcv + 4, rv))"

text \<open>The state in which the environment is called.\<close>

definition sync_for_call :: "bool \<Rightarrow> u64 \<Rightarrow> u32 \<Rightarrow> riscv_t \<Rightarrow> riscv_t" where
  "sync_for_call compress cycle pcv rv = (set_cycle cycle (rv\<lparr>compressed := compress\<rparr>))\<lparr>PC := pcv\<rparr>"

definition do_ecall :: handler_t where
  "do_ecall = RVOP (RV32I rv_insn_ecall) (\<lambda>env ir cycle pcv rv.
    obind (on_ecall (env_io env) (sync_for_call False cycle pcv rv))
      (\<lambda>rv. Inr (Return_value True, pcv, rv)))"

definition do_ebreak :: handler_t where
  "do_ebreak = RVOP (RV32I rv_insn_ebreak) (\<lambda>env ir cycle pcv rv.
    obind (on_ebreak (env_io env) (sync_for_call False cycle pcv rv))
      (\<lambda>rv. Inr (Return_value True, pcv, rv)))"

section \<open>Privileged instructions\<close>

definition do_wfi :: handler_t where
  "do_wfi = RVOP (PRIV rv_insn_wfi) (\<lambda>env ir cycle pcv rv. Inr (Goto_end_op, pcv + 4, rv))"

definition do_uret :: handler_t where
  "do_uret = RVOP (PRIV rv_insn_uret) (\<lambda>env ir cycle pcv rv. Inr (Return_value False, pcv, rv))"

definition do_hret :: handler_t where
  "do_hret = RVOP (PRIV rv_insn_hret) (\<lambda>env ir cycle pcv rv. Inr (Return_value False, pcv, rv))"

definition SIE_SHIFT :: nat where [simp]: "SIE_SHIFT = 1"
definition MIE_SHIFT :: nat where [simp]: "MIE_SHIFT = 3"
definition SPIE_SHIFT :: nat where [simp]: "SPIE_SHIFT = 5"
definition MPIE_SHIFT :: nat where [simp]: "MPIE_SHIFT = 7"
definition SPP_SHIFT :: nat where [simp]: "SPP_SHIFT = 8"
definition MPP_SHIFT :: nat where [simp]: "MPP_SHIFT = 11"

definition STATUS_SIE :: u32 where [simp]: "STATUS_SIE = 0x2"
definition STATUS_MIE :: u32 where [simp]: "STATUS_MIE = 0x8"
definition STATUS_SPIE :: u32 where [simp]: "STATUS_SPIE = 0x20"
definition STATUS_MPIE :: u32 where [simp]: "STATUS_MPIE = 0x80"
definition STATUS_SPP :: u32 where [simp]: "STATUS_SPP = 0x100"
definition STATUS_MPP :: u32 where [simp]: "STATUS_MPP = 0x1800"

text \<open>The status register a return leaves behind, from its previous-privilege and
  previous-interrupt-enable fields.\<close>

definition sret_status :: "u32 \<Rightarrow> u32" where
  "sret_status s0 =
    (let s = s0 AND NOT STATUS_SPP; spie = drop_bit SPIE_SHIFT (s AND STATUS_SPIE)
     in (s OR push_bit SIE_SHIFT spie) OR STATUS_SPIE)"

definition mret_status :: "u32 \<Rightarrow> u32" where
  "mret_status s0 =
    (let s = s0 AND NOT STATUS_MPP; mpie = drop_bit MPIE_SHIFT (s AND STATUS_MPIE)
     in (s OR push_bit MIE_SHIFT mpie) OR STATUS_MPIE)"

definition sret_hart :: "riscv_t \<Rightarrow> riscv_t" where
  "sret_hart rv =
    rv\<lparr>is_trapped := False,
       priv_mode := drop_bit SPP_SHIFT (csr_sstatus (csr rv) AND STATUS_SPP),
       csr := (csr rv)\<lparr>csr_sstatus := sret_status (csr_sstatus (csr rv))\<rparr>,
       PC := csr_sepc (csr rv)\<rparr>"

definition mret_hart :: "riscv_t \<Rightarrow> riscv_t" where
  "mret_hart rv =
    rv\<lparr>is_trapped := False,
       priv_mode := drop_bit MPP_SHIFT (csr_mstatus (csr rv) AND STATUS_MPP),
       csr := (csr rv)\<lparr>csr_mstatus := mret_status (csr_mstatus (csr rv))\<rparr>,
       PC := csr_mepc (csr rv)\<rparr>"

definition do_sret :: handler_t where
  "do_sret = RVOP (PRIV rv_insn_sret)
    (\<lambda>env ir cycle pcv rv. Inr (Return_value True, pcv, sret_hart rv))"

definition do_mret :: handler_t where
  "do_mret = RVOP (PRIV rv_insn_mret)
    (\<lambda>env ir cycle pcv rv. Inr (Return_value True, pcv, mret_hart rv))"

definition do_sfencevma :: handler_t where
  "do_sfencevma = RVOP (PRIV rv_insn_sfencevma) (\<lambda>env ir cycle pcv rv.
    Inr (Goto_end_op, pcv + 4,
      if rs1 ir = 0 then mmu_tlb_flush_all rv else mmu_tlb_flush (X rv (rs1 ir)) rv))"

section \<open>Zifencei and Zicsr\<close>

definition do_fencei :: handler_t where
  "do_fencei = RVOP (ZIFENCEI rv_insn_fencei) (\<lambda>env ir cycle pcv rv.
    Inr (Return_value True, pcv + 4, (set_cycle cycle rv)\<lparr>PC := pcv + 4\<rparr>))"

definition csr_op :: "(u32 \<Rightarrow> u32 \<Rightarrow> u64 \<Rightarrow> riscv_t \<Rightarrow> riscv_t \<times> u32) \<Rightarrow> address_t \<Rightarrow> body_t" where
  "csr_op access operand env ir cycle pcv rv =
    (let (rv, tmp) = access (imm ir) (operand ir rv) cycle rv
     in Inr (Fall, pcv, set_X (rd ir) (if rd ir \<noteq> 0 then tmp else X rv (rd ir)) rv))"

definition do_csrrw :: handler_t where
  "do_csrrw = RVOP (ZICSR rv_insn_csrrw) (csr_op csr_csrrw (\<lambda>ir rv. X rv (rs1 ir)))"

definition do_csrrs :: handler_t where
  "do_csrrs = RVOP (ZICSR rv_insn_csrrs)
    (csr_op csr_csrrs (\<lambda>ir rv. if rs1 ir = rv_reg_zero then 0 else X rv (rs1 ir)))"

definition do_csrrc :: handler_t where
  "do_csrrc = RVOP (ZICSR rv_insn_csrrc)
    (csr_op csr_csrrc (\<lambda>ir rv. if rs1 ir = rv_reg_zero then 0 else X rv (rs1 ir)))"

definition do_csrrwi :: handler_t where
  "do_csrrwi = RVOP (ZICSR rv_insn_csrrwi) (csr_op csr_csrrw (\<lambda>ir rv. ucast (rs1 ir)))"

definition do_csrrsi :: handler_t where
  "do_csrrsi = RVOP (ZICSR rv_insn_csrrsi) (csr_op csr_csrrs (\<lambda>ir rv. ucast (rs1 ir)))"

definition do_csrrci :: handler_t where
  "do_csrrci = RVOP (ZICSR rv_insn_csrrci) (csr_op csr_csrrc (\<lambda>ir rv. ucast (rs1 ir)))"

end
