(* ===== verification/ExecMAF.thy ===== *)
theory ExecMAF imports Rvop begin

text \<open>
  The handlers of \<open>src/src/rv32_template.c\<close> for the extensions M, A and F. The diagnostic counters
  that \<open>LR.W\<close> and a failing \<open>SC.W\<close> print (\<open>p4_lrnote\<close>, \<open>p4_scfail_note\<close>) do not change the
  hart and are left out.
\<close>

section \<open>RV32M\<close>

definition do_mul :: handler_t where
  "do_mul = RVOP (RV32M rv_insn_mul)
    (reg_op (\<lambda>x y. ucast (((scast x * scast y) :: u64) AND (push_bit 32 1 - 1))))"

definition do_mulh :: handler_t where
  "do_mulh = RVOP (RV32M rv_insn_mulh)
    (reg_op (\<lambda>x y. ucast (drop_bit 32 ((scast x * scast y) :: u64))))"

definition do_mulhsu :: handler_t where
  "do_mulhsu = RVOP (RV32M rv_insn_mulhsu)
    (reg_op (\<lambda>x y. ucast (drop_bit 32 ((scast x * ucast y) :: u64))))"

definition do_mulhu :: handler_t where
  "do_mulhu = RVOP (RV32M rv_insn_mulhu)
    (reg_op (\<lambda>x y. ucast (drop_bit 32 ((ucast x * ucast y) :: u64))))"

text \<open>C's signed division truncates towards zero.\<close>

definition do_div :: handler_t where
  "do_div = RVOP (RV32M rv_insn_div) (reg_op (\<lambda>x y.
    if y = 0 then NOT 0
    else if sint y = -1 \<and> x = 0x80000000 then x
    else word_of_int (sint x sdiv sint y)))"

definition do_divu :: handler_t where
  "do_divu = RVOP (RV32M rv_insn_divu) (reg_op (\<lambda>x y. if y = 0 then NOT 0 else x div y))"

definition do_rem :: handler_t where
  "do_rem = RVOP (RV32M rv_insn_rem) (reg_op (\<lambda>x y.
    if y = 0 then x
    else if sint y = -1 \<and> x = 0x80000000 then 0
    else word_of_int (sint x smod sint y)))"

definition do_remu :: handler_t where
  "do_remu = RVOP (RV32M rv_insn_remu) (reg_op (\<lambda>x y. if y = 0 then x else x mod y))"

section \<open>RV32A\<close>

definition do_lrw :: handler_t where
  "do_lrw = RVOP (RV32A rv_insn_lrw) (\<lambda>env ir cycle pcv rv.
    let addr = X rv (rs1 ir)
    in misalign_guard 3 LOAD_MISALIGNED False addr
         (\<lambda>rv. obind (mem_read_w (env_io env) rv addr) (\<lambda>(rv, v).
            Inr (Fall, pcv, (link_X (rd ir) v rv)\<lparr>lr_addr := addr, lr_value := v, lr_valid := True\<rparr>)))
         env cycle pcv rv)"

definition do_scw :: handler_t where
  "do_scw = RVOP (RV32A rv_insn_scw) (\<lambda>env ir cycle pcv rv.
    let addr = X rv (rs1 ir)
    in misalign_guard 3 STORE_MISALIGNED False addr
         (\<lambda>rv. obind
            (if lr_valid rv \<and> lr_addr rv AND NOT 3 = addr AND NOT 3
             then obind (mem_write_w (env_io env) rv addr (X rv (rs2 ir)))
                    (\<lambda>rv. Inr (link_X (rd ir) 0 rv))
             else Inr (link_X (rd ir) 1 rv))
            (\<lambda>rv. Inr (Fall, pcv, rv\<lparr>lr_valid := False\<rparr>)))
         env cycle pcv rv)"

definition do_amoswapw :: handler_t where
  "do_amoswapw = RVOP (RV32A rv_insn_amoswapw) (amo_op (\<lambda>value1 value2. value2))"

definition do_amoaddw :: handler_t where
  "do_amoaddw = RVOP (RV32A rv_insn_amoaddw) (amo_op (\<lambda>value1 value2. value1 + value2))"

definition do_amoxorw :: handler_t where
  "do_amoxorw = RVOP (RV32A rv_insn_amoxorw) (amo_op (\<lambda>value1 value2. value1 XOR value2))"

definition do_amoandw :: handler_t where
  "do_amoandw = RVOP (RV32A rv_insn_amoandw) (amo_op (\<lambda>value1 value2. value1 AND value2))"

definition do_amoorw :: handler_t where
  "do_amoorw = RVOP (RV32A rv_insn_amoorw) (amo_op (\<lambda>value1 value2. value1 OR value2))"

definition do_amominw :: handler_t where
  "do_amominw = RVOP (RV32A rv_insn_amominw)
    (amo_op (\<lambda>value1 value2. if sint value1 < sint value2 then value1 else value2))"

definition do_amomaxw :: handler_t where
  "do_amomaxw = RVOP (RV32A rv_insn_amomaxw)
    (amo_op (\<lambda>value1 value2. if sint value1 > sint value2 then value1 else value2))"

definition do_amominuw :: handler_t where
  "do_amominuw = RVOP (RV32A rv_insn_amominuw)
    (amo_op (\<lambda>value1 value2. if value1 < value2 then value1 else value2))"

definition do_amomaxuw :: handler_t where
  "do_amomaxuw = RVOP (RV32A rv_insn_amomaxuw)
    (amo_op (\<lambda>value1 value2. if value1 > value2 then value1 else value2))"

section \<open>RV32F\<close>

definition do_flw :: handler_t where
  "do_flw = RVOP (RV32F rv_insn_flw) (load_op 3 False rs1_imm mem_read_w (\<lambda>ir v. set_F (rd ir) v))"

definition do_fsw :: handler_t where
  "do_fsw = RVOP (RV32F rv_insn_fsw) (store_op 3 False rs1_imm (\<lambda>ir rv. F rv (rs2 ir)) mem_write_w)"

definition do_fmadds :: handler_t where
  "do_fmadds = RVOP (RV32F rv_insn_fmadds) (fp_round (\<lambda>s m ir rv.
    f32_mulAdd s m (F rv (rs1 ir)) (F rv (rs2 ir)) (F rv (rs3 ir))))"

definition do_fmsubs :: handler_t where
  "do_fmsubs = RVOP (RV32F rv_insn_fmsubs) (fp_round (\<lambda>s m ir rv.
    f32_mulAdd s m (F rv (rs1 ir)) (F rv (rs2 ir)) (F rv (rs3 ir) XOR FMASK_SIGN)))"

definition do_fnmsubs :: handler_t where
  "do_fnmsubs = RVOP (RV32F rv_insn_fnmsubs) (fp_round (\<lambda>s m ir rv.
    f32_mulAdd s m (F rv (rs1 ir) XOR FMASK_SIGN) (F rv (rs2 ir)) (F rv (rs3 ir))))"

definition do_fnmadds :: handler_t where
  "do_fnmadds = RVOP (RV32F rv_insn_fnmadds) (fp_round (\<lambda>s m ir rv.
    f32_mulAdd s m (F rv (rs1 ir) XOR FMASK_SIGN) (F rv (rs2 ir)) (F rv (rs3 ir) XOR FMASK_SIGN)))"

definition do_fadds :: handler_t where
  "do_fadds = RVOP (RV32F rv_insn_fadds)
    (fp_round (\<lambda>s m ir rv. f32_add s m (F rv (rs1 ir)) (F rv (rs2 ir))))"

definition do_fsubs :: handler_t where
  "do_fsubs = RVOP (RV32F rv_insn_fsubs)
    (fp_round (\<lambda>s m ir rv. f32_sub s m (F rv (rs1 ir)) (F rv (rs2 ir))))"

definition do_fmuls :: handler_t where
  "do_fmuls = RVOP (RV32F rv_insn_fmuls)
    (fp_round (\<lambda>s m ir rv. f32_mul s m (F rv (rs1 ir)) (F rv (rs2 ir))))"

definition do_fdivs :: handler_t where
  "do_fdivs = RVOP (RV32F rv_insn_fdivs)
    (fp_round (\<lambda>s m ir rv. f32_div s m (F rv (rs1 ir)) (F rv (rs2 ir))))"

definition do_fsqrts :: handler_t where
  "do_fsqrts = RVOP (RV32F rv_insn_fsqrts) (fp_round (\<lambda>s m ir rv. f32_sqrt s m (F rv (rs1 ir))))"

text \<open>The sign injections.\<close>

definition f_op :: "(u32 \<Rightarrow> u32 \<Rightarrow> u32) \<Rightarrow> body_t" where
  "f_op f = straight (\<lambda>ir _ rv. set_F (rd ir) (f (F rv (rs1 ir)) (F rv (rs2 ir))) rv)"

definition do_fsgnjs :: handler_t where
  "do_fsgnjs = RVOP (RV32F rv_insn_fsgnjs)
    (f_op (\<lambda>a b. (a AND NOT FMASK_SIGN) OR (b AND FMASK_SIGN)))"

definition do_fsgnjns :: handler_t where
  "do_fsgnjns = RVOP (RV32F rv_insn_fsgnjns)
    (f_op (\<lambda>a b. (a AND NOT FMASK_SIGN) OR (NOT b AND FMASK_SIGN)))"

definition do_fsgnjxs :: handler_t where
  "do_fsgnjxs = RVOP (RV32F rv_insn_fsgnjxs) (f_op (\<lambda>a b. a XOR (b AND FMASK_SIGN)))"

definition do_fmins :: handler_t where
  "do_fmins = RVOP (RV32F rv_insn_fmins) (fp_select f32_lt_quiet (\<lambda>a b. a))"

definition do_fmaxs :: handler_t where
  "do_fmaxs = RVOP (RV32F rv_insn_fmaxs) (fp_select (\<lambda>s a b. f32_lt_quiet s b a) (\<lambda>a b. b))"

definition do_fcvtws :: handler_t where
  "do_fcvtws = RVOP (RV32F rv_insn_fcvtws) (fp_to_int f32_to_i32)"

definition do_fcvtwus :: handler_t where
  "do_fcvtwus = RVOP (RV32F rv_insn_fcvtwus) (fp_to_int f32_to_ui32)"

definition do_fmvxw :: handler_t where
  "do_fmvxw = RVOP (RV32F rv_insn_fmvxw) (straight (\<lambda>ir _ rv. link_X (rd ir) (F rv (rs1 ir)) rv))"

definition do_feqs :: handler_t where
  "do_feqs = RVOP (RV32F rv_insn_feqs) (fp_compare f32_eq)"

definition do_flts :: handler_t where
  "do_flts = RVOP (RV32F rv_insn_flts) (fp_compare f32_lt)"

definition do_fles :: handler_t where
  "do_fles = RVOP (RV32F rv_insn_fles) (fp_compare f32_le)"

definition do_fclasss :: handler_t where
  "do_fclasss = RVOP (RV32F rv_insn_fclasss)
    (straight (\<lambda>ir _ rv. link_X (rd ir) (calc_fclass (F rv (rs1 ir))) rv))"

definition do_fcvtsw :: handler_t where
  "do_fcvtsw = RVOP (RV32F rv_insn_fcvtsw) (fp_round (\<lambda>s m ir rv. i32_to_f32 s m (X rv (rs1 ir))))"

definition do_fcvtswu :: handler_t where
  "do_fcvtswu = RVOP (RV32F rv_insn_fcvtswu)
    (fp_round (\<lambda>s m ir rv. ui32_to_f32 s m (X rv (rs1 ir))))"

definition do_fmvwx :: handler_t where
  "do_fmvwx = RVOP (RV32F rv_insn_fmvwx) (straight (\<lambda>ir _ rv. set_F (rd ir) (X rv (rs1 ir)) rv))"

end
