(* ===== verification/ExecC.thy ===== *)
theory ExecC imports ExecBase begin

text \<open>
  The handlers of \<open>src/src/rv32_template.c\<close> for the compressed instructions. A shift by 32 or more is
  undefined in C and ends in \<open>Undefined_shift\<close>.
\<close>

section \<open>Arithmetic\<close>

definition do_caddi4spn :: handler_t where
  "do_caddi4spn = RVOP (RV32C rv_insn_caddi4spn)
    (straight (\<lambda>ir _ rv. set_X (rd ir) (X rv rv_reg_sp + ucast (ucast (imm ir) :: u16)) rv))"

definition do_cnop :: handler_t where
  "do_cnop = RVOP (RV32C rv_insn_cnop) (straight (\<lambda>ir _ rv. rv))"

definition do_caddi :: handler_t where
  "do_caddi = RVOP (RV32C rv_insn_caddi)
    (straight (\<lambda>ir _ rv. set_X (rd ir) (X rv (rd ir) + scast (ucast (imm ir) :: u16)) rv))"

definition do_cli :: handler_t where
  "do_cli = RVOP (RV32C rv_insn_cli) (straight (\<lambda>ir _ rv. set_X (rd ir) (imm ir) rv))"

definition do_caddi16sp :: handler_t where
  "do_caddi16sp = RVOP (RV32C rv_insn_caddi16sp)
    (straight (\<lambda>ir _ rv. set_X (rd ir) (X rv (rd ir) + imm ir) rv))"

definition do_clui :: handler_t where
  "do_clui = RVOP (RV32C rv_insn_clui) (straight (\<lambda>ir _ rv. set_X (rd ir) (imm ir) rv))"

definition do_csrli :: handler_t where
  "do_csrli = RVOP (RV32C rv_insn_csrli) (straight_checked (\<lambda>ir rv.
    if shamt ir \<ge> 32 then Inl Undefined_shift
    else Inr (set_X (rs1 ir) (drop_bit (unat (shamt ir)) (X rv (rs1 ir))) rv)))"

text \<open>The loop that refills the sign bits.\<close>

definition srai_loop :: "u32 \<Rightarrow> nat \<Rightarrow> u32" where
  "srai_loop x n =
    (let m = 0x80000000 AND x in fold (\<lambda>i r. r OR drop_bit i m) [0..<n] (drop_bit n x))"

definition do_csrai :: handler_t where
  "do_csrai = RVOP (RV32C rv_insn_csrai) (straight_checked (\<lambda>ir rv.
    if shamt ir \<ge> 32 then Inl Undefined_shift
    else Inr (set_X (rs1 ir) (srai_loop (X rv (rs1 ir)) (unat (shamt ir))) rv)))"

definition do_candi :: handler_t where
  "do_candi = RVOP (RV32C rv_insn_candi)
    (straight (\<lambda>ir _ rv. set_X (rs1 ir) (X rv (rs1 ir) AND imm ir) rv))"

definition do_csub :: handler_t where
  "do_csub = RVOP (RV32C rv_insn_csub) (reg_op (\<lambda>x y. x - y))"

definition do_cxor :: handler_t where
  "do_cxor = RVOP (RV32C rv_insn_cxor) (reg_op (\<lambda>x y. x XOR y))"

definition do_cor :: handler_t where
  "do_cor = RVOP (RV32C rv_insn_cor) (reg_op (\<lambda>x y. x OR y))"

definition do_cand :: handler_t where
  "do_cand = RVOP (RV32C rv_insn_cand) (reg_op (\<lambda>x y. x AND y))"

definition do_cslli :: handler_t where
  "do_cslli = RVOP (RV32C rv_insn_cslli) (straight_checked (\<lambda>ir rv.
    let n = (ucast (imm ir) :: u8)
    in if n \<ge> 32 then Inl Undefined_shift
       else Inr (set_X (rd ir) (push_bit (unat n) (X rv (rd ir))) rv)))"

definition do_cmv :: handler_t where
  "do_cmv = RVOP (RV32C rv_insn_cmv) (straight (\<lambda>ir _ rv. set_X (rd ir) (X rv (rs2 ir)) rv))"

definition do_cadd :: handler_t where
  "do_cadd = RVOP (RV32C rv_insn_cadd) (reg_op (\<lambda>x y. x + y))"

section \<open>Loads and stores\<close>

definition do_clw :: handler_t where
  "do_clw = RVOP (RV32C rv_insn_clw) (load_op 3 True rs1_imm mem_read_w (\<lambda>ir v. set_X (rd ir) v))"

definition do_csw :: handler_t where
  "do_csw = RVOP (RV32C rv_insn_csw) (store_op 3 True rs1_imm (\<lambda>ir rv. X rv (rs2 ir)) mem_write_w)"

definition do_clwsp :: handler_t where
  "do_clwsp = RVOP (RV32C rv_insn_clwsp) (load_op 3 True sp_imm mem_read_w (\<lambda>ir v. set_X (rd ir) v))"

definition do_cswsp :: handler_t where
  "do_cswsp = RVOP (RV32C rv_insn_cswsp) (store_op 3 True sp_imm (\<lambda>ir rv. X rv (rs2 ir)) mem_write_w)"

text \<open>The floating-point ones record the trap of a full-length instruction.\<close>

definition do_cflwsp :: handler_t where
  "do_cflwsp = RVOP (RV32FC rv_insn_cflwsp) (load_op 3 False sp_imm mem_read_w (\<lambda>ir v. set_F (rd ir) v))"

definition do_cfswsp :: handler_t where
  "do_cfswsp = RVOP (RV32FC rv_insn_cfswsp) (store_op 3 False sp_imm (\<lambda>ir rv. F rv (rs2 ir)) mem_write_w)"

definition do_cflw :: handler_t where
  "do_cflw = RVOP (RV32FC rv_insn_cflw) (load_op 3 False rs1_imm mem_read_w (\<lambda>ir v. set_F (rd ir) v))"

definition do_cfsw :: handler_t where
  "do_cfsw = RVOP (RV32FC rv_insn_cfsw) (store_op 3 False rs1_imm (\<lambda>ir rv. F rv (rs2 ir)) mem_write_w)"

section \<open>Control transfer\<close>

definition do_cjal :: handler_t where
  "do_cjal = RVOP (RV32C rv_insn_cjal) (\<lambda>env ir cycle pcv rv.
    follow_taken env (pcv + imm ir) (set_X rv_reg_ra (pcv + 2) rv))"

definition do_cj :: handler_t where
  "do_cj = RVOP (RV32C rv_insn_cj) (\<lambda>env ir cycle pcv rv. follow_taken env (pcv + imm ir) rv)"

definition do_cbeqz :: handler_t where
  "do_cbeqz = RVOP (RV32C rv_insn_cbeqz) (cbranch (\<lambda>x. x \<noteq> 0))"

definition do_cbnez :: handler_t where
  "do_cbnez = RVOP (RV32C rv_insn_cbnez) (cbranch (\<lambda>x. x = 0))"

definition do_cjr :: handler_t where
  "do_cjr = RVOP (RV32C rv_insn_cjr) (\<lambda>env ir cycle pcv rv.
    lookup_branch_history env (X rv (rs1 ir)) (\<lambda>rv. rv) rv)"

definition do_cjalr :: handler_t where
  "do_cjalr = RVOP (RV32C rv_insn_cjalr) (\<lambda>env ir cycle pcv rv.
    let jump_to = X rv (rs1 ir)
    in lookup_branch_history env jump_to (\<lambda>rv. rv) (set_X rv_reg_ra (pcv + 2) rv))"

definition do_cebreak :: handler_t where
  "do_cebreak = RVOP (RV32C rv_insn_cebreak) (\<lambda>env ir cycle pcv rv.
    obind (on_ebreak (env_io env) (sync_for_call True cycle pcv rv))
      (\<lambda>rv. Inr (Return_value True, pcv, rv)))"

end
