(* ===== verification/ExecB.thy ===== *)
theory ExecB imports Rvop begin

text \<open>
  The handlers of \<open>src/src/rv32_template.c\<close> for the bit-manipulation extensions Zba, Zbb, Zbc and
  Zbs, with the bit counts of \<open>src/src/common.h\<close>. Those counts are compiler built-ins; the portable
  definitions that file gives for other compilers are \<open>generic_clz\<close>, \<open>generic_ctz\<close> and
  \<open>generic_popcount\<close>.
\<close>

section \<open>Bit counts\<close>

definition rv_clz :: "u32 \<Rightarrow> u32" where
  "rv_clz v = of_nat (length (takeWhile (\<lambda>i. \<not> bit v i) (rev [0..<32])))"

definition rv_ctz :: "u32 \<Rightarrow> u32" where
  "rv_ctz v = of_nat (length (takeWhile (\<lambda>i. \<not> bit v i) [0..<32]))"

definition rv_popcount :: "u32 \<Rightarrow> u32" where
  "rv_popcount v = of_nat (length (filter (bit v) [0..<32]))"

definition clz_debruijn :: "u32 list" where
  "clz_debruijn =
    [0, 9, 1, 10, 13, 21, 2, 29, 11, 14, 16, 18, 22, 25, 3, 30,
     8, 12, 20, 28, 15, 17, 24, 7, 19, 27, 23, 6, 26, 5, 4, 31]"

definition generic_clz :: "u32 \<Rightarrow> u32" where
  "generic_clz v0 =
    (let v = v0; v = v OR drop_bit 1 v; v = v OR drop_bit 2 v; v = v OR drop_bit 4 v;
         v = v OR drop_bit 8 v; v = v OR drop_bit 16 v
     in clz_debruijn ! unat (drop_bit 27 (v * 0x07C4ACDD)))"

definition ctz_debruijn :: "u32 list" where
  "ctz_debruijn =
    [0, 1, 28, 2, 29, 14, 24, 3, 30, 22, 20, 15, 25, 17, 4, 8,
     31, 27, 13, 23, 21, 19, 16, 7, 26, 12, 18, 6, 11, 5, 10, 9]"

definition generic_ctz :: "u32 \<Rightarrow> u32" where
  "generic_ctz v = ctz_debruijn ! unat (drop_bit 27 ((v AND - v) * 0x077CB531))"

definition generic_popcount :: "u32 \<Rightarrow> u32" where
  "generic_popcount v0 =
    (let v = v0 - (drop_bit 1 v0 AND 0x55555555);
         v = (v AND 0x33333333) + (drop_bit 2 v AND 0x33333333);
         v = (v + drop_bit 4 v) AND 0x0f0f0f0f
     in drop_bit 24 (v * 0x01010101))"

section \<open>Zba\<close>

definition do_sh1add :: handler_t where
  "do_sh1add = RVOP (ZBA rv_insn_sh1add) (reg_op (\<lambda>x y. push_bit 1 x + y))"

definition do_sh2add :: handler_t where
  "do_sh2add = RVOP (ZBA rv_insn_sh2add) (reg_op (\<lambda>x y. push_bit 2 x + y))"

definition do_sh3add :: handler_t where
  "do_sh3add = RVOP (ZBA rv_insn_sh3add) (reg_op (\<lambda>x y. push_bit 3 x + y))"

section \<open>Zbb\<close>

definition do_andn :: handler_t where
  "do_andn = RVOP (ZBB rv_insn_andn) (reg_op (\<lambda>x y. x AND NOT y))"

definition do_orn :: handler_t where
  "do_orn = RVOP (ZBB rv_insn_orn) (reg_op (\<lambda>x y. x OR NOT y))"

definition do_xnor :: handler_t where
  "do_xnor = RVOP (ZBB rv_insn_xnor) (reg_op (\<lambda>x y. NOT (x XOR y)))"

definition do_clz :: handler_t where
  "do_clz = RVOP (ZBB rv_insn_clz)
    (straight (\<lambda>ir _ rv. if X rv (rs1 ir) \<noteq> 0 then set_X (rd ir) (rv_clz (X rv (rs1 ir))) rv
                         else set_X (rd ir) 32 rv))"

definition do_ctz :: handler_t where
  "do_ctz = RVOP (ZBB rv_insn_ctz)
    (straight (\<lambda>ir _ rv. if X rv (rs1 ir) \<noteq> 0 then set_X (rd ir) (rv_ctz (X rv (rs1 ir))) rv
                         else set_X (rd ir) 32 rv))"

definition do_cpop :: handler_t where
  "do_cpop = RVOP (ZBB rv_insn_cpop)
    (straight (\<lambda>ir _ rv. set_X (rd ir) (rv_popcount (X rv (rs1 ir))) rv))"

definition do_max :: handler_t where
  "do_max = RVOP (ZBB rv_insn_max) (reg_op (\<lambda>x y. if sint x > sint y then x else y))"

definition do_min :: handler_t where
  "do_min = RVOP (ZBB rv_insn_min) (reg_op (\<lambda>x y. if sint x < sint y then x else y))"

definition do_maxu :: handler_t where
  "do_maxu = RVOP (ZBB rv_insn_maxu) (reg_op (\<lambda>x y. if x > y then x else y))"

definition do_minu :: handler_t where
  "do_minu = RVOP (ZBB rv_insn_minu) (reg_op (\<lambda>x y. if x < y then x else y))"

text \<open>The sign extensions read \<open>rs1\<close> again after they wrote \<open>rd\<close>, which may be the same register.\<close>

definition do_sextb :: handler_t where
  "do_sextb = RVOP (ZBB rv_insn_sextb) (straight (\<lambda>ir _ rv0.
    let rv = set_X (rd ir) (X rv0 (rs1 ir) AND 0xff) rv0
    in if X rv (rs1 ir) AND push_bit 7 1 \<noteq> 0 then set_X (rd ir) (X rv (rd ir) OR 0xffffff00) rv
       else rv))"

definition do_sexth :: handler_t where
  "do_sexth = RVOP (ZBB rv_insn_sexth) (straight (\<lambda>ir _ rv0.
    let rv = set_X (rd ir) (X rv0 (rs1 ir) AND 0xffff) rv0
    in if X rv (rs1 ir) AND push_bit 15 1 \<noteq> 0 then set_X (rd ir) (X rv (rd ir) OR 0xffff0000) rv
       else rv))"

definition do_zexth :: handler_t where
  "do_zexth = RVOP (ZBB rv_insn_zexth)
    (straight (\<lambda>ir _ rv. set_X (rd ir) (X rv (rs1 ir) AND 0x0000ffff) rv))"

text \<open>A rotation by zero shifts by 32, which is undefined in C.\<close>

definition rotl :: "u32 \<Rightarrow> u32 \<Rightarrow> u32 outcome" where
  "rotl x y =
    (let n = unat (y AND 0b11111)
     in if n = 0 then Inl Undefined_shift else Inr (push_bit n x OR drop_bit (32 - n) x))"

definition rotr :: "u32 \<Rightarrow> u32 \<Rightarrow> u32 outcome" where
  "rotr x y =
    (let n = unat (y AND 0b11111)
     in if n = 0 then Inl Undefined_shift else Inr (drop_bit n x OR push_bit (32 - n) x))"

definition do_rol :: handler_t where
  "do_rol = RVOP (ZBB rv_insn_rol) (straight_checked (\<lambda>ir rv.
    obind (rotl (X rv (rs1 ir)) (X rv (rs2 ir))) (\<lambda>v. Inr (set_X (rd ir) v rv))))"

definition do_ror :: handler_t where
  "do_ror = RVOP (ZBB rv_insn_ror) (straight_checked (\<lambda>ir rv.
    obind (rotr (X rv (rs1 ir)) (X rv (rs2 ir))) (\<lambda>v. Inr (set_X (rd ir) v rv))))"

definition do_rori :: handler_t where
  "do_rori = RVOP (ZBB rv_insn_rori) (straight_checked (\<lambda>ir rv.
    obind (rotr (X rv (rs1 ir)) (imm ir)) (\<lambda>v. Inr (set_X (rd ir) v rv))))"

definition orc_b :: "u32 \<Rightarrow> u32" where
  "orc_b x = fold (\<lambda>i r. if x AND push_bit (i * 8) 0xff \<noteq> 0 then r OR push_bit (i * 8) 0xff else r)
     [0..<4] 0"

definition do_orcb :: handler_t where
  "do_orcb = RVOP (ZBB rv_insn_orcb)
    (straight (\<lambda>ir _ rv. set_X (rd ir) (orc_b (X rv (rs1 ir))) rv))"

definition rev_8 :: "u32 \<Rightarrow> u32" where
  "rev_8 x = push_bit 24 (x AND 0xff) OR push_bit 8 (x AND 0xff00) OR
     drop_bit 8 (x AND 0xff0000) OR drop_bit 24 (x AND 0xff000000)"

definition do_rev8 :: handler_t where
  "do_rev8 = RVOP (ZBB rv_insn_rev8)
    (straight (\<lambda>ir _ rv. set_X (rd ir) (rev_8 (X rv (rs1 ir))) rv))"

section \<open>Zbc\<close>

definition clmul_low :: "u32 \<Rightarrow> u32 \<Rightarrow> u32" where
  "clmul_low x y = fold (\<lambda>i r. if drop_bit i y AND 1 \<noteq> 0 then r XOR push_bit i x else r) [0..<32] 0"

definition clmul_high :: "u32 \<Rightarrow> u32 \<Rightarrow> u32" where
  "clmul_high x y =
    fold (\<lambda>i r. if drop_bit i y AND 1 \<noteq> 0 then r XOR drop_bit (32 - i) x else r) [1..<32] 0"

definition clmul_rev :: "u32 \<Rightarrow> u32 \<Rightarrow> u32" where
  "clmul_rev x y =
    fold (\<lambda>i r. if drop_bit i y AND 1 \<noteq> 0 then r XOR drop_bit (32 - i - 1) x else r) [0..<32] 0"

definition do_clmul :: handler_t where
  "do_clmul = RVOP (ZBC rv_insn_clmul) (reg_op clmul_low)"

definition do_clmulh :: handler_t where
  "do_clmulh = RVOP (ZBC rv_insn_clmulh) (reg_op clmul_high)"

definition do_clmulr :: handler_t where
  "do_clmulr = RVOP (ZBC rv_insn_clmulr) (reg_op clmul_rev)"

section \<open>Zbs\<close>

definition bit_index :: "u32 \<Rightarrow> nat" where
  "bit_index y = unat (y AND (32 - 1))"

definition do_bclr :: handler_t where
  "do_bclr = RVOP (ZBS rv_insn_bclr) (reg_op (\<lambda>x y. x AND NOT (push_bit (bit_index y) 1)))"

definition do_bclri :: handler_t where
  "do_bclri = RVOP (ZBS rv_insn_bclri) (imm_op (\<lambda>x y. x AND NOT (push_bit (bit_index y) 1)))"

definition do_bext :: handler_t where
  "do_bext = RVOP (ZBS rv_insn_bext) (reg_op (\<lambda>x y. drop_bit (bit_index y) x AND 1))"

definition do_bexti :: handler_t where
  "do_bexti = RVOP (ZBS rv_insn_bexti) (imm_op (\<lambda>x y. drop_bit (bit_index y) x AND 1))"

definition do_binv :: handler_t where
  "do_binv = RVOP (ZBS rv_insn_binv) (reg_op (\<lambda>x y. x XOR push_bit (bit_index y) 1))"

definition do_binvi :: handler_t where
  "do_binvi = RVOP (ZBS rv_insn_binvi) (imm_op (\<lambda>x y. x XOR push_bit (bit_index y) 1))"

definition do_bset :: handler_t where
  "do_bset = RVOP (ZBS rv_insn_bset) (reg_op (\<lambda>x y. x OR push_bit (bit_index y) 1))"

definition do_bseti :: handler_t where
  "do_bseti = RVOP (ZBS rv_insn_bseti) (imm_op (\<lambda>x y. x OR push_bit (bit_index y) 1))"

end
