(* ===== verification/Dispatch.thy ===== *)
theory Dispatch imports ExecBase ExecMAF ExecC ExecB begin

text \<open>
  The handlers of the fused opcodes (\<open>do_fuse1\<close> to \<open>do_fuse12\<close> of \<open>src/src/emulate.c\<close>), the table
  \<open>dispatch_table\<close> from opcodes to handlers, and the execution of a block: its instructions run one
  after the other as long as each handler tail-calls \<open>ir->next\<close>.
\<close>

section \<open>Fused opcodes\<close>

text \<open>The frame of a fused handler: it adds its own number of cycles and bytes and ends in
  \<open>fuse_next_or_stop\<close>.\<close>

definition FUSED :: "(rv_insn_t \<Rightarrow> u64) \<Rightarrow> (rv_insn_t \<Rightarrow> u32) \<Rightarrow> body_t \<Rightarrow> handler_t" where
  "FUSED cycles bytes code env ir cycle0 pcv0 rv0 =
    (let cycle = cycle0 + cycles ir
     in obind (code env ir cycle pcv0 (rv0\<lparr>PC := pcv0\<rparr>)) (\<lambda>(flow, pcv, rv). Inr (
          case flow of
            Fall \<Rightarrow> if need_handle_signal (glob rv) then signal_taken rv
                    else next_or_stop env cycle (pcv + bytes ir) rv
          | Goto_nextop \<Rightarrow> next_or_stop env cycle (pcv + bytes ir) rv
          | Goto_end_op \<Rightarrow> end_op cycle pcv rv
          | Return_value b \<Rightarrow> (Returned b, rv)
          | Tail_call t \<Rightarrow> (Continue t cycle pcv, rv))))"

text \<open>The entries the loops visit: \<open>imm2\<close> of them, as a signed bound.\<close>

definition fuse_entries :: "rv_insn_t \<Rightarrow> opcode_fuse_t list outcome" where
  "fuse_entries ir =
    (let n = nat (sint (imm2 ir))
     in if n \<le> length (fuse ir) then Inr (take n (fuse ir)) else Inl Undefined_access)"

definition fuse_cycles :: "rv_insn_t \<Rightarrow> u64" where
  "fuse_cycles ir = scast (imm2 ir)"

definition fuse_bytes :: "rv_insn_t \<Rightarrow> u32" where
  "fuse_bytes ir = imm2 ir * 4"

definition fuse_fold :: "(opcode_fuse_t \<Rightarrow> riscv_t \<Rightarrow> riscv_t) \<Rightarrow> body_t" where
  "fuse_fold f env ir cycle pcv rv =
    obind (fuse_entries ir) (\<lambda>fs. Inr (Fall, pcv, fold f fs rv))"

definition do_fuse1 :: handler_t where
  "do_fuse1 = FUSED fuse_cycles fuse_bytes (fuse_fold (\<lambda>f. set_X (frd f) (fimm f)))"

definition do_fuse2 :: handler_t where
  "do_fuse2 = FUSED (\<lambda>_. 2) (\<lambda>_. 8) (straight (\<lambda>ir _ rv0.
    let rv = set_X (rd ir) (imm ir) rv0 in set_X (rs2 ir) (X rv (rd ir) + X rv (rs1 ir)) rv))"

text \<open>The loops over memory accesses; a misaligned access leaves them.\<close>

fun fuse3_loop :: "env_t \<Rightarrow> u64 \<Rightarrow> u32 \<Rightarrow> opcode_fuse_t list \<Rightarrow> riscv_t \<Rightarrow> (flow \<times> u32 \<times> riscv_t) outcome" where
  "fuse3_loop env cycle pcv [] rv = Inr (Fall, pcv, rv)"
| "fuse3_loop env cycle pcv (f # fs) rv =
    (let addr = X rv (frs1 f) + fimm f
     in misalign_guard 3 STORE_MISALIGNED False addr
          (\<lambda>rv. obind (mem_write_w (env_io env) rv addr (X rv (frs2 f))) (fuse3_loop env cycle pcv fs))
          env cycle pcv rv)"

definition do_fuse3 :: handler_t where
  "do_fuse3 = FUSED fuse_cycles fuse_bytes (\<lambda>env ir cycle pcv rv.
    obind (fuse_entries ir) (\<lambda>fs. fuse3_loop env cycle pcv fs rv))"

fun fuse4_loop :: "env_t \<Rightarrow> u64 \<Rightarrow> u32 \<Rightarrow> opcode_fuse_t list \<Rightarrow> riscv_t \<Rightarrow> (flow \<times> u32 \<times> riscv_t) outcome" where
  "fuse4_loop env cycle pcv [] rv = Inr (Fall, pcv, rv)"
| "fuse4_loop env cycle pcv (f # fs) rv =
    (let addr = X rv (frs1 f) + fimm f
     in misalign_guard 3 LOAD_MISALIGNED False addr
          (\<lambda>rv. obind (mem_read_w (env_io env) rv addr) (\<lambda>(rv, v).
             fuse4_loop env cycle pcv fs (set_X (frd f) v rv)))
          env cycle pcv rv)"

definition do_fuse4 :: handler_t where
  "do_fuse4 = FUSED fuse_cycles fuse_bytes (\<lambda>env ir cycle pcv rv.
    obind (fuse_entries ir) (\<lambda>fs. fuse4_loop env cycle pcv fs rv))"

definition fuse_shift_exec :: "opcode_fuse_t \<Rightarrow> riscv_t \<Rightarrow> riscv_t outcome" where
  "fuse_shift_exec f rv =
    (case switch (fopcode f)
       [(RV32I rv_insn_slli, shl), (RV32I rv_insn_srli, shr), (RV32I rv_insn_srai, sar)] of
       None \<Rightarrow> Inl Unreachable_branch
     | Some op \<Rightarrow> Inr (set_X (frd f) (op (X rv (frs1 f)) (fimm f)) rv))"

fun fuse5_loop :: "opcode_fuse_t list \<Rightarrow> riscv_t \<Rightarrow> riscv_t outcome" where
  "fuse5_loop [] rv = Inr rv"
| "fuse5_loop (f # fs) rv = obind (fuse_shift_exec f rv) (fuse5_loop fs)"

definition do_fuse5 :: handler_t where
  "do_fuse5 = FUSED fuse_cycles fuse_bytes (\<lambda>env ir cycle pcv rv.
    obind (fuse_entries ir) (\<lambda>fs. obind (fuse5_loop fs rv) (\<lambda>rv. Inr (Fall, pcv, rv))))"

definition do_fuse6 :: handler_t where
  "do_fuse6 = FUSED (\<lambda>_. 2) (\<lambda>_. 0) (\<lambda>env ir cycle pcv rv.
    obind (on_ecall (env_io env)
             (sync_for_call False cycle (pcv + 4) (set_X rv_reg_a7 (imm ir) rv)))
      (\<lambda>rv. Inr (Return_value True, pcv, rv)))"

definition do_fuse7 :: handler_t where
  "do_fuse7 = FUSED fuse_cycles fuse_bytes
    (fuse_fold (\<lambda>f rv. set_X (frd f) (X rv (frs1 f) + fimm f) rv))"

definition do_fuse8 :: handler_t where
  "do_fuse8 = FUSED (\<lambda>_. 2) (\<lambda>_. 8) (straight (\<lambda>ir _ rv. set_X (rd ir) (imm ir + imm2 ir) rv))"

definition do_fuse9 :: handler_t where
  "do_fuse9 = FUSED (\<lambda>_. 2) (\<lambda>_. 8) (\<lambda>env ir cycle pcv rv.
    let addr = imm ir + imm2 ir
    in misalign_guard 3 LOAD_MISALIGNED False addr
         (\<lambda>rv. obind (mem_read_w (env_io env) rv addr) (\<lambda>(rv, v).
            Inr (Fall, pcv, set_X (rs2 ir) v rv)))
         env cycle pcv (set_X (rd ir) (imm ir) rv))"

definition do_fuse10 :: handler_t where
  "do_fuse10 = FUSED (\<lambda>_. 2) (\<lambda>_. 8) (\<lambda>env ir cycle pcv rv.
    let addr = imm ir + imm2 ir
    in misalign_guard 3 STORE_MISALIGNED False addr
         (\<lambda>rv. obind (mem_write_w (env_io env) rv addr (X rv (rs1 ir))) (\<lambda>rv. Inr (Fall, pcv, rv)))
         env cycle pcv (set_X (rd ir) (imm ir) rv))"

definition do_fuse11 :: handler_t where
  "do_fuse11 = FUSED (\<lambda>_. 2) (\<lambda>_. 8) (\<lambda>env ir cycle pcv rv.
    let addr = X rv (rs1 ir) + imm ir
    in misalign_guard 3 LOAD_MISALIGNED False addr
         (\<lambda>rv. obind (mem_read_w (env_io env) rv addr) (\<lambda>(rv, v).
            let rv = set_X (rd ir) v rv
            in Inr (Fall, pcv,
                 if \<not> is_trapped rv then set_X (rs1 ir) (X rv (rs1 ir) + imm2 ir) rv else rv)))
         env cycle pcv rv)"

definition do_fuse12 :: handler_t where
  "do_fuse12 = FUSED (\<lambda>_. 2) (\<lambda>_. 0) (\<lambda>env ir cycle pcv rv0.
    let rv = set_X (rd ir) (X rv0 (rs1 ir) + imm ir) rv0
    in if X rv (rd ir) \<noteq> 0
       then follow_taken env (pcv + (4 + imm2 ir)) (set_branch_taken True rv)
       else (let rv = set_branch_taken False rv
             in if untaken_link env then follow To_untaken (pcv + 8) rv
                else Inr (Goto_end_op, pcv + 8, rv)))"

section \<open>The dispatch table\<close>

primrec dispatch_rv32i :: "rv32i_op \<Rightarrow> handler_t" where
  "dispatch_rv32i rv_insn_nop = do_nop"
| "dispatch_rv32i rv_insn_lui = do_lui"
| "dispatch_rv32i rv_insn_auipc = do_auipc"
| "dispatch_rv32i rv_insn_jal = do_jal"
| "dispatch_rv32i rv_insn_jalr = do_jalr"
| "dispatch_rv32i rv_insn_beq = do_beq"
| "dispatch_rv32i rv_insn_bne = do_bne"
| "dispatch_rv32i rv_insn_blt = do_blt"
| "dispatch_rv32i rv_insn_bge = do_bge"
| "dispatch_rv32i rv_insn_bltu = do_bltu"
| "dispatch_rv32i rv_insn_bgeu = do_bgeu"
| "dispatch_rv32i rv_insn_lb = do_lb"
| "dispatch_rv32i rv_insn_lh = do_lh"
| "dispatch_rv32i rv_insn_lw = do_lw"
| "dispatch_rv32i rv_insn_lbu = do_lbu"
| "dispatch_rv32i rv_insn_lhu = do_lhu"
| "dispatch_rv32i rv_insn_sb = do_sb"
| "dispatch_rv32i rv_insn_sh = do_sh"
| "dispatch_rv32i rv_insn_sw = do_sw"
| "dispatch_rv32i rv_insn_addi = do_addi"
| "dispatch_rv32i rv_insn_slti = do_slti"
| "dispatch_rv32i rv_insn_sltiu = do_sltiu"
| "dispatch_rv32i rv_insn_xori = do_xori"
| "dispatch_rv32i rv_insn_ori = do_ori"
| "dispatch_rv32i rv_insn_andi = do_andi"
| "dispatch_rv32i rv_insn_slli = do_slli"
| "dispatch_rv32i rv_insn_srli = do_srli"
| "dispatch_rv32i rv_insn_srai = do_srai"
| "dispatch_rv32i rv_insn_add = do_add"
| "dispatch_rv32i rv_insn_sub = do_sub"
| "dispatch_rv32i rv_insn_sll = do_sll"
| "dispatch_rv32i rv_insn_slt = do_slt"
| "dispatch_rv32i rv_insn_sltu = do_sltu"
| "dispatch_rv32i rv_insn_xor = do_xor"
| "dispatch_rv32i rv_insn_srl = do_srl"
| "dispatch_rv32i rv_insn_sra = do_sra"
| "dispatch_rv32i rv_insn_or = do_or"
| "dispatch_rv32i rv_insn_and = do_and"
| "dispatch_rv32i rv_insn_fence = do_fence"
| "dispatch_rv32i rv_insn_ecall = do_ecall"
| "dispatch_rv32i rv_insn_ebreak = do_ebreak"

primrec dispatch_priv :: "priv_op \<Rightarrow> handler_t" where
  "dispatch_priv rv_insn_wfi = do_wfi"
| "dispatch_priv rv_insn_uret = do_uret"
| "dispatch_priv rv_insn_sret = do_sret"
| "dispatch_priv rv_insn_hret = do_hret"
| "dispatch_priv rv_insn_mret = do_mret"
| "dispatch_priv rv_insn_sfencevma = do_sfencevma"

primrec dispatch_zifencei :: "zifencei_op \<Rightarrow> handler_t" where
  "dispatch_zifencei rv_insn_fencei = do_fencei"

primrec dispatch_zicsr :: "zicsr_op \<Rightarrow> handler_t" where
  "dispatch_zicsr rv_insn_csrrw = do_csrrw"
| "dispatch_zicsr rv_insn_csrrs = do_csrrs"
| "dispatch_zicsr rv_insn_csrrc = do_csrrc"
| "dispatch_zicsr rv_insn_csrrwi = do_csrrwi"
| "dispatch_zicsr rv_insn_csrrsi = do_csrrsi"
| "dispatch_zicsr rv_insn_csrrci = do_csrrci"

primrec dispatch_zba :: "zba_op \<Rightarrow> handler_t" where
  "dispatch_zba rv_insn_sh1add = do_sh1add"
| "dispatch_zba rv_insn_sh2add = do_sh2add"
| "dispatch_zba rv_insn_sh3add = do_sh3add"

primrec dispatch_zbb :: "zbb_op \<Rightarrow> handler_t" where
  "dispatch_zbb rv_insn_andn = do_andn"
| "dispatch_zbb rv_insn_orn = do_orn"
| "dispatch_zbb rv_insn_xnor = do_xnor"
| "dispatch_zbb rv_insn_clz = do_clz"
| "dispatch_zbb rv_insn_ctz = do_ctz"
| "dispatch_zbb rv_insn_cpop = do_cpop"
| "dispatch_zbb rv_insn_max = do_max"
| "dispatch_zbb rv_insn_maxu = do_maxu"
| "dispatch_zbb rv_insn_min = do_min"
| "dispatch_zbb rv_insn_minu = do_minu"
| "dispatch_zbb rv_insn_sextb = do_sextb"
| "dispatch_zbb rv_insn_sexth = do_sexth"
| "dispatch_zbb rv_insn_zexth = do_zexth"
| "dispatch_zbb rv_insn_rol = do_rol"
| "dispatch_zbb rv_insn_ror = do_ror"
| "dispatch_zbb rv_insn_rori = do_rori"
| "dispatch_zbb rv_insn_orcb = do_orcb"
| "dispatch_zbb rv_insn_rev8 = do_rev8"

primrec dispatch_zbc :: "zbc_op \<Rightarrow> handler_t" where
  "dispatch_zbc rv_insn_clmul = do_clmul"
| "dispatch_zbc rv_insn_clmulh = do_clmulh"
| "dispatch_zbc rv_insn_clmulr = do_clmulr"

primrec dispatch_zbs :: "zbs_op \<Rightarrow> handler_t" where
  "dispatch_zbs rv_insn_bclr = do_bclr"
| "dispatch_zbs rv_insn_bclri = do_bclri"
| "dispatch_zbs rv_insn_bext = do_bext"
| "dispatch_zbs rv_insn_bexti = do_bexti"
| "dispatch_zbs rv_insn_binv = do_binv"
| "dispatch_zbs rv_insn_binvi = do_binvi"
| "dispatch_zbs rv_insn_bset = do_bset"
| "dispatch_zbs rv_insn_bseti = do_bseti"

primrec dispatch_rv32m :: "rv32m_op \<Rightarrow> handler_t" where
  "dispatch_rv32m rv_insn_mul = do_mul"
| "dispatch_rv32m rv_insn_mulh = do_mulh"
| "dispatch_rv32m rv_insn_mulhsu = do_mulhsu"
| "dispatch_rv32m rv_insn_mulhu = do_mulhu"
| "dispatch_rv32m rv_insn_div = do_div"
| "dispatch_rv32m rv_insn_divu = do_divu"
| "dispatch_rv32m rv_insn_rem = do_rem"
| "dispatch_rv32m rv_insn_remu = do_remu"

primrec dispatch_rv32a :: "rv32a_op \<Rightarrow> handler_t" where
  "dispatch_rv32a rv_insn_lrw = do_lrw"
| "dispatch_rv32a rv_insn_scw = do_scw"
| "dispatch_rv32a rv_insn_amoswapw = do_amoswapw"
| "dispatch_rv32a rv_insn_amoaddw = do_amoaddw"
| "dispatch_rv32a rv_insn_amoxorw = do_amoxorw"
| "dispatch_rv32a rv_insn_amoandw = do_amoandw"
| "dispatch_rv32a rv_insn_amoorw = do_amoorw"
| "dispatch_rv32a rv_insn_amominw = do_amominw"
| "dispatch_rv32a rv_insn_amomaxw = do_amomaxw"
| "dispatch_rv32a rv_insn_amominuw = do_amominuw"
| "dispatch_rv32a rv_insn_amomaxuw = do_amomaxuw"

primrec dispatch_rv32f :: "rv32f_op \<Rightarrow> handler_t" where
  "dispatch_rv32f rv_insn_flw = do_flw"
| "dispatch_rv32f rv_insn_fsw = do_fsw"
| "dispatch_rv32f rv_insn_fmadds = do_fmadds"
| "dispatch_rv32f rv_insn_fmsubs = do_fmsubs"
| "dispatch_rv32f rv_insn_fnmsubs = do_fnmsubs"
| "dispatch_rv32f rv_insn_fnmadds = do_fnmadds"
| "dispatch_rv32f rv_insn_fadds = do_fadds"
| "dispatch_rv32f rv_insn_fsubs = do_fsubs"
| "dispatch_rv32f rv_insn_fmuls = do_fmuls"
| "dispatch_rv32f rv_insn_fdivs = do_fdivs"
| "dispatch_rv32f rv_insn_fsqrts = do_fsqrts"
| "dispatch_rv32f rv_insn_fsgnjs = do_fsgnjs"
| "dispatch_rv32f rv_insn_fsgnjns = do_fsgnjns"
| "dispatch_rv32f rv_insn_fsgnjxs = do_fsgnjxs"
| "dispatch_rv32f rv_insn_fmins = do_fmins"
| "dispatch_rv32f rv_insn_fmaxs = do_fmaxs"
| "dispatch_rv32f rv_insn_fcvtws = do_fcvtws"
| "dispatch_rv32f rv_insn_fcvtwus = do_fcvtwus"
| "dispatch_rv32f rv_insn_fmvxw = do_fmvxw"
| "dispatch_rv32f rv_insn_feqs = do_feqs"
| "dispatch_rv32f rv_insn_flts = do_flts"
| "dispatch_rv32f rv_insn_fles = do_fles"
| "dispatch_rv32f rv_insn_fclasss = do_fclasss"
| "dispatch_rv32f rv_insn_fcvtsw = do_fcvtsw"
| "dispatch_rv32f rv_insn_fcvtswu = do_fcvtswu"
| "dispatch_rv32f rv_insn_fmvwx = do_fmvwx"

primrec dispatch_rv32c :: "rv32c_op \<Rightarrow> handler_t" where
  "dispatch_rv32c rv_insn_caddi4spn = do_caddi4spn"
| "dispatch_rv32c rv_insn_clw = do_clw"
| "dispatch_rv32c rv_insn_csw = do_csw"
| "dispatch_rv32c rv_insn_cnop = do_cnop"
| "dispatch_rv32c rv_insn_caddi = do_caddi"
| "dispatch_rv32c rv_insn_cjal = do_cjal"
| "dispatch_rv32c rv_insn_cli = do_cli"
| "dispatch_rv32c rv_insn_caddi16sp = do_caddi16sp"
| "dispatch_rv32c rv_insn_clui = do_clui"
| "dispatch_rv32c rv_insn_csrli = do_csrli"
| "dispatch_rv32c rv_insn_csrai = do_csrai"
| "dispatch_rv32c rv_insn_candi = do_candi"
| "dispatch_rv32c rv_insn_csub = do_csub"
| "dispatch_rv32c rv_insn_cxor = do_cxor"
| "dispatch_rv32c rv_insn_cor = do_cor"
| "dispatch_rv32c rv_insn_cand = do_cand"
| "dispatch_rv32c rv_insn_cj = do_cj"
| "dispatch_rv32c rv_insn_cbeqz = do_cbeqz"
| "dispatch_rv32c rv_insn_cbnez = do_cbnez"
| "dispatch_rv32c rv_insn_cslli = do_cslli"
| "dispatch_rv32c rv_insn_clwsp = do_clwsp"
| "dispatch_rv32c rv_insn_cjr = do_cjr"
| "dispatch_rv32c rv_insn_cmv = do_cmv"
| "dispatch_rv32c rv_insn_cebreak = do_cebreak"
| "dispatch_rv32c rv_insn_cjalr = do_cjalr"
| "dispatch_rv32c rv_insn_cadd = do_cadd"
| "dispatch_rv32c rv_insn_cswsp = do_cswsp"

primrec dispatch_rv32fc :: "rv32fc_op \<Rightarrow> handler_t" where
  "dispatch_rv32fc rv_insn_cflwsp = do_cflwsp"
| "dispatch_rv32fc rv_insn_cfswsp = do_cfswsp"
| "dispatch_rv32fc rv_insn_cflw = do_cflw"
| "dispatch_rv32fc rv_insn_cfsw = do_cfsw"

primrec dispatch_fuse :: "fuse_op \<Rightarrow> handler_t" where
  "dispatch_fuse rv_insn_fuse1 = do_fuse1"
| "dispatch_fuse rv_insn_fuse2 = do_fuse2"
| "dispatch_fuse rv_insn_fuse3 = do_fuse3"
| "dispatch_fuse rv_insn_fuse4 = do_fuse4"
| "dispatch_fuse rv_insn_fuse5 = do_fuse5"
| "dispatch_fuse rv_insn_fuse6 = do_fuse6"
| "dispatch_fuse rv_insn_fuse7 = do_fuse7"
| "dispatch_fuse rv_insn_fuse8 = do_fuse8"
| "dispatch_fuse rv_insn_fuse9 = do_fuse9"
| "dispatch_fuse rv_insn_fuse10 = do_fuse10"
| "dispatch_fuse rv_insn_fuse11 = do_fuse11"
| "dispatch_fuse rv_insn_fuse12 = do_fuse12"

primrec dispatch_table :: "rv_opcode \<Rightarrow> handler_t" where
  "dispatch_table (RV32I i) = dispatch_rv32i i"
| "dispatch_table (PRIV i) = dispatch_priv i"
| "dispatch_table (ZIFENCEI i) = dispatch_zifencei i"
| "dispatch_table (ZICSR i) = dispatch_zicsr i"
| "dispatch_table (ZBA i) = dispatch_zba i"
| "dispatch_table (ZBB i) = dispatch_zbb i"
| "dispatch_table (ZBC i) = dispatch_zbc i"
| "dispatch_table (ZBS i) = dispatch_zbs i"
| "dispatch_table (RV32M i) = dispatch_rv32m i"
| "dispatch_table (RV32A i) = dispatch_rv32a i"
| "dispatch_table (RV32F i) = dispatch_rv32f i"
| "dispatch_table (RV32C i) = dispatch_rv32c i"
| "dispatch_table (RV32FC i) = dispatch_rv32fc i"
| "dispatch_table (FUSE i) = dispatch_fuse i"

section \<open>Running a block\<close>

definition exec_insn :: handler_t where
  "exec_insn env ir = dispatch_table (opcode ir) env ir"

text \<open>The instructions of a block are chained by \<open>next\<close>; the last one has none.\<close>

fun run_insns :: "env_t \<Rightarrow> rv_insn_t list \<Rightarrow> u64 \<Rightarrow> u32 \<Rightarrow> riscv_t \<Rightarrow> (leave \<times> riscv_t) outcome" where
  "run_insns env [] cycle pcv rv = Inl Undefined_access"
| "run_insns env (ir # irs) cycle pcv rv =
    obind (exec_insn (env\<lparr>has_next := (irs \<noteq> [])\<rparr>) ir cycle pcv rv) (\<lambda>(l, rv).
      case l of
        Continue To_next cycle pcv \<Rightarrow> run_insns env irs cycle pcv rv
      | _ \<Rightarrow> Inr (l, rv))"

end
