(* ===== verification/Samples.thy ===== *)
theory Samples imports Dispatch begin

text \<open>
  Concrete harts and environments on which the properties are evaluated: 4 KiB of zeroed RAM, all
  registers zero, translation off, an environment whose traps and calls return at once, and a
  floating-point library whose operations return zero without flags.
\<close>

definition sample_csrs :: csrs_t where
  "sample_csrs = \<lparr>csr_fcsr = 0, csr_cycle = 0, csr_time0 = 0, csr_time1 = 0, csr_mstatus = 0,
     csr_mtvec = 0, csr_misa = 0, csr_mtval = 0, csr_mcause = 0, csr_mscratch = 0, csr_mepc = 0,
     csr_mip = 0, csr_mie = 0, csr_mtvt = 0, csr_mnxti = 0, csr_mintstatus = 0, csr_mintthresh = 0,
     csr_mideleg = 0, csr_medeleg = 0, csr_sstatus = 0, csr_stvec = 0, csr_sip = 0, csr_sie = 0,
     csr_scounteren = 0, csr_sscratch = 0, csr_sepc = 0, csr_scause = 0, csr_stval = 0, csr_satp = 0\<rparr>"

definition sample_globals :: globals_t where
  "sample_globals = \<lparr>need_clear_block_map = False, need_retranslate = False,
     need_handle_signal = False, reloc_enable_mmu = False, reloc_enable_mmu_jalr_addr = 0,
     is_branch_taken = False, last_pc = 0, map_cleared = False,
     softfloat_roundingMode = 0, softfloat_exceptionFlags = 0\<rparr>"

definition sample_hart :: riscv_t where
  "sample_hart = \<lparr>halt = False, hart_id = 0, lr_value = 0, lr_addr = 0, lr_valid = False, X = (\<lambda>_. 0),
     PC = 0, timer = 0, is_trapped = False, F = (\<lambda>_. 0), csr = sample_csrs, clic_vector_pc = 0,
     clic_vector_valid = False, priv_mode = 3, compressed = False, last_csr_sepc = 0,
     dtlb = (\<lambda>_. zero_tlb_entry), itlb = (\<lambda>_. zero_tlb_entry), timer_offset = 0,
     attr = \<lparr>ram = \<lparr>mem_base = (\<lambda>_. 0), mem_size = 4096\<rparr>, vm_mem_size = 4096, allow_misalign = False\<rparr>,
     glob = sample_globals, vu = reset_vunit zero_vunit\<rparr>"

definition sample_softfloat :: softfloat_t where
  "sample_softfloat = \<lparr>flag_invalid = 16, flag_infinite = 8, flag_overflow = 4, flag_underflow = 2,
     flag_inexact = 1, round_near_even = 0, round_minMag = 1, round_min = 2, round_max = 3,
     round_near_maxMag = 4, f32_mulAdd = (\<lambda>_ _ _ _. (0, 0)), f32_add = (\<lambda>_ _ _. (0, 0)),
     f32_sub = (\<lambda>_ _ _. (0, 0)), f32_mul = (\<lambda>_ _ _. (0, 0)), f32_div = (\<lambda>_ _ _. (0, 0)),
     f32_sqrt = (\<lambda>_ _. (0, 0)), f32_isSignalingNaN = (\<lambda>_. False), f32_lt_quiet = (\<lambda>_ _. (False, 0)),
     f32_eq = (\<lambda>_ _. (False, 0)), f32_lt = (\<lambda>_ _. (False, 0)), f32_le = (\<lambda>_ _. (False, 0)),
     f32_to_i32 = (\<lambda>_ _. (0, 0)), f32_to_ui32 = (\<lambda>_ _. (0, 0)), i32_to_f32 = (\<lambda>_ _. (0, 0)),
     ui32_to_f32 = (\<lambda>_ _. (0, 0))\<rparr>"

definition sample_calls :: riscv_io_t where
  "sample_calls = \<lparr>mem_ifetch = (\<lambda>rv _. Inr (rv, 0)), mem_read_w = (\<lambda>rv _. Inr (rv, 0)),
     mem_read_s = (\<lambda>rv _. Inr (rv, 0)), mem_read_b = (\<lambda>rv _. Inr (rv, 0)),
     mem_write_w = (\<lambda>rv _ _. Inr rv), mem_write_s = (\<lambda>rv _ _. Inr rv), mem_write_b = (\<lambda>rv _ _. Inr rv),
     on_ecall = Inr, on_ebreak = Inr, on_trap = Inr\<rparr>"

definition sample_env :: env_t where
  "sample_env = \<lparr>env_io = with_mmu sample_calls, env_sf = sample_softfloat, has_next = True,
     taken_link = False, untaken_link = False, block_known = (\<lambda>_. False)\<rparr>"

lemma sample_fields [simp]:
  "X sample_hart r = 0" "F sample_hart r = 0" "PC sample_hart = 0" "is_trapped sample_hart = False"
  "csr sample_hart = sample_csrs" "glob sample_hart = sample_globals" "lr_valid sample_hart = False"
  "priv_mode sample_hart = 3" "allow_misalign (attr sample_hart) = False"
  "ram (attr sample_hart) = \<lparr>mem_base = (\<lambda>_. 0), mem_size = 4096\<rparr>"
  "vm_mem_size (attr sample_hart) = 4096"
  "dtlb sample_hart i = zero_tlb_entry" "itlb sample_hart i = zero_tlb_entry"
  by (simp_all add: sample_hart_def)

lemma sample_flags [simp]:
  "need_clear_block_map sample_globals = False" "need_retranslate sample_globals = False"
  "need_handle_signal sample_globals = False" "reloc_enable_mmu sample_globals = False"
  by (simp_all add: sample_globals_def)

lemma sample_env_fields [simp]:
  "env_io sample_env = with_mmu sample_calls" "env_sf sample_env = sample_softfloat"
  "has_next sample_env" "\<not> taken_link sample_env" "\<not> untaken_link sample_env"
  "block_known sample_env p = False"
  by (simp_all add: sample_env_def)

lemma sample_call_fields [simp]:
  "on_trap sample_calls = Inr" "on_ecall sample_calls = Inr" "on_ebreak sample_calls = Inr"
  by (simp_all add: sample_calls_def)

end
