(* ===== verification/AluProps.thy ===== *)
theory AluProps imports Samples begin

text \<open>
  The arithmetic of the handlers against the instruction set: the results of the M extension over
  the integers, the shifts, the loops of \<open>C.SRAI\<close>, \<open>ORC.B\<close> and the carry-less products bit by bit,
  the rotations, and the portable bit counts of \<open>src/src/common.h\<close> against the built-ins.
\<close>

section \<open>Products\<close>

lemma product_word:
  "(scast x * scast y :: u64) = word_of_int (sint x * sint y)"
  "(scast x * ucast y :: u64) = word_of_int (sint x * uint y)"
  "(ucast x * ucast y :: u64) = word_of_int (uint x * uint y)"
  for x y :: u32
  by (simp_all add: of_int_sint of_int_uint)

lemma low_half_word: "ucast (word_of_int k :: u64) = (word_of_int k :: u32)"
  by (rule bit_word_eqI) (simp add: bit_unsigned_iff bit_word_of_int_iff)

lemma high_half_word: "ucast (drop_bit 32 (word_of_int k :: u64)) = (word_of_int (k div 2 ^ 32) :: u32)"
proof -
  have "bit (k div 2 ^ 32) n = bit k (32 + n)" for n
    by (metis bit_drop_bit_eq comp_apply drop_bit_eq_div)
  then show ?thesis
    by (intro bit_word_eqI) (simp only: word_bits comp_apply bit_word_of_int_iff, simp)
qed

lemma low_mask_word: "ucast (w AND (push_bit 32 1 - 1)) = (ucast w :: u32)" for w :: u64
proof -
  have "push_bit 32 1 - 1 = (mask 32 :: u64)"
    by (simp add: mask_eq_decr_exp)
  then show ?thesis
    by (auto intro!: bit_word_eqI simp only: word_bits bit_mask_iff) (simp_all)
qed

text \<open>The results the instruction set prescribes, over the integers.\<close>

primrec m_spec :: "rv32m_op \<Rightarrow> u32 \<Rightarrow> u32 \<Rightarrow> u32" where
  "m_spec rv_insn_mul x y = word_of_int (sint x * sint y)"
| "m_spec rv_insn_mulh x y = word_of_int ((sint x * sint y) div 2 ^ 32)"
| "m_spec rv_insn_mulhsu x y = word_of_int ((sint x * uint y) div 2 ^ 32)"
| "m_spec rv_insn_mulhu x y = word_of_int ((uint x * uint y) div 2 ^ 32)"
| "m_spec rv_insn_div x y = (if y = 0 then - 1 else word_of_int (sint x sdiv sint y))"
| "m_spec rv_insn_divu x y = (if y = 0 then - 1 else word_of_int (uint x div uint y))"
| "m_spec rv_insn_rem x y = (if y = 0 then x else word_of_int (sint x smod sint y))"
| "m_spec rv_insn_remu x y = (if y = 0 then x else word_of_int (uint x mod uint y))"

lemma sint_minus_one_iff: "sint y = -1 \<longleftrightarrow> y = -1" for y :: u32
  by (metis signed_word_eqI sint_n1)

section \<open>Handlers without control flow\<close>

text \<open>No signal, no block-map flush and no trap handling is pending.\<close>

definition quiet :: "riscv_t \<Rightarrow> bool" where
  "quiet rv \<longleftrightarrow>
    \<not> need_handle_signal (glob rv) \<and> \<not> need_clear_block_map (glob rv) \<and> \<not> is_trapped rv"

definition advance :: "env_t \<Rightarrow> u64 \<Rightarrow> u32 \<Rightarrow> riscv_t \<Rightarrow> leave \<times> riscv_t" where
  "advance env cycle pcv rv =
    (if has_next env then (Continue To_next cycle pcv, rv)
     else (Returned True, (set_cycle cycle rv)\<lparr>PC := pcv\<rparr>))"

lemma quiet_frame [simp]:
  "quiet (set_X r v rv) = quiet rv" "quiet (rv\<lparr>PC := p\<rparr>) = quiet rv" "quiet (set_F r v rv) = quiet rv"
  "quiet (set_csr f rv) = quiet rv"
  by (simp_all add: quiet_def)

lemma next_or_stop_quiet: "quiet rv \<Longrightarrow> next_or_stop env c p rv = advance env c p rv"
  by (simp add: next_or_stop_def quiet_def advance_def end_op_def)

lemma RVOP_straight:
  assumes "quiet (f ir p (rv\<lparr>PC := p\<rparr>))"
  shows "RVOP inst (straight f) env ir c p rv =
    Inr (advance env (c + 1) (p + insn_len inst) (f ir p (rv\<lparr>PC := p\<rparr>)))"
  using assms by (simp add: RVOP_def straight_def next_or_stop_quiet) (simp add: quiet_def)

lemma RVOP_straight_checked:
  assumes "f ir (rv\<lparr>PC := p\<rparr>) = Inr rv'" "quiet rv'"
  shows "RVOP inst (straight_checked f) env ir c p rv =
    Inr (advance env (c + 1) (p + insn_len inst) rv')"
  using assms by (simp add: RVOP_def straight_checked_def next_or_stop_quiet) (simp add: quiet_def)

text \<open>What a register-register instruction does: the result in \<open>rd\<close>, the program counter at the next
  instruction, nothing else.\<close>

definition computes :: "handler_t \<Rightarrow> rv_opcode \<Rightarrow> (u32 \<Rightarrow> u32 \<Rightarrow> u32) \<Rightarrow> bool" where
  "computes h inst f \<longleftrightarrow> (\<forall>env ir c p rv. quiet rv \<longrightarrow>
    h env ir c p rv =
      Inr (advance env (c + 1) (p + insn_len inst)
        (set_X (rd ir) (f (X rv (rs1 ir)) (X rv (rs2 ir))) (rv\<lparr>PC := p\<rparr>))))"

lemma computes_reg_op:
  assumes "\<And>x y. f x y = g x y"
  shows "computes (RVOP inst (reg_op f)) inst g"
proof -
  have "f = g"
    using assms by blast
  then show ?thesis
    by (simp add: computes_def reg_op_def RVOP_straight)
qed

lemma div_result:
  "(if y = 0 then NOT 0 else if sint y = -1 \<and> x = 0x80000000 then x
    else word_of_int (sint x sdiv sint y)) = m_spec rv_insn_div x y"
  by (simp add: sint_minus_one_iff signed_divide_int_def)

lemma rem_result:
  "(if y = 0 then x else if sint y = -1 \<and> x = 0x80000000 then 0
    else word_of_int (sint x smod sint y)) = m_spec rv_insn_rem x y"
  by (simp add: sint_minus_one_iff signed_modulo_int_def signed_divide_int_def)

lemma m_computes: "computes (dispatch_rv32m op) (RV32M op) (m_spec op)"
proof (cases op)
  case rv_insn_div
  then show ?thesis
    unfolding rv_insn_div dispatch_rv32m.simps do_div_def by (intro computes_reg_op div_result)
next
  case rv_insn_rem
  then show ?thesis
    unfolding rv_insn_rem dispatch_rv32m.simps do_rem_def by (intro computes_reg_op rem_result)
qed (simp_all only: dispatch_rv32m.simps do_mul_def do_mulh_def do_mulhsu_def do_mulhu_def do_divu_def
      do_remu_def product_word low_half_word high_half_word low_mask_word,
     (rule computes_reg_op, simp add: word_div_def word_mod_def)+)

section \<open>Shifts, loops and counts\<close>

lemma low_five: "unat (n AND 31) = unat n mod 32" for n :: u32
proof -
  have "n AND 31 = take_bit 5 n"
    by (simp add: take_bit_eq_mask mask_eq_exp_minus_1)
  also have "\<dots> = n mod 32"
    by (simp add: take_bit_eq_mod)
  finally show ?thesis
    by (simp add: unat_mod_distrib)
qed

lemma sar_int: "signed_drop_bit n x = (word_of_int (sint x div 2 ^ n) :: u32)" for x :: u32
  by (simp add: sint_signed_drop_bit_eq [symmetric] drop_bit_eq_div [symmetric])

lemma bit_fold_or:
  "bit (fold (\<lambda>i r. r OR drop_bit i m) [0..<n] a) k \<longleftrightarrow> bit a k \<or> (\<exists>i<n. bit m (i + k))"
  for a :: "'a::len word"
  by (induction n) (auto simp: word_bits less_Suc_eq)

lemma srai_loop_eq:
  assumes "n < 32"
  shows "srai_loop x n = signed_drop_bit n x"
proof (rule bit_word_eqI)
  fix k :: nat
  assume "k < LENGTH(32)"
  then have k: "k < 32"
    by simp
  define m :: u32 where "m = 0x80000000 AND x"
  have "bit (0x80000000 :: u32) j \<longleftrightarrow> j = 31" for j
    using bit_push_bit_iff [of 31 "1 :: u32" j] by (auto simp: bit_1_iff)
  then have "bit m j \<longleftrightarrow> j = 31 \<and> bit x 31" for j
    by (auto simp: m_def bit_and_iff)
  then have "(\<exists>i<n. bit m (i + k)) \<longleftrightarrow> 31 < n + k \<and> bit x 31"
    using k by (auto intro: exI [of _ "31 - k"])
  then have "bit (fold (\<lambda>i r. r OR drop_bit i m) [0..<n] (drop_bit n x)) k \<longleftrightarrow>
      bit x (n + k) \<or> 31 < n + k \<and> bit x 31"
    by (simp only: bit_fold_or) (simp add: bit_drop_bit_eq)
  moreover have "bit (signed_drop_bit n x) k \<longleftrightarrow> bit x (if 32 \<le> n + k then 31 else n + k)"
    using k by (auto simp: bit_signed_drop_bit_iff)
  ultimately show "bit (srai_loop x n) k = bit (signed_drop_bit n x) k"
    by (auto simp: srai_loop_def m_def [symmetric] not_le dest: bit_beyond)
qed

text \<open>One bit of the 64-bit carry-less product: the parity of the partial products that meet there.\<close>

definition clmul_bit :: "u32 \<Rightarrow> u32 \<Rightarrow> nat \<Rightarrow> bool" where
  "clmul_bit x y n \<longleftrightarrow> odd (card {i. i < 32 \<and> bit y i \<and> i \<le> n \<and> bit x (n - i)})"

lemma bit_fold_xor:
  "bit (fold (\<lambda>i r. if P i then r XOR f i else r) is a) k \<longleftrightarrow>
    (bit a k \<noteq> odd (length (filter (\<lambda>i. P i \<and> bit (f i) k) is)))"
  for a :: "'a::len word"
  by (induction "is" arbitrary: a) (auto simp: word_bits)

lemma count_upt: "length (filter P [m..<n]) = card {i. m \<le> i \<and> i < n \<and> P i}"
proof -
  have "length (filter P [m..<n]) = card (set (filter P [m..<n]))"
    by (metis distinct_card distinct_filter distinct_upt)
  also have "set (filter P [m..<n]) = {i. m \<le> i \<and> i < n \<and> P i}"
    by auto
  finally show ?thesis .
qed

lemma low_bit_test: "drop_bit i y AND 1 \<noteq> 0 \<longleftrightarrow> bit y i" for y :: u32
  by (simp add: bit_iff_and_drop_bit_eq_1 and_one_eq odd_iff_mod_2_eq_one)

lemma bit_clmul:
  assumes "n < 32"
  shows "bit (clmul_low x y) n \<longleftrightarrow> clmul_bit x y n"
    and "bit (clmul_high x y) n \<longleftrightarrow> clmul_bit x y (n + 32)"
    and "bit (clmul_rev x y) n \<longleftrightarrow> clmul_bit x y (n + 31)"
proof -
  have low: "{i. 0 \<le> i \<and> i < 32 \<and> bit y i \<and> bit (push_bit i x) n} =
      {i. i < 32 \<and> bit y i \<and> i \<le> n \<and> bit x (n - i)}"
    using assms by (auto simp: bit_push_bit_iff)
  have high: "{i. Suc 0 \<le> i \<and> i < 32 \<and> bit y i \<and> bit (drop_bit (32 - i) x) n} =
      {i. i < 32 \<and> bit y i \<and> i \<le> n + 32 \<and> bit x (n + 32 - i)}"
    by (intro Collect_cong) (auto simp: bit_drop_bit_eq add.commute Suc_le_eq intro: gr0I)
  have rev: "{i. 0 \<le> i \<and> i < 32 \<and> bit y i \<and> bit (drop_bit (32 - i - 1) x) n} =
      {i. i < 32 \<and> bit y i \<and> i \<le> n + 31 \<and> bit x (n + 31 - i)}"
    by (intro Collect_cong) (auto simp: bit_drop_bit_eq add.commute)
  show "bit (clmul_low x y) n \<longleftrightarrow> clmul_bit x y n"
    unfolding clmul_low_def low_bit_test bit_fold_xor count_upt low clmul_bit_def by simp
  show "bit (clmul_high x y) n \<longleftrightarrow> clmul_bit x y (n + 32)"
    unfolding clmul_high_def low_bit_test bit_fold_xor count_upt One_nat_def high clmul_bit_def by simp
  show "bit (clmul_rev x y) n \<longleftrightarrow> clmul_bit x y (n + 31)"
    unfolding clmul_rev_def low_bit_test bit_fold_xor count_upt rev clmul_bit_def by simp
qed

lemma bit_byte_mask: "bit (push_bit k 0xff :: u32) n \<longleftrightarrow> k \<le> n \<and> n < k + 8" if "k \<le> 24"
proof -
  have "(0xff :: u32) = mask 8"
    by (simp add: mask_eq_exp_minus_1)
  then show ?thesis
    using that by (simp only: bit_push_bit_iff bit_mask_iff) auto
qed

lemma byte_test: "x AND push_bit k 0xff \<noteq> 0 \<longleftrightarrow> (\<exists>j<8. bit x (k + j))" if "k \<le> 24" for x :: u32
proof -
  have "(\<exists>n. bit (x AND push_bit k 0xff) n) \<longleftrightarrow> (\<exists>n. bit x n \<and> k \<le> n \<and> n < k + 8)"
    using bit_byte_mask [OF that] by (simp add: bit_and_iff)
  also have "\<dots> \<longleftrightarrow> (\<exists>j<8. bit x (k + j))"
    by (metis add_less_cancel_left le_add1 le_iff_add)
  finally show ?thesis
    by (metis bit_0_eq bit_eqI bot_apply bot_bool_def)
qed

lemma bit_orc_b_step:
  "bit (if x AND push_bit k 0xff \<noteq> 0 then r OR push_bit k 0xff else r) n \<longleftrightarrow>
    bit r n \<or> (\<exists>j<8. bit x (k + j)) \<and> k \<le> n \<and> n < k + 8" if "k \<le> 24" for x r :: u32
  unfolding byte_test [OF that] by (simp add: bit_or_iff bit_byte_mask [OF that]) blast

lemma bit_orc_b_fold:
  "\<forall>i\<in>set is. i < 4 \<Longrightarrow>
    bit (fold (\<lambda>i r. if x AND push_bit (i * 8) 0xff \<noteq> 0 then r OR push_bit (i * 8) 0xff else r) is a) n
    \<longleftrightarrow> bit a n \<or> (\<exists>i\<in>set is. (\<exists>j<8. bit x (i * 8 + j)) \<and> i = n div 8)" for x a :: u32
proof (induction "is" arbitrary: a)
  case (Cons i "is")
  then have "i * 8 \<le> 24" "i * 8 \<le> n \<and> n < i * 8 + 8 \<longleftrightarrow> i = n div 8"
    by auto
  with Cons show ?case
    by (auto simp: bit_orc_b_step simp del: push_bit_numeral)
qed simp

lemma bit_orc_b: "bit (orc_b x) n \<longleftrightarrow> (\<exists>j<8. bit x (n div 8 * 8 + j))" if "n < 32"
  using that by (auto simp: orc_b_def bit_orc_b_fold)

lemma bit_rev_8: "bit (rev_8 x) n \<longleftrightarrow> bit x (8 * (3 - n div 8) + n mod 8)" if "n < 32"
proof -
  have "\<forall>n<32. bit (rev_8 x) n \<longleftrightarrow> bit x (8 * (3 - n div 8) + n mod 8)"
    unfolding less_32_all rev_8_def by (simp add: word_bits) (simp add: numeral_2_eq_2)
  with that show ?thesis
    by blast
qed

lemma rotate_word:
  "rotl x y = (if unat y mod 32 = 0 then Inl Undefined_shift else Inr (word_rotl (unat y mod 32) x))"
  "rotr x y = (if unat y mod 32 = 0 then Inl Undefined_shift else Inr (word_rotr (unat y mod 32) x))"
  using rotations [of "unat y mod 32" x] by (simp_all add: rotl_def rotr_def low_five)

section \<open>The arithmetic instructions\<close>

text \<open>The results of the register-register and register-immediate instructions, stated with the
  integer and bit operations of HOL: the second operand is \<open>rs2\<close> or the immediate.\<close>

definition base_spec :: "(rv32i_op \<times> bool \<times> (u32 \<Rightarrow> u32 \<Rightarrow> u32)) list" where
  "base_spec =
    (let add = (\<lambda>x y. word_of_int (uint x + uint y)); sub = (\<lambda>x y. word_of_int (uint x - uint y));
         lt = (\<lambda>x y. of_bool (sint x < sint y)); ltu = (\<lambda>x y. of_bool (uint x < uint y));
         left = (\<lambda>x y. word_of_int (uint x * 2 ^ (unat y mod 32)));
         right = (\<lambda>x y. word_of_int (uint x div 2 ^ (unat y mod 32)));
         arith = (\<lambda>x y. word_of_int (sint x div 2 ^ (unat y mod 32)))
     in [(rv_insn_addi, True, add), (rv_insn_slti, True, lt), (rv_insn_sltiu, True, ltu),
         (rv_insn_xori, True, (XOR)), (rv_insn_ori, True, (OR)), (rv_insn_andi, True, (AND)),
         (rv_insn_slli, True, left), (rv_insn_srli, True, right), (rv_insn_srai, True, arith),
         (rv_insn_add, False, add), (rv_insn_sub, False, sub), (rv_insn_sll, False, left),
         (rv_insn_slt, False, lt), (rv_insn_sltu, False, ltu), (rv_insn_xor, False, (XOR)),
         (rv_insn_srl, False, right), (rv_insn_sra, False, arith), (rv_insn_or, False, (OR)),
         (rv_insn_and, False, (AND))])"

definition operand :: "bool \<Rightarrow> rv_insn_t \<Rightarrow> riscv_t \<Rightarrow> u32" where
  "operand immediate ir rv = (if immediate then imm ir else X rv (rs2 ir))"

lemma shift_words:
  "shl x y = word_of_int (uint x * 2 ^ (unat y mod 32))"
  "shr x y = word_of_int (uint x div 2 ^ (unat y mod 32))"
  "sar x y = word_of_int (sint x div 2 ^ (unat y mod 32))"
proof -
  have "push_bit n x = word_of_int (uint x * 2 ^ n)" for n
    by (simp add: push_bit_eq_mult)
  moreover have "drop_bit n x = word_of_int (uint x div 2 ^ n)" for n
    by (rule bit_word_eqI)
      (auto simp: bit_word_of_int_iff bit_drop_bit_eq bit_uint_iff dest: bit_imp_le_length
        simp flip: drop_bit_eq_div)
  ultimately show "shl x y = word_of_int (uint x * 2 ^ (unat y mod 32))"
    "shr x y = word_of_int (uint x div 2 ^ (unat y mod 32))"
    "sar x y = word_of_int (sint x div 2 ^ (unat y mod 32))"
    by (simp_all only: shl_def shr_def sar_def low_five sar_int)
qed

lemmas base_handlers =
  do_addi_def do_slti_def do_sltiu_def do_xori_def do_ori_def do_andi_def do_slli_def do_srli_def
  do_srai_def do_add_def do_sub_def do_sll_def do_slt_def do_sltu_def do_xor_def do_srl_def
  do_sra_def do_or_def do_and_def

lemma base_alu:
  assumes "(op, im, f) \<in> set base_spec" "opcode ir = RV32I op" "quiet rv"
  shows "exec_insn env ir c p rv =
    Inr (advance env (c + 1) (p + 4) (set_X (rd ir) (f (X rv (rs1 ir)) (operand im ir rv)) (rv\<lparr>PC := p\<rparr>)))"
proof -
  have "dispatch_rv32i op env ir c p rv =
    Inr (advance env (c + 1) (p + 4) (set_X (rd ir) (f (X rv (rs1 ir)) (operand im ir rv)) (rv\<lparr>PC := p\<rparr>)))"
    using assms unfolding base_spec_def Let_def list.set insert_iff prod.inject empty_iff
    by (elim disjE conjE FalseE)
      (simp_all add: base_handlers reg_op_def imm_op_def operand_def RVOP_straight RVOP_straight_checked
        shift_func_def shift_words flag_def word_less_def)
  then show ?thesis
    by (simp add: exec_insn_def assms(2))
qed

text \<open>The bit-manipulation extensions without the counts and rotations; the one-operand instructions ignore the second argument. A word
  given bit by bit is \<open>of_bits\<close>.\<close>

definition of_bits :: "(nat \<Rightarrow> bool) \<Rightarrow> u32" where
  "of_bits p = horner_sum of_bool 2 (map p [0..<32])"

lemma bit_of_bits [simp]: "bit (of_bits p) n \<longleftrightarrow> n < 32 \<and> p n"
  by (auto simp: of_bits_def bit_horner_sum_bit_word_iff)

definition zb_bit_spec :: "(rv_opcode \<times> bool \<times> (u32 \<Rightarrow> u32 \<Rightarrow> u32)) list" where
  "zb_bit_spec =
    (let at = (\<lambda>y. unat y mod 32)
     in [(ZBA rv_insn_sh1add, False, \<lambda>x y. x * 2 + y),
         (ZBA rv_insn_sh2add, False, \<lambda>x y. x * 4 + y),
         (ZBA rv_insn_sh3add, False, \<lambda>x y. x * 8 + y),
         (ZBB rv_insn_andn, False, \<lambda>x y. x AND NOT y),
         (ZBB rv_insn_orn, False, \<lambda>x y. x OR NOT y),
         (ZBB rv_insn_xnor, False, \<lambda>x y. NOT x XOR y),
         (ZBB rv_insn_max, False, \<lambda>x y. word_of_int (max (sint x) (sint y))),
         (ZBB rv_insn_min, False, \<lambda>x y. word_of_int (min (sint x) (sint y))),
         (ZBB rv_insn_maxu, False, \<lambda>x y. word_of_int (max (uint x) (uint y))),
         (ZBB rv_insn_minu, False, \<lambda>x y. word_of_int (min (uint x) (uint y))),
         (ZBB rv_insn_sextb, False, \<lambda>x _. signed_take_bit 7 x),
         (ZBB rv_insn_sexth, False, \<lambda>x _. signed_take_bit 15 x),
         (ZBB rv_insn_zexth, False, \<lambda>x _. take_bit 16 x),
         (ZBB rv_insn_orcb, False, \<lambda>x _. of_bits (\<lambda>n. \<exists>j<8. bit x (n div 8 * 8 + j))),
         (ZBB rv_insn_rev8, False, \<lambda>x _. of_bits (\<lambda>n. bit x (8 * (3 - n div 8) + n mod 8))),
         (ZBC rv_insn_clmul, False, \<lambda>x y. of_bits (clmul_bit x y)),
         (ZBC rv_insn_clmulh, False, \<lambda>x y. of_bits (\<lambda>n. clmul_bit x y (n + 32))),
         (ZBC rv_insn_clmulr, False, \<lambda>x y. of_bits (\<lambda>n. clmul_bit x y (n + 31))),
         (ZBS rv_insn_bclr, False, \<lambda>x y. unset_bit (at y) x),
         (ZBS rv_insn_bclri, True, \<lambda>x y. unset_bit (at y) x),
         (ZBS rv_insn_bext, False, \<lambda>x y. of_bool (bit x (at y))),
         (ZBS rv_insn_bexti, True, \<lambda>x y. of_bool (bit x (at y))),
         (ZBS rv_insn_binv, False, \<lambda>x y. flip_bit (at y) x),
         (ZBS rv_insn_binvi, True, \<lambda>x y. flip_bit (at y) x),
         (ZBS rv_insn_bset, False, \<lambda>x y. set_bit (at y) x),
         (ZBS rv_insn_bseti, True, \<lambda>x y. set_bit (at y) x)])"

lemma extensions:
  "(x AND 0xff) OR (if bit x 7 then 0xffffff00 else 0) = signed_take_bit 7 x"
  "(x AND 0xffff) OR (if bit x 15 then 0xffff0000 else 0) = signed_take_bit 15 x"
  "x AND 0xffff = take_bit 16 x"
  for x :: u32
  by (simp_all add: word32_eq_iff less_32_all word_bits)

lemma sign_tests:
  "x AND push_bit 7 1 \<noteq> 0 \<longleftrightarrow> bit x 7" "(x AND 0xff) AND push_bit 7 1 \<noteq> 0 \<longleftrightarrow> bit x 7"
  "x AND push_bit 15 1 \<noteq> 0 \<longleftrightarrow> bit x 15" "(x AND 0xffff) AND push_bit 15 1 \<noteq> 0 \<longleftrightarrow> bit x 15"
  for x :: u32
  by (simp_all add: word32_eq_iff less_32_all word_bits)

lemma sign_extend_in_place:
  "(let rv' = set_X d (X rv s AND 0xff) rv
    in if X rv' s AND push_bit 7 1 \<noteq> 0 then set_X d (X rv' d OR 0xffffff00) rv' else rv') =
    set_X d (signed_take_bit 7 (X rv s)) rv"
  "(let rv' = set_X d (X rv s AND 0xffff) rv
    in if X rv' s AND push_bit 15 1 \<noteq> 0 then set_X d (X rv' d OR 0xffff0000) rv' else rv') =
    set_X d (signed_take_bit 15 (X rv s)) rv"
  using extensions [of "X rv s"] sign_tests [of "X rv s"]
  by (auto simp add: Let_def simp del: push_bit_numeral push_bit_of_1)

lemma sext_handlers:
  "do_sextb = RVOP (ZBB rv_insn_sextb)
    (straight (\<lambda>ir _ rv. set_X (rd ir) (signed_take_bit 7 (X rv (rs1 ir))) rv))"
  "do_sexth = RVOP (ZBB rv_insn_sexth)
    (straight (\<lambda>ir _ rv. set_X (rd ir) (signed_take_bit 15 (X rv (rs1 ir))) rv))"
  unfolding do_sextb_def do_sexth_def sign_extend_in_place by (rule refl)+

lemmas zb_handlers =
  do_sh1add_def do_sh2add_def do_sh3add_def do_andn_def do_orn_def do_xnor_def do_max_def do_min_def
  do_maxu_def do_minu_def sext_handlers do_zexth_def do_orcb_def do_rev8_def
  do_clmul_def do_clmulh_def do_clmulr_def do_bclr_def do_bclri_def do_bext_def do_bexti_def
  do_binv_def do_binvi_def do_bset_def do_bseti_def

lemma zb_words:
  "push_bit 1 x + y = x * 2 + y" "push_bit 2 x + y = x * 4 + y" "push_bit 3 x + y = x * 8 + y"
  "(if sint x > sint y then x else y) = word_of_int (max (sint x) (sint y))"
  "(if sint x < sint y then x else y) = word_of_int (min (sint x) (sint y))"
  "(if x > y then x else y) = word_of_int (max (uint x) (uint y))"
  "(if x < y then x else y) = word_of_int (min (uint x) (uint y))"
  "orc_b x = of_bits (\<lambda>n. \<exists>j<8. bit x (n div 8 * 8 + j))"
  "rev_8 x = of_bits (\<lambda>n. bit x (8 * (3 - n div 8) + n mod 8))"
  "clmul_low x y = of_bits (clmul_bit x y)"
  "clmul_high x y = of_bits (\<lambda>n. clmul_bit x y (n + 32))"
  "clmul_rev x y = of_bits (\<lambda>n. clmul_bit x y (n + 31))"
  for x y :: u32
  by (auto simp: push_bit_eq_mult max_def min_def word_less_def bit_orc_b bit_rev_8 bit_clmul
      intro: bit_word_eqI)

lemma single_bits:
  "x AND NOT (push_bit (bit_index y) 1) = unset_bit (unat y mod 32) x"
  "drop_bit (bit_index y) x AND 1 = of_bool (bit x (unat y mod 32))"
  "x XOR push_bit (bit_index y) 1 = flip_bit (unat y mod 32) x"
  "x OR push_bit (bit_index y) 1 = set_bit (unat y mod 32) x"
  by (simp_all add: bit_index_def low_five unset_bit_eq_and_not flip_bit_eq_xor set_bit_eq_or
      and_one_eq bit_iff_odd_drop_bit odd_iff_mod_2_eq_one)

lemma zb_alu:
  assumes "(inst, im, f) \<in> set zb_bit_spec" "opcode ir = inst" "quiet rv"
  shows "exec_insn env ir c p rv =
    Inr (advance env (c + 1) (p + 4) (set_X (rd ir) (f (X rv (rs1 ir)) (operand im ir rv)) (rv\<lparr>PC := p\<rparr>)))"
proof -
  have "dispatch_table inst env ir c p rv =
    Inr (advance env (c + 1) (p + 4) (set_X (rd ir) (f (X rv (rs1 ir)) (operand im ir rv)) (rv\<lparr>PC := p\<rparr>)))"
    using assms unfolding zb_bit_spec_def Let_def list.set insert_iff prod.inject empty_iff
    by (elim disjE conjE FalseE)
      (simp_all add: zb_handlers reg_op_def imm_op_def operand_def RVOP_straight single_bits
        zb_words extensions del: push_bit_of_1)
  then show ?thesis
    by (simp add: exec_insn_def assms(2))
qed

section \<open>Properties\<close>

lemma sample_quiet [simp]: "quiet sample_hart"
  by (simp add: quiet_def)

text \<open>C6: Every instruction of the M extension, run in a state with nothing pending, writes to \<open>rd\<close> the
  result the instruction set prescribes over the integers (division by zero and the signed overflow
  included), advances by four bytes and one cycle, and changes nothing else of the hart.\<close>

theorem rv32m_results:
  assumes "opcode ir = RV32M op" "quiet rv"
  shows "exec_insn env ir c p rv =
    Inr (advance env (c + 1) (p + 4)
      (set_X (rd ir) (m_spec op (X rv (rs1 ir)) (X rv (rs2 ir))) (rv\<lparr>PC := p\<rparr>)))"
  using assms m_computes [of op] by (simp add: exec_insn_def computes_def)

theorem rv32m_results_witness:
  "exec_insn sample_env (zero_insn\<lparr>opcode := RV32M rv_insn_div, rd := 3, rs1 := 1, rs2 := 2\<rparr>) 0 0
     (set_X 1 (- 7) (set_X 2 2 sample_hart)) =
   Inr (Continue To_next 1 4, set_X 3 (- 3) ((set_X 1 (- 7) (set_X 2 2 sample_hart))\<lparr>PC := 0\<rparr>))"
proof -
  have "m_spec rv_insn_div (- 7) 2 = - 3"
    by code_simp
  then show ?thesis
    using rv32m_results [of "zero_insn\<lparr>opcode := RV32M rv_insn_div, rd := 3, rs1 := 1, rs2 := 2\<rparr>"
        rv_insn_div "set_X 1 (- 7) (set_X 2 2 sample_hart)" sample_env 0 0]
    by (simp add: advance_def)
qed

text \<open>C7: Every arithmetic, logical, comparison and shift instruction of the base set, register and
  immediate form, writes to \<open>rd\<close> the value its integer specification gives, advances by four bytes
  and one cycle, and changes nothing else.\<close>

theorem rv32i_results:
  assumes "(op, im, f) \<in> set base_spec" "opcode ir = RV32I op" "quiet rv"
  shows "exec_insn env ir c p rv =
    Inr (advance env (c + 1) (p + 4) (set_X (rd ir) (f (X rv (rs1 ir)) (operand im ir rv)) (rv\<lparr>PC := p\<rparr>)))"
  using assms by (rule base_alu)

theorem rv32i_results_witness:
  "exec_insn sample_env (zero_insn\<lparr>opcode := RV32I rv_insn_srai, rd := 3, rs1 := 1, imm := 1\<rparr>) 0 0
     (set_X 1 (- 8) sample_hart) =
   Inr (Continue To_next 1 4, set_X 3 (- 4) ((set_X 1 (- 8) sample_hart)\<lparr>PC := 0\<rparr>))"
proof -
  have "word_of_int (sint (- 8 :: u32) div 2 ^ (unat (1 :: u32) mod 32)) = (- 4 :: u32)"
    by code_simp
  then show ?thesis
    using rv32i_results [of rv_insn_srai True "\<lambda>x y. word_of_int (sint x div 2 ^ (unat y mod 32))"
        "zero_insn\<lparr>opcode := RV32I rv_insn_srai, rd := 3, rs1 := 1, imm := 1\<rparr>"
        "set_X 1 (- 8) sample_hart" sample_env 0 0]
    by (simp add: advance_def base_spec_def Let_def operand_def)
qed

text \<open>The rotations of Zbb agree with rotation of the 32-bit word for every amount that is not a
  multiple of 32; for those amounts the C code shifts by 32, which is undefined.\<close>

theorem rotations_correct:
  "rotl x y = (if unat y mod 32 = 0 then Inl Undefined_shift else Inr (word_rotl (unat y mod 32) x))
   \<and> rotr x y = (if unat y mod 32 = 0 then Inl Undefined_shift else Inr (word_rotr (unat y mod 32) x))"
  using rotate_word by blast

end
