(* ===== verification/CountProps.thy ===== *)
theory CountProps imports AluProps begin

text \<open>
  The bit counts of \<open>src/src/common.h\<close>: what the built-ins compute, and the portable definitions that
  file gives for other compilers, which find the highest and the lowest set bit by de Bruijn
  multiplication; and, with them, the results of all the bit-manipulation instructions.
\<close>

section \<open>Highest and lowest set bits\<close>

definition top_bit :: "u32 \<Rightarrow> nat \<Rightarrow> bool" where
  "top_bit x h \<longleftrightarrow> h < 32 \<and> bit x h \<and> (\<forall>j>h. \<not> bit x j)"

definition low_bit :: "u32 \<Rightarrow> nat \<Rightarrow> bool" where
  "low_bit x l \<longleftrightarrow> l < 32 \<and> bit x l \<and> (\<forall>j<l. \<not> bit x j)"

lemma some_bit: "x \<noteq> 0 \<Longrightarrow> \<exists>n<32. bit x n" for x :: u32
  by (auto simp: word32_eq_iff)

lemma top_bit_ex: "x \<noteq> 0 \<Longrightarrow> \<exists>h. top_bit x h"
proof -
  assume "x \<noteq> 0"
  define S where "S = {n. n < 32 \<and> bit x n}"
  have S: "n \<in> S \<longleftrightarrow> bit x n" for n
    by (auto simp: S_def dest: bit_imp_le_length)
  have "finite S" "S \<noteq> {}"
    using some_bit [OF \<open>x \<noteq> 0\<close>] by (auto simp: S_def)
  then have "Max S \<in> S" "j \<le> Max S" if "j \<in> S" for j
    using that by simp_all
  moreover have "Max S < 32"
    using \<open>finite S\<close> \<open>S \<noteq> {}\<close> Max_in by (auto simp: S_def)
  moreover have "\<exists>j. j \<in> S"
    using \<open>S \<noteq> {}\<close> by blast
  ultimately have "top_bit x (Max S)"
    unfolding top_bit_def S [symmetric] by (meson leD)
  then show ?thesis
    by blast
qed

lemma low_bit_ex: "x \<noteq> 0 \<Longrightarrow> \<exists>l. low_bit x l"
proof -
  assume "x \<noteq> 0"
  then obtain n where n: "n < 32" "bit x n"
    using some_bit by blast
  have "bit x (LEAST n. bit x n)" "(LEAST n. bit x n) \<le> n"
    using n by (auto intro: LeastI Least_le)
  with n show ?thesis
    by (auto simp: low_bit_def intro!: exI [of _ "LEAST n. bit x n"] dest: not_less_Least)
qed

lemma takeWhile_stop:
  "\<lbrakk>n < length xs; P (xs ! n); \<And>i. i < n \<Longrightarrow> \<not> P (xs ! i)\<rbrakk> \<Longrightarrow>
    length (takeWhile (\<lambda>x. \<not> P x) xs) = n"
proof (induction xs arbitrary: n)
  case (Cons x xs)
  show ?case
  proof (cases n)
    case 0
    with Cons.prems show ?thesis
      by simp
  next
    case (Suc m)
    with Cons.prems(3) [of 0] have "\<not> P x"
      by simp
    moreover have "length (takeWhile (\<lambda>x. \<not> P x) xs) = m"
      using Cons.prems Cons.prems(3) [of "Suc i" for i] Suc by (intro Cons.IH) auto
    ultimately show ?thesis
      using Suc by simp
  qed
qed simp

lemma clz_top: "top_bit x h \<Longrightarrow> rv_clz x = of_nat (31 - h)"
  unfolding rv_clz_def top_bit_def
  by (subst takeWhile_stop [where n = "31 - h"]) (auto simp: rev_nth)

lemma ctz_low: "low_bit x l \<Longrightarrow> rv_ctz x = of_nat l"
  unfolding rv_ctz_def low_bit_def by (subst takeWhile_stop [where n = l]) auto

section \<open>The portable definitions\<close>

lemma smear_step:
  fixes v x :: u32
  assumes "\<And>n. bit v n \<longleftrightarrow> (\<exists>j<k. bit x (n + j))"
  shows "bit (v OR drop_bit k v) n \<longleftrightarrow> (\<exists>j<k + k. bit x (n + j))"
proof -
  have "(\<exists>j<k + k. P j) \<longleftrightarrow> (\<exists>j<k. P j) \<or> (\<exists>j<k. P (k + j))" for P :: "nat \<Rightarrow> bool"
    by (metis add_less_cancel_left le_Suc_ex not_less trans_less_add1)
  from this [of "\<lambda>j. bit x (n + j)"] show ?thesis
    by (simp add: bit_or_iff bit_drop_bit_eq assms add.commute add.left_commute)
qed

lemma smear_mask:
  fixes v x :: u32
  assumes "top_bit x h" and "\<And>n. bit v n \<longleftrightarrow> (\<exists>j<32. bit x (n + j))"
  shows "v = mask (Suc h)"
proof (rule bit_word_eqI)
  fix n :: nat
  assume "n < LENGTH(32)"
  moreover have "(\<exists>j<32. bit x (n + j)) \<longleftrightarrow> n \<le> h"
  proof
    assume "n \<le> h"
    with assms(1) show "\<exists>j<32. bit x (n + j)"
      by (intro exI [of _ "h - n"]) (auto simp: top_bit_def)
  qed (use assms(1) in \<open>auto simp: top_bit_def intro: ccontr\<close>)
  ultimately show "bit v n = bit (mask (Suc h) :: u32) n"
    by (simp add: assms(2) bit_mask_iff less_Suc_eq_le)
qed

lemma clz_table: "\<forall>h<32. clz_debruijn ! unat (drop_bit 27 (mask (Suc h) * 0x07C4ACDD :: u32)) = of_nat h"
  unfolding less_32_all by (simp add: clz_debruijn_def mask_eq_exp_minus_1)

lemma ctz_table: "\<forall>l<32. ctz_debruijn ! unat (drop_bit 27 (2 ^ l * 0x077CB531 :: u32)) = of_nat l"
  unfolding less_32_all by (simp add: ctz_debruijn_def)

lemma generic_clz_top:
  assumes "top_bit x h"
  shows "generic_clz x = of_nat h"
proof -
  have "bit x n \<longleftrightarrow> (\<exists>j<1. bit x (n + j))" for n
    by simp
  note s = this [THEN smear_step [of _ 1], simplified one_add_one]
  note s = s [THEN smear_step [of _ 2], simplified]
  note s = s [THEN smear_step [of _ 4], simplified]
  note s = s [THEN smear_step [of _ 8], simplified]
  note s = s [THEN smear_step [of _ 16], simplified]
  have "h < 32"
    using assms by (simp add: top_bit_def)
  then show ?thesis
    using clz_table smear_mask [OF assms s] by (simp add: generic_clz_def Let_def)
qed

lemma lowest_alone:
  assumes "low_bit x l"
  shows "x AND - x = 2 ^ l"
proof -
  define y where "y = drop_bit l x"
  have "bit x n \<Longrightarrow> l \<le> n" for n
    using assms by (auto simp: low_bit_def not_less [symmetric])
  then have x: "x = push_bit l y"
    by (auto intro!: bit_word_eqI simp: y_def word_bits)
  have "odd y"
    using assms by (simp add: y_def low_bit_def bit_iff_odd_drop_bit)
  then have "- y = NOT y OR 1"
    by (simp add: minus_eq_not_plus_1 or_one_eq)
  with \<open>odd y\<close> have "y AND - y = 1"
    by (simp add: bit.conj_disj_distrib and_one_eq odd_iff_mod_2_eq_one)
  then show ?thesis
    unfolding x by (simp add: push_bit_minus [symmetric] push_bit_and [symmetric] push_bit_of_1)
qed

lemma generic_ctz_low:
  assumes "low_bit x l"
  shows "generic_ctz x = of_nat l"
  using assms ctz_table by (simp add: generic_ctz_def lowest_alone low_bit_def)

section \<open>The count instructions\<close>

definition count_spec :: "(zbb_op \<times> (u32 \<Rightarrow> nat set)) list" where
  "count_spec =
    [(rv_insn_clz, \<lambda>x. {n. n < 32 \<and> (\<forall>j\<ge>n. \<not> bit x j)}),
     (rv_insn_ctz, \<lambda>x. {n. n < 32 \<and> (\<forall>j\<le>n. \<not> bit x j)}),
     (rv_insn_cpop, \<lambda>x. {n. n < 32 \<and> bit x n})]"

lemma clz_set: "top_bit x h \<Longrightarrow> {n. n < 32 \<and> (\<forall>j\<ge>n. \<not> bit x j)} = {Suc h..<32}"
  unfolding top_bit_def set_eq_iff mem_Collect_eq atLeastLessThan_iff
  by (metis Suc_le_eq less_le_trans not_le)

lemma ctz_set: "low_bit x l \<Longrightarrow> {n. n < 32 \<and> (\<forall>j\<le>n. \<not> bit x j)} = {0..<l}"
  unfolding low_bit_def set_eq_iff mem_Collect_eq atLeastLessThan_iff
  by (metis le_less_trans less_trans not_le zero_le)

lemma count_words:
  "(if x \<noteq> 0 then rv_clz x else 32) = of_nat (card {n. n < 32 \<and> (\<forall>j\<ge>n. \<not> bit x j)})"
  "(if x \<noteq> 0 then rv_ctz x else 32) = of_nat (card {n. n < 32 \<and> (\<forall>j\<le>n. \<not> bit x j)})"
  "rv_popcount x = of_nat (card {n. n < 32 \<and> bit x n})"
proof -
  have all: "card {n. n < (32 :: nat)} = 32"
    by simp
  show "(if x \<noteq> 0 then rv_clz x else 32) = of_nat (card {n. n < 32 \<and> (\<forall>j\<ge>n. \<not> bit x j)})"
    using top_bit_ex [of x] clz_top [of x] clz_set [of x] all by (cases "x = 0") auto
  show "(if x \<noteq> 0 then rv_ctz x else 32) = of_nat (card {n. n < 32 \<and> (\<forall>j\<le>n. \<not> bit x j)})"
    using low_bit_ex [of x] ctz_low [of x] ctz_set [of x] all by (cases "x = 0") auto
  show "rv_popcount x = of_nat (card {n. n < 32 \<and> bit x n})"
    by (simp add: rv_popcount_def count_upt)
qed

lemma count_exec:
  assumes "(op, S) \<in> set count_spec" "opcode ir = ZBB op" "quiet rv"
  shows "exec_insn env ir c p rv =
    Inr (advance env (c + 1) (p + 4) (set_X (rd ir) (of_nat (card (S (X rv (rs1 ir))))) (rv\<lparr>PC := p\<rparr>)))"
proof -
  have clz: "do_clz = RVOP (ZBB rv_insn_clz) (straight (\<lambda>ir _ rv. set_X (rd ir)
      (of_nat (card {n. n < 32 \<and> (\<forall>j\<ge>n. \<not> bit (X rv (rs1 ir)) j)})) rv))"
    and ctz: "do_ctz = RVOP (ZBB rv_insn_ctz) (straight (\<lambda>ir _ rv. set_X (rd ir)
      (of_nat (card {n. n < 32 \<and> (\<forall>j\<le>n. \<not> bit (X rv (rs1 ir)) j)})) rv))"
    unfolding do_clz_def do_ctz_def count_words [symmetric] by (simp_all add: if_distrib if_distribR cong: if_cong)
  show ?thesis
    using assms unfolding count_spec_def list.set insert_iff prod.inject empty_iff
    by (elim disjE conjE FalseE)
      (simp_all add: exec_insn_def clz ctz do_cpop_def count_words(3) RVOP_straight)
qed

section \<open>All of Zba, Zbb, Zbc and Zbs\<close>

lemma rotation_exec:
  assumes "(op, im, f) \<in> {(rv_insn_rol, False, \<lambda>x y. word_rotl (unat y mod 32) x),
      (rv_insn_ror, False, \<lambda>x y. word_rotr (unat y mod 32) x), (rv_insn_rori, True, \<lambda>x y. word_rotr (unat y mod 32) x)}"
    and "opcode ir = ZBB op" "quiet rv"
  shows "exec_insn env ir c p rv =
    (if unat (operand im ir rv) mod 32 = 0 then Inl Undefined_shift
     else Inr (advance env (c + 1) (p + 4) (set_X (rd ir) (f (X rv (rs1 ir)) (operand im ir rv)) (rv\<lparr>PC := p\<rparr>))))"
proof -
  have stop: "RVOP inst (straight_checked g) env ir c p rv = Inl e" if "g ir (rv\<lparr>PC := p\<rparr>) = Inl e" for inst g e
    using that by (simp add: RVOP_def straight_checked_def)
  show ?thesis
    using assms unfolding insert_iff prod.inject empty_iff
    by (elim disjE conjE FalseE)
      (auto simp: exec_insn_def do_rol_def do_ror_def do_rori_def operand_def rotate_word RVOP_straight_checked stop)
qed

text \<open>The specification of every instruction of the four extensions: whether its second operand is the
  immediate, and its result.\<close>

definition zb_spec :: "(rv_opcode \<times> bool \<times> (u32 \<Rightarrow> u32 \<Rightarrow> u32)) list" where
  "zb_spec = zb_bit_spec @
    [(ZBB rv_insn_clz, False, \<lambda>x _. of_nat (card {n. n < 32 \<and> (\<forall>j\<ge>n. \<not> bit x j)})),
     (ZBB rv_insn_ctz, False, \<lambda>x _. of_nat (card {n. n < 32 \<and> (\<forall>j\<le>n. \<not> bit x j)})),
     (ZBB rv_insn_cpop, False, \<lambda>x _. of_nat (card {n. n < 32 \<and> bit x n})),
     (ZBB rv_insn_rol, False, \<lambda>x y. word_rotl (unat y mod 32) x),
     (ZBB rv_insn_ror, False, \<lambda>x y. word_rotr (unat y mod 32) x),
     (ZBB rv_insn_rori, True, \<lambda>x y. word_rotr (unat y mod 32) x)]"

definition rotations_zbb :: "rv_opcode set" where
  "rotations_zbb = ZBB ` {rv_insn_rol, rv_insn_ror, rv_insn_rori}"

lemma zb_spec_complete:
  assumes "inst \<in> range ZBA \<union> range ZBB \<union> range ZBC \<union> range ZBS"
  obtains im f where "(inst, im, f) \<in> set zb_spec"
proof -
  have "inst \<in> fst ` set zb_spec"
    using assms
  proof (elim UnE rangeE)
    fix op assume "inst = ZBA op" then show ?thesis by (cases op) (simp_all add: zb_spec_def zb_bit_spec_def Let_def)
  next
    fix op assume "inst = ZBB op" then show ?thesis by (cases op) (simp_all add: zb_spec_def zb_bit_spec_def Let_def)
  next
    fix op assume "inst = ZBC op" then show ?thesis by (cases op) (simp_all add: zb_spec_def zb_bit_spec_def Let_def)
  next
    fix op assume "inst = ZBS op" then show ?thesis by (cases op) (simp_all add: zb_spec_def zb_bit_spec_def Let_def)
  qed
  then show ?thesis
    using that by auto
qed

lemma zb_bit_no_rotation: "(inst, im, f) \<in> set zb_bit_spec \<Longrightarrow> inst \<notin> rotations_zbb"
  unfolding zb_bit_spec_def Let_def list.set insert_iff prod.inject empty_iff rotations_zbb_def by auto

lemma zb_exec:
  assumes "(opcode ir, im, f) \<in> set zb_spec" "quiet rv"
  shows "exec_insn env ir c p rv =
    (if opcode ir \<in> rotations_zbb \<and> unat (operand im ir rv) mod 32 = 0 then Inl Undefined_shift
     else Inr (advance env (c + 1) (p + 4) (set_X (rd ir) (f (X rv (rs1 ir)) (operand im ir rv)) (rv\<lparr>PC := p\<rparr>))))"
proof (cases "(opcode ir, im, f) \<in> set zb_bit_spec")
  case True
  then show ?thesis
    using zb_alu [OF True refl assms(2)] zb_bit_no_rotation [OF True] by simp
next
  case False
  consider op S where "opcode ir = ZBB op" "(op, S) \<in> set count_spec" "f = (\<lambda>x _. of_nat (card (S x)))" "opcode ir \<notin> rotations_zbb"
    | op where "opcode ir = ZBB op" "(op, im, f) \<in> {(rv_insn_rol, False, \<lambda>x y. word_rotl (unat y mod 32) x),
        (rv_insn_ror, False, \<lambda>x y. word_rotr (unat y mod 32) x), (rv_insn_rori, True, \<lambda>x y. word_rotr (unat y mod 32) x)}"
        "opcode ir \<in> rotations_zbb"
    using assms(1) False unfolding zb_spec_def set_append Un_iff list.set insert_iff prod.inject empty_iff
    by (elim disjE conjE FalseE) (simp_all add: count_spec_def rotations_zbb_def)
  then show ?thesis
  proof cases
    case (1 op S)
    then show ?thesis
      using count_exec [OF 1(2, 1) assms(2)] by simp
  next
    case (2 op)
    then show ?thesis
      using rotation_exec [OF 2(2, 1) assms(2)] by simp
  qed
qed

section \<open>Properties\<close>

text \<open>\<open>CLZ\<close>, \<open>CTZ\<close> and \<open>CPOP\<close> write the number of leading zeros, trailing zeros and set bits of
  the operand (32 for a zero operand in the first two), advance by four bytes and one cycle, and
  change nothing else.\<close>

theorem count_results:
  assumes "(op, S) \<in> set count_spec" "opcode ir = ZBB op" "quiet rv"
  shows "exec_insn env ir c p rv =
    Inr (advance env (c + 1) (p + 4) (set_X (rd ir) (of_nat (card (S (X rv (rs1 ir))))) (rv\<lparr>PC := p\<rparr>)))"
  using assms by (rule count_exec)

theorem count_results_witness:
  "exec_insn sample_env (zero_insn\<lparr>opcode := ZBB rv_insn_clz, rd := 3, rs1 := 1\<rparr>) 0 0 sample_hart =
   Inr (Continue To_next 1 4, set_X 3 32 (sample_hart\<lparr>PC := 0\<rparr>))"
proof -
  have "card {n. n < (32 :: nat)} = 32"
    by simp
  then show ?thesis
    using count_results [of rv_insn_clz "\<lambda>x. {n. n < 32 \<and> (\<forall>j\<ge>n. \<not> bit x j)}"
        "zero_insn\<lparr>opcode := ZBB rv_insn_clz, rd := 3, rs1 := 1\<rparr>" sample_hart sample_env 0 0]
    by (simp add: advance_def count_spec_def)
qed

text \<open>C8: Every instruction of Zba, Zbb, Zbc and Zbs, run in a state with nothing pending, writes to \<open>rd\<close> the
  value of its specification: sums with a shifted operand, logic with a complement, signed and unsigned
  extrema, sign and zero extension, the number of leading zeros, trailing zeros and set bits (32 for a zero
  operand in the first two), rotations, the bytes of \<open>ORC.B\<close> and \<open>REV8\<close>, the low, high and reversed halves of
  the carry-less product, single-bit set, clear, invert and extract. It advances by four bytes and one cycle
  and changes nothing else. The exception are the rotations by a multiple of 32, which shift by 32 in C: that
  is undefined, and the model stops there.\<close>

theorem zb_results:
  assumes "opcode ir \<in> range ZBA \<union> range ZBB \<union> range ZBC \<union> range ZBS" "quiet rv"
  shows "\<exists>im f. (opcode ir, im, f) \<in> set zb_spec \<and> exec_insn env ir c p rv =
    (if opcode ir \<in> rotations_zbb \<and> unat (operand im ir rv) mod 32 = 0 then Inl Undefined_shift
     else Inr (advance env (c + 1) (p + 4) (set_X (rd ir) (f (X rv (rs1 ir)) (operand im ir rv)) (rv\<lparr>PC := p\<rparr>))))"
  using zb_spec_complete [OF assms(1)] zb_exec [OF _ assms(2)] by metis

theorem zb_results_witness:
  "exec_insn sample_env (zero_insn\<lparr>opcode := ZBB rv_insn_rori, rd := 3, rs1 := 1, imm := 4\<rparr>) 0 0 (set_X 1 0x18 sample_hart) =
   Inr (Continue To_next 1 4, set_X 3 0x80000001 ((set_X 1 0x18 sample_hart)\<lparr>PC := 0\<rparr>))"
proof -
  have "word_rotr 4 (0x18 :: u32) = 0x80000001"
    by code_simp
  then show ?thesis
    using zb_results [of "zero_insn\<lparr>opcode := ZBB rv_insn_rori, rd := 3, rs1 := 1, imm := 4\<rparr>" "set_X 1 0x18 sample_hart"
        sample_env 0 0]
    by (auto simp: advance_def zb_spec_def zb_bit_spec_def Let_def operand_def)
qed

text \<open>The portable \<open>rv_ctz\<close> agrees with the built-in on every non-zero word, while the portable
  \<open>rv_clz\<close> returns the index of the highest set bit, which is 31 minus the leading-zero count.\<close>

theorem portable_counts:
  assumes "x \<noteq> 0"
  shows "generic_ctz x = rv_ctz x \<and> generic_clz x = 31 - rv_clz x"
proof -
  obtain h l where "top_bit x h" "low_bit x l"
    using top_bit_ex [OF assms] low_bit_ex [OF assms] by blast
  moreover from \<open>top_bit x h\<close> have "of_nat h = 31 - (of_nat (31 - h) :: u32)"
    by (simp add: top_bit_def of_nat_diff)
  ultimately show ?thesis
    by (simp add: clz_top ctz_low generic_clz_top generic_ctz_low)
qed

theorem portable_counts_witness: "generic_ctz 1 = rv_ctz 1 \<and> generic_clz 1 = 31 - rv_clz 1 \<and> rv_clz 1 = 31"
proof -
  have "rv_clz 1 = 31"
    by code_simp
  then show ?thesis
    using portable_counts [of 1] by simp
qed

end
