(* ===== verification/ConstOpt.thy ===== *)
theory ConstOpt imports Dispatch begin

text \<open>
  Constant optimisation of a translated block (\<open>src/src/rv32_constopt.c\<close> and \<open>optimize_constant\<close> of
  \<open>src/src/emulate.c\<close>): one pass over the block with a table of the registers known to be constant
  rewrites computations of constants into \<open>LUI\<close> or \<open>C.LUI\<close> and decided branches into jumps. One
  definition \<open>constopt_<name>\<close> per \<open>CONSTOPT(<name>, ...)\<close>. A shift by 32 or more, undefined in C,
  ends in \<open>Undefined_shift\<close>.
\<close>

section \<open>The table of constants\<close>

record constopt_info_t =
  is_constant :: "u8 \<Rightarrow> bool"
  const_val :: "u8 \<Rightarrow> u32"

type_synonym constopt_t = "rv_insn_t \<Rightarrow> constopt_info_t \<Rightarrow> (rv_insn_t \<times> constopt_info_t) outcome"

definition learn :: "u8 \<Rightarrow> u32 \<Rightarrow> constopt_info_t \<Rightarrow> constopt_info_t" where
  "learn r v info =
    info\<lparr>is_constant := (is_constant info)(r := True), const_val := (const_val info)(r := v)\<rparr>"

definition drop_reg :: "u8 \<Rightarrow> constopt_info_t \<Rightarrow> constopt_info_t" where
  "drop_reg r info = info\<lparr>is_constant := (is_constant info)(r := False)\<rparr>"

section \<open>The shapes of the optimisations\<close>

definition skip :: constopt_t where
  "skip ir info = Inr (ir, info)"

definition forget :: constopt_t where
  "forget ir info = Inr (ir, drop_reg (rd ir) info)"

definition forget_nonzero :: constopt_t where
  "forget_nonzero ir info = Inr (ir, if rd ir \<noteq> 0 then drop_reg (rd ir) info else info)"

text \<open>The instruction becomes a constant load into \<open>rd\<close>.\<close>

definition becomes_lui :: "u32 \<Rightarrow> constopt_t" where
  "becomes_lui v ir info = Inr (ir\<lparr>imm := v, opcode := RV32I rv_insn_lui\<rparr>, learn (rd ir) v info)"

definition becomes_clui :: "u8 \<Rightarrow> u32 \<Rightarrow> constopt_t" where
  "becomes_clui r v ir info = Inr (ir\<lparr>imm := v, rd := r, opcode := RV32C rv_insn_clui\<rparr>, learn r v info)"

definition fold_imm :: "(u32 \<Rightarrow> u32 \<Rightarrow> u32) \<Rightarrow> constopt_t" where
  "fold_imm f ir info =
    (if is_constant info (rs1 ir) then becomes_lui (f (imm ir) (const_val info (rs1 ir))) ir info
     else forget ir info)"

definition fold_reg :: "(u32 \<Rightarrow> u32 \<Rightarrow> u32) \<Rightarrow> constopt_t" where
  "fold_reg f ir info =
    (if is_constant info (rs1 ir) \<and> is_constant info (rs2 ir)
     then becomes_lui (f (const_val info (rs1 ir)) (const_val info (rs2 ir))) ir info
     else forget ir info)"

definition fold_creg :: "(u32 \<Rightarrow> u32 \<Rightarrow> u32) \<Rightarrow> constopt_t" where
  "fold_creg f ir info =
    (if is_constant info (rs1 ir) \<and> is_constant info (rs2 ir)
     then becomes_clui (rd ir) (f (const_val info (rs1 ir)) (const_val info (rs2 ir))) ir info
     else forget ir info)"

text \<open>A decided branch becomes a jump; the condition is the one under which it falls through.\<close>

definition OPT_BRANCH_FUNC :: "(u32 \<Rightarrow> u32 \<Rightarrow> bool) \<Rightarrow> constopt_t" where
  "OPT_BRANCH_FUNC cond ir info =
    (if is_constant info (rs1 ir) \<and> is_constant info (rs2 ir)
     then Inr (ir\<lparr>imm := if cond (const_val info (rs1 ir)) (const_val info (rs2 ir)) then 4 else imm ir,
                 opcode := RV32I rv_insn_jal\<rparr>, info)
     else Inr (ir, info))"

definition opt_cbranch :: "(u32 \<Rightarrow> bool) \<Rightarrow> constopt_t" where
  "opt_cbranch cond ir info =
    (if is_constant info (rs1 ir)
     then Inr (ir\<lparr>imm := if cond (const_val info (rs1 ir)) then 2 else imm ir,
                 opcode := RV32C rv_insn_cj\<rparr>, info)
     else Inr (ir, info))"

section \<open>RV32I\<close>

definition constopt_nop :: constopt_t where
  "constopt_nop = skip"

definition constopt_lui :: constopt_t where
  "constopt_lui ir info =
    Inr (ir, learn (rd ir) (imm ir) info)"

definition constopt_auipc :: constopt_t where
  "constopt_auipc ir info =
    (let v = imm ir + pc ir
     in Inr (ir\<lparr>imm := v, opcode := RV32I rv_insn_lui\<rparr>, learn (rd ir) v info))"

definition constopt_jal :: constopt_t where
  "constopt_jal ir info =
    Inr (ir, if rd ir \<noteq> 0 then learn (rd ir) (pc ir + 4) info else info)"

definition constopt_jalr :: constopt_t where
  "constopt_jalr ir info =
    Inr (ir, if rd ir \<noteq> 0 then learn (rd ir) (pc ir + 4) info else info)"

definition constopt_beq :: constopt_t where
  "constopt_beq = OPT_BRANCH_FUNC (\<lambda>x y. x \<noteq> y)"

definition constopt_bne :: constopt_t where
  "constopt_bne = OPT_BRANCH_FUNC (\<lambda>x y. x = y)"

definition constopt_blt :: constopt_t where
  "constopt_blt = OPT_BRANCH_FUNC (\<lambda>x y. sint x \<ge> sint y)"

definition constopt_bge :: constopt_t where
  "constopt_bge = OPT_BRANCH_FUNC (\<lambda>x y. sint x < sint y)"

definition constopt_bltu :: constopt_t where
  "constopt_bltu = OPT_BRANCH_FUNC (\<lambda>x y. x \<ge> y)"

definition constopt_bgeu :: constopt_t where
  "constopt_bgeu = OPT_BRANCH_FUNC (\<lambda>x y. x < y)"

definition constopt_lb :: constopt_t where
  "constopt_lb = forget"

definition constopt_lh :: constopt_t where
  "constopt_lh = forget"

definition constopt_lw :: constopt_t where
  "constopt_lw = forget"

definition constopt_lbu :: constopt_t where
  "constopt_lbu = forget"

definition constopt_lhu :: constopt_t where
  "constopt_lhu = forget"

definition constopt_sb :: constopt_t where
  "constopt_sb = skip"

definition constopt_sh :: constopt_t where
  "constopt_sh = skip"

definition constopt_sw :: constopt_t where
  "constopt_sw = skip"

definition constopt_addi :: constopt_t where
  "constopt_addi = fold_imm (\<lambda>i x. i + x)"

definition constopt_slti :: constopt_t where
  "constopt_slti = fold_imm (\<lambda>i x. flag (sint x < sint i))"

definition constopt_sltiu :: constopt_t where
  "constopt_sltiu = fold_imm (\<lambda>i x. flag (x < i))"

definition constopt_xori :: constopt_t where
  "constopt_xori = fold_imm (\<lambda>i x. i XOR x)"

definition constopt_ori :: constopt_t where
  "constopt_ori = fold_imm (\<lambda>i x. i OR x)"

definition constopt_andi :: constopt_t where
  "constopt_andi = fold_imm (\<lambda>i x. i AND x)"

definition constopt_slli :: constopt_t where
  "constopt_slli = fold_imm (\<lambda>i x. push_bit (unat (i AND 0x1f)) x)"

definition constopt_srli :: constopt_t where
  "constopt_srli = fold_imm (\<lambda>i x. drop_bit (unat (i AND 0x1f)) x)"

definition constopt_srai :: constopt_t where
  "constopt_srai = fold_imm (\<lambda>i x. signed_drop_bit (unat (i AND 0x1f)) x)"

definition constopt_add :: constopt_t where
  "constopt_add = fold_reg (\<lambda>x y. x + y)"

definition constopt_sub :: constopt_t where
  "constopt_sub = fold_reg (\<lambda>x y. x - y)"

definition constopt_sll :: constopt_t where
  "constopt_sll = fold_reg (\<lambda>x y. push_bit (unat (y AND 0x1f)) x)"

definition constopt_slt :: constopt_t where
  "constopt_slt = fold_reg (\<lambda>x y. flag (sint x < sint y))"

definition constopt_sltu :: constopt_t where
  "constopt_sltu = fold_reg (\<lambda>x y. flag (x < y))"

definition constopt_xor :: constopt_t where
  "constopt_xor = fold_reg (\<lambda>x y. x XOR y)"

definition constopt_srl :: constopt_t where
  "constopt_srl = fold_reg (\<lambda>x y. drop_bit (unat (y AND 0x1f)) x)"

definition constopt_sra :: constopt_t where
  "constopt_sra = fold_reg (\<lambda>x y. signed_drop_bit (unat (y AND 0x1f)) x)"

definition constopt_or :: constopt_t where
  "constopt_or = fold_reg (\<lambda>x y. x OR y)"

definition constopt_and :: constopt_t where
  "constopt_and = fold_reg (\<lambda>x y. x AND y)"

definition constopt_fence :: constopt_t where
  "constopt_fence = skip"

definition constopt_ecall :: constopt_t where
  "constopt_ecall = skip"

definition constopt_ebreak :: constopt_t where
  "constopt_ebreak = skip"

primrec constopt_table_rv32i :: "rv32i_op \<Rightarrow> constopt_t" where
  "constopt_table_rv32i rv_insn_nop = constopt_nop"
| "constopt_table_rv32i rv_insn_lui = constopt_lui"
| "constopt_table_rv32i rv_insn_auipc = constopt_auipc"
| "constopt_table_rv32i rv_insn_jal = constopt_jal"
| "constopt_table_rv32i rv_insn_jalr = constopt_jalr"
| "constopt_table_rv32i rv_insn_beq = constopt_beq"
| "constopt_table_rv32i rv_insn_bne = constopt_bne"
| "constopt_table_rv32i rv_insn_blt = constopt_blt"
| "constopt_table_rv32i rv_insn_bge = constopt_bge"
| "constopt_table_rv32i rv_insn_bltu = constopt_bltu"
| "constopt_table_rv32i rv_insn_bgeu = constopt_bgeu"
| "constopt_table_rv32i rv_insn_lb = constopt_lb"
| "constopt_table_rv32i rv_insn_lh = constopt_lh"
| "constopt_table_rv32i rv_insn_lw = constopt_lw"
| "constopt_table_rv32i rv_insn_lbu = constopt_lbu"
| "constopt_table_rv32i rv_insn_lhu = constopt_lhu"
| "constopt_table_rv32i rv_insn_sb = constopt_sb"
| "constopt_table_rv32i rv_insn_sh = constopt_sh"
| "constopt_table_rv32i rv_insn_sw = constopt_sw"
| "constopt_table_rv32i rv_insn_addi = constopt_addi"
| "constopt_table_rv32i rv_insn_slti = constopt_slti"
| "constopt_table_rv32i rv_insn_sltiu = constopt_sltiu"
| "constopt_table_rv32i rv_insn_xori = constopt_xori"
| "constopt_table_rv32i rv_insn_ori = constopt_ori"
| "constopt_table_rv32i rv_insn_andi = constopt_andi"
| "constopt_table_rv32i rv_insn_slli = constopt_slli"
| "constopt_table_rv32i rv_insn_srli = constopt_srli"
| "constopt_table_rv32i rv_insn_srai = constopt_srai"
| "constopt_table_rv32i rv_insn_add = constopt_add"
| "constopt_table_rv32i rv_insn_sub = constopt_sub"
| "constopt_table_rv32i rv_insn_sll = constopt_sll"
| "constopt_table_rv32i rv_insn_slt = constopt_slt"
| "constopt_table_rv32i rv_insn_sltu = constopt_sltu"
| "constopt_table_rv32i rv_insn_xor = constopt_xor"
| "constopt_table_rv32i rv_insn_srl = constopt_srl"
| "constopt_table_rv32i rv_insn_sra = constopt_sra"
| "constopt_table_rv32i rv_insn_or = constopt_or"
| "constopt_table_rv32i rv_insn_and = constopt_and"
| "constopt_table_rv32i rv_insn_fence = constopt_fence"
| "constopt_table_rv32i rv_insn_ecall = constopt_ecall"
| "constopt_table_rv32i rv_insn_ebreak = constopt_ebreak"

section \<open>Privileged instructions\<close>

definition constopt_wfi :: constopt_t where
  "constopt_wfi = skip"

definition constopt_uret :: constopt_t where
  "constopt_uret = skip"

definition constopt_sret :: constopt_t where
  "constopt_sret = skip"

definition constopt_hret :: constopt_t where
  "constopt_hret = skip"

definition constopt_mret :: constopt_t where
  "constopt_mret = skip"

definition constopt_sfencevma :: constopt_t where
  "constopt_sfencevma = skip"

primrec constopt_table_priv :: "priv_op \<Rightarrow> constopt_t" where
  "constopt_table_priv rv_insn_wfi = constopt_wfi"
| "constopt_table_priv rv_insn_uret = constopt_uret"
| "constopt_table_priv rv_insn_sret = constopt_sret"
| "constopt_table_priv rv_insn_hret = constopt_hret"
| "constopt_table_priv rv_insn_mret = constopt_mret"
| "constopt_table_priv rv_insn_sfencevma = constopt_sfencevma"

section \<open>Zifencei\<close>

definition constopt_fencei :: constopt_t where
  "constopt_fencei = skip"

primrec constopt_table_zifencei :: "zifencei_op \<Rightarrow> constopt_t" where
  "constopt_table_zifencei rv_insn_fencei = constopt_fencei"

section \<open>Zicsr\<close>

definition constopt_csrrw :: constopt_t where
  "constopt_csrrw = forget"

definition constopt_csrrs :: constopt_t where
  "constopt_csrrs = forget"

definition constopt_csrrc :: constopt_t where
  "constopt_csrrc = forget"

definition constopt_csrrwi :: constopt_t where
  "constopt_csrrwi = forget"

definition constopt_csrrsi :: constopt_t where
  "constopt_csrrsi = forget"

definition constopt_csrrci :: constopt_t where
  "constopt_csrrci = forget"

primrec constopt_table_zicsr :: "zicsr_op \<Rightarrow> constopt_t" where
  "constopt_table_zicsr rv_insn_csrrw = constopt_csrrw"
| "constopt_table_zicsr rv_insn_csrrs = constopt_csrrs"
| "constopt_table_zicsr rv_insn_csrrc = constopt_csrrc"
| "constopt_table_zicsr rv_insn_csrrwi = constopt_csrrwi"
| "constopt_table_zicsr rv_insn_csrrsi = constopt_csrrsi"
| "constopt_table_zicsr rv_insn_csrrci = constopt_csrrci"

section \<open>Zba\<close>

definition constopt_sh1add :: constopt_t where
  "constopt_sh1add = forget_nonzero"

definition constopt_sh2add :: constopt_t where
  "constopt_sh2add = forget_nonzero"

definition constopt_sh3add :: constopt_t where
  "constopt_sh3add = forget_nonzero"

primrec constopt_table_zba :: "zba_op \<Rightarrow> constopt_t" where
  "constopt_table_zba rv_insn_sh1add = constopt_sh1add"
| "constopt_table_zba rv_insn_sh2add = constopt_sh2add"
| "constopt_table_zba rv_insn_sh3add = constopt_sh3add"

section \<open>Zbb\<close>

definition constopt_andn :: constopt_t where
  "constopt_andn = forget_nonzero"

definition constopt_orn :: constopt_t where
  "constopt_orn = forget_nonzero"

definition constopt_xnor :: constopt_t where
  "constopt_xnor = forget_nonzero"

definition constopt_clz :: constopt_t where
  "constopt_clz = forget_nonzero"

definition constopt_ctz :: constopt_t where
  "constopt_ctz = forget_nonzero"

definition constopt_cpop :: constopt_t where
  "constopt_cpop = forget_nonzero"

definition constopt_max :: constopt_t where
  "constopt_max = forget_nonzero"

definition constopt_maxu :: constopt_t where
  "constopt_maxu = forget_nonzero"

definition constopt_min :: constopt_t where
  "constopt_min = forget_nonzero"

definition constopt_minu :: constopt_t where
  "constopt_minu = forget_nonzero"

definition constopt_sextb :: constopt_t where
  "constopt_sextb = forget_nonzero"

definition constopt_sexth :: constopt_t where
  "constopt_sexth = forget_nonzero"

definition constopt_zexth :: constopt_t where
  "constopt_zexth = forget_nonzero"

definition constopt_rol :: constopt_t where
  "constopt_rol = forget_nonzero"

definition constopt_ror :: constopt_t where
  "constopt_ror = forget_nonzero"

definition constopt_rori :: constopt_t where
  "constopt_rori = forget_nonzero"

definition constopt_orcb :: constopt_t where
  "constopt_orcb = forget_nonzero"

definition constopt_rev8 :: constopt_t where
  "constopt_rev8 = forget_nonzero"

primrec constopt_table_zbb :: "zbb_op \<Rightarrow> constopt_t" where
  "constopt_table_zbb rv_insn_andn = constopt_andn"
| "constopt_table_zbb rv_insn_orn = constopt_orn"
| "constopt_table_zbb rv_insn_xnor = constopt_xnor"
| "constopt_table_zbb rv_insn_clz = constopt_clz"
| "constopt_table_zbb rv_insn_ctz = constopt_ctz"
| "constopt_table_zbb rv_insn_cpop = constopt_cpop"
| "constopt_table_zbb rv_insn_max = constopt_max"
| "constopt_table_zbb rv_insn_maxu = constopt_maxu"
| "constopt_table_zbb rv_insn_min = constopt_min"
| "constopt_table_zbb rv_insn_minu = constopt_minu"
| "constopt_table_zbb rv_insn_sextb = constopt_sextb"
| "constopt_table_zbb rv_insn_sexth = constopt_sexth"
| "constopt_table_zbb rv_insn_zexth = constopt_zexth"
| "constopt_table_zbb rv_insn_rol = constopt_rol"
| "constopt_table_zbb rv_insn_ror = constopt_ror"
| "constopt_table_zbb rv_insn_rori = constopt_rori"
| "constopt_table_zbb rv_insn_orcb = constopt_orcb"
| "constopt_table_zbb rv_insn_rev8 = constopt_rev8"

section \<open>Zbc\<close>

definition constopt_clmul :: constopt_t where
  "constopt_clmul = forget_nonzero"

definition constopt_clmulh :: constopt_t where
  "constopt_clmulh = forget_nonzero"

definition constopt_clmulr :: constopt_t where
  "constopt_clmulr = forget_nonzero"

primrec constopt_table_zbc :: "zbc_op \<Rightarrow> constopt_t" where
  "constopt_table_zbc rv_insn_clmul = constopt_clmul"
| "constopt_table_zbc rv_insn_clmulh = constopt_clmulh"
| "constopt_table_zbc rv_insn_clmulr = constopt_clmulr"

section \<open>Zbs\<close>

definition constopt_bclr :: constopt_t where
  "constopt_bclr = forget_nonzero"

definition constopt_bclri :: constopt_t where
  "constopt_bclri = forget_nonzero"

definition constopt_bext :: constopt_t where
  "constopt_bext = forget_nonzero"

definition constopt_bexti :: constopt_t where
  "constopt_bexti = forget_nonzero"

definition constopt_binv :: constopt_t where
  "constopt_binv = forget_nonzero"

definition constopt_binvi :: constopt_t where
  "constopt_binvi = forget_nonzero"

definition constopt_bset :: constopt_t where
  "constopt_bset = forget_nonzero"

definition constopt_bseti :: constopt_t where
  "constopt_bseti = forget_nonzero"

primrec constopt_table_zbs :: "zbs_op \<Rightarrow> constopt_t" where
  "constopt_table_zbs rv_insn_bclr = constopt_bclr"
| "constopt_table_zbs rv_insn_bclri = constopt_bclri"
| "constopt_table_zbs rv_insn_bext = constopt_bext"
| "constopt_table_zbs rv_insn_bexti = constopt_bexti"
| "constopt_table_zbs rv_insn_binv = constopt_binv"
| "constopt_table_zbs rv_insn_binvi = constopt_binvi"
| "constopt_table_zbs rv_insn_bset = constopt_bset"
| "constopt_table_zbs rv_insn_bseti = constopt_bseti"

section \<open>RV32M\<close>

definition constopt_mul :: constopt_t where
  "constopt_mul = fold_reg (\<lambda>x y. ucast (((scast x * scast y) :: u64) AND (push_bit 32 1 - 1)))"

definition constopt_mulh :: constopt_t where
  "constopt_mulh = fold_reg (\<lambda>x y. ucast (drop_bit 32 ((scast x * scast y) :: u64)))"

definition constopt_mulhsu :: constopt_t where
  "constopt_mulhsu = fold_reg (\<lambda>x y. ucast (drop_bit 32 ((scast x * ucast y) :: u64)))"

definition constopt_mulhu :: constopt_t where
  "constopt_mulhu = fold_reg (\<lambda>x y. ucast (drop_bit 32 ((ucast x * ucast y) :: u64)))"

definition constopt_div :: constopt_t where
  "constopt_div = fold_reg (\<lambda>x y.
    if y = 0 then NOT 0
    else if sint y = -1 \<and> x = 0x80000000 then x
    else word_of_int (sint x sdiv sint y))"

definition constopt_divu :: constopt_t where
  "constopt_divu = fold_reg (\<lambda>x y. if y = 0 then NOT 0 else x div y)"

definition constopt_rem :: constopt_t where
  "constopt_rem = fold_reg (\<lambda>x y.
    if y = 0 then x
    else if sint y = -1 \<and> x = 0x80000000 then 0
    else word_of_int (sint x smod sint y))"

definition constopt_remu :: constopt_t where
  "constopt_remu = fold_reg (\<lambda>x y. if y = 0 then x else x mod y)"

primrec constopt_table_rv32m :: "rv32m_op \<Rightarrow> constopt_t" where
  "constopt_table_rv32m rv_insn_mul = constopt_mul"
| "constopt_table_rv32m rv_insn_mulh = constopt_mulh"
| "constopt_table_rv32m rv_insn_mulhsu = constopt_mulhsu"
| "constopt_table_rv32m rv_insn_mulhu = constopt_mulhu"
| "constopt_table_rv32m rv_insn_div = constopt_div"
| "constopt_table_rv32m rv_insn_divu = constopt_divu"
| "constopt_table_rv32m rv_insn_rem = constopt_rem"
| "constopt_table_rv32m rv_insn_remu = constopt_remu"

section \<open>RV32A\<close>

definition constopt_lrw :: constopt_t where
  "constopt_lrw = forget_nonzero"

definition constopt_scw :: constopt_t where
  "constopt_scw = skip"

definition constopt_amoswapw :: constopt_t where
  "constopt_amoswapw = forget_nonzero"

definition constopt_amoaddw :: constopt_t where
  "constopt_amoaddw = forget_nonzero"

definition constopt_amoxorw :: constopt_t where
  "constopt_amoxorw = forget_nonzero"

definition constopt_amoandw :: constopt_t where
  "constopt_amoandw = forget_nonzero"

definition constopt_amoorw :: constopt_t where
  "constopt_amoorw = forget_nonzero"

definition constopt_amominw :: constopt_t where
  "constopt_amominw = forget_nonzero"

definition constopt_amomaxw :: constopt_t where
  "constopt_amomaxw = forget_nonzero"

definition constopt_amominuw :: constopt_t where
  "constopt_amominuw = forget_nonzero"

definition constopt_amomaxuw :: constopt_t where
  "constopt_amomaxuw = forget_nonzero"

primrec constopt_table_rv32a :: "rv32a_op \<Rightarrow> constopt_t" where
  "constopt_table_rv32a rv_insn_lrw = constopt_lrw"
| "constopt_table_rv32a rv_insn_scw = constopt_scw"
| "constopt_table_rv32a rv_insn_amoswapw = constopt_amoswapw"
| "constopt_table_rv32a rv_insn_amoaddw = constopt_amoaddw"
| "constopt_table_rv32a rv_insn_amoxorw = constopt_amoxorw"
| "constopt_table_rv32a rv_insn_amoandw = constopt_amoandw"
| "constopt_table_rv32a rv_insn_amoorw = constopt_amoorw"
| "constopt_table_rv32a rv_insn_amominw = constopt_amominw"
| "constopt_table_rv32a rv_insn_amomaxw = constopt_amomaxw"
| "constopt_table_rv32a rv_insn_amominuw = constopt_amominuw"
| "constopt_table_rv32a rv_insn_amomaxuw = constopt_amomaxuw"

section \<open>RV32F\<close>

definition constopt_flw :: constopt_t where
  "constopt_flw = skip"

definition constopt_fsw :: constopt_t where
  "constopt_fsw = skip"

definition constopt_fmadds :: constopt_t where
  "constopt_fmadds = skip"

definition constopt_fmsubs :: constopt_t where
  "constopt_fmsubs = skip"

definition constopt_fnmsubs :: constopt_t where
  "constopt_fnmsubs = skip"

definition constopt_fnmadds :: constopt_t where
  "constopt_fnmadds = skip"

definition constopt_fadds :: constopt_t where
  "constopt_fadds = skip"

definition constopt_fsubs :: constopt_t where
  "constopt_fsubs = skip"

definition constopt_fmuls :: constopt_t where
  "constopt_fmuls = skip"

definition constopt_fdivs :: constopt_t where
  "constopt_fdivs = skip"

definition constopt_fsqrts :: constopt_t where
  "constopt_fsqrts = skip"

definition constopt_fsgnjs :: constopt_t where
  "constopt_fsgnjs = skip"

definition constopt_fsgnjns :: constopt_t where
  "constopt_fsgnjns = skip"

definition constopt_fsgnjxs :: constopt_t where
  "constopt_fsgnjxs = skip"

definition constopt_fmins :: constopt_t where
  "constopt_fmins = skip"

definition constopt_fmaxs :: constopt_t where
  "constopt_fmaxs = skip"

definition constopt_fcvtws :: constopt_t where
  "constopt_fcvtws = forget_nonzero"

definition constopt_fcvtwus :: constopt_t where
  "constopt_fcvtwus = forget_nonzero"

definition constopt_fmvxw :: constopt_t where
  "constopt_fmvxw = forget_nonzero"

definition constopt_feqs :: constopt_t where
  "constopt_feqs = forget_nonzero"

definition constopt_flts :: constopt_t where
  "constopt_flts = forget_nonzero"

definition constopt_fles :: constopt_t where
  "constopt_fles = forget_nonzero"

definition constopt_fclasss :: constopt_t where
  "constopt_fclasss = forget_nonzero"

definition constopt_fcvtsw :: constopt_t where
  "constopt_fcvtsw = skip"

definition constopt_fcvtswu :: constopt_t where
  "constopt_fcvtswu = skip"

definition constopt_fmvwx :: constopt_t where
  "constopt_fmvwx = skip"

primrec constopt_table_rv32f :: "rv32f_op \<Rightarrow> constopt_t" where
  "constopt_table_rv32f rv_insn_flw = constopt_flw"
| "constopt_table_rv32f rv_insn_fsw = constopt_fsw"
| "constopt_table_rv32f rv_insn_fmadds = constopt_fmadds"
| "constopt_table_rv32f rv_insn_fmsubs = constopt_fmsubs"
| "constopt_table_rv32f rv_insn_fnmsubs = constopt_fnmsubs"
| "constopt_table_rv32f rv_insn_fnmadds = constopt_fnmadds"
| "constopt_table_rv32f rv_insn_fadds = constopt_fadds"
| "constopt_table_rv32f rv_insn_fsubs = constopt_fsubs"
| "constopt_table_rv32f rv_insn_fmuls = constopt_fmuls"
| "constopt_table_rv32f rv_insn_fdivs = constopt_fdivs"
| "constopt_table_rv32f rv_insn_fsqrts = constopt_fsqrts"
| "constopt_table_rv32f rv_insn_fsgnjs = constopt_fsgnjs"
| "constopt_table_rv32f rv_insn_fsgnjns = constopt_fsgnjns"
| "constopt_table_rv32f rv_insn_fsgnjxs = constopt_fsgnjxs"
| "constopt_table_rv32f rv_insn_fmins = constopt_fmins"
| "constopt_table_rv32f rv_insn_fmaxs = constopt_fmaxs"
| "constopt_table_rv32f rv_insn_fcvtws = constopt_fcvtws"
| "constopt_table_rv32f rv_insn_fcvtwus = constopt_fcvtwus"
| "constopt_table_rv32f rv_insn_fmvxw = constopt_fmvxw"
| "constopt_table_rv32f rv_insn_feqs = constopt_feqs"
| "constopt_table_rv32f rv_insn_flts = constopt_flts"
| "constopt_table_rv32f rv_insn_fles = constopt_fles"
| "constopt_table_rv32f rv_insn_fclasss = constopt_fclasss"
| "constopt_table_rv32f rv_insn_fcvtsw = constopt_fcvtsw"
| "constopt_table_rv32f rv_insn_fcvtswu = constopt_fcvtswu"
| "constopt_table_rv32f rv_insn_fmvwx = constopt_fmvwx"

section \<open>RV32C\<close>

definition constopt_caddi4spn :: constopt_t where
  "constopt_caddi4spn ir info =
    (if is_constant info rv_reg_sp
     then becomes_clui (rd ir) (const_val info rv_reg_sp + ucast (ucast (imm ir) :: u16)) ir info
     else forget ir info)"

definition constopt_clw :: constopt_t where
  "constopt_clw = forget"

definition constopt_csw :: constopt_t where
  "constopt_csw = skip"

definition constopt_cnop :: constopt_t where
  "constopt_cnop = skip"

definition constopt_caddi :: constopt_t where
  "constopt_caddi ir info =
    (if is_constant info (rd ir)
     then becomes_clui (rd ir) (const_val info (rd ir) + scast (ucast (imm ir) :: u16)) ir info
     else Inr (ir, info))"

definition constopt_cjal :: constopt_t where
  "constopt_cjal ir info =
    Inr (ir, learn rv_reg_ra (pc ir + 2) info)"

definition constopt_cli :: constopt_t where
  "constopt_cli ir info =
    Inr (ir, learn (rd ir) (imm ir) info)"

definition constopt_caddi16sp :: constopt_t where
  "constopt_caddi16sp ir info =
    (if is_constant info (rd ir)
     then becomes_clui (rd ir) (const_val info (rd ir) + imm ir) ir info
     else Inr (ir, info))"

definition constopt_clui :: constopt_t where
  "constopt_clui ir info =
    Inr (ir, learn (rd ir) (imm ir) info)"

definition constopt_csrli :: constopt_t where
  "constopt_csrli ir info =
    (if is_constant info (rs1 ir)
     then if shamt ir \<ge> 32 then Inl Undefined_shift
          else becomes_clui (rs1 ir) (drop_bit (unat (shamt ir)) (const_val info (rs1 ir))) ir info
     else Inr (ir, info))"

definition constopt_csrai :: constopt_t where
  "constopt_csrai ir info =
    (if is_constant info (rs1 ir)
     then if shamt ir \<ge> 32 then Inl Undefined_shift
          else becomes_clui (rs1 ir) (srai_loop (const_val info (rs1 ir)) (unat (shamt ir))) ir info
     else Inr (ir, info))"

definition constopt_candi :: constopt_t where
  "constopt_candi ir info =
    (if is_constant info (rs1 ir)
     then becomes_clui (rs1 ir) (const_val info (rs1 ir) AND imm ir) ir info
     else Inr (ir, info))"

definition constopt_csub :: constopt_t where
  "constopt_csub = fold_creg (\<lambda>x y. x - y)"

definition constopt_cxor :: constopt_t where
  "constopt_cxor = fold_creg (\<lambda>x y. x XOR y)"

definition constopt_cor :: constopt_t where
  "constopt_cor = fold_creg (\<lambda>x y. x OR y)"

definition constopt_cand :: constopt_t where
  "constopt_cand = fold_creg (\<lambda>x y. x AND y)"

definition constopt_cj :: constopt_t where
  "constopt_cj = skip"

definition constopt_cbeqz :: constopt_t where
  "constopt_cbeqz ir info =
    opt_cbranch (\<lambda>x. x \<noteq> 0) ir info"

definition constopt_cbnez :: constopt_t where
  "constopt_cbnez ir info =
    opt_cbranch (\<lambda>x. x = 0) ir info"

definition constopt_cslli :: constopt_t where
  "constopt_cslli ir info =
    (let n = (ucast (imm ir) :: u8)
     in if is_constant info (rd ir)
        then if n \<ge> 32 then Inl Undefined_shift
             else becomes_clui (rd ir) (push_bit (unat n) (const_val info (rd ir))) ir info
        else Inr (ir, info))"

definition constopt_clwsp :: constopt_t where
  "constopt_clwsp = forget"

definition constopt_cjr :: constopt_t where
  "constopt_cjr = skip"

definition constopt_cmv :: constopt_t where
  "constopt_cmv ir info =
    (if is_constant info (rs2 ir)
     then becomes_clui (rd ir) (const_val info (rs2 ir)) ir info
     else forget ir info)"

definition constopt_cebreak :: constopt_t where
  "constopt_cebreak = skip"

definition constopt_cjalr :: constopt_t where
  "constopt_cjalr ir info =
    Inr (ir, info\<lparr>is_constant := (is_constant info)(rv_reg_ra := True),
                const_val := (const_val info)(rd ir := pc ir + 2)\<rparr>)"

definition constopt_cadd :: constopt_t where
  "constopt_cadd = fold_creg (\<lambda>x y. x + y)"

definition constopt_cswsp :: constopt_t where
  "constopt_cswsp = skip"

primrec constopt_table_rv32c :: "rv32c_op \<Rightarrow> constopt_t" where
  "constopt_table_rv32c rv_insn_caddi4spn = constopt_caddi4spn"
| "constopt_table_rv32c rv_insn_clw = constopt_clw"
| "constopt_table_rv32c rv_insn_csw = constopt_csw"
| "constopt_table_rv32c rv_insn_cnop = constopt_cnop"
| "constopt_table_rv32c rv_insn_caddi = constopt_caddi"
| "constopt_table_rv32c rv_insn_cjal = constopt_cjal"
| "constopt_table_rv32c rv_insn_cli = constopt_cli"
| "constopt_table_rv32c rv_insn_caddi16sp = constopt_caddi16sp"
| "constopt_table_rv32c rv_insn_clui = constopt_clui"
| "constopt_table_rv32c rv_insn_csrli = constopt_csrli"
| "constopt_table_rv32c rv_insn_csrai = constopt_csrai"
| "constopt_table_rv32c rv_insn_candi = constopt_candi"
| "constopt_table_rv32c rv_insn_csub = constopt_csub"
| "constopt_table_rv32c rv_insn_cxor = constopt_cxor"
| "constopt_table_rv32c rv_insn_cor = constopt_cor"
| "constopt_table_rv32c rv_insn_cand = constopt_cand"
| "constopt_table_rv32c rv_insn_cj = constopt_cj"
| "constopt_table_rv32c rv_insn_cbeqz = constopt_cbeqz"
| "constopt_table_rv32c rv_insn_cbnez = constopt_cbnez"
| "constopt_table_rv32c rv_insn_cslli = constopt_cslli"
| "constopt_table_rv32c rv_insn_clwsp = constopt_clwsp"
| "constopt_table_rv32c rv_insn_cjr = constopt_cjr"
| "constopt_table_rv32c rv_insn_cmv = constopt_cmv"
| "constopt_table_rv32c rv_insn_cebreak = constopt_cebreak"
| "constopt_table_rv32c rv_insn_cjalr = constopt_cjalr"
| "constopt_table_rv32c rv_insn_cadd = constopt_cadd"
| "constopt_table_rv32c rv_insn_cswsp = constopt_cswsp"

section \<open>RV32FC\<close>

definition constopt_cflwsp :: constopt_t where
  "constopt_cflwsp = skip"

definition constopt_cfswsp :: constopt_t where
  "constopt_cfswsp = skip"

definition constopt_cflw :: constopt_t where
  "constopt_cflw = skip"

definition constopt_cfsw :: constopt_t where
  "constopt_cfsw = skip"

primrec constopt_table_rv32fc :: "rv32fc_op \<Rightarrow> constopt_t" where
  "constopt_table_rv32fc rv_insn_cflwsp = constopt_cflwsp"
| "constopt_table_rv32fc rv_insn_cfswsp = constopt_cfswsp"
| "constopt_table_rv32fc rv_insn_cflw = constopt_cflw"
| "constopt_table_rv32fc rv_insn_cfsw = constopt_cfsw"

section \<open>The pass\<close>

text \<open>The table has no entry for the fused opcodes, which appear only after this pass.\<close>

primrec constopt_table :: "rv_opcode \<Rightarrow> constopt_t" where
  "constopt_table (RV32I i) = constopt_table_rv32i i"
| "constopt_table (PRIV i) = constopt_table_priv i"
| "constopt_table (ZIFENCEI i) = constopt_table_zifencei i"
| "constopt_table (ZICSR i) = constopt_table_zicsr i"
| "constopt_table (ZBA i) = constopt_table_zba i"
| "constopt_table (ZBB i) = constopt_table_zbb i"
| "constopt_table (ZBC i) = constopt_table_zbc i"
| "constopt_table (ZBS i) = constopt_table_zbs i"
| "constopt_table (RV32M i) = constopt_table_rv32m i"
| "constopt_table (RV32A i) = constopt_table_rv32a i"
| "constopt_table (RV32F i) = constopt_table_rv32f i"
| "constopt_table (RV32C i) = constopt_table_rv32c i"
| "constopt_table (RV32FC i) = constopt_table_rv32fc i"
| "constopt_table (FUSE i) = (\<lambda>_ _. Inl Undefined_access)"

fun constopt_insns :: "rv_insn_t list \<Rightarrow> constopt_info_t \<Rightarrow> rv_insn_t list outcome" where
  "constopt_insns [] info = Inr []"
| "constopt_insns (ir # irs) info =
    obind (constopt_table (opcode ir) ir info) (\<lambda>(ir, info).
      obind (constopt_insns irs info) (\<lambda>irs. Inr (ir # irs)))"

definition optimize_constant :: "riscv_t \<Rightarrow> rv_insn_t list \<Rightarrow> rv_insn_t list outcome" where
  "optimize_constant rv irs =
    (if X rv 0 = 0
     then constopt_insns irs \<lparr>is_constant = (\<lambda>_. False)(0 := True), const_val = (\<lambda>_. 0)\<rparr>
     else Inl Assert_failed)"

end
