(* ===== verification/Fusion.thy ===== *)
theory Fusion imports Dispatch begin

text \<open>
  Macro-operation fusion (\<open>match_pattern\<close> of \<open>src/src/emulate.c\<close>, in the build without memory-mapped
  devices). The instructions of a block are a list; the pass walks it once and replaces recognised
  sequences by one fused instruction. Whether the pool of fuse arrays has a free slot for an
  instruction is the argument \<open>alloc\<close>.
\<close>

section \<open>Sequences of one kind\<close>

definition FUSE_MAX_ENTRIES :: nat where [simp]: "FUSE_MAX_ENTRIES = 16"

text \<open>\<open>memcpy\<close> of the common prefix of the two structures.\<close>

definition fuse_entry :: "rv_insn_t \<Rightarrow> opcode_fuse_t" where
  "fuse_entry ir = \<lparr>fimm = imm ir, frd = rd ir, frs1 = rs1 ir, frs2 = rs2 ir, fopcode = opcode ir\<rparr>"

definition count_consecutive_insn :: "rv_insn_t list \<Rightarrow> rv_opcode \<Rightarrow> nat" where
  "count_consecutive_insn rest op = 1 + length (takeWhile (\<lambda>next. opcode next = op) rest)"

definition is_shift_imm :: "rv_insn_t \<Rightarrow> bool" where
  "is_shift_imm ir \<longleftrightarrow>
    opcode ir = RV32I rv_insn_slli \<or> opcode ir = RV32I rv_insn_srli \<or> opcode ir = RV32I rv_insn_srai"

definition count_consecutive_shift :: "rv_insn_t list \<Rightarrow> nat" where
  "count_consecutive_shift rest = 1 + length (takeWhile is_shift_imm rest)"

text \<open>The result is the rewritten instruction with the instructions that remain behind it.\<close>

definition try_fuse_sequence ::
    "(rv_insn_t \<Rightarrow> bool) \<Rightarrow> rv_insn_t \<Rightarrow> rv_insn_t list \<Rightarrow> nat \<Rightarrow> fuse_op \<Rightarrow> rv_insn_t \<times> rv_insn_t list" where
  "try_fuse_sequence alloc ir rest count fop =
    (if count \<le> 1 then (ir, rest)
     else if count > FUSE_MAX_ENTRIES then (ir, rest)
     else if \<not> alloc ir then (ir, rest)
     else (ir\<lparr>fuse := map fuse_entry (ir # take (count - 1) rest), opcode := FUSE fop,
              imm2 := of_nat count\<rparr>, drop (count - 1) rest))"

section \<open>The patterns\<close>

text \<open>The arms of the outer \<open>switch\<close>: the current instruction, its successor, and what follows.\<close>

definition fuse_lui ::
    "(rv_insn_t \<Rightarrow> bool) \<Rightarrow> rv_insn_t \<Rightarrow> rv_insn_t \<Rightarrow> rv_insn_t list \<Rightarrow> rv_insn_t \<times> rv_insn_t list" where
  "fuse_lui alloc ir next rest =
    (if opcode next = RV32I rv_insn_add then
       (if rd ir = rs2 next \<or> rd ir = rs1 next
        then (ir\<lparr>opcode := FUSE rv_insn_fuse2, rs2 := rd next,
                 rs1 := if rd ir = rs2 next then rs1 next else rs2 next\<rparr>, rest)
        else (ir, next # rest))
     else if opcode next = RV32I rv_insn_addi then
       (if rd ir \<noteq> rv_reg_zero \<and> rd ir = rs1 next \<and> rd ir = rd next
        then (ir\<lparr>imm2 := imm next, opcode := FUSE rv_insn_fuse8\<rparr>, rest)
        else (ir, next # rest))
     else if opcode next = RV32I rv_insn_lw then
       (if rd ir \<noteq> rv_reg_zero \<and> rd ir = rs1 next
        then (ir\<lparr>imm2 := imm next, rs2 := rd next, opcode := FUSE rv_insn_fuse9\<rparr>, rest)
        else (ir, next # rest))
     else if opcode next = RV32I rv_insn_sw then
       (if rd ir \<noteq> rv_reg_zero \<and> rd ir = rs1 next \<and> rd ir \<noteq> rs2 next
        then (ir\<lparr>imm2 := imm next, rs1 := rs2 next, opcode := FUSE rv_insn_fuse10\<rparr>, rest)
        else (ir, next # rest))
     else if opcode next = RV32I rv_insn_lui then
       try_fuse_sequence alloc ir (next # rest)
         (count_consecutive_insn (next # rest) (RV32I rv_insn_lui)) rv_insn_fuse1
     else (ir, next # rest))"

definition fuse_lw ::
    "(rv_insn_t \<Rightarrow> bool) \<Rightarrow> rv_insn_t \<Rightarrow> rv_insn_t \<Rightarrow> rv_insn_t list \<Rightarrow> rv_insn_t \<times> rv_insn_t list" where
  "fuse_lw alloc ir next rest =
    (if opcode next = RV32I rv_insn_addi \<and> rs1 ir = rs1 next \<and> rs1 next = rd next \<and> rd ir \<noteq> rs1 ir
     then (ir\<lparr>imm2 := imm next, opcode := FUSE rv_insn_fuse11\<rparr>, rest)
     else try_fuse_sequence alloc ir (next # rest)
            (count_consecutive_insn (next # rest) (RV32I rv_insn_lw)) rv_insn_fuse4)"

definition fuse_addi ::
    "(rv_insn_t \<Rightarrow> bool) \<Rightarrow> rv_insn_t \<Rightarrow> rv_insn_t \<Rightarrow> rv_insn_t list \<Rightarrow> rv_insn_t \<times> rv_insn_t list" where
  "fuse_addi alloc ir next rest =
    (if rd ir = rv_reg_a7 \<and> rs1 ir = rv_reg_zero \<and> opcode next = RV32I rv_insn_ecall
     then (ir\<lparr>opcode := FUSE rv_insn_fuse6\<rparr>, rest)
     else if opcode next = RV32I rv_insn_bne \<and> rd ir \<noteq> rv_reg_zero \<and> rd ir = rs1 next
       \<and> rs2 next = rv_reg_zero
     then (ir\<lparr>imm2 := imm next, opcode := FUSE rv_insn_fuse12\<rparr>, rest)
     else try_fuse_sequence alloc ir (next # rest)
            (count_consecutive_insn (next # rest) (RV32I rv_insn_addi)) rv_insn_fuse7)"

definition fuse_at ::
    "(rv_insn_t \<Rightarrow> bool) \<Rightarrow> rv_insn_t \<Rightarrow> rv_insn_t \<Rightarrow> rv_insn_t list \<Rightarrow> rv_insn_t \<times> rv_insn_t list" where
  "fuse_at alloc ir next rest =
    (if opcode ir = RV32I rv_insn_lui then fuse_lui alloc ir next rest
     else if opcode ir = RV32I rv_insn_sw then
       try_fuse_sequence alloc ir (next # rest)
         (count_consecutive_insn (next # rest) (RV32I rv_insn_sw)) rv_insn_fuse3
     else if opcode ir = RV32I rv_insn_lw then fuse_lw alloc ir next rest
     else if is_shift_imm ir then
       try_fuse_sequence alloc ir (next # rest) (count_consecutive_shift (next # rest)) rv_insn_fuse5
     else if opcode ir = RV32I rv_insn_addi then fuse_addi alloc ir next rest
     else (ir, next # rest))"

lemma try_fuse_length: "length (snd (try_fuse_sequence alloc ir rest n f)) \<le> length rest"
  by (auto simp: try_fuse_sequence_def)

lemma fuse_at_length: "length (snd (fuse_at alloc ir next rest)) \<le> Suc (length rest)"
  using try_fuse_length [of alloc ir "next # rest"]
  by (auto simp: fuse_at_def fuse_lui_def fuse_lw_def fuse_addi_def)

text \<open>The loop stops at the last instruction.\<close>

function match_pattern :: "(rv_insn_t \<Rightarrow> bool) \<Rightarrow> rv_insn_t list \<Rightarrow> rv_insn_t list" where
  "match_pattern alloc [] = []"
| "match_pattern alloc [ir] = [ir]"
| "match_pattern alloc (ir # next # rest) =
    (let (ir', rest') = fuse_at alloc ir next rest in ir' # match_pattern alloc rest')"
  by pat_completeness auto
termination
  by (relation "measure (length \<circ> snd)")
    (simp_all add: less_Suc_eq_le, metis fuse_at_length snd_conv)

end
