(* ===== verification/MemProps.thy ===== *)
theory MemProps imports AluProps begin

text \<open>
  The load, store and atomic handlers over the untranslated bus: what they read and write, the traps
  of misaligned accesses, and the reservation of \<open>LR.W\<close> and \<open>SC.W\<close>.
\<close>

section \<open>Frame facts\<close>

lemma set_cycle_frame [simp]:
  "X (set_cycle c rv) = X rv" "attr (set_cycle c rv) = attr rv" "glob (set_cycle c rv) = glob rv"
  "is_trapped (set_cycle c rv) = is_trapped rv" "csr_satp (csr (set_cycle c rv)) = csr_satp (csr rv)"
  by (simp_all add: set_cycle_def)

lemma bare_frame [simp]:
  "bare (set_X r v rv) = bare rv" "bare (rv\<lparr>PC := p\<rparr>) = bare rv" "bare (link_X r v rv) = bare rv"
  "bare (rv\<lparr>lr_addr := a\<rparr>) = bare rv" "bare (rv\<lparr>lr_value := v\<rparr>) = bare rv" "bare (rv\<lparr>lr_valid := b\<rparr>) = bare rv"
  by (simp_all add: bare_def link_X_def)

lemma quiet_frame_more [simp]:
  "quiet (set_ram m rv) = quiet rv" "quiet (link_X r v rv) = quiet rv"
  "quiet (rv\<lparr>lr_addr := a\<rparr>) = quiet rv" "quiet (rv\<lparr>lr_value := v\<rparr>) = quiet rv" "quiet (rv\<lparr>lr_valid := b\<rparr>) = quiet rv"
  by (simp_all add: quiet_def link_X_def)

lemma link_X_frame [simp]:
  "attr (link_X r v rv) = attr rv" "csr (link_X r v rv) = csr rv" "glob (link_X r v rv) = glob rv"
  "lr_valid (link_X r v rv) = lr_valid rv" "lr_addr (link_X r v rv) = lr_addr rv"
  by (simp_all add: link_X_def set_X_def)

lemma U_or_S_mode: "RV_PRIV_IS_U_OR_S_MODE rv \<longleftrightarrow> priv_mode rv = 0 \<or> priv_mode rv = 1"
proof -
  have "w \<le> 1 \<longleftrightarrow> w = 0 \<or> w = 1" for w :: u32
    by (auto simp: word_le_nat_alt le_Suc_eq word_unat_eq_iff)
  then show ?thesis
    by (simp add: RV_PRIV_IS_U_OR_S_MODE_def)
qed

section \<open>Bodies that fall through\<close>

lemma RVOP_fall:
  assumes "code env ir (c + 1) p (rv\<lparr>PC := p\<rparr>) = Inr (Fall, p, rv')" "quiet rv'"
  shows "RVOP inst code env ir c p rv = Inr (advance env (c + 1) (p + insn_len inst) rv')"
  using assms by (simp add: RVOP_def next_or_stop_quiet) (simp add: quiet_def)

lemma RVOP_return:
  assumes "code env ir (c + 1) p (rv\<lparr>PC := p\<rparr>) =
    obind m (\<lambda>rv. Inr (Return_value b, p, rv))"
  shows "RVOP inst code env ir c p rv = obind m (\<lambda>rv. Inr (Returned b, rv))"
  using assms by (cases m) (simp_all add: RVOP_def)

section \<open>Misaligned accesses\<close>

text \<open>Every instruction that checks the alignment of its address: the mask, the cause, whether it
  records a compressed instruction, and its effective address.\<close>

definition access_table :: "(rv_opcode \<times> u32 \<times> u32 \<times> bool \<times> address_t) list" where
  "access_table =
    (let base = (\<lambda>ir rv. X rv (rs1 ir) + imm ir); sp = (\<lambda>ir rv. X rv 2 + imm ir);
         reg = (\<lambda>ir rv. X rv (rs1 ir))
     in [(RV32I rv_insn_lh, 1, 4, False, base), (RV32I rv_insn_lhu, 1, 4, False, base),
         (RV32I rv_insn_lw, 3, 4, False, base), (RV32I rv_insn_sh, 1, 6, False, base),
         (RV32I rv_insn_sw, 3, 6, False, base),
         (RV32C rv_insn_clw, 3, 4, True, base), (RV32C rv_insn_csw, 3, 6, True, base),
         (RV32C rv_insn_clwsp, 3, 4, True, sp), (RV32C rv_insn_cswsp, 3, 6, True, sp),
         (RV32F rv_insn_flw, 3, 4, False, base), (RV32F rv_insn_fsw, 3, 6, False, base),
         (RV32FC rv_insn_cflw, 3, 4, False, base), (RV32FC rv_insn_cfsw, 3, 6, False, base),
         (RV32FC rv_insn_cflwsp, 3, 4, False, sp), (RV32FC rv_insn_cfswsp, 3, 6, False, sp),
         (RV32A rv_insn_lrw, 3, 4, False, reg), (RV32A rv_insn_scw, 3, 6, False, reg),
         (RV32A rv_insn_amoswapw, 3, 4, False, reg), (RV32A rv_insn_amoaddw, 3, 4, False, reg),
         (RV32A rv_insn_amoxorw, 3, 4, False, reg), (RV32A rv_insn_amoandw, 3, 4, False, reg),
         (RV32A rv_insn_amoorw, 3, 4, False, reg), (RV32A rv_insn_amominw, 3, 4, False, reg),
         (RV32A rv_insn_amomaxw, 3, 4, False, reg), (RV32A rv_insn_amominuw, 3, 4, False, reg),
         (RV32A rv_insn_amomaxuw, 3, 4, False, reg)])"

lemmas access_handlers =
  do_lh_def do_lhu_def do_lw_def do_sh_def do_sw_def do_clw_def do_csw_def do_clwsp_def do_cswsp_def
  do_flw_def do_fsw_def do_cflw_def do_cfsw_def do_cflwsp_def do_cfswsp_def do_lrw_def do_scw_def
  do_amoswapw_def do_amoaddw_def do_amoxorw_def do_amoandw_def do_amoorw_def do_amominw_def
  do_amomaxw_def do_amominuw_def do_amomaxuw_def

lemma misaligned_PC [simp]: "misaligned m a (rv\<lparr>PC := p\<rparr>) = misaligned m a rv"
  by (simp add: misaligned_def)

lemma guard_traps:
  "misaligned m a rv \<Longrightarrow> misalign_guard m cause cmp a rest env c p rv =
    obind (on_trap (env_io env) (misalign_trap cmp c p cause a rv)) (\<lambda>rv. Inr (Return_value False, p, rv))"
  by (simp add: misalign_guard_def)

lemma guard_passes:
  "\<not> misaligned m a rv \<Longrightarrow> misalign_guard m cause cmp a rest env c p rv = rest rv"
  by (simp add: misalign_guard_def)

lemmas access_bodies = load_op_def store_op_def amo_op_def rs1_imm_def sp_imm_def Let_def

lemma misaligned_trap:
  assumes "(inst, amask, cause, cmp, address) \<in> set access_table" "opcode ir = inst"
    and "misaligned amask (address ir rv) rv"
  shows "exec_insn env ir c p rv =
    obind (on_trap (env_io env) (misalign_trap cmp (c + 1) p cause (address ir rv) (rv\<lparr>PC := p\<rparr>)))
      (\<lambda>rv. Inr (Returned False, rv))"
proof -
  have "dispatch_table inst env ir c p rv =
    obind (on_trap (env_io env) (misalign_trap cmp (c + 1) p cause (address ir rv) (rv\<lparr>PC := p\<rparr>)))
      (\<lambda>rv. Inr (Returned False, rv))"
    using assms(1, 3) unfolding access_table_def Let_def list.set insert_iff prod.inject empty_iff
    by (elim disjE conjE FalseE)
      (simp_all add: access_handlers access_bodies guard_traps RVOP_return)
  then show ?thesis
    by (simp add: exec_insn_def assms(2))
qed

section \<open>Aligned accesses to RAM\<close>

text \<open>Loads and stores: opcode, size, alignment mask, address, and what the access means for RAM.\<close>

definition load_table :: "(rv_opcode \<times> u64 \<times> u32 \<times> address_t \<times> (memory_t \<Rightarrow> u32 \<Rightarrow> u32)) list" where
  "load_table =
    [(RV32I rv_insn_lb, 1, 0, rs1_imm, \<lambda>m a. scast (memory_read_b m a)),
     (RV32I rv_insn_lh, 2, 1, rs1_imm, \<lambda>m a. scast (memory_read_s m a)),
     (RV32I rv_insn_lw, 4, 3, rs1_imm, memory_read_w),
     (RV32I rv_insn_lbu, 1, 0, rs1_imm, \<lambda>m a. ucast (memory_read_b m a)),
     (RV32I rv_insn_lhu, 2, 1, rs1_imm, \<lambda>m a. ucast (memory_read_s m a)),
     (RV32C rv_insn_clw, 4, 3, rs1_imm, memory_read_w),
     (RV32C rv_insn_clwsp, 4, 3, sp_imm, memory_read_w)]"

definition store_table :: "(rv_opcode \<times> u64 \<times> u32 \<times> address_t \<times> (u32 \<Rightarrow> u32 \<Rightarrow> memory_t \<Rightarrow> memory_t)) list" where
  "store_table =
    [(RV32I rv_insn_sb, 1, 0, rs1_imm, \<lambda>a v. memory_write_b a (ucast v)),
     (RV32I rv_insn_sh, 2, 1, rs1_imm, \<lambda>a v. memory_write_s a (ucast v)),
     (RV32I rv_insn_sw, 4, 3, rs1_imm, memory_write_w),
     (RV32C rv_insn_csw, 4, 3, rs1_imm, memory_write_w),
     (RV32C rv_insn_cswsp, 4, 3, sp_imm, memory_write_w)]"

definition amo_table :: "(rv32a_op \<times> (u32 \<Rightarrow> u32 \<Rightarrow> u32)) list" where
  "amo_table =
    [(rv_insn_amoswapw, \<lambda>x y. y), (rv_insn_amoaddw, (+)), (rv_insn_amoxorw, (XOR)),
     (rv_insn_amoandw, (AND)), (rv_insn_amoorw, (OR)),
     (rv_insn_amominw, \<lambda>x y. word_of_int (min (sint x) (sint y))),
     (rv_insn_amomaxw, \<lambda>x y. word_of_int (max (sint x) (sint y))),
     (rv_insn_amominuw, \<lambda>x y. word_of_int (min (uint x) (uint y))),
     (rv_insn_amomaxuw, \<lambda>x y. word_of_int (max (uint x) (uint y)))]"

text \<open>An access the hart can make without trapping.\<close>

definition accessible :: "riscv_t \<Rightarrow> u64 \<Rightarrow> u32 \<Rightarrow> u32 \<Rightarrow> bool" where
  "accessible rv len amask a \<longleftrightarrow>
    quiet rv \<and> bare rv \<and> GUEST_RAM_CONTAINS (ram (attr rv)) a len \<and> \<not> misaligned amask a rv"

lemma sign_extends: "sign_extend_b (ucast b) = scast b" "sign_extend_h (ucast h) = scast h"
  for b :: u8 and h :: u16
  by (rule bit_word_eqI; auto simp: sign_extend_b_def sign_extend_h_def word_bits)+

lemma address_PC [simp]: "rs1_imm ir (rv\<lparr>PC := p\<rparr>) = rs1_imm ir rv" "sp_imm ir (rv\<lparr>PC := p\<rparr>) = sp_imm ir rv"
  by (simp_all add: rs1_imm_def sp_imm_def)

lemma load_exec:
  assumes "(inst, len, amask, address, val) \<in> set load_table" "opcode ir = inst"
    and "env_io env = with_mmu calls" "accessible rv len amask (address ir rv)"
  shows "exec_insn env ir c p rv = Inr (advance env (c + 1) (p + insn_len inst)
    (set_X (rd ir) (val (ram (attr rv)) (address ir rv)) (rv\<lparr>PC := p\<rparr>)))"
proof -
  have "dispatch_table inst env ir c p rv = Inr (advance env (c + 1) (p + insn_len inst)
    (set_X (rd ir) (val (ram (attr rv)) (address ir rv)) (rv\<lparr>PC := p\<rparr>)))"
    using assms(1, 3, 4) unfolding load_table_def accessible_def list.set insert_iff prod.inject empty_iff
    by (elim disjE conjE FalseE)
      (simp_all add: access_handlers do_lb_def do_lbu_def load_op_def guard_passes RVOP_fall
        bare_accesses sign_extends)
  then show ?thesis
    by (simp add: exec_insn_def assms(2))
qed

lemma store_exec:
  assumes "(inst, len, amask, address, upd) \<in> set store_table" "opcode ir = inst"
    and "env_io env = with_mmu calls" "accessible rv len amask (address ir rv)"
  shows "exec_insn env ir c p rv = Inr (advance env (c + 1) (p + insn_len inst)
    (set_ram (upd (address ir rv) (X rv (rs2 ir)) (ram (attr rv))) (rv\<lparr>PC := p\<rparr>)))"
proof -
  have "dispatch_table inst env ir c p rv = Inr (advance env (c + 1) (p + insn_len inst)
    (set_ram (upd (address ir rv) (X rv (rs2 ir)) (ram (attr rv))) (rv\<lparr>PC := p\<rparr>)))"
    using assms(1, 3, 4) unfolding store_table_def accessible_def list.set insert_iff prod.inject empty_iff
    by (elim disjE conjE FalseE)
      (simp_all add: access_handlers do_sb_def store_op_def guard_passes RVOP_fall bare_accesses)
  then show ?thesis
    by (simp add: exec_insn_def assms(2))
qed

lemma amo_body:
  assumes "env_io env = with_mmu calls" "accessible rv 4 3 (X rv (rs1 ir))"
  shows "amo_op f env ir c p rv = Inr (Fall, p,
    set_ram (memory_write_w (X rv (rs1 ir))
        (f (memory_read_w (ram (attr rv)) (X rv (rs1 ir))) (X rv (rs2 ir))) (ram (attr rv)))
      (link_X (rd ir) (memory_read_w (ram (attr rv)) (X rv (rs1 ir))) rv))"
  using assms by (simp add: amo_op_def accessible_def guard_passes bare_accesses Let_def)

lemma accessible_PC [simp]: "accessible (rv\<lparr>PC := p\<rparr>) s m a = accessible rv s m a"
  by (simp add: accessible_def)

lemma amo_exec:
  assumes "(op, f) \<in> set amo_table" "opcode ir = RV32A op"
    and "env_io env = with_mmu calls" "accessible rv 4 3 (X rv (rs1 ir))"
  shows "exec_insn env ir c p rv = Inr (advance env (c + 1) (p + 4)
    (set_ram (memory_write_w (X rv (rs1 ir))
        (f (memory_read_w (ram (attr rv)) (X rv (rs1 ir))) (X rv (rs2 ir))) (ram (attr rv)))
      (link_X (rd ir) (memory_read_w (ram (attr rv)) (X rv (rs1 ir))) (rv\<lparr>PC := p\<rparr>))))"
proof -
  have q: "quiet rv"
    using assms(4) by (simp add: accessible_def)
  have "dispatch_rv32a op env ir c p rv = Inr (advance env (c + 1) (p + 4)
    (set_ram (memory_write_w (X rv (rs1 ir))
        (f (memory_read_w (ram (attr rv)) (X rv (rs1 ir))) (X rv (rs2 ir))) (ram (attr rv)))
      (link_X (rd ir) (memory_read_w (ram (attr rv)) (X rv (rs1 ir))) (rv\<lparr>PC := p\<rparr>))))"
    using assms(1, 3, 4) q unfolding amo_table_def list.set insert_iff prod.inject empty_iff
    by (elim disjE conjE FalseE)
      (simp_all add: access_handlers amo_body RVOP_fall zb_words)
  then show ?thesis
    by (simp add: exec_insn_def assms(2))
qed

section \<open>Load-reserved and store-conditional\<close>

lemma lrw_exec:
  assumes "opcode ir = RV32A rv_insn_lrw" "env_io env = with_mmu calls" "accessible rv 4 3 (X rv (rs1 ir))"
  shows "exec_insn env ir c p rv = Inr (advance env (c + 1) (p + 4)
    ((link_X (rd ir) (memory_read_w (ram (attr rv)) (X rv (rs1 ir))) (rv\<lparr>PC := p\<rparr>))
      \<lparr>lr_addr := X rv (rs1 ir), lr_value := memory_read_w (ram (attr rv)) (X rv (rs1 ir)), lr_valid := True\<rparr>))"
  using assms
  by (simp add: exec_insn_def do_lrw_def accessible_def guard_passes bare_accesses RVOP_fall Let_def)

definition reserved :: "riscv_t \<Rightarrow> u32 \<Rightarrow> bool" where
  "reserved rv a \<longleftrightarrow> lr_valid rv \<and> lr_addr rv AND NOT 3 = a AND NOT 3"

lemma scw_exec:
  assumes "opcode ir = RV32A rv_insn_scw" "env_io env = with_mmu calls" "accessible rv 4 3 (X rv (rs1 ir))"
  shows "exec_insn env ir c p rv = Inr (advance env (c + 1) (p + 4)
    ((if reserved rv (X rv (rs1 ir))
      then link_X (rd ir) 0 (set_ram (memory_write_w (X rv (rs1 ir)) (X rv (rs2 ir)) (ram (attr rv))) (rv\<lparr>PC := p\<rparr>))
      else link_X (rd ir) 1 (rv\<lparr>PC := p\<rparr>))\<lparr>lr_valid := False\<rparr>))"
  using assms
  by (auto simp: exec_insn_def do_scw_def accessible_def guard_passes bare_accesses Let_def reserved_def
      intro!: RVOP_fall [where inst = "RV32A rv_insn_scw", simplified])

section \<open>Sequences of instructions\<close>

lemma run_step:
  assumes "exec_insn (env\<lparr>has_next := True\<rparr>) ir c p rv =
    Inr (advance (env\<lparr>has_next := True\<rparr>) c' p' rv')" "irs \<noteq> []"
  shows "run_insns env (ir # irs) c p rv = run_insns env irs c' p' rv'"
  using assms by (simp add: advance_def)

lemma run_last:
  assumes "exec_insn (env\<lparr>has_next := False\<rparr>) ir c p rv =
    Inr (advance (env\<lparr>has_next := False\<rparr>) c' p' rv')"
  shows "run_insns env [ir] c p rv = Inr (Returned True, (set_cycle c' rv')\<lparr>PC := p'\<rparr>)"
  using assms by (simp add: advance_def)

section \<open>Properties\<close>

lemma accessible_frame [simp]:
  "accessible (set_ram (memory_write_w b v (ram (attr rv))) rv) len m a = accessible rv len m a"
  "accessible (set_X r w rv) len m a = accessible rv len m a"
  "accessible (rv\<lparr>lr_addr := x\<rparr>) len m a = accessible rv len m a"
  "accessible (rv\<lparr>lr_value := x\<rparr>) len m a = accessible rv len m a"
  "accessible (rv\<lparr>lr_valid := y\<rparr>) len m a = accessible rv len m a"
  "accessible (link_X r w rv) len m a = accessible rv len m a"
  by (simp_all add: accessible_def misaligned_def GUEST_RAM_CONTAINS_def)

lemma sample_accessible: "accessible sample_hart 4 3 16"
  by (simp add: accessible_def bare_def misaligned_def GUEST_RAM_CONTAINS_def sample_csrs_def)

text \<open>C9: A word store followed by a word load of the same address, run as a block of two instructions
  with translation off, puts the stored register into the load's destination, leaves RAM with exactly
  that word written, and ends eight bytes and two cycles later.\<close>

theorem store_load_roundtrip:
  assumes "opcode s = RV32I rv_insn_sw" "opcode l = RV32I rv_insn_lw" "env_io env = with_mmu calls"
    and "rs1_imm l rv = rs1_imm s rv" "accessible rv 4 3 (rs1_imm s rv)"
  shows "run_insns env [s, l] c p rv = Inr (Returned True,
    (set_cycle (c + 2) (set_X (rd l) (X rv (rs2 s))
      (set_ram (memory_write_w (rs1_imm s rv) (X rv (rs2 s)) (ram (attr rv))) rv)))\<lparr>PC := p + 8\<rparr>)"
proof -
  let ?rv = "set_ram (memory_write_w (rs1_imm s rv) (X rv (rs2 s)) (ram (attr rv))) (rv\<lparr>PC := p\<rparr>)"
  have l: "rs1_imm l ?rv = rs1_imm s rv"
    using assms(4) by (simp add: rs1_imm_def)
  have acc: "accessible ?rv 4 3 (rs1_imm s rv)"
    using accessible_frame(1) [of _ _ "rv\<lparr>PC := p\<rparr>"] assms(5) by simp
  have sw: "exec_insn (env\<lparr>has_next := True\<rparr>) s c p rv =
      Inr (advance (env\<lparr>has_next := True\<rparr>) (c + 1) (p + 4) ?rv)"
    using assms store_exec [of "RV32I rv_insn_sw" 4 3 rs1_imm memory_write_w s "env\<lparr>has_next := True\<rparr>"]
    by (simp add: store_table_def)
  have lw: "exec_insn (env\<lparr>has_next := False\<rparr>) l (c + 1) (p + 4) ?rv =
      Inr (advance (env\<lparr>has_next := False\<rparr>) (c + 2) (p + 8) (set_X (rd l) (X rv (rs2 s)) (?rv\<lparr>PC := p + 4\<rparr>)))"
    using assms l acc load_exec [of "RV32I rv_insn_lw" 4 3 rs1_imm memory_read_w l "env\<lparr>has_next := False\<rparr>"]
    by (simp add: load_table_def add.assoc)
  have "run_insns env [s, l] c p rv = run_insns env [l] (c + 1) (p + 4) ?rv"
    by (rule run_step [OF sw]) simp
  then show ?thesis
    unfolding run_last [OF lw]
    by (auto intro!: riscv_t.equality simp: set_X_def set_cycle_def set_csr_def set_ram_def)
qed

theorem store_load_roundtrip_witness:
  "\<exists>rv. run_insns sample_env
     [zero_insn\<lparr>opcode := RV32I rv_insn_sw, rs2 := 5, imm := 16\<rparr>, zero_insn\<lparr>opcode := RV32I rv_insn_lw, rd := 6, imm := 16\<rparr>]
     0 0 (set_X 5 77 sample_hart) = Inr (Returned True, rv) \<and> X rv 6 = 77 \<and> PC rv = 8"
  using store_load_roundtrip [of "zero_insn\<lparr>opcode := RV32I rv_insn_sw, rs2 := 5, imm := 16\<rparr>"
      "zero_insn\<lparr>opcode := RV32I rv_insn_lw, rd := 6, imm := 16\<rparr>" sample_env sample_calls
      "set_X 5 77 sample_hart" 0 0] sample_accessible
  by (simp add: zero_insn_def rs1_imm_def del: run_insns.simps)

text \<open>C10: Every load and store whose address violates the alignment it checks (half word, word, their
  compressed and floating-point forms, and the atomics) leaves registers and memory alone, records
  cycle, program counter and width, sets the misaligned cause with the address as trap value in the
  register set of the current privilege, calls the trap handler and makes the handler return false.\<close>

theorem misaligned_access_traps:
  assumes "(inst, amask, cause, cmp, address) \<in> set access_table" "opcode ir = inst"
    and "misaligned amask (address ir rv) rv"
  shows "exec_insn env ir c p rv =
    obind (on_trap (env_io env) (set_cause_and_tval cause (address ir rv)
        (set_cycle (c + 1) (rv\<lparr>PC := p, compressed := cmp\<rparr>))))
      (\<lambda>rv. Inr (Returned False, rv))"
proof -
  have "(set_cycle (c + 1) ((rv\<lparr>PC := p\<rparr>)\<lparr>compressed := cmp\<rparr>))\<lparr>PC := p\<rparr> =
      set_cycle (c + 1) (rv\<lparr>PC := p, compressed := cmp\<rparr>)"
    by (auto intro!: riscv_t.equality simp: set_cycle_def set_csr_def)
  then show ?thesis
    using misaligned_trap [OF assms, of env c p] by (simp add: misalign_trap_def)
qed

theorem misaligned_access_traps_witness:
  "\<exists>rv. exec_insn sample_env (zero_insn\<lparr>opcode := RV32I rv_insn_lw, imm := 2\<rparr>) 0 64 sample_hart = Inr (Returned False, rv)
    \<and> csr_mcause (csr rv) = 4 \<and> csr_mtval (csr rv) = 2 \<and> PC rv = 64 \<and> is_trapped rv"
  using misaligned_access_traps [of "RV32I rv_insn_lw" 3 4 False "\<lambda>ir rv. X rv (rs1 ir) + imm ir"
      "zero_insn\<lparr>opcode := RV32I rv_insn_lw, imm := 2\<rparr>" sample_hart sample_env 0 64]
  by (simp add: access_table_def Let_def misaligned_def zero_insn_def set_cause_and_tval_def
      U_or_S_mode set_cycle_def)

text \<open>C11: An atomic memory operation on an accessible word returns the old word in \<open>rd\<close> (unless that is
  \<open>x0\<close>), stores the combination of old word and operand that the instruction set prescribes, and
  changes nothing else.\<close>

theorem amo_results:
  assumes "(op, f) \<in> set amo_table" "opcode ir = RV32A op"
    and "env_io env = with_mmu calls" "accessible rv 4 3 (X rv (rs1 ir))"
  shows "exec_insn env ir c p rv = Inr (advance env (c + 1) (p + 4)
    (set_ram (memory_write_w (X rv (rs1 ir))
        (f (memory_read_w (ram (attr rv)) (X rv (rs1 ir))) (X rv (rs2 ir))) (ram (attr rv)))
      (link_X (rd ir) (memory_read_w (ram (attr rv)) (X rv (rs1 ir))) (rv\<lparr>PC := p\<rparr>))))"
  using assms by (rule amo_exec)

theorem amo_results_witness:
  "\<exists>rv. exec_insn sample_env (zero_insn\<lparr>opcode := RV32A rv_insn_amoaddw, rd := 7, rs1 := 5, rs2 := 6\<rparr>) 0 0
      (set_X 5 16 (set_X 6 9 sample_hart)) = Inr (Continue To_next 1 4, rv)
    \<and> memory_read_w (ram (attr rv)) 16 = 9 \<and> X rv 7 = 0"
proof -
  have "memory_read_w \<lparr>mem_base = (\<lambda>_. 0), mem_size = 4096\<rparr> 16 = 0"
    by (simp add: memory_read_w_def word_of_bytes_def)
  then show ?thesis
    using amo_results [of rv_insn_amoaddw "(+)"
        "zero_insn\<lparr>opcode := RV32A rv_insn_amoaddw, rd := 7, rs1 := 5, rs2 := 6\<rparr>" sample_env sample_calls
        "set_X 5 16 (set_X 6 9 sample_hart)" 0 0] sample_accessible
    by (simp add: amo_table_def zero_insn_def advance_def link_X_def)
qed

text \<open>C12: A store-conditional on an accessible word succeeds (stores its operand and returns 0) exactly
  when the hart holds a reservation for that word, otherwise returns 1 and leaves RAM alone; in both
  cases the reservation is gone afterwards.\<close>

theorem store_conditional:
  assumes "opcode ir = RV32A rv_insn_scw" "env_io env = with_mmu calls" "accessible rv 4 3 (X rv (rs1 ir))"
  shows "exec_insn env ir c p rv = Inr (advance env (c + 1) (p + 4)
    ((if lr_valid rv \<and> lr_addr rv AND NOT 3 = X rv (rs1 ir) AND NOT 3
      then link_X (rd ir) 0 (set_ram (memory_write_w (X rv (rs1 ir)) (X rv (rs2 ir)) (ram (attr rv))) (rv\<lparr>PC := p\<rparr>))
      else link_X (rd ir) 1 (rv\<lparr>PC := p\<rparr>))\<lparr>lr_valid := False\<rparr>))"
  using scw_exec [OF assms] by (simp add: reserved_def)

theorem store_conditional_witness:
  "\<exists>rv. exec_insn sample_env (zero_insn\<lparr>opcode := RV32A rv_insn_scw, rd := 7, rs1 := 5, rs2 := 6\<rparr>) 0 0
      (set_X 5 16 sample_hart) = Inr (Continue To_next 1 4, rv) \<and> X rv 7 = 1 \<and> \<not> lr_valid rv"
  using store_conditional [of "zero_insn\<lparr>opcode := RV32A rv_insn_scw, rd := 7, rs1 := 5, rs2 := 6\<rparr>" sample_env
      sample_calls "set_X 5 16 sample_hart" 0 0] sample_accessible
  by (simp add: zero_insn_def advance_def link_X_def)

end
