(* ===== verification/FlowProps.thy ===== *)
theory FlowProps imports MemProps begin

text \<open>
  Branches and jumps in the build without block chaining (no \<open>branch_taken\<close> or \<open>branch_untaken\<close>
  links), the CSR instructions, and \<open>x0\<close>.
\<close>

section \<open>Branches\<close>

definition branch_table :: "(rv_opcode \<times> (u32 \<Rightarrow> u32 \<Rightarrow> bool)) list" where
  "branch_table =
    [(RV32I rv_insn_beq, \<lambda>x y. x = y), (RV32I rv_insn_bne, \<lambda>x y. x \<noteq> y),
     (RV32I rv_insn_blt, \<lambda>x y. sint x < sint y), (RV32I rv_insn_bge, \<lambda>x y. sint x \<ge> sint y),
     (RV32I rv_insn_bltu, \<lambda>x y. uint x < uint y), (RV32I rv_insn_bgeu, \<lambda>x y. uint x \<ge> uint y),
     (RV32C rv_insn_cbeqz, \<lambda>x _. x = 0), (RV32C rv_insn_cbnez, \<lambda>x _. x \<noteq> 0)]"

text \<open>A hart that stops a block at a program counter.\<close>

definition stop_at :: "u64 \<Rightarrow> u32 \<Rightarrow> riscv_t \<Rightarrow> leave \<times> riscv_t" where
  "stop_at cycle pcv rv = (Returned True, (set_cycle cycle rv)\<lparr>PC := pcv\<rparr>)"

definition unchained :: "env_t \<Rightarrow> bool" where
  "unchained env \<longleftrightarrow> \<not> taken_link env \<and> \<not> untaken_link env"

lemma RVOP_end:
  assumes "code env ir (c + 1) p (rv\<lparr>PC := p\<rparr>) = Inr (Goto_end_op, p', rv')"
  shows "RVOP inst code env ir c p rv = Inr (stop_at (c + 1) p' rv')"
  using assms by (simp add: RVOP_def end_op_def stop_at_def)

lemma RVOP_next:
  assumes "code env ir (c + 1) p (rv\<lparr>PC := p\<rparr>) = Inr (Goto_nextop, p', rv')" "quiet rv'"
  shows "RVOP inst code env ir c p rv = Inr (advance env (c + 1) (p' + insn_len inst) rv')"
  using assms by (simp add: RVOP_def next_or_stop_quiet)

lemma quiet_set_branch_taken [simp]: "quiet (set_branch_taken b rv) = quiet rv"
  by (simp add: quiet_def set_branch_taken_def)

lemma branch_body:
  assumes "unchained env" "quiet rv"
  shows "BRANCH_FUNC cond env ir c p rv =
      (if cond (X rv (rs1 ir)) (X rv (rs2 ir)) then Inr (Goto_nextop, p, set_branch_taken False rv)
       else Inr (Goto_end_op, p + imm ir, set_branch_taken True rv))"
    and "cbranch cond1 env ir c p rv =
      (if cond1 (X rv (rs1 ir)) then Inr (Goto_nextop, p, set_branch_taken False rv)
       else Inr (Goto_end_op, p + imm ir, set_branch_taken True rv))"
  using assms by (auto simp: BRANCH_FUNC_def cbranch_def unchained_def quiet_def follow_taken_def)

lemma branch_exec:
  assumes "(inst, cond) \<in> set branch_table" "opcode ir = inst" "unchained env" "quiet rv"
  shows "exec_insn env ir c p rv = Inr (
    if cond (X rv (rs1 ir)) (X rv (rs2 ir))
    then stop_at (c + 1) (p + imm ir) (set_branch_taken True (rv\<lparr>PC := p\<rparr>))
    else advance env (c + 1) (p + insn_len inst) (set_branch_taken False (rv\<lparr>PC := p\<rparr>)))"
proof -
  have "dispatch_table inst env ir c p rv = Inr (
    if cond (X rv (rs1 ir)) (X rv (rs2 ir))
    then stop_at (c + 1) (p + imm ir) (set_branch_taken True (rv\<lparr>PC := p\<rparr>))
    else advance env (c + 1) (p + insn_len inst) (set_branch_taken False (rv\<lparr>PC := p\<rparr>)))"
    using assms(1, 3, 4) unfolding branch_table_def list.set insert_iff prod.inject empty_iff
    by (elim disjE conjE FalseE)
      (simp_all add: do_beq_def do_bne_def do_blt_def do_bge_def do_bltu_def do_bgeu_def do_cbeqz_def
        do_cbnez_def branch_body RVOP_end RVOP_next word_le_def word_less_def not_le not_less)
  then show ?thesis
    by (simp add: exec_insn_def assms(2))
qed

section \<open>Jumps\<close>

text \<open>Target and link register of the jumps, with the offset of the return address.\<close>

definition jump_table :: "(rv_opcode \<times> (rv_insn_t \<Rightarrow> u32 \<Rightarrow> riscv_t \<Rightarrow> u32) \<times> (rv_insn_t \<Rightarrow> u8)) list" where
  "jump_table =
    [(RV32I rv_insn_jal, \<lambda>ir p rv. p + imm ir, rd),
     (RV32I rv_insn_jalr, \<lambda>ir p rv. (X rv (rs1 ir) + imm ir) AND NOT 1, rd),
     (RV32C rv_insn_cj, \<lambda>ir p rv. p + imm ir, \<lambda>_. 0),
     (RV32C rv_insn_cjal, \<lambda>ir p rv. p + imm ir, \<lambda>_. 1),
     (RV32C rv_insn_cjr, \<lambda>ir p rv. X rv (rs1 ir), \<lambda>_. 0),
     (RV32C rv_insn_cjalr, \<lambda>ir p rv. X rv (rs1 ir), \<lambda>_. 1)]"

definition indirect_jumps :: "rv_opcode set" where
  "indirect_jumps = {RV32I rv_insn_jalr, RV32C rv_insn_cjr, RV32C rv_insn_cjalr}"

text \<open>An indirect jump to a block that is known goes on in that block; every other jump ends the block.\<close>

definition jump_end :: "rv_opcode \<Rightarrow> env_t \<Rightarrow> u64 \<Rightarrow> u32 \<Rightarrow> riscv_t \<Rightarrow> leave \<times> riscv_t" where
  "jump_end inst env cycle target rv =
    (if inst \<in> indirect_jumps \<and> \<not> reloc_enable_mmu (glob rv) \<and> block_known env target
     then (Continue To_indirect cycle target, rv)
     else stop_at cycle target (if inst = RV32I rv_insn_jalr then escape_reloc rv else rv))"

lemma jump_exec:
  assumes "(inst, target, lnk) \<in> set jump_table" "opcode ir = inst" "unchained env" "quiet rv"
  shows "exec_insn env ir c p rv = Inr (jump_end inst env (c + 1) (target ir p rv)
    (link_X (lnk ir) (p + insn_len inst) (rv\<lparr>PC := p\<rparr>)))"
proof -
  have known: "RVOP inst (\<lambda>env ir cycle pcv rv. lookup_branch_history env (t ir rv) rest (f ir pcv rv)) env ir c p rv =
      Inr (if \<not> reloc_enable_mmu (glob (f ir p (rv\<lparr>PC := p\<rparr>))) \<and> block_known env (t ir (rv\<lparr>PC := p\<rparr>))
           then (Continue To_indirect (c + 1) (t ir (rv\<lparr>PC := p\<rparr>)), f ir p (rv\<lparr>PC := p\<rparr>))
           else stop_at (c + 1) (t ir (rv\<lparr>PC := p\<rparr>)) (rest (f ir p (rv\<lparr>PC := p\<rparr>))))"
    if "\<not> is_trapped (f ir p (rv\<lparr>PC := p\<rparr>))" for inst t rest f
    using that by (simp add: RVOP_def lookup_branch_history_def end_op_def stop_at_def)
  have untrapped: "\<not> is_trapped (link_X r v (rv\<lparr>PC := p\<rparr>))" "\<not> is_trapped (set_X r v (rv\<lparr>PC := p\<rparr>))" for r v
    using assms(4) by (simp_all add: link_X_def quiet_def)
  have "dispatch_table inst env ir c p rv = Inr (jump_end inst env (c + 1) (target ir p rv)
    (link_X (lnk ir) (p + insn_len inst) (rv\<lparr>PC := p\<rparr>)))"
    using assms(1, 3-) untrapped unfolding jump_table_def list.set insert_iff prod.inject empty_iff
    by (elim disjE conjE FalseE)
      (simp_all add: do_jal_def do_jalr_def do_cj_def do_cjal_def do_cjr_def do_cjalr_def RVOP_end known
        follow_taken_def unchained_def Let_def link_X_def jump_end_def indirect_jumps_def quiet_def)
  then show ?thesis
    by (simp add: exec_insn_def assms(2))
qed

section \<open>CSR instructions\<close>

lemma flush_all_hart_id [simp]: "hart_id (mmu_tlb_flush_all rv) = hart_id rv"
  by (simp add: mmu_tlb_flush_all_def)

lemma csr_load_frame [simp]:
  "csr_load r (mmu_tlb_flush_all rv) = csr_load r rv" "csr_load r (set_glob g rv) = csr_load r rv"
  by (cases r; simp add: set_glob_def)+


text \<open>The three accesses differ in the new value.\<close>

definition csr_accesses :: "((u32 \<Rightarrow> u32 \<Rightarrow> u64 \<Rightarrow> riscv_t \<Rightarrow> riscv_t \<times> u32) \<times> (u32 \<Rightarrow> u32 \<Rightarrow> u32)) list" where
  "csr_accesses =
    [(csr_csrrw, \<lambda>old v. v), (csr_csrrs, \<lambda>old v. old OR v), (csr_csrrc, \<lambda>old v. old AND NOT v)]"





text \<open>A new \<open>satp\<close> empties both TLBs.\<close>

lemma satp_flush:
  assumes "(acc, g) \<in> set csr_accesses" "n AND 0xFFF = 0x180"
    and "g (csr_satp (csr rv)) v \<noteq> csr_satp (csr rv)"
  shows "\<not> dtlb_cached (fst (acc n v cycle rv)) va" "\<not> itlb_cached (fst (acc n v cycle rv)) va"
proof -
  have p: "csr_get_ptr n rv = (rv, Some Satp)" "csr_sync_cycle n cycle rv = rv"
    using assms(2) by (simp_all add: csr_get_ptr_def csr_sync_cycle_def csr_table_def)
  have frame: "dtlb_cached (rv\<lparr>glob := h\<rparr>) va = dtlb_cached rv va"
    "itlb_cached (rv\<lparr>glob := h\<rparr>) va = itlb_cached rv va" for rv h
    by (simp_all add: dtlb_cached_def itlb_cached_def)
  show "\<not> dtlb_cached (fst (acc n v cycle rv)) va" "\<not> itlb_cached (fst (acc n v cycle rv)) va"
    using assms(1, 3) unfolding csr_accesses_def list.set insert_iff prod.inject empty_iff
    by (auto simp: csr_csrrw_def csr_csrrs_def csr_csrrc_def p csr_modify_def Let_def frame)
qed

section \<open>Properties\<close>

text \<open>C13: A conditional branch, full or compressed, ends the block at the branch target when its
  condition holds (signed or unsigned as the mnemonic says) and otherwise continues behind itself;
  registers and memory are untouched and the outcome is recorded for the block chain.\<close>

theorem branch_results:
  assumes "(inst, cond) \<in> set branch_table" "opcode ir = inst" "unchained env" "quiet rv"
  shows "exec_insn env ir c p rv = Inr (
    if cond (X rv (rs1 ir)) (X rv (rs2 ir))
    then stop_at (c + 1) (p + imm ir) (set_branch_taken True (rv\<lparr>PC := p\<rparr>))
    else advance env (c + 1) (p + insn_len inst) (set_branch_taken False (rv\<lparr>PC := p\<rparr>)))"
  using assms by (rule branch_exec)

theorem branch_results_witness:
  "\<exists>rv. exec_insn sample_env (zero_insn\<lparr>opcode := RV32I rv_insn_blt, rs1 := 1, rs2 := 2, imm := 64\<rparr>) 0 100
     (set_X 1 (- 1) sample_hart) = Inr (Returned True, rv) \<and> PC rv = 164"
proof -
  have "sint (- 1 :: u32) < sint (0 :: u32)"
    by simp
  then show ?thesis
    using branch_results [of "RV32I rv_insn_blt" "\<lambda>x y. sint x < sint y"
        "zero_insn\<lparr>opcode := RV32I rv_insn_blt, rs1 := 1, rs2 := 2, imm := 64\<rparr>" sample_env
        "set_X 1 (- 1) sample_hart" 0 100]
    by (simp add: branch_table_def unchained_def stop_at_def)
qed

text \<open>C14: In the build without block chaining, a jump in a state with nothing pending puts the address of
  the following instruction into its link register unless that is \<open>x0\<close> and goes to its target: \<open>JALR\<close> clears the
  lowest bit of the target, the compressed indirect jumps take the register as it is. The direct jumps, and the
  indirect ones to an address without a translated block, end the block there. An indirect jump to an address
  with a translated block continues in that block, unless the flag \<open>reloc_enable_mmu\<close> is set. \<open>JALR\<close>, where it
  ends the block, in addition carries out the escape for the \<open>relocate_enable_mmu\<close> of the guest kernel
  (\<open>escape_reloc\<close>), which has an effect at one remembered address only.\<close>

theorem jump_results:
  assumes "(inst, target, lnk) \<in> set jump_table" "opcode ir = inst" "unchained env" "quiet rv"
  shows "exec_insn env ir c p rv = Inr (
    let rv' = link_X (lnk ir) (p + insn_len inst) (rv\<lparr>PC := p\<rparr>); q = target ir p rv
    in if inst \<in> indirect_jumps \<and> \<not> reloc_enable_mmu (glob rv) \<and> block_known env q
       then (Continue To_indirect (c + 1) q, rv')
       else stop_at (c + 1) q (if inst = RV32I rv_insn_jalr then escape_reloc rv' else rv'))"
  unfolding jump_exec [OF assms] by (simp add: jump_end_def Let_def link_X_def)

theorem jump_results_witness:
  "(\<exists>rv. exec_insn sample_env (zero_insn\<lparr>opcode := RV32I rv_insn_jal, rd := 1, imm := 64\<rparr>) 0 100
     sample_hart = Inr (Returned True, rv) \<and> PC rv = 164 \<and> X rv 1 = 104) \<and>
   (\<exists>rv. exec_insn (sample_env\<lparr>block_known := \<lambda>q. q = 64\<rparr>) (zero_insn\<lparr>opcode := RV32I rv_insn_jalr, rd := 1, imm := 65\<rparr>) 0 100
     sample_hart = Inr (Continue To_indirect 1 64, rv) \<and> X rv 1 = 104)"
proof
  show "\<exists>rv. exec_insn sample_env (zero_insn\<lparr>opcode := RV32I rv_insn_jal, rd := 1, imm := 64\<rparr>) 0 100
     sample_hart = Inr (Returned True, rv) \<and> PC rv = 164 \<and> X rv 1 = 104"
    using jump_results [of "RV32I rv_insn_jal" "\<lambda>ir p rv. p + imm ir" rd
        "zero_insn\<lparr>opcode := RV32I rv_insn_jal, rd := 1, imm := 64\<rparr>" sample_env sample_hart 0 100]
    by (simp add: jump_table_def indirect_jumps_def unchained_def stop_at_def link_X_def)
  have "unchained (sample_env\<lparr>block_known := k\<rparr>)" for k
    by (simp add: unchained_def)
  then show "\<exists>rv. exec_insn (sample_env\<lparr>block_known := \<lambda>q. q = 64\<rparr>) (zero_insn\<lparr>opcode := RV32I rv_insn_jalr, rd := 1, imm := 65\<rparr>) 0 100
     sample_hart = Inr (Continue To_indirect 1 64, rv) \<and> X rv 1 = 104"
    using jump_results [of "RV32I rv_insn_jalr" "\<lambda>ir p rv. (X rv (rs1 ir) + imm ir) AND NOT 1" rd
        "zero_insn\<lparr>opcode := RV32I rv_insn_jalr, rd := 1, imm := 65\<rparr>" "sample_env\<lparr>block_known := \<lambda>q. q = 64\<rparr>" sample_hart 0 100]
    by (simp add: jump_table_def indirect_jumps_def link_X_def sample_globals_def)
qed



text \<open>C16: When an access changes \<open>satp\<close>, by writing, setting or clearing, no translation of the old
  address space stays in either TLB.\<close>

theorem satp_change_flushes:
  assumes "(acc, g) \<in> set csr_accesses" "n AND 0xFFF = 0x180"
    and "g (csr_satp (csr rv)) v \<noteq> csr_satp (csr rv)"
  shows "\<not> dtlb_cached (fst (acc n v cycle rv)) va \<and> \<not> itlb_cached (fst (acc n v cycle rv)) va"
  using satp_flush [OF assms] by blast

theorem satp_change_flushes_witness:
  "\<not> dtlb_cached (fst (csr_csrrw 0x180 1 0 sample_hart)) 0 \<and> \<not> itlb_cached (fst (csr_csrrw 0x180 1 0 sample_hart)) 0"
  using satp_change_flushes [of csr_csrrw "\<lambda>old v. v" "0x180" sample_hart 1 0 0]
  by (simp add: csr_accesses_def sample_csrs_def)

text \<open>A write to \<open>frm\<close> or \<open>fflags\<close> replaces the whole \<open>fcsr\<close> instead of its field: after writing
  \<open>v\<close> to \<open>frm\<close> the rounding mode reads as bits 7 to 5 of \<open>v\<close>, not as \<open>v\<close>, and the accrued flags as
  the low five bits of \<open>v\<close>.\<close>

theorem frm_write_hits_fcsr:
  "csr_fcsr (csr (fst (csr_csrrw CSR_FRM v cycle rv))) = v \<and>
   snd (csr_csrrs CSR_FRM 0 cycle' (fst (csr_csrrw CSR_FRM v cycle rv))) = drop_bit 5 v AND 7 \<and>
   snd (csr_csrrs CSR_FFLAGS 0 cycle' (fst (csr_csrrw CSR_FRM v cycle rv))) = v AND 0x1F"
  by (simp add: csr_csrrw_def csr_csrrs_def csr_get_ptr_def csr_table_def csr_sync_cycle_def
      csr_modify_def csr_view_def)

text \<open>Writes to the machine cycle counter are lost: the next read, at whatever cycle, returns the
  interpreter's own count.\<close>

theorem mcycle_write_lost:
  "snd (csr_csrrs 0xB00 0 cycle' (fst (csr_csrrw 0xB00 v cycle rv))) = ucast cycle'"
  by (simp add: csr_csrrw_def csr_csrrs_def csr_get_ptr_def csr_table_def csr_sync_cycle_def
      csr_modify_def csr_view_def)

text \<open>Inside a block \<open>x0\<close> is an ordinary register: a word load with destination \<open>x0\<close> leaves the
  loaded value there, and the following \<open>ADDI\<close> from \<open>x0\<close> computes with it.\<close>

theorem x0_keeps_loaded_value:
  assumes "opcode l = RV32I rv_insn_lw" "rd l = 0" "opcode a = RV32I rv_insn_addi" "rs1 a = 0" "rd a \<noteq> 0"
    and "env_io env = with_mmu calls" "accessible rv 4 3 (rs1_imm l rv)"
  shows "\<exists>rv'. run_insns env [l, a] c p rv = Inr (Returned True, rv') \<and>
    X rv' (rd a) = memory_read_w (ram (attr rv)) (rs1_imm l rv) + imm a"
proof -
  let ?rv = "set_X 0 (memory_read_w (ram (attr rv)) (rs1_imm l rv)) (rv\<lparr>PC := p\<rparr>)"
  have q: "quiet rv"
    using assms(7) by (simp add: accessible_def)
  have lw: "exec_insn (env\<lparr>has_next := True\<rparr>) l c p rv =
      Inr (advance (env\<lparr>has_next := True\<rparr>) (c + 1) (p + 4) ?rv)"
    using assms load_exec [of "RV32I rv_insn_lw" 4 3 rs1_imm memory_read_w l "env\<lparr>has_next := True\<rparr>"]
    by (simp add: load_table_def)
  have addi: "exec_insn (env\<lparr>has_next := False\<rparr>) a (c + 1) (p + 4) ?rv =
      Inr (advance (env\<lparr>has_next := False\<rparr>) (c + 1 + 1) (p + 4 + 4)
        (set_X (rd a) (X ?rv 0 + imm a) (?rv\<lparr>PC := p + 4\<rparr>)))"
    using assms q base_alu [of rv_insn_addi True "\<lambda>x y. word_of_int (uint x + uint y)" a ?rv "env\<lparr>has_next := False\<rparr>"]
    by (simp add: base_spec_def Let_def operand_def)
  have "run_insns env [l, a] c p rv = run_insns env [a] (c + 1) (p + 4) ?rv"
    by (rule run_step [OF lw]) simp
  then show ?thesis
    unfolding run_last [OF addi] by simp
qed

theorem x0_keeps_loaded_value_witness:
  "\<exists>rv. run_insns sample_env [zero_insn\<lparr>opcode := RV32I rv_insn_lw, imm := 16\<rparr>,
      zero_insn\<lparr>opcode := RV32I rv_insn_addi, rd := 5\<rparr>] 0 0
      (set_ram (memory_write_w 16 7 (ram (attr sample_hart))) sample_hart) = Inr (Returned True, rv) \<and> X rv 5 = 7"
  using x0_keeps_loaded_value [of "zero_insn\<lparr>opcode := RV32I rv_insn_lw, imm := 16\<rparr>"
      "zero_insn\<lparr>opcode := RV32I rv_insn_addi, rd := 5\<rparr>" sample_env sample_calls
      "set_ram (memory_write_w 16 7 (ram (attr sample_hart))) sample_hart" 0 0]
    accessible_frame(1) [of 16 7 sample_hart 4 3 16] sample_accessible
  by (simp add: zero_insn_def rs1_imm_def del: run_insns.simps sample_fields(10))

end
