(* ===== verification/FuseProps.thy ===== *)
theory FuseProps imports Fusion FlowProps begin

text \<open>
  Fusion does not change what a block computes. A block is \<open>calm\<close> when nothing is pending while it
  runs, its word accesses are to accessible RAM and \<open>x0\<close> is zero; on such a block the fused handlers
  reach the same hart, cycle count and program counter as the instructions they replace.
\<close>

section \<open>Handlers overwrite the program counter\<close>

lemmas handler_defs =
  do_nop_def do_lui_def do_auipc_def do_jal_def do_jalr_def do_beq_def do_bne_def do_blt_def
  do_bge_def do_bltu_def do_bgeu_def do_lb_def do_lh_def do_lw_def do_lbu_def do_lhu_def do_sb_def
  do_sh_def do_sw_def do_addi_def do_slti_def do_sltiu_def do_xori_def do_ori_def do_andi_def
  do_slli_def do_srli_def do_srai_def do_add_def do_sub_def do_sll_def do_slt_def do_sltu_def
  do_xor_def do_srl_def do_sra_def do_or_def do_and_def do_fence_def do_ecall_def do_ebreak_def
  do_wfi_def do_uret_def do_hret_def do_sret_def do_mret_def do_sfencevma_def do_fencei_def
  do_csrrw_def do_csrrs_def do_csrrc_def do_csrrwi_def do_csrrsi_def do_csrrci_def do_mul_def
  do_mulh_def do_mulhsu_def do_mulhu_def do_div_def do_divu_def do_rem_def do_remu_def do_lrw_def
  do_scw_def do_amoswapw_def do_amoaddw_def do_amoxorw_def do_amoandw_def do_amoorw_def
  do_amominw_def do_amomaxw_def do_amominuw_def do_amomaxuw_def do_flw_def do_fsw_def
  do_fmadds_def do_fmsubs_def do_fnmsubs_def do_fnmadds_def do_fadds_def do_fsubs_def do_fmuls_def
  do_fdivs_def do_fsqrts_def do_fsgnjs_def do_fsgnjns_def do_fsgnjxs_def do_fmins_def do_fmaxs_def
  do_fcvtws_def do_fcvtwus_def do_fmvxw_def do_feqs_def do_flts_def do_fles_def do_fclasss_def
  do_fcvtsw_def do_fcvtswu_def do_fmvwx_def do_caddi4spn_def do_cnop_def do_caddi_def do_cli_def
  do_caddi16sp_def do_clui_def do_csrli_def do_csrai_def do_candi_def do_csub_def do_cxor_def
  do_cor_def do_cand_def do_cslli_def do_cmv_def do_cadd_def do_clw_def do_csw_def do_clwsp_def
  do_cswsp_def do_cflwsp_def do_cfswsp_def do_cflw_def do_cfsw_def do_cjal_def do_cj_def
  do_cbeqz_def do_cbnez_def do_cjr_def do_cjalr_def do_cebreak_def do_sh1add_def do_sh2add_def
  do_sh3add_def do_andn_def do_orn_def do_xnor_def do_clz_def do_ctz_def do_cpop_def do_max_def
  do_min_def do_maxu_def do_minu_def do_sextb_def do_sexth_def do_zexth_def do_rol_def do_ror_def
  do_rori_def do_orcb_def do_rev8_def do_clmul_def do_clmulh_def do_clmulr_def do_bclr_def
  do_bclri_def do_bext_def do_bexti_def do_binv_def do_binvi_def do_bset_def do_bseti_def
  do_fuse1_def do_fuse2_def do_fuse3_def do_fuse4_def do_fuse5_def do_fuse6_def do_fuse7_def
  do_fuse8_def do_fuse9_def do_fuse10_def do_fuse11_def do_fuse12_def

definition syncs_PC :: "handler_t \<Rightarrow> bool" where
  "syncs_PC h \<longleftrightarrow> (\<forall>env ir c p q rv. h env ir c p (rv\<lparr>PC := q\<rparr>) = h env ir c p rv)"

lemma syncs_PC_frames: "syncs_PC (RVOP inst code)" "syncs_PC (FUSED cyc bts code)"
  by (simp_all add: syncs_PC_def RVOP_def FUSED_def)

lemma syncs_PC_rv32i: "syncs_PC (dispatch_rv32i i)"
  by (cases i; simp add: handler_defs syncs_PC_frames)

lemma syncs_PC_priv: "syncs_PC (dispatch_priv i)"
  by (cases i; simp add: handler_defs syncs_PC_frames)

lemma syncs_PC_zifencei: "syncs_PC (dispatch_zifencei i)"
  by (cases i; simp add: handler_defs syncs_PC_frames)

lemma syncs_PC_zicsr: "syncs_PC (dispatch_zicsr i)"
  by (cases i; simp add: handler_defs syncs_PC_frames)

lemma syncs_PC_zba: "syncs_PC (dispatch_zba i)"
  by (cases i; simp add: handler_defs syncs_PC_frames)

lemma syncs_PC_zbb: "syncs_PC (dispatch_zbb i)"
  by (cases i; simp add: handler_defs syncs_PC_frames)

lemma syncs_PC_zbc: "syncs_PC (dispatch_zbc i)"
  by (cases i; simp add: handler_defs syncs_PC_frames)

lemma syncs_PC_zbs: "syncs_PC (dispatch_zbs i)"
  by (cases i; simp add: handler_defs syncs_PC_frames)

lemma syncs_PC_rv32m: "syncs_PC (dispatch_rv32m i)"
  by (cases i; simp add: handler_defs syncs_PC_frames)

lemma syncs_PC_rv32a: "syncs_PC (dispatch_rv32a i)"
  by (cases i; simp add: handler_defs syncs_PC_frames)

lemma syncs_PC_rv32f: "syncs_PC (dispatch_rv32f i)"
  by (cases i; simp add: handler_defs syncs_PC_frames)

lemma syncs_PC_rv32c: "syncs_PC (dispatch_rv32c i)"
  by (cases i; simp add: handler_defs syncs_PC_frames)

lemma syncs_PC_rv32fc: "syncs_PC (dispatch_rv32fc i)"
  by (cases i; simp add: handler_defs syncs_PC_frames)

lemma syncs_PC_fuse: "syncs_PC (dispatch_fuse i)"
  by (cases i; simp add: handler_defs syncs_PC_frames)

lemma exec_PC [simp]: "exec_insn env ir c p (rv\<lparr>PC := q\<rparr>) = exec_insn env ir c p rv"
  using syncs_PC_rv32i syncs_PC_priv syncs_PC_zifencei syncs_PC_zicsr syncs_PC_zba syncs_PC_zbb syncs_PC_zbc syncs_PC_zbs syncs_PC_rv32m syncs_PC_rv32a syncs_PC_rv32f syncs_PC_rv32c syncs_PC_rv32fc syncs_PC_fuse
  unfolding exec_insn_def syncs_PC_def by (cases "opcode ir") simp_all

section \<open>The rest of a block\<close>

definition run_rest :: "env_t \<Rightarrow> rv_insn_t list \<Rightarrow> u64 \<Rightarrow> u32 \<Rightarrow> riscv_t \<Rightarrow> (leave \<times> riscv_t) outcome" where
  "run_rest env irs c p rv =
    (if irs = [] then Inr (stop_at c p rv) else run_insns env irs c p rv)"

lemma run_rest_PC [simp]: "run_rest env irs c p (rv\<lparr>PC := q\<rparr>) = run_rest env irs c p rv"
  by (cases irs) (simp_all add: run_rest_def stop_at_def set_cycle_def set_csr_def)

lemma run_rest_advance:
  assumes "exec_insn (env\<lparr>has_next := irs \<noteq> []\<rparr>) ir c p rv =
    Inr (advance (env\<lparr>has_next := irs \<noteq> []\<rparr>) c' p' rv')"
  shows "run_rest env (ir # irs) c p rv = run_rest env irs c' p' rv'"
  using assms by (simp add: run_rest_def advance_def stop_at_def)

section \<open>Calm blocks\<close>

definition calm :: "rv_insn_t \<Rightarrow> riscv_t \<Rightarrow> bool" where
  "calm ir rv \<longleftrightarrow> quiet rv \<and> bare rv \<and> X rv 0 = 0 \<and>
    (opcode ir = RV32I rv_insn_lw \<or> opcode ir = RV32I rv_insn_sw \<longrightarrow> accessible rv 4 3 (rs1_imm ir rv))"

fun calm_run :: "env_t \<Rightarrow> rv_insn_t list \<Rightarrow> u64 \<Rightarrow> u32 \<Rightarrow> riscv_t \<Rightarrow> bool" where
  "calm_run env [] c p rv \<longleftrightarrow> True"
| "calm_run env (ir # irs) c p rv \<longleftrightarrow> calm ir rv \<and>
    (case exec_insn (env\<lparr>has_next := irs \<noteq> []\<rparr>) ir c p rv of
       Inr (Continue To_next c' p', rv') \<Rightarrow> calm_run env irs c' p' rv'
     | _ \<Rightarrow> True)"

lemma calm_PC [simp]: "calm ir (rv\<lparr>PC := q\<rparr>) = calm ir rv"
  by (simp add: calm_def)

lemma calm_run_PC [simp]: "calm_run env irs c p (rv\<lparr>PC := q\<rparr>) = calm_run env irs c p rv"
  by (cases irs) simp_all

text \<open>The instructions fusion touches, apart from \<open>ECALL\<close> and \<open>BNE\<close>, and their effect.\<close>

definition effect :: "rv_insn_t \<Rightarrow> riscv_t \<Rightarrow> riscv_t" where
  "effect ir rv =
    (if opcode ir = RV32I rv_insn_lui then set_X (rd ir) (imm ir) rv
     else if opcode ir = RV32I rv_insn_addi then set_X (rd ir) (X rv (rs1 ir) + imm ir) rv
     else if opcode ir = RV32I rv_insn_add then set_X (rd ir) (X rv (rs1 ir) + X rv (rs2 ir)) rv
     else if opcode ir = RV32I rv_insn_slli then set_X (rd ir) (shl (X rv (rs1 ir)) (imm ir)) rv
     else if opcode ir = RV32I rv_insn_srli then set_X (rd ir) (shr (X rv (rs1 ir)) (imm ir)) rv
     else if opcode ir = RV32I rv_insn_srai then set_X (rd ir) (sar (X rv (rs1 ir)) (imm ir)) rv
     else if opcode ir = RV32I rv_insn_lw
     then set_X (rd ir) (memory_read_w (ram (attr rv)) (rs1_imm ir rv)) rv
     else set_ram (memory_write_w (rs1_imm ir rv) (X rv (rs2 ir)) (ram (attr rv))) rv)"

definition simple :: "rv_insn_t \<Rightarrow> bool" where
  "simple ir \<longleftrightarrow> opcode ir \<in> RV32I ` {rv_insn_lui, rv_insn_addi, rv_insn_add, rv_insn_slli,
     rv_insn_srli, rv_insn_srai, rv_insn_lw, rv_insn_sw}"

lemma effect_PC: "effect ir (rv\<lparr>PC := q\<rparr>) = (effect ir rv)\<lparr>PC := q\<rparr>"
  by (simp add: effect_def set_X_def set_ram_def)

lemma quiet_effect [simp]: "quiet (effect ir rv) = quiet rv"
  by (simp add: effect_def)

lemma simple_exec:
  assumes "simple ir" "calm ir rv" "env_io env = with_mmu calls"
  shows "exec_insn env ir c p rv = Inr (advance env (c + 1) (p + 4) (effect ir (rv\<lparr>PC := p\<rparr>)))"
  using assms
    load_exec [of "RV32I rv_insn_lw" 4 3 rs1_imm memory_read_w ir env calls rv c p]
    store_exec [of "RV32I rv_insn_sw" 4 3 rs1_imm memory_write_w ir env calls rv c p]
  unfolding simple_def
  by (elim imageE insertE)
    (auto simp: effect_def calm_def exec_insn_def do_lui_def do_addi_def do_add_def do_slli_def do_srli_def
      do_srai_def reg_op_def imm_op_def shift_func_def RVOP_straight RVOP_straight_checked
      load_table_def store_table_def)

section \<open>Runs of simple instructions\<close>

fun calms :: "rv_insn_t list \<Rightarrow> riscv_t \<Rightarrow> bool" where
  "calms [] rv \<longleftrightarrow> True"
| "calms (ir # irs) rv \<longleftrightarrow> calm ir rv \<and> calms irs (effect ir rv)"

lemma run_simple:
  assumes "env_io env = with_mmu calls" "\<forall>ir\<in>set xs. simple ir" "calm_run env (xs @ rest) c p rv"
  shows "calms xs rv
    \<and> run_rest env (xs @ rest) c p rv = run_rest env rest (c + of_nat (length xs)) (p + 4 * of_nat (length xs)) (fold effect xs rv)
    \<and> calm_run env rest (c + of_nat (length xs)) (p + 4 * of_nat (length xs)) (fold effect xs rv)"
  using assms(2, 3)
proof (induction xs arbitrary: c p rv)
  case (Cons ir xs)
  let ?irs = "xs @ rest"
  have ir: "simple ir" "calm ir rv"
    using Cons.prems by simp_all
  have exec: "exec_insn (env\<lparr>has_next := ?irs \<noteq> []\<rparr>) ir c p rv =
      Inr (advance (env\<lparr>has_next := ?irs \<noteq> []\<rparr>) (c + 1) (p + 4) ((effect ir rv)\<lparr>PC := p\<rparr>))"
    using simple_exec [OF ir, of "env\<lparr>has_next := ?irs \<noteq> []\<rparr>" calls] assms(1) by (simp add: effect_PC)
  have run: "run_rest env (ir # ?irs) c p rv = run_rest env ?irs (c + 1) (p + 4) (effect ir rv)"
    by (subst run_rest_advance [OF exec]) simp
  have rest: "calm_run env ?irs (c + 1) (p + 4) (effect ir rv)"
  proof (cases "?irs = []")
    case False
    with Cons.prems(2) exec show ?thesis
      by (simp add: advance_def)
  qed simp
  from Cons.IH [OF _ rest] Cons.prems(1) run ir show ?case
    by (simp add: add.assoc algebra_simps)
qed simp

section \<open>Fused handlers\<close>

lemma FUSED_fall:
  assumes "code env ir (c + cyc ir) p (rv\<lparr>PC := p\<rparr>) = Inr (Fall, p, rv')" "quiet rv'"
  shows "FUSED cyc bts code env ir c p rv = Inr (advance env (c + cyc ir) (p + bts ir) rv')"
  using assms by (simp add: FUSED_def next_or_stop_quiet) (simp add: quiet_def)

lemma small_counts:
  assumes "n \<le> 16"
  shows "nat (sint (of_nat n :: u32)) = n" "(scast (of_nat n :: u32) :: u64) = of_nat n"
proof -
  have "sint (of_nat n :: u32) = signed_take_bit 31 (int n)"
    by transfer simp
  also have "\<dots> = int n"
    using assms by (intro signed_take_bit_int_eq_self) simp_all
  finally have n: "sint (of_nat n :: u32) = int n" .
  then show "nat (sint (of_nat n :: u32)) = n" by simp
  have "(scast (of_nat n :: u32) :: u64) = word_of_int (sint (of_nat n :: u32))"
    by (simp only: of_int_sint)
  with n show "(scast (of_nat n :: u32) :: u64) = of_nat n" by simp
qed

text \<open>What the loops of the fused handlers compute.\<close>

lemma fold_effect_map:
  assumes "\<And>ir rv. ir \<in> set xs \<Longrightarrow> f (fuse_entry ir) rv = effect ir rv"
  shows "fold f (map fuse_entry xs) rv = fold effect xs rv"
  using assms by (induction xs arbitrary: rv) simp_all

lemma fold_effect_PC: "fold effect xs (rv\<lparr>PC := q\<rparr>) = (fold effect xs rv)\<lparr>PC := q\<rparr>"
  by (induction xs arbitrary: rv) (simp_all add: effect_PC)

lemma quiet_fold [simp]: "quiet (fold effect xs rv) = quiet rv"
  by (induction xs arbitrary: rv) simp_all

lemma fuse3_loop_effect:
  assumes "\<forall>ir\<in>set xs. opcode ir = RV32I rv_insn_sw" "calms xs rv" "env_io env = with_mmu calls"
  shows "fuse3_loop env c p (map fuse_entry xs) rv = Inr (Fall, p, fold effect xs rv)"
  using assms(1, 2)
proof (induction xs arbitrary: rv)
  case (Cons ir xs)
  have "accessible rv 4 3 (X rv (rs1 ir) + imm ir)"
    using Cons.prems by (simp add: calm_def rs1_imm_def)
  then show ?case
    using Cons assms(3)
    by (simp add: fuse_entry_def accessible_def guard_passes bare_accesses effect_def rs1_imm_def)
qed simp

lemma fuse4_loop_effect:
  assumes "\<forall>ir\<in>set xs. opcode ir = RV32I rv_insn_lw" "calms xs rv" "env_io env = with_mmu calls"
  shows "fuse4_loop env c p (map fuse_entry xs) rv = Inr (Fall, p, fold effect xs rv)"
  using assms(1, 2)
proof (induction xs arbitrary: rv)
  case (Cons ir xs)
  have "accessible rv 4 3 (X rv (rs1 ir) + imm ir)"
    using Cons.prems by (simp add: calm_def rs1_imm_def)
  then show ?case
    using Cons assms(3)
    by (simp add: fuse_entry_def accessible_def guard_passes bare_accesses effect_def rs1_imm_def)
qed simp

lemma fuse5_loop_effect:
  assumes "\<forall>ir\<in>set xs. is_shift_imm ir"
  shows "fuse5_loop (map fuse_entry xs) rv = Inr (fold effect xs rv)"
  using assms
  by (induction xs arbitrary: rv)
    (auto simp: fuse_entry_def fuse_shift_exec_def is_shift_imm_def effect_def)

lemma calms_PC [simp]: "calms xs (rv\<lparr>PC := q\<rparr>) = calms xs rv"
  by (induction xs arbitrary: rv) (simp_all add: effect_PC)

section \<open>A fused instruction replaces the instructions it was made from\<close>

definition replaces :: "rv_insn_t \<Rightarrow> rv_insn_t list \<Rightarrow> bool" where
  "replaces f xs \<longleftrightarrow> (\<forall>env calls c p rv. env_io env = with_mmu calls \<longrightarrow> calms xs rv \<longrightarrow>
    exec_insn env f c p rv =
      Inr (advance env (c + of_nat (length xs)) (p + 4 * of_nat (length xs)) ((fold effect xs rv)\<lparr>PC := p\<rparr>)))"

lemma replacesD:
  assumes "replaces f xs" "env_io env = with_mmu calls" "calms xs rv"
  shows "exec_insn env f c p rv =
      Inr (advance env (c + of_nat (length xs)) (p + 4 * of_nat (length xs)) ((fold effect xs rv)\<lparr>PC := p\<rparr>))"
  using assms unfolding replaces_def by blast

lemma calms_quiet: "calms xs rv \<Longrightarrow> xs \<noteq> [] \<Longrightarrow> quiet rv"
  by (cases xs) (simp_all add: calm_def)

text \<open>Which handler a run of equal instructions is given.\<close>

definition sequence_fusion :: "(fuse_op \<times> (rv_insn_t \<Rightarrow> bool)) list" where
  "sequence_fusion =
    [(rv_insn_fuse1, \<lambda>i. opcode i = RV32I rv_insn_lui), (rv_insn_fuse3, \<lambda>i. opcode i = RV32I rv_insn_sw),
     (rv_insn_fuse4, \<lambda>i. opcode i = RV32I rv_insn_lw), (rv_insn_fuse5, is_shift_imm),
     (rv_insn_fuse7, \<lambda>i. opcode i = RV32I rv_insn_addi)]"

lemma fuse_frame:
  assumes "length xs \<le> 16" "quiet rv"
    and "opcode f = FUSE fop" "fuse f = map fuse_entry xs" "imm2 f = of_nat (length xs)"
    and "dispatch_fuse fop = FUSED fuse_cycles fuse_bytes code"
    and "code env f (c + of_nat (length xs)) p (rv\<lparr>PC := p\<rparr>) = Inr (Fall, p, fold effect xs (rv\<lparr>PC := p\<rparr>))"
  shows "exec_insn env f c p rv =
      Inr (advance env (c + of_nat (length xs)) (p + 4 * of_nat (length xs)) ((fold effect xs rv)\<lparr>PC := p\<rparr>))"
proof -
  have cyc: "fuse_cycles f = of_nat (length xs)" "fuse_bytes f = 4 * of_nat (length xs)"
    using assms(1, 5) by (simp_all add: fuse_cycles_def fuse_bytes_def small_counts)
  have "FUSED fuse_cycles fuse_bytes code env f c p rv =
      Inr (advance env (c + fuse_cycles f) (p + fuse_bytes f) (fold effect xs (rv\<lparr>PC := p\<rparr>)))"
    by (rule FUSED_fall) (simp_all add: cyc assms)
  then show ?thesis
    by (simp add: exec_insn_def assms(3, 6) cyc fold_effect_PC)
qed

lemma sequence_replaces:
  assumes "(fop, P) \<in> set sequence_fusion" "\<forall>ir\<in>set xs. P ir" "xs \<noteq> []" "length xs \<le> 16"
    and "opcode f = FUSE fop" "fuse f = map fuse_entry xs" "imm2 f = of_nat (length xs)"
  shows "replaces f xs"
proof -
  have entries: "fuse_entries f = Inr (map fuse_entry xs)"
    using assms(4, 6, 7) by (simp add: fuse_entries_def small_counts)
  show ?thesis
    unfolding replaces_def
  proof (intro allI impI)
    fix env :: env_t and calls c p and rv :: riscv_t
    assume io: "env_io env = with_mmu calls" and calms: "calms xs rv"
    note frame = fuse_frame [OF assms(4) calms_quiet [OF calms assms(3)] assms(5-7)]
    note loops = fold_effect_map fuse3_loop_effect [OF _ _ io] fuse4_loop_effect [OF _ _ io] fuse5_loop_effect
    from assms(1, 2) show "exec_insn env f c p rv =
      Inr (advance env (c + of_nat (length xs)) (p + 4 * of_nat (length xs)) ((fold effect xs rv)\<lparr>PC := p\<rparr>))"
      unfolding sequence_fusion_def list.set insert_iff prod.inject empty_iff
      by (elim disjE conjE FalseE)
        (rule frame, simp only: dispatch_fuse.simps do_fuse1_def do_fuse3_def do_fuse4_def do_fuse5_def do_fuse7_def,
          simp add: fuse_fold_def entries loops calms, (simp add: fuse_entry_def effect_def fold_effect_map)?)+
  qed
qed

text \<open>The pairs with a handler of their own: what the second instruction must be, and the rewrite.\<close>

lemma fuse_pair:
  assumes "opcode f = FUSE fop" "dispatch_fuse fop = FUSED (\<lambda>_. 2) (\<lambda>_. 8) code" "quiet rv"
    and "code env f (c + 2) p (rv\<lparr>PC := p\<rparr>) = Inr (Fall, p, effect i2 (effect i1 (rv\<lparr>PC := p\<rparr>)))"
  shows "exec_insn env f c p rv =
      Inr (advance env (c + of_nat (length [i1, i2])) (p + 4 * of_nat (length [i1, i2]))
        ((fold effect [i1, i2] rv)\<lparr>PC := p\<rparr>))"
proof -
  have "FUSED (\<lambda>_. 2) (\<lambda>_. 8) code env f c p rv =
      Inr (advance env (c + 2) (p + 8) (effect i2 (effect i1 (rv\<lparr>PC := p\<rparr>))))"
    by (rule FUSED_fall) (simp_all add: assms)
  then show ?thesis
    by (simp add: exec_insn_def assms(1, 2) effect_PC)
qed

lemma effects:
  "opcode ir = RV32I rv_insn_lui \<Longrightarrow> effect ir rv = set_X (rd ir) (imm ir) rv"
  "opcode ir = RV32I rv_insn_addi \<Longrightarrow> effect ir rv = set_X (rd ir) (X rv (rs1 ir) + imm ir) rv"
  "opcode ir = RV32I rv_insn_add \<Longrightarrow> effect ir rv = set_X (rd ir) (X rv (rs1 ir) + X rv (rs2 ir)) rv"
  "opcode ir = RV32I rv_insn_lw \<Longrightarrow>
    effect ir rv = set_X (rd ir) (memory_read_w (ram (attr rv)) (rs1_imm ir rv)) rv"
  "opcode ir = RV32I rv_insn_sw \<Longrightarrow>
    effect ir rv = set_ram (memory_write_w (rs1_imm ir rv) (X rv (rs2 ir)) (ram (attr rv))) rv"
  by (simp_all add: effect_def)

lemma pair_calm:
  assumes "calms [i1, i2] rv"
  shows "quiet rv"
    and "opcode i1 = RV32I rv_insn_lw \<Longrightarrow> accessible rv 4 3 (rs1_imm i1 rv)"
    and "opcode i2 = RV32I rv_insn_lw \<or> opcode i2 = RV32I rv_insn_sw \<Longrightarrow>
      accessible (effect i1 rv) 4 3 (rs1_imm i2 (effect i1 rv))"
  using assms by (auto simp: calm_def)

lemma misaligned_set_X [simp]: "misaligned m a (set_X r v rv) = misaligned m a rv"
  by (simp add: misaligned_def)

lemma lui_add_replaces:
  assumes "opcode i1 = RV32I rv_insn_lui" "opcode i2 = RV32I rv_insn_add" "rd i1 \<in> {rs2 i2, rs1 i2}"
  shows "replaces (i1\<lparr>opcode := FUSE rv_insn_fuse2, rs2 := rd i2,
     rs1 := if rd i1 = rs2 i2 then rs1 i2 else rs2 i2\<rparr>) [i1, i2]"
  unfolding replaces_def
proof (intro allI impI)
  fix env :: env_t and calls c p and rv :: riscv_t
  assume calms: "calms [i1, i2] rv"
  let ?f = "i1\<lparr>opcode := FUSE rv_insn_fuse2, rs2 := rd i2, rs1 := if rd i1 = rs2 i2 then rs1 i2 else rs2 i2\<rparr>"
  show "exec_insn env ?f c p rv = Inr (advance env (c + of_nat (length [i1, i2]))
      (p + 4 * of_nat (length [i1, i2])) ((fold effect [i1, i2] rv)\<lparr>PC := p\<rparr>))"
    by (rule fuse_pair [OF _ _ pair_calm(1) [OF calms]],
        simp, simp only: dispatch_fuse.simps do_fuse2_def)
      (use assms in \<open>auto simp: straight_def effects add.commute\<close>)
qed

lemma lui_addi_replaces:
  assumes "opcode i1 = RV32I rv_insn_lui" "opcode i2 = RV32I rv_insn_addi" "rd i1 = rs1 i2" "rd i1 = rd i2"
  shows "replaces (i1\<lparr>imm2 := imm i2, opcode := FUSE rv_insn_fuse8\<rparr>) [i1, i2]"
  unfolding replaces_def
proof (intro allI impI)
  fix env :: env_t and calls c p and rv :: riscv_t
  assume calms: "calms [i1, i2] rv"
  show "exec_insn env (i1\<lparr>imm2 := imm i2, opcode := FUSE rv_insn_fuse8\<rparr>) c p rv =
      Inr (advance env (c + of_nat (length [i1, i2]))
      (p + 4 * of_nat (length [i1, i2])) ((fold effect [i1, i2] rv)\<lparr>PC := p\<rparr>))"
    by (rule fuse_pair [OF _ _ pair_calm(1) [OF calms]],
        simp, simp only: dispatch_fuse.simps do_fuse8_def)
      (use assms in \<open>simp add: straight_def effects\<close>)
qed

lemma lui_lw_replaces:
  assumes "opcode i1 = RV32I rv_insn_lui" "opcode i2 = RV32I rv_insn_lw" "rd i1 = rs1 i2"
  shows "replaces (i1\<lparr>imm2 := imm i2, rs2 := rd i2, opcode := FUSE rv_insn_fuse9\<rparr>) [i1, i2]"
  unfolding replaces_def
proof (intro allI impI)
  fix env :: env_t and calls c p and rv :: riscv_t
  assume io: "env_io env = with_mmu calls" and calms: "calms [i1, i2] rv"
  have acc: "accessible (effect i1 rv) 4 3 (imm i1 + imm i2)"
    using pair_calm(3) [OF calms] assms by (simp add: effects rs1_imm_def)
  show "exec_insn env (i1\<lparr>imm2 := imm i2, rs2 := rd i2, opcode := FUSE rv_insn_fuse9\<rparr>) c p rv =
      Inr (advance env (c + of_nat (length [i1, i2]))
      (p + 4 * of_nat (length [i1, i2])) ((fold effect [i1, i2] rv)\<lparr>PC := p\<rparr>))"
    by (rule fuse_pair [OF _ _ pair_calm(1) [OF calms]],
        simp, simp only: dispatch_fuse.simps do_fuse9_def)
      (use assms acc io in \<open>simp add: effects rs1_imm_def accessible_def guard_passes bare_accesses Let_def\<close>)
qed

lemma lui_sw_replaces:
  assumes "opcode i1 = RV32I rv_insn_lui" "opcode i2 = RV32I rv_insn_sw" "rd i1 = rs1 i2"
  shows "replaces (i1\<lparr>imm2 := imm i2, rs1 := rs2 i2, opcode := FUSE rv_insn_fuse10\<rparr>) [i1, i2]"
  unfolding replaces_def
proof (intro allI impI)
  fix env :: env_t and calls c p and rv :: riscv_t
  assume io: "env_io env = with_mmu calls" and calms: "calms [i1, i2] rv"
  have acc: "accessible (effect i1 rv) 4 3 (imm i1 + imm i2)"
    using pair_calm(3) [OF calms] assms by (simp add: effects rs1_imm_def)
  show "exec_insn env (i1\<lparr>imm2 := imm i2, rs1 := rs2 i2, opcode := FUSE rv_insn_fuse10\<rparr>) c p rv =
      Inr (advance env (c + of_nat (length [i1, i2]))
      (p + 4 * of_nat (length [i1, i2])) ((fold effect [i1, i2] rv)\<lparr>PC := p\<rparr>))"
    by (rule fuse_pair [OF _ _ pair_calm(1) [OF calms]],
        simp, simp only: dispatch_fuse.simps do_fuse10_def)
      (use assms acc io in \<open>simp add: effects rs1_imm_def accessible_def guard_passes bare_accesses Let_def\<close>)
qed

lemma lw_addi_replaces:
  assumes "opcode i1 = RV32I rv_insn_lw" "opcode i2 = RV32I rv_insn_addi"
    and "rs1 i1 = rs1 i2" "rs1 i2 = rd i2"
  shows "replaces (i1\<lparr>imm2 := imm i2, opcode := FUSE rv_insn_fuse11\<rparr>) [i1, i2]"
  unfolding replaces_def
proof (intro allI impI)
  fix env :: env_t and calls c p and rv :: riscv_t
  assume io: "env_io env = with_mmu calls" and calms: "calms [i1, i2] rv"
  have acc: "accessible rv 4 3 (X rv (rs1 i1) + imm i1)" "\<not> is_trapped rv"
    using pair_calm [OF calms] assms by (simp_all add: rs1_imm_def quiet_def)
  show "exec_insn env (i1\<lparr>imm2 := imm i2, opcode := FUSE rv_insn_fuse11\<rparr>) c p rv =
      Inr (advance env (c + of_nat (length [i1, i2]))
      (p + 4 * of_nat (length [i1, i2])) ((fold effect [i1, i2] rv)\<lparr>PC := p\<rparr>))"
    by (rule fuse_pair [OF _ _ pair_calm(1) [OF calms]],
        simp, simp only: dispatch_fuse.simps do_fuse11_def)
      (use assms acc io in \<open>simp add: effects rs1_imm_def accessible_def guard_passes bare_accesses Let_def\<close>)
qed

section \<open>Fusion of a block\<close>

text \<open>What one visit of the loop yields: the instruction is kept, or it replaces a prefix of simple
  instructions, or it is one of the two pairs that leave the block.\<close>

definition ecall_pair :: "rv_insn_t \<Rightarrow> rv_insn_t \<Rightarrow> rv_insn_t \<Rightarrow> bool" where
  "ecall_pair f i1 i2 \<longleftrightarrow> opcode i1 = RV32I rv_insn_addi \<and> opcode i2 = RV32I rv_insn_ecall \<and>
    rd i1 = rv_reg_a7 \<and> rs1 i1 = rv_reg_zero \<and> f = i1\<lparr>opcode := FUSE rv_insn_fuse6\<rparr>"

definition bne_pair :: "rv_insn_t \<Rightarrow> rv_insn_t \<Rightarrow> rv_insn_t \<Rightarrow> bool" where
  "bne_pair f i1 i2 \<longleftrightarrow> opcode i1 = RV32I rv_insn_addi \<and> opcode i2 = RV32I rv_insn_bne \<and>
    rd i1 \<noteq> rv_reg_zero \<and> rd i1 = rs1 i2 \<and> rs2 i2 = rv_reg_zero \<and>
    f = i1\<lparr>imm2 := imm i2, opcode := FUSE rv_insn_fuse12\<rparr>"

lemma take_run:
  assumes "n = 1 + length (takeWhile P rest)" "P ir"
  shows "\<forall>i\<in>set (ir # take (n - 1) rest). P i"
    "ir # take (n - 1) rest \<noteq> []" "length (ir # take (n - 1) rest) = n"
    "(ir # take (n - 1) rest) @ drop (n - 1) rest = ir # rest"
  using assms set_takeWhileD [of _ P rest] length_takeWhile_le [of P rest]
  by (auto simp flip: takeWhile_eq_take dropWhile_eq_drop)

lemma try_fuse_cases:
  assumes "n = 1 + length (takeWhile P rest)" "P ir" "(fop, P) \<in> set sequence_fusion"
    and "try_fuse_sequence alloc ir rest n fop = (f, rest')"
  shows "f = ir \<and> rest' = rest \<or>
    (\<exists>xs. xs \<noteq> [] \<and> xs @ rest' = ir # rest \<and> (\<forall>i\<in>set xs. P i) \<and> replaces f xs)"
proof (cases "n \<le> 1 \<or> n > 16 \<or> \<not> alloc ir")
  case True
  with assms(4) show ?thesis
    by (auto simp: try_fuse_sequence_def split: if_splits)
next
  case False
  let ?xs = "ir # take (n - 1) rest"
  have f: "f = ir\<lparr>fuse := map fuse_entry ?xs, opcode := FUSE fop, imm2 := of_nat n\<rparr>" "rest' = drop (n - 1) rest"
    using assms(4) False by (simp_all add: try_fuse_sequence_def)
  have "replaces f ?xs"
    by (rule sequence_replaces [OF assms(3)])
      (use take_run [OF assms(1, 2)] False in \<open>simp_all add: f(1) del: set_simps\<close>)
  with take_run [OF assms(1, 2)] f(2) show ?thesis
    by metis
qed

lemma sequence_simple: "(fop, P) \<in> set sequence_fusion \<Longrightarrow> P ir \<Longrightarrow> simple ir"
  by (auto simp: sequence_fusion_def simple_def is_shift_imm_def)

definition run_fusions :: "fuse_op set" where
  "run_fusions = {rv_insn_fuse1, rv_insn_fuse3, rv_insn_fuse4, rv_insn_fuse5, rv_insn_fuse7}"

text \<open>The arms of the two \<open>switch\<close>es, by what they do.\<close>

lemma fuse_lui_cases:
  assumes "fuse_lui alloc ir next rest = (f, rest')"
  shows "f = ir \<and> rest' = next # rest \<or>
    opcode next = RV32I rv_insn_add \<and> rest' = rest \<and> rd ir \<in> {rs2 next, rs1 next} \<and>
      f = ir\<lparr>opcode := FUSE rv_insn_fuse2, rs2 := rd next, rs1 := if rd ir = rs2 next then rs1 next else rs2 next\<rparr> \<or>
    opcode next = RV32I rv_insn_addi \<and> rest' = rest \<and> rd ir = rs1 next \<and> rd ir = rd next \<and>
      f = ir\<lparr>imm2 := imm next, opcode := FUSE rv_insn_fuse8\<rparr> \<or>
    opcode next = RV32I rv_insn_lw \<and> rest' = rest \<and> rd ir = rs1 next \<and>
      f = ir\<lparr>imm2 := imm next, rs2 := rd next, opcode := FUSE rv_insn_fuse9\<rparr> \<or>
    opcode next = RV32I rv_insn_sw \<and> rest' = rest \<and> rd ir = rs1 next \<and>
      f = ir\<lparr>imm2 := imm next, rs1 := rs2 next, opcode := FUSE rv_insn_fuse10\<rparr> \<or>
    try_fuse_sequence alloc ir (next # rest)
      (count_consecutive_insn (next # rest) (RV32I rv_insn_lui)) rv_insn_fuse1 = (f, rest')"
  using assms unfolding fuse_lui_def by (simp split: if_split_asm)

lemma fuse_at_arms:
  assumes "fuse_at alloc ir next rest = (f, rest')"
  obtains (keep) "f = ir" "rest' = next # rest"
    | (seq) P n fop where "n = 1 + length (takeWhile P (next # rest))" "P ir" "(fop, P) \<in> set sequence_fusion"
        "try_fuse_sequence alloc ir (next # rest) n fop = (f, rest')"
    | (pair) fop where "rest' = rest" "simple ir" "simple next" "replaces f [ir, next]"
        "opcode f = FUSE fop" "fop \<notin> run_fusions"
    | (leave) fop where "rest' = rest" "ecall_pair f ir next \<or> bne_pair f ir next"
        "opcode f = FUSE fop" "fop \<notin> run_fusions"
proof -
  have seq_insn: thesis if "(fop, \<lambda>i. opcode i = opcode ir) \<in> set sequence_fusion"
    "try_fuse_sequence alloc ir (next # rest) (count_consecutive_insn (next # rest) (opcode ir)) fop = (f, rest')" for fop
    using that by (intro seq [of _ "\<lambda>i. opcode i = opcode ir"]) (simp_all add: count_consecutive_insn_def)
  consider (lui) "opcode ir = RV32I rv_insn_lui" "fuse_lui alloc ir next rest = (f, rest')"
    | (lw) "opcode ir = RV32I rv_insn_lw" "fuse_lw alloc ir next rest = (f, rest')"
    | (addi) "opcode ir = RV32I rv_insn_addi" "fuse_addi alloc ir next rest = (f, rest')"
    | (sw) "opcode ir = RV32I rv_insn_sw" "try_fuse_sequence alloc ir (next # rest)
        (count_consecutive_insn (next # rest) (RV32I rv_insn_sw)) rv_insn_fuse3 = (f, rest')"
    | (shift) "is_shift_imm ir"
        "try_fuse_sequence alloc ir (next # rest) (count_consecutive_shift (next # rest)) rv_insn_fuse5 = (f, rest')"
    | (none) "f = ir" "rest' = next # rest"
    using assms by (auto simp: fuse_at_def split: if_splits)
  then show thesis
  proof cases
    case lui
    from fuse_lui_cases [OF lui(2)] show thesis
    proof (elim disjE conjE)
      assume add: "opcode next = RV32I rv_insn_add" "rest' = rest" "rd ir \<in> {rs2 next, rs1 next}"
        "f = ir\<lparr>opcode := FUSE rv_insn_fuse2, rs2 := rd next, rs1 := if rd ir = rs2 next then rs1 next else rs2 next\<rparr>"
      with lui_add_replaces [OF lui(1) add(1, 3)] show thesis
        by (intro pair [of rv_insn_fuse2]) (simp_all add: simple_def lui(1) run_fusions_def)
    next
      assume addi: "opcode next = RV32I rv_insn_addi" "rest' = rest" "rd ir = rs1 next" "rd ir = rd next"
        "f = ir\<lparr>imm2 := imm next, opcode := FUSE rv_insn_fuse8\<rparr>"
      with lui_addi_replaces [OF lui(1) addi(1, 3, 4)] show thesis
        by (intro pair [of rv_insn_fuse8]) (simp_all add: simple_def lui(1) run_fusions_def)
    next
      assume lw: "opcode next = RV32I rv_insn_lw" "rest' = rest" "rd ir = rs1 next"
        "f = ir\<lparr>imm2 := imm next, rs2 := rd next, opcode := FUSE rv_insn_fuse9\<rparr>"
      with lui_lw_replaces [OF lui(1) lw(1, 3)] show thesis
        by (intro pair [of rv_insn_fuse9]) (simp_all add: simple_def lui(1) run_fusions_def)
    next
      assume sw: "opcode next = RV32I rv_insn_sw" "rest' = rest" "rd ir = rs1 next"
        "f = ir\<lparr>imm2 := imm next, rs1 := rs2 next, opcode := FUSE rv_insn_fuse10\<rparr>"
      with lui_sw_replaces [OF lui(1) sw(1, 3)] show thesis
        by (intro pair [of rv_insn_fuse10]) (simp_all add: simple_def lui(1) run_fusions_def)
    next
      assume "try_fuse_sequence alloc ir (next # rest)
          (count_consecutive_insn (next # rest) (RV32I rv_insn_lui)) rv_insn_fuse1 = (f, rest')"
      then show thesis
        by (intro seq_insn [of rv_insn_fuse1]) (simp_all add: lui(1) sequence_fusion_def)
    qed (rule keep)
  next
    case lw
    from lw(2) have "opcode next = RV32I rv_insn_addi \<and> rest' = rest \<and> rs1 ir = rs1 next \<and> rs1 next = rd next \<and>
        f = ir\<lparr>imm2 := imm next, opcode := FUSE rv_insn_fuse11\<rparr> \<or>
      try_fuse_sequence alloc ir (next # rest)
        (count_consecutive_insn (next # rest) (RV32I rv_insn_lw)) rv_insn_fuse4 = (f, rest')"
      by (simp add: fuse_lw_def split: if_split_asm)
    then show thesis
    proof (elim disjE conjE)
      assume addi: "opcode next = RV32I rv_insn_addi" "rest' = rest" "rs1 ir = rs1 next" "rs1 next = rd next"
        "f = ir\<lparr>imm2 := imm next, opcode := FUSE rv_insn_fuse11\<rparr>"
      with lw_addi_replaces [OF lw(1) addi(1, 3, 4)] show thesis
        by (intro pair [of rv_insn_fuse11]) (simp_all add: simple_def lw(1) run_fusions_def)
    next
      assume "try_fuse_sequence alloc ir (next # rest)
        (count_consecutive_insn (next # rest) (RV32I rv_insn_lw)) rv_insn_fuse4 = (f, rest')"
      then show thesis
        by (intro seq_insn [of rv_insn_fuse4]) (simp_all add: lw(1) sequence_fusion_def)
    qed
  next
    case addi
    from addi have "rest' = rest \<and> ecall_pair f ir next \<or> rest' = rest \<and> bne_pair f ir next \<or>
      try_fuse_sequence alloc ir (next # rest)
        (count_consecutive_insn (next # rest) (RV32I rv_insn_addi)) rv_insn_fuse7 = (f, rest')"
      by (simp add: fuse_addi_def ecall_pair_def bne_pair_def split: if_split_asm)
    then show thesis
    proof (elim disjE conjE)
      assume "rest' = rest" "ecall_pair f ir next"
      then show thesis
        by (intro leave [of rv_insn_fuse6]) (simp_all add: ecall_pair_def run_fusions_def)
    next
      assume "rest' = rest" "bne_pair f ir next"
      then show thesis
        by (intro leave [of rv_insn_fuse12]) (auto simp: bne_pair_def run_fusions_def)
    next
      assume "try_fuse_sequence alloc ir (next # rest)
        (count_consecutive_insn (next # rest) (RV32I rv_insn_addi)) rv_insn_fuse7 = (f, rest')"
      then show thesis
        by (intro seq_insn [of rv_insn_fuse7]) (simp_all add: addi(1) sequence_fusion_def)
    qed
  next
    case sw
    then show thesis
      by (intro seq_insn [of rv_insn_fuse3]) (simp_all add: sequence_fusion_def)
  next
    case shift
    then show thesis
      by (intro seq [of _ is_shift_imm rv_insn_fuse5])
        (simp_all add: sequence_fusion_def count_consecutive_shift_def)
  qed (rule keep)
qed

lemma fuse_at_cases:
  assumes "fuse_at alloc ir next rest = (f, rest')"
  shows "f = ir \<and> rest' = next # rest \<or>
    (\<exists>xs. xs \<noteq> [] \<and> xs @ rest' = ir # next # rest \<and> (\<forall>i\<in>set xs. simple i) \<and> replaces f xs) \<or>
    rest' = rest \<and> (ecall_pair f ir next \<or> bne_pair f ir next)"
  using assms
proof (cases rule: fuse_at_arms)
  case (seq P n fop)
  then show ?thesis
    using try_fuse_cases [OF seq] sequence_simple [OF seq(3)] by blast
next
  case pair
  then show ?thesis
    by (intro disjI2 disjI1 exI [of _ "[ir, next]"]) simp
qed simp_all

text \<open>The two pairs behave as their instructions do; the branch is the last instruction of its block.\<close>

lemma ecall_pair_run:
  assumes "ecall_pair f i1 i2" "env_io env = with_mmu calls" "calm i1 rv"
  shows "run_insns env (f # fs) c p rv = run_insns env (i1 # i2 # rest) c p rv"
proof -
  have i1: "exec_insn (env\<lparr>has_next := True\<rparr>) i1 c p rv =
      Inr (advance (env\<lparr>has_next := True\<rparr>) (c + 1) (p + 4) ((effect i1 rv)\<lparr>PC := p\<rparr>))"
    using assms simple_exec [of i1 rv "env\<lparr>has_next := True\<rparr>" calls c p]
    by (simp add: simple_def ecall_pair_def effect_PC)
  have "effect i1 rv = set_X rv_reg_a7 (imm i1) rv"
    using assms(1, 3) by (simp add: ecall_pair_def effects calm_def rv_reg_zero_def)
  moreover define S where "S = sync_for_call False (c + 2) (p + 4) (effect i1 rv)"
  moreover have "run_insns env (i1 # i2 # rest) c p rv =
      obind (on_ecall (env_io env) S) (\<lambda>rv. Inr (Returned True, rv))"
    using i1 assms(1) by (cases "on_ecall (env_io env) S")
      (simp_all add: advance_def S_def ecall_pair_def exec_insn_def do_ecall_def RVOP_def sync_for_call_def
        set_cycle_def set_csr_def Let_def add.commute [of 2 c])
  moreover have "run_insns env (f # fs) c p rv = obind (on_ecall (env_io env) S) (\<lambda>rv. Inr (Returned True, rv))"
    using assms(1) calculation(1) by (cases "on_ecall (env_io env) S")
      (simp_all add: S_def ecall_pair_def exec_insn_def do_fuse6_def FUSED_def sync_for_call_def
        set_cycle_def set_csr_def set_X_def Let_def)
  ultimately show ?thesis by simp
qed

lemma bne_pair_run:
  assumes "bne_pair f i1 i2" "env_io env = with_mmu calls" "calm i1 rv" "unchained env"
  shows "run_insns env [f] c p rv = run_insns env [i1, i2] c p rv"
proof -
  have i1: "exec_insn (env\<lparr>has_next := True\<rparr>) i1 c p rv =
      Inr (advance (env\<lparr>has_next := True\<rparr>) (c + 1) (p + 4) ((effect i1 rv)\<lparr>PC := p\<rparr>))"
    using assms simple_exec [of i1 rv "env\<lparr>has_next := True\<rparr>" calls c p]
    by (simp add: simple_def bne_pair_def effect_PC)
  have i2: "exec_insn (env\<lparr>has_next := False\<rparr>) i2 (c + 1) (p + 4) (effect i1 rv) = Inr (
    if X (effect i1 rv) (rs1 i2) \<noteq> X (effect i1 rv) (rs2 i2)
    then stop_at (c + 2) (p + (4 + imm i2)) (set_branch_taken True ((effect i1 rv)\<lparr>PC := p + 4\<rparr>))
    else advance (env\<lparr>has_next := False\<rparr>) (c + 2) (p + 8) (set_branch_taken False ((effect i1 rv)\<lparr>PC := p + 4\<rparr>)))"
    using assms branch_exec [of "RV32I rv_insn_bne" "\<lambda>x y. x \<noteq> y" i2 "env\<lparr>has_next := False\<rparr>" "effect i1 rv" "c + 1" "p + 4"]
    by (simp add: bne_pair_def branch_table_def unchained_def calm_def add.assoc)
  have eff: "effect i1 rv = set_X (rs1 i2) (X rv (rs1 i1) + imm i1) rv" "X rv (rs2 i2) = 0" "rs2 i2 \<noteq> rs1 i2"
    using assms(1, 3) by (auto simp add: bne_pair_def effects calm_def rv_reg_zero_def)
  have "run_insns env [i1, i2] c p rv = Inr (if X rv (rs1 i1) + imm i1 \<noteq> 0
      then stop_at (c + 2) (p + (4 + imm i2)) (set_branch_taken True (effect i1 rv))
      else stop_at (c + 2) (p + 8) (set_branch_taken False (effect i1 rv)))"
    using i1 i2 by (simp add: advance_def stop_at_def eff set_cycle_def set_csr_def set_branch_taken_def set_glob_def)
  moreover have "run_insns env [f] c p rv = Inr (if X rv (rs1 i1) + imm i1 \<noteq> 0
      then stop_at (c + 2) (p + (4 + imm i2)) (set_branch_taken True (effect i1 rv))
      else stop_at (c + 2) (p + 8) (set_branch_taken False (effect i1 rv)))"
    using assms eff
    by (simp add: bne_pair_def exec_insn_def do_fuse12_def FUSED_def unchained_def follow_taken_def
        end_op_def stop_at_def Let_def set_cycle_def set_csr_def set_branch_taken_def set_glob_def set_X_def)
  ultimately show ?thesis by simp
qed

text \<open>Only the last instruction of a block can branch (\<open>block_translate\<close> stops there).\<close>

definition branches_last :: "rv_insn_t list \<Rightarrow> bool" where
  "branches_last irs \<longleftrightarrow> (\<forall>ir\<in>set (butlast irs). \<not> insn_is_branch (opcode ir))"

lemma branches_last_append: "branches_last (xs @ ys) \<Longrightarrow> branches_last ys"
  by (auto simp: branches_last_def butlast_append split: if_splits)

lemma match_pattern_Nil [simp]: "match_pattern alloc irs = [] \<longleftrightarrow> irs = []"
  by (induction alloc irs rule: match_pattern.induct) (auto split: prod.split)

lemma run_rest_cong:
  assumes "calm_run env (ir # irs) c p rv" "fs = [] \<longleftrightarrow> irs = []"
    and "\<And>c p rv. calm_run env irs c p rv \<Longrightarrow> run_rest env fs c p rv = run_rest env irs c p rv"
  shows "run_rest env (ir # fs) c p rv = run_rest env (ir # irs) c p rv"
proof (cases "irs = []")
  case False
  with assms show ?thesis
    by (auto simp: run_rest_def obind_def split: sum.split prod.split leave.split transfer.split)
qed (use assms(2) in simp)

lemma fuse_run:
  assumes "calm_run env irs c p rv" "env_io env = with_mmu calls" "unchained env" "branches_last irs"
  shows "run_rest env (match_pattern alloc irs) c p rv = run_rest env irs c p rv"
  using assms(1, 4)
proof (induction alloc irs arbitrary: c p rv rule: match_pattern.induct)
  case (3 alloc ir "next" rest)
  obtain f rest' where f: "fuse_at alloc ir next rest = (f, rest')"
    by (cases "fuse_at alloc ir next rest")
  have IH: "run_rest env (match_pattern alloc rest') c p rv = run_rest env rest' c p rv"
    if "calm_run env rest' c p rv" "branches_last rest'" for c p rv
    using 3(1) [OF f [symmetric] refl that] .
  show ?case
    using fuse_at_cases [OF f]
  proof (elim disjE exE conjE)
    assume keep: "f = ir" "rest' = next # rest"
    then show ?thesis
      using run_rest_cong [OF 3(2), of "match_pattern alloc rest'"] IH branches_last_append [of "[ir]"] 3(3) f
      by simp
  next
    fix xs assume xs: "xs \<noteq> []" "xs @ rest' = ir # next # rest" "\<forall>i\<in>set xs. simple i" "replaces f xs"
    let ?c = "c + of_nat (length xs)" and ?p = "p + 4 * of_nat (length xs)"
    note run = run_simple [OF assms(2) xs(3), of rest' c p rv, unfolded xs(2), OF 3(2)]
    have "run_rest env (f # match_pattern alloc rest') c p rv =
        run_rest env (match_pattern alloc rest') ?c ?p ((fold effect xs rv)\<lparr>PC := p\<rparr>)"
      using run assms(2) by (intro run_rest_advance replacesD [OF xs(4), of _ calls]) simp_all
    with run IH branches_last_append [of xs rest'] 3(3) xs(2) f show ?thesis
      by simp
  next
    assume "ecall_pair f ir next" "rest' = rest"
    with ecall_pair_run [OF _ assms(2)] 3(2) f show ?thesis
      by (simp add: run_rest_def del: run_insns.simps)
  next
    assume bne: "bne_pair f ir next" "rest' = rest"
    moreover from this 3(3) have "rest = []"
      by (auto simp: branches_last_def bne_pair_def split: if_splits)
    ultimately show ?thesis
      using bne_pair_run [OF _ assms(2) _ assms(3)] 3(2) f by (simp add: run_rest_def del: run_insns.simps)
  qed
qed simp_all

section \<open>No instruction is lost\<close>

text \<open>How many instructions of the original block an instruction stands for.\<close>

definition stands_for :: "rv_insn_t \<Rightarrow> nat" where
  "stands_for f = (case opcode f of FUSE op \<Rightarrow> if op \<in> run_fusions then length (fuse f) else 2 | _ \<Rightarrow> 1)"

definition well_fused :: "rv_insn_t \<Rightarrow> bool" where
  "well_fused f \<longleftrightarrow> opcode f \<in> FUSE ` run_fusions \<longrightarrow>
    (\<exists>es. fuse_entries f = Inr es \<and> length es = length (fuse f) \<and> 2 \<le> length es \<and> length es \<le> FUSE_MAX_ENTRIES)"

lemma try_fuse_accounts:
  assumes "try_fuse_sequence alloc ir rest n fop = (f, rest')" "n \<le> Suc (length rest)" "fop \<in> run_fusions"
    and "opcode ir \<notin> range FUSE"
  shows "stands_for f + length rest' = Suc (length rest) \<and> well_fused f \<and> set rest' \<subseteq> set rest"
  using assms set_drop_subset [of "n - 1" rest]
  by (auto simp: try_fuse_sequence_def stands_for_def well_fused_def fuse_entries_def small_counts
      split: if_splits rv_opcode.split)

lemma fuse_at_accounts:
  assumes "fuse_at alloc ir next rest = (f, rest')" "opcode ir \<notin> range FUSE"
  shows "stands_for f + length rest' = Suc (Suc (length rest)) \<and> well_fused f \<and> set rest' \<subseteq> set (next # rest)"
  using assms(1)
proof (cases rule: fuse_at_arms)
  case keep
  then show ?thesis
    using assms(2) by (auto simp: stands_for_def well_fused_def split: rv_opcode.split)
next
  case (seq P n fop)
  then have "n \<le> Suc (length (next # rest))" "fop \<in> run_fusions"
    using length_takeWhile_le [of P "next # rest"] by (auto simp: sequence_fusion_def run_fusions_def)
  from try_fuse_accounts [OF seq(4) this assms(2)] show ?thesis
    by simp
qed (auto simp: stands_for_def well_fused_def)

lemma match_pattern_accounts:
  assumes "\<forall>ir\<in>set irs. opcode ir \<notin> range FUSE"
  shows "sum_list (map stands_for (match_pattern alloc irs)) = length irs \<and>
    (\<forall>f\<in>set (match_pattern alloc irs). well_fused f)"
  using assms
proof (induction alloc irs rule: match_pattern.induct)
  case (2 alloc ir)
  then show ?case
    by (auto simp: stands_for_def well_fused_def split: rv_opcode.split)
next
  case (3 alloc ir "next" rest)
  obtain f rest' where f: "fuse_at alloc ir next rest = (f, rest')"
    by (cases "fuse_at alloc ir next rest")
  have acc: "stands_for f + length rest' = Suc (Suc (length rest))" "well_fused f" "set rest' \<subseteq> set (next # rest)"
    using fuse_at_accounts [OF f] 3(2) by auto
  then have "\<forall>ir\<in>set rest'. opcode ir \<notin> range FUSE"
    using 3(2) by (meson list.set_intros(2) subset_iff)
  with 3(1) [OF f [symmetric] refl] acc f show ?case
    by simp
qed simp

section \<open>Properties\<close>

text \<open>C17: Macro-operation fusion preserves the meaning of a block: on a block in which only the last
  instruction branches, run where its word accesses hit accessible RAM, nothing is pending and \<open>x0\<close> is
  zero, the rewritten block reaches the same outcome as the original one, the environment calls, the
  cycle counter and the program counter included, whatever slots the fusion pool grants.\<close>

theorem fusion_preserves_blocks:
  assumes "calm_run env irs c p rv" "env_io env = with_mmu calls" "unchained env" "branches_last irs"
  shows "run_insns env (match_pattern alloc irs) c p rv = run_insns env irs c p rv"
  using fuse_run [OF assms, of alloc] by (cases "irs = []") (simp_all add: run_rest_def)

theorem fusion_preserves_blocks_witness:
  "run_insns sample_env
     (match_pattern (\<lambda>_. True)
       [zero_insn\<lparr>opcode := RV32I rv_insn_lui, rd := 5, imm := 0\<rparr>,
        zero_insn\<lparr>opcode := RV32I rv_insn_addi, rd := 5, rs1 := 5, imm := 16\<rparr>,
        zero_insn\<lparr>opcode := RV32I rv_insn_addi, rd := 6, rs1 := 0, imm := 1\<rparr>,
        zero_insn\<lparr>opcode := RV32I rv_insn_addi, rd := 7, rs1 := 6, imm := 2\<rparr>]) 0 0 sample_hart =
   run_insns sample_env
       [zero_insn\<lparr>opcode := RV32I rv_insn_lui, rd := 5, imm := 0\<rparr>,
        zero_insn\<lparr>opcode := RV32I rv_insn_addi, rd := 5, rs1 := 5, imm := 16\<rparr>,
        zero_insn\<lparr>opcode := RV32I rv_insn_addi, rd := 6, rs1 := 0, imm := 1\<rparr>,
        zero_insn\<lparr>opcode := RV32I rv_insn_addi, rd := 7, rs1 := 6, imm := 2\<rparr>] 0 0 sample_hart"
  by (rule fusion_preserves_blocks [where calls = sample_calls])
    (simp_all add: calm_def bare_def branches_last_def unchained_def exec_insn_def do_lui_def do_addi_def
      imm_op_def RVOP_straight advance_def sample_csrs_def)

text \<open>C19: Fusion neither loses nor duplicates an instruction: the instructions of the rewritten block
  stand for exactly as many as the original block had, and every fused run has between two entries and
  the capacity of a pool slot, all of which its handler finds in its array.\<close>

theorem fusion_bounds:
  assumes "\<forall>ir\<in>set irs. opcode ir \<notin> range FUSE"
  shows "sum_list (map stands_for (match_pattern alloc irs)) = length irs \<and>
    (\<forall>f\<in>set (match_pattern alloc irs). opcode f \<in> FUSE ` run_fusions \<longrightarrow>
      (\<exists>es. fuse_entries f = Inr es \<and> length es = stands_for f \<and> 2 \<le> length es \<and> length es \<le> FUSE_MAX_ENTRIES))"
  using match_pattern_accounts [OF assms, of alloc]
  by (fastforce simp: well_fused_def stands_for_def)

theorem fusion_bounds_witness:
  "sum_list (map stands_for (match_pattern (\<lambda>_. True) (replicate 3 (zero_insn\<lparr>opcode := RV32I rv_insn_lui\<rparr>)))) = 3"
  using fusion_bounds [of "replicate 3 (zero_insn\<lparr>opcode := RV32I rv_insn_lui\<rparr>)" "\<lambda>_. True"]
  by auto

end
