(* ===== verification/RegFrame.thy ===== *)
theory RegFrame imports FuseProps begin

text \<open>
  Which integer registers an instruction can change when the block goes on behind it. The lemmas are
  stated once per shape of a handler body; \<open>exec_frame\<close> collects them for every instruction that
  does not branch. A memory access can run the guest's trap handler, so the environment is assumed
  to give the registers back as it got them.
\<close>

section \<open>Memory accesses keep the registers\<close>

definition traps_keep_X :: "riscv_io_t \<Rightarrow> bool" where
  "traps_keep_X io \<longleftrightarrow> (\<forall>rv rv'. on_trap io rv = Inr rv' \<longrightarrow> X rv' = X rv)"

lemma X_frames [simp]:
  "X (set_cause_and_tval cause tval rv) = X rv" "X (request_retranslation rv) = X rv"
  "X (pte_set a b rv) = X rv" "X (mark_accessed a rv) = X rv" "X (mark_dirty rw a rv) = X rv"
  "X (dtlb_populate v a l rv) = X rv" "X (itlb_populate v a l rv) = X rv"
  "X (set_branch_taken t rv) = X rv" "X (raise_flags fl rv) = X rv" "X (or_fcsr b rv) = X rv"
  "X (set_fflag sf rv) = X rv" "X (set_cycle c rv) = X rv"
  by (simp_all add: set_cause_and_tval_def request_retranslation_def pte_set_def mark_accessed_def
      mark_dirty_def dtlb_populate_def itlb_populate_def set_branch_taken_def raise_flags_def or_fcsr_def
      set_fflag_def Let_def)

lemma finish_translation_X: "finish_translation v rw l rv = (rv', pa) \<Longrightarrow> X rv' = X rv"
  by (auto simp: finish_translation_def Let_def split: prod.splits)

lemma dtlb_lookup_X: "dtlb_lookup rv v w = (pa, hit, rv') \<Longrightarrow> X rv' = X rv"
  by (auto simp: dtlb_lookup_def Let_def split: if_splits)

lemma fault_check_X:
  "mmu_fault_check io rv pte v bits = Inr (rv', ok) \<Longrightarrow> traps_keep_X io \<Longrightarrow> X rv' = X rv"
  by (auto simp: mmu_fault_check_def SET_CAUSE_AND_TVAL_THEN_TRAP_def obind_Inr_iff traps_keep_X_def
      split: option.splits if_splits)

lemma translate_X:
  "mmu_translate io rv v rw = Inr (rv', pa) \<Longrightarrow> traps_keep_X io \<Longrightarrow> X rv' = X rv"
  by (auto simp: mmu_translate_def Let_def obind_Inr_iff split: if_splits prod.splits bool.splits option.splits
      dest!: fault_check_X finish_translation_X dtlb_lookup_X)
    (metis X_frames(2) fault_check_X finish_translation_X)+

lemma access_X:
  assumes "traps_keep_X io"
  shows "mmu_read_w io rv a = Inr (rv', v) \<Longrightarrow> X rv' = X rv"
    and "mmu_read_s io rv a = Inr (rv', h) \<Longrightarrow> X rv' = X rv"
    and "mmu_read_b io rv a = Inr (rv', b) \<Longrightarrow> X rv' = X rv"
    and "mmu_write_w io rv a v = Inr rv' \<Longrightarrow> X rv' = X rv"
    and "mmu_write_s io rv a h = Inr rv' \<Longrightarrow> X rv' = X rv"
    and "mmu_write_b io rv a b = Inr rv' \<Longrightarrow> X rv' = X rv"
  by (auto simp: mmu_read_w_def mmu_read_s_def mmu_read_b_def mmu_write_w_def mmu_write_s_def mmu_write_b_def
      obind_Inr_iff split: if_splits dest!: translate_X [OF _ assms])

section \<open>Bodies\<close>

text \<open>A body that goes on behind its instruction leaves the program counter and every register outside
  \<open>D\<close> alone.\<close>

definition body_writes :: "(rv_insn_t \<Rightarrow> u8 \<Rightarrow> bool) \<Rightarrow> body_t \<Rightarrow> bool" where
  "body_writes D code \<longleftrightarrow> (\<forall>env calls ir c p rv fl q rv'.
    env_io env = with_mmu calls \<longrightarrow> traps_keep_X calls \<longrightarrow> code env ir c p rv = Inr (fl, q, rv') \<longrightarrow>
    fl \<noteq> Tail_call To_next \<and>
    (fl = Fall \<or> fl = Goto_nextop \<longrightarrow> q = p \<and> (\<forall>r. \<not> D ir r \<longrightarrow> X rv' r = X rv r)))"

lemma straight_writes:
  assumes "\<And>ir p rv r. \<not> D ir r \<Longrightarrow> X (f ir p rv) r = X rv r"
  shows "body_writes D (straight f)"
  using assms by (simp add: body_writes_def straight_def)

lemma straight_checked_writes:
  assumes "\<And>ir rv rv' r. f ir rv = Inr rv' \<Longrightarrow> \<not> D ir r \<Longrightarrow> X rv' r = X rv r"
  shows "body_writes D (straight_checked f)"
  using assms by (auto simp: body_writes_def straight_checked_def obind_Inr_iff)

lemma alu_writes: "body_writes (\<lambda>ir r. r = rd ir) (reg_op f)" "body_writes (\<lambda>ir r. r = rd ir) (imm_op f)"
  by (simp_all add: reg_op_def imm_op_def straight_writes)

lemma load_op_writes:
  assumes "\<And>io rv a rv' v. traps_keep_X io \<Longrightarrow> read (with_mmu io) rv a = Inr (rv', v) \<Longrightarrow> X rv' = X rv"
    and "\<And>ir v rv r. \<not> D ir r \<Longrightarrow> X (put ir v rv) r = X rv r"
  shows "body_writes D (load_op m cmp address read put)"
  using assms
  by (fastforce simp: body_writes_def load_op_def misalign_guard_def Let_def obind_Inr_iff split: if_splits)

lemma store_op_writes:
  assumes "\<And>io rv a v rv'. traps_keep_X io \<Longrightarrow> wr (with_mmu io) rv a v = Inr rv' \<Longrightarrow> X rv' = X rv"
  shows "body_writes (\<lambda>_ _. False) (store_op m cmp address val wr)"
  using assms
  by (fastforce simp: body_writes_def store_op_def misalign_guard_def Let_def obind_Inr_iff split: if_splits)

lemma link_X_other [simp]: "\<not> (r = d \<and> d \<noteq> 0) \<Longrightarrow> X (link_X d v rv) r = X rv r"
  by (auto simp: link_X_def)

lemma amo_op_writes: "body_writes (\<lambda>ir r. r = rd ir \<and> rd ir \<noteq> 0) (amo_op f)"
  unfolding body_writes_def
proof (intro allI impI)
  fix env calls ir c p rv fl q rv'
  assume io: "env_io env = with_mmu calls" "traps_keep_X calls" and run: "amo_op f env ir c p rv = Inr (fl, q, rv')"
  show "fl \<noteq> Tail_call To_next \<and>
    (fl = Fall \<or> fl = Goto_nextop \<longrightarrow> q = p \<and> (\<forall>r. \<not> (r = rd ir \<and> rd ir \<noteq> 0) \<longrightarrow> X rv' r = X rv r))"
  proof (cases "misaligned 3 (X rv (rs1 ir)) rv")
    case True
    with run show ?thesis
      by (auto simp: amo_op_def misalign_guard_def Let_def obind_Inr_iff)
  next
    case False
    with run io(1) obtain rv1 v where "mmu_read_w calls rv (X rv (rs1 ir)) = Inr (rv1, v)"
      "mmu_write_w calls (link_X (rd ir) v rv1) (X rv (rs1 ir)) (f v (X rv1 (rs2 ir))) = Inr rv'" "fl = Fall" "q = p"
      by (auto simp: amo_op_def misalign_guard_def Let_def obind_Inr_iff)
    with access_X(1, 4) [OF io(2)] show ?thesis
      by simp
  qed
qed

lemma fp_writes:
  "body_writes (\<lambda>_ _. False) (fp_round f)"
  "body_writes (\<lambda>ir r. r = rd ir \<and> rd ir \<noteq> 0) (fp_to_int g)"
  "body_writes (\<lambda>ir r. r = rd ir \<and> rd ir \<noteq> 0) (fp_compare h)"
  "body_writes (\<lambda>_ _. False) (fp_select lt neg)"
  by (auto simp: body_writes_def fp_round_def fp_to_int_def fp_compare_def fp_select_def Let_def obind_Inr_iff
      set_rounding_mode_def split: prod.splits option.splits if_splits)

text \<open>Bodies that end the block or run in the environment.\<close>

lemma leaving_writes:
  "body_writes D (BRANCH_FUNC u)" "body_writes D (cbranch v)"
  "body_writes D (\<lambda>env ir c p rv. follow_taken env (g ir p) (h ir p rv))"
  "body_writes D (\<lambda>env ir c p rv. Inr (Goto_end_op, q p, k ir rv))"
  "body_writes D (\<lambda>env ir c p rv. Inr (Return_value b, q p, k2 ir c p rv))"
  "body_writes D (\<lambda>env ir c p rv. obind (call env c p rv) (\<lambda>rv. Inr (Return_value b, p, rv)))"
  "body_writes D (\<lambda>env ir c p rv. lookup_branch_history env (g2 ir p rv) e (h ir p rv))"
  by (auto simp: body_writes_def BRANCH_FUNC_def cbranch_def follow_taken_def follow_def lookup_branch_history_def
      Let_def obind_Inr_iff set_branch_taken_def split: if_splits)

lemma csr_parts_X:
  "X (csr_store r v rv) = X rv" "csr_get_ptr n rv = (rv', c) \<Longrightarrow> X rv' = X rv"
  by (cases r; simp) (auto simp: csr_get_ptr_def update_time_def Let_def)

lemma csr_access_X [simp]:
  "X (fst (csr_csrrw n v c rv)) = X rv" "X (fst (csr_csrrs n v c rv)) = X rv" "X (fst (csr_csrrc n v c rv)) = X rv"
proof -
  have modify: "X (csr_modify f r rv) = X rv" for f r rv
    by (simp add: csr_modify_def csr_parts_X Let_def)
  have sync: "X (csr_sync_cycle n c rv) = X rv"
    by (simp add: csr_sync_cycle_def)
  obtain rv1 ref where "csr_get_ptr n (csr_sync_cycle n c rv) = (rv1, ref)"
    by fastforce
  with csr_parts_X(2) [OF this] sync
  show "X (fst (csr_csrrw n v c rv)) = X rv" "X (fst (csr_csrrs n v c rv)) = X rv" "X (fst (csr_csrrc n v c rv)) = X rv"
    by (simp_all add: csr_csrrw_def csr_csrrs_def csr_csrrc_def modify Let_def split: option.split)
qed

lemma csr_op_writes:
  assumes "\<And>n v c rv. X (fst (access n v c rv)) = X rv"
  shows "body_writes (\<lambda>ir r. r = rd ir \<and> rd ir \<noteq> 0) (csr_op access opnd)"
  unfolding body_writes_def csr_op_def
proof (intro allI impI)
  fix env :: env_t and calls ir c p rv fl q rv'
  assume *: "(let (rv, tmp) = access (imm ir) (opnd ir rv) c rv
     in Inr (Fall, p, set_X (rd ir) (if rd ir \<noteq> 0 then tmp else X rv (rd ir)) rv)) = Inr (fl, q, rv')"
  show "fl \<noteq> Tail_call To_next \<and>
    (fl = Fall \<or> fl = Goto_nextop \<longrightarrow> q = p \<and> (\<forall>r. \<not> (r = rd ir \<and> rd ir \<noteq> 0) \<longrightarrow> X rv' r = X rv r))"
    using * assms [of "imm ir" "opnd ir rv" c rv] by (auto split: prod.splits if_splits)
qed

section \<open>Handlers\<close>

definition frame :: "(rv_insn_t \<Rightarrow> u8 \<Rightarrow> bool) \<Rightarrow> rv_opcode \<Rightarrow> handler_t \<Rightarrow> bool" where
  "frame D inst h \<longleftrightarrow> (\<forall>env calls ir c p rv c' p' rv'.
    env_io env = with_mmu calls \<longrightarrow> traps_keep_X calls \<longrightarrow>
    h env ir c p rv = Inr (Continue To_next c' p', rv') \<longrightarrow>
    c' = c + 1 \<and> p' = p + insn_len inst \<and> \<not> need_clear_block_map (glob rv') \<and>
    (\<forall>r. \<not> D ir r \<longrightarrow> X rv' r = X rv r))"

lemma RVOP_frame:
  assumes "body_writes D code"
  shows "frame D inst (RVOP inst code)"
  unfolding frame_def
proof (intro allI impI)
  fix env calls ir c p rv c' p' rv'
  assume io: "env_io env = with_mmu calls" "traps_keep_X calls"
    and run: "RVOP inst code env ir c p rv = Inr (Continue To_next c' p', rv')"
  from run obtain fl q rv1 where code: "code env ir (c + 1) p (rv\<lparr>PC := p\<rparr>) = Inr (fl, q, rv1)"
    by (cases "code env ir (c + 1) p (rv\<lparr>PC := p\<rparr>)") (auto simp: RVOP_def Let_def)
  note writes = assms [unfolded body_writes_def, rule_format, OF io code]
  from run writes show "c' = c + 1 \<and> p' = p + insn_len inst \<and> \<not> need_clear_block_map (glob rv') \<and>
    (\<forall>r. \<not> D ir r \<longrightarrow> X rv' r = X rv r)"
    by (cases fl) (auto simp: RVOP_def Let_def code next_or_stop_def signal_taken_def end_op_def split: if_splits)
qed

lemma frame_mono: "frame D inst h \<Longrightarrow> (\<And>ir r. D ir r \<Longrightarrow> E ir r) \<Longrightarrow> frame E inst h"
  unfolding frame_def by blast

text \<open>The register an instruction writes, if it writes one.\<close>

fun dest :: "rv_opcode \<Rightarrow> rv_insn_t \<Rightarrow> u8 option" where
  "dest (RV32I op) ir =
    (if op = rv_insn_nop then Some 0
     else if op \<in> {rv_insn_beq, rv_insn_bne, rv_insn_blt, rv_insn_bge, rv_insn_bltu, rv_insn_bgeu,
       rv_insn_sb, rv_insn_sh, rv_insn_sw, rv_insn_fence, rv_insn_ecall, rv_insn_ebreak} then None
     else Some (rd ir))"
| "dest (RV32F op) ir =
    (if op \<in> {rv_insn_fcvtws, rv_insn_fcvtwus, rv_insn_fmvxw, rv_insn_feqs, rv_insn_flts, rv_insn_fles,
       rv_insn_fclasss} \<and> rd ir \<noteq> 0 then Some (rd ir) else None)"
| "dest (RV32A op) ir = (if rd ir \<noteq> 0 then Some (rd ir) else None)"
| "dest (ZICSR op) ir = (if rd ir \<noteq> 0 then Some (rd ir) else None)"
| "dest (RV32C op) ir =
    (if op \<in> {rv_insn_cjal, rv_insn_cjalr} then Some rv_reg_ra
     else if op \<in> {rv_insn_csw, rv_insn_cswsp, rv_insn_cnop, rv_insn_cj, rv_insn_cjr, rv_insn_cbeqz,
       rv_insn_cbnez, rv_insn_cebreak} then None
     else if op \<in> {rv_insn_csrli, rv_insn_csrai, rv_insn_candi} then Some (rs1 ir)
     else Some (rd ir))"
| "dest (PRIV op) ir = None"
| "dest (ZIFENCEI op) ir = None"
| "dest (RV32FC op) ir = None"
| "dest inst ir = Some (rd ir)"

lemma body_mono: "body_writes D code \<Longrightarrow> (\<And>ir r. D ir r \<Longrightarrow> E ir r) \<Longrightarrow> body_writes E code"
  unfolding body_writes_def by blast

lemma lr_sc_writes:
  "body_writes (\<lambda>ir r. r = rd ir \<and> rd ir \<noteq> 0) (\<lambda>env ir cycle pcv rv.
    let addr = X rv (rs1 ir)
    in misalign_guard 3 LOAD_MISALIGNED False addr
         (\<lambda>rv. obind (mem_read_w (env_io env) rv addr) (\<lambda>(rv, v).
            Inr (Fall, pcv, (link_X (rd ir) v rv)\<lparr>lr_addr := addr, lr_value := v, lr_valid := True\<rparr>)))
         env cycle pcv rv)"
  "body_writes (\<lambda>ir r. r = rd ir \<and> rd ir \<noteq> 0) (\<lambda>env ir cycle pcv rv.
    let addr = X rv (rs1 ir)
    in misalign_guard 3 STORE_MISALIGNED False addr
         (\<lambda>rv. obind
            (if lr_valid rv \<and> lr_addr rv AND NOT 3 = addr AND NOT 3
             then obind (mem_write_w (env_io env) rv addr (X rv (rs2 ir)))
                    (\<lambda>rv. Inr (link_X (rd ir) 0 rv))
             else Inr (link_X (rd ir) 1 rv))
            (\<lambda>rv. Inr (Fall, pcv, rv\<lparr>lr_valid := False\<rparr>)))
         env cycle pcv rv)"
  by (fastforce simp: body_writes_def misalign_guard_def Let_def obind_Inr_iff
      dest: access_X(1, 4) split: if_splits)+

lemma f_op_writes: "body_writes D (f_op f)"
  by (simp add: f_op_def straight_writes)

lemmas body_frames = f_op_writes
  straight_writes straight_checked_writes alu_writes [THEN body_mono] load_op_writes
  store_op_writes [THEN body_mono] fp_writes [THEN body_mono] leaving_writes csr_op_writes [THEN body_mono]

lemma checked_X:
  "shift_func ir rv = Inr rv' \<Longrightarrow> rd ir \<noteq> r \<Longrightarrow> X rv' r = X rv r"
  by (auto simp: shift_func_def split: option.splits if_splits)

lemma frame_rv32i: "frame (\<lambda>ir r. dest (RV32I i) ir = Some r) (RV32I i) (dispatch_rv32i i)"
  by (cases i; simp add: handler_defs; rule RVOP_frame; rule body_frames;
    (auto simp: obind_Inr_iff Let_def dest: access_X checked_X split: if_splits; fail))

lemma frame_priv: "frame (\<lambda>ir r. dest (PRIV i) ir = Some r) (PRIV i) (dispatch_priv i)"
  by (cases i; simp add: handler_defs; rule RVOP_frame; rule body_frames;
    (auto simp: obind_Inr_iff Let_def dest: access_X checked_X split: if_splits; fail))

lemma frame_zifencei: "frame (\<lambda>ir r. dest (ZIFENCEI i) ir = Some r) (ZIFENCEI i) (dispatch_zifencei i)"
  by (cases i; simp add: handler_defs; rule RVOP_frame; rule body_frames;
    (auto simp: obind_Inr_iff Let_def dest: access_X checked_X split: if_splits; fail))

lemma frame_zicsr: "frame (\<lambda>ir r. dest (ZICSR i) ir = Some r) (ZICSR i) (dispatch_zicsr i)"
  by (cases i; simp add: handler_defs; rule RVOP_frame; rule body_frames;
    (auto simp: obind_Inr_iff Let_def dest: access_X checked_X split: if_splits; fail))

lemma frame_zba: "frame (\<lambda>ir r. dest (ZBA i) ir = Some r) (ZBA i) (dispatch_zba i)"
  by (cases i; simp add: handler_defs; rule RVOP_frame; rule body_frames;
    (auto simp: obind_Inr_iff Let_def dest: access_X checked_X split: if_splits; fail))

lemma frame_zbb: "frame (\<lambda>ir r. dest (ZBB i) ir = Some r) (ZBB i) (dispatch_zbb i)"
  by (cases i; simp add: handler_defs; rule RVOP_frame; rule body_frames;
    (auto simp: obind_Inr_iff Let_def dest: access_X checked_X split: if_splits; fail))

lemma frame_zbc: "frame (\<lambda>ir r. dest (ZBC i) ir = Some r) (ZBC i) (dispatch_zbc i)"
  by (cases i; simp add: handler_defs; rule RVOP_frame; rule body_frames;
    (auto simp: obind_Inr_iff Let_def dest: access_X checked_X split: if_splits; fail))

lemma frame_zbs: "frame (\<lambda>ir r. dest (ZBS i) ir = Some r) (ZBS i) (dispatch_zbs i)"
  by (cases i; simp add: handler_defs; rule RVOP_frame; rule body_frames;
    (auto simp: obind_Inr_iff Let_def dest: access_X checked_X split: if_splits; fail))

lemma frame_rv32m: "frame (\<lambda>ir r. dest (RV32M i) ir = Some r) (RV32M i) (dispatch_rv32m i)"
  by (cases i; simp add: handler_defs; rule RVOP_frame; rule body_frames;
    (auto simp: obind_Inr_iff Let_def dest: access_X checked_X split: if_splits; fail))

lemma frame_lr_sc:
  "frame (\<lambda>ir r. r = rd ir \<and> rd ir \<noteq> 0) (RV32A rv_insn_lrw) do_lrw"
  "frame (\<lambda>ir r. r = rd ir \<and> rd ir \<noteq> 0) (RV32A rv_insn_scw) do_scw"
  unfolding do_lrw_def do_scw_def by (rule RVOP_frame, rule lr_sc_writes)+

lemma frame_rv32a: "frame (\<lambda>ir r. dest (RV32A i) ir = Some r) (RV32A i) (dispatch_rv32a i)"
proof -
  have amo: "frame (\<lambda>ir r. dest (RV32A i) ir = Some r) (RV32A i) (RVOP (RV32A i) (amo_op f))" for f
    by (rule RVOP_frame, rule body_mono [OF amo_op_writes]) simp
  show ?thesis
    using amo frame_lr_sc [THEN frame_mono, of "\<lambda>ir r. dest (RV32A i) ir = Some r"]
    by (cases i) (simp_all add: do_amoswapw_def do_amoaddw_def do_amoxorw_def do_amoandw_def do_amoorw_def
      do_amominw_def do_amomaxw_def do_amominuw_def do_amomaxuw_def)
qed

lemma frame_rv32f: "frame (\<lambda>ir r. dest (RV32F i) ir = Some r) (RV32F i) (dispatch_rv32f i)"
  by (cases i; simp add: handler_defs; rule RVOP_frame; rule body_frames;
    (auto simp: obind_Inr_iff Let_def dest: access_X checked_X split: if_splits; fail))

lemma frame_rv32c: "frame (\<lambda>ir r. dest (RV32C i) ir = Some r) (RV32C i) (dispatch_rv32c i)"
  by (cases i; simp add: handler_defs; rule RVOP_frame; rule body_frames;
    (auto simp: obind_Inr_iff Let_def dest: access_X checked_X split: if_splits; fail))

lemma frame_rv32fc: "frame (\<lambda>ir r. dest (RV32FC i) ir = Some r) (RV32FC i) (dispatch_rv32fc i)"
  by (cases i; simp add: handler_defs; rule RVOP_frame; rule body_frames;
    (auto simp: obind_Inr_iff Let_def dest: access_X checked_X split: if_splits; fail))


section \<open>Every instruction\<close>

lemma exec_frame:
  assumes "exec_insn env ir c p rv = Inr (Continue To_next c' p', rv')"
    and "opcode ir \<notin> range FUSE" "env_io env = with_mmu calls" "traps_keep_X calls"
  shows "c' = c + 1 \<and> p' = p + insn_len (opcode ir) \<and> \<not> need_clear_block_map (glob rv') \<and>
    (\<forall>r. dest (opcode ir) ir \<noteq> Some r \<longrightarrow> X rv' r = X rv r)"
proof -
  have "frame (\<lambda>ir r. dest inst ir = Some r) inst (dispatch_table inst)" if "inst \<notin> range FUSE" for inst
    using that frame_rv32i frame_priv frame_zifencei frame_zicsr frame_zba frame_zbb frame_zbc frame_zbs
      frame_rv32m frame_rv32a frame_rv32f frame_rv32c frame_rv32fc
    by (cases inst) simp_all
  from this [OF assms(2)] assms(1, 3, 4) show ?thesis
    unfolding frame_def exec_insn_def by blast
qed

section \<open>Properties\<close>

text \<open>C20: An instruction that lets the block go on changes no integer register but the one it names as its
  destination, adds its own length to the program counter and counts one cycle; stores, fences and the
  floating-point instructions that stay in the F registers change none. The guest's trap handler is
  assumed to give the registers back.\<close>

theorem instructions_write_one_register:
  assumes "exec_insn env ir c p rv = Inr (Continue To_next c' p', rv')"
    and "opcode ir \<notin> range FUSE" "env_io env = with_mmu calls" "traps_keep_X calls"
  shows "c' = c + 1 \<and> p' = p + insn_len (opcode ir) \<and> (\<forall>r. dest (opcode ir) ir \<noteq> Some r \<longrightarrow> X rv' r = X rv r)"
  using exec_frame [OF assms] by blast

theorem instructions_write_one_register_witness:
  "\<exists>rv. exec_insn sample_env (zero_insn\<lparr>opcode := RV32I rv_insn_lw, rd := 7, rs1 := 5\<rparr>) 0 0 (set_X 5 16 sample_hart) =
      Inr (Continue To_next 1 4, rv) \<and> X rv 5 = 16"
proof -
  let ?ir = "zero_insn\<lparr>opcode := RV32I rv_insn_lw, rd := 7, rs1 := 5\<rparr>" and ?rv = "set_X 5 16 sample_hart"
  have "rs1_imm ?ir ?rv = 16"
    by (simp add: rs1_imm_def zero_insn_def)
  then have "exec_insn sample_env ?ir 0 0 ?rv = Inr (Continue To_next 1 4,
      set_X 7 (memory_read_w (ram (attr ?rv)) 16) (?rv\<lparr>PC := 0\<rparr>))"
    using load_exec [of "RV32I rv_insn_lw" 4 3 rs1_imm memory_read_w ?ir sample_env sample_calls ?rv 0 0] sample_accessible
    by (simp add: load_table_def advance_def)
  with instructions_write_one_register [OF this, of sample_calls] show ?thesis
    by (simp add: traps_keep_X_def image_iff)
qed

end
