(* ===== verification/ConstProps.thy ===== *)
theory ConstProps imports ConstOpt RegFrame begin

text \<open>
  Soundness of the constant optimisation: the table of constants describes the registers at every
  point of the block, so that the rewritten instructions do what the original ones did.
\<close>

section \<open>The table describes the registers\<close>

definition agrees :: "constopt_info_t \<Rightarrow> riscv_t \<Rightarrow> bool" where
  "agrees info rv \<longleftrightarrow> (\<forall>r. is_constant info r \<longrightarrow> X rv r = const_val info r) \<and>
    (is_constant info 0 \<longrightarrow> const_val info 0 = 0)"

text \<open>Instructions as the decoder delivers them: \<open>x0\<close> is a destination of loads only (other writes to it
  are decoded as no-ops), and a branch has no destination. \<open>SC.W\<close> is left out: the pass keeps what it
  knew of its destination.\<close>

definition conditional_branches :: "rv32i_op set" where
  "conditional_branches = {rv_insn_beq, rv_insn_bne, rv_insn_blt, rv_insn_bge, rv_insn_bltu, rv_insn_bgeu}"

definition plain :: "rv_insn_t \<Rightarrow> bool" where
  "plain ir \<longleftrightarrow> opcode ir \<notin> range FUSE \<and> opcode ir \<noteq> RV32A rv_insn_scw \<and>
    (dest (opcode ir) ir = Some 0 \<longrightarrow> opcode ir \<in>
      RV32I ` {rv_insn_nop, rv_insn_lb, rv_insn_lh, rv_insn_lw, rv_insn_lbu, rv_insn_lhu, rv_insn_jal, rv_insn_jalr} \<union>
      RV32C ` {rv_insn_clw, rv_insn_clwsp}) \<and>
    (opcode ir \<in> RV32I ` conditional_branches \<longrightarrow> rd ir = 0)"

section \<open>What one optimisation does\<close>

text \<open>Either the instruction stays and its destination is forgotten, or both instructions put the same
  known value into a register.\<close>

definition stays :: "rv_insn_t \<Rightarrow> constopt_info_t \<Rightarrow> rv_insn_t \<Rightarrow> constopt_info_t \<Rightarrow> bool" where
  "stays ir info ir' info' \<longleftrightarrow> ir' = ir \<and> (\<forall>r. is_constant info' r \<longrightarrow>
    is_constant info r \<and> const_val info' r = const_val info r \<and> dest (opcode ir) ir \<noteq> Some r)"

definition put_reg :: "u32 \<Rightarrow> u8 \<Rightarrow> u32 \<Rightarrow> env_t \<Rightarrow> u64 \<Rightarrow> u32 \<Rightarrow> riscv_t \<Rightarrow> (leave \<times> riscv_t) outcome" where
  "put_reg len d v env c p rv =
    (let rv = set_X d v (rv\<lparr>PC := p\<rparr>)
     in Inr (if need_handle_signal (glob rv) then signal_taken rv else next_or_stop env (c + 1) (p + len) rv))"

definition puts :: "rv_insn_t \<Rightarrow> constopt_info_t \<Rightarrow> rv_insn_t \<Rightarrow> constopt_info_t \<Rightarrow> u32 \<Rightarrow> riscv_t \<Rightarrow> bool" where
  "puts ir info ir' info' p rv \<longleftrightarrow> (\<exists>d v.
    (\<forall>env c. exec_insn env ir c p rv = put_reg (insn_len (opcode ir)) d v env c p rv) \<and>
    (\<forall>env c. exec_insn env ir' c p rv = put_reg (insn_len (opcode ir)) d v env c p rv) \<and>
    (\<forall>r. is_constant info' r \<longrightarrow> (r = d \<or> is_constant info r) \<and>
      const_val info' r = (if r = d then v else const_val info r)) \<and> (d = 0 \<longrightarrow> v = 0))"

lemma RVOP_puts:
  assumes "f ir p (rv\<lparr>PC := p\<rparr>) = set_X d v (rv\<lparr>PC := p\<rparr>)"
  shows "RVOP inst (straight f) env ir c p rv = put_reg (insn_len inst) d v env c p rv"
  by (simp add: RVOP_def straight_def put_reg_def assms)

lemma RVOP_puts_checked:
  assumes "f ir (rv\<lparr>PC := p\<rparr>) = Inr (set_X d v (rv\<lparr>PC := p\<rparr>))"
  shows "RVOP inst (straight_checked f) env ir c p rv = put_reg (insn_len inst) d v env c p rv"
  by (simp add: RVOP_def straight_checked_def put_reg_def assms)

definition step_sound :: "rv_insn_t \<Rightarrow> constopt_info_t \<Rightarrow> rv_insn_t \<Rightarrow> constopt_info_t \<Rightarrow> u32 \<Rightarrow> riscv_t \<Rightarrow> bool" where
  "step_sound ir info ir' info' p rv \<longleftrightarrow> insn_len (opcode ir') = insn_len (opcode ir) \<and>
    (stays ir info ir' info' \<or> puts ir info ir' info' p rv)"

lemma lui_puts:
  "opcode ir = RV32I rv_insn_lui \<Longrightarrow> exec_insn env ir c p rv = put_reg 4 (rd ir) (imm ir) env c p rv"
  "opcode ir = RV32C rv_insn_clui \<Longrightarrow> exec_insn env ir c p rv = put_reg 2 (rd ir) (imm ir) env c p rv"
  by (simp_all add: exec_insn_def do_lui_def do_clui_def RVOP_puts)

text \<open>The shapes: an instruction that puts a value which the pass knows, and one it does not know.\<close>

lemma becomes_lui_sound:
  assumes "\<And>env c. exec_insn env ir c p rv = put_reg 4 (rd ir) v env c p rv" "insn_len (opcode ir) = 4" "rd ir \<noteq> 0"
    and "becomes_lui v ir info = Inr (ir', info')"
  shows "step_sound ir info ir' info' p rv"
proof -
  have "puts ir info ir' info' p rv"
    unfolding puts_def
    by (rule exI [of _ "rd ir"], rule exI [of _ v])
      (use assms in \<open>auto simp: becomes_lui_def lui_puts learn_def\<close>)
  with assms show ?thesis
    by (auto simp: step_sound_def becomes_lui_def)
qed

lemma becomes_clui_sound:
  assumes "\<And>env c. exec_insn env ir c p rv = put_reg 2 d v env c p rv" "insn_len (opcode ir) = 2" "d \<noteq> 0"
    and "becomes_clui d v ir info = Inr (ir', info')"
  shows "step_sound ir info ir' info' p rv"
proof -
  have "puts ir info ir' info' p rv"
    unfolding puts_def
    by (rule exI [of _ d], rule exI [of _ v])
      (use assms in \<open>auto simp: becomes_clui_def lui_puts learn_def\<close>)
  with assms show ?thesis
    by (auto simp: step_sound_def becomes_clui_def)
qed

lemma stays_sound: "stays ir info ir info' \<Longrightarrow> step_sound ir info ir info' p rv"
  by (simp add: step_sound_def)

lemma forget_stays:
  "forget ir info = Inr (ir', info') \<Longrightarrow> dest (opcode ir) ir \<in> {Some (rd ir), None} \<Longrightarrow> stays ir info ir' info'"
  "forget_nonzero ir info = Inr (ir', info') \<Longrightarrow> dest (opcode ir) ir = (if rd ir \<noteq> 0 then Some (rd ir) else None)
    \<Longrightarrow> stays ir info ir' info'"
  "skip ir info = Inr (ir', info') \<Longrightarrow> dest (opcode ir) ir = None \<Longrightarrow> stays ir info ir' info'"
  by (auto simp: forget_def forget_nonzero_def skip_def stays_def drop_reg_def split: if_splits)

lemma fold_imm_sound:
  assumes "fold_imm f ir info = Inr (ir', info')" "agrees info rv" "rd ir \<noteq> 0"
    and "insn_len (opcode ir) = 4" "dest (opcode ir) ir = Some (rd ir)"
    and "\<And>env c. exec_insn env ir c p rv = put_reg 4 (rd ir) (f (imm ir) (X rv (rs1 ir))) env c p rv"
  shows "step_sound ir info ir' info' p rv"
proof (cases "is_constant info (rs1 ir)")
  case True
  with assms show ?thesis
    by (intro becomes_lui_sound [of ir p rv "f (imm ir) (const_val info (rs1 ir))"])
      (simp_all add: fold_imm_def agrees_def)
next
  case False
  with assms(1, 5) show ?thesis
    by (auto simp: fold_imm_def step_sound_def dest: forget_stays(1)) (simp add: forget_def)
qed

lemma fold_reg_sound:
  assumes "fold_reg f ir info = Inr (ir', info')" "agrees info rv" "rd ir \<noteq> 0"
    and "insn_len (opcode ir) = 4" "dest (opcode ir) ir = Some (rd ir)"
    and "\<And>env c. exec_insn env ir c p rv = put_reg 4 (rd ir) (f (X rv (rs1 ir)) (X rv (rs2 ir))) env c p rv"
  shows "step_sound ir info ir' info' p rv"
proof (cases "is_constant info (rs1 ir) \<and> is_constant info (rs2 ir)")
  case True
  with assms show ?thesis
    by (intro becomes_lui_sound [of ir p rv "f (const_val info (rs1 ir)) (const_val info (rs2 ir))"])
      (simp_all add: fold_reg_def agrees_def)
next
  case False
  with assms(1, 5) show ?thesis
    by (auto simp: fold_reg_def step_sound_def dest: forget_stays(1)) (simp_all add: forget_def)
qed

lemma fold_creg_sound:
  assumes "fold_creg f ir info = Inr (ir', info')" "agrees info rv" "rd ir \<noteq> 0"
    and "insn_len (opcode ir) = 2" "dest (opcode ir) ir = Some (rd ir)"
    and "\<And>env c. exec_insn env ir c p rv = put_reg 2 (rd ir) (f (X rv (rs1 ir)) (X rv (rs2 ir))) env c p rv"
  shows "step_sound ir info ir' info' p rv"
proof (cases "is_constant info (rs1 ir) \<and> is_constant info (rs2 ir)")
  case True
  with assms show ?thesis
    by (intro becomes_clui_sound [of ir p rv "rd ir" "f (const_val info (rs1 ir)) (const_val info (rs2 ir))"])
      (simp_all add: fold_creg_def agrees_def)
next
  case False
  with assms(1, 5) show ?thesis
    by (auto simp: fold_creg_def step_sound_def dest: forget_stays(1)) (simp_all add: forget_def)
qed

lemmas constopt_defs =
  constopt_nop_def constopt_lui_def constopt_auipc_def constopt_jal_def constopt_jalr_def constopt_beq_def
  constopt_bne_def constopt_blt_def constopt_bge_def constopt_bltu_def constopt_bgeu_def constopt_lb_def
  constopt_lh_def constopt_lw_def constopt_lbu_def constopt_lhu_def constopt_sb_def constopt_sh_def
  constopt_sw_def constopt_addi_def constopt_slti_def constopt_sltiu_def constopt_xori_def constopt_ori_def
  constopt_andi_def constopt_slli_def constopt_srli_def constopt_srai_def constopt_add_def constopt_sub_def
  constopt_sll_def constopt_slt_def constopt_sltu_def constopt_xor_def constopt_srl_def constopt_sra_def
  constopt_or_def constopt_and_def constopt_fence_def constopt_ecall_def constopt_ebreak_def constopt_wfi_def
  constopt_uret_def constopt_sret_def constopt_hret_def constopt_mret_def constopt_sfencevma_def
  constopt_fencei_def constopt_csrrw_def constopt_csrrs_def constopt_csrrc_def constopt_csrrwi_def
  constopt_csrrsi_def constopt_csrrci_def constopt_mul_def constopt_mulh_def constopt_mulhsu_def
  constopt_mulhu_def constopt_div_def constopt_divu_def constopt_rem_def constopt_remu_def constopt_lrw_def
  constopt_scw_def constopt_amoswapw_def constopt_amoaddw_def constopt_amoxorw_def constopt_amoandw_def
  constopt_amoorw_def constopt_amominw_def constopt_amomaxw_def constopt_amominuw_def constopt_amomaxuw_def
  constopt_flw_def constopt_fsw_def constopt_fmadds_def constopt_fmsubs_def constopt_fnmsubs_def
  constopt_fnmadds_def constopt_fadds_def constopt_fsubs_def constopt_fmuls_def constopt_fdivs_def
  constopt_fsqrts_def constopt_fsgnjs_def constopt_fsgnjns_def constopt_fsgnjxs_def constopt_fmins_def
  constopt_fmaxs_def constopt_fcvtws_def constopt_fcvtwus_def constopt_fmvxw_def constopt_feqs_def
  constopt_flts_def constopt_fles_def constopt_fclasss_def constopt_fcvtsw_def constopt_fcvtswu_def
  constopt_fmvwx_def constopt_caddi4spn_def constopt_clw_def constopt_csw_def constopt_cnop_def
  constopt_caddi_def constopt_cjal_def constopt_cli_def constopt_caddi16sp_def constopt_clui_def
  constopt_csrli_def constopt_csrai_def constopt_candi_def constopt_csub_def constopt_cxor_def constopt_cor_def
  constopt_cand_def constopt_cj_def constopt_cbeqz_def constopt_cbnez_def constopt_cslli_def constopt_clwsp_def
  constopt_cjr_def constopt_cmv_def constopt_cebreak_def constopt_cjalr_def constopt_cadd_def constopt_cswsp_def
  constopt_cflwsp_def constopt_cfswsp_def constopt_cflw_def constopt_cfsw_def constopt_sh1add_def
  constopt_sh2add_def constopt_sh3add_def constopt_andn_def constopt_orn_def constopt_xnor_def constopt_clz_def
  constopt_ctz_def constopt_cpop_def constopt_max_def constopt_maxu_def constopt_min_def constopt_minu_def
  constopt_sextb_def constopt_sexth_def constopt_zexth_def constopt_rol_def constopt_ror_def constopt_rori_def
  constopt_orcb_def constopt_rev8_def constopt_clmul_def constopt_clmulh_def constopt_clmulr_def
  constopt_bclr_def constopt_bclri_def constopt_bext_def constopt_bexti_def constopt_binv_def constopt_binvi_def
  constopt_bset_def constopt_bseti_def

section \<open>Every optimisation is sound\<close>

definition opt_sound :: "rv_opcode \<Rightarrow> constopt_t \<Rightarrow> bool" where
  "opt_sound inst f \<longleftrightarrow> (\<forall>ir info ir' info' rv.
    opcode ir = inst \<longrightarrow> plain ir \<longrightarrow> agrees info rv \<longrightarrow> f ir info = Inr (ir', info') \<longrightarrow>
    step_sound ir info ir' info' (pc ir) rv)"

text \<open>Instructions whose destination is \<open>rd\<close> and never \<open>x0\<close>.\<close>

definition writes_rd :: "rv_opcode \<Rightarrow> bool" where
  "writes_rd inst \<longleftrightarrow> (\<forall>ir. dest inst ir = Some (rd ir)) \<and> inst \<notin>
      RV32I ` {rv_insn_nop, rv_insn_lb, rv_insn_lh, rv_insn_lw, rv_insn_lbu, rv_insn_lhu, rv_insn_jal, rv_insn_jalr} \<union>
      RV32C ` {rv_insn_clw, rv_insn_clwsp}"

lemma writes_rd_plain: "writes_rd (opcode ir) \<Longrightarrow> plain ir \<Longrightarrow> rd ir \<noteq> 0"
  by (auto simp: writes_rd_def plain_def)

lemma opt_fold_imm:
  assumes "dispatch_table inst = RVOP inst (imm_op g)" "\<And>x i. f i x = g x i" "insn_len inst = 4" "writes_rd inst"
  shows "opt_sound inst (fold_imm f)"
  unfolding opt_sound_def
proof (intro allI impI)
  fix ir info ir' info' rv
  assume ir: "opcode ir = inst" "plain ir" and *: "agrees info rv" "fold_imm f ir info = Inr (ir', info')"
  show "step_sound ir info ir' info' (pc ir) rv"
    by (rule fold_imm_sound [OF *(2, 1) writes_rd_plain])
      (use ir assms in \<open>simp_all add: writes_rd_def exec_insn_def imm_op_def RVOP_puts\<close>)
qed

lemma opt_fold_reg:
  assumes "dispatch_table inst = RVOP inst (reg_op g)" "\<And>x y. f x y = g x y" "insn_len inst = 4" "writes_rd inst"
  shows "opt_sound inst (fold_reg f)"
  unfolding opt_sound_def
proof (intro allI impI)
  fix ir info ir' info' rv
  assume ir: "opcode ir = inst" "plain ir" and *: "agrees info rv" "fold_reg f ir info = Inr (ir', info')"
  show "step_sound ir info ir' info' (pc ir) rv"
    by (rule fold_reg_sound [OF *(2, 1) writes_rd_plain])
      (use ir assms in \<open>simp_all add: writes_rd_def exec_insn_def reg_op_def RVOP_puts\<close>)
qed

lemma opt_fold_creg:
  assumes "dispatch_table inst = RVOP inst (reg_op g)" "\<And>x y. f x y = g x y" "insn_len inst = 2" "writes_rd inst"
  shows "opt_sound inst (fold_creg f)"
  unfolding opt_sound_def
proof (intro allI impI)
  fix ir info ir' info' rv
  assume ir: "opcode ir = inst" "plain ir" and *: "agrees info rv" "fold_creg f ir info = Inr (ir', info')"
  show "step_sound ir info ir' info' (pc ir) rv"
    by (rule fold_creg_sound [OF *(2, 1) writes_rd_plain])
      (use ir assms in \<open>simp_all add: writes_rd_def exec_insn_def reg_op_def RVOP_puts\<close>)
qed

lemma opt_forget:
  "(\<And>ir. dest inst ir \<in> {Some (rd ir), None}) \<Longrightarrow> opt_sound inst forget"
  "(\<And>ir. dest inst ir = (if rd ir \<noteq> 0 then Some (rd ir) else None)) \<Longrightarrow> opt_sound inst forget_nonzero"
  "writes_rd inst \<Longrightarrow> opt_sound inst forget_nonzero"
  "(\<And>ir. dest inst ir = None) \<Longrightarrow> opt_sound inst skip"
  subgoal
    using forget_stays(1) by (fastforce simp: opt_sound_def step_sound_def forget_def)
  subgoal
    using forget_stays(2) by (fastforce simp: opt_sound_def step_sound_def forget_nonzero_def)
  subgoal
    using writes_rd_plain by (fastforce simp: opt_sound_def step_sound_def forget_nonzero_def stays_def drop_reg_def writes_rd_def)
  subgoal
    using forget_stays(3) by (fastforce simp: opt_sound_def step_sound_def skip_def)
  done

text \<open>The remaining shapes: constant loads, the shifts, and the compressed arithmetic.\<close>

lemma step_put:
  assumes "\<And>env c. exec_insn env ir c p rv = put_reg (insn_len (opcode ir)) d v env c p rv"
    and "\<And>env c. exec_insn env ir' c p rv = put_reg (insn_len (opcode ir)) d v env c p rv"
    and "insn_len (opcode ir') = insn_len (opcode ir)" "info' = learn d v info" "d \<noteq> 0"
  shows "step_sound ir info ir' info' p rv"
proof -
  have "puts ir info ir' info' p rv"
    unfolding puts_def by (rule exI [of _ d], rule exI [of _ v]) (use assms in \<open>auto simp: learn_def\<close>)
  with assms(3) show ?thesis
    by (simp add: step_sound_def)
qed

lemma opt_learn:
  assumes "dispatch_table inst = RVOP inst (straight (\<lambda>ir _ rv. set_X (rd ir) (imm ir) rv))" "writes_rd inst"
    and "\<And>ir info. f ir info = Inr (ir, learn (rd ir) (imm ir) info)"
  shows "opt_sound inst f"
  unfolding opt_sound_def
proof (intro allI impI)
  fix ir info ir' info' rv
  assume ir: "opcode ir = inst" "plain ir" and "f ir info = Inr (ir', info')"
  then show "step_sound ir info ir' info' (pc ir) rv"
    by (intro step_put [of ir _ _ "rd ir" "imm ir"])
      (use assms writes_rd_plain [of ir] in \<open>auto simp: exec_insn_def RVOP_puts\<close>)
qed

lemma opt_lui: "opt_sound (RV32I rv_insn_lui) constopt_lui" "opt_sound (RV32C rv_insn_cli) constopt_cli"
    "opt_sound (RV32C rv_insn_clui) constopt_clui"
  by (rule opt_learn; simp add: do_lui_def do_cli_def do_clui_def constopt_defs writes_rd_def image_iff)+

lemma opt_auipc: "opt_sound (RV32I rv_insn_auipc) constopt_auipc"
  unfolding opt_sound_def
proof (intro allI impI)
  fix ir info ir' info' rv
  assume ir: "opcode ir = RV32I rv_insn_auipc" "plain ir" and f: "constopt_auipc ir info = Inr (ir', info')"
  show "step_sound ir info ir' info' (pc ir) rv"
    by (rule step_put [of ir _ _ "rd ir" "imm ir + pc ir"])
      (use ir f in \<open>auto simp: constopt_auipc_def Let_def lui_puts exec_insn_def do_auipc_def do_lui_def RVOP_puts plain_def\<close>)
qed

lemma opt_nop: "opt_sound (RV32I rv_insn_nop) constopt_nop"
  unfolding opt_sound_def
proof (intro allI impI)
  fix ir info ir' info' rv
  assume ir: "opcode ir = RV32I rv_insn_nop" and agree: "agrees info rv" and f: "constopt_nop ir info = Inr (ir', info')"
  have "puts ir info ir' info' (pc ir) rv"
    unfolding puts_def by (rule exI [of _ 0], rule exI [of _ 0])
      (use ir f agree in \<open>auto simp: constopt_nop_def skip_def exec_insn_def do_nop_def RVOP_puts agrees_def\<close>)
  with ir f show "step_sound ir info ir' info' (pc ir) rv"
    by (simp add: step_sound_def constopt_nop_def skip_def)
qed

lemma opt_shifts:
  assumes "(inst, op) \<in> {(rv_insn_slli, shl), (rv_insn_srli, shr), (rv_insn_srai, sar)}" "\<And>x i. f i x = op x i"
  shows "opt_sound (RV32I inst) (fold_imm f)"
  unfolding opt_sound_def
proof (intro allI impI)
  fix ir info ir' info' rv
  assume ir: "opcode ir = RV32I inst" "plain ir" and *: "agrees info rv" "fold_imm f ir info = Inr (ir', info')"
  have put: "exec_insn env ir c p rv = put_reg 4 (rd ir) (op (X rv (rs1 ir)) (imm ir)) env c p rv" for env c p
    using assms(1) ir(1)
    by (auto simp: exec_insn_def do_slli_def do_srli_def do_srai_def shift_func_def RVOP_puts_checked)
  show "step_sound ir info ir' info' (pc ir) rv"
    by (rule fold_imm_sound [OF *(2, 1)]) (use assms ir put in \<open>auto simp: plain_def\<close>)
qed

text \<open>A compressed computation on one register: it forgets nothing, because it keeps an unknown register
  unknown. The shifts are undefined for some amounts.\<close>

lemma opt_self:
  assumes "\<And>ir info. f ir info = (if is_constant info (d ir)
      then if bad ir then Inl e else becomes_clui (d ir) (g ir (const_val info (d ir))) ir info
      else Inr (ir, info))"
    and "\<And>ir env c p rv. opcode ir = RV32C inst \<Longrightarrow> \<not> bad ir \<Longrightarrow>
      exec_insn env ir c p rv = put_reg 2 (d ir) (g ir (X rv (d ir))) env c p rv"
    and "\<And>ir. dest (RV32C inst) ir = Some (d ir)" "inst \<notin> {rv_insn_clw, rv_insn_clwsp}"
  shows "opt_sound (RV32C inst) f"
  unfolding opt_sound_def
proof (intro allI impI)
  fix ir info ir' info' rv
  assume ir: "opcode ir = RV32C inst" "plain ir" and agree: "agrees info rv" and f: "f ir info = Inr (ir', info')"
  have d: "d ir \<noteq> 0"
    using ir assms(3) [of ir] assms(4) by (auto simp: plain_def)
  show "step_sound ir info ir' info' (pc ir) rv"
  proof (cases "is_constant info (d ir)")
    case True
    with f have "\<not> bad ir" "becomes_clui (d ir) (g ir (const_val info (d ir))) ir info = Inr (ir', info')"
      by (auto simp: assms(1) split: if_splits)
    with True ir(1) d agree assms(2) [of ir] show ?thesis
      by (intro becomes_clui_sound [of ir "pc ir" rv "d ir"]) (simp_all add: agrees_def)
  next
    case False
    with f ir(1) assms(3) [of ir] show ?thesis
      by (auto simp: assms(1) step_sound_def stays_def)
  qed
qed

lemma opt_caddi: "opt_sound (RV32C rv_insn_caddi) constopt_caddi"
  by (rule opt_self [where d = rd and g = "\<lambda>ir x. x + scast (ucast (imm ir) :: u16)" and bad = "\<lambda>_. False"])
    (simp_all add: constopt_caddi_def exec_insn_def do_caddi_def RVOP_puts)

lemma opt_caddi16sp: "opt_sound (RV32C rv_insn_caddi16sp) constopt_caddi16sp"
  by (rule opt_self [where d = rd and g = "\<lambda>ir x. x + imm ir" and bad = "\<lambda>_. False"])
    (simp_all add: constopt_caddi16sp_def exec_insn_def do_caddi16sp_def RVOP_puts)

lemma opt_candi: "opt_sound (RV32C rv_insn_candi) constopt_candi"
  by (rule opt_self [where d = rs1 and g = "\<lambda>ir x. x AND imm ir" and bad = "\<lambda>_. False"])
    (simp_all add: constopt_candi_def exec_insn_def do_candi_def RVOP_puts)

lemma opt_csrli: "opt_sound (RV32C rv_insn_csrli) constopt_csrli"
  by (rule opt_self [where d = rs1 and g = "\<lambda>ir x. drop_bit (unat (shamt ir)) x" and bad = "\<lambda>ir. shamt ir \<ge> 32"])
    (simp_all add: constopt_csrli_def exec_insn_def do_csrli_def RVOP_puts_checked)

lemma opt_csrai: "opt_sound (RV32C rv_insn_csrai) constopt_csrai"
  by (rule opt_self [where d = rs1 and g = "\<lambda>ir x. srai_loop x (unat (shamt ir))" and bad = "\<lambda>ir. shamt ir \<ge> 32"])
    (simp_all add: constopt_csrai_def exec_insn_def do_csrai_def RVOP_puts_checked)

lemma opt_cslli: "opt_sound (RV32C rv_insn_cslli) constopt_cslli"
  by (rule opt_self [where d = rd and g = "\<lambda>ir x. push_bit (unat (ucast (imm ir) :: u8)) x"
        and bad = "\<lambda>ir. (ucast (imm ir) :: u8) \<ge> 32" and e = Undefined_shift])
    (simp_all add: constopt_cslli_def exec_insn_def do_cslli_def RVOP_puts_checked)

lemma opt_from:
  assumes "\<And>ir info. f ir info = (if is_constant info (r ir)
      then becomes_clui (rd ir) (g ir (const_val info (r ir))) ir info else forget ir info)"
    and "\<And>ir env c p rv. opcode ir = RV32C inst \<Longrightarrow>
      exec_insn env ir c p rv = put_reg 2 (rd ir) (g ir (X rv (r ir))) env c p rv"
    and "writes_rd (RV32C inst)"
  shows "opt_sound (RV32C inst) f"
  unfolding opt_sound_def
proof (intro allI impI)
  fix ir info ir' info' rv
  assume ir: "opcode ir = RV32C inst" "plain ir" and agree: "agrees info rv" and f: "f ir info = Inr (ir', info')"
  show "step_sound ir info ir' info' (pc ir) rv"
  proof (cases "is_constant info (r ir)")
    case True
    with ir(1) writes_rd_plain [OF _ ir(2)] assms(3) agree assms(2) [of ir] f show ?thesis
      by (intro becomes_clui_sound [of ir "pc ir" rv "rd ir" "g ir (const_val info (r ir))"])
        (simp_all add: assms(1) agrees_def)
  next
    case False
    with f ir(1) assms(3) show ?thesis
      by (auto simp: assms(1) step_sound_def writes_rd_def dest: forget_stays(1)) (simp add: forget_def)
  qed
qed

lemma opt_cmv: "opt_sound (RV32C rv_insn_cmv) constopt_cmv"
  by (rule opt_from [where r = rs2 and g = "\<lambda>_ x. x"])
    (auto simp: constopt_cmv_def exec_insn_def do_cmv_def RVOP_puts writes_rd_def)

lemma opt_caddi4spn: "opt_sound (RV32C rv_insn_caddi4spn) constopt_caddi4spn"
  by (rule opt_from [where r = "\<lambda>_. rv_reg_sp" and g = "\<lambda>ir x. x + ucast (ucast (imm ir) :: u16)"])
    (auto simp: constopt_caddi4spn_def exec_insn_def do_caddi4spn_def RVOP_puts writes_rd_def)

lemmas opt_intros = opt_fold_imm opt_fold_reg opt_fold_creg opt_forget

lemma opt_shift_ops:
  "opt_sound (RV32I rv_insn_slli) constopt_slli" "opt_sound (RV32I rv_insn_srli) constopt_srli"
  "opt_sound (RV32I rv_insn_srai) constopt_srai"
  unfolding constopt_slli_def constopt_srli_def constopt_srai_def
  by (rule opt_shifts [of _ shl] opt_shifts [of _ shr] opt_shifts [of _ sar]; simp add: shl_def shr_def sar_def; fail)+

lemma opt_shift_regs:
  "opt_sound (RV32I rv_insn_sll) constopt_sll" "opt_sound (RV32I rv_insn_srl) constopt_srl"
  "opt_sound (RV32I rv_insn_sra) constopt_sra"
  unfolding constopt_sll_def constopt_srl_def constopt_sra_def
  by (rule opt_fold_reg [where g = shl] opt_fold_reg [where g = shr] opt_fold_reg [where g = sar];
    auto simp: do_sll_def do_srl_def do_sra_def writes_rd_def shl_def shr_def sar_def; fail)+

lemma sound_rv32i: "\<not> rv32i_can_branch i \<Longrightarrow> opt_sound (RV32I i) (constopt_table_rv32i i)"
  by (cases i; (simp; fail)?; (simp only: constopt_table_rv32i.simps;
      (rule opt_lui opt_auipc opt_nop opt_shift_ops opt_shift_regs; fail)?;
      simp only: constopt_defs; rule opt_intros; (auto simp: handler_defs writes_rd_def ac_simps; fail)))

lemma sound_rv32c: "\<not> rv32c_can_branch i \<Longrightarrow> opt_sound (RV32C i) (constopt_table_rv32c i)"
  by (cases i; (simp; fail)?; (simp only: constopt_table_rv32c.simps;
      (rule opt_lui opt_caddi opt_caddi16sp opt_candi opt_csrli opt_csrai opt_cslli opt_cmv opt_caddi4spn; fail)?;
      simp only: constopt_defs; rule opt_intros; (auto simp: handler_defs writes_rd_def ac_simps; fail)))

lemma sound_priv: "opt_sound (PRIV i) (constopt_table_priv i)"
  by (cases i; (simp only: constopt_table_priv.simps constopt_defs; rule opt_forget; (auto simp: writes_rd_def; fail)))

lemma sound_zifencei: "opt_sound (ZIFENCEI i) (constopt_table_zifencei i)"
  by (cases i; (simp only: constopt_table_zifencei.simps constopt_defs; rule opt_forget; (auto simp: writes_rd_def; fail)))

lemma sound_zicsr: "opt_sound (ZICSR i) (constopt_table_zicsr i)"
  by (cases i; (simp only: constopt_table_zicsr.simps constopt_defs; rule opt_forget; (auto simp: writes_rd_def; fail)))

lemma sound_zba: "opt_sound (ZBA i) (constopt_table_zba i)"
  by (cases i; (simp only: constopt_table_zba.simps constopt_defs; rule opt_forget; (auto simp: writes_rd_def; fail)))

lemma sound_zbb: "opt_sound (ZBB i) (constopt_table_zbb i)"
  by (cases i; (simp only: constopt_table_zbb.simps constopt_defs; rule opt_forget; (auto simp: writes_rd_def; fail)))

lemma sound_zbc: "opt_sound (ZBC i) (constopt_table_zbc i)"
  by (cases i; (simp only: constopt_table_zbc.simps constopt_defs; rule opt_forget; (auto simp: writes_rd_def; fail)))

lemma sound_zbs: "opt_sound (ZBS i) (constopt_table_zbs i)"
  by (cases i; (simp only: constopt_table_zbs.simps constopt_defs; rule opt_forget; (auto simp: writes_rd_def; fail)))

lemma sound_rv32m: "opt_sound (RV32M i) (constopt_table_rv32m i)"
  by (cases i; (simp only: constopt_table_rv32m.simps constopt_defs; rule opt_intros; (auto simp: handler_defs writes_rd_def ac_simps; fail)))

lemma sound_rv32f: "opt_sound (RV32F i) (constopt_table_rv32f i)"
  by (cases i; (simp only: constopt_table_rv32f.simps constopt_defs; rule opt_forget; (auto simp: writes_rd_def; fail)))

lemma sound_rv32fc: "opt_sound (RV32FC i) (constopt_table_rv32fc i)"
  by (cases i; (simp only: constopt_table_rv32fc.simps constopt_defs; rule opt_forget; (auto simp: writes_rd_def; fail)))

lemma sound_rv32a: "i \<noteq> rv_insn_scw \<Longrightarrow> opt_sound (RV32A i) (constopt_table_rv32a i)"
  by (cases i; (simp; fail)?; (simp only: constopt_table_rv32a.simps constopt_defs; rule opt_forget; (auto simp: writes_rd_def; fail)))

lemma constopt_sound:
  assumes "constopt_table (opcode ir) ir info = Inr (ir', info')" "plain ir" "\<not> insn_is_branch (opcode ir)"
    and "agrees info rv"
  shows "step_sound ir info ir' info' (pc ir) rv"
proof -
  have "opt_sound (opcode ir) (constopt_table (opcode ir))"
    using assms(2, 3) sound_rv32i sound_rv32c sound_priv sound_zifencei sound_zicsr sound_zba sound_zbb sound_zbc
      sound_zbs sound_rv32m sound_rv32f sound_rv32fc sound_rv32a
    by (cases "opcode ir") (auto simp: plain_def)
  with assms show ?thesis
    unfolding opt_sound_def by blast
qed

section \<open>Straight-line steps\<close>

lemma put_reg_continue:
  assumes "put_reg len d v env c p rv = Inr (Continue To_next c' p', rv')"
  shows "rv' = set_X d v (rv\<lparr>PC := p\<rparr>)" "c' = c + 1" "p' = p + len" "\<not> need_clear_block_map (glob rv')"
  using assms by (auto simp: put_reg_def Let_def next_or_stop_def signal_taken_def end_op_def split: if_splits)

lemma step_exec: "step_sound ir info ir' info' p rv \<Longrightarrow> exec_insn env ir' c p rv = exec_insn env ir c p rv"
  by (auto simp: step_sound_def stays_def puts_def)

lemma step_agrees:
  assumes "step_sound ir info ir' info' p rv" "agrees info rv" "opcode ir \<notin> range FUSE"
    and "exec_insn env ir c p rv = Inr (Continue To_next c' p', rv')"
    and "env_io env = with_mmu calls" "traps_keep_X calls"
  shows "agrees info' rv'"
proof -
  note keep = exec_frame [OF assms(4, 3, 5, 6)]
  consider "stays ir info ir' info'" | "puts ir info ir' info' p rv"
    using assms(1) by (auto simp: step_sound_def)
  then show ?thesis
  proof cases
    case 1
    with keep assms(2) show ?thesis
      by (auto simp: stays_def agrees_def)
  next
    case 2
    then obtain d v where *: "put_reg (insn_len (opcode ir)) d v env c p rv = Inr (Continue To_next c' p', rv')"
      "\<forall>r. is_constant info' r \<longrightarrow> (r = d \<or> is_constant info r) \<and>
        const_val info' r = (if r = d then v else const_val info r)" "d = 0 \<longrightarrow> v = 0"
      using assms(4) by (auto simp: puts_def)
    with put_reg_continue(1) [OF *(1)] assms(2) show ?thesis
      by (auto simp: agrees_def)
  qed
qed

section \<open>Branches\<close>

text \<open>A decided branch leaves the same hart behind, except for the flag that records for the block chain
  whether the last branch was taken.\<close>

definition same_result :: "(leave \<times> riscv_t) outcome \<Rightarrow> (leave \<times> riscv_t) outcome \<Rightarrow> bool" where
  "same_result r s \<longleftrightarrow>
    map_sum id (map_prod id (set_branch_taken False)) r = map_sum id (map_prod id (set_branch_taken False)) s"

lemma same_result_refl [simp]: "same_result r r"
  by (simp add: same_result_def)

lemma set_branch_taken_twice [simp]: "set_branch_taken b (set_branch_taken b' rv) = set_branch_taken b rv"
  by (simp add: set_branch_taken_def set_glob_def)

lemma end_op_taken [simp]: "map_prod id (set_branch_taken b) (end_op c p rv) = end_op c p (set_branch_taken b rv)"
  by (simp add: end_op_def set_branch_taken_def set_glob_def set_cycle_def set_csr_def)

lemma decided_branch:
  assumes "OPT_BRANCH_FUNC u ir info = Inr (ir', info')" "agrees info rv" "rd ir = 0" "insn_len inst = 4"
    and "unchained env" "\<not> has_next env" "\<not> need_clear_block_map (glob rv)"
    and "exec_insn env ir c p rv = RVOP inst (BRANCH_FUNC u) env ir c p rv"
  shows "same_result (exec_insn env ir' c p rv) (exec_insn env ir c p rv)"
proof (cases "ir' = ir")
  case False
  then have k: "X rv (rs1 ir) = const_val info (rs1 ir)" "X rv (rs2 ir) = const_val info (rs2 ir)"
    and ir': "ir' = ir\<lparr>imm := if u (X rv (rs1 ir)) (X rv (rs2 ir)) then 4 else imm ir, opcode := RV32I rv_insn_jal\<rparr>"
    using assms(1, 2) by (auto simp: OPT_BRANCH_FUNC_def agrees_def split: if_splits)
  have "exec_insn env ir' c p rv = Inr (end_op (c + 1) (p + imm ir') (rv\<lparr>PC := p\<rparr>))"
    using assms(3, 5) by (simp add: ir' exec_insn_def do_jal_def RVOP_def follow_taken_def unchained_def link_X_def)
  moreover have "RVOP inst (BRANCH_FUNC u) env ir c p rv = Inr (end_op (c + 1) (p + imm ir')
      (if is_trapped rv then rv\<lparr>PC := p\<rparr> else set_branch_taken (\<not> u (X rv (rs1 ir)) (X rv (rs2 ir))) (rv\<lparr>PC := p\<rparr>)))"
    using assms(4-7)
    by (simp add: ir' RVOP_def BRANCH_FUNC_def follow_taken_def unchained_def next_or_stop_def set_branch_taken_def Let_def)
  ultimately show ?thesis
    by (simp add: same_result_def assms(8))
qed simp

lemma decided_cbranch:
  assumes "opt_cbranch u ir info = Inr (ir', info')" "agrees info rv" "insn_len inst = 2"
    and "unchained env" "\<not> has_next env" "\<not> need_clear_block_map (glob rv)"
    and "exec_insn env ir c p rv = RVOP inst (cbranch u) env ir c p rv"
  shows "same_result (exec_insn env ir' c p rv) (exec_insn env ir c p rv)"
proof (cases "ir' = ir")
  case False
  then have k: "X rv (rs1 ir) = const_val info (rs1 ir)"
    and ir': "ir' = ir\<lparr>imm := if u (X rv (rs1 ir)) then 2 else imm ir, opcode := RV32C rv_insn_cj\<rparr>"
    using assms(1, 2) by (auto simp: opt_cbranch_def agrees_def split: if_splits)
  have "exec_insn env ir' c p rv = Inr (end_op (c + 1) (p + imm ir') (rv\<lparr>PC := p\<rparr>))"
    using assms(4) by (simp add: ir' exec_insn_def do_cj_def RVOP_def follow_taken_def unchained_def)
  moreover have "RVOP inst (cbranch u) env ir c p rv = Inr (end_op (c + 1) (p + imm ir')
      (set_branch_taken (\<not> u (X rv (rs1 ir))) (rv\<lparr>PC := p\<rparr>)))"
    using assms(3-6)
    by (simp add: ir' RVOP_def cbranch_def follow_taken_def unchained_def next_or_stop_def set_branch_taken_def Let_def)
  ultimately show ?thesis
    by (simp add: same_result_def assms(7))
qed simp

lemma other_branches_stay:
  assumes "constopt_table inst ir info = Inr (ir', info')" "insn_is_branch inst"
    and "inst \<notin> RV32I ` conditional_branches \<union> RV32C ` {rv_insn_cbeqz, rv_insn_cbnez}"
  shows "ir' = ir"
proof (cases inst)
  case (RV32I i)
  with assms show ?thesis
    by (cases i) (auto simp: constopt_defs skip_def conditional_branches_def)
next
  case (RV32C i)
  with assms show ?thesis
    by (cases i) (auto simp: constopt_defs skip_def)
next
  case (PRIV i)
  with assms show ?thesis
    by (cases i) (auto simp: constopt_defs skip_def)
next
  case (ZICSR i)
  with assms show ?thesis
    by (cases i) (auto simp: constopt_defs forget_def)
next
  case (ZIFENCEI i)
  with assms show ?thesis
    by (cases i) (auto simp: constopt_defs skip_def)
qed (use assms in simp_all)

lemma branch_sound:
  assumes "constopt_table (opcode ir) ir info = Inr (ir', info')" "plain ir" "insn_is_branch (opcode ir)"
    and "agrees info rv" "unchained env" "\<not> has_next env" "\<not> need_clear_block_map (glob rv)"
  shows "same_result (exec_insn env ir' c p rv) (exec_insn env ir c p rv)"
proof -
  consider (cond) i where "opcode ir = RV32I i" "i \<in> conditional_branches"
    | (comp) i where "opcode ir = RV32C i" "i \<in> {rv_insn_cbeqz, rv_insn_cbnez}"
    | (other) "opcode ir \<notin> RV32I ` conditional_branches \<union> RV32C ` {rv_insn_cbeqz, rv_insn_cbnez}"
    by auto
  then show ?thesis
  proof cases
    case cond
    then have "rd ir = 0"
      using assms(2) by (auto simp: plain_def)
    moreover from cond assms(1) obtain u where "OPT_BRANCH_FUNC u ir info = Inr (ir', info')"
      "exec_insn env ir c p rv = RVOP (opcode ir) (BRANCH_FUNC u) env ir c p rv"
      unfolding conditional_branches_def
      by (elim insertE emptyE) (simp_all add: constopt_defs exec_insn_def do_beq_def do_bne_def do_blt_def do_bge_def
        do_bltu_def do_bgeu_def)
    ultimately show ?thesis
      using cond(1) assms(4-7) by (intro decided_branch [where inst = "opcode ir"]) simp_all
  next
    case comp
    with assms(1) obtain u where "opt_cbranch u ir info = Inr (ir', info')"
      "exec_insn env ir c p rv = RVOP (opcode ir) (cbranch u) env ir c p rv"
      by (elim insertE emptyE) (simp_all add: constopt_defs exec_insn_def do_cbeqz_def do_cbnez_def)
    with comp(1) assms(4-7) show ?thesis
      by (intro decided_cbranch [where inst = "opcode ir"]) simp_all
  next
    case other
    from other_branches_stay [OF assms(1, 3) other] show ?thesis
      by simp
  qed
qed

section \<open>The whole pass\<close>

text \<open>The addresses the translator recorded in the instructions of a block.\<close>

fun placed_at :: "u32 \<Rightarrow> rv_insn_t list \<Rightarrow> bool" where
  "placed_at p [] \<longleftrightarrow> True"
| "placed_at p (ir # irs) \<longleftrightarrow> pc ir = p \<and> placed_at (p + insn_len (opcode ir)) irs"

lemma same_result_bind:
  assumes "same_result r s"
  shows "same_result
    (obind r (\<lambda>(l, rv). case l of Continue To_next c p \<Rightarrow> run_insns env [] c p rv | _ \<Rightarrow> Inr (l, rv)))
    (obind s (\<lambda>(l, rv). case l of Continue To_next c p \<Rightarrow> run_insns env [] c p rv | _ \<Rightarrow> Inr (l, rv)))"
  using assms by (cases r; cases s) (auto simp: same_result_def split: leave.split transfer.split)

lemma constopt_insns_Nil: "constopt_insns irs info = Inr irs' \<Longrightarrow> irs' = [] \<longleftrightarrow> irs = []"
  by (cases irs) (auto simp: obind_Inr_iff)

lemma constopt_run:
  assumes "env_io env = with_mmu calls" "traps_keep_X calls" "unchained env"
    and "constopt_insns irs info = Inr irs'" "agrees info rv" "\<forall>ir\<in>set irs. plain ir" "branches_last irs"
    and "placed_at p irs" "\<not> need_clear_block_map (glob rv)"
  shows "same_result (run_insns env irs' c p rv) (run_insns env irs c p rv)"
  using assms(4-)
proof (induction irs arbitrary: info irs' c p rv)
  case (Cons ir irs)
  obtain ir1 info1 irs1 where opt: "constopt_table (opcode ir) ir info = Inr (ir1, info1)"
    "constopt_insns irs info1 = Inr irs1" "irs' = ir1 # irs1"
    using Cons.prems(1) by (auto simp: obind_Inr_iff)
  have empty: "irs1 = [] \<longleftrightarrow> irs = []"
    by (rule constopt_insns_Nil [OF opt(2)])
  have pcs: "pc ir = p" "plain ir"
    using Cons.prems by simp_all
  let ?env = "env\<lparr>has_next := irs \<noteq> []\<rparr>"
  show ?case
  proof (cases "insn_is_branch (opcode ir)")
    case True
    then have "irs = []"
      using Cons.prems(4) by (auto simp: branches_last_def split: if_splits)
    moreover have "same_result (exec_insn ?env ir1 c p rv) (exec_insn ?env ir c p rv)"
      using branch_sound [OF opt(1) pcs(2) True Cons.prems(2), of ?env] assms(3) Cons.prems(6) calculation
      by (simp add: unchained_def)
    ultimately show ?thesis
      using empty same_result_bind by (simp add: opt(3))
  next
    case False
    note step = constopt_sound [OF opt(1) pcs(2) False Cons.prems(2), unfolded pcs(1)]
    have exec: "exec_insn ?env ir1 c p rv = exec_insn ?env ir c p rv"
      by (rule step_exec [OF step])
    have IH: "same_result (run_insns env irs1 c' p' rv') (run_insns env irs c' p' rv')"
      if "exec_insn ?env ir c p rv = Inr (Continue To_next c' p', rv')" for c' p' rv'
    proof -
      have fr: "opcode ir \<notin> range FUSE" "env_io ?env = with_mmu calls"
        using pcs(2) assms(1) by (simp_all add: plain_def)
      have "agrees info1 rv'"
        by (rule step_agrees [OF step Cons.prems(2) fr(1) that fr(2) assms(2)])
      moreover have "p' = p + insn_len (opcode ir)" "\<not> need_clear_block_map (glob rv')"
        using exec_frame [OF that fr assms(2)] by simp_all
      moreover have "branches_last irs"
        using branches_last_append [of "[ir]" irs] Cons.prems(4) by simp
      ultimately show ?thesis
        using Cons.IH [OF opt(2)] Cons.prems(3, 5) by simp
    qed
    show ?thesis
      using IH by (auto simp: opt(3) empty exec obind_def split: sum.split prod.split leave.split transfer.split)
  qed
qed simp

lemma optimize_constant_run:
  assumes "env_io env = with_mmu calls" "traps_keep_X calls" "unchained env"
    and "optimize_constant rv irs = Inr irs'" "\<forall>ir\<in>set irs. plain ir" "branches_last irs"
    and "placed_at p irs" "\<not> need_clear_block_map (glob rv)"
  shows "same_result (run_insns env irs' c p rv) (run_insns env irs c p rv)"
proof -
  let ?info = "\<lparr>is_constant = (\<lambda>_. False)(0 := True), const_val = (\<lambda>_. 0)\<rparr>"
  have "constopt_insns irs ?info = Inr irs'" "X rv 0 = 0"
    using assms(4) by (simp_all add: optimize_constant_def split: if_splits)
  moreover from this have "agrees ?info rv"
    by (simp add: agrees_def)
  ultimately show ?thesis
    using constopt_run [OF assms(1-3)] assms(5-) by blast
qed

section \<open>Properties\<close>

text \<open>C18: Constant optimisation preserves the meaning of a block: the optimised block ends in the same way
  and in the same hart as the original one, up to the flag that remembers for block chaining whether
  the last branch was taken. It holds for every block of decoded instructions without \<open>SC.W\<close> and the hint \<open>C.LI x0\<close> whose
  last instruction alone may branch, with memory accesses that may fault, provided the guest's trap
  handler gives the registers back.\<close>

theorem constant_optimisation_sound:
  assumes "env_io env = with_mmu calls" "traps_keep_X calls" "unchained env"
    and "optimize_constant rv irs = Inr irs'" "\<forall>ir\<in>set irs. plain ir" "branches_last irs"
    and "placed_at p irs" "\<not> need_clear_block_map (glob rv)"
  shows "same_result (run_insns env irs' c p rv) (run_insns env irs c p rv)"
  using assms by (rule optimize_constant_run)

theorem constant_optimisation_sound_witness:
  "same_result
    (run_insns sample_env
      [zero_insn\<lparr>opcode := RV32I rv_insn_lui, rd := 5, imm := 7\<rparr>,
       zero_insn\<lparr>opcode := RV32I rv_insn_jal, rs1 := 5, imm := 32, pc := 4\<rparr>] 0 0 sample_hart)
    (run_insns sample_env
      [zero_insn\<lparr>opcode := RV32I rv_insn_addi, rd := 5, imm := 7\<rparr>,
       zero_insn\<lparr>opcode := RV32I rv_insn_bne, rs1 := 5, imm := 32, pc := 4\<rparr>] 0 0 sample_hart)"
  by (rule constant_optimisation_sound [of _ sample_calls])
    (auto simp: traps_keep_X_def unchained_def optimize_constant_def constopt_defs fold_imm_def becomes_lui_def
      OPT_BRANCH_FUNC_def learn_def zero_insn_def plain_def branches_last_def conditional_branches_def)

text \<open>The pass keeps what it knew about the destination of \<open>SC.W\<close>: after \<open>ADDI x5, x0, 7\<close> and an
  \<open>SC.W\<close> into \<open>x5\<close>, a copy of \<open>x5\<close> is folded to 7, although the register holds the result of the
  store-conditional. The optimised and the original block end in different harts.\<close>

theorem constopt_sc_stale:
  "\<exists>irs irs' rv rv'. optimize_constant sample_hart irs = Inr irs' \<and>
     map opcode irs = [RV32I rv_insn_addi, RV32A rv_insn_scw, RV32I rv_insn_addi] \<and>
     run_insns sample_env irs 0 0 sample_hart = Inr (Returned True, rv) \<and> X rv 6 = 1 \<and>
     run_insns sample_env irs' 0 0 sample_hart = Inr (Returned True, rv') \<and> X rv' 6 = 7"
proof -
  let ?i1 = "zero_insn\<lparr>opcode := RV32I rv_insn_addi, rd := 5, imm := 7\<rparr>"
  let ?i2 = "zero_insn\<lparr>opcode := RV32A rv_insn_scw, rd := 5, pc := 4\<rparr>"
  let ?i3 = "zero_insn\<lparr>opcode := RV32I rv_insn_addi, rd := 6, rs1 := 5, pc := 8\<rparr>"
  let ?o1 = "zero_insn\<lparr>opcode := RV32I rv_insn_lui, rd := 5, imm := 7\<rparr>"
  let ?o3 = "zero_insn\<lparr>opcode := RV32I rv_insn_lui, rd := 6, rs1 := 5, imm := 7, pc := 8\<rparr>"
  have opt: "optimize_constant sample_hart [?i1, ?i2, ?i3] = Inr [?o1, ?i2, ?o3]"
    by (simp add: optimize_constant_def constopt_defs fold_imm_def becomes_lui_def learn_def skip_def zero_insn_def)
  have run: "\<exists>rv. run_insns sample_env [?i1, ?i2, ?i3] 0 0 sample_hart = Inr (Returned True, rv) \<and> X rv 6 = 1"
    "\<exists>rv. run_insns sample_env [?o1, ?i2, ?o3] 0 0 sample_hart = Inr (Returned True, rv) \<and> X rv 6 = 7"
    by (simp_all add: exec_insn_def do_addi_def do_lui_def do_scw_def imm_op_def straight_def RVOP_def misalign_guard_def
        misaligned_def next_or_stop_def end_op_def zero_insn_def link_X_def Let_def)
  from opt run show ?thesis
    by (intro exI [of _ "[?i1, ?i2, ?i3]"] exI [of _ "[?o1, ?i2, ?o3]"]) auto
qed

end
