(* ===== verification/Trap.thy ===== *)
theory Trap imports Dispatch Decode begin

text \<open>
  Traps (\<open>trap_handler\<close>, \<open>_trap_handler\<close>, \<open>__trap_handler\<close>, \<open>ebreak_handler\<close> and \<open>ecall_handler\<close> of
  \<open>src/src/emulate.c\<close>). A trap enters the guest's handler and, when the hart is marked as trapped, runs it
  instruction by instruction until it returns, so a memory access can trap in the middle of an
  instruction and nest. The depth of the nesting and the number of immediate repetitions of one fetch
  are the argument \<open>n\<close>; the source bounds neither. \<open>block_map_clear\<close> called by an instruction of the
  handler is remembered in \<open>map_cleared\<close> until the block cache is used again. The system calls of
  \<open>src/src/syscall.c\<close> are a parameter; the debugging output of the two functions is left out, together
  with the memory reads the dump for one firmware image makes (\<open>mepc = 0x408070ac\<close>).
\<close>

section \<open>Entering the handler\<close>

text \<open>The \<open>switch\<close> on the vector mode. Mode 2 has no case.\<close>

definition trap_vector :: "u32 \<Rightarrow> u32 \<Rightarrow> riscv_t \<Rightarrow> riscv_t" where
  "trap_vector tvec cause rv =
    (let base = tvec AND NOT 3; mode = tvec AND 3
     in if mode = 0 then rv\<lparr>PC := base\<rparr>
        else if mode = 1 then rv\<lparr>PC := base + 4 * (cause AND 0x7FFFFFFF)\<rparr>
        else if mode = 3 then
          (if clic_vector_valid rv then rv\<lparr>PC := clic_vector_pc rv, clic_vector_valid := False\<rparr>
           else rv\<lparr>PC := base\<rparr>)
        else rv)"

definition stack_sstatus :: "u32 \<Rightarrow> u32 \<Rightarrow> u32" where
  "stack_sstatus priv s =
    ((s OR push_bit SPIE_SHIFT (drop_bit SIE_SHIFT (s AND STATUS_SIE))) AND NOT STATUS_SIE)
      OR push_bit SPP_SHIFT priv"

definition stack_mstatus :: "u32 \<Rightarrow> u32 \<Rightarrow> u32" where
  "stack_mstatus priv s =
    ((s OR push_bit MPIE_SHIFT (drop_bit MIE_SHIFT (s AND STATUS_MIE))) AND NOT STATUS_MIE)
      OR push_bit MPP_SHIFT priv"

text \<open>\<open>_trap_handler\<close> up to the call of \<open>__trap_handler\<close>; the boolean tells whether that point is
  reached, which it is not without a trap vector.\<close>

definition trap_entry :: "riscv_t \<Rightarrow> bool \<times> riscv_t" where
  "trap_entry rv0 =
    (if RV_PRIV_IS_U_OR_S_MODE rv0 then
       (let rv = rv0\<lparr>priv_mode := RV_PRIV_S_MODE,
                     csr := (csr rv0)\<lparr>csr_sstatus := stack_sstatus (priv_mode rv0) (csr_sstatus (csr rv0)),
                                      csr_sepc := PC rv0\<rparr>,
                     last_csr_sepc := PC rv0\<rparr>
        in if csr_stvec (csr rv) = 0 then (False, rv\<lparr>PC := csr_sepc (csr rv), is_trapped := False\<rparr>)
           else (True, trap_vector (csr_stvec (csr rv)) (csr_scause (csr rv)) rv))
     else
       (let rv = rv0\<lparr>priv_mode := RV_PRIV_M_MODE,
                     csr := (csr rv0)\<lparr>csr_mstatus := stack_mstatus (priv_mode rv0) (csr_mstatus (csr rv0)),
                                      csr_mepc := PC rv0\<rparr>\<rparr>
        in if csr_mtvec (csr rv) = 0 then (False, rv\<lparr>PC := csr_mepc (csr rv), is_trapped := False\<rparr>)
           else (True, trap_vector (csr_mtvec (csr rv)) (csr_mcause (csr rv)) rv)))"

section \<open>Running the handler\<close>

text \<open>The \<open>retry_fetch\<close> loop.\<close>

fun fetch_retrying :: "riscv_io_t \<Rightarrow> nat \<Rightarrow> riscv_t \<Rightarrow> (riscv_t \<times> u32) outcome" where
  "fetch_retrying io 0 rv = Inl Out_of_fuel"
| "fetch_retrying io (Suc n) rv =
    obind (mem_ifetch io rv (PC rv)) (\<lambda>(rv, insn).
      if insn = 0 \<and> need_retranslate (glob rv)
      then fetch_retrying io n (set_glob (\<lambda>g. g\<lparr>need_retranslate := False\<rparr>) rv)
      else Inr (rv, insn))"

text \<open>One instruction of the handler. The instruction record is reused without being cleared and the
  result of \<open>rv_decode\<close> is not looked at.\<close>

definition trap_insn :: "env_t \<Rightarrow> rv_insn_t \<Rightarrow> u32 \<Rightarrow> riscv_t \<Rightarrow> (rv_insn_t \<times> riscv_t) outcome" where
  "trap_insn env ir0 insn rv0 =
    obind (rv_decode ir0 insn) (\<lambda>(_, ir).
      let rv = (set_glob (\<lambda>g. g\<lparr>reloc_enable_mmu_jalr_addr := PC rv0\<rparr>) rv0)\<lparr>compressed := is_compressed insn\<rparr>
      in obind (exec_insn env ir (csr_cycle (csr rv)) (PC rv) rv) (\<lambda>(l, rv).
           Inr (ir, if l = Blocks_cleared then set_glob (\<lambda>g. g\<lparr>map_cleared := True\<rparr>) rv else rv)))"

definition TRAP_BUDGET :: nat where [simp]: "TRAP_BUDGET = 20000"

fun trap_loop :: "env_t \<Rightarrow> nat \<Rightarrow> nat \<Rightarrow> rv_insn_t \<Rightarrow> riscv_t \<Rightarrow> riscv_t outcome" where
  "trap_loop env n 0 ir rv = Inr rv"
| "trap_loop env n (Suc budget) ir rv =
    (if is_trapped rv \<and> \<not> halt rv then
       obind (fetch_retrying (env_io env) n rv) (\<lambda>(rv, insn).
         if insn = 0 then Inr rv
         else obind (trap_insn env ir insn rv) (\<lambda>(ir, rv). trap_loop env n budget ir rv))
     else Inr rv)"

section \<open>The callbacks of the system build\<close>

record system_t =
  syscall_handler :: "riscv_t \<Rightarrow> riscv_t outcome"
  softfloat :: softfloat_t

definition ecall_handler :: "system_t \<Rightarrow> riscv_t \<Rightarrow> riscv_t outcome" where
  "ecall_handler sys rv = syscall_handler sys (rv\<lparr>PC := PC rv + 4\<rparr>)"

definition ebreak_handler :: "(riscv_t \<Rightarrow> riscv_t outcome) \<Rightarrow> riscv_t \<Rightarrow> riscv_t outcome" where
  "ebreak_handler trap rv = trap (set_cause_and_tval BREAKPOINT (PC rv) rv)"

definition system_io :: "system_t \<Rightarrow> (riscv_t \<Rightarrow> riscv_t outcome) \<Rightarrow> riscv_io_t" where
  "system_io sys trap = with_mmu
    \<lparr>mem_ifetch = (\<lambda>_ _. Inl Undefined_access), mem_read_w = (\<lambda>_ _. Inl Undefined_access),
     mem_read_s = (\<lambda>_ _. Inl Undefined_access), mem_read_b = (\<lambda>_ _. Inl Undefined_access),
     mem_write_w = (\<lambda>_ _ _. Inl Undefined_access), mem_write_s = (\<lambda>_ _ _. Inl Undefined_access),
     mem_write_b = (\<lambda>_ _ _. Inl Undefined_access),
     on_ecall = ecall_handler sys, on_ebreak = ebreak_handler trap, on_trap = trap\<rparr>"

text \<open>The environment of an instruction that is not part of a block: it has no links.\<close>

definition lone_env :: "system_t \<Rightarrow> (riscv_t \<Rightarrow> riscv_t outcome) \<Rightarrow> env_t" where
  "lone_env sys trap = \<lparr>env_io = system_io sys trap, env_sf = softfloat sys, has_next = False,
     taken_link = False, untaken_link = False, block_known = (\<lambda>_. False)\<rparr>"

fun trap_handler :: "system_t \<Rightarrow> nat \<Rightarrow> riscv_t \<Rightarrow> riscv_t outcome" where
  "trap_handler sys 0 rv = Inl Out_of_fuel"
| "trap_handler sys (Suc n) rv =
    (case trap_entry rv of
       (False, rv) \<Rightarrow> Inr rv
     | (True, rv) \<Rightarrow>
         if is_trapped rv then trap_loop (lone_env sys (trap_handler sys n)) n TRAP_BUDGET zero_insn rv
         else Inr rv)"

end
