(* ===== verification/FuelProps.thy ===== *)
theory FuelProps imports Trap FuseProps begin

text \<open>
  The bound on the nesting of traps does not matter once it is large enough: with callbacks that are
  defined on more states every instruction is defined on more states and otherwise unchanged, and so by
  induction is the trap handler with a larger bound.
\<close>

section \<open>Approximation\<close>

definition approx :: "'a outcome \<Rightarrow> 'a outcome \<Rightarrow> bool" where
  "approx r s \<longleftrightarrow> r = Inl Out_of_fuel \<or> r = s"

lemma approx_refl [simp, intro]: "approx r r" "approx (Inl Out_of_fuel) r"
  by (simp_all add: approx_def)

lemma approx_obind:
  "approx r s \<Longrightarrow> (\<And>x. approx (f x) (g x)) \<Longrightarrow> approx (obind r f) (obind s g)"
  by (cases r; cases s) (auto simp: approx_def)

lemma approx_split: "(\<And>x y. approx (f x y) (g x y)) \<Longrightarrow> approx (case p of (x, y) \<Rightarrow> f x y) (case p of (x, y) \<Rightarrow> g x y)"
  by (cases p) simp

lemma approx_if: "(b \<Longrightarrow> approx r s) \<Longrightarrow> (\<not> b \<Longrightarrow> approx r' s') \<Longrightarrow> approx (if b then r else r') (if b then s else s')"
  by simp

lemma approx_option:
  "approx r s \<Longrightarrow> (\<And>x. approx (f x) (g x)) \<Longrightarrow>
    approx (case z of None \<Rightarrow> r | Some x \<Rightarrow> f x) (case z of None \<Rightarrow> s | Some x \<Rightarrow> g x)"
  by (cases z) simp_all

lemmas approx_steps = approx_refl(1) approx_obind approx_split approx_if approx_option

definition io_le :: "riscv_io_t \<Rightarrow> riscv_io_t \<Rightarrow> bool" where
  "io_le io io' \<longleftrightarrow>
    (\<forall>rv a. approx (mem_ifetch io rv a) (mem_ifetch io' rv a)) \<and>
    (\<forall>rv a. approx (mem_read_w io rv a) (mem_read_w io' rv a)) \<and>
    (\<forall>rv a. approx (mem_read_s io rv a) (mem_read_s io' rv a)) \<and>
    (\<forall>rv a. approx (mem_read_b io rv a) (mem_read_b io' rv a)) \<and>
    (\<forall>rv a v. approx (mem_write_w io rv a v) (mem_write_w io' rv a v)) \<and>
    (\<forall>rv a v. approx (mem_write_s io rv a v) (mem_write_s io' rv a v)) \<and>
    (\<forall>rv a v. approx (mem_write_b io rv a v) (mem_write_b io' rv a v)) \<and>
    (\<forall>rv. approx (on_ecall io rv) (on_ecall io' rv)) \<and>
    (\<forall>rv. approx (on_ebreak io rv) (on_ebreak io' rv)) \<and>
    (\<forall>rv. approx (on_trap io rv) (on_trap io' rv))"

lemma io_leD:
  assumes "io_le io io'"
  shows "approx (mem_ifetch io rv a) (mem_ifetch io' rv a)"
    "approx (mem_read_w io rv a) (mem_read_w io' rv a)" "approx (mem_read_s io rv a) (mem_read_s io' rv a)"
    "approx (mem_read_b io rv a) (mem_read_b io' rv a)" "approx (mem_write_w io rv a w) (mem_write_w io' rv a w)"
    "approx (mem_write_s io rv a h) (mem_write_s io' rv a h)" "approx (mem_write_b io rv a b) (mem_write_b io' rv a b)"
    "approx (on_ecall io rv) (on_ecall io' rv)" "approx (on_ebreak io rv) (on_ebreak io' rv)"
    "approx (on_trap io rv) (on_trap io' rv)"
  using assms by (simp_all add: io_le_def)

definition env_le :: "env_t \<Rightarrow> env_t \<Rightarrow> bool" where
  "env_le e e' \<longleftrightarrow> io_le (env_io e) (env_io e') \<and> e' = e\<lparr>env_io := env_io e'\<rparr>"

lemma env_leD:
  assumes "env_le e e'"
  shows "io_le (env_io e) (env_io e')" "env_sf e' = env_sf e" "has_next e' = has_next e" "taken_link e' = taken_link e"
    "untaken_link e' = untaken_link e" "block_known e' = block_known e"
  using assms by (simp_all add: env_le_def) (metis env_t.select_convs env_t.surjective env_t.update_convs(1))+

section \<open>Memory accesses\<close>

lemma fault_check_approx:
  assumes "\<And>rv. approx (on_trap io rv) (on_trap io' rv)"
  shows "approx (mmu_fault_check io rv pte v bits) (mmu_fault_check io' rv pte v bits)"
  unfolding mmu_fault_check_def SET_CAUSE_AND_TVAL_THEN_TRAP_def
  by (intro approx_steps assms)

lemma translate_approx:
  assumes "\<And>rv. approx (on_trap io rv) (on_trap io' rv)"
  shows "approx (mmu_translate io rv v rw) (mmu_translate io' rv v rw)"
  unfolding mmu_translate_def Let_def
  by (intro approx_steps fault_check_approx assms prod.case_distrib bool.case_distrib)
    (auto split: bool.split intro!: approx_steps fault_check_approx assms)

lemma accesses_approx:
  assumes "\<And>rv. approx (on_trap io rv) (on_trap io' rv)"
  shows "approx (mmu_ifetch io rv a) (mmu_ifetch io' rv a)"
    "approx (mmu_read_w io rv a) (mmu_read_w io' rv a)" "approx (mmu_read_s io rv a) (mmu_read_s io' rv a)"
    "approx (mmu_read_b io rv a) (mmu_read_b io' rv a)" "approx (mmu_write_w io rv a w) (mmu_write_w io' rv a w)"
    "approx (mmu_write_s io rv a h) (mmu_write_s io' rv a h)" "approx (mmu_write_b io rv a b) (mmu_write_b io' rv a b)"
  unfolding mmu_read_w_def mmu_read_s_def mmu_read_b_def mmu_write_w_def mmu_write_s_def mmu_write_b_def mmu_ifetch_def Let_def
  by (auto intro!: approx_steps translate_approx fault_check_approx assms split: bool.split)

lemma system_io_le:
  assumes "\<And>rv. approx (trap rv) (trap' rv)"
  shows "io_le (system_io sys trap) (system_io sys trap')"
  unfolding system_io_def io_le_def
  by (auto simp: ebreak_handler_def intro!: accesses_approx assms)

section \<open>Handlers\<close>

definition body_mono :: "body_t \<Rightarrow> bool" where
  "body_mono code \<longleftrightarrow> (\<forall>e e' ir c p rv. env_le e e' \<longrightarrow> approx (code e ir c p rv) (code e' ir c p rv))"

definition handler_mono :: "handler_t \<Rightarrow> bool" where
  "handler_mono h \<longleftrightarrow> (\<forall>e e' ir c p rv. env_le e e' \<longrightarrow> approx (h e ir c p rv) (h e' ir c p rv))"

lemma frames_mono:
  "body_mono code \<Longrightarrow> handler_mono (RVOP inst code)" "body_mono code \<Longrightarrow> handler_mono (FUSED cyc bts code)"
  unfolding body_mono_def handler_mono_def RVOP_def FUSED_def Let_def next_or_stop_def
  by (auto simp: env_leD intro!: approx_obind)

lemma body_monoI: "(\<And>e e' ir c p rv. env_le e e' \<Longrightarrow> approx (code e ir c p rv) (code e' ir c p rv)) \<Longrightarrow> body_mono code"
  by (simp add: body_mono_def)

lemma guard_approx:
  assumes "env_le e e'" "\<And>rv. approx (f rv) (g rv)"
  shows "approx (misalign_guard m cause cmp a f e c p rv) (misalign_guard m cause cmp a g e' c p rv)"
  unfolding misalign_guard_def by (intro approx_steps io_leD(10) env_leD(1) assms)

lemma pure_mono:
  "body_mono (straight f)" "body_mono (straight_checked g)" "body_mono (reg_op op)" "body_mono (imm_op op)"
  "body_mono (fuse_fold h)" "body_mono (csr_op acc opd)" "body_mono (f_op op)"
  by (simp_all add: body_mono_def straight_def straight_checked_def reg_op_def imm_op_def fuse_fold_def csr_op_def f_op_def)

lemma fp_mono: "body_mono (fp_round f)" "body_mono (fp_to_int g)" "body_mono (fp_compare h)" "body_mono (fp_select lt neg)"
  by (simp_all add: body_mono_def fp_round_def fp_to_int_def fp_compare_def fp_select_def env_leD)

lemma branch_mono: "body_mono (BRANCH_FUNC b)" "body_mono (cbranch b')"
  by (simp_all add: body_mono_def BRANCH_FUNC_def cbranch_def follow_taken_def env_leD)

lemma load_mono:
  assumes "\<And>io io' rv a. io_le io io' \<Longrightarrow> approx (rd0 io rv a) (rd0 io' rv a)"
  shows "body_mono (load_op m cmp address rd0 put)"
  unfolding load_op_def Let_def by (intro body_monoI guard_approx approx_steps assms env_leD(1))

lemma store_mono:
  assumes "\<And>io io' rv a v. io_le io io' \<Longrightarrow> approx (wr io rv a v) (wr io' rv a v)"
  shows "body_mono (store_op m cmp address val wr)"
  unfolding store_op_def Let_def by (intro body_monoI guard_approx approx_steps assms env_leD(1))

lemma amo_mono: "body_mono (amo_op f)"
  unfolding amo_op_def Let_def by (intro body_monoI guard_approx approx_steps io_leD env_leD(1))

lemma fuse3_approx: "env_le e e' \<Longrightarrow> approx (fuse3_loop e c p fs rv) (fuse3_loop e' c p fs rv)"
  by (induction fs arbitrary: rv) (auto simp: Let_def intro!: guard_approx approx_steps io_leD env_leD(1))

lemma fuse4_approx: "env_le e e' \<Longrightarrow> approx (fuse4_loop e c p fs rv) (fuse4_loop e' c p fs rv)"
  by (induction fs arbitrary: rv) (auto simp: Let_def intro!: guard_approx approx_steps io_leD env_leD(1))

lemma access_monos:
  "body_mono (load_op m cmp address mem_read_w put)" "body_mono (load_op m cmp address mem_read_s put')"
  "body_mono (load_op m cmp address mem_read_b put'')" "body_mono (store_op m cmp address val mem_write_w)"
  "body_mono (store_op m cmp address val' mem_write_s)" "body_mono (store_op m cmp address val'' mem_write_b)"
  by (simp_all add: load_mono store_mono io_leD)

lemmas body_monos = pure_mono fp_mono branch_mono amo_mono access_monos

lemmas body_rules = body_monoI guard_approx approx_steps io_leD env_leD(1) fuse3_approx fuse4_approx

lemma rv32i_mono: "handler_mono (dispatch_rv32i i)"
  by (cases i; simp only: dispatch_rv32i.simps handler_defs; rule frames_mono;
      (simp add: body_monos; fail | auto simp: env_leD follow_taken_def lookup_branch_history_def Let_def intro!: body_rules; fail))

lemma priv_mono: "handler_mono (dispatch_priv i)"
  by (cases i; simp only: dispatch_priv.simps handler_defs; rule frames_mono;
      (simp add: body_monos; fail | auto simp: env_leD follow_taken_def lookup_branch_history_def Let_def intro!: body_rules; fail))

lemma zifencei_mono: "handler_mono (dispatch_zifencei i)"
  by (cases i; simp only: dispatch_zifencei.simps handler_defs; rule frames_mono;
      (simp add: body_monos; fail | auto simp: env_leD follow_taken_def lookup_branch_history_def Let_def intro!: body_rules; fail))

lemma zicsr_mono: "handler_mono (dispatch_zicsr i)"
  by (cases i; simp only: dispatch_zicsr.simps handler_defs; rule frames_mono;
      (simp add: body_monos; fail | auto simp: env_leD follow_taken_def lookup_branch_history_def Let_def intro!: body_rules; fail))

lemma zba_mono: "handler_mono (dispatch_zba i)"
  by (cases i; simp only: dispatch_zba.simps handler_defs; rule frames_mono;
      (simp add: body_monos; fail | auto simp: env_leD follow_taken_def lookup_branch_history_def Let_def intro!: body_rules; fail))

lemma zbb_mono: "handler_mono (dispatch_zbb i)"
  by (cases i; simp only: dispatch_zbb.simps handler_defs; rule frames_mono;
      (simp add: body_monos; fail | auto simp: env_leD follow_taken_def lookup_branch_history_def Let_def intro!: body_rules; fail))

lemma zbc_mono: "handler_mono (dispatch_zbc i)"
  by (cases i; simp only: dispatch_zbc.simps handler_defs; rule frames_mono;
      (simp add: body_monos; fail | auto simp: env_leD follow_taken_def lookup_branch_history_def Let_def intro!: body_rules; fail))

lemma zbs_mono: "handler_mono (dispatch_zbs i)"
  by (cases i; simp only: dispatch_zbs.simps handler_defs; rule frames_mono;
      (simp add: body_monos; fail | auto simp: env_leD follow_taken_def lookup_branch_history_def Let_def intro!: body_rules; fail))

lemma rv32m_mono: "handler_mono (dispatch_rv32m i)"
  by (cases i; simp only: dispatch_rv32m.simps handler_defs; rule frames_mono;
      (simp add: body_monos; fail | auto simp: env_leD follow_taken_def lookup_branch_history_def Let_def intro!: body_rules; fail))

lemma rv32a_mono: "handler_mono (dispatch_rv32a i)"
  by (cases i; simp only: dispatch_rv32a.simps handler_defs; rule frames_mono;
      (simp add: body_monos; fail | auto simp: env_leD follow_taken_def lookup_branch_history_def Let_def intro!: body_rules; fail))

lemma rv32f_mono: "handler_mono (dispatch_rv32f i)"
  by (cases i; simp only: dispatch_rv32f.simps handler_defs; rule frames_mono;
      (simp add: body_monos; fail | auto simp: env_leD follow_taken_def lookup_branch_history_def Let_def intro!: body_rules; fail))

lemma rv32c_mono: "handler_mono (dispatch_rv32c i)"
  by (cases i; simp only: dispatch_rv32c.simps handler_defs; rule frames_mono;
      (simp add: body_monos; fail | auto simp: env_leD follow_taken_def lookup_branch_history_def Let_def intro!: body_rules; fail))

lemma rv32fc_mono: "handler_mono (dispatch_rv32fc i)"
  by (cases i; simp only: dispatch_rv32fc.simps handler_defs; rule frames_mono;
      (simp add: body_monos; fail | auto simp: env_leD follow_taken_def lookup_branch_history_def Let_def intro!: body_rules; fail))

lemma fuse_mono: "handler_mono (dispatch_fuse i)"
  by (cases i; simp only: dispatch_fuse.simps handler_defs; rule frames_mono;
      (simp add: body_monos; fail | auto simp: env_leD follow_taken_def lookup_branch_history_def Let_def intro!: body_rules; fail))

lemma exec_approx: "env_le e e' \<Longrightarrow> approx (exec_insn e ir c p rv) (exec_insn e' ir c p rv)"
  using rv32i_mono priv_mono zifencei_mono zicsr_mono zba_mono zbb_mono zbc_mono zbs_mono rv32m_mono rv32a_mono
    rv32f_mono rv32c_mono rv32fc_mono fuse_mono
  unfolding exec_insn_def handler_mono_def by (cases "opcode ir") simp_all

section \<open>The trap handler\<close>

lemma fetch_approx:
  "io_le io io' \<Longrightarrow> n \<le> m \<Longrightarrow> approx (fetch_retrying io n rv) (fetch_retrying io' m rv)"
proof (induction n arbitrary: m rv)
  case (Suc n)
  then obtain m' where "m = Suc m'" "n \<le> m'"
    by (cases m) auto
  with Suc show ?case
    by (auto intro!: approx_steps io_leD)
qed simp

lemma trap_loop_approx:
  "env_le e e' \<Longrightarrow> n \<le> m \<Longrightarrow> approx (trap_loop e n b ir rv) (trap_loop e' m b ir rv)"
  by (induction b arbitrary: ir rv)
    (auto simp: trap_insn_def Let_def intro!: approx_steps fetch_approx exec_approx env_leD(1))

lemma lone_env_le: "(\<And>rv. approx (trap rv) (trap' rv)) \<Longrightarrow> env_le (lone_env sys trap) (lone_env sys trap')"
  using system_io_le [of trap trap' sys] by (simp add: env_le_def lone_env_def)

lemma trap_handler_approx: "n \<le> m \<Longrightarrow> approx (trap_handler sys n rv) (trap_handler sys m rv)"
proof (induction n arbitrary: m rv)
  case (Suc n)
  then obtain m' where m: "m = Suc m'" "n \<le> m'"
    by (cases m) auto
  have "env_le (lone_env sys (trap_handler sys n)) (lone_env sys (trap_handler sys m'))"
    using Suc.IH m(2) by (intro lone_env_le)
  with m show ?case
    by (auto split: prod.split bool.split intro!: trap_loop_approx)
qed simp

end
