(* ===== verification/TrapProps.thy ===== *)
theory TrapProps imports FuelProps Samples begin

text \<open>
  What the trap machinery guarantees: the loop that runs the guest's handler is a bounded run of a step
  relation, a handler that returns within the budget ends the trap, entry and return fit together, and
  the bound on nesting is immaterial.
\<close>

section \<open>The handler as a step relation\<close>

inductive handler_step :: "env_t \<Rightarrow> nat \<Rightarrow> rv_insn_t \<times> riscv_t \<Rightarrow> rv_insn_t \<times> riscv_t \<Rightarrow> bool" for env n where
  step: "is_trapped rv \<Longrightarrow> \<not> halt rv \<Longrightarrow> fetch_retrying (env_io env) n rv = Inr (rv1, insn) \<Longrightarrow> insn \<noteq> 0 \<Longrightarrow>
    trap_insn env ir insn rv1 = Inr (ir', rv') \<Longrightarrow> handler_step env n (ir, rv) (ir', rv')"

inductive_cases handler_stepE: "handler_step env n (ir, rv) s"

text \<open>How the loop ends: the budget is spent, the trap is over or the hart halted, or a fetch gave nothing.\<close>

definition handler_ends :: "env_t \<Rightarrow> nat \<Rightarrow> riscv_t \<Rightarrow> riscv_t \<Rightarrow> bool" where
  "handler_ends env n rv rv' \<longleftrightarrow>
    (if is_trapped rv \<and> \<not> halt rv then fetch_retrying (env_io env) n rv = Inr (rv', 0) else rv' = rv)"

lemma trap_loop_steps:
  assumes "(handler_step env n ^^ k) (ir, rv) (ir', rv')" "k \<le> b"
  shows "trap_loop env n b ir rv = trap_loop env n (b - k) ir' rv'"
  using assms
proof (induction k arbitrary: ir rv b)
  case (Suc k)
  from Suc.prems(1) obtain s where s: "handler_step env n (ir, rv) s" "(handler_step env n ^^ k) s (ir', rv')"
    by (rule relpowp_Suc_E2)
  obtain b' where b: "b = Suc b'" "k \<le> b'"
    using Suc.prems(2) by (cases b) auto
  from s(1) obtain ir1 rv1 where "s = (ir1, rv1)" "trap_loop env n b ir rv = trap_loop env n b' ir1 rv1"
    by (auto simp: b elim!: handler_stepE)
  with Suc.IH [of ir1 rv1 b'] s(2) b show ?case
    by simp
qed simp

lemma trap_loop_ends:
  assumes "trap_loop env n b ir rv = Inr rv'"
  shows "\<exists>k ir1 rv1. k \<le> b \<and> (handler_step env n ^^ k) (ir, rv) (ir1, rv1) \<and>
    (k = b \<and> rv' = rv1 \<or> handler_ends env n rv1 rv')"
  using assms
proof (induction b arbitrary: ir rv)
  case (Suc b)
  show ?case
  proof (cases "is_trapped rv \<and> \<not> halt rv \<and> fetch_retrying (env_io env) n rv \<noteq> Inr (rv', 0)")
    case True
    with Suc.prems obtain rv1 insn ir2 rv2 where go: "fetch_retrying (env_io env) n rv = Inr (rv1, insn)" "insn \<noteq> 0"
      "trap_insn env ir insn rv1 = Inr (ir2, rv2)" "trap_loop env n b ir2 rv2 = Inr rv'"
      by (auto simp: obind_Inr_iff split: if_splits)
    with True have "handler_step env n (ir, rv) (ir2, rv2)"
      by (auto intro: handler_step.intros)
    moreover from Suc.IH [OF go(4)] obtain k ir1 rv1 where "k \<le> b" "(handler_step env n ^^ k) (ir2, rv2) (ir1, rv1)"
      "k = b \<and> rv' = rv1 \<or> handler_ends env n rv1 rv'"
      by blast
    moreover from calculation(1, 3) have "(handler_step env n ^^ Suc k) (ir, rv) (ir1, rv1)"
      by (rule relpowp_Suc_I2)
    ultimately show ?thesis
      by (intro exI [of _ "Suc k"] exI [of _ ir1] exI [of _ rv1]) auto
  next
    case False
    with Suc.prems show ?thesis
      by (intro exI [of _ 0] exI [of _ ir] exI [of _ rv]) (auto simp: handler_ends_def)
  qed
qed (auto intro: exI [of _ 0])

lemma trap_loop_result:
  "trap_loop env n b ir rv = Inr rv' \<longleftrightarrow>
    (\<exists>k ir1 rv1. (handler_step env n ^^ k) (ir, rv) (ir1, rv1) \<and>
      (k = b \<and> rv' = rv1 \<or> k < b \<and> handler_ends env n rv1 rv'))"
proof
  assume "trap_loop env n b ir rv = Inr rv'"
  from trap_loop_ends [OF this] obtain k ir1 rv1 where k: "k \<le> b" "(handler_step env n ^^ k) (ir, rv) (ir1, rv1)"
    "k = b \<and> rv' = rv1 \<or> handler_ends env n rv1 rv'"
    by blast
  have "trap_loop env n b ir rv = trap_loop env n (b - k) ir1 rv1"
    by (rule trap_loop_steps [OF k(2, 1)])
  with k \<open>trap_loop env n b ir rv = Inr rv'\<close>
  show "\<exists>k ir1 rv1. (handler_step env n ^^ k) (ir, rv) (ir1, rv1) \<and>
      (k = b \<and> rv' = rv1 \<or> k < b \<and> handler_ends env n rv1 rv')"
    by (cases "k = b") (auto intro!: exI [of _ k] exI [of _ ir1] exI [of _ rv1])
next
  assume "\<exists>k ir1 rv1. (handler_step env n ^^ k) (ir, rv) (ir1, rv1) \<and>
      (k = b \<and> rv' = rv1 \<or> k < b \<and> handler_ends env n rv1 rv')"
  then obtain k ir1 rv1 where k: "(handler_step env n ^^ k) (ir, rv) (ir1, rv1)"
    "k = b \<and> rv' = rv1 \<or> k < b \<and> handler_ends env n rv1 rv'"
    by blast
  then have "trap_loop env n b ir rv = trap_loop env n (b - k) ir1 rv1"
    by (intro trap_loop_steps) auto
  moreover have "trap_loop env n (Suc j) ir1 rv1 = Inr rv'" if "handler_ends env n rv1 rv'" for j
    using that by (auto simp: handler_ends_def split: if_splits)
  ultimately show "trap_loop env n b ir rv = Inr rv'"
    using k(2) by (cases "b - k") auto
qed

section \<open>Entry and return\<close>

text \<open>The status registers after a trap and the return from it: the enable bit is set when it was set
  before or when a stale previous-enable bit was.\<close>

definition returned_mstatus :: "u32 \<Rightarrow> u32" where
  "returned_mstatus s = (s AND NOT 0x1888) OR (if bit s 3 \<or> bit s 7 then 0x8 else 0) OR 0x80"

definition returned_sstatus :: "u32 \<Rightarrow> u32" where
  "returned_sstatus s = (s AND NOT 0x122) OR (if bit s 1 \<or> bit s 5 then 0x2 else 0) OR 0x20"

lemma mret_stacked: "mret_status (stack_mstatus 3 s) = returned_mstatus s"
  by (simp add: word32_eq_iff mret_status_def stack_mstatus_def returned_mstatus_def Let_def less_32_all word_bits)

lemma sret_bits: "\<forall>n<32. bit (sret_status s) n \<longleftrightarrow> n = 1 \<and> bit s 5 \<or> n = 5 \<or> n \<noteq> 8 \<and> bit s n"
  unfolding sret_status_def Let_def less_32_all by (simp add: word_bits del: SIE_SHIFT_def) auto

lemma sstack_bits:
  "p \<in> {0, 1} \<Longrightarrow> \<forall>n<32. bit (stack_sstatus p s) n \<longleftrightarrow>
    n = 5 \<and> bit s 1 \<or> n = 8 \<and> bit p 0 \<or> n \<noteq> 1 \<and> bit s n"
  unfolding stack_sstatus_def less_32_all by (auto simp: word_bits)

lemma sret_stacked: "p \<in> {0, 1} \<Longrightarrow> sret_status (stack_sstatus p s) = returned_sstatus s"
  using sret_bits [of "stack_sstatus p s"] sstack_bits [of p s]
  unfolding word32_eq_iff by (simp add: returned_sstatus_def less_32_all word_bits)

lemma stacked_priv:
  "drop_bit MPP_SHIFT (stack_mstatus 3 s AND STATUS_MPP) = 3"
  "p \<in> {0, 1} \<Longrightarrow> \<not> bit s 8 \<Longrightarrow> drop_bit SPP_SHIFT (stack_sstatus p s AND STATUS_SPP) = p"
  by (auto simp: word32_eq_iff stack_mstatus_def stack_sstatus_def less_32_all word_bits)

lemma trap_vector_cases:
  "\<exists>q v. trap_vector t cause rv = rv\<lparr>PC := q, clic_vector_valid := v\<rparr>"
proof -
  have "rv = rv\<lparr>PC := PC rv, clic_vector_valid := clic_vector_valid rv\<rparr>"
    "rv\<lparr>PC := q\<rparr> = rv\<lparr>PC := q, clic_vector_valid := clic_vector_valid rv\<rparr>" for q
    by simp_all
  then show ?thesis
    unfolding trap_vector_def Let_def by metis
qed

lemma trap_entry_machine:
  assumes "priv_mode rv = 3" "csr_mtvec (csr rv) \<noteq> 0"
  shows "trap_entry rv = (True, trap_vector (csr_mtvec (csr rv)) (csr_mcause (csr rv))
    (rv\<lparr>priv_mode := 3, csr := (csr rv)\<lparr>csr_mstatus := stack_mstatus 3 (csr_mstatus (csr rv)), csr_mepc := PC rv\<rparr>\<rparr>))"
proof -
  have "\<not> RV_PRIV_IS_U_OR_S_MODE rv"
    using assms(1) by (simp add: RV_PRIV_IS_U_OR_S_MODE_def word_le_nat_alt)
  with assms show ?thesis
    by (simp add: trap_entry_def Let_def)
qed

lemma trap_entry_supervisor:
  assumes "priv_mode rv \<in> {0, 1}" "csr_stvec (csr rv) \<noteq> 0"
  shows "trap_entry rv = (True, trap_vector (csr_stvec (csr rv)) (csr_scause (csr rv))
    (rv\<lparr>priv_mode := 1, csr := (csr rv)\<lparr>csr_sstatus := stack_sstatus (priv_mode rv) (csr_sstatus (csr rv)),
      csr_sepc := PC rv\<rparr>, last_csr_sepc := PC rv\<rparr>))"
proof -
  have "RV_PRIV_IS_U_OR_S_MODE rv"
    using assms(1) by (auto simp: RV_PRIV_IS_U_OR_S_MODE_def)
  with assms(2) show ?thesis
    by (simp add: trap_entry_def Let_def)
qed

lemma mret_vector:
  "mret_hart (trap_vector t cause (rv\<lparr>priv_mode := 3, csr := (csr rv)\<lparr>csr_mstatus := s, csr_mepc := PC rv\<rparr>\<rparr>)) =
    rv\<lparr>is_trapped := False, priv_mode := drop_bit MPP_SHIFT (s AND STATUS_MPP),
       csr := (csr rv)\<lparr>csr_mepc := PC rv, csr_mstatus := mret_status s\<rparr>,
       clic_vector_valid := clic_vector_valid (trap_vector t cause rv)\<rparr>"
  by (simp add: mret_hart_def trap_vector_def Let_def)

lemma sret_vector:
  "sret_hart (trap_vector t cause (rv\<lparr>priv_mode := 1, csr := (csr rv)\<lparr>csr_sstatus := s, csr_sepc := PC rv\<rparr>,
      last_csr_sepc := PC rv\<rparr>)) =
    rv\<lparr>is_trapped := False, priv_mode := drop_bit SPP_SHIFT (s AND STATUS_SPP),
       csr := (csr rv)\<lparr>csr_sepc := PC rv, csr_sstatus := sret_status s\<rparr>,
       clic_vector_valid := clic_vector_valid (trap_vector t cause rv), last_csr_sepc := PC rv\<rparr>"
  by (simp add: sret_hart_def trap_vector_def Let_def)

section \<open>A trap handler of one instruction\<close>

definition mret_at_100 :: riscv_t where
  "mret_at_100 = sample_hart\<lparr>is_trapped := True, PC := 0x40, csr := sample_csrs\<lparr>csr_mtvec := 0x100\<rparr>,
     attr := \<lparr>ram = memory_write_w 0x100 0x30200073 \<lparr>mem_base = (\<lambda>_. 0), mem_size = 4096\<rparr>, vm_mem_size = 4096,
       allow_misalign = False\<rparr>\<rparr>"

definition mret_insn :: rv_insn_t where
  "mret_insn = zero_insn\<lparr>imm := 770, opcode := PRIV rv_insn_mret\<rparr>"

lemma decode_mret: "rv_decode zero_insn 0x30200073 = Inr (True, mret_insn)"
  by code_simp

lemma mret_at_100_entry:
  obtains h where "trap_entry mret_at_100 = (True, h)" "is_trapped h" "csr_satp (csr h) = 0" "PC h = 0x100"
    "ram (attr h) = ram (attr mret_at_100)" "csr_mepc (csr h) = 0x40" "\<not> halt h"
  using trap_entry_machine [of mret_at_100]
  by (simp add: mret_at_100_def trap_vector_def sample_csrs_def sample_hart_def)

lemma mret_at_100_step:
  assumes "trap_entry mret_at_100 = (True, h)"
  shows "\<exists>rv'. handler_step (lone_env sys trap) 1 (zero_insn, h) (mret_insn, rv') \<and> \<not> is_trapped rv' \<and> PC rv' = 0x40"
proof -
  have h: "is_trapped h" "csr_satp (csr h) = 0" "PC h = 0x100" "ram (attr h) = ram (attr mret_at_100)"
    "csr_mepc (csr h) = 0x40" "\<not> halt h"
    using mret_at_100_entry assms by auto
  have "memory_ifetch (ram (attr h)) 0x100 = 0x30200073"
    by (simp add: h mret_at_100_def memory_ifetch_def)
  then have fetch: "fetch_retrying (env_io (lone_env sys trap)) 1 h = Inr (h, 0x30200073)"
    using h by (simp add: lone_env_def system_io_def mmu_ifetch_def)
  obtain rv' where "trap_insn (lone_env sys trap) zero_insn 0x30200073 h = Inr (mret_insn, rv')"
    "\<not> is_trapped rv'" "PC rv' = 0x40"
    by (simp add: trap_insn_def decode_mret mret_insn_def exec_insn_def do_mret_def RVOP_def mret_hart_def h Let_def set_glob_def)
  with handler_step.intros [OF h(1, 6) fetch _ this(1)] show ?thesis
    by auto
qed

section \<open>A trap handler that does not end\<close>

text \<open>\<open>JAL x0, 0\<close> at the trap vector.\<close>

definition loop_at_100 :: riscv_t where
  "loop_at_100 = sample_hart\<lparr>is_trapped := True, PC := 0x40, csr := sample_csrs\<lparr>csr_mtvec := 0x100\<rparr>,
     attr := \<lparr>ram = memory_write_w 0x100 0x6F \<lparr>mem_base = (\<lambda>_. 0), mem_size = 4096\<rparr>, vm_mem_size = 4096,
       allow_misalign = False\<rparr>\<rparr>"

definition loop_insn :: rv_insn_t where
  "loop_insn = zero_insn\<lparr>opcode := RV32I rv_insn_jal\<rparr>"

lemma decode_loop_insn: "rv_decode zero_insn 0x6F = Inr (True, loop_insn)" "rv_decode loop_insn 0x6F = Inr (True, loop_insn)"
  by code_simp+

definition spinning :: "riscv_t \<Rightarrow> bool" where
  "spinning rv \<longleftrightarrow> is_trapped rv \<and> \<not> halt rv \<and> PC rv = 0x100 \<and> csr_satp (csr rv) = 0 \<and> attr rv = attr loop_at_100"

lemma loop_at_100_entry:
  obtains h where "trap_entry loop_at_100 = (True, h)" "is_trapped h" "spinning h"
  using trap_entry_machine [of loop_at_100]
  by (simp add: loop_at_100_def trap_vector_def sample_csrs_def sample_hart_def spinning_def)

lemma spinning_step:
  assumes "spinning rv" "ir \<in> {zero_insn, loop_insn}"
  shows "\<exists>rv'. handler_step (lone_env sys trap) 1 (ir, rv) (loop_insn, rv') \<and> spinning rv'"
proof -
  have rv: "is_trapped rv" "\<not> halt rv" "PC rv = 0x100" "csr_satp (csr rv) = 0" "attr rv = attr loop_at_100"
    using assms(1) by (simp_all add: spinning_def)
  have "memory_ifetch (ram (attr rv)) 0x100 = 0x6F"
    by (simp add: rv loop_at_100_def memory_ifetch_def)
  then have fetch: "fetch_retrying (env_io (lone_env sys trap)) 1 rv = Inr (rv, 0x6F)"
    using rv by (simp add: lone_env_def system_io_def mmu_ifetch_def)
  have dec: "rv_decode ir 0x6F = Inr (True, loop_insn)"
    using assms(2) decode_loop_insn by auto
  obtain rv' where step: "trap_insn (lone_env sys trap) ir 0x6F rv = Inr (loop_insn, rv')" and "spinning rv'"
    using rv by (simp add: trap_insn_def dec exec_insn_def do_jal_def RVOP_def follow_taken_def lone_env_def link_X_def
        loop_insn_def zero_insn_def end_op_def set_cycle_def set_csr_def set_glob_def spinning_def Let_def)
  with handler_step.intros [OF rv(1, 2) fetch _ step] show ?thesis
    by auto
qed

lemma spinning_steps:
  assumes "spinning h"
  shows "\<exists>ir rv'. (handler_step (lone_env sys trap) 1 ^^ k) (zero_insn, h) (ir, rv') \<and> spinning rv'"
proof -
  have "\<exists>ir\<in>{zero_insn, loop_insn}. \<exists>rv'. (handler_step (lone_env sys trap) 1 ^^ k) (zero_insn, h) (ir, rv') \<and> spinning rv'"
  proof (induction k)
    case (Suc k)
    then obtain ir rv' where s: "ir \<in> {zero_insn, loop_insn}" "spinning rv'"
      "(handler_step (lone_env sys trap) 1 ^^ k) (zero_insn, h) (ir, rv')"
      by blast
    obtain rv'' where t: "handler_step (lone_env sys trap) 1 (ir, rv') (loop_insn, rv'')" "spinning rv''"
      using spinning_step [OF s(2, 1)] by blast
    then show ?case
      using relpowp_Suc_I [OF s(3) t(1)] by blast
  qed (use assms in auto)
  then show ?thesis
    by blast
qed

definition sample_system :: system_t where
  "sample_system = \<lparr>syscall_handler = Inr, softfloat = sample_softfloat\<rparr>"

lemma mret_at_100_handled: "\<exists>rv'. trap_handler sample_system (Suc 1) mret_at_100 = Inr rv'"
proof -
  obtain h where h: "trap_entry mret_at_100 = (True, h)" "is_trapped h"
    by (rule mret_at_100_entry)
  obtain rv' where "handler_step (lone_env sample_system (trap_handler sample_system 1)) 1 (zero_insn, h) (mret_insn, rv')"
    "\<not> is_trapped rv'"
    using mret_at_100_step [OF h(1)] by blast
  then have "trap_loop (lone_env sample_system (trap_handler sample_system 1)) 1 TRAP_BUDGET zero_insn h = Inr rv'"
    by (auto simp: numeral_nat elim!: handler_stepE)
  with h show ?thesis
    by simp
qed

section \<open>Properties\<close>

text \<open>C26: Entering a trap and returning from it fit together: with a trap vector configured, \<open>MRET\<close> after
  a trap in machine mode (and \<open>SRET\<close> after one in user or supervisor mode, if \<open>SPP\<close> was clear) resumes at
  the interrupted instruction, in the interrupted privilege mode, with the same registers and memory, and
  no longer trapped. The interrupt enable is set again if it was set, but also if the previous-enable
  bit was still set from an earlier trap, because entry only ever sets that bit.\<close>

theorem trap_return_roundtrip:
  "(priv_mode rv = 3 \<and> csr_mtvec (csr rv) \<noteq> 0 \<longrightarrow>
      (\<exists>h v. trap_entry rv = (True, h) \<and>
        mret_hart h = rv\<lparr>is_trapped := False, clic_vector_valid := v,
          csr := (csr rv)\<lparr>csr_mepc := PC rv, csr_mstatus := returned_mstatus (csr_mstatus (csr rv))\<rparr>\<rparr>)) \<and>
   (priv_mode rv \<in> {0, 1} \<and> csr_stvec (csr rv) \<noteq> 0 \<and> \<not> bit (csr_sstatus (csr rv)) 8 \<longrightarrow>
      (\<exists>h v. trap_entry rv = (True, h) \<and>
        sret_hart h = rv\<lparr>is_trapped := False,
          csr := (csr rv)\<lparr>csr_sepc := PC rv, csr_sstatus := returned_sstatus (csr_sstatus (csr rv))\<rparr>,
          clic_vector_valid := v, last_csr_sepc := PC rv\<rparr>))"
proof (intro conjI impI)
  assume m: "priv_mode rv = 3 \<and> csr_mtvec (csr rv) \<noteq> 0"
  have "\<exists>v. mret_hart (trap_vector (csr_mtvec (csr rv)) (csr_mcause (csr rv))
      (rv\<lparr>priv_mode := 3, csr := (csr rv)\<lparr>csr_mstatus := stack_mstatus 3 (csr_mstatus (csr rv)), csr_mepc := PC rv\<rparr>\<rparr>)) =
    rv\<lparr>is_trapped := False, priv_mode := 3, csr := (csr rv)\<lparr>csr_mepc := PC rv,
      csr_mstatus := returned_mstatus (csr_mstatus (csr rv))\<rparr>, clic_vector_valid := v\<rparr>"
    unfolding mret_vector stacked_priv(1) mret_stacked by blast
  moreover have "rv\<lparr>is_trapped := False, priv_mode := 3, csr := c, clic_vector_valid := v\<rparr> =
      rv\<lparr>is_trapped := False, clic_vector_valid := v, csr := c\<rparr>" for c v
    using m by (cases rv) simp
  ultimately show "\<exists>h v. trap_entry rv = (True, h) \<and>
        mret_hart h = rv\<lparr>is_trapped := False, clic_vector_valid := v,
          csr := (csr rv)\<lparr>csr_mepc := PC rv, csr_mstatus := returned_mstatus (csr_mstatus (csr rv))\<rparr>\<rparr>"
    using m by (simp add: trap_entry_machine)
next
  assume s: "priv_mode rv \<in> {0, 1} \<and> csr_stvec (csr rv) \<noteq> 0 \<and> \<not> bit (csr_sstatus (csr rv)) 8"
  then have priv: "drop_bit SPP_SHIFT (stack_sstatus (priv_mode rv) (csr_sstatus (csr rv)) AND STATUS_SPP) = priv_mode rv"
    and status: "sret_status (stack_sstatus (priv_mode rv) (csr_sstatus (csr rv))) = returned_sstatus (csr_sstatus (csr rv))"
    using sret_stacked stacked_priv(2) by blast+
  have "\<exists>v. sret_hart (trap_vector (csr_stvec (csr rv)) (csr_scause (csr rv))
      (rv\<lparr>priv_mode := 1, csr := (csr rv)\<lparr>csr_sstatus := stack_sstatus (priv_mode rv) (csr_sstatus (csr rv)),
        csr_sepc := PC rv\<rparr>, last_csr_sepc := PC rv\<rparr>)) =
    rv\<lparr>is_trapped := False, priv_mode := priv_mode rv, csr := (csr rv)\<lparr>csr_sepc := PC rv,
      csr_sstatus := returned_sstatus (csr_sstatus (csr rv))\<rparr>, clic_vector_valid := v, last_csr_sepc := PC rv\<rparr>"
    unfolding sret_vector priv status by blast
  then show "\<exists>h v. trap_entry rv = (True, h) \<and>
        sret_hart h = rv\<lparr>is_trapped := False,
          csr := (csr rv)\<lparr>csr_sepc := PC rv, csr_sstatus := returned_sstatus (csr_sstatus (csr rv))\<rparr>,
          clic_vector_valid := v, last_csr_sepc := PC rv\<rparr>"
    using s by (simp add: trap_entry_supervisor)
qed

theorem trap_return_roundtrip_witness:
  "\<exists>h. trap_entry (sample_hart\<lparr>csr := sample_csrs\<lparr>csr_mtvec := 0x100\<rparr>\<rparr>) = (True, h) \<and>
    PC (mret_hart h) = 0 \<and> priv_mode (mret_hart h) = 3"
proof -
  obtain h v where "trap_entry (sample_hart\<lparr>csr := sample_csrs\<lparr>csr_mtvec := 0x100\<rparr>\<rparr>) = (True, h)"
    "mret_hart h = sample_hart\<lparr>is_trapped := False, clic_vector_valid := v, csr := sample_csrs\<lparr>csr_mtvec := 0x100,
      csr_mepc := 0, csr_mstatus := returned_mstatus (csr_mstatus sample_csrs)\<rparr>\<rparr>"
    using trap_return_roundtrip [of "sample_hart\<lparr>csr := sample_csrs\<lparr>csr_mtvec := 0x100\<rparr>\<rparr>"] by auto
  then show ?thesis
    by simp
qed



text \<open>C28: Once a trap has entered the guest's handler, \<open>trap_handler\<close> gives it exactly 20000 instructions. It returns a hart if and only if
  that is the hart after 20000 instructions of the handler, or the hart after fewer instructions on which the
  handler stopped because the trap was over, the hart had halted, or a fetch produced no instruction. So a
  handler that never ends is abandoned after its 20000th instruction, wherever it is then, and no handler that
  ends in time is cut off.\<close>

theorem trap_budget:
  assumes "trap_entry rv = (True, h)" "is_trapped h"
  shows "trap_handler sys (Suc n) rv = Inr rv' \<longleftrightarrow>
    (\<exists>k ir1 rv1. (handler_step (lone_env sys (trap_handler sys n)) n ^^ k) (zero_insn, h) (ir1, rv1) \<and>
      (k = 20000 \<and> rv' = rv1 \<or> k < 20000 \<and> handler_ends (lone_env sys (trap_handler sys n)) n rv1 rv'))"
  using assms trap_loop_result [of "lone_env sys (trap_handler sys n)" n TRAP_BUDGET zero_insn h rv'] by simp

text \<open>The handler that jumps to itself is left trapped at its only instruction.\<close>

theorem trap_budget_witness:
  "\<exists>rv'. trap_handler sample_system (Suc 1) loop_at_100 = Inr rv' \<and> is_trapped rv' \<and> PC rv' = 0x100"
proof -
  obtain h where h: "trap_entry loop_at_100 = (True, h)" "is_trapped h" "spinning h"
    by (rule loop_at_100_entry)
  obtain ir rv' where "(handler_step (lone_env sample_system (trap_handler sample_system 1)) 1 ^^ 20000) (zero_insn, h) (ir, rv')"
      "spinning rv'"
    using spinning_steps [OF h(3)] by blast
  then show ?thesis
    using trap_budget [OF h(1, 2), of sample_system 1 rv'] by (auto simp: spinning_def simp del: relpowp.simps trap_handler.simps)
qed

text \<open>The bound on the nesting of traps and on repeated fetches is immaterial: once a trap is handled
  with some bound, it is handled in the same way with every larger one.\<close>

theorem trap_bound_immaterial:
  assumes "trap_handler sys n rv = Inr rv'" "n \<le> m"
  shows "trap_handler sys m rv = Inr rv'"
  using trap_handler_approx [OF assms(2), of sys rv] assms(1) by (simp add: approx_def)

theorem trap_bound_immaterial_witness:
  "\<exists>sys rv'. trap_handler sys 2 mret_at_100 = Inr rv' \<and> trap_handler sys 1000000 mret_at_100 = Inr rv'"
proof -
  obtain rv' where rv': "trap_handler sample_system (Suc 1) mret_at_100 = Inr rv'"
    using mret_at_100_handled by blast
  from trap_bound_immaterial [OF this, of 1000000] this show ?thesis
    unfolding Suc_1 by auto
qed

end
