(* ===== verification/BlockMap.thy ===== *)
theory BlockMap imports Interfaces Insn begin

text \<open>
  The cache of translated blocks (\<open>block_insert\<close>, \<open>block_find\<close>, \<open>block_l1_update\<close> and
  \<open>block_lookup_or_find\<close> of \<open>src/src/emulate.c\<close>, \<open>block_map_clear\<close> of \<open>src/src/riscv.c\<close>): a hash table
  with linear probing behind a direct-mapped first-level cache. A pointer to a block is the block
  itself; the probe loops have no bound in the source and are partial here. The second half shows that
  both levels together implement a finite map from start addresses to blocks.
\<close>

section \<open>Blocks\<close>

record block_t =
  pc_start :: u32
  pc_end :: u32
  cycle_cost :: u32
  ir_list :: "rv_insn_t list"

definition n_insn :: "block_t \<Rightarrow> nat" where
  "n_insn block = length (ir_list block)"

section \<open>The hash table\<close>

record block_map_t =
  block_capacity :: u32
  bm_size :: u32
  bm_map :: "u32 \<Rightarrow> block_t option"

definition BLOCK_MAP_CAPACITY_BITS :: nat where [simp]: "BLOCK_MAP_CAPACITY_BITS = 10"

definition block_map_init :: "nat \<Rightarrow> block_map_t" where
  "block_map_init bits = \<lparr>block_capacity = push_bit bits 1, bm_size = 0, bm_map = (\<lambda>_. None)\<rparr>"

definition map_hash :: "u32 \<Rightarrow> u32" where
  "map_hash val =
    drop_bit (32 - BLOCK_MAP_CAPACITY_BITS) (val * 0x61C88647) AND (push_bit BLOCK_MAP_CAPACITY_BITS 1 - 1)"

partial_function (option) free_slot :: "(u32 \<Rightarrow> block_t option) \<Rightarrow> u32 \<Rightarrow> u32 \<Rightarrow> u32 option" where
  "free_slot m mask0 index =
    (if m (index AND mask0) = None then Some (index AND mask0) else free_slot m mask0 (index + 1))"

partial_function (option) find_from ::
    "(u32 \<Rightarrow> block_t option) \<Rightarrow> u32 \<Rightarrow> u32 \<Rightarrow> u32 \<Rightarrow> block_t option option" where
  "find_from m mask0 addr index =
    (case m (index AND mask0) of
       None \<Rightarrow> Some None
     | Some block \<Rightarrow> if pc_start block = addr then Some (Some block) else find_from m mask0 addr (index + 1))"

definition block_insert_map :: "block_t \<Rightarrow> block_map_t \<Rightarrow> block_map_t option" where
  "block_insert_map block t =
    map_option (\<lambda>i. t\<lparr>bm_map := (bm_map t)(i \<mapsto> block), bm_size := bm_size t + 1\<rparr>)
      (free_slot (bm_map t) (block_capacity t - 1) (map_hash (pc_start block)))"

definition block_find :: "block_map_t \<Rightarrow> u32 \<Rightarrow> block_t option option" where
  "block_find t addr = find_from (bm_map t) (block_capacity t - 1) addr (map_hash addr)"

definition clear_map :: "block_map_t \<Rightarrow> block_map_t" where
  "clear_map t = t\<lparr>bm_map := (\<lambda>_. None), bm_size := 0\<rparr>"

section \<open>The first-level cache\<close>

record block_l1_cache_t =
  tags :: "u32 \<Rightarrow> u32"
  ptrs :: "u32 \<Rightarrow> block_t option"

record block_cache_t =
  hash_map :: block_map_t
  l1_cache :: block_l1_cache_t

definition BLOCK_L1_MASK :: u32 where [simp]: "BLOCK_L1_MASK = 255"
definition BLOCK_L1_INDEX_SHIFT :: nat where [simp]: "BLOCK_L1_INDEX_SHIFT = 1"
definition BLOCK_L1_INVALID_TAG :: u32 where [simp]: "BLOCK_L1_INVALID_TAG = 0xFFFFFFFF"

definition l1_index :: "u32 \<Rightarrow> u32" where
  "l1_index addr = drop_bit BLOCK_L1_INDEX_SHIFT addr AND BLOCK_L1_MASK"

definition l1_put :: "u32 \<Rightarrow> block_t \<Rightarrow> block_l1_cache_t \<Rightarrow> block_l1_cache_t" where
  "l1_put addr block l1 =
    l1\<lparr>tags := (tags l1)(l1_index addr := addr), ptrs := (ptrs l1)(l1_index addr \<mapsto> block)\<rparr>"

definition block_l1_update :: "block_t \<Rightarrow> block_l1_cache_t \<Rightarrow> block_l1_cache_t" where
  "block_l1_update block = l1_put (pc_start block) block"

definition block_insert :: "block_t \<Rightarrow> block_cache_t \<Rightarrow> block_cache_t option" where
  "block_insert block c =
    map_option (\<lambda>t. c\<lparr>hash_map := t, l1_cache := block_l1_update block (l1_cache c)\<rparr>)
      (block_insert_map block (hash_map c))"

definition block_lookup_or_find :: "block_cache_t \<Rightarrow> u32 \<Rightarrow> (block_t option \<times> block_cache_t) option" where
  "block_lookup_or_find c addr =
    (if tags (l1_cache c) (l1_index addr) = addr then Some (ptrs (l1_cache c) (l1_index addr), c)
     else map_option (\<lambda>r. case r of
            None \<Rightarrow> (None, c)
          | Some block \<Rightarrow> (Some block, c\<lparr>l1_cache := l1_put addr block (l1_cache c)\<rparr>))
          (block_find (hash_map c) addr))"

definition invalid_l1 :: block_l1_cache_t where
  "invalid_l1 = \<lparr>tags = (\<lambda>_. BLOCK_L1_INVALID_TAG), ptrs = (\<lambda>_. None)\<rparr>"

text \<open>The pools the blocks return to are not part of this state.\<close>

definition block_map_clear :: "block_cache_t \<Rightarrow> block_cache_t" where
  "block_map_clear c = c\<lparr>hash_map := clear_map (hash_map c), l1_cache := invalid_l1\<rparr>"

definition block_cache_init :: block_cache_t where
  "block_cache_init = \<lparr>hash_map = block_map_init BLOCK_MAP_CAPACITY_BITS, l1_cache = invalid_l1\<rparr>"

section \<open>Probing\<close>

text \<open>The slots a search visits, from the hash of an address on.\<close>

definition slot :: "u32 \<Rightarrow> nat \<Rightarrow> u32" where
  "slot index k = (index + of_nat k) AND 1023"

lemma find_from_None: "m (index AND mask0) = None \<Longrightarrow> find_from m mask0 addr index = Some None"
  by (subst find_from.simps) simp

lemma find_from_hit:
  "m (index AND mask0) = Some block \<Longrightarrow> pc_start block = addr \<Longrightarrow> find_from m mask0 addr index = Some (Some block)"
  by (subst find_from.simps) simp

lemma find_from_other:
  "m (index AND mask0) = Some block \<Longrightarrow> pc_start block \<noteq> addr \<Longrightarrow>
    find_from m mask0 addr index = find_from m mask0 addr (index + 1)"
  by (subst find_from.simps) simp

lemma slot_Suc: "slot index (Suc k) = slot (index + 1) k"
  by (simp add: slot_def algebra_simps)

text \<open>A search passes over occupied slots with other addresses.\<close>

lemma find_from_skip:
  assumes "\<forall>j<k. \<exists>b. m (slot index j) = Some b \<and> pc_start b \<noteq> addr"
  shows "find_from m 1023 addr index = find_from m 1023 addr (index + of_nat k)"
  using assms
proof (induction k arbitrary: index)
  case (Suc k)
  obtain b where b: "m (index AND 1023) = Some b" "pc_start b \<noteq> addr"
    using Suc.prems [rule_format, of 0] by (auto simp: slot_def)
  have "find_from m 1023 addr index = find_from m 1023 addr (index + 1)"
    using b by (intro find_from_other) simp_all
  also have "\<dots> = find_from m 1023 addr (index + 1 + of_nat k)"
    using Suc.prems by (intro Suc.IH) (auto simp flip: slot_Suc)
  finally show ?case
    by (simp add: algebra_simps)
qed simp

lemma free_slot_at:
  assumes "\<forall>j<k. m (slot index j) \<noteq> None" "m (slot index k) = None"
  shows "free_slot m 1023 index = Some (slot index k)"
  using assms
proof (induction k arbitrary: index)
  case 0
  then show ?case
    by (subst free_slot.simps) (simp add: slot_def)
next
  case (Suc k)
  have "m (index AND 1023) \<noteq> None"
    using Suc.prems(1) [rule_format, of 0] by (simp add: slot_def)
  then have "free_slot m 1023 index = free_slot m 1023 (index + 1)"
    by (subst free_slot.simps) auto
  also have "\<dots> = Some (slot (index + 1) k)"
    using Suc.prems by (intro Suc.IH) (auto simp flip: slot_Suc)
  finally show ?case
    by (simp add: slot_Suc)
qed

section \<open>The invariant of the hash table\<close>

text \<open>A block sits on the probe path of its own address, behind blocks with other addresses.\<close>

definition on_path :: "(u32 \<Rightarrow> block_t option) \<Rightarrow> u32 \<Rightarrow> u32 \<Rightarrow> nat \<Rightarrow> bool" where
  "on_path m addr i k \<longleftrightarrow> i = slot (map_hash addr) k \<and>
    (\<forall>j<k. \<exists>b. m (slot (map_hash addr) j) = Some b \<and> pc_start b \<noteq> addr)"

definition wf_map :: "block_map_t \<Rightarrow> bool" where
  "wf_map t \<longleftrightarrow> block_capacity t = 1024 \<and> dom (bm_map t) \<subseteq> {..<1024} \<and>
    unat (bm_size t) = card (dom (bm_map t)) \<and> bm_size t < 1024 \<and>
    (\<forall>i b. bm_map t i = Some b \<longrightarrow> (\<exists>k. on_path (bm_map t) (pc_start b) i k))"

lemma card_slots: "finite {..<1024 :: u32}" "card {..<1024 :: u32} = 1024"
proof -
  have image: "unat ` {..<1024 :: u32} = {..<1024}"
  proof (intro equalityI subsetI)
    fix n :: nat assume "n \<in> {..<1024}"
    then have "unat (of_nat n :: u32) = n" "(of_nat n :: u32) < 1024"
      by (simp_all add: word_less_nat_alt unat_of_nat take_bit_nat_eq_self)
    then show "n \<in> unat ` {..<1024 :: u32}"
      by (metis imageI lessThan_iff)
  qed (auto simp: word_less_nat_alt)
  have inj: "inj_on unat {..<1024 :: u32}"
    by (auto intro!: inj_onI unsigned_word_eqI)
  show "finite {..<1024 :: u32}"
    by simp
  show "card {..<1024 :: u32} = 1024"
    using card_image [OF inj] image by simp
qed

lemma and_1023: "x AND 1023 = take_bit 10 x" for x :: u32
  by (simp add: take_bit_eq_mask mask_eq_exp_minus_1)

lemma slot_reaches:
  assumes "i < 1024"
  shows "\<exists>k. slot h k = i"
proof -
  have "unat (take_bit 10 i) = unat i"
    using assms by (simp add: unsigned_take_bit_eq take_bit_nat_eq_self word_less_nat_alt)
  then have "take_bit 10 i = i"
    by (rule unsigned_word_eqI)
  then have "slot h (unat (i - h)) = i"
    by (simp add: slot_def and_1023)
  then show ?thesis ..
qed

text \<open>There is a free slot on every probe path, so every search returns.\<close>

lemma first_free:
  assumes "wf_map t"
  obtains k where "bm_map t (slot h k) = None" "\<forall>j<k. bm_map t (slot h j) \<noteq> None"
proof -
  have "card (dom (bm_map t)) < card {..<1024 :: u32}" "dom (bm_map t) \<subseteq> {..<1024}"
    using assms by (simp_all add: wf_map_def card_slots word_less_nat_alt)
  then have "\<not> {..<1024} \<subseteq> dom (bm_map t)"
    using card_mono [of "dom (bm_map t)" "{..<1024}"] by auto
  then obtain i where "i < 1024" "bm_map t i = None"
    by (auto simp: subset_iff)
  then have "\<exists>k. bm_map t (slot h k) = None"
    using slot_reaches [of i h] by auto
  from LeastI_ex [OF this] not_less_Least [of _ "\<lambda>k. bm_map t (slot h k) = None"] that show thesis
    by blast
qed

lemma capacity_mask: "wf_map t \<Longrightarrow> block_capacity t - 1 = 1023"
  by (simp add: wf_map_def)

lemma find_present:
  assumes "wf_map t" "bm_map t i = Some b"
  shows "block_find t (pc_start b) = Some (Some b)"
proof -
  obtain k where "on_path (bm_map t) (pc_start b) i k"
    using assms unfolding wf_map_def by blast
  then have path: "i = slot (map_hash (pc_start b)) k"
    "\<forall>j<k. \<exists>b'. bm_map t (slot (map_hash (pc_start b)) j) = Some b' \<and> pc_start b' \<noteq> pc_start b"
    by (simp_all add: on_path_def)
  show ?thesis
    using find_from_skip [OF path(2)] path(1) assms
    by (simp add: block_find_def capacity_mask find_from_hit slot_def)
qed

lemma find_absent:
  assumes "wf_map t" "\<forall>i b. bm_map t i = Some b \<longrightarrow> pc_start b \<noteq> addr"
  shows "block_find t addr = Some None"
proof -
  obtain k where k: "bm_map t (slot (map_hash addr) k) = None" "\<forall>j<k. bm_map t (slot (map_hash addr) j) \<noteq> None"
    by (rule first_free [OF assms(1)])
  then have "find_from (bm_map t) 1023 addr (map_hash addr) = find_from (bm_map t) 1023 addr (map_hash addr + of_nat k)"
    using assms(2) by (intro find_from_skip) force
  with k(1) assms(1) show ?thesis
    by (simp add: block_find_def capacity_mask find_from_None slot_def)
qed

lemma find_cases:
  assumes "wf_map t"
  obtains (present) i b where "bm_map t i = Some b" "pc_start b = addr" "block_find t addr = Some (Some b)"
    | (absent) "\<forall>i b. bm_map t i = Some b \<longrightarrow> pc_start b \<noteq> addr" "block_find t addr = Some None"
proof (cases "\<exists>i b. bm_map t i = Some b \<and> pc_start b = addr")
  case True
  then obtain i b where "bm_map t i = Some b" "pc_start b = addr"
    by blast
  with find_present [OF assms this(1)] show thesis
    by (intro present) simp_all
next
  case False
  then have other: "\<forall>i b. bm_map t i = Some b \<longrightarrow> pc_start b \<noteq> addr"
    by blast
  show thesis
    by (rule absent [OF other find_absent [OF assms other]])
qed

section \<open>The operations keep the invariant\<close>

definition has_room :: "block_map_t \<Rightarrow> bool" where
  "has_room t \<longleftrightarrow> bm_size t < 1023"

lemma wf_clear: "wf_map t \<Longrightarrow> wf_map (clear_map t)"
  by (simp add: wf_map_def clear_map_def)

lemma wf_init: "wf_map (block_map_init BLOCK_MAP_CAPACITY_BITS)"
  by (simp add: wf_map_def block_map_init_def)

lemma slot_small: "slot h k < 1024"
proof -
  have "unat (slot h k) = take_bit 10 (unat (h + of_nat k))"
    by (simp add: slot_def and_1023 unsigned_take_bit_eq)
  also have "\<dots> < 2 ^ 10"
    by (rule take_bit_nat_less_exp)
  finally show ?thesis
    by (simp add: word_less_nat_alt)
qed

lemma on_path_fill:
  assumes "on_path m addr i k" "m j = None"
  shows "on_path (m(j \<mapsto> b)) addr i k"
  using assms by (auto simp: on_path_def)

text \<open>An insertion of an absent address takes the first free slot of its probe path.\<close>

lemma insert_absent:
  assumes wf: "wf_map t" and room: "has_room t" and new: "\<forall>i b. bm_map t i = Some b \<longrightarrow> pc_start b \<noteq> pc_start block"
  obtains i where "bm_map t i = None"
    "block_insert_map block t = Some (t\<lparr>bm_map := (bm_map t)(i \<mapsto> block), bm_size := bm_size t + 1\<rparr>)"
    "wf_map (t\<lparr>bm_map := (bm_map t)(i \<mapsto> block), bm_size := bm_size t + 1\<rparr>)"
proof -
  let ?h = "map_hash (pc_start block)"
  obtain k where k: "bm_map t (slot ?h k) = None" "\<forall>j<k. bm_map t (slot ?h j) \<noteq> None"
    by (rule first_free [OF wf])
  let ?i = "slot ?h k"
  let ?t = "t\<lparr>bm_map := (bm_map t)(?i \<mapsto> block), bm_size := bm_size t + 1\<rparr>"
  have insert: "block_insert_map block t = Some ?t"
    using free_slot_at [OF k(2, 1)] by (simp add: block_insert_map_def capacity_mask [OF wf])
  have "on_path (bm_map t) (pc_start block) ?i k"
    using k(2) new unfolding on_path_def by (metis not_Some_eq)
  then have own: "on_path ((bm_map t)(?i \<mapsto> block)) (pc_start block) ?i k"
    using k(1) by (rule on_path_fill)
  have others: "\<exists>k. on_path ((bm_map t)(?i \<mapsto> block)) (pc_start b) j k" if "bm_map t j = Some b" for j b
  proof -
    have "\<exists>k. on_path (bm_map t) (pc_start b) j k"
      using wf that by (simp add: wf_map_def)
    then show ?thesis
      using on_path_fill [where m = "bm_map t" and j = ?i] k(1) by blast
  qed
  have size: "unat (bm_size t + 1) = Suc (unat (bm_size t))"
    using room by (simp add: has_room_def unat_word_ariths word_less_nat_alt)
  have fin: "finite (dom (bm_map t))"
    using wf by (auto simp: wf_map_def intro: finite_subset [OF _ card_slots(1)])
  have "card (dom ((bm_map t)(?i \<mapsto> block))) = Suc (card (dom (bm_map t)))"
    using k(1) fin by (simp add: card_insert_disjoint domIff)
  then have "wf_map ?t"
    using wf room size own others slot_small [of ?h k]
    by (auto simp: wf_map_def has_room_def word_less_nat_alt)
  with k(1) insert show thesis
    by (rule that)
qed

text \<open>The hash table is a table of blocks found by their start address.\<close>

lemma find_insert_map:
  assumes wf: "wf_map t" and room: "has_room t" and absent: "block_find t (pc_start block) = Some None"
    and insert: "block_insert_map block t = Some t'"
  shows "wf_map t'" "block_find t' addr = (if addr = pc_start block then Some (Some block) else block_find t addr)"
proof -
  have new: "\<forall>i b. bm_map t i = Some b \<longrightarrow> pc_start b \<noteq> pc_start block"
    using find_present [OF wf] absent by force
  from insert_absent [OF wf room this] insert
  obtain i where i: "bm_map t i = None" and t': "t' = t\<lparr>bm_map := (bm_map t)(i \<mapsto> block), bm_size := bm_size t + 1\<rparr>"
    and wf': "wf_map t'"
    by (metis option.inject)
  show "wf_map t'" by (rule wf')
  show "block_find t' addr = (if addr = pc_start block then Some (Some block) else block_find t addr)"
  proof (cases "addr = pc_start block")
    case True
    then show ?thesis
      using find_present [OF wf', of i block] t' by simp
  next
    case False
    from wf show ?thesis
    proof (cases rule: find_cases [where addr = addr])
      case (present j b)
      then have "bm_map t' j = Some b"
        using i t' by auto
      with find_present [OF wf' this] present False show ?thesis
        by simp
    next
      case absent
      then have "block_find t' addr = Some None"
        using t' False by (intro find_absent [OF wf']) auto
      with absent False show ?thesis
        by simp
    qed
  qed
qed

interpretation bm: lookup_table block_find block_insert_map clear_map pc_start wf_map has_room
proof unfold_locales
  fix t k v
  show "wf_map t \<Longrightarrow> \<exists>r. block_find t k = Some r"
    using find_cases [of t k] by metis
  show "wf_map t \<Longrightarrow> block_find t k = Some (Some v) \<Longrightarrow> pc_start v = k"
    using find_cases [of t k] by (metis option.distinct(1) option.inject)
  show "wf_map t \<Longrightarrow> wf_map (clear_map t)"
    by (rule wf_clear)
  show "wf_map t \<Longrightarrow> block_find (clear_map t) k = Some None"
    by (rule find_absent [OF wf_clear]) (simp_all add: clear_map_def)
  fix t'
  show "\<exists>t'. block_insert_map v t = Some t' \<and> wf_map t'"
    if t: "wf_map t" "has_room t" "block_find t (pc_start v) = Some None"
  proof -
    have "\<forall>i b. bm_map t i = Some b \<longrightarrow> pc_start b \<noteq> pc_start v"
      using find_present [OF t(1)] t(3) by force
    then show ?thesis
      using insert_absent [OF t(1, 2)] by metis
  qed
  show "block_find t' k = (if k = pc_start v then Some (Some v) else block_find t k)"
    if "wf_map t" "has_room t" "block_find t (pc_start v) = Some None" "block_insert_map v t = Some t'"
    using find_insert_map(2) [OF that] .
qed

section \<open>Both levels\<close>

definition wf_cache :: "block_cache_t \<Rightarrow> bool" where
  "wf_cache c \<longleftrightarrow> wf_map (hash_map c) \<and>
    (\<forall>addr. tags (l1_cache c) (l1_index addr) = addr \<longrightarrow>
      ptrs (l1_cache c) (l1_index addr) = bm.entries (hash_map c) addr)"

abbreviation blocks :: "block_cache_t \<Rightarrow> u32 \<Rightarrow> block_t option" where
  "blocks c \<equiv> bm.entries (hash_map c)"

lemma wf_cacheI:
  "wf_map (hash_map c) \<Longrightarrow>
    (\<And>addr. tags (l1_cache c) (l1_index addr) = addr \<Longrightarrow>
      ptrs (l1_cache c) (l1_index addr) = bm.entries (hash_map c) addr) \<Longrightarrow> wf_cache c"
  by (simp add: wf_cache_def)

lemma lookup_blocks:
  assumes "wf_cache c"
  obtains c' where "block_lookup_or_find c addr = Some (blocks c addr, c')" "hash_map c' = hash_map c" "wf_cache c'"
proof (cases "tags (l1_cache c) (l1_index addr) = addr")
  case True
  then have "block_lookup_or_find c addr = Some (blocks c addr, c)"
    using assms by (simp add: block_lookup_or_find_def wf_cache_def)
  then show thesis
    using assms by (intro that) simp_all
next
  case False
  have find: "block_find (hash_map c) addr = Some (blocks c addr)"
    using assms bm.find_entries by (simp add: wf_cache_def)
  show thesis
  proof (cases "blocks c addr")
    case None
    with False find assms show thesis
      by (intro that [of c]) (simp_all add: block_lookup_or_find_def)
  next
    case (Some block)
    with False find assms show thesis
      by (intro that [of "c\<lparr>l1_cache := l1_put addr block (l1_cache c)\<rparr>"])
        (auto simp: block_lookup_or_find_def wf_cache_def l1_put_def)
  qed
qed

lemma insert_blocks:
  assumes "wf_cache c" "has_room (hash_map c)" "blocks c (pc_start block) = None"
  obtains c' where "block_insert block c = Some c'" "blocks c' = (blocks c)(pc_start block \<mapsto> block)" "wf_cache c'"
    "bm_size (hash_map c') = bm_size (hash_map c) + 1"
proof -
  have wf: "wf_map (hash_map c)"
    using assms(1) by (simp add: wf_cache_def)
  obtain t where t: "block_insert_map block (hash_map c) = Some t"
    using bm.add_returns [OF wf assms(2)] bm.find_entries [OF wf] assms(3) by metis
  note entries = bm.entries_add [OF wf assms(2, 3) t]
  let ?c = "c\<lparr>hash_map := t, l1_cache := block_l1_update block (l1_cache c)\<rparr>"
  have size: "bm_size t = bm_size (hash_map c) + 1"
    using t by (auto simp: block_insert_map_def)
  have "wf_cache ?c"
  proof (rule wf_cacheI)
    fix addr assume "tags (l1_cache ?c) (l1_index addr) = addr"
    then show "ptrs (l1_cache ?c) (l1_index addr) = bm.entries (hash_map ?c) addr"
      using assms(1) by (auto simp: entries wf_cache_def block_l1_update_def l1_put_def split: if_splits)
  qed (simp add: entries)
  with t entries size show thesis
    by (intro that [of ?c]) (simp_all add: block_insert_def)
qed

lemma clear_blocks:
  assumes "wf_cache c"
  shows "blocks (block_map_clear c) = Map.empty" "wf_cache (block_map_clear c)"
    "bm_size (hash_map (block_map_clear c)) = 0"
proof -
  have wf: "wf_map (hash_map c)"
    using assms by (simp add: wf_cache_def)
  show empty: "blocks (block_map_clear c) = Map.empty"
    using bm.entries_clear [OF wf] by (simp add: block_map_clear_def)
  show "wf_cache (block_map_clear c)"
    using wf_clear [OF wf] empty by (intro wf_cacheI) (simp_all add: block_map_clear_def invalid_l1_def)
  show "bm_size (hash_map (block_map_clear c)) = 0"
    by (simp add: block_map_clear_def clear_map_def)
qed

lemma init_blocks:
  "blocks block_cache_init = Map.empty" "wf_cache block_cache_init" "bm_size (hash_map block_cache_init) = 0"
proof -
  have clear: "clear_map (block_map_init BLOCK_MAP_CAPACITY_BITS) = block_map_init BLOCK_MAP_CAPACITY_BITS"
    by (simp add: clear_map_def block_map_init_def)
  show empty: "blocks block_cache_init = Map.empty"
    using bm.entries_clear [OF wf_init] by (simp only: clear block_cache_init_def block_cache_t.simps)
  show "wf_cache block_cache_init"
    using wf_init empty by (intro wf_cacheI) (simp_all add: block_cache_init_def invalid_l1_def)
  show "bm_size (hash_map block_cache_init) = 0"
    by (simp add: block_cache_init_def block_map_init_def)
qed

section \<open>Properties\<close>

text \<open>C23: The block cache is a finite map from start addresses to blocks. With the invariant (which the fresh
  cache has), a lookup through the first-level cache and the hash table always returns, gives exactly what
  the map holds for the address and does not change the map; an insertion under a new address returns
  while there is room and updates the map at that address alone; clearing gives the empty map; and each
  keeps the invariant.\<close>

theorem block_cache_refines_map:
  assumes "wf_cache c"
  shows "(\<exists>c'. block_lookup_or_find c addr = Some (blocks c addr, c') \<and> blocks c' = blocks c \<and> wf_cache c') \<and>
    (has_room (hash_map c) \<and> blocks c (pc_start block) = None \<longrightarrow>
      (\<exists>c'. block_insert block c = Some c' \<and> blocks c' = (blocks c)(pc_start block \<mapsto> block) \<and> wf_cache c')) \<and>
    blocks (block_map_clear c) = Map.empty \<and> wf_cache (block_map_clear c) \<and>
    blocks block_cache_init = Map.empty \<and> wf_cache block_cache_init"
proof (intro conjI impI)
  show "\<exists>c'. block_lookup_or_find c addr = Some (blocks c addr, c') \<and> blocks c' = blocks c \<and> wf_cache c'"
    by (rule lookup_blocks [OF assms, of addr]) auto
  show "\<exists>c'. block_insert block c = Some c' \<and> blocks c' = (blocks c)(pc_start block \<mapsto> block) \<and> wf_cache c'"
    if "has_room (hash_map c) \<and> blocks c (pc_start block) = None"
    using insert_blocks [OF assms, of block] that by metis
qed (simp_all add: clear_blocks [OF assms] init_blocks)

theorem block_cache_refines_map_witness:
  "\<exists>c'. block_insert \<lparr>pc_start = 0x80, pc_end = 0x84, cycle_cost = 1, ir_list = []\<rparr> block_cache_init = Some c' \<and>
    blocks c' = [0x80 \<mapsto> \<lparr>pc_start = 0x80, pc_end = 0x84, cycle_cost = 1, ir_list = []\<rparr>]"
proof -
  have room: "has_room (hash_map block_cache_init)"
    using init_blocks(3) by (simp add: has_room_def)
  show ?thesis
    using block_cache_refines_map [OF init_blocks(2), of 0 "\<lparr>pc_start = 0x80, pc_end = 0x84, cycle_cost = 1, ir_list = []\<rparr>"]
      room init_blocks(1)
    by auto
qed

end
