(* ===== verification/Translate.thy ===== *)
theory Translate imports BlockMap ConstOpt Fusion Decode begin

text \<open>
  Translation of basic blocks (\<open>block_translate\<close>, \<open>block_alloc\<close> and \<open>block_find_or_translate\<close> of
  \<open>src/src/emulate.c\<close>). Translation fetches and decodes from the program counter on until an instruction
  that can branch, then the block is optimised, fused and entered into the cache. A fetch may run the
  guest's trap handler and may ask for the translation to start over, which the source repeats without
  bound, so the loop is partial. Which allocations succeed is a parameter: the pool of instruction records
  by a counter over the run, the branch history table by the address of its jump, the block, and the
  array of a fused sequence by its first instruction.
\<close>

section \<open>Translating one block\<close>

record pools_t =
  ir_pool :: "nat \<Rightarrow> bool"
  table_pool :: "u32 \<Rightarrow> bool"
  block_pool :: bool
  fuse_pool :: "rv_insn_t \<Rightarrow> bool"

fun insn_is_indirect_branch :: "rv_opcode \<Rightarrow> bool" where
  "insn_is_indirect_branch (RV32I i) = (i = rv_insn_jalr)"
| "insn_is_indirect_branch (RV32C i) = (i = rv_insn_cjalr \<or> i = rv_insn_cjr)"
| "insn_is_indirect_branch _ = False"

text \<open>The trap state a word that does not decode leaves behind. It goes to the machine-mode registers in
  every mode.\<close>

definition undecodable :: "u32 \<Rightarrow> riscv_t \<Rightarrow> riscv_t" where
  "undecodable insn rv =
    rv\<lparr>compressed := is_compressed insn, csr := (csr rv)\<lparr>csr_mcause := ILLEGAL_INSN, csr_mtval := insn\<rparr>,
       is_trapped := True\<rparr>"

definition finish_block :: "u32 \<Rightarrow> u32 \<Rightarrow> rv_insn_t list \<Rightarrow> block_t option" where
  "finish_block start stop irs =
    (if irs = [] then None
     else Some \<lparr>pc_start = start, pc_end = stop, cycle_cost = of_nat (length irs), ir_list = irs\<rparr>)"

definition insn_bytes :: "u32 \<Rightarrow> u32" where
  "insn_bytes insn = (if is_compressed insn then 2 else 4)"

definition clear_retranslate :: "riscv_t \<Rightarrow> riscv_t" where
  "clear_retranslate = set_glob (\<lambda>g. g\<lparr>need_retranslate := False\<rparr>)"

text \<open>The \<open>while\<close> loop with the jump back to \<open>retranslate\<close>: \<open>k\<close> counts the instruction records taken,
  \<open>stop\<close> is \<open>pc_end\<close> and \<open>irs\<close> the instructions linked so far.\<close>

partial_function (option) translate_loop ::
    "riscv_io_t \<Rightarrow> pools_t \<Rightarrow> nat \<Rightarrow> u32 \<Rightarrow> u32 \<Rightarrow> rv_insn_t list \<Rightarrow> riscv_t \<Rightarrow> (block_t option \<times> riscv_t) outcome option" where
  "translate_loop io pools k start stop irs rv0 =
    (case mem_ifetch io rv0 stop of
       Inl e \<Rightarrow> Some (Inl e)
     | Inr (rv, insn) \<Rightarrow>
         if insn = 0 \<and> need_retranslate (glob rv) then
           (if ir_pool pools k
            then translate_loop io pools (Suc k) (PC rv) (PC rv) [] (clear_retranslate rv)
            else Some (Inr (None, clear_retranslate rv)))
         else if insn = 0 then Some (Inr (finish_block start stop irs, rv))
         else (case rv_decode zero_insn insn of
             Inl e \<Rightarrow> Some (Inl e)
           | Inr (ok, ir) \<Rightarrow>
               if \<not> ok then Some (Inr (finish_block start stop irs, undecodable insn rv))
               else if insn_is_branch (opcode ir) then
                 (if insn_is_indirect_branch (opcode ir) \<and> \<not> table_pool pools stop then Some (Inr (None, rv))
                  else Some (Inr (finish_block start (stop + insn_bytes insn) (irs @ [ir\<lparr>pc := stop\<rparr>]), rv)))
               else if ir_pool pools k then
                 translate_loop io pools (Suc k) start (stop + insn_bytes insn) (irs @ [ir\<lparr>pc := stop\<rparr>]) rv
               else Some (Inr (None, rv))))"

definition block_translate :: "riscv_io_t \<Rightarrow> pools_t \<Rightarrow> riscv_t \<Rightarrow> (block_t option \<times> riscv_t) outcome option" where
  "block_translate io pools rv =
    (if ir_pool pools 0 then translate_loop io pools 1 (PC rv) (PC rv) [] rv else Some (Inr (None, rv)))"

section \<open>Finding or translating\<close>

text \<open>
  The hart with the block cache. The file-scope pointer \<open>prev\<close> to the block that ran last serves block
  chaining, which this build leaves out; what remains of it is a lookup that refreshes the first-level
  cache. A clearing of the block map that an instruction of a trap handler asked for takes effect when
  the cache is used again.
\<close>

record machine_t =
  hart :: riscv_t
  bcache :: block_cache_t

definition sync_map :: "machine_t \<Rightarrow> machine_t" where
  "sync_map m =
    (if map_cleared (glob (hart m))
     then \<lparr>hart = set_glob (\<lambda>g. g\<lparr>map_cleared := False\<rparr>) (hart m), bcache = block_map_clear (bcache m)\<rparr>
     else m)"

text \<open>\<open>map->size * 1.25 > map->block_capacity\<close>, in exact arithmetic.\<close>

definition nearly_full :: "block_map_t \<Rightarrow> bool" where
  "nearly_full t \<longleftrightarrow> unat (bm_size t) * 5 > unat (block_capacity t) * 4"

definition make_room :: "machine_t \<Rightarrow> machine_t" where
  "make_room m =
    (if nearly_full (hash_map (bcache m)) then m\<lparr>bcache := block_map_clear (bcache m)\<rparr> else m)"

text \<open>The passes over a fresh block.\<close>

definition prepare_block :: "pools_t \<Rightarrow> riscv_t \<Rightarrow> block_t \<Rightarrow> block_t outcome" where
  "prepare_block pools rv block =
    obind (optimize_constant rv (ir_list block)) (\<lambda>irs.
      Inr (block\<lparr>ir_list := match_pattern (fuse_pool pools) irs\<rparr>))"

definition block_find_or_translate :: "riscv_io_t \<Rightarrow> pools_t \<Rightarrow> machine_t \<Rightarrow> (block_t option \<times> machine_t) outcome option" where
  "block_find_or_translate io pools m00 =
    (let m0 = sync_map m00 in
     case block_lookup_or_find (bcache m0) (PC (hart m0)) of
       None \<Rightarrow> None
     | Some (Some block, c) \<Rightarrow> Some (Inr (Some block, m0\<lparr>bcache := c\<rparr>))
     | Some (None, c) \<Rightarrow>
         (let m = make_room (m0\<lparr>bcache := c\<rparr>)
          in if \<not> block_pool pools then Some (Inr (None, m))
             else (case block_translate io pools (hart m) of
                 None \<Rightarrow> None
               | Some (Inl e) \<Rightarrow> Some (Inl e)
               | Some (Inr (None, rv)) \<Rightarrow> Some (Inr (None, m\<lparr>hart := rv\<rparr>))
               | Some (Inr (Some block, rv)) \<Rightarrow>
                   (case prepare_block pools rv block of
                      Inl e \<Rightarrow> Some (Inl e)
                    | Inr block \<Rightarrow>
                        (let m = sync_map (m\<lparr>hart := rv\<rparr>)
                         in map_option (\<lambda>c. Inr (Some block, m\<lparr>bcache := c\<rparr>)) (block_insert block (bcache m)))))))"

end
