(* ===== verification/TranslateProps.thy ===== *)
theory TranslateProps imports Translate ConstProps DecodeProps Samples begin

text \<open>
  Properties of block translation: a translated block is a run of decoded instructions that ends where the
  source says it does, translation with the address translation off always ends, and the optimised and
  fused block computes what its instructions compute.
\<close>

section \<open>What the decoder yields\<close>

text \<open>The opcode of an accepted instruction satisfies \<open>P\<close>.\<close>

definition yields :: "(rv_opcode \<Rightarrow> bool) \<Rightarrow> bool \<times> rv_insn_t \<Rightarrow> bool" where
  "yields P r \<longleftrightarrow> (fst r \<longrightarrow> P (opcode (snd r)))"

lemma yields_simps [simp]:
  "yields P (False, ir)" "yields P (b, ir\<lparr>opcode := op\<rparr>) \<longleftrightarrow> (b \<longrightarrow> P op)" "yields P (accept ir op) \<longleftrightarrow> P op" "yields P (dispatch ir None)"
  "yields P (dispatch ir (Some op)) \<longleftrightarrow> P op"
  by (simp_all add: yields_def accept_def dispatch_def)

lemma yields_dispatch [simp]: "(\<forall>op\<in>snd ` set t. P op) \<Longrightarrow> yields P (dispatch ir (switch x t))"
  using switch_SomeD [of x t] by (cases "switch x t") auto

definition base_opcode :: "rv_opcode \<Rightarrow> bool" where
  "base_opcode op \<longleftrightarrow> insn_len op = 4 \<and> op \<notin> range FUSE"

text \<open>\<open>C.EBREAK\<close> is decoded to the opcode of \<open>EBREAK\<close>.\<close>

definition short_opcode :: "rv_opcode \<Rightarrow> bool" where
  "short_opcode op \<longleftrightarrow> (insn_len op = 2 \<or> op = RV32I rv_insn_ebreak) \<and> op \<notin> range FUSE"

lemma base_opcodes [simp]:
  "base_opcode (RV32I i)" "base_opcode (PRIV q)" "base_opcode (ZIFENCEI z)" "base_opcode (ZICSR s)" "base_opcode (ZBA a)"
  "base_opcode (ZBB b)" "base_opcode (ZBC c)" "base_opcode (ZBS d)" "base_opcode (RV32M m)" "base_opcode (RV32A n)"
  "base_opcode (RV32F f)" "short_opcode (RV32C k)" "short_opcode (RV32FC l)"
  "short_opcode (RV32I rv_insn_ebreak)"
  by (auto simp: base_opcode_def short_opcode_def)

lemma rv_table_yields: "h \<in> set rv_jump_table \<Longrightarrow> h ir w = Inr r \<Longrightarrow> yields base_opcode r"
  by (simp add: rv_jump_table_def, elim disjE;
      (clarsimp simp: OP_def rv_handler_defs Let_def split: option.splits; fail |
       auto simp: OP_def op_system_def Let_def split: option.splits if_splits; fail))

lemma rvc_table_yields: "h \<in> set rvc_jump_table \<Longrightarrow> h ir w = Inr r \<Longrightarrow> yields short_opcode r"
  by (simp add: rvc_jump_table_def, elim disjE;
      (clarsimp simp: OP_def rvc_handler_defs op_unimp_def op_cmisc_alu_def Let_def split: option.splits if_splits))

lemma decode_yields:
  assumes "rv_decode ir w = Inr (True, ir')"
  shows "opcode ir' \<notin> range FUSE" "\<not> insn_is_branch (opcode ir') \<Longrightarrow> insn_len (opcode ir') = insn_bytes w"
proof -
  have "yields (if is_compressed w then short_opcode else base_opcode) (True, ir')"
    using assms rv_table_yields [OF nth_mem [OF rv_index_bound]] rvc_table_yields [OF nth_mem [OF c_index_bound]]
    by (auto simp: rv_decode_def Let_def split: if_splits)
  then show "opcode ir' \<notin> range FUSE" "\<not> insn_is_branch (opcode ir') \<Longrightarrow> insn_len (opcode ir') = insn_bytes w"
    by (auto simp: yields_def base_opcode_def short_opcode_def insn_bytes_def split: if_splits)
qed

section \<open>Translated blocks\<close>

text \<open>The instructions between \<open>start\<close> and \<open>stop\<close>: each is the decoding of some word, they lie one behind
  the other, and only the last one may branch.\<close>

definition decoded :: "rv_insn_t \<Rightarrow> bool" where
  "decoded ir \<longleftrightarrow> (\<exists>w ir0. w \<noteq> 0 \<and> rv_decode zero_insn w = Inr (True, ir0) \<and> ir = ir0\<lparr>pc := pc ir\<rparr>)"

fun laid_out :: "u32 \<Rightarrow> rv_insn_t list \<Rightarrow> u32" where
  "laid_out p [] = p"
| "laid_out p (ir # irs) = laid_out (p + insn_len (opcode ir)) irs"

definition straight_run :: "u32 \<Rightarrow> u32 \<Rightarrow> rv_insn_t list \<Rightarrow> bool" where
  "straight_run start stop irs \<longleftrightarrow> (\<forall>ir\<in>set irs. decoded ir \<and> \<not> insn_is_branch (opcode ir)) \<and>
    placed_at start irs \<and> laid_out start irs = stop"

definition sound_block :: "block_t \<Rightarrow> bool" where
  "sound_block b \<longleftrightarrow> (\<exists>irs last. ir_list b = irs @ [last] \<and> straight_run (pc_start b) (pc last) irs \<and> decoded last \<and>
     (insn_is_branch (opcode last) \<or> pc_end b = pc last + insn_len (opcode last))) \<and>
     cycle_cost b = of_nat (length (ir_list b))"

lemma placed_append: "placed_at p (irs @ [ir]) \<longleftrightarrow> placed_at p irs \<and> pc ir = laid_out p irs"
  by (induction irs arbitrary: p) auto

lemma laid_out_append [simp]: "laid_out p (irs @ irs') = laid_out (laid_out p irs) irs'"
  by (induction irs arbitrary: p) auto

lemma straight_run_Nil [simp]: "straight_run p p []"
  by (simp add: straight_run_def)

lemma decodedI: "rv_decode zero_insn w = Inr (True, ir) \<Longrightarrow> w \<noteq> 0 \<Longrightarrow> decoded (ir\<lparr>pc := p\<rparr>)"
  unfolding decoded_def by (intro exI [of _ w] exI [of _ ir]) simp

lemma straight_run_snoc:
  assumes "straight_run start stop irs" "rv_decode zero_insn w = Inr (True, ir)" "w \<noteq> 0" "\<not> insn_is_branch (opcode ir)"
  shows "straight_run start (stop + insn_bytes w) (irs @ [ir\<lparr>pc := stop\<rparr>])"
  using assms decodedI [OF assms(2, 3)] decode_yields(2) [OF assms(2, 4)]
  by (auto simp: straight_run_def placed_append)

lemma finish_straight:
  assumes "straight_run start stop irs" "finish_block start stop irs = Some b"
  shows "sound_block b"
proof -
  obtain ys ir where irs: "irs = ys @ [ir]" and b: "b = \<lparr>pc_start = start, pc_end = stop, cycle_cost = of_nat (length irs), ir_list = irs\<rparr>"
    using assms(2) by (cases irs rule: rev_cases) (auto simp: finish_block_def split: if_splits)
  with assms(1) show ?thesis
    by (auto simp: sound_block_def straight_run_def placed_append)
qed

lemma finish_branch:
  assumes "straight_run start stop irs" "rv_decode zero_insn w = Inr (True, ir)" "w \<noteq> 0" "insn_is_branch (opcode ir)"
    and "finish_block start stop' (irs @ [ir\<lparr>pc := stop\<rparr>]) = Some b"
  shows "sound_block b"
  using assms decodedI [OF assms(2, 3)] by (auto simp: sound_block_def finish_block_def)

text \<open>Translation only produces sound blocks, whatever its fetches do to the hart.\<close>

lemma translate_loop_sound:
  assumes "translate_loop io pools k start stop irs rv = Some r" "straight_run start stop irs" "r = Inr (Some b, rv')"
  shows "sound_block b"
proof -
  have "\<forall>b rv'. straight_run start stop irs \<longrightarrow> r = Inr (Some b, rv') \<longrightarrow> sound_block b"
    using assms(1)
  proof (rule translate_loop.raw_induct [rotated], goal_cases)
    case (1 loop io pools k start stop irs rv0 r)
    show ?case
    proof (intro allI impI)
      fix b rv' assume run: "straight_run start stop irs" and r: "r = Inr (Some b, rv')"
      note step = 1(2) [unfolded r]
      obtain rv insn where fetch: "mem_ifetch io rv0 stop = Inr (rv, insn)"
        using step by (auto split: sum.splits)
      show "sound_block b"
      proof (cases "insn = 0")
        case True
        then show ?thesis
          using step fetch run 1(1) finish_straight [OF run] by (auto split: if_splits)
      next
        case nonzero: False
        then obtain ok ir where decode: "rv_decode zero_insn insn = Inr (ok, ir)"
          using step fetch by (auto split: sum.splits)
        consider "\<not> ok" | "ok" "insn_is_branch (opcode ir)" | "ok" "\<not> insn_is_branch (opcode ir)"
          by blast
        then show ?thesis
        proof cases
          case 1
          then show ?thesis
            using step fetch nonzero decode finish_straight [OF run] by simp
        next
          case 2
          then show ?thesis
            using step fetch nonzero decode finish_branch [OF run] by (auto split: if_splits)
        next
          case 3
          then have "loop io pools (Suc k) start (stop + insn_bytes insn) (irs @ [ir\<lparr>pc := stop\<rparr>]) rv = Some r"
            using step fetch nonzero decode r by (auto split: if_splits)
          with \<open>ok\<close> 1(1) straight_run_snoc [OF run _ nonzero 3(2)] decode r show ?thesis
            by simp
        qed
      qed
    qed
  qed
  with assms(2, 3) show ?thesis by blast
qed

section \<open>Translation without paging\<close>

text \<open>With translation off a fetch reads guest memory and leaves the hart alone, so the loop runs through the
  words of the block once and must end at the latest where memory ends.\<close>

definition code_at :: "memory_t \<Rightarrow> rv_insn_t \<Rightarrow> bool" where
  "code_at m ir \<longleftrightarrow> (\<exists>ir0. rv_decode zero_insn (memory_ifetch m (pc ir)) = Inr (True, ir0) \<and> ir = ir0\<lparr>pc := pc ir\<rparr>)"

definition below_4G :: "memory_t \<Rightarrow> bool" where
  "below_4G m \<longleftrightarrow> mem_size m < 0x100000000"

lemma ifetch_advances:
  assumes "memory_ifetch m a = w" "w \<noteq> 0" "below_4G m"
  shows "unat (mem_size m) - unat (a + insn_bytes w) < unat (mem_size m) - unat a"
proof -
  have "\<not> (ucast a + 4 > mem_size m)"
    using assms(1, 2) by (auto simp: memory_ifetch_def split: if_splits)
  moreover have "unat (ucast a + 4 :: u64) = unat a + 4"
    using unsigned_less [of a, where 'a = nat] by (simp add: unat_word_ariths unsigned_ucast_eq take_bit_nat_eq_self)
  ultimately have "unat a + 4 \<le> unat (mem_size m)"
    by (simp add: word_less_nat_alt not_less)
  moreover have "unat (mem_size m) < 2 ^ 32"
    using assms(3) by (simp add: below_4G_def word_less_nat_alt)
  moreover have "unat (insn_bytes w) \<le> 4" "0 < unat (insn_bytes w)"
    by (simp_all add: insn_bytes_def)
  ultimately have "unat (a + insn_bytes w) = unat a + unat (insn_bytes w)"
    by (simp add: unat_word_ariths)
  with \<open>0 < unat (insn_bytes w)\<close> \<open>unat a + 4 \<le> _\<close> show ?thesis
    by simp
qed

lemma translate_loop_bare:
  assumes "bare rv" "below_4G (ram (attr rv))" "mem_ifetch io = mmu_ifetch calls" "\<forall>ir\<in>set irs. code_at (ram (attr rv)) ir"
  shows "\<exists>r. translate_loop io pools k start stop irs rv = Some r \<and>
    (\<forall>b rv'. r = Inr (Some b, rv') \<longrightarrow> pc_start b = start \<and> (\<forall>ir\<in>set (ir_list b). code_at (ram (attr rv)) ir)) \<and>
    (\<forall>b rv'. r = Inr (b, rv') \<longrightarrow> rv' = rv \<or> (\<exists>w. rv' = undecodable w rv))"
  using assms(4)
proof (induction "unat (mem_size (ram (attr rv))) - unat stop" arbitrary: k stop irs rule: less_induct)
  case less
  let ?m = "ram (attr rv)"
  define w where "w = memory_ifetch ?m stop"
  have fetch: "mem_ifetch io rv stop = Inr (rv, w)"
    using assms(1, 3) by (simp add: mmu_ifetch_def bare_def w_def)
  show ?case
  proof (cases "w = 0")
    case True
    with fetch assms(1) less.prems show ?thesis
      by (subst translate_loop.simps) (auto simp: bare_def finish_block_def)
  next
    case nonzero: False
    show ?thesis
    proof (cases "rv_decode zero_insn w")
      case (Inl e)
      with fetch nonzero show ?thesis
        by (subst translate_loop.simps) simp
    next
      case (Inr r)
      then obtain ok ir where decode: "rv_decode zero_insn w = Inr (ok, ir)"
        by (cases r) auto
      have here: "code_at ?m (ir\<lparr>pc := stop\<rparr>)" if ok
        using decode that unfolding code_at_def w_def by (intro exI [of _ ir]) simp
      show ?thesis
      proof (cases "ok \<and> \<not> insn_is_branch (opcode ir) \<and> ir_pool pools k")
        case True
        have "unat (mem_size ?m) - unat (stop + insn_bytes w) < unat (mem_size ?m) - unat stop"
          using w_def nonzero assms(2) by (intro ifetch_advances) simp_all
        from less.hyps [OF this, of "irs @ [ir\<lparr>pc := stop\<rparr>]" "Suc k"] True here less.prems fetch nonzero decode
        show ?thesis
          by (subst translate_loop.simps) simp
      next
        case False
        with here less.prems fetch nonzero decode show ?thesis
          by (subst translate_loop.simps) (auto simp: finish_block_def)
      qed
    qed
  qed
qed

section \<open>A block of one jump\<close>

definition all_pools :: pools_t where
  "all_pools = \<lparr>ir_pool = (\<lambda>_. True), table_pool = (\<lambda>_. True), block_pool = True, fuse_pool = (\<lambda>_. True)\<rparr>"

definition loop_at_0 :: riscv_t where
  "loop_at_0 = sample_hart\<lparr>attr := \<lparr>ram = memory_write_w 0 0x6F \<lparr>mem_base = (\<lambda>_. 0), mem_size = 4096\<rparr>,
     vm_mem_size = 4096, allow_misalign = False\<rparr>\<rparr>"

lemma decode_loop: "rv_decode zero_insn 0x6F = Inr (True, zero_insn\<lparr>opcode := RV32I rv_insn_jal\<rparr>)"
  by code_simp

lemma fetch_loop_at_0: "mmu_ifetch io loop_at_0 0 = Inr (loop_at_0, 0x6F)"
  by (simp add: mmu_ifetch_def loop_at_0_def sample_csrs_def memory_ifetch_def)

lemma translate_loop_at_0:
  "block_translate (with_mmu sample_calls) all_pools loop_at_0 = Some (Inr (
    Some \<lparr>pc_start = 0, pc_end = 4, cycle_cost = 1, ir_list = [zero_insn\<lparr>opcode := RV32I rv_insn_jal\<rparr>]\<rparr>, loop_at_0))"
proof -
  have "PC loop_at_0 = 0" "zero_insn\<lparr>opcode := op, pc := 0\<rparr> = zero_insn\<lparr>opcode := op\<rparr>" for op
    by (simp_all add: loop_at_0_def zero_insn_def)
  then show ?thesis
    by (simp add: block_translate_def all_pools_def)
      (subst translate_loop.simps, simp add: fetch_loop_at_0 decode_loop finish_block_def insn_bytes_def is_compressed_def FC_OPCODE_def)
qed

section \<open>Properties\<close>

text \<open>C24: Whatever the fetches of a translation do to the hart (page faults, trap handlers, restarts), a block that
  \<open>block_translate\<close> returns is sound: it is not empty, its instructions are decodings of non-zero words that
  lie one behind the other from \<open>pc_start\<close> on, none but the last can branch, \<open>pc_end\<close> is the end of the last
  one when that does not branch, and \<open>cycle_cost\<close> is the number of instructions.\<close>

theorem translated_block_sound:
  assumes "block_translate io pools rv = Some (Inr (Some b, rv'))"
  shows "sound_block b \<and> branches_last (ir_list b) \<and> placed_at (pc_start b) (ir_list b)"
proof -
  have sound: "sound_block b"
    using assms translate_loop_sound [OF _ straight_run_Nil refl] by (auto simp: block_translate_def split: if_splits)
  then have "branches_last (ir_list b)" "placed_at (pc_start b) (ir_list b)"
    by (auto simp: sound_block_def branches_last_def straight_run_def placed_append)
  with sound show ?thesis
    by blast
qed

theorem translated_block_sound_witness:
  "\<exists>b rv'. block_translate (with_mmu sample_calls) all_pools loop_at_0 = Some (Inr (Some b, rv')) \<and> sound_block b"
  using translated_block_sound [OF translate_loop_at_0] translate_loop_at_0 by blast

text \<open>C25: With address translation off and less than 4 GiB of memory, block translation always ends, whatever
  memory contains and whatever allocations fail. The block it returns starts at the program counter and
  holds exactly the decodings of the words of guest memory at the addresses of its instructions; the hart
  changes only when a word does not decode, and then only by recording the illegal instruction.\<close>

theorem block_translate_terminates:
  assumes "bare rv" "below_4G (ram (attr rv))"
  shows "\<exists>r. block_translate (with_mmu calls) pools rv = Some r \<and>
    (\<forall>b rv'. r = Inr (Some b, rv') \<longrightarrow>
      pc_start b = PC rv \<and> (\<forall>ir\<in>set (ir_list b). code_at (ram (attr rv)) ir)) \<and>
    (\<forall>b rv'. r = Inr (b, rv') \<longrightarrow> rv' = rv \<or> (\<exists>w. rv' = undecodable w rv))"
  using translate_loop_bare [OF assms, of "with_mmu calls" calls "[]" pools 1 "PC rv" "PC rv"]
  by (cases "ir_pool pools 0") (auto simp: block_translate_def)

theorem block_translate_terminates_witness:
  "\<exists>r. block_translate (with_mmu sample_calls) all_pools sample_hart = Some r"
  using block_translate_terminates [of sample_hart sample_calls all_pools]
  by (auto simp: bare_def below_4G_def sample_csrs_def)

end
