(* ===== verification/Pipeline.thy ===== *)
theory Pipeline imports TranslateProps begin

text \<open>
  The three passes over a fresh block together: translation, constant optimisation and fusion leave a block
  that does what the decoded instructions do.
\<close>

section \<open>Decoded instructions are plain\<close>

definition fine :: "rv_insn_t \<Rightarrow> bool" where
  "fine ir \<longleftrightarrow>
    (dest (opcode ir) ir = Some 0 \<longrightarrow> opcode ir = RV32C rv_insn_cli \<or> opcode ir \<in>
      RV32I ` {rv_insn_nop, rv_insn_lb, rv_insn_lh, rv_insn_lw, rv_insn_lbu, rv_insn_lhu, rv_insn_jal, rv_insn_jalr} \<union>
      RV32C ` {rv_insn_clw, rv_insn_clwsp}) \<and>
    (opcode ir \<in> RV32I ` conditional_branches \<longrightarrow> rd ir = 0)"

lemma fine_simps [simp]:
  "fine (ir\<lparr>opcode := RV32I op\<rparr>) \<longleftrightarrow> (if op \<in> conditional_branches then rd ir = 0 else
    op \<in> {rv_insn_sb, rv_insn_sh, rv_insn_sw, rv_insn_fence, rv_insn_ecall, rv_insn_ebreak, rv_insn_nop, rv_insn_lb,
      rv_insn_lh, rv_insn_lw, rv_insn_lbu, rv_insn_lhu, rv_insn_jal, rv_insn_jalr} \<or> rd ir \<noteq> 0)"
  "fine (ir\<lparr>opcode := RV32M m\<rparr>) \<longleftrightarrow> rd ir \<noteq> 0" "fine (ir\<lparr>opcode := ZBA a\<rparr>) \<longleftrightarrow> rd ir \<noteq> 0"
  "fine (ir\<lparr>opcode := ZBB b\<rparr>) \<longleftrightarrow> rd ir \<noteq> 0" "fine (ir\<lparr>opcode := ZBC c\<rparr>) \<longleftrightarrow> rd ir \<noteq> 0" "fine (ir\<lparr>opcode := ZBS d\<rparr>) \<longleftrightarrow> rd ir \<noteq> 0"
  "fine (ir\<lparr>opcode := RV32A n\<rparr>)" "fine (ir\<lparr>opcode := RV32F f\<rparr>)" "fine (ir\<lparr>opcode := PRIV p\<rparr>)" "fine (ir\<lparr>opcode := ZIFENCEI z\<rparr>)"
  "fine (ir\<lparr>opcode := ZICSR s\<rparr>)" "fine (ir\<lparr>opcode := RV32FC l\<rparr>)"
  "fine (ir\<lparr>opcode := RV32C k\<rparr>) \<longleftrightarrow> k \<in> {rv_insn_cjal, rv_insn_cjalr, rv_insn_csw, rv_insn_cswsp, rv_insn_cnop, rv_insn_cj,
    rv_insn_cjr, rv_insn_cbeqz, rv_insn_cbnez, rv_insn_cebreak, rv_insn_cli, rv_insn_clw, rv_insn_clwsp} \<or>
    (if k \<in> {rv_insn_csrli, rv_insn_csrai, rv_insn_candi} then rs1 ir \<noteq> 0 else rd ir \<noteq> 0)"
  by (auto simp: fine_def conditional_branches_def)

lemma branch_rd: "rd (decode_btype zero_insn w) = 0" "rd (decode_stype zero_insn w) = 0" "rd zero_insn = 0"
  by (simp_all add: decode_btype_def decode_stype_def zero_insn_def)

lemma compressed_nonzero: "ucast (v OR 8 :: u16) \<noteq> (0 :: u8)"
proof -
  have "bit (ucast (v OR 8) :: u8) 3"
    by (simp add: word_bits)
  then show ?thesis
    by auto
qed

lemma srai_nonzero:
  assumes "cmisc_funct2 w = 1"
  shows "ucast (c_decode_rs1 (ucast w)) \<noteq> (0 :: u8)"
proof -
  have "bit (cmisc_funct2 w) 0"
    using assms by simp
  then have "bit w 10"
    by (simp add: cmisc_funct2_def word_bits)
  then have "bit (ucast (c_decode_rs1 (ucast w)) :: u8) 3"
    by (simp add: c_decode_rs1_def FC_RS1_def word_bits)
  then show ?thesis
    by auto
qed

lemma op_system_fine: "gives fine (op_system zero_insn w)"
  by (auto simp: op_system_def Let_def conditional_branches_def split: option.splits if_splits)

lemma op_cmisc_alu_fine: "op_cmisc_alu ir w = Inr r \<Longrightarrow> gives fine r"
  by (auto simp: op_cmisc_alu_def Let_def compressed_nonzero srai_nonzero split: option.splits if_splits)

lemma rv_table_fine: "h \<in> set rv_jump_table \<Longrightarrow> h zero_insn w = Inr r \<Longrightarrow> gives fine r"
  by (simp add: rv_jump_table_def, elim disjE;
      (clarsimp simp: OP_def op_system_fine; fail |
       clarsimp simp: OP_def rv_handler_defs Let_def branch_rd conditional_branches_def simp del: switch_Cons switch_Nil
         split: option.splits; fail))

lemma rvc_table_fine: "h \<in> set rvc_jump_table \<Longrightarrow> h zero_insn w = Inr r \<Longrightarrow> gives fine r"
  by (simp add: rvc_jump_table_def, elim disjE;
      (clarsimp simp: op_cmisc_alu_fine; fail |
       clarsimp simp: OP_def rvc_handler_defs op_unimp_def compressed_nonzero Let_def split: option.splits if_splits; fail))

text \<open>What the decoder yields is \<open>plain\<close>, with two exceptions: \<open>SC.W\<close>, which the optimiser gets wrong, and the
  hint \<open>C.LI x0\<close>, which the decoder accepts as a write to \<open>x0\<close>.\<close>

definition exceptional :: "rv_insn_t \<Rightarrow> bool" where
  "exceptional ir \<longleftrightarrow> opcode ir = RV32A rv_insn_scw \<or> opcode ir = RV32C rv_insn_cli \<and> rd ir = 0"

lemma decoded_plain:
  assumes "decoded ir" "\<not> exceptional ir"
  shows "plain ir"
proof -
  obtain w ir0 where ir: "rv_decode zero_insn w = Inr (True, ir0)" "ir = ir0\<lparr>pc := pc ir\<rparr>"
    using assms(1) by (auto simp: decoded_def)
  then have same: "opcode ir = opcode ir0" "rd ir = rd ir0" "rs1 ir = rs1 ir0"
    by (metis rv_insn_t.select_convs rv_insn_t.surjective rv_insn_t.update_convs(10))+
  have "gives fine (True, ir0)"
    using ir(1) rv_table_fine [OF nth_mem [OF rv_index_bound]] rvc_table_fine [OF nth_mem [OF c_index_bound]]
    by (auto simp: rv_decode_def Let_def split: if_splits)
  moreover have "opcode ir0 \<notin> range FUSE"
    by (rule decode_yields(1) [OF ir(1)])
  moreover have "dest (opcode ir) ir = dest (opcode ir0) ir0"
    using same by (cases "opcode ir0") auto
  ultimately show ?thesis
    using assms(2) same by (auto simp: gives_def fine_def plain_def exceptional_def)
qed

section \<open>Constant optimisation keeps the accesses and branches\<close>

definition keeps_kind :: "rv_opcode \<Rightarrow> constopt_t \<Rightarrow> bool" where
  "keeps_kind inst f \<longleftrightarrow> (\<forall>ir info ir' info'. opcode ir = inst \<longrightarrow> f ir info = Inr (ir', info') \<longrightarrow>
    ir' = ir \<or> opcode ir' \<noteq> RV32I rv_insn_lw \<and> opcode ir' \<noteq> RV32I rv_insn_sw \<and>
      (insn_is_branch (opcode ir') \<longrightarrow> insn_is_branch inst))"

lemma shapes_keep_kind [simp]:
  "keeps_kind inst skip" "keeps_kind inst forget" "keeps_kind inst forget_nonzero" "keeps_kind inst (becomes_lui v)"
  "keeps_kind inst (becomes_clui r v)" "keeps_kind inst (fold_imm g)" "keeps_kind inst (fold_reg g)"
  "keeps_kind inst (fold_creg g)"
  by (auto simp: keeps_kind_def skip_def forget_def forget_nonzero_def becomes_lui_def becomes_clui_def fold_imm_def
      fold_reg_def fold_creg_def split: if_splits)

lemma rv32i_keeps_kind: "keeps_kind (RV32I i) (constopt_table_rv32i i)"
  by (cases i; simp only: constopt_table_rv32i.simps constopt_defs;
      (simp; fail | auto simp: keeps_kind_def constopt_defs becomes_lui_def becomes_clui_def forget_def skip_def OPT_BRANCH_FUNC_def
         opt_cbranch_def Let_def obind_Inr_iff split: if_splits option.splits; fail))

lemma priv_keeps_kind: "keeps_kind (PRIV i) (constopt_table_priv i)"
  by (cases i; simp only: constopt_table_priv.simps constopt_defs;
      (simp; fail | auto simp: keeps_kind_def constopt_defs becomes_lui_def becomes_clui_def forget_def skip_def OPT_BRANCH_FUNC_def
         opt_cbranch_def Let_def obind_Inr_iff split: if_splits option.splits; fail))

lemma zifencei_keeps_kind: "keeps_kind (ZIFENCEI i) (constopt_table_zifencei i)"
  by (cases i; simp only: constopt_table_zifencei.simps constopt_defs;
      (simp; fail | auto simp: keeps_kind_def constopt_defs becomes_lui_def becomes_clui_def forget_def skip_def OPT_BRANCH_FUNC_def
         opt_cbranch_def Let_def obind_Inr_iff split: if_splits option.splits; fail))

lemma zicsr_keeps_kind: "keeps_kind (ZICSR i) (constopt_table_zicsr i)"
  by (cases i; simp only: constopt_table_zicsr.simps constopt_defs;
      (simp; fail | auto simp: keeps_kind_def constopt_defs becomes_lui_def becomes_clui_def forget_def skip_def OPT_BRANCH_FUNC_def
         opt_cbranch_def Let_def obind_Inr_iff split: if_splits option.splits; fail))

lemma zba_keeps_kind: "keeps_kind (ZBA i) (constopt_table_zba i)"
  by (cases i; simp only: constopt_table_zba.simps constopt_defs;
      (simp; fail | auto simp: keeps_kind_def constopt_defs becomes_lui_def becomes_clui_def forget_def skip_def OPT_BRANCH_FUNC_def
         opt_cbranch_def Let_def obind_Inr_iff split: if_splits option.splits; fail))

lemma zbb_keeps_kind: "keeps_kind (ZBB i) (constopt_table_zbb i)"
  by (cases i; simp only: constopt_table_zbb.simps constopt_defs;
      (simp; fail | auto simp: keeps_kind_def constopt_defs becomes_lui_def becomes_clui_def forget_def skip_def OPT_BRANCH_FUNC_def
         opt_cbranch_def Let_def obind_Inr_iff split: if_splits option.splits; fail))

lemma zbc_keeps_kind: "keeps_kind (ZBC i) (constopt_table_zbc i)"
  by (cases i; simp only: constopt_table_zbc.simps constopt_defs;
      (simp; fail | auto simp: keeps_kind_def constopt_defs becomes_lui_def becomes_clui_def forget_def skip_def OPT_BRANCH_FUNC_def
         opt_cbranch_def Let_def obind_Inr_iff split: if_splits option.splits; fail))

lemma zbs_keeps_kind: "keeps_kind (ZBS i) (constopt_table_zbs i)"
  by (cases i; simp only: constopt_table_zbs.simps constopt_defs;
      (simp; fail | auto simp: keeps_kind_def constopt_defs becomes_lui_def becomes_clui_def forget_def skip_def OPT_BRANCH_FUNC_def
         opt_cbranch_def Let_def obind_Inr_iff split: if_splits option.splits; fail))

lemma rv32m_keeps_kind: "keeps_kind (RV32M i) (constopt_table_rv32m i)"
  by (cases i; simp only: constopt_table_rv32m.simps constopt_defs;
      (simp; fail | auto simp: keeps_kind_def constopt_defs becomes_lui_def becomes_clui_def forget_def skip_def OPT_BRANCH_FUNC_def
         opt_cbranch_def Let_def obind_Inr_iff split: if_splits option.splits; fail))

lemma rv32a_keeps_kind: "keeps_kind (RV32A i) (constopt_table_rv32a i)"
  by (cases i; simp only: constopt_table_rv32a.simps constopt_defs;
      (simp; fail | auto simp: keeps_kind_def constopt_defs becomes_lui_def becomes_clui_def forget_def skip_def OPT_BRANCH_FUNC_def
         opt_cbranch_def Let_def obind_Inr_iff split: if_splits option.splits; fail))

lemma rv32f_keeps_kind: "keeps_kind (RV32F i) (constopt_table_rv32f i)"
  by (cases i; simp only: constopt_table_rv32f.simps constopt_defs;
      (simp; fail | auto simp: keeps_kind_def constopt_defs becomes_lui_def becomes_clui_def forget_def skip_def OPT_BRANCH_FUNC_def
         opt_cbranch_def Let_def obind_Inr_iff split: if_splits option.splits; fail))

lemma rv32c_keeps_kind: "keeps_kind (RV32C i) (constopt_table_rv32c i)"
  by (cases i; simp only: constopt_table_rv32c.simps constopt_defs;
      (simp; fail | auto simp: keeps_kind_def constopt_defs becomes_lui_def becomes_clui_def forget_def skip_def OPT_BRANCH_FUNC_def
         opt_cbranch_def Let_def obind_Inr_iff split: if_splits option.splits; fail))

lemma rv32fc_keeps_kind: "keeps_kind (RV32FC i) (constopt_table_rv32fc i)"
  by (cases i; simp only: constopt_table_rv32fc.simps constopt_defs;
      (simp; fail | auto simp: keeps_kind_def constopt_defs becomes_lui_def becomes_clui_def forget_def skip_def OPT_BRANCH_FUNC_def
         opt_cbranch_def Let_def obind_Inr_iff split: if_splits option.splits; fail))

lemma constopt_keeps_kind: "keeps_kind op (constopt_table op)"
  using rv32i_keeps_kind priv_keeps_kind zifencei_keeps_kind zicsr_keeps_kind zba_keeps_kind zbb_keeps_kind
    zbc_keeps_kind zbs_keeps_kind rv32m_keeps_kind rv32a_keeps_kind rv32f_keeps_kind rv32c_keeps_kind rv32fc_keeps_kind
  by (cases op) (simp_all add: keeps_kind_def)

lemma constopt_branches:
  assumes "constopt_insns irs info = Inr irs'" "branches_last irs"
  shows "branches_last irs'"
  using assms
proof (induction irs arbitrary: info irs')
  case (Cons ir irs)
  obtain ir1 info1 irs1 where opt: "constopt_table (opcode ir) ir info = Inr (ir1, info1)"
    "constopt_insns irs info1 = Inr irs1" "irs' = ir1 # irs1"
    using Cons.prems(1) by (auto simp: obind_Inr_iff)
  have "insn_is_branch (opcode ir1) \<longrightarrow> insn_is_branch (opcode ir)"
    using constopt_keeps_kind [of "opcode ir"] opt(1) unfolding keeps_kind_def by blast
  moreover have "branches_last irs1"
    using Cons.IH [OF opt(2)] branches_last_append [of "[ir]" irs] Cons.prems(2) by simp
  ultimately show ?case
    using Cons.prems(2) constopt_insns_Nil [OF opt(2)] opt(3) by (auto simp: branches_last_def split: if_splits)
qed (simp add: branches_last_def)

lemma constopt_calm:
  assumes "env_io env = with_mmu calls" "traps_keep_X calls"
    and "constopt_insns irs info = Inr irs'" "agrees info rv" "\<forall>ir\<in>set irs. plain ir" "branches_last irs"
    and "placed_at p irs" "calm_run env irs c p rv"
  shows "calm_run env irs' c p rv"
  using assms(3-)
proof (induction irs arbitrary: info irs' c p rv)
  case (Cons ir irs)
  obtain ir1 info1 irs1 where opt: "constopt_table (opcode ir) ir info = Inr (ir1, info1)"
    "constopt_insns irs info1 = Inr irs1" "irs' = ir1 # irs1"
    using Cons.prems(1) by (auto simp: obind_Inr_iff)
  have empty: "irs1 = [] \<longleftrightarrow> irs = []"
    by (rule constopt_insns_Nil [OF opt(2)])
  have calm: "calm ir1 rv"
    using constopt_keeps_kind [of "opcode ir"] opt(1) Cons.prems(6)
    unfolding keeps_kind_def calm_run.simps calm_def by blast
  have at: "pc ir = p" "plain ir"
    using Cons.prems by simp_all
  let ?env = "env\<lparr>has_next := irs \<noteq> []\<rparr>"
  show ?case
  proof (cases "irs = []")
    case True
    with calm empty opt(3) show ?thesis
      by (auto split: sum.split prod.split leave.split transfer.split)
  next
    case False
    then have "\<not> insn_is_branch (opcode ir)"
      using Cons.prems(4) by (simp add: branches_last_def)
    note step = constopt_sound [OF opt(1) at(2) this Cons.prems(2), unfolded at(1)]
    have exec: "exec_insn ?env ir1 c p rv = exec_insn ?env ir c p rv"
      by (rule step_exec [OF step])
    have IH: "calm_run env irs1 c' p' rv'"
      if "exec_insn ?env ir c p rv = Inr (Continue To_next c' p', rv')" for c' p' rv'
    proof -
      have fr: "opcode ir \<notin> range FUSE" "env_io ?env = with_mmu calls"
        using at(2) assms(1) by (simp_all add: plain_def)
      have "agrees info1 rv'"
        by (rule step_agrees [OF step Cons.prems(2) fr(1) that fr(2) assms(2)])
      moreover have "p' = p + insn_len (opcode ir)"
        using exec_frame [OF that fr assms(2)] by simp
      moreover have "branches_last irs"
        using branches_last_append [of "[ir]" irs] Cons.prems(4) by simp
      ultimately show ?thesis
        using Cons.IH [OF opt(2)] Cons.prems(3, 5, 6) that by simp
    qed
    show ?thesis
      using IH calm by (auto simp: opt(3) empty exec split: sum.split prod.split leave.split transfer.split)
  qed
qed simp

section \<open>Properties\<close>

text \<open>C21: The passes of the translator compose: a block that \<open>block_translate\<close> produced and the two optimisation
  passes rewrote ends in the same way and in the same hart (up to the branch-taken flag of block chaining)
  as the decoded instructions themselves, when run where nothing is pending and its word accesses hit
  accessible RAM, for every block without \<open>SC.W\<close> and the hint \<open>C.LI x0\<close>.\<close>

theorem translated_block_preserved:
  assumes "block_translate io pools rv0 = Some (Inr (Some b, rv))" "prepare_block pools rv b = Inr b'"
    and "\<forall>ir\<in>set (ir_list b). \<not> exceptional ir" "env_io env = with_mmu calls" "traps_keep_X calls" "unchained env"
    and "calm_run env (ir_list b) c (pc_start b) rv"
  shows "same_result (run_insns env (ir_list b') c (pc_start b) rv) (run_insns env (ir_list b) c (pc_start b) rv)"
proof -
  obtain irs where irs: "optimize_constant rv (ir_list b) = Inr irs" "ir_list b' = match_pattern (fuse_pool pools) irs"
    using assms(2) by (auto simp: prepare_block_def obind_Inr_iff)
  have sound: "sound_block b"
    using assms(1) translate_loop_sound [OF _ straight_run_Nil refl] by (auto simp: block_translate_def split: if_splits)
  then have block: "branches_last (ir_list b)" "placed_at (pc_start b) (ir_list b)" "ir_list b \<noteq> []"
    by (auto simp: sound_block_def branches_last_def straight_run_def placed_append)
  have plain: "\<forall>ir\<in>set (ir_list b). plain ir"
    using sound assms(3) decoded_plain by (auto simp: sound_block_def straight_run_def)
  let ?info = "\<lparr>is_constant = (\<lambda>_. False)(0 := True), const_val = (\<lambda>_. 0)\<rparr>"
  have opt: "constopt_insns (ir_list b) ?info = Inr irs" "agrees ?info rv"
    using irs(1) by (simp_all add: optimize_constant_def agrees_def split: if_splits)
  have calm: "calm_run env irs c (pc_start b) rv"
    by (rule constopt_calm [OF assms(4, 5) opt plain block(1, 2) assms(7)])
  have "irs \<noteq> []"
    using constopt_insns_Nil [OF opt(1)] block(3) by simp
  then have "run_insns env (ir_list b') c (pc_start b) rv = run_insns env irs c (pc_start b) rv"
    using fuse_run [OF calm assms(4, 6) constopt_branches [OF opt(1) block(1)], of "fuse_pool pools"]
    by (simp add: irs(2) run_rest_def)
  moreover have "\<not> need_clear_block_map (glob rv)"
    using assms(7) block(3) by (cases "ir_list b") (simp_all add: calm_def quiet_def)
  ultimately show ?thesis
    using optimize_constant_run [OF assms(4-6) irs(1) plain block(1, 2)] by simp
qed

theorem translated_block_preserved_witness:
  "\<exists>b b' rv. block_translate (with_mmu sample_calls) all_pools loop_at_0 = Some (Inr (Some b, rv)) \<and>
    prepare_block all_pools rv b = Inr b' \<and>
    same_result (run_insns sample_env (ir_list b') 0 0 rv) (run_insns sample_env (ir_list b) 0 0 rv)"
proof -
  let ?ir = "zero_insn\<lparr>opcode := RV32I rv_insn_jal\<rparr>"
  let ?b = "\<lparr>pc_start = 0, pc_end = 4, cycle_cost = 1, ir_list = [?ir]\<rparr>"
  have calm: "calm_run sample_env [?ir] 0 0 loop_at_0"
    by (simp add: calm_def quiet_def bare_def loop_at_0_def sample_csrs_def exec_insn_def do_jal_def RVOP_def
        follow_taken_def end_op_def)
  have prepare: "prepare_block all_pools loop_at_0 ?b = Inr ?b"
    by (simp add: prepare_block_def optimize_constant_def constopt_jal_def loop_at_0_def zero_insn_def)
  have plain: "\<not> exceptional ?ir"
    by (simp add: exceptional_def)
  show ?thesis
    using translated_block_preserved [OF translate_loop_at_0 prepare, of sample_env sample_calls 0] plain calm
      translate_loop_at_0 prepare
    by (intro exI [of _ ?b] exI [of _ loop_at_0]) (simp add: traps_keep_X_def unchained_def)
qed

end
