(* ===== verification/Step.thy ===== *)
theory Step imports Trap Translate begin

text \<open>
  The main loop (\<open>rv_step\<close>) and the single step of the debugger (\<open>rv_step_debug\<close>) of
  \<open>src/src/emulate.c\<close>, for a hart without an attached SoC, in the native build. A block runs to its end and
  may go on, through a register jump, in another block of the cache without returning to the loop; neither
  this chain nor the loop has a bound in the source, so both are partial. The allocations of the \<open>i\<close>-th
  iteration are \<open>pools i\<close>. The diagnostic dump before a fatal stop and the reclamation of unused guest
  pages, which no access can observe, are left out.
\<close>

section \<open>Running blocks\<close>

definition known_block :: "block_cache_t \<Rightarrow> u32 \<Rightarrow> bool" where
  "known_block c p \<longleftrightarrow> (case block_find (hash_map c) p of Some (Some _) \<Rightarrow> True | _ \<Rightarrow> False)"

definition block_env :: "system_t \<Rightarrow> nat \<Rightarrow> block_cache_t \<Rightarrow> env_t" where
  "block_env sys n c = (lone_env sys (trap_handler sys n))\<lparr>block_known := known_block c\<rparr>"

text \<open>The tail calls between blocks: the branch history table caches what \<open>block_find\<close> returned.\<close>

partial_function (option) run_chain ::
    "env_t \<Rightarrow> block_cache_t \<Rightarrow> rv_insn_t list \<Rightarrow> u64 \<Rightarrow> u32 \<Rightarrow> riscv_t \<Rightarrow> (leave \<times> riscv_t) outcome option" where
  "run_chain env c irs cycle pcv rv =
    (case run_insns env irs cycle pcv rv of
       Inl e \<Rightarrow> Some (Inl e)
     | Inr (l, rv) \<Rightarrow>
         (case l of
            Continue t cycle pcv \<Rightarrow>
              if t = To_indirect then
                (case block_find (hash_map c) pcv of
                   None \<Rightarrow> None
                 | Some None \<Rightarrow> Some (Inl Undefined_access)
                 | Some (Some block) \<Rightarrow> run_chain env c (ir_list block) cycle pcv rv)
              else Some (Inr (l, rv))
          | _ \<Rightarrow> Some (Inr (l, rv))))"

section \<open>The main loop\<close>

definition note_last_pc :: "riscv_t \<Rightarrow> riscv_t" where
  "note_last_pc rv = set_glob (\<lambda>g. g\<lparr>last_pc := PC rv\<rparr>) rv"

partial_function (option) step_loop ::
    "system_t \<Rightarrow> nat \<Rightarrow> (nat \<Rightarrow> pools_t) \<Rightarrow> nat \<Rightarrow> u64 \<Rightarrow> machine_t \<Rightarrow> machine_t outcome option" where
  "step_loop sys n pools i target m0 =
    (if csr_cycle (csr (hart m0)) < target \<and> \<not> halt (hart m0) then
       (case block_find_or_translate (system_io sys (trap_handler sys n)) (pools i) m0 of
          None \<Rightarrow> None
        | Some (Inl e) \<Rightarrow> Some (Inl e)
        | Some (Inr (None, m)) \<Rightarrow>
            if is_trapped (hart m) then
              (case trap_handler sys n (hart m) of
                 Inl e \<Rightarrow> Some (Inl e)
               | Inr rv \<Rightarrow> step_loop sys n pools (Suc i) target (m\<lparr>hart := rv\<rparr>))
            else Some (Inr (m\<lparr>hart := (hart m)\<lparr>halt := True\<rparr>\<rparr>))
        | Some (Inr (Some block, m)) \<Rightarrow>
            (case run_chain (block_env sys n (bcache m)) (bcache m) (ir_list block) (csr_cycle (csr (hart m)))
                    (PC (hart m)) (note_last_pc (hart m)) of
               None \<Rightarrow> None
             | Some (Inl e) \<Rightarrow> Some (Inl e)
             | Some (Inr (l, rv)) \<Rightarrow>
                 (case l of
                    Returned ok \<Rightarrow>
                      if ok then step_loop sys n pools (Suc i) target (m\<lparr>hart := set_X 0 0 rv\<rparr>)
                      else Some (Inr (m\<lparr>hart := rv\<rparr>))
                  | Blocks_cleared \<Rightarrow> Some (Inr (m\<lparr>hart := rv, bcache := block_map_clear (bcache m)\<rparr>))
                  | Continue _ _ _ \<Rightarrow> Some (Inl Undefined_access))))
     else Some (Inr m0))"

definition rv_step :: "system_t \<Rightarrow> nat \<Rightarrow> (nat \<Rightarrow> pools_t) \<Rightarrow> u32 \<Rightarrow> machine_t \<Rightarrow> machine_t outcome option" where
  "rv_step sys n pools cycle_per_step m =
    step_loop sys n pools 0 (csr_cycle (csr (hart m)) + ucast cycle_per_step) m"

section \<open>The single step\<close>

definition note_cleared :: "leave \<times> riscv_t \<Rightarrow> riscv_t" where
  "note_cleared r = (case r of (l, rv) \<Rightarrow>
     if l = Blocks_cleared then set_glob (\<lambda>g. g\<lparr>map_cleared := True\<rparr>) rv else rv)"

definition rv_step_debug :: "system_t \<Rightarrow> nat \<Rightarrow> riscv_t \<Rightarrow> riscv_t outcome" where
  "rv_step_debug sys n rv0 =
    obind (fetch_retrying (system_io sys (trap_handler sys n)) n rv0) (\<lambda>(rv, insn).
      if insn = 0 then (if is_trapped rv then trap_handler sys n rv else Inl Assert_failed)
      else obind (rv_decode zero_insn insn) (\<lambda>(ok, ir).
        if \<not> ok then SET_CAUSE_AND_TVAL_THEN_TRAP (system_io sys (trap_handler sys n)) ILLEGAL_INSN insn
                        (rv\<lparr>compressed := is_compressed insn\<rparr>)
        else obind (exec_insn (lone_env sys (trap_handler sys n)) (ir\<lparr>pc := PC rv\<rparr>)
                      (csr_cycle (csr rv)) (PC rv) rv)
               (\<lambda>r. Inr (note_cleared r))))"

end
