(* ===== verification/Lockstep.thy ===== *)
theory Lockstep imports Step TranslateProps RegFrame begin

text \<open>
  A block runs the way its instructions run one at a time. Inside a block the handlers keep the cycle count
  in an argument and write it back only where they leave, so the harts of the two runs agree up to the
  stale cycle counter. The lemmas are stated once per shape of a handler body.
\<close>

section \<open>The link to the next instruction\<close>

text \<open>Without a next instruction a handler does what it does with one, but leaves where it would go on.\<close>

definition unlink :: "leave \<times> riscv_t \<Rightarrow> leave \<times> riscv_t" where
  "unlink r = (case r of (Continue To_next c p, rv) \<Rightarrow> end_op c p rv | _ \<Rightarrow> r)"

definition ignores_next :: "body_t \<Rightarrow> bool" where
  "ignores_next code \<longleftrightarrow> (\<forall>env b ir c p rv. code (env\<lparr>has_next := b\<rparr>) ir c p rv = code env ir c p rv) \<and>
    (\<forall>env ir c p rv fl q rv'. code env ir c p rv = Inr (fl, q, rv') \<longrightarrow>
      fl \<noteq> Tail_call To_next \<and> (fl = Fall \<or> fl = Goto_nextop \<longrightarrow> q = p))"

definition unlinks :: "rv_opcode \<Rightarrow> handler_t \<Rightarrow> bool" where
  "unlinks op h \<longleftrightarrow>
    (\<forall>env ir c p rv. h (env\<lparr>has_next := False\<rparr>) ir c p rv = map_sum id unlink (h (env\<lparr>has_next := True\<rparr>) ir c p rv)) \<and>
    (\<forall>env ir c p rv c' p' rv'. h env ir c p rv = Inr (Continue To_next c' p', rv') \<longrightarrow> c' = c + 1 \<and> p' = p + insn_len op)"

lemma ignores_nextD:
  assumes "ignores_next code"
  shows "code (env\<lparr>has_next := b\<rparr>) ir c p rv = code env ir c p rv"
    and "code env ir c p rv = Inr (fl, q, rv') \<Longrightarrow> fl \<noteq> Tail_call To_next"
    and "code env ir c p rv = Inr (Fall, q, rv') \<Longrightarrow> q = p" "code env ir c p rv = Inr (Goto_nextop, q, rv') \<Longrightarrow> q = p"
  using assms unfolding ignores_next_def by blast+

lemma RVOP_unlinks:
  assumes "ignores_next code"
  shows "unlinks inst (RVOP inst code)"
  unfolding unlinks_def
proof (intro conjI allI impI)
  fix env :: env_t and ir c p rv
  note code = ignores_nextD [OF assms]
  show "RVOP inst code (env\<lparr>has_next := False\<rparr>) ir c p rv = map_sum id unlink (RVOP inst code (env\<lparr>has_next := True\<rparr>) ir c p rv)"
  proof (cases "code env ir (c + 1) p (rv\<lparr>PC := p\<rparr>)")
    case (Inr r)
    then obtain fl q rv' where r: "code env ir (c + 1) p (rv\<lparr>PC := p\<rparr>) = Inr (fl, q, rv')"
      by (cases r) auto
    with code(2) [OF r] show ?thesis
      by (cases fl) (auto simp: RVOP_def code(1) next_or_stop_def end_op_def signal_taken_def unlink_def Let_def
          split: transfer.split)
  qed (simp add: RVOP_def code(1))
  fix c' p' rv' assume run: "RVOP inst code env ir c p rv = Inr (Continue To_next c' p', rv')"
  then obtain fl q r where r: "code env ir (c + 1) p (rv\<lparr>PC := p\<rparr>) = Inr (fl, q, r)"
    by (cases "code env ir (c + 1) p (rv\<lparr>PC := p\<rparr>)") (auto simp: RVOP_def)
  with run code(2) [OF r] code(3, 4) show "c' = c + 1" "p' = p + insn_len inst"
    by (cases fl; auto simp: RVOP_def Let_def next_or_stop_def end_op_def signal_taken_def split: if_splits)+
qed

lemma shapes_ignore_next [simp]:
  "ignores_next (straight f)" "ignores_next (straight_checked g)" "ignores_next (reg_op op)" "ignores_next (imm_op op)"
  "ignores_next (csr_op acc opd)" "ignores_next (f_op op)" "ignores_next (fp_round f')" "ignores_next (fp_to_int g')"
  "ignores_next (fp_compare h)" "ignores_next (fp_select lt neg)"
  by (auto simp: ignores_next_def straight_def straight_checked_def reg_op_def imm_op_def csr_op_def f_op_def
      fp_round_def fp_to_int_def fp_compare_def fp_select_def Let_def obind_Inr_iff split: prod.splits)
    (metis surj_pair)+

lemma memory_ignores_next [simp]:
  "ignores_next (load_op m cmp address rd0 put)" "ignores_next (store_op m cmp address val wr)" "ignores_next (amo_op f)"
  by (auto simp: ignores_next_def load_op_def store_op_def amo_op_def misalign_guard_def Let_def obind_Inr_iff
      split: if_splits)

lemma branches_ignore_next [simp]: "ignores_next (BRANCH_FUNC b)" "ignores_next (cbranch b')"
  by (auto simp: ignores_next_def BRANCH_FUNC_def cbranch_def follow_taken_def follow_def Let_def split: if_splits)

lemma rv32i_unlinks: "unlinks (RV32I i) (dispatch_rv32i i)"
  by (cases i; simp only: dispatch_rv32i.simps handler_defs; rule RVOP_unlinks;
      (simp; fail | auto simp: ignores_next_def follow_taken_def follow_def lookup_branch_history_def misalign_guard_def
         Let_def obind_Inr_iff split: if_splits; fail))

lemma priv_unlinks: "unlinks (PRIV i) (dispatch_priv i)"
  by (cases i; simp only: dispatch_priv.simps handler_defs; rule RVOP_unlinks;
      (simp; fail | auto simp: ignores_next_def follow_taken_def follow_def lookup_branch_history_def misalign_guard_def
         Let_def obind_Inr_iff split: if_splits; fail))

lemma zifencei_unlinks: "unlinks (ZIFENCEI i) (dispatch_zifencei i)"
  by (cases i; simp only: dispatch_zifencei.simps handler_defs; rule RVOP_unlinks;
      (simp; fail | auto simp: ignores_next_def follow_taken_def follow_def lookup_branch_history_def misalign_guard_def
         Let_def obind_Inr_iff split: if_splits; fail))

lemma zicsr_unlinks: "unlinks (ZICSR i) (dispatch_zicsr i)"
  by (cases i; simp only: dispatch_zicsr.simps handler_defs; rule RVOP_unlinks;
      (simp; fail | auto simp: ignores_next_def follow_taken_def follow_def lookup_branch_history_def misalign_guard_def
         Let_def obind_Inr_iff split: if_splits; fail))

lemma zba_unlinks: "unlinks (ZBA i) (dispatch_zba i)"
  by (cases i; simp only: dispatch_zba.simps handler_defs; rule RVOP_unlinks;
      (simp; fail | auto simp: ignores_next_def follow_taken_def follow_def lookup_branch_history_def misalign_guard_def
         Let_def obind_Inr_iff split: if_splits; fail))

lemma zbb_unlinks: "unlinks (ZBB i) (dispatch_zbb i)"
  by (cases i; simp only: dispatch_zbb.simps handler_defs; rule RVOP_unlinks;
      (simp; fail | auto simp: ignores_next_def follow_taken_def follow_def lookup_branch_history_def misalign_guard_def
         Let_def obind_Inr_iff split: if_splits; fail))

lemma zbc_unlinks: "unlinks (ZBC i) (dispatch_zbc i)"
  by (cases i; simp only: dispatch_zbc.simps handler_defs; rule RVOP_unlinks;
      (simp; fail | auto simp: ignores_next_def follow_taken_def follow_def lookup_branch_history_def misalign_guard_def
         Let_def obind_Inr_iff split: if_splits; fail))

lemma zbs_unlinks: "unlinks (ZBS i) (dispatch_zbs i)"
  by (cases i; simp only: dispatch_zbs.simps handler_defs; rule RVOP_unlinks;
      (simp; fail | auto simp: ignores_next_def follow_taken_def follow_def lookup_branch_history_def misalign_guard_def
         Let_def obind_Inr_iff split: if_splits; fail))

lemma rv32m_unlinks: "unlinks (RV32M i) (dispatch_rv32m i)"
  by (cases i; simp only: dispatch_rv32m.simps handler_defs; rule RVOP_unlinks;
      (simp; fail | auto simp: ignores_next_def follow_taken_def follow_def lookup_branch_history_def misalign_guard_def
         Let_def obind_Inr_iff split: if_splits; fail))

lemma rv32a_unlinks: "unlinks (RV32A i) (dispatch_rv32a i)"
  by (cases i; simp only: dispatch_rv32a.simps handler_defs; rule RVOP_unlinks;
      (simp; fail | auto simp: ignores_next_def follow_taken_def follow_def lookup_branch_history_def misalign_guard_def
         Let_def obind_Inr_iff split: if_splits; fail))

lemma rv32f_unlinks: "unlinks (RV32F i) (dispatch_rv32f i)"
  by (cases i; simp only: dispatch_rv32f.simps handler_defs; rule RVOP_unlinks;
      (simp; fail | auto simp: ignores_next_def follow_taken_def follow_def lookup_branch_history_def misalign_guard_def
         Let_def obind_Inr_iff split: if_splits; fail))

lemma rv32c_unlinks: "unlinks (RV32C i) (dispatch_rv32c i)"
  by (cases i; simp only: dispatch_rv32c.simps handler_defs; rule RVOP_unlinks;
      (simp; fail | auto simp: ignores_next_def follow_taken_def follow_def lookup_branch_history_def misalign_guard_def
         Let_def obind_Inr_iff split: if_splits; fail))

lemma rv32fc_unlinks: "unlinks (RV32FC i) (dispatch_rv32fc i)"
  by (cases i; simp only: dispatch_rv32fc.simps handler_defs; rule RVOP_unlinks;
      (simp; fail | auto simp: ignores_next_def follow_taken_def follow_def lookup_branch_history_def misalign_guard_def
         Let_def obind_Inr_iff split: if_splits; fail))

lemma exec_unlinks: "opcode ir \<notin> range FUSE \<Longrightarrow> unlinks (opcode ir) (dispatch_table (opcode ir))"
  using rv32i_unlinks priv_unlinks zifencei_unlinks zicsr_unlinks zba_unlinks zbb_unlinks zbc_unlinks zbs_unlinks
    rv32m_unlinks rv32a_unlinks rv32f_unlinks rv32c_unlinks rv32fc_unlinks
  by (cases "opcode ir") simp_all

lemma exec_unlink:
  assumes "opcode ir \<notin> range FUSE"
  shows "exec_insn (env\<lparr>has_next := False\<rparr>) ir c p rv = map_sum id unlink (exec_insn (env\<lparr>has_next := True\<rparr>) ir c p rv)"
    and "exec_insn env ir c p rv = Inr (Continue To_next c' p', rv') \<Longrightarrow> c' = c + 1 \<and> p' = p + insn_len (opcode ir)"
  using exec_unlinks [OF assms] unfolding exec_insn_def unlinks_def by blast+

section \<open>The stale cycle counter\<close>

text \<open>Two results agree up to the cycle counter of the hart.\<close>

definition same_mod :: "('a \<times> riscv_t) outcome \<Rightarrow> ('a \<times> riscv_t) outcome \<Rightarrow> bool" where
  "same_mod r s \<longleftrightarrow> map_sum id (map_prod id (set_cycle 0)) r = map_sum id (map_prod id (set_cycle 0)) s"

lemma set_cycle_twice [simp]: "set_cycle c (set_cycle d rv) = set_cycle c rv"
  by (simp add: set_cycle_def set_csr_def)

lemma set_cycle_fields [simp]:
  "F (set_cycle c rv) = F rv" "PC (set_cycle c rv) = PC rv" "glob (set_cycle c rv) = glob rv"
  "attr (set_cycle c rv) = attr rv" "is_trapped (set_cycle c rv) = is_trapped rv" "priv_mode (set_cycle c rv) = priv_mode rv"
  "lr_valid (set_cycle c rv) = lr_valid rv" "lr_addr (set_cycle c rv) = lr_addr rv" "lr_value (set_cycle c rv) = lr_value rv"
  "bare (set_cycle c rv) = bare rv" "csr_fcsr (csr (set_cycle c rv)) = csr_fcsr (csr rv)"
  "hart_id (set_cycle c rv) = hart_id rv" "timer_offset (set_cycle c rv) = timer_offset rv"
  by (simp_all add: set_cycle_def set_csr_def bare_def)

text \<open>The updates the handlers make commute with the counter.\<close>

lemma set_cycle_out:
  "set_X r v (set_cycle c rv) = set_cycle c (set_X r v rv)" "set_F r v (set_cycle c rv) = set_cycle c (set_F r v rv)"
  "link_X r v (set_cycle c rv) = set_cycle c (link_X r v rv)" "set_glob f (set_cycle c rv) = set_cycle c (set_glob f rv)"
  "set_ram m (set_cycle c rv) = set_cycle c (set_ram m rv)" "raise_flags fl (set_cycle c rv) = set_cycle c (raise_flags fl rv)"
  "or_fcsr w (set_cycle c rv) = set_cycle c (or_fcsr w rv)" "set_fflag sf (set_cycle c rv) = set_cycle c (set_fflag sf rv)"
  "set_branch_taken b (set_cycle c rv) = set_cycle c (set_branch_taken b rv)"
  "(set_cycle c rv)\<lparr>PC := p\<rparr> = set_cycle c (rv\<lparr>PC := p\<rparr>)" "(set_cycle c rv)\<lparr>compressed := k\<rparr> = set_cycle c (rv\<lparr>compressed := k\<rparr>)"
  "mret_hart (set_cycle c rv) = set_cycle c (mret_hart rv)" "sret_hart (set_cycle c rv) = set_cycle c (sret_hart rv)"
  "mmu_tlb_flush_all (set_cycle c rv) = set_cycle c (mmu_tlb_flush_all rv)"
  "mmu_tlb_flush a (set_cycle c rv) = set_cycle c (mmu_tlb_flush a rv)"
  "(set_cycle c rv)\<lparr>is_trapped := t\<rparr> = set_cycle c (rv\<lparr>is_trapped := t\<rparr>)"
  "(set_cycle c rv)\<lparr>lr_valid := t\<rparr> = set_cycle c (rv\<lparr>lr_valid := t\<rparr>)"
  "(set_cycle c rv)\<lparr>lr_addr := a', lr_value := v, lr_valid := t\<rparr> = set_cycle c (rv\<lparr>lr_addr := a', lr_value := v, lr_valid := t\<rparr>)"
  by (simp_all add: set_cycle_def set_csr_def set_X_def set_F_def link_X_def set_glob_def set_ram_def raise_flags_def
      or_fcsr_def set_fflag_def set_branch_taken_def mret_hart_def sret_hart_def mmu_tlb_flush_all_def mmu_tlb_flush_def Let_def)

definition cycle_blind :: "body_t \<Rightarrow> bool" where
  "cycle_blind code \<longleftrightarrow> (\<forall>env calls ir c p rv d. env_io env = with_mmu calls \<longrightarrow> bare rv \<longrightarrow>
    same_mod (map_sum id (\<lambda>(fl, q, rv). ((fl, q), rv)) (code env ir c p (set_cycle d rv)))
             (map_sum id (\<lambda>(fl, q, rv). ((fl, q), rv)) (code env ir c p rv)))"

lemma same_modI [simp]: "same_mod r r"
  by (simp add: same_mod_def)

lemma set_rounding_cycle:
  "set_rounding_mode sf m (set_cycle c rv) = map_sum id (set_cycle c) (set_rounding_mode sf m rv)"
  by (simp add: set_rounding_mode_def Let_def set_cycle_def set_csr_def split: option.split)

lemma rmode_cycle [simp]: "rmode (set_cycle c rv) = rmode rv"
  by (simp add: rmode_def)

lemma shapes_cycle_blind [simp]:
  "cycle_blind (reg_op op)" "cycle_blind (imm_op op)" "cycle_blind (f_op op)"
  "cycle_blind (fp_compare h)" "cycle_blind (fp_select lt neg)" "cycle_blind (BRANCH_FUNC b)" "cycle_blind (cbranch b')"
  by (auto simp: cycle_blind_def straight_def reg_op_def imm_op_def f_op_def set_cycle_out same_mod_def
      fp_compare_def fp_select_def Let_def BRANCH_FUNC_def cbranch_def follow_taken_def follow_def split: prod.splits)

lemma straight_cycle_blind:
  "(\<And>ir p rv c. set_cycle 0 (f ir p (set_cycle c rv)) = set_cycle 0 (f ir p rv)) \<Longrightarrow> cycle_blind (straight f)"
  by (simp add: cycle_blind_def straight_def same_mod_def)

lemma straight_checked_cycle_blind:
  "(\<And>ir rv c. f ir (set_cycle c rv) = map_sum id (set_cycle c) (f ir rv)) \<Longrightarrow> cycle_blind (straight_checked f)"
  by (auto simp: cycle_blind_def straight_checked_def same_mod_def obind_def split: sum.splits)

lemma shift_func_cycle: "shift_func ir (set_cycle c rv) = map_sum id (set_cycle c) (shift_func ir rv)"
  by (simp add: shift_func_def set_cycle_out)

lemma fp_round_cycle_blind:
  assumes "\<And>sf m ir rv c. f sf m ir (set_cycle c rv) = f sf m ir rv"
  shows "cycle_blind (fp_round f)"
  using assms
  by (auto simp: cycle_blind_def fp_round_def same_mod_def set_rounding_cycle set_cycle_out obind_def Let_def
      split: sum.splits prod.splits)

lemma fp_to_int_cycle_blind [simp]: "cycle_blind (fp_to_int g)"
  by (auto simp: cycle_blind_def fp_to_int_def same_mod_def set_rounding_cycle set_cycle_out obind_def Let_def
      split: sum.splits prod.splits)

lemma misalign_cycle [simp]:
  "misalign_trap k c p cause a (set_cycle d rv) = misalign_trap k c p cause a rv" "misaligned m a (set_cycle d rv) = misaligned m a rv"
  by (simp_all add: misalign_trap_def misaligned_def set_cycle_out)

lemma load_cycle_blind:
  assumes "\<And>ir rv c. address ir (set_cycle c rv) = address ir rv"
  shows "(\<And>ir v rv c. put ir v (set_cycle c rv) = set_cycle c (put ir v rv)) \<Longrightarrow> cycle_blind (load_op m k address mem_read_w put)"
    and "(\<And>ir v rv c. put' ir v (set_cycle c rv) = set_cycle c (put' ir v rv)) \<Longrightarrow> cycle_blind (load_op m k address mem_read_s put')"
    and "(\<And>ir v rv c. put'' ir v (set_cycle c rv) = set_cycle c (put'' ir v rv)) \<Longrightarrow> cycle_blind (load_op m k address mem_read_b put'')"
  using assms
  by (auto simp: cycle_blind_def load_op_def misalign_guard_def same_mod_def set_cycle_out bare_accesses Let_def)

lemma store_cycle_blind:
  assumes "\<And>ir rv c. address ir (set_cycle c rv) = address ir rv"
  shows "(\<And>ir rv c. val ir (set_cycle c rv) = val ir rv) \<Longrightarrow> cycle_blind (store_op m k address val mem_write_w)"
    and "(\<And>ir rv c. val' ir (set_cycle c rv) = val' ir rv) \<Longrightarrow> cycle_blind (store_op m k address val' mem_write_s)"
    and "(\<And>ir rv c. val'' ir (set_cycle c rv) = val'' ir rv) \<Longrightarrow> cycle_blind (store_op m k address val'' mem_write_b)"
  using assms
  by (auto simp: cycle_blind_def store_op_def misalign_guard_def same_mod_def set_cycle_out bare_accesses Let_def)

lemma bare_link_X [simp]: "bare (link_X r v rv) = bare rv" "bare (set_X r v rv) = bare rv"
  by (simp_all add: link_X_def bare_def)

lemma attr_link_X [simp]: "attr (link_X r v rv) = attr rv"
  by (simp add: link_X_def)

lemma amo_cycle_blind [simp]: "cycle_blind (amo_op f)"
  by (auto simp: cycle_blind_def amo_op_def misalign_guard_def same_mod_def set_cycle_out bare_accesses Let_def)

lemma addresses_cycle [simp]: "rs1_imm ir (set_cycle c rv) = rs1_imm ir rv" "sp_imm ir (set_cycle c rv) = sp_imm ir rv"
  by (simp_all add: rs1_imm_def sp_imm_def)

section \<open>CSR accesses\<close>

text \<open>An access to a counter synchronises it first; every other access does not see it.\<close>

definition counts :: "csr_ref \<Rightarrow> bool" where
  "counts r \<longleftrightarrow> r \<in> {Cycle_low, Cycle_high, Time_low, Time_high}"

lemma csr_load_cycle: "\<not> counts r \<Longrightarrow> csr_load r (set_cycle c rv) = csr_load r rv"
  by (cases r) (simp_all add: counts_def set_cycle_def set_csr_def)

lemma csr_store_cycle: "\<not> counts r \<Longrightarrow> csr_store r v (set_cycle c rv) = set_cycle c (csr_store r v rv)"
  by (cases r) (simp_all add: counts_def set_cycle_def set_csr_def)

lemma csr_modify_cycle: "\<not> counts r \<Longrightarrow> csr_modify f r (set_cycle c rv) = set_cycle c (csr_modify f r rv)"
  by (auto simp: csr_modify_def Let_def csr_load_cycle csr_store_cycle set_cycle_out)

lemma csr_sync_cases:
  obtains "\<And>d rv. csr_sync_cycle a c (set_cycle d rv) = csr_sync_cycle a c rv"
  | r where "\<And>rv. csr_sync_cycle a c rv = rv" "\<And>rv. csr_get_ptr a rv = (rv, r)" "\<And>x. r = Some x \<Longrightarrow> \<not> counts x"
proof (cases "a AND 0xFFF \<in> {0xC00, 0xC80, 0xC02, 0xC82, 0xB00, 0xB80, 0xB02, 0xB82, 0xC01, 0xC81, 0x802, 0x7E2}")
  case True
  then show ?thesis
    by (intro that(1)) (simp add: csr_sync_cycle_def set_cycle_def set_csr_def)
next
  case False
  then have "\<not> counts x" if "switch (a AND 0xFFF) csr_table = Some x" for x
    using that by (auto simp: csr_table_def counts_def split: if_splits)
  with False show ?thesis
    by (intro that(2) [of "switch (a AND 0xFFF) csr_table"]) (auto simp: csr_sync_cycle_def csr_get_ptr_def counts_def Let_def)
qed

lemma csr_access_cycle:
  assumes "acc \<in> {csr_csrrw, csr_csrrs, csr_csrrc}"
  shows "\<exists>e. acc a v c (set_cycle d rv) = map_prod (set_cycle e) id (acc a v c rv) \<or> acc a v c (set_cycle d rv) = acc a v c rv"
proof (cases rule: csr_sync_cases [of a c])
  case 1
  then show ?thesis
    using assms by (auto simp: csr_csrrw_def csr_csrrs_def csr_csrrc_def)
next
  case (2 r)
  note sync = 2
  have glob: "(set_cycle d rv)\<lparr>glob := g\<rparr> = set_cycle d (rv\<lparr>glob := g\<rparr>)" for g rv
    by (simp add: set_cycle_def set_csr_def)
  show ?thesis
  proof (cases r)
    case None
    with sync assms have "acc a v c (set_cycle d rv) = map_prod (set_cycle d) id (acc a v c rv)"
      by (auto simp: csr_csrrw_def csr_csrrs_def csr_csrrc_def)
    then show ?thesis by blast
  next
    case (Some x)
    with sync assms have "acc a v c (set_cycle d rv) = map_prod (set_cycle d) id (acc a v c rv)"
      by (auto simp: csr_csrrw_def csr_csrrs_def csr_csrrc_def csr_load_cycle csr_modify_cycle Let_def glob)
    then show ?thesis by blast
  qed
qed

lemma csr_op_cycle_blind:
  assumes "acc \<in> {csr_csrrw, csr_csrrs, csr_csrrc}" "\<And>ir rv c. opd ir (set_cycle c rv) = opd ir rv"
  shows "cycle_blind (csr_op acc opd)"
proof -
  have "same_mod (map_sum id (\<lambda>(fl, q, rv). ((fl, q), rv)) (csr_op acc opd env ir c p (set_cycle d rv)))
      (map_sum id (\<lambda>(fl, q, rv). ((fl, q), rv)) (csr_op acc opd env ir c p rv))" for env ir c p rv d
    using csr_access_cycle [OF assms(1), of "imm ir" "opd ir rv" c d rv]
    by (auto simp: csr_op_def assms(2) same_mod_def set_cycle_out map_prod_def split: prod.splits)
  then show ?thesis
    by (simp add: cycle_blind_def)
qed

section \<open>Handlers\<close>

definition blind :: "handler_t \<Rightarrow> bool" where
  "blind h \<longleftrightarrow> (\<forall>env calls ir c p rv d. env_io env = with_mmu calls \<longrightarrow> bare rv \<longrightarrow>
    same_mod (h env ir c p (set_cycle d rv)) (h env ir c p rv))"

lemma same_state:
  assumes "set_cycle 0 r = set_cycle 0 s"
  shows "glob r = glob s" "is_trapped r = is_trapped s"
    "set_cycle c r = set_cycle c s" "set_cycle c (set_glob f r) = set_cycle c (set_glob f s)"
    "set_cycle c (r\<lparr>PC := q\<rparr>) = set_cycle c (s\<lparr>PC := q\<rparr>)"
    "set_cycle c ((set_glob f r)\<lparr>PC := q\<rparr>) = set_cycle c ((set_glob f s)\<lparr>PC := q\<rparr>)"
  using assms
  by (metis set_cycle_fields(3), metis set_cycle_fields(5), metis set_cycle_twice, metis set_cycle_out(4) set_cycle_twice,
      metis set_cycle_out(10) set_cycle_twice, metis set_cycle_out(4, 10) set_cycle_twice)

lemma RVOP_blind:
  assumes "cycle_blind code"
  shows "blind (RVOP inst code)"
  unfolding blind_def
proof (intro allI impI)
  fix env :: env_t and calls ir c p and rv :: riscv_t and d
  assume io: "env_io env = with_mmu calls" and "bare rv"
  then have "bare (rv\<lparr>PC := p\<rparr>)"
    by (simp add: bare_def)
  with assms io have same: "same_mod (map_sum id (\<lambda>(fl, q, rv). ((fl, q), rv)) (code env ir (c + 1) p (set_cycle d (rv\<lparr>PC := p\<rparr>))))
      (map_sum id (\<lambda>(fl, q, rv). ((fl, q), rv)) (code env ir (c + 1) p (rv\<lparr>PC := p\<rparr>)))"
    unfolding cycle_blind_def by blast
  show "same_mod (RVOP inst code env ir c p (set_cycle d rv)) (RVOP inst code env ir c p rv)"
  proof (cases "code env ir (c + 1) p (rv\<lparr>PC := p\<rparr>)")
    case (Inl e)
    with same have "code env ir (c + 1) p (set_cycle d (rv\<lparr>PC := p\<rparr>)) = Inl e"
      by (cases "code env ir (c + 1) p (set_cycle d (rv\<lparr>PC := p\<rparr>))") (simp_all add: same_mod_def)
    with Inl show ?thesis
      by (simp add: RVOP_def set_cycle_out)
  next
    case (Inr x)
    obtain fl q r where x: "x = (fl, q, r)"
      by (cases x)
    with same Inr obtain s where s: "code env ir (c + 1) p (set_cycle d (rv\<lparr>PC := p\<rparr>)) = Inr (fl, q, s)"
      "set_cycle 0 s = set_cycle 0 r"
      by (cases "code env ir (c + 1) p (set_cycle d (rv\<lparr>PC := p\<rparr>))") (auto simp: same_mod_def)
    with same_state [OF s(2)] Inr x show ?thesis
      by (cases fl) (auto simp: RVOP_def same_mod_def next_or_stop_def end_op_def signal_taken_def set_cycle_out Let_def)
  qed
qed

lemmas body_blind_rules = straight_cycle_blind straight_checked_cycle_blind fp_round_cycle_blind load_cycle_blind store_cycle_blind csr_op_cycle_blind

lemmas body_blind_simps = cycle_blind_def same_mod_def set_cycle_out straight_checked_def misalign_guard_def bare_accesses
  follow_taken_def follow_def lookup_branch_history_def sync_for_call_def escape_reloc_def Let_def

lemma rv32i_blind: "blind (dispatch_rv32i i)"
  by (cases i; simp only: dispatch_rv32i.simps handler_defs; rule RVOP_blind;
      (simp; fail | (rule body_blind_rules; simp add: set_cycle_out shift_func_cycle obind_def Let_def split: sum.split; fail) | auto simp: body_blind_simps; fail))

lemma priv_blind: "blind (dispatch_priv i)"
  by (cases i; simp only: dispatch_priv.simps handler_defs; rule RVOP_blind;
      (simp; fail | (rule body_blind_rules; simp add: set_cycle_out shift_func_cycle obind_def Let_def split: sum.split; fail) | auto simp: body_blind_simps; fail))

lemma zifencei_blind: "blind (dispatch_zifencei i)"
  by (cases i; simp only: dispatch_zifencei.simps handler_defs; rule RVOP_blind;
      (simp; fail | (rule body_blind_rules; simp add: set_cycle_out shift_func_cycle obind_def Let_def split: sum.split; fail) | auto simp: body_blind_simps; fail))

lemma zicsr_blind: "blind (dispatch_zicsr i)"
  by (cases i; simp only: dispatch_zicsr.simps handler_defs; rule RVOP_blind;
      (simp; fail | (rule body_blind_rules; simp add: set_cycle_out shift_func_cycle obind_def Let_def split: sum.split; fail) | auto simp: body_blind_simps; fail))

lemma zba_blind: "blind (dispatch_zba i)"
  by (cases i; simp only: dispatch_zba.simps handler_defs; rule RVOP_blind;
      (simp; fail | (rule body_blind_rules; simp add: set_cycle_out shift_func_cycle obind_def Let_def split: sum.split; fail) | auto simp: body_blind_simps; fail))

lemma zbb_blind: "blind (dispatch_zbb i)"
  by (cases i; simp only: dispatch_zbb.simps handler_defs; rule RVOP_blind;
      (simp; fail | (rule body_blind_rules; simp add: set_cycle_out shift_func_cycle obind_def Let_def split: sum.split; fail) | auto simp: body_blind_simps; fail))

lemma zbc_blind: "blind (dispatch_zbc i)"
  by (cases i; simp only: dispatch_zbc.simps handler_defs; rule RVOP_blind;
      (simp; fail | (rule body_blind_rules; simp add: set_cycle_out shift_func_cycle obind_def Let_def split: sum.split; fail) | auto simp: body_blind_simps; fail))

lemma zbs_blind: "blind (dispatch_zbs i)"
  by (cases i; simp only: dispatch_zbs.simps handler_defs; rule RVOP_blind;
      (simp; fail | (rule body_blind_rules; simp add: set_cycle_out shift_func_cycle obind_def Let_def split: sum.split; fail) | auto simp: body_blind_simps; fail))

lemma rv32m_blind: "blind (dispatch_rv32m i)"
  by (cases i; simp only: dispatch_rv32m.simps handler_defs; rule RVOP_blind;
      (simp; fail | (rule body_blind_rules; simp add: set_cycle_out shift_func_cycle obind_def Let_def split: sum.split; fail) | auto simp: body_blind_simps; fail))

lemma rv32a_blind: "blind (dispatch_rv32a i)"
  by (cases i; simp only: dispatch_rv32a.simps handler_defs; rule RVOP_blind;
      (simp; fail | (rule body_blind_rules; simp add: set_cycle_out shift_func_cycle obind_def Let_def split: sum.split; fail) | auto simp: body_blind_simps; fail))

lemma rv32f_blind: "blind (dispatch_rv32f i)"
  by (cases i; simp only: dispatch_rv32f.simps handler_defs; rule RVOP_blind;
      (simp; fail | (rule body_blind_rules; simp add: set_cycle_out shift_func_cycle obind_def Let_def split: sum.split; fail) | auto simp: body_blind_simps; fail))

lemma rv32c_blind: "blind (dispatch_rv32c i)"
  by (cases i; simp only: dispatch_rv32c.simps handler_defs; rule RVOP_blind;
      (simp; fail | (rule body_blind_rules; simp add: set_cycle_out shift_func_cycle obind_def Let_def split: sum.split; fail) | auto simp: body_blind_simps; fail))

lemma rv32fc_blind: "blind (dispatch_rv32fc i)"
  by (cases i; simp only: dispatch_rv32fc.simps handler_defs; rule RVOP_blind;
      (simp; fail | (rule body_blind_rules; simp add: set_cycle_out shift_func_cycle obind_def Let_def split: sum.split; fail) | auto simp: body_blind_simps; fail))

lemma dispatch_blind: "op \<notin> range FUSE \<Longrightarrow> blind (dispatch_table op)"
  using rv32i_blind priv_blind zifencei_blind zicsr_blind zba_blind zbb_blind zbc_blind zbs_blind
    rv32m_blind rv32a_blind rv32f_blind rv32c_blind rv32fc_blind
  by (cases op) simp_all

lemma exec_blind:
  assumes "opcode ir \<notin> range FUSE" "env_io env = with_mmu calls" "bare rv"
  shows "same_mod (exec_insn env ir c p (set_cycle d rv)) (exec_insn env ir c p rv)"
  using dispatch_blind [OF assms(1)] assms(2, 3) unfolding exec_insn_def blind_def by blast

end
