(* ===== verification/LockstepProps.thy ===== *)
theory LockstepProps imports Lockstep TrapProps begin

text \<open>
  A block executed by the main loop and its instructions executed one at a time by the debugger's single
  step lead to the same hart.
\<close>

declare trap_handler.simps [simp del]

fun debug_steps :: "system_t \<Rightarrow> nat \<Rightarrow> nat \<Rightarrow> riscv_t \<Rightarrow> riscv_t outcome" where
  "debug_steps sys n 0 rv = Inr rv"
| "debug_steps sys n (Suc k) rv = obind (rv_step_debug sys n rv) (debug_steps sys n k)"

text \<open>While the block runs, translation is off and the code of each instruction is still in memory when it
  is reached.\<close>

fun code_run :: "env_t \<Rightarrow> rv_insn_t list \<Rightarrow> u64 \<Rightarrow> u32 \<Rightarrow> riscv_t \<Rightarrow> bool" where
  "code_run env [] c p rv \<longleftrightarrow> True"
| "code_run env (ir # irs) c p rv \<longleftrightarrow> bare rv \<and> code_at (ram (attr rv)) ir \<and>
    (case exec_insn (env\<lparr>has_next := irs \<noteq> []\<rparr>) ir c p rv of
       Inr (Continue To_next c' p', rv') \<Rightarrow> code_run env irs c' p' rv'
     | _ \<Rightarrow> True)"

lemma decode_zero: "rv_decode zero_insn 0 \<noteq> Inr (True, ir)"
proof -
  have "fst (projr (rv_decode zero_insn 0)) = False"
    by code_simp
  then show ?thesis
    by auto
qed

lemma set_cycle_back: "csr_cycle (csr (set_cycle c rv)) = c"
  by (simp add: set_cycle_def set_csr_def)

text \<open>One step of the debugger executes the instruction at the program counter.\<close>

lemma debug_step:
  assumes "bare rv" "code_at (ram (attr rv)) ir" "pc ir = p"
  shows "rv_step_debug sys (Suc n) (set_cycle c (rv\<lparr>PC := p\<rparr>)) =
    obind (exec_insn (lone_env sys (trap_handler sys (Suc n))) ir c p (set_cycle c rv)) (\<lambda>r. Inr (note_cleared r))"
proof -
  obtain ir0 where ir: "rv_decode zero_insn (memory_ifetch (ram (attr rv)) p) = Inr (True, ir0)" "ir = ir0\<lparr>pc := p\<rparr>"
    using assms(2, 3) by (auto simp: code_at_def)
  then have nonzero: "memory_ifetch (ram (attr rv)) p \<noteq> 0"
    using decode_zero by metis
  have "bare (set_cycle c (rv\<lparr>PC := p\<rparr>))" "csr_satp (csr (set_cycle c (rv\<lparr>PC := p\<rparr>))) = 0"
    using assms(1) by (simp_all add: bare_def set_cycle_def set_csr_def)
  then have fetch: "fetch_retrying (system_io sys trap) (Suc n) (set_cycle c (rv\<lparr>PC := p\<rparr>)) =
      Inr (set_cycle c (rv\<lparr>PC := p\<rparr>), memory_ifetch (ram (attr rv)) p)" for trap
    using nonzero by (simp add: system_io_def mmu_ifetch_def)
  have "exec_insn env ir c p (set_cycle c (rv\<lparr>PC := p\<rparr>)) = exec_insn env ir c p (set_cycle c rv)" for env
    using exec_PC [where rv = "set_cycle c rv" and q = p] by (simp add: set_cycle_out)
  then show ?thesis
    using fetch nonzero ir by (simp add: rv_step_debug_def set_cycle_back)
qed

text \<open>The environment of a lone instruction has no next one.\<close>

lemma lone_env_next [simp]: "(lone_env sys trap)\<lparr>has_next := False\<rparr> = lone_env sys trap"
  by (simp add: lone_env_def)

lemma lone_env_io: "\<exists>calls. env_io (lone_env sys trap) = with_mmu calls"
  by (auto simp: lone_env_def system_io_def)

lemma code_at_opcode: "code_at m ir \<Longrightarrow> opcode ir \<notin> range FUSE"
  using decode_yields(1) unfolding code_at_def by (metis rv_insn_t.ext_inject rv_insn_t.surjective rv_insn_t.update_convs(10))

lemma debug_last:
  assumes "bare rv" "code_at (ram (attr rv)) ir" "pc ir = p"
    and "exec_insn (lone_env sys (trap_handler sys (Suc n))) ir c p rv = Inr (l, rv')"
  shows "\<exists>s. rv_step_debug sys (Suc n) (set_cycle c (rv\<lparr>PC := p\<rparr>)) = Inr s \<and> set_cycle 0 s = set_cycle 0 (note_cleared (l, rv'))"
proof -
  obtain calls where io: "env_io (lone_env sys (trap_handler sys (Suc n))) = with_mmu calls"
    using lone_env_io by blast
  from exec_blind [OF code_at_opcode [OF assms(2)] io assms(1), of c p c] assms(4)
  obtain s where s: "exec_insn (lone_env sys (trap_handler sys (Suc n))) ir c p (set_cycle c rv) = Inr (l, s)"
    "set_cycle 0 s = set_cycle 0 rv'"
    by (cases "exec_insn (lone_env sys (trap_handler sys (Suc n))) ir c p (set_cycle c rv)") (auto simp: same_mod_def)
  have "set_cycle 0 (note_cleared (l, s)) = set_cycle 0 (note_cleared (l, rv'))"
    using s(2) same_state(4) [OF s(2)] by (simp add: note_cleared_def)
  with debug_step [OF assms(1-3), of sys n c] s(1) show ?thesis
    by simp
qed

lemma debug_continue:
  assumes "bare rv" "code_at (ram (attr rv)) ir" "pc ir = p"
    and "exec_insn ((lone_env sys (trap_handler sys (Suc n)))\<lparr>has_next := True\<rparr>) ir c p rv = Inr (Continue To_next c' p', rv')"
  shows "rv_step_debug sys (Suc n) (set_cycle c (rv\<lparr>PC := p\<rparr>)) = Inr (set_cycle c' (rv'\<lparr>PC := p'\<rparr>))"
proof -
  let ?env = "lone_env sys (trap_handler sys (Suc n))"
  obtain calls where io: "env_io (?env\<lparr>has_next := True\<rparr>) = with_mmu calls"
    using lone_env_io by auto
  from exec_blind [OF code_at_opcode [OF assms(2)] io assms(1), of c p c] assms(4)
  obtain s where s: "exec_insn (?env\<lparr>has_next := True\<rparr>) ir c p (set_cycle c rv) = Inr (Continue To_next c' p', s)"
    "set_cycle 0 s = set_cycle 0 rv'"
    by (cases "exec_insn (?env\<lparr>has_next := True\<rparr>) ir c p (set_cycle c rv)") (auto simp: same_mod_def)
  then have "exec_insn ?env ir c p (set_cycle c rv) = Inr (end_op c' p' s)"
    using exec_unlink(1) [OF code_at_opcode [OF assms(2)], of ?env c p "set_cycle c rv"] by (simp add: unlink_def)
  with debug_step [OF assms(1-3), of sys n c] same_state(5) [OF s(2)] show ?thesis
    by (simp add: note_cleared_def end_op_def set_cycle_out)
qed

lemma block_debug_steps:
  assumes "code_run (lone_env sys (trap_handler sys (Suc n))) irs c p rv" "placed_at p irs" "irs \<noteq> []"
    and "run_insns (lone_env sys (trap_handler sys (Suc n))) irs c p rv = Inr (l, rv')"
  shows "\<exists>k s. 1 \<le> k \<and> k \<le> length irs \<and> debug_steps sys (Suc n) k (set_cycle c (rv\<lparr>PC := p\<rparr>)) = Inr s \<and>
    set_cycle 0 s = set_cycle 0 (note_cleared (l, rv'))"
  using assms
proof (induction irs arbitrary: c p rv)
  case (Cons ir irs)
  let ?env = "lone_env sys (trap_handler sys (Suc n))"
  have at: "bare rv" "code_at (ram (attr rv)) ir" "pc ir = p"
    using Cons.prems(1, 2) by simp_all
  obtain l1 rv1 where exec: "exec_insn (?env\<lparr>has_next := irs \<noteq> []\<rparr>) ir c p rv = Inr (l1, rv1)"
    using Cons.prems(4) by (auto simp: obind_Inr_iff)
  show ?case
  proof (cases "\<exists>c' p'. irs \<noteq> [] \<and> l1 = Continue To_next c' p'")
    case True
    then obtain c' p' where go: "irs \<noteq> []" "l1 = Continue To_next c' p'"
      by blast
    have next': "p' = p + insn_len (opcode ir)"
      using exec_unlink(2) [OF code_at_opcode [OF at(2)]] exec go by blast
    obtain k s where "1 \<le> k" "k \<le> length irs" "debug_steps sys (Suc n) k (set_cycle c' (rv1\<lparr>PC := p'\<rparr>)) = Inr s"
      "set_cycle 0 s = set_cycle 0 (note_cleared (l, rv'))"
      using Cons.IH [of c' p' rv1] Cons.prems exec go next' by auto
    with debug_continue [OF at, of sys n c c' p' rv1] exec go show ?thesis
      by (intro exI [of _ "Suc k"] exI [of _ s]) simp
  next
    case False
    have "l = l1" "rv' = rv1"
      using Cons.prems(4) exec False by (cases "irs = []"; auto split: leave.splits transfer.splits)+
    moreover have "unlink (l1, rv1) = (l1, rv1) \<or> irs = []"
      using False by (auto simp: unlink_def split: leave.split transfer.split)
    ultimately have "exec_insn ?env ir c p rv = Inr (l, rv')"
      using exec exec_unlink(1) [OF code_at_opcode [OF at(2)], of ?env c p rv] by (cases "irs = []") auto
    from debug_last [OF at this] show ?thesis
      by (intro exI [of _ 1]) auto
  qed
qed simp

section \<open>Properties\<close>

text \<open>C22: Running a translated block is running its instructions one at a time: with address translation off and
  the code unchanged in memory until it is reached, the hart a block ends in is, up to the cycle counter,
  the hart the debugger's single step reaches from the same start after some number of steps between one
  and the length of the block; every trap, call and branch on the way is the same.\<close>

theorem block_is_single_steps:
  assumes "code_run (lone_env sys (trap_handler sys (Suc n))) irs c p rv" "placed_at p irs" "irs \<noteq> []"
    and "run_insns (lone_env sys (trap_handler sys (Suc n))) irs c p rv = Inr (l, rv')"
  shows "\<exists>k s. 1 \<le> k \<and> k \<le> length irs \<and> debug_steps sys (Suc n) k (set_cycle c (rv\<lparr>PC := p\<rparr>)) = Inr s \<and>
    set_cycle 0 s = set_cycle 0 (note_cleared (l, rv'))"
  using assms by (rule block_debug_steps)

theorem block_is_single_steps_witness:
  "\<exists>k s. 1 \<le> k \<and> debug_steps sample_system 1 k (set_cycle 0 (loop_at_0\<lparr>PC := 0\<rparr>)) = Inr s \<and> PC s = 0"
proof -
  let ?ir = "zero_insn\<lparr>opcode := RV32I rv_insn_jal\<rparr>"
  let ?env = "lone_env sample_system (trap_handler sample_system (Suc 0))"
  have fields: "pc ?ir = 0" "?ir\<lparr>pc := 0\<rparr> = ?ir" "?ir = ?ir\<lparr>pc := 0\<rparr>" "opcode ?ir = RV32I rv_insn_jal"
    by (simp_all add: zero_insn_def)
  have fetch: "memory_ifetch (ram (attr loop_at_0)) 0 = 0x6F"
    by (simp add: loop_at_0_def memory_ifetch_def)
  have code_at: "code_at (ram (attr loop_at_0)) ?ir"
    unfolding code_at_def fields(1) fetch decode_loop using fields(3) by blast
  have exec: "exec_insn (?env\<lparr>has_next := b\<rparr>) ?ir 0 0 loop_at_0 =
      Inr (end_op 1 0 (loop_at_0\<lparr>PC := 0\<rparr>))" for b
    by (simp add: exec_insn_def do_jal_def RVOP_def follow_taken_def lone_env_def zero_insn_def link_X_def Let_def)
  have same: "PC s = PC t" if "set_cycle 0 s = set_cycle 0 t" for s t
    using that by (metis set_cycle_fields(2))
  have "code_run ?env [?ir] 0 0 loop_at_0" "placed_at 0 [?ir]"
    "run_insns ?env [?ir] 0 0 loop_at_0 = Inr (end_op 1 0 (loop_at_0\<lparr>PC := 0\<rparr>))"
    using exec [of False] code_at fields by (simp_all add: bare_def loop_at_0_def sample_csrs_def end_op_def)
  from block_is_single_steps [OF this(1, 2) _ this(3) [unfolded end_op_def]]
  obtain k s where s: "1 \<le> k" "debug_steps sample_system (Suc 0) k (set_cycle 0 (loop_at_0\<lparr>PC := 0\<rparr>)) = Inr s"
    "set_cycle 0 s = set_cycle 0 (note_cleared (Returned True, (set_cycle 1 (loop_at_0\<lparr>PC := 0\<rparr>))\<lparr>PC := 0\<rparr>))"
    by blast
  have "PC s = 0"
    using same [OF s(3)] by (simp add: note_cleared_def)
  with s(1, 2) show ?thesis
    unfolding One_nat_def by blast
qed

end
