(* ===== verification/MmuProps.thy ===== *)
theory MmuProps imports Mmu Samples begin

text \<open>
  Address translation: the page walk stays inside the memory of the machine, the TLBs never change what
  an address means as long as the guest leaves its page tables alone, and what a page fault does.
\<close>

section \<open>Page table entries in memory\<close>

definition word_aligned :: "u32 \<Rightarrow> bool" where
  "word_aligned a \<longleftrightarrow> take_bit 2 a = 0"

lemma word_aligned_dvd: "word_aligned a \<longleftrightarrow> 4 dvd unat a"
proof -
  have "take_bit 2 a = 0 \<longleftrightarrow> unat (take_bit 2 a) = 0"
    by (simp add: unat_eq_0)
  also have "\<dots> \<longleftrightarrow> unat a mod 4 = 0"
    by (simp only: unsigned_take_bit_eq) (simp add: take_bit_eq_mod)
  finally show ?thesis
    by (simp add: word_aligned_def dvd_eq_mod_eq_0)
qed

lemma aligned_disjoint:
  assumes "word_aligned a" "word_aligned b" "a \<noteq> b"
  shows "disjoint a 4 b 4"
proof -
  have "4 dvd unat a" "4 dvd unat b" "unat a \<noteq> unat b"
    using assms by (auto simp: word_aligned_dvd dest: unsigned_word_eqI)
  then show ?thesis
    unfolding disjoint_def by (elim dvdE) (simp; presburger)
qed

lemma pte_at_write:
  assumes "word_aligned a" "word_aligned b"
  shows "pte_at (set_ram (memory_write_w a v (ram (attr rv))) rv) b = (if b = a then v else pte_at rv b)"
  using assms aligned_disjoint [of a b] by (simp add: pte_at_def memory_read_write_w_disjoint)

lemma pte_at_set [simp]:
  assumes "word_aligned a" "word_aligned b"
  shows "pte_at (pte_set a bits rv) b = (if b = a then pte_at rv a OR bits else pte_at rv b)"
  using assms by (simp add: pte_set_def pte_at_write)

lemma write_back: "memory_write_w a (memory_read_w m a) m = m"
  using bytes_of_word_of_bytes(2) [unfolded One_nat_def]
  by (cases m) (simp add: memory_write_w_def memory_read_w_def Let_def fun_upd_idem)

section \<open>The walk\<close>

text \<open>A walk does not look at the accessed and dirty bits, nor at the offset in the page.\<close>

definition walk_bits :: "u32 \<Rightarrow> u32" where
  "walk_bits e = e AND NOT (PTE_A OR PTE_D)"

definition same_tables :: "riscv_t \<Rightarrow> riscv_t \<Rightarrow> bool" where
  "same_tables rv rv' \<longleftrightarrow> csr_satp (csr rv) = csr_satp (csr rv') \<and> vm_mem_size (attr rv) = vm_mem_size (attr rv') \<and>
    (\<forall>a. word_aligned a \<longrightarrow> walk_bits (pte_at rv a) = walk_bits (pte_at rv' a))"

lemma walk_bits_fields:
  assumes "walk_bits e = walk_bits e'"
  shows "take_bit 4 e = take_bit 4 e'" "drop_bit 10 e = drop_bit 10 e'"
    "e AND (PTE_R OR PTE_W OR PTE_X OR PTE_U) = e' AND (PTE_R OR PTE_W OR PTE_X OR PTE_U)"
    "pte_ppn e = pte_ppn e'"
proof -
  have all: "\<forall>n<32. n \<noteq> 6 \<and> n \<noteq> 7 \<longrightarrow> bit (walk_bits w) n = bit w n" for w
    by (simp add: walk_bits_def less_32_all word_bits)
  have *: "bit e n = bit e' n" if "n \<noteq> 6" "n \<noteq> 7" for n
    using all [of e] all [of e'] that assms by (cases "n < 32") (metis, simp)
  show "take_bit 4 e = take_bit 4 e'" "drop_bit 10 e = drop_bit 10 e'"
    by (auto intro!: bit_word_eqI simp: word_bits *)
  show "e AND (PTE_R OR PTE_W OR PTE_X OR PTE_U) = e' AND (PTE_R OR PTE_W OR PTE_X OR PTE_U)"
    unfolding word32_eq_iff less_32_all by (simp add: word_bits *)
  show "pte_ppn e = pte_ppn e'"
    unfolding pte_ppn_def by (rule bit_word_eqI) (auto simp: word_bits *)
qed

lemma table_aligned:
  assumes "PAGE_TABLE rv ppn = Some t"
  shows "word_aligned (t + 4 * n)"
proof -
  have "t + 4 * n = push_bit 2 (push_bit 10 ppn + n)"
    using assms by (auto simp: PAGE_TABLE_def push_bit_eq_mult algebra_simps split: if_splits)
  then show ?thesis
    by (simp add: word_aligned_def take_bit_push_bit)
qed

lemma mmu_walk_loop_same:
  assumes "same_tables rv rv'" "\<forall>n. word_aligned (t + 4 * n)"
  shows "mmu_walk_loop rv v k t = mmu_walk_loop rv' v k t"
  using assms(2)
proof (induction k arbitrary: t)
  case (Suc k)
  have "walk_bits (pte_at rv (t + 4 * vpn_part k v)) = walk_bits (pte_at rv' (t + 4 * vpn_part k v))"
    using assms(1) Suc.prems by (simp add: same_tables_def)
  note f = walk_bits_fields [OF this]
  have "PAGE_TABLE rv = PAGE_TABLE rv'"
    using assms(1) by (simp add: fun_eq_iff PAGE_TABLE_def ppn_is_valid_def same_tables_def)
  then show ?case
    using f Suc.IH table_aligned by (auto simp: Let_def split: option.splits)
qed simp

lemma mmu_walk_same:
  assumes "same_tables rv rv'"
  shows "mmu_walk rv v = mmu_walk rv' v"
proof -
  have "PAGE_TABLE rv = PAGE_TABLE rv'" "csr_satp (csr rv) = csr_satp (csr rv')"
    using assms by (simp_all add: fun_eq_iff PAGE_TABLE_def ppn_is_valid_def same_tables_def)
  then show ?thesis
    using mmu_walk_loop_same [OF assms] table_aligned by (auto simp: mmu_walk_def split: option.splits)
qed

text \<open>Where a walk ends.\<close>

definition leaf_at :: "riscv_t \<Rightarrow> u32 \<Rightarrow> bool" where
  "leaf_at rv a \<longleftrightarrow> (ucast (take_bit 4 (pte_at rv a)) :: u8) \<in> set leaf_encodings"

lemma mmu_walk_loop_leaf:
  assumes "mmu_walk_loop rv v k t = Some (pte, l)" "k \<le> 2" "PAGE_TABLE rv ppn = Some t"
  shows "word_aligned pte \<and> l \<in> {1, 2} \<and> leaf_at rv pte \<and> (\<exists>n i. ppn_is_valid rv n \<and> i < 1024 \<and> pte = push_bit 12 n + 4 * i) \<and>
    (l = 1 \<longrightarrow> take_bit 10 (drop_bit 10 (pte_at rv pte)) = 0)"
  using assms
proof (induction k arbitrary: t ppn)
  case (Suc k)
  have part: "vpn_part k v < 1024"
    by (simp add: vpn_part_def word_less_nat_alt unsigned_take_bit_eq take_bit_nat_less_exp [of 10, simplified])
  have t: "ppn_is_valid rv ppn" "t = push_bit 12 ppn"
    using Suc.prems(3) by (auto simp: PAGE_TABLE_def split: if_splits)
  have "k = 0 \<or> k = 1"
    using Suc.prems(2) by auto
  then show ?case
    using Suc.prems Suc.IH part t table_aligned [OF Suc.prems(3)]
    by (auto simp: Let_def leaf_at_def split: option.splits if_splits)
qed simp

lemma mmu_walk_leaf:
  assumes "mmu_walk rv v = Some (pte, l)"
  shows "word_aligned pte" "l \<in> {1, 2}" "leaf_at rv pte"
    "\<exists>n i. ppn_is_valid rv n \<and> i < 1024 \<and> pte = push_bit 12 n + 4 * i"
    "l = 1 \<longrightarrow> take_bit 10 (drop_bit 10 (pte_at rv pte)) = 0"
  using assms mmu_walk_loop_leaf [of rv v 2 _ pte l]
  by (auto simp: mmu_walk_def split: option.splits) 

section \<open>The accessed and dirty bits\<close>

lemma bits_set:
  "e AND PTE_A \<noteq> 0 \<longleftrightarrow> e OR PTE_A = e" "e AND PTE_D \<noteq> 0 \<longleftrightarrow> e OR PTE_D = e"
  by (auto simp: word32_eq_iff less_32_all word_bits)

lemma pte_set_idle: "pte_at rv a OR bits = pte_at rv a \<Longrightarrow> pte_set a bits rv = rv"
  by (simp add: pte_set_def) (simp add: pte_at_def write_back set_ram_def)

lemma pte_set_twice: "pte_set a b (pte_set a c rv) = pte_set a (c OR b) rv"
proof -
  have *: "memory_write_w a v (memory_write_w a u m) = memory_write_w a v m" for u v m
    by (simp add: memory_write_w_def Let_def fun_upd_twist)
  show ?thesis
    by (simp add: pte_set_def pte_at_def * or.assoc) (simp add: set_ram_def)
qed

text \<open>The bits an access sets.\<close>

definition touch :: "bool \<Rightarrow> u32 \<Rightarrow> riscv_t \<Rightarrow> riscv_t" where
  "touch rw pte rv = pte_set pte (if rw then PTE_A else PTE_A OR PTE_D) rv"

lemma mark_eq:
  "mark_accessed pte rv = pte_set pte PTE_A rv"
  "mark_dirty rw pte (mark_accessed pte rv) = touch rw pte rv"
proof -
  show *: "mark_accessed pte rv = pte_set pte PTE_A rv" for rv
    using bits_set(1) pte_set_idle by (metis mark_accessed_def)
  have "mark_dirty rw pte rv = (if rw then rv else pte_set pte PTE_D rv)" for rv
    using bits_set(2) pte_set_idle by (metis mark_dirty_def)
  then show "mark_dirty rw pte (mark_accessed pte rv) = touch rw pte rv"
    by (simp only: * touch_def pte_set_twice) simp
qed

lemma same_tables_refl [simp]: "same_tables rv rv"
  by (simp add: same_tables_def)

lemma same_tables_tlb [simp]:
  "same_tables (rv\<lparr>dtlb := d\<rparr>) rv' = same_tables rv rv'" "same_tables (rv\<lparr>itlb := d\<rparr>) rv' = same_tables rv rv'"
  by (simp_all add: same_tables_def pte_at_def)

lemma same_tables_set:
  assumes "word_aligned a" "walk_bits bits = 0"
  shows "same_tables (pte_set a bits rv) rv"
proof -
  have "walk_bits (e OR bits) = walk_bits e" for e
    using assms(2) by (simp add: walk_bits_def bit.conj_disj_distrib2)
  then show ?thesis
    using assms(1) by (simp add: same_tables_def) (simp add: pte_set_def)
qed

section \<open>Coherence\<close>

text \<open>An entry agrees with the walk for its page and with the entry in memory it caches.\<close>

definition entry_ok :: "riscv_t \<Rightarrow> tlb_entry_t \<Rightarrow> bool" where
  "entry_ok rv e \<longleftrightarrow> (\<exists>l. mmu_walk rv (push_bit 12 (tlb_vpn e)) = Some (tlb_pte_addr e, l) \<and> tlb_level e = ucast l) \<and>
    (let p = pte_at rv (tlb_pte_addr e)
     in tlb_ppn e = pte_ppn p \<and> tlb_perm e = ucast (p AND (PTE_R OR PTE_W OR PTE_X OR PTE_U)) \<and>
        p OR PTE_A = p \<and> (tlb_dirty e \<noteq> 0 \<longrightarrow> p OR PTE_D = p))"

definition coherent :: "riscv_t \<Rightarrow> bool" where
  "coherent rv \<longleftrightarrow> (\<forall>i. (tlb_valid (dtlb rv i) \<noteq> 0 \<longrightarrow> entry_ok rv (dtlb rv i)) \<and>
    (tlb_valid (itlb rv i) \<noteq> 0 \<longrightarrow> entry_ok rv (itlb rv i)))"

lemma vpn_part_page: "vpn_part i (push_bit 12 (vpn_of v)) = vpn_part i v"
proof -
  have "drop_bit 12 (push_bit 12 (drop_bit 12 v)) = drop_bit 12 v"
    by (rule bit_word_eqI) (auto simp: word_bits dest: bit_imp_le_length)
  then show ?thesis
    by (simp add: vpn_part_def vpn_of_def)
qed

lemma mmu_walk_page: "mmu_walk rv (push_bit 12 (vpn_of v)) = mmu_walk rv v"
proof -
  have "mmu_walk_loop rv (push_bit 12 (vpn_of v)) k t = mmu_walk_loop rv v k t" for k t
    by (induction k arbitrary: t) (auto simp: vpn_part_page Let_def split: option.splits)
  then show ?thesis
    by (simp only: mmu_walk_def)
qed

lemma entry_ok_later:
  assumes "entry_ok rv e" "same_tables rv' rv" "word_aligned (tlb_pte_addr e) \<Longrightarrow>
      \<exists>b. pte_at rv' (tlb_pte_addr e) = pte_at rv (tlb_pte_addr e) OR b"
  shows "entry_ok rv' e"
proof -
  have aligned: "word_aligned (tlb_pte_addr e)"
    using assms(1) mmu_walk_leaf(1) by (auto simp: entry_ok_def)
  then have "walk_bits (pte_at rv' (tlb_pte_addr e)) = walk_bits (pte_at rv (tlb_pte_addr e))"
    using assms(2) by (simp add: same_tables_def)
  note fields = walk_bits_fields(3, 4) [OF this]
  obtain b where b: "pte_at rv' (tlb_pte_addr e) = pte_at rv (tlb_pte_addr e) OR b"
    using assms(3) aligned by blast
  have keep: "(p OR b) OR c = p OR b" if "p OR c = p" for p c :: u32
    using that by (metis or.assoc or.commute)
  show ?thesis
    using assms(1) unfolding entry_ok_def Let_def mmu_walk_same [OF assms(2)] fields
    unfolding b using keep by blast
qed

lemma entry_ok_touch:
  assumes "entry_ok rv e" "word_aligned pte" "walk_bits bits = 0"
  shows "entry_ok (pte_set pte bits rv) e"
  using assms(1) same_tables_set [OF assms(2, 3)] by (rule entry_ok_later) (use assms(2) in \<open>auto intro: exI [of _ 0]\<close>)

lemma entry_ok_tlb [simp]:
  "entry_ok (rv\<lparr>dtlb := d\<rparr>) e = entry_ok rv e" "entry_ok (rv\<lparr>itlb := d\<rparr>) e = entry_ok rv e"
proof -
  have walk: "mmu_walk (rv\<lparr>dtlb := d\<rparr>) v = mmu_walk rv v" "mmu_walk (rv\<lparr>itlb := d\<rparr>) v = mmu_walk rv v" for v
    by (auto intro: mmu_walk_same)
  show "entry_ok (rv\<lparr>dtlb := d\<rparr>) e = entry_ok rv e" "entry_ok (rv\<lparr>itlb := d\<rparr>) e = entry_ok rv e"
    by (simp_all add: entry_ok_def walk) (simp_all add: pte_at_def)
qed

lemma coherent_touch:
  assumes "coherent rv" "word_aligned pte" "walk_bits bits = 0"
  shows "coherent (pte_set pte bits rv)"
proof -
  have "dtlb (pte_set pte bits rv) = dtlb rv" "itlb (pte_set pte bits rv) = itlb rv"
    by (simp_all add: pte_set_def)
  then show ?thesis
    using assms entry_ok_touch by (simp add: coherent_def)
qed

lemma entry_ok_fresh:
  assumes "mmu_walk rv v = Some (pte, l)" "pte_at rv pte OR PTE_A = pte_at rv pte"
  shows "entry_ok rv (tlb_entry_for v pte (pte_at rv pte) l)"
  using assms bits_set(2) by (simp add: entry_ok_def tlb_entry_for_def mmu_walk_page)

lemma coherent_populate:
  assumes "coherent rv" "mmu_walk rv v = Some (pte, l)" "pte_at rv pte OR PTE_A = pte_at rv pte"
  shows "coherent (dtlb_populate v pte l rv)" "coherent (itlb_populate v pte l rv)"
  using assms(1) entry_ok_fresh [OF assms(2, 3)]
  by (auto simp: coherent_def dtlb_populate_def itlb_populate_def)

lemma touch_frame [simp]:
  "csr (touch rw p rv) = csr rv" "glob (touch rw p rv) = glob rv" "dtlb (touch rw p rv) = dtlb rv"
  "itlb (touch rw p rv) = itlb rv" "priv_mode (touch rw p rv) = priv_mode rv"
  by (simp_all add: touch_def pte_set_def)

lemma touch_walk:
  assumes "word_aligned pte"
  shows "same_tables (touch rw pte rv) rv" "pte_at (touch rw pte rv) pte OR PTE_A = pte_at (touch rw pte rv) pte"
    "pte_ppn (pte_at (touch rw pte rv) pte) = pte_ppn (pte_at rv pte)"
proof -
  show same: "same_tables (touch rw pte rv) rv"
    unfolding touch_def using assms by (rule same_tables_set) (simp add: walk_bits_def)
  show "pte_at (touch rw pte rv) pte OR PTE_A = pte_at (touch rw pte rv) pte"
    using assms by (auto simp: touch_def or.assoc)
  show "pte_ppn (pte_at (touch rw pte rv) pte) = pte_ppn (pte_at rv pte)"
    using same assms by (intro walk_bits_fields(4)) (simp add: same_tables_def)
qed

lemma finish_translation_coherent:
  assumes "coherent rv" "mmu_walk rv v = Some (pte, l)"
  shows "finish_translation v rw (pte, l) rv =
      (dtlb_populate v pte l (touch rw pte rv), get_ppn_and_offset (pte_at rv pte) l v) \<and>
    coherent (dtlb_populate v pte l (touch rw pte rv))"
proof -
  note aligned = mmu_walk_leaf(1) [OF assms(2)]
  have "coherent (touch rw pte rv)"
    unfolding touch_def using assms(1) aligned by (rule coherent_touch) (simp add: walk_bits_def)
  moreover have "mmu_walk (touch rw pte rv) v = Some (pte, l)"
    using assms(2) mmu_walk_same [OF touch_walk(1) [OF aligned]] by simp
  moreover have "pte_at (dtlb_populate v pte l r) a = pte_at r a" for r a
    by (simp add: dtlb_populate_def pte_at_def)
  ultimately show ?thesis
    using coherent_populate(1) touch_walk(2, 3) [OF aligned]
    by (simp add: finish_translation_def Let_def mark_eq(2) get_ppn_and_offset_def)
qed

lemma dtlb_hit_coherent:
  assumes "coherent rv" "mmu_walk rv v = Some (pte, l)" "dtlb_lookup rv v w = (paddr, True, rv')"
  shows "paddr = get_ppn_and_offset (pte_at rv pte) l v \<and> coherent rv' \<and>
    rv' = (touch (\<not> w) pte rv)\<lparr>dtlb := dtlb rv'\<rparr>"
proof -
  let ?e = "dtlb rv (tlb_index v)"
  have e: "tlb_valid ?e \<noteq> 0" "tlb_vpn ?e = vpn_of v" "paddr = tlb_ppn ?e OR page_offset (tlb_level ?e) v"
    "rv' = (if w \<and> tlb_dirty ?e = 0
       then (pte_set (tlb_pte_addr ?e) PTE_D rv)\<lparr>dtlb := (dtlb rv)(tlb_index v := ?e\<lparr>tlb_dirty := 1\<rparr>)\<rparr> else rv)"
    using assms(3) by (auto simp: dtlb_lookup_def Let_def split: if_splits)
  have ok: "entry_ok rv ?e"
    using assms(1) e(1) by (auto simp: coherent_def)
  then have p: "tlb_pte_addr ?e = pte" "tlb_level ?e = ucast l" "tlb_ppn ?e = pte_ppn (pte_at rv pte)"
    "pte_at rv pte OR PTE_A = pte_at rv pte" "tlb_dirty ?e \<noteq> 0 \<Longrightarrow> pte_at rv pte OR PTE_D = pte_at rv pte"
    using assms(2) by (auto simp: entry_ok_def e(2) mmu_walk_page Let_def)
  note leaf = mmu_walk_leaf [OF assms(2)]
  have addr: "paddr = get_ppn_and_offset (pte_at rv pte) l v"
    using leaf(2) by (auto simp: e(3) p get_ppn_and_offset_def page_offset_def)
  have touched: "touch (\<not> w) pte rv = (if w \<and> tlb_dirty ?e = 0 then pte_set pte PTE_D rv else rv)"
  proof -
    have "pte_set pte (PTE_A OR PTE_D) rv = pte_set pte PTE_D (pte_set pte PTE_A rv)"
      by (simp add: pte_set_twice)
    then show ?thesis
      using p(4, 5) pte_set_idle by (auto simp: touch_def)
  qed
  have "coherent rv'"
  proof (cases "w \<and> tlb_dirty ?e = 0")
    case True
    let ?s = "pte_set pte PTE_D rv"
    have "walk_bits PTE_D = 0"
      by (simp add: walk_bits_def)
    then have "coherent ?s" "entry_ok ?s ?e"
      using coherent_touch [OF assms(1) leaf(1)] entry_ok_touch [OF ok leaf(1)] by blast+
    moreover have "pte_at ?s pte OR PTE_D = pte_at ?s pte"
      using leaf(1) by (simp add: or.assoc)
    ultimately have "entry_ok ?s (?e\<lparr>tlb_dirty := 1\<rparr>)" "coherent ?s"
      by (simp_all add: entry_ok_def p(1) Let_def)
    then show ?thesis
      using True unfolding e(4) by (auto simp: coherent_def p(1) pte_set_def)
  qed (use assms(1) in \<open>auto simp: e(4)\<close>)
  then show ?thesis
    using addr touched by (auto simp: e(4) p(1))
qed

lemma coherent_cong: "coherent (rv\<lparr>dtlb := dtlb rv\<rparr>) = coherent rv"
  by simp

text \<open>Translation of data accesses.\<close>

lemma mmu_translate_coherent:
  assumes "coherent rv" "csr_satp (csr rv) \<noteq> 0" "mmu_walk rv v = Some (pte, l)"
    and "mmu_permits rv (Some pte) (if rw then PTE_R else PTE_W)"
  shows "\<exists>rv'. mmu_translate io rv v rw = Inr (rv', get_ppn_and_offset (pte_at rv pte) l v) \<and>
    coherent rv' \<and> rv' = (touch rw pte rv)\<lparr>dtlb := dtlb rv'\<rparr>"
proof -
  obtain paddr hit rv1 where look: "dtlb_lookup rv v (\<not> rw) = (paddr, hit, rv1)"
    by (cases "dtlb_lookup rv v (\<not> rw)") auto
  show ?thesis
  proof (cases hit)
    case True
    then show ?thesis
      using look dtlb_hit_coherent [OF assms(1, 3), of "\<not> rw"] assms(2) by (simp add: mmu_translate_def)
  next
    case False
    have "fault_cause (if rw then PTE_R else PTE_W) \<noteq> None"
      by (simp add: fault_cause_def)
    then have "mmu_translate io rv v rw = Inr (finish_translation v rw (pte, l) rv)"
      using look False assms(2-4) by (auto simp: mmu_translate_def mmu_fault_check_def Let_def)
    then show ?thesis
      using finish_translation_coherent [OF assms(1, 3), of rw]
      by (auto simp: dtlb_populate_def)
  qed
qed

text \<open>Instruction fetches.\<close>

lemma mmu_ifetch_coherent:
  assumes "coherent rv" "csr_satp (csr rv) \<noteq> 0" "\<not> need_retranslate (glob rv)"
    and "mmu_walk rv v = Some (pte, l)" "mmu_permits rv (Some pte) PTE_X"
  shows "\<exists>rv'. mmu_ifetch io rv v =
      Inr (rv', memory_ifetch (ram (attr rv')) (get_ppn_and_offset (pte_at rv pte) l v)) \<and>
    coherent rv' \<and> rv' = (touch True pte rv)\<lparr>itlb := itlb rv'\<rparr>"
proof -
  note leaf = mmu_walk_leaf [OF assms(4)]
  obtain paddr hit where look: "itlb_lookup rv v = (paddr, hit)"
    by (cases "itlb_lookup rv v") auto
  show ?thesis
  proof (cases hit)
    case True
    let ?e = "itlb rv (tlb_index v)"
    have e: "tlb_valid ?e \<noteq> 0" "tlb_vpn ?e = vpn_of v" "paddr = tlb_ppn ?e OR page_offset (tlb_level ?e) v"
      using look True by (auto simp: itlb_lookup_def Let_def split: if_splits)
    have "entry_ok rv ?e"
      using assms(1) e(1) by (auto simp: coherent_def)
    then have p: "tlb_pte_addr ?e = pte" "tlb_level ?e = ucast l" "tlb_ppn ?e = pte_ppn (pte_at rv pte)"
      "pte_at rv pte OR PTE_A = pte_at rv pte"
      using assms(4) by (auto simp: entry_ok_def e(2) mmu_walk_page Let_def)
    have "paddr = get_ppn_and_offset (pte_at rv pte) l v"
      using leaf(2) by (auto simp: e(3) p get_ppn_and_offset_def page_offset_def)
    moreover have "touch True pte rv = rv"
      using p(4) by (simp add: touch_def pte_set_idle)
    ultimately show ?thesis
      using look True assms by (simp add: mmu_ifetch_def)
  next
    case False
    have "fault_cause PTE_X \<noteq> None"
      by (simp add: fault_cause_def)
    then have *: "mmu_ifetch io rv v = Inr (finish_ifetch v (pte, l) rv)"
      using look False assms(2-5) by (auto simp: mmu_ifetch_def mmu_fault_check_def Let_def)
    let ?s = "touch True pte rv"
    have "mark_accessed pte rv = ?s"
      by (simp add: touch_def mark_eq)
    moreover have "coherent ?s"
      unfolding touch_def using assms(1) leaf(1) by (rule coherent_touch) (simp add: walk_bits_def)
    then have "coherent (itlb_populate v pte l ?s)"
      using assms(4) mmu_walk_same [OF touch_walk(1) [OF leaf(1)]] touch_walk(2) [OF leaf(1)]
      by (intro coherent_populate(2)) auto
    moreover have "pte_at (itlb_populate v pte l r) a = pte_at r a" "attr (itlb_populate v pte l r) = attr r" for r a
      by (simp_all add: itlb_populate_def pte_at_def)
    ultimately have "finish_ifetch v (pte, l) rv = (itlb_populate v pte l ?s,
        memory_ifetch (ram (attr ?s)) (get_ppn_and_offset (pte_at rv pte) l v))" "coherent (itlb_populate v pte l ?s)"
      using touch_walk(3) [OF leaf(1)] by (simp_all add: finish_ifetch_def get_ppn_and_offset_def Let_def)
    then show ?thesis
      by (auto simp: * itlb_populate_def)
  qed
qed

section \<open>A hart with one superpage\<close>

definition paged_hart :: riscv_t where
  "paged_hart = sample_hart\<lparr>csr := sample_csrs\<lparr>csr_satp := 0x80000000\<rparr>,
     attr := (attr sample_hart)\<lparr>ram := \<lparr>mem_base = (\<lambda>_. 0)(0 := 0x0F), mem_size = 4096\<rparr>\<rparr>\<rparr>"

lemma paged_fields [simp]:
  "csr_satp (csr paged_hart) = 0x80000000" "vm_mem_size (attr paged_hart) = 4096" "priv_mode paged_hart = 3"
  "glob paged_hart = sample_globals" "csr_sstatus (csr paged_hart) = 0"
  "pte_at paged_hart 0 = 0xF" "pte_at paged_hart 4 = 0"
  by (simp_all add: paged_hart_def sample_csrs_def pte_at_def memory_read_w_def word_of_bytes_def)

lemma paged_walk: "mmu_walk paged_hart 16 = Some (0, 1)" "mmu_walk paged_hart 0x400000 = None"
  using mmu_walk_loop.simps(2) [of paged_hart 16 1 0, unfolded Suc_1]
    mmu_walk_loop.simps(2) [of paged_hart "0x400000" 1 0, unfolded Suc_1]
  by (simp_all add: mmu_walk_def PAGE_TABLE_def ppn_is_valid_def vpn_part_def Let_def leaf_encodings_def)

lemma paged_permits: "mmu_permits paged_hart (Some 0) b" if "b \<in> {PTE_R, PTE_W, PTE_X}"
  using that by (auto simp: mmu_permits_def)

lemma paged_coherent: "coherent paged_hart"
  by (simp add: coherent_def paged_hart_def zero_tlb_entry_def)

lemma paged_uncached: "\<not> dtlb_cached paged_hart v"
  by (simp add: dtlb_cached_def paged_hart_def zero_tlb_entry_def)

section \<open>Properties\<close>

lemma leaf_bits:
  assumes "leaf_at rv a"
  shows "pte_at rv a AND PTE_V \<noteq> 0" "pte_at rv a AND PTE_R \<noteq> 0 \<or> pte_at rv a AND PTE_X \<noteq> 0"
proof -
  let ?p = "pte_at rv a"
  have bits: "bit ?p n = bit (ucast (take_bit 4 ?p) :: u8) n" if "n < 4" for n
    using that by (simp add: word_bits)
  have "bit ?p 0" "bit ?p 1 \<or> bit ?p 3"
    using assms by (auto simp: leaf_at_def leaf_encodings_def bits)
  then show "?p AND PTE_V \<noteq> 0" "?p AND PTE_R \<noteq> 0 \<or> ?p AND PTE_X \<noteq> 0"
    by (auto simp: word32_eq_iff less_32_all word_bits)
qed

lemma entry_in_memory:
  assumes "ppn_is_valid rv n" "i < 1024"
  shows "unat (push_bit 12 n + 4 * i :: u32) + 4 \<le> unat (vm_mem_size (attr rv))"
proof -
  let ?q = "vm_mem_size (attr rv) div 4096"
  have "unat n < unat (ucast ?q :: u32)"
    using assms(1) by (simp add: ppn_is_valid_def word_less_nat_alt)
  also have "\<dots> \<le> unat ?q"
    by (simp add: unsigned_ucast_eq unsigned_take_bit_eq)
  also have "unat ?q = unat (vm_mem_size (attr rv)) div 4096"
    by (simp add: unat_div_distrib)
  finally have n: "Suc (unat n) * 4096 \<le> unat (vm_mem_size (attr rv))"
    by simp
  have "unat (push_bit 12 n) \<le> unat n * 4096"
    by (simp add: push_bit_eq_mult unat_word_ariths(2))
  moreover have "unat (4 * i) \<le> 4 * 1023"
    using assms(2) by (simp add: word_less_nat_alt unat_word_ariths(2))
  moreover have "unat (push_bit 12 n + 4 * i) \<le> unat (push_bit 12 n) + unat (4 * i)"
    by (simp only: unat_word_ariths(1) mod_less_eq_dividend)
  ultimately show ?thesis
    using n by simp
qed

text \<open>C31: A page walk is safe and well typed whatever the guest put into its tables: the entry it returns is
  word aligned, lies inside the memory of the machine, is valid and readable or executable, and its level
  is one of the two of Sv32; a superpage it returns is aligned.\<close>

theorem page_walk_safe:
  assumes "mmu_walk rv v = Some (pte, l)"
  shows "4 dvd unat pte \<and> unat pte + 4 \<le> unat (vm_mem_size (attr rv)) \<and> l \<in> {1, 2} \<and>
    pte_at rv pte AND PTE_V \<noteq> 0 \<and> (pte_at rv pte AND PTE_R \<noteq> 0 \<or> pte_at rv pte AND PTE_X \<noteq> 0) \<and>
    (l = 1 \<longrightarrow> take_bit 22 (pte_ppn (pte_at rv pte)) = 0)"
proof -
  note leaf = mmu_walk_leaf [OF assms]
  have "unat pte + 4 \<le> unat (vm_mem_size (attr rv))"
    using leaf(4) by (auto dest: entry_in_memory)
  moreover have "take_bit 22 (pte_ppn (pte_at rv pte)) = push_bit 12 (take_bit 10 (drop_bit 10 (pte_at rv pte)))"
    by (simp add: pte_ppn_def take_bit_push_bit)
  ultimately show ?thesis
    using leaf leaf_bits [OF leaf(3)] by (auto simp: word_aligned_dvd)
qed

theorem page_walk_safe_witness:
  "\<exists>pte l. mmu_walk paged_hart 16 = Some (pte, l) \<and> unat pte + 4 \<le> 4096 \<and> pte_at paged_hart pte AND PTE_V \<noteq> 0"
  using page_walk_safe [OF paged_walk(1)] paged_walk(1) by auto

text \<open>C29: The TLBs are transparent. On a hart whose cached entries agree with its page tables, a data access or
  a fetch that the page tables permit yields exactly the physical address (or instruction word) the page
  walk gives, hit or miss, takes no trap, sets the accessed bit and for a write the dirty bit of the leaf
  entry, changes nothing else but the TLB, and the entries still agree afterwards.\<close>

theorem tlb_transparent:
  assumes "coherent rv" "csr_satp (csr rv) \<noteq> 0" "mmu_walk rv v = Some (pte, l)"
  shows "(mmu_permits rv (Some pte) (if rw then PTE_R else PTE_W) \<longrightarrow>
      (\<exists>rv'. mmu_translate io rv v rw = Inr (rv', get_ppn_and_offset (pte_at rv pte) l v) \<and>
        coherent rv' \<and> rv' = (touch rw pte rv)\<lparr>dtlb := dtlb rv'\<rparr>)) \<and>
    (mmu_permits rv (Some pte) PTE_X \<and> \<not> need_retranslate (glob rv) \<longrightarrow>
      (\<exists>rv'. mmu_ifetch io rv v =
          Inr (rv', memory_ifetch (ram (attr rv')) (get_ppn_and_offset (pte_at rv pte) l v)) \<and>
        coherent rv' \<and> rv' = (touch True pte rv)\<lparr>itlb := itlb rv'\<rparr>))"
  using mmu_translate_coherent [OF assms] mmu_ifetch_coherent [OF assms(1, 2) _ assms(3)] by blast

theorem tlb_transparent_witness:
  "\<exists>rv'. mmu_translate sample_calls paged_hart 16 False = Inr (rv', 16) \<and> coherent rv' \<and> pte_at rv' 0 = 0xCF"
proof -
  obtain rv' where "mmu_translate sample_calls paged_hart 16 False = Inr (rv', get_ppn_and_offset (pte_at paged_hart 0) 1 16)"
    "coherent rv'" "rv' = (touch False 0 paged_hart)\<lparr>dtlb := dtlb rv'\<rparr>"
    using tlb_transparent [OF paged_coherent _ paged_walk(1), of False] paged_permits by auto
  moreover have "pte_at (touch False 0 paged_hart) 0 = 0xCF"
    by (simp add: touch_def word_aligned_def)
  moreover have "pte_at (r\<lparr>dtlb := d\<rparr>) a = pte_at r a" for r d a
    by (simp add: pte_at_def)
  moreover have "get_ppn_and_offset (pte_at paged_hart 0) 1 16 = 16"
    by (simp add: get_ppn_and_offset_def pte_ppn_def)
  ultimately show ?thesis
    by metis
qed

text \<open>C30: A page fault: when neither the TLB nor the page tables allow an access, the guest's handler is called
  with the cause and the address of the fault. If it maps the page, the access is translated through the
  new mapping; if it does not, a second fault is raised and the access is abandoned for retranslation, in
  which case a store does not write and a load yields zero.\<close>

theorem page_fault_handled:
  assumes "csr_satp (csr rv) \<noteq> 0" "\<not> dtlb_cached rv v"
    and "\<not> mmu_permits rv (map_option fst (mmu_walk rv v)) (if rw then PTE_R else PTE_W)"
    and "on_trap io (set_cause_and_tval (if rw then PAGEFAULT_LOAD else PAGEFAULT_STORE) v rv) = Inr rv1"
  shows "(\<forall>pte l. mmu_walk rv1 v = Some (pte, l) \<and> mmu_permits rv1 (Some pte) (if rw then PTE_R else PTE_W) \<longrightarrow>
      (\<exists>rv'. mmu_translate io rv v rw = Inr (rv', get_ppn_and_offset (pte_at rv1 pte) l v))) \<and>
    (\<forall>rv2. \<not> mmu_permits rv1 (map_option fst (mmu_walk rv1 v)) (if rw then PTE_R else PTE_W) \<and>
        on_trap io (set_cause_and_tval (if rw then PAGEFAULT_LOAD else PAGEFAULT_STORE) v rv1) = Inr rv2 \<longrightarrow>
      mmu_translate io rv v rw = Inr (request_retranslation rv2, 0) \<and>
      (rw \<longrightarrow> mmu_read_w io rv v = Inr (request_retranslation rv2, 0)) \<and>
      (\<not> rw \<longrightarrow> mmu_write_w io rv v w = Inr (request_retranslation rv2)))"
proof -
  let ?bits = "if rw then PTE_R else PTE_W" and ?cause = "if rw then PAGEFAULT_LOAD else PAGEFAULT_STORE"
  have check: "mmu_fault_check io s leaf v ?bits =
      (if mmu_permits s leaf ?bits then Inr (s, True)
       else obind (on_trap io (set_cause_and_tval ?cause v s)) (\<lambda>s. Inr (s, False)))" for s leaf
    by (simp add: mmu_fault_check_def fault_cause_def SET_CAUSE_AND_TVAL_THEN_TRAP_def)
  have translate: "mmu_translate io rv v rw =
      (let leaf = mmu_walk rv1 v
       in obind (mmu_fault_check io rv1 (map_option fst leaf) v ?bits) (\<lambda>(rv, ok). case leaf of
            None \<Rightarrow> Inr (request_retranslation rv, 0)
          | Some l \<Rightarrow> if \<not> ok then Inr (request_retranslation rv, 0) else Inr (finish_translation v rw l rv)))"
    using assms by (simp add: mmu_translate_def dtlb_miss Let_def check)
  have "need_retranslate (glob (request_retranslation s))" for s
    by (simp add: request_retranslation_def set_glob_def)
  moreover have "mmu_translate io rv v rw = Inr (request_retranslation rv2, 0)"
    if "\<not> mmu_permits rv1 (map_option fst (mmu_walk rv1 v)) ?bits"
      "on_trap io (set_cause_and_tval ?cause v rv1) = Inr rv2" for rv2
    using that by (simp add: translate Let_def check split: option.split)
  moreover have "\<exists>rv'. mmu_translate io rv v rw = Inr (rv', get_ppn_and_offset (pte_at rv1 pte) l v)"
    if "mmu_walk rv1 v = Some (pte, l)" "mmu_permits rv1 (Some pte) ?bits" for pte l
  proof -
    have "pte_ppn (pte_at (touch rw pte rv1) pte) = pte_ppn (pte_at rv1 pte)"
      using touch_walk(3) mmu_walk_leaf(1) [OF that(1)] by blast
    moreover have "pte_at (dtlb_populate v pte l r) a = pte_at r a" for r a
      by (simp add: dtlb_populate_def pte_at_def)
    ultimately show ?thesis
      using that by (simp add: translate Let_def check finish_translation_def mark_eq(2) get_ppn_and_offset_def)
  qed
  ultimately show ?thesis
    by (auto simp: mmu_read_w_def mmu_write_w_def)
qed

theorem page_fault_handled_witness:
  "\<exists>rv'. mmu_read_w sample_calls paged_hart 0x400000 = Inr (request_retranslation rv', 0)"
proof -
  let ?t = "set_cause_and_tval PAGEFAULT_LOAD 0x400000"
  have "mmu_walk (?t s) v = mmu_walk s v" "mmu_permits s None b = False" for s v b
    by (auto intro!: mmu_walk_same simp: same_tables_def set_cause_and_tval_def pte_at_def mmu_permits_def Let_def)
  then show ?thesis
    using page_fault_handled [of paged_hart "0x400000" True sample_calls "?t paged_hart"] paged_walk(2) paged_uncached
    by auto
qed

end
