(* ===== verification/Vector.thy ===== *)
theory Vector imports Rvop begin

text \<open>
  The vector extension of \<open>src/src/rv32_v_template.c\<close>, first part: the configuration in \<open>vtype\<close>, access to
  elements of register groups, masks, and the checks on register operands. The build is the one above
  with \<open>EXT_V\<close> and \<open>VLEN = 128\<close>. A register index beyond the 32 registers fails an assertion where the code
  has one and is an undefined access where it has none; so is an access beyond the words of a mask
  register.
\<close>

section \<open>Loops\<close>

fun ofold :: "('a \<Rightarrow> 's \<Rightarrow> 's outcome) \<Rightarrow> 'a list \<Rightarrow> 's \<Rightarrow> 's outcome" where
  "ofold f [] s = Inr s"
| "ofold f (x # xs) s = obind (f x s) (ofold f xs)"

lemma ofold_append: "ofold f (xs @ ys) s = obind (ofold f xs s) (ofold f ys)"
  by (induction xs arbitrary: s) (auto simp: obind_def split: sum.splits)

text \<open>The values of \<open>for (uint32_t elem = a; elem < b; elem++)\<close>, for a bound the body does not change.\<close>

definition elems :: "u32 \<Rightarrow> u32 \<Rightarrow> u32 list" where
  "elems a b = map of_nat [unat a..<unat b]"

lemma elems_set: "e \<in> set (elems a b) \<longleftrightarrow> a \<le> e \<and> e < b"
proof
  assume "e \<in> set (elems a b)"
  then obtain n where "unat a \<le> n" "n < unat b" "e = of_nat n"
    by (auto simp: elems_def)
  moreover from this have "unat (of_nat n :: u32) = n"
    using unsigned_less [of b, where ?'a = nat] by (simp add: unat_of_nat take_bit_nat_eq_self)
  ultimately show "a \<le> e \<and> e < b"
    by (simp add: word_less_nat_alt word_le_nat_alt)
next
  assume "a \<le> e \<and> e < b"
  then show "e \<in> set (elems a b)"
    by (auto simp: elems_def word_less_nat_alt word_le_nat_alt intro!: image_eqI [of _ _ "unat e"])
qed

section \<open>The configuration\<close>

definition RVV_VTYPE_VILL :: u32 where [simp]: "RVV_VTYPE_VILL = push_bit 31 1"
definition RVV_VTYPE_LOW_MASK :: u32 where [simp]: "RVV_VTYPE_LOW_MASK = 0xFF"

definition set_vu :: "(vunit_t \<Rightarrow> vunit_t) \<Rightarrow> riscv_t \<Rightarrow> riscv_t" where
  "set_vu f rv = rv\<lparr>vu := f (vu rv)\<rparr>"

definition rvv_set_vill :: "vunit_t \<Rightarrow> vunit_t" where
  "rvv_set_vill u = u\<lparr>csr_vtype := RVV_VTYPE_VILL, csr_vl := 0\<rparr>"

definition rvv_lmul_ratio :: "u32 \<Rightarrow> u32 \<times> u32" where
  "rvv_lmul_ratio vtype =
    (let v_lmul = vtype AND 7
     in if v_lmul \<le> 3 then (push_bit (unat v_lmul) 1, 1) else (1, push_bit (unat (8 - v_lmul)) 1))"

definition rvv_sew_bits :: "u32 \<Rightarrow> u32" where
  "rvv_sew_bits vtype = push_bit (unat (drop_bit 3 vtype AND 7)) 8"

definition rvv_vlmax :: "u32 \<Rightarrow> u32" where
  "rvv_vlmax vtype = (case rvv_lmul_ratio vtype of (num, den) \<Rightarrow> (VLEN * num) div (rvv_sew_bits vtype * den))"

definition rvv_vtype_is_supported :: "u32 \<Rightarrow> bool" where
  "rvv_vtype_is_supported vtype \<longleftrightarrow>
    \<not> (vtype AND (NOT RVV_VTYPE_LOW_MASK) \<noteq> 0) \<and>
    (let v_lmul = vtype AND 7; v_sew = drop_bit 3 vtype AND 7
     in \<not> (v_lmul = 4 \<or> v_sew > 2) \<and> rvv_vlmax vtype \<noteq> 0)"

definition rvv_group_regs :: "u32 \<Rightarrow> u32" where
  "rvv_group_regs vtype = (let v_lmul = vtype AND 7 in if v_lmul < 4 then push_bit (unat v_lmul) 1 else 1)"

definition rvv_compute_vl :: "u32 \<Rightarrow> u32 \<Rightarrow> u32" where
  "rvv_compute_vl avl vlmax = (if avl \<le> vlmax then avl else if avl < 2 * vlmax then vlmax else vlmax)"

definition rvv_require_valid_state :: "vunit_t \<Rightarrow> bool" where
  "rvv_require_valid_state u \<longleftrightarrow>
    csr_vtype u AND RVV_VTYPE_VILL = 0 \<and> rvv_vtype_is_supported (csr_vtype u)"

definition vta :: "vunit_t \<Rightarrow> bool" where
  "vta u \<longleftrightarrow> drop_bit 6 (csr_vtype u) AND 1 \<noteq> 0"

definition vma :: "vunit_t \<Rightarrow> bool" where
  "vma u \<longleftrightarrow> drop_bit 7 (csr_vtype u) AND 1 \<noteq> 0"

definition sew_of :: "vunit_t \<Rightarrow> u32" where
  "sew_of u = rvv_sew_bits (csr_vtype u)"

definition vlmax_of :: "vunit_t \<Rightarrow> u32" where
  "vlmax_of u = rvv_vlmax (csr_vtype u)"

text \<open>Elements of at most 32 bits; \<open>elem_place\<close> is the register, word and bit offset of one.\<close>

section \<open>Elements\<close>

definition elem_mask :: "u32 \<Rightarrow> u32" where
  "elem_mask sew = (if sew = 32 then 0xFFFFFFFF else push_bit (unat sew) 1 - 1)"

definition elem_place :: "u32 \<Rightarrow> u32 \<Rightarrow> u32 \<Rightarrow> (u32 \<times> u32 \<times> u32) outcome" where
  "elem_place reg elem sew =
    (let elems_per_word = 32 div sew in
     if sew = 0 \<or> elems_per_word = 0 then Inl Undefined_access
     else (let linear_word = elem div elems_per_word;
               reg_idx = reg + linear_word div VREG_U32_COUNT;
               word_idx = linear_word mod VREG_U32_COUNT;
               slot = elem mod elems_per_word
           in if reg_idx < 32 then Inr (reg_idx, word_idx, slot * sew) else Inl Assert_failed))"

definition rvv_get_elem :: "vunit_t \<Rightarrow> u32 \<Rightarrow> u32 \<Rightarrow> u32 \<Rightarrow> u32 outcome" where
  "rvv_get_elem u reg elem sew =
    obind (elem_place reg elem sew) (\<lambda>(r, w, shift).
      Inr (drop_bit (unat shift) (vregs u r w) AND elem_mask sew))"

definition set_word :: "u32 \<Rightarrow> u32 \<Rightarrow> u32 \<Rightarrow> vunit_t \<Rightarrow> vunit_t" where
  "set_word r w v u = u\<lparr>vregs := (vregs u)(r := (vregs u r)(w := v))\<rparr>"

definition rvv_set_elem :: "u32 \<Rightarrow> u32 \<Rightarrow> u32 \<Rightarrow> u32 \<Rightarrow> vunit_t \<Rightarrow> vunit_t outcome" where
  "rvv_set_elem reg elem sew v u =
    obind (elem_place reg elem sew) (\<lambda>(r, w, shift).
      let word_mask = push_bit (unat shift) (elem_mask sew)
      in Inr (set_word r w ((vregs u r w AND (NOT word_mask)) OR push_bit (unat shift) (v AND elem_mask sew)) u))"

text \<open>Elements of up to 64 bits, byte by byte.\<close>

definition rvv_reg_byte :: "vunit_t \<Rightarrow> u32 \<Rightarrow> u32 \<Rightarrow> u8 outcome" where
  "rvv_reg_byte u reg off =
    (if reg < 32 \<and> off < 16 then Inr (byte_of (vregs u reg (off div 4)) (unat (off mod 4))) else Inl Undefined_access)"

definition rvv_set_reg_byte :: "u32 \<Rightarrow> u32 \<Rightarrow> u8 \<Rightarrow> vunit_t \<Rightarrow> vunit_t outcome" where
  "rvv_set_reg_byte reg off b u =
    (if reg < 32 \<and> off < 16
     then (let shift = 8 * unat (off mod 4)
           in Inr (set_word reg (off div 4)
                ((vregs u reg (off div 4) AND (NOT (push_bit shift 0xFF))) OR push_bit shift (ucast b)) u))
     else Inl Undefined_access)"

definition rvv_trunc_elem64 :: "u64 \<Rightarrow> u32 \<Rightarrow> u64" where
  "rvv_trunc_elem64 v sew = (if sew \<ge> 64 then v else v AND (push_bit (unat sew) 1 - 1))"

text \<open>The register and offset of byte \<open>i\<close> of an element.\<close>

definition ext_byte :: "vunit_t \<Rightarrow> u32 \<Rightarrow> u32 \<Rightarrow> u32 \<Rightarrow> u32 \<Rightarrow> u32 \<times> u32" where
  "ext_byte u reg elem sew i =
    (let byte_offset = elem * drop_bit 3 sew;
         reg_idx = reg + byte_offset div csr_vlenb u; reg_off = byte_offset mod csr_vlenb u
     in (reg_idx + (reg_off + i) div csr_vlenb u, (reg_off + i) mod csr_vlenb u))"

definition ext_checks :: "vunit_t \<Rightarrow> u32 \<Rightarrow> fault option" where
  "ext_checks u sew =
    (if csr_vlenb u = 0 then Some Undefined_access
     else if sew mod 8 \<noteq> 0 \<or> drop_bit 3 sew > 8 then Some Assert_failed else None)"

definition rvv_get_elem_ext :: "vunit_t \<Rightarrow> u32 \<Rightarrow> u32 \<Rightarrow> u32 \<Rightarrow> u64 outcome" where
  "rvv_get_elem_ext u reg elem sew =
    (case ext_checks u sew of Some e \<Rightarrow> Inl e
     | None \<Rightarrow> ofold (\<lambda>i v. case ext_byte u reg elem sew i of (r, off) \<Rightarrow>
           obind (rvv_reg_byte u r off) (\<lambda>b. Inr (v OR push_bit (unat i * 8) (ucast b))))
         (elems 0 (drop_bit 3 sew)) 0)"

definition rvv_set_elem_ext :: "u32 \<Rightarrow> u32 \<Rightarrow> u32 \<Rightarrow> u64 \<Rightarrow> vunit_t \<Rightarrow> vunit_t outcome" where
  "rvv_set_elem_ext reg elem sew v0 u0 =
    (case ext_checks u0 sew of Some e \<Rightarrow> Inl e
     | None \<Rightarrow> (let v = rvv_trunc_elem64 v0 sew
        in ofold (\<lambda>i u. case ext_byte u reg elem sew i of (r, off) \<Rightarrow>
             rvv_set_reg_byte r off (ucast (drop_bit (unat i * 8) v)) u)
           (elems 0 (drop_bit 3 sew)) u0))"

section \<open>Masks\<close>

definition rvv_mask_get_bit :: "vunit_t \<Rightarrow> u32 \<Rightarrow> u32 \<Rightarrow> bool outcome" where
  "rvv_mask_get_bit u reg elem =
    (if reg < 32 \<and> drop_bit 5 elem < VREG_U32_COUNT
     then Inr (drop_bit (unat (elem AND 31)) (vregs u reg (drop_bit 5 elem)) AND 1 \<noteq> 0)
     else Inl Undefined_access)"

definition rvv_mask_set_bit :: "u32 \<Rightarrow> u32 \<Rightarrow> bool \<Rightarrow> vunit_t \<Rightarrow> vunit_t outcome" where
  "rvv_mask_set_bit reg elem b u =
    (if reg < 32 \<and> drop_bit 5 elem < VREG_U32_COUNT
     then (let word = vregs u reg (drop_bit 5 elem); mask0 = push_bit (unat (elem AND 31)) 1
           in Inr (set_word reg (drop_bit 5 elem) (if b then word OR mask0 else word AND (NOT mask0)) u))
     else Inl Undefined_access)"

definition rvv_mask_enabled_for_elem :: "vunit_t \<Rightarrow> v_operands_t \<Rightarrow> u32 \<Rightarrow> bool outcome" where
  "rvv_mask_enabled_for_elem u vo elem = (if vm vo \<noteq> 0 then Inr True else rvv_mask_get_bit u 0 elem)"

definition rvv_mask_fill_tail :: "u32 \<Rightarrow> u32 \<Rightarrow> u32 \<Rightarrow> vunit_t \<Rightarrow> vunit_t outcome" where
  "rvv_mask_fill_tail reg start vlmax =
    ofold (\<lambda>elem. rvv_mask_set_bit reg elem True) (elems start vlmax)"

section \<open>Values of one element\<close>

definition rvv_data_fill :: "u32 \<Rightarrow> u32" where
  "rvv_data_fill sew = (if sew = 8 then 0xFF else if sew = 16 then 0xFFFF else 0xFFFFFFFF)"

definition rvv_data_fill_ext :: "u32 \<Rightarrow> u64" where
  "rvv_data_fill_ext sew = (if sew \<ge> 64 then NOT 0 else ucast (rvv_data_fill sew))"

definition rvv_trunc_elem :: "u32 \<Rightarrow> u32 \<Rightarrow> u32" where
  "rvv_trunc_elem v sew = (if sew = 32 then v else v AND (push_bit (unat sew) 1 - 1))"

definition rvv_signed_elem :: "u32 \<Rightarrow> u32 \<Rightarrow> u32" where
  "rvv_signed_elem v sew =
    signed_drop_bit (unat (32 - sew)) (push_bit (unat (32 - sew)) (rvv_trunc_elem v sew))"

definition rvv_elem_mask64 :: "u32 \<Rightarrow> u64" where
  "rvv_elem_mask64 width = (if width \<ge> 64 then NOT 0 else push_bit (unat width) 1 - 1)"

definition rvv_sign_extend64 :: "u64 \<Rightarrow> u32 \<Rightarrow> u64" where
  "rvv_sign_extend64 v width =
    (if width \<ge> 64 then v else signed_drop_bit (unat (64 - width)) (push_bit (unat (64 - width)) v))"

section \<open>Checks on register operands\<close>

definition rvv_validate_data_reg :: "u32 \<Rightarrow> u32 \<Rightarrow> bool" where
  "rvv_validate_data_reg vtype reg =
    (let span = rvv_group_regs vtype
     in if reg + span > 32 then False else span = 1 \<or> reg mod span = 0)"

definition rvv_validate_reg_span :: "u32 \<Rightarrow> u32 \<Rightarrow> bool" where
  "rvv_validate_reg_span reg span =
    (if span = 0 \<or> reg + span > 32 then False else span = 1 \<or> reg mod span = 0)"

definition rvv_reg_spans_overlap :: "u32 \<Rightarrow> u32 \<Rightarrow> u32 \<Rightarrow> u32 \<Rightarrow> bool" where
  "rvv_reg_spans_overlap reg_a span_a reg_b span_b \<longleftrightarrow> reg_a < reg_b + span_b \<and> reg_b < reg_a + span_a"

definition rvv_cross_eew_overlap_illegal :: "u32 \<Rightarrow> u32 \<Rightarrow> u32 \<Rightarrow> u32 \<Rightarrow> bool" where
  "rvv_cross_eew_overlap_illegal reg_a span_a reg_b span_b =
    (if \<not> rvv_reg_spans_overlap reg_a span_a reg_b span_b then False else reg_a \<noteq> reg_b)"

text \<open>The result is C's \<open>*span_out\<close>, or \<open>None\<close> for \<open>return false\<close>.\<close>

definition rvv_eew_reg_span :: "vunit_t \<Rightarrow> u32 \<Rightarrow> u32 option" where
  "rvv_eew_reg_span u eew0 =
    (case rvv_lmul_ratio (csr_vtype u) of (lmul_num, lmul_den) \<Rightarrow>
      let emul_num = (ucast lmul_num * ucast eew0 :: u64);
          emul_den = ucast lmul_den * ucast (rvv_sew_bits (csr_vtype u))
      in if emul_num > emul_den * 8 then None
         else Some (if emul_num \<le> emul_den then 1 else ucast (emul_num div emul_den)))"

definition rvv_index_group_span :: "vunit_t \<Rightarrow> u32 \<Rightarrow> u32 option" where
  "rvv_index_group_span u index_eew = rvv_eew_reg_span u index_eew"

definition rvv_validate_eew_reg :: "vunit_t \<Rightarrow> u32 \<Rightarrow> u32 \<Rightarrow> bool" where
  "rvv_validate_eew_reg u eew0 reg =
    (case rvv_eew_reg_span u eew0 of None \<Rightarrow> False | Some span \<Rightarrow> rvv_validate_reg_span reg span)"

definition rvv_validate_wide_reg :: "vunit_t \<Rightarrow> u32 \<Rightarrow> bool" where
  "rvv_validate_wide_reg u reg = rvv_validate_eew_reg u (push_bit 1 (sew_of u)) reg"

definition rvv_wide_group_span :: "vunit_t \<Rightarrow> u32 option" where
  "rvv_wide_group_span u = rvv_eew_reg_span u (push_bit 1 (sew_of u))"

definition rvv_validate_segment_reg_group :: "u32 \<Rightarrow> u32 \<Rightarrow> u32 \<Rightarrow> bool" where
  "rvv_validate_segment_reg_group reg field_span nf = rvv_validate_reg_span reg (field_span * nf)"

section \<open>Traps and the configuration instructions\<close>

definition rvv_trap_illegal_state :: "riscv_io_t \<Rightarrow> u32 \<Rightarrow> riscv_t \<Rightarrow> riscv_t outcome" where
  "rvv_trap_illegal_state io tval rv = SET_CAUSE_AND_TVAL_THEN_TRAP io ILLEGAL_INSN tval rv"

definition rvv_apply_vsetvl :: "u8 \<Rightarrow> u32 \<Rightarrow> u32 \<Rightarrow> bool \<Rightarrow> riscv_t \<Rightarrow> riscv_t" where
  "rvv_apply_vsetvl r new_vtype avl keep_vl rv0 =
    (let vill = (let rv = set_vu rvv_set_vill rv0 in set_X r (csr_vl (vu rv)) rv)
     in if keep_vl \<and> \<not> rvv_require_valid_state (vu rv0) then vill
        else if \<not> rvv_vtype_is_supported new_vtype then vill
        else if keep_vl \<and> rvv_vlmax new_vtype \<noteq> vlmax_of (vu rv0) then vill
        else (let rv = set_vu (\<lambda>u. u\<lparr>csr_vtype := new_vtype\<rparr>) rv0;
                  rv = (if keep_vl then rv
                        else set_vu (\<lambda>u. u\<lparr>csr_vl := rvv_compute_vl avl (rvv_vlmax new_vtype)\<rparr>) rv)
              in set_X r (csr_vl (vu rv)) rv))"

text \<open>The macro uses the opcode only for the length of the instruction, which is four bytes.\<close>

definition VRVOP :: "body_t \<Rightarrow> handler_t" where
  "VRVOP = RVOP (RV32I rv_insn_nop)"

definition do_vsetvli :: handler_t where
  "do_vsetvli = VRVOP (straight (\<lambda>ir _ rv.
    rvv_apply_vsetvl (rd ir) (zimm (vop ir)) (if rs1 ir \<noteq> 0 then X rv (rs1 ir) else 0xFFFFFFFF)
      (rs1 ir = 0 \<and> rd ir = 0) rv))"

definition do_vsetivli :: handler_t where
  "do_vsetivli = VRVOP (straight (\<lambda>ir _ rv.
    rvv_apply_vsetvl (rd ir) (zimm (vop ir)) (ucast (rs1 ir)) False rv))"

definition do_vsetvl :: handler_t where
  "do_vsetvl = VRVOP (straight (\<lambda>ir _ rv.
    rvv_apply_vsetvl (rd ir) (X rv (rs2 ir)) (if rs1 ir \<noteq> 0 then X rv (rs1 ir) else 0xFFFFFFFF)
      (rs1 ir = 0 \<and> rd ir = 0) rv))"

end
