(* ===== verification/VecOps.thy ===== *)
theory VecOps imports Vector begin

text \<open>
  The operations on single elements of \<open>src/src/rv32_v_template.c\<close>: comparisons, arithmetic modulo the
  element width, division, the high halves of products, carries and borrows, rounding, saturation,
  and the widening and narrowing operations. Operands come in the order of the C parameters; the last
  one is the element width. The ones that round or saturate read or write the state of the vector unit.
\<close>

section \<open>Comparisons\<close>

type_synonym cmp_t = "u32 \<Rightarrow> u32 \<Rightarrow> u32 \<Rightarrow> bool"
type_synonym binop_t = "u32 \<Rightarrow> u32 \<Rightarrow> u32 \<Rightarrow> u32"

definition rvv_cmp_eq :: cmp_t where
  "rvv_cmp_eq lhs rhs sew \<longleftrightarrow> rvv_trunc_elem lhs sew = rvv_trunc_elem rhs sew"

definition rvv_cmp_ne :: cmp_t where
  "rvv_cmp_ne lhs rhs sew \<longleftrightarrow> \<not> rvv_cmp_eq lhs rhs sew"

definition rvv_cmp_ltu :: cmp_t where
  "rvv_cmp_ltu lhs rhs sew \<longleftrightarrow> rvv_trunc_elem lhs sew < rvv_trunc_elem rhs sew"

definition rvv_cmp_lt :: cmp_t where
  "rvv_cmp_lt lhs rhs sew \<longleftrightarrow> rvv_signed_elem lhs sew <s rvv_signed_elem rhs sew"

definition rvv_cmp_leu :: cmp_t where
  "rvv_cmp_leu lhs rhs sew \<longleftrightarrow> rvv_trunc_elem lhs sew \<le> rvv_trunc_elem rhs sew"

definition rvv_cmp_le :: cmp_t where
  "rvv_cmp_le lhs rhs sew \<longleftrightarrow> rvv_signed_elem lhs sew \<le>s rvv_signed_elem rhs sew"

section \<open>Arithmetic\<close>

definition rvv_op_minu :: binop_t where
  "rvv_op_minu lhs0 rhs0 sew =
    (let lhs = rvv_trunc_elem lhs0 sew; rhs = rvv_trunc_elem rhs0 sew in if lhs < rhs then lhs else rhs)"

definition rvv_op_min :: binop_t where
  "rvv_op_min lhs rhs sew =
    (if rvv_signed_elem lhs sew <s rvv_signed_elem rhs sew then rvv_trunc_elem lhs sew else rvv_trunc_elem rhs sew)"

definition rvv_op_maxu :: binop_t where
  "rvv_op_maxu lhs0 rhs0 sew =
    (let lhs = rvv_trunc_elem lhs0 sew; rhs = rvv_trunc_elem rhs0 sew in if lhs > rhs then lhs else rhs)"

definition rvv_op_max :: binop_t where
  "rvv_op_max lhs rhs sew =
    (if rvv_signed_elem rhs sew <s rvv_signed_elem lhs sew then rvv_trunc_elem lhs sew else rvv_trunc_elem rhs sew)"

definition rvv_op_add :: binop_t where
  "rvv_op_add lhs rhs sew = rvv_trunc_elem (lhs + rhs) sew"

definition rvv_op_and :: binop_t where
  "rvv_op_and lhs rhs sew = rvv_trunc_elem (lhs AND rhs) sew"

definition rvv_op_or :: binop_t where
  "rvv_op_or lhs rhs sew = rvv_trunc_elem (lhs OR rhs) sew"

definition rvv_op_xor :: binop_t where
  "rvv_op_xor lhs rhs sew = rvv_trunc_elem (lhs XOR rhs) sew"

definition rvv_op_divu :: binop_t where
  "rvv_op_divu lhs0 rhs0 sew =
    (let lhs = rvv_trunc_elem lhs0 sew; rhs = rvv_trunc_elem rhs0 sew
     in if rhs = 0 then rvv_data_fill sew else rvv_trunc_elem (lhs div rhs) sew)"

definition min_elem :: "u32 \<Rightarrow> u32" where
  "min_elem sew = rvv_signed_elem (push_bit (unat (sew - 1)) 1) sew"

definition rvv_op_div :: binop_t where
  "rvv_op_div lhs rhs sew =
    (let dividend = rvv_signed_elem lhs sew; divisor = rvv_signed_elem rhs sew
     in if divisor = 0 then rvv_data_fill sew
        else if dividend = min_elem sew \<and> divisor = - 1 then rvv_trunc_elem dividend sew
        else rvv_trunc_elem (word_of_int (sint dividend sdiv sint divisor)) sew)"

definition rvv_op_remu :: binop_t where
  "rvv_op_remu lhs0 rhs0 sew =
    (let lhs = rvv_trunc_elem lhs0 sew; rhs = rvv_trunc_elem rhs0 sew
     in if rhs = 0 then lhs else rvv_trunc_elem (lhs mod rhs) sew)"

definition rvv_op_rem :: binop_t where
  "rvv_op_rem lhs rhs sew =
    (let dividend = rvv_signed_elem lhs sew; divisor = rvv_signed_elem rhs sew
     in if divisor = 0 then rvv_trunc_elem dividend sew
        else if dividend = min_elem sew \<and> divisor = - 1 then 0
        else rvv_trunc_elem (word_of_int (sint dividend smod sint divisor)) sew)"

definition utrunc64 :: "u32 \<Rightarrow> u32 \<Rightarrow> u64" where
  "utrunc64 v sew = ucast (rvv_trunc_elem v sew)"

definition strunc64 :: "u32 \<Rightarrow> u32 \<Rightarrow> u64" where
  "strunc64 v sew = scast (rvv_signed_elem v sew)"

definition rvv_op_mulhu :: binop_t where
  "rvv_op_mulhu lhs rhs sew =
    rvv_trunc_elem (ucast (drop_bit (unat sew) (utrunc64 lhs sew * utrunc64 rhs sew))) sew"

definition rvv_op_mulhsu :: binop_t where
  "rvv_op_mulhsu lhs rhs sew =
    rvv_trunc_elem (ucast (drop_bit (unat sew) (strunc64 lhs sew * utrunc64 rhs sew))) sew"

definition rvv_op_mulh :: binop_t where
  "rvv_op_mulh lhs rhs sew =
    rvv_trunc_elem (ucast (drop_bit (unat sew) (strunc64 lhs sew * strunc64 rhs sew))) sew"

definition rvv_op_srl :: binop_t where
  "rvv_op_srl lhs rhs sew = drop_bit (unat (rhs AND (sew - 1))) (rvv_trunc_elem lhs sew)"

definition rvv_op_sra :: binop_t where
  "rvv_op_sra lhs rhs sew =
    rvv_trunc_elem (signed_drop_bit (unat (rhs AND (sew - 1))) (rvv_signed_elem lhs sew)) sew"

section \<open>Carry and borrow\<close>

definition rvv_op_adc :: "u32 \<Rightarrow> u32 \<Rightarrow> u32 \<Rightarrow> u32 \<Rightarrow> u32" where
  "rvv_op_adc lhs rhs carry_in sew =
    rvv_trunc_elem (ucast (utrunc64 lhs sew + utrunc64 rhs sew + ucast carry_in)) sew"

definition rvv_op_adc_carry :: "u32 \<Rightarrow> u32 \<Rightarrow> u32 \<Rightarrow> u32 \<Rightarrow> bool" where
  "rvv_op_adc_carry lhs rhs carry_in sew \<longleftrightarrow>
    drop_bit (unat sew) (utrunc64 lhs sew + utrunc64 rhs sew + ucast carry_in) AND 1 \<noteq> 0"

text \<open>The addition of the borrow is one of 32 bits.\<close>

definition rvv_op_sbc :: "u32 \<Rightarrow> u32 \<Rightarrow> u32 \<Rightarrow> u32 \<Rightarrow> u32" where
  "rvv_op_sbc lhs rhs borrow_in sew =
    rvv_trunc_elem (ucast (utrunc64 lhs sew - ucast (rvv_trunc_elem rhs sew + borrow_in))) sew"

definition rvv_op_sbc_borrow :: "u32 \<Rightarrow> u32 \<Rightarrow> u32 \<Rightarrow> u32 \<Rightarrow> bool" where
  "rvv_op_sbc_borrow lhs rhs borrow_in sew \<longleftrightarrow>
    utrunc64 lhs sew < ucast (rvv_trunc_elem rhs sew + borrow_in)"

section \<open>Multiply and accumulate\<close>

type_synonym macop_t = "u32 \<Rightarrow> u32 \<Rightarrow> u32 \<Rightarrow> u32 \<Rightarrow> u32"

definition rvv_op_vmacc :: macop_t where
  "rvv_op_vmacc dest lhs rhs sew = rvv_trunc_elem (dest + lhs * rhs) sew"

definition rvv_op_vnmsac :: macop_t where
  "rvv_op_vnmsac dest lhs rhs sew = rvv_trunc_elem (dest - lhs * rhs) sew"

definition rvv_op_vmadd :: macop_t where
  "rvv_op_vmadd dest lhs rhs sew = rvv_trunc_elem (rhs * dest + lhs) sew"

definition rvv_op_vnmsub :: macop_t where
  "rvv_op_vnmsub dest lhs rhs sew = rvv_trunc_elem (lhs - rhs * dest) sew"

section \<open>Rounding and saturation\<close>

definition rvv_round_increment :: "vunit_t \<Rightarrow> u64 \<Rightarrow> u32 \<Rightarrow> u64" where
  "rvv_round_increment u v shift =
    (if shift = 0 then 0
     else (let halfway = push_bit (unat (shift - 1)) 1; discarded = v AND (push_bit (unat shift) 1 - 1);
               lower = discarded AND (halfway - 1); guard = discarded AND halfway;
               lsb = drop_bit (unat shift) v AND 1; rm = csr_vxrm u AND 3
           in if rm = 0 then (if guard \<noteq> 0 then halfway else 0)
              else if rm = 1 then (if guard \<noteq> 0 \<and> (lower \<noteq> 0 \<or> lsb \<noteq> 0) then halfway else 0)
              else if rm = 2 then 0
              else (if discarded \<noteq> 0 \<and> lsb = 0 then push_bit (unat shift) 1 - 1 else 0)))"

definition rvv_roundoff_unsigned :: "vunit_t \<Rightarrow> u64 \<Rightarrow> u32 \<Rightarrow> u32 \<Rightarrow> u64" where
  "rvv_roundoff_unsigned u v width shift =
    drop_bit (unat shift) (v + rvv_round_increment u v shift) AND rvv_elem_mask64 width"

definition rvv_roundoff_signed :: "vunit_t \<Rightarrow> u64 \<Rightarrow> u32 \<Rightarrow> u32 \<Rightarrow> u64" where
  "rvv_roundoff_signed u v width shift =
    (let sum' = (v + rvv_round_increment u v shift) AND rvv_elem_mask64 width
     in signed_drop_bit (unat shift) (rvv_sign_extend64 sum' width))"

definition rvv_set_vxsat :: "vunit_t \<Rightarrow> vunit_t" where
  "rvv_set_vxsat u = u\<lparr>csr_vxsat := 1, csr_vcsr := (csr_vxrm u AND 3) OR push_bit 2 1\<rparr>"

definition smin64 :: "u32 \<Rightarrow> u64" where "smin64 sew = - push_bit (unat (sew - 1)) 1"
definition smax64 :: "u32 \<Rightarrow> u64" where "smax64 sew = push_bit (unat (sew - 1)) 1 - 1"

text \<open>The saturation to the signed range of an element, which six of the operations end with.\<close>

definition clip :: "u64 \<Rightarrow> u32 \<Rightarrow> vunit_t \<Rightarrow> u32 \<times> vunit_t" where
  "clip v sew u =
    (if smax64 sew <s v then (rvv_trunc_elem (ucast (smax64 sew)) sew, rvv_set_vxsat u)
     else if v <s smin64 sew then (rvv_trunc_elem (ucast (smin64 sew)) sew, rvv_set_vxsat u)
     else (rvv_trunc_elem (ucast v) sew, u))"

type_synonym statefulop_t = "vunit_t \<Rightarrow> u32 \<Rightarrow> u32 \<Rightarrow> u32 \<Rightarrow> u32 \<times> vunit_t"

definition rvv_op_vsaddu :: statefulop_t where
  "rvv_op_vsaddu u lhs rhs sew =
    (let sum' = utrunc64 lhs sew + utrunc64 rhs sew
     in if sum' > rvv_elem_mask64 sew then (ucast (rvv_elem_mask64 sew), rvv_set_vxsat u)
        else (rvv_trunc_elem (ucast sum') sew, u))"

definition rvv_op_vsadd :: statefulop_t where
  "rvv_op_vsadd u lhs rhs sew = clip (strunc64 lhs sew + strunc64 rhs sew) sew u"

definition rvv_op_vssubu :: statefulop_t where
  "rvv_op_vssubu u lhs rhs sew =
    (let lhs_u = rvv_trunc_elem lhs sew; rhs_u = rvv_trunc_elem rhs sew
     in if lhs_u < rhs_u then (0, rvv_set_vxsat u) else (rvv_trunc_elem (lhs_u - rhs_u) sew, u))"

definition rvv_op_vssub :: statefulop_t where
  "rvv_op_vssub u lhs rhs sew = clip (strunc64 lhs sew - strunc64 rhs sew) sew u"

definition rvv_op_vaaddu :: statefulop_t where
  "rvv_op_vaaddu u lhs rhs sew =
    (ucast (rvv_roundoff_unsigned u (utrunc64 lhs sew + utrunc64 rhs sew) sew 1), u)"

definition rvv_op_vaadd :: statefulop_t where
  "rvv_op_vaadd u lhs rhs sew =
    (let width = sew + 1
     in (rvv_trunc_elem (ucast (rvv_roundoff_signed u
           ((strunc64 lhs sew + strunc64 rhs sew) AND rvv_elem_mask64 width) width 1)) sew, u))"

definition rvv_op_vasubu :: statefulop_t where
  "rvv_op_vasubu u lhs rhs sew =
    (ucast (rvv_roundoff_unsigned u ((utrunc64 lhs sew - utrunc64 rhs sew) AND rvv_elem_mask64 sew) sew 1), u)"

definition rvv_op_vasub :: statefulop_t where
  "rvv_op_vasub u lhs rhs sew =
    (let width = sew + 1
     in (rvv_trunc_elem (ucast (rvv_roundoff_signed u
           ((strunc64 lhs sew - strunc64 rhs sew) AND rvv_elem_mask64 width) width 1)) sew, u))"

definition rvv_op_vssrl :: statefulop_t where
  "rvv_op_vssrl u lhs rhs sew =
    (ucast (rvv_roundoff_unsigned u (utrunc64 lhs sew) sew (rhs AND (sew - 1))), u)"

definition rvv_op_vssra :: statefulop_t where
  "rvv_op_vssra u lhs rhs sew =
    (rvv_trunc_elem (ucast (rvv_roundoff_signed u (utrunc64 lhs sew) sew (rhs AND (sew - 1)))) sew, u)"

definition rvv_op_vsmul :: statefulop_t where
  "rvv_op_vsmul u lhs rhs sew =
    (let width = push_bit 1 sew
     in clip (rvv_roundoff_signed u ((strunc64 lhs sew * strunc64 rhs sew) AND rvv_elem_mask64 width)
                width (sew - 1)) sew u)"

section \<open>Widening\<close>

type_synonym wideop_t = "u32 \<Rightarrow> u32 \<Rightarrow> u32 \<Rightarrow> u64"
type_synonym mixedop_t = "u64 \<Rightarrow> u32 \<Rightarrow> u32 \<Rightarrow> u64"

definition rvv_wop_addu :: wideop_t where
  "rvv_wop_addu lhs rhs sew = utrunc64 lhs sew + utrunc64 rhs sew"

definition rvv_wop_add :: wideop_t where
  "rvv_wop_add lhs rhs sew = rvv_trunc_elem64 (strunc64 lhs sew + strunc64 rhs sew) (push_bit 1 sew)"

definition rvv_wop_subu :: wideop_t where
  "rvv_wop_subu lhs rhs sew = rvv_trunc_elem64 (utrunc64 lhs sew - utrunc64 rhs sew) (push_bit 1 sew)"

definition rvv_wop_sub :: wideop_t where
  "rvv_wop_sub lhs rhs sew = rvv_trunc_elem64 (strunc64 lhs sew - strunc64 rhs sew) (push_bit 1 sew)"

definition rvv_wop_addu_mixed :: mixedop_t where
  "rvv_wop_addu_mixed lhs rhs sew = rvv_trunc_elem64 (lhs + utrunc64 rhs sew) (push_bit 1 sew)"

definition rvv_wop_add_mixed :: mixedop_t where
  "rvv_wop_add_mixed lhs rhs sew = rvv_trunc_elem64 (lhs + strunc64 rhs sew) (push_bit 1 sew)"

definition rvv_wop_subu_mixed :: mixedop_t where
  "rvv_wop_subu_mixed lhs rhs sew = rvv_trunc_elem64 (lhs - utrunc64 rhs sew) (push_bit 1 sew)"

definition rvv_wop_sub_mixed :: mixedop_t where
  "rvv_wop_sub_mixed lhs rhs sew = rvv_trunc_elem64 (lhs - strunc64 rhs sew) (push_bit 1 sew)"

definition rvv_wop_mulu :: wideop_t where
  "rvv_wop_mulu lhs rhs sew = utrunc64 lhs sew * utrunc64 rhs sew"

definition rvv_wop_mulsu :: wideop_t where
  "rvv_wop_mulsu lhs rhs sew = rvv_trunc_elem64 (strunc64 lhs sew * utrunc64 rhs sew) (push_bit 1 sew)"

definition rvv_wop_mulus :: wideop_t where
  "rvv_wop_mulus lhs rhs sew = rvv_trunc_elem64 (utrunc64 lhs sew * strunc64 rhs sew) (push_bit 1 sew)"

definition rvv_wop_mul :: wideop_t where
  "rvv_wop_mul lhs rhs sew = rvv_trunc_elem64 (strunc64 lhs sew * strunc64 rhs sew) (push_bit 1 sew)"

section \<open>Narrowing\<close>

type_synonym narrowop_t = "vunit_t \<Rightarrow> u64 \<Rightarrow> u32 \<Rightarrow> u32 \<Rightarrow> u32 \<times> vunit_t"

definition rvv_nop_vnsrl :: narrowop_t where
  "rvv_nop_vnsrl u v shift sew = (rvv_trunc_elem (ucast (drop_bit (unat shift) v)) sew, u)"

definition rvv_nop_vnsra :: narrowop_t where
  "rvv_nop_vnsra u v shift sew =
    (rvv_trunc_elem (ucast (signed_drop_bit (unat shift) (rvv_sign_extend64 v (push_bit 1 sew)))) sew, u)"

definition rvv_nop_vnclipu :: narrowop_t where
  "rvv_nop_vnclipu u v shift sew =
    (let rounded = rvv_roundoff_unsigned u v (push_bit 1 sew) shift
     in if rounded > rvv_elem_mask64 sew then (ucast (rvv_elem_mask64 sew), rvv_set_vxsat u)
        else (rvv_trunc_elem (ucast rounded) sew, u))"

definition rvv_nop_vnclip :: narrowop_t where
  "rvv_nop_vnclip u v shift sew = clip (rvv_roundoff_signed u v (push_bit 1 sew) shift) sew u"

end
