(* ===== verification/VecExec.thy ===== *)
theory VecExec imports VecOps begin

text \<open>
  The loops over the elements of a vector of \<open>src/src/rv32_v_template.c\<close>, the functions \<open>rvv_exec_*\<close>. Most
  share one shape: the elements from \<open>vstart\<close> to \<open>vl\<close> are computed or, where the mask is off, filled
  if \<open>vma\<close> is set; the ones from \<open>vl\<close> to \<open>VLMAX\<close> are filled if \<open>vta\<close> is set; and \<open>vstart\<close> becomes zero.
  Results that are masks always fill their tail. A value is computed by a function of the element
  number and the vector unit, which yields the unit it leaves as well.
\<close>

section \<open>The shape of the loops\<close>

type_synonym filler_t = "u32 \<Rightarrow> vunit_t \<Rightarrow> vunit_t outcome"
type_synonym 'v lane_t = "u32 \<Rightarrow> vunit_t \<Rightarrow> ('v \<times> vunit_t) outcome"
type_synonym exec_t = "riscv_t \<Rightarrow> rv_insn_t \<Rightarrow> u32 \<Rightarrow> riscv_t outcome"

definition body_loop :: "v_operands_t \<Rightarrow> filler_t \<Rightarrow> filler_t \<Rightarrow> vunit_t \<Rightarrow> vunit_t outcome" where
  "body_loop vo fill act u0 =
    ofold (\<lambda>elem u. obind (rvv_mask_enabled_for_elem u vo elem) (\<lambda>on.
             if on then act elem u else if vma u0 then fill elem u else Inr u))
      (elems (csr_vstart u0) (csr_vl u0)) u0"

definition tail_loop :: "filler_t \<Rightarrow> vunit_t \<Rightarrow> vunit_t outcome" where
  "tail_loop fill u = (if vta u then ofold fill (elems (csr_vl u) (vlmax_of u)) u else Inr u)"

definition mask_tail :: "u32 \<Rightarrow> vunit_t \<Rightarrow> vunit_t outcome" where
  "mask_tail dest u = rvv_mask_fill_tail dest (csr_vl u) (vlmax_of u) u"

definition finish :: "vunit_t \<Rightarrow> vunit_t outcome" where
  "finish u = Inr (u\<lparr>csr_vstart := 0\<rparr>)"

definition on_vunit :: "(vunit_t \<Rightarrow> vunit_t outcome) \<Rightarrow> riscv_t \<Rightarrow> riscv_t outcome" where
  "on_vunit f rv = obind (f (vu rv)) (\<lambda>u. Inr (rv\<lparr>vu := u\<rparr>))"

definition fill_elem :: "u32 \<Rightarrow> u32 \<Rightarrow> filler_t" where
  "fill_elem dest sew elem = rvv_set_elem dest elem sew (rvv_data_fill sew)"

definition fill_wide :: "u32 \<Rightarrow> u32 \<Rightarrow> filler_t" where
  "fill_wide dest wide elem = rvv_set_elem_ext dest elem wide (rvv_elem_mask64 wide)"

text \<open>Results of one element width, of twice the width, and bits of a mask.\<close>

definition data_loop :: "v_operands_t \<Rightarrow> u32 \<Rightarrow> u32 lane_t \<Rightarrow> vunit_t \<Rightarrow> vunit_t outcome" where
  "data_loop vo dest f u0 =
    (let sew = sew_of u0
     in obind (body_loop vo (fill_elem dest sew)
                (\<lambda>elem u. obind (f elem u) (\<lambda>(v, u). rvv_set_elem dest elem sew v u)) u0)
          (\<lambda>u. obind (tail_loop (fill_elem dest sew) u) finish))"

definition wide_loop :: "v_operands_t \<Rightarrow> u32 \<Rightarrow> u64 lane_t \<Rightarrow> vunit_t \<Rightarrow> vunit_t outcome" where
  "wide_loop vo dest f u0 =
    (let wide = push_bit 1 (sew_of u0)
     in obind (body_loop vo (fill_wide dest wide)
                (\<lambda>elem u. obind (f elem u) (\<lambda>(v, u). rvv_set_elem_ext dest elem wide v u)) u0)
          (\<lambda>u. obind (tail_loop (fill_wide dest wide) u) finish))"

definition mask_loop :: "v_operands_t \<Rightarrow> u32 \<Rightarrow> bool lane_t \<Rightarrow> vunit_t \<Rightarrow> vunit_t outcome" where
  "mask_loop vo dest f u0 =
    obind (body_loop vo (\<lambda>elem. rvv_mask_set_bit dest elem True)
            (\<lambda>elem u. obind (f elem u) (\<lambda>(b, u). rvv_mask_set_bit dest elem b u)) u0)
      (\<lambda>u. obind (mask_tail dest u) finish)"

section \<open>Operands\<close>

definition pure_lane :: "(vunit_t \<Rightarrow> 'v outcome) \<Rightarrow> vunit_t \<Rightarrow> ('v \<times> vunit_t) outcome" where
  "pure_lane f u = obind (f u) (\<lambda>v. Inr (v, u))"

definition src1 :: "rv_insn_t \<Rightarrow> u32 \<Rightarrow> u32 \<Rightarrow> vunit_t \<Rightarrow> u32 outcome" where
  "src1 ir sew elem u = rvv_get_elem u (ucast (vs1 (vop ir))) elem sew"

definition src2 :: "rv_insn_t \<Rightarrow> u32 \<Rightarrow> u32 \<Rightarrow> vunit_t \<Rightarrow> u32 outcome" where
  "src2 ir sew elem u = rvv_get_elem u (ucast (vs2 (vop ir))) elem sew"

definition wide2 :: "rv_insn_t \<Rightarrow> u32 \<Rightarrow> u32 \<Rightarrow> vunit_t \<Rightarrow> u64 outcome" where
  "wide2 ir wide elem u = rvv_get_elem_ext u (ucast (vs2 (vop ir))) elem wide"

text \<open>The second operand: the vector \<open>vs1\<close>, the scalar register or the immediate, cut to the element.\<close>

type_synonym rhs_t = "rv_insn_t \<Rightarrow> riscv_t \<Rightarrow> u32 \<Rightarrow> u32 \<Rightarrow> vunit_t \<Rightarrow> u32 outcome"

definition rhs_v :: rhs_t where
  "rhs_v ir rv sew elem u = src1 ir sew elem u"

definition rhs_x :: rhs_t where
  "rhs_x ir rv sew elem u = Inr (rvv_trunc_elem (X rv (rs1 ir)) sew)"

definition rhs_i :: rhs_t where
  "rhs_i ir rv sew elem u = Inr (rvv_trunc_elem (imm ir) sew)"

definition two_sources :: "rhs_t \<Rightarrow> rv_insn_t \<Rightarrow> riscv_t \<Rightarrow> u32 \<Rightarrow> (u32 \<Rightarrow> u32 \<Rightarrow> 'v) \<Rightarrow> 'v lane_t" where
  "two_sources rhs ir rv sew f elem =
    pure_lane (\<lambda>u. obind (src2 ir sew elem u) (\<lambda>a. obind (rhs ir rv sew elem u) (\<lambda>b. Inr (f a b))))"

definition sew_in :: "riscv_t \<Rightarrow> u32" where
  "sew_in rv = sew_of (vu rv)"

section \<open>Element-wise operations\<close>

definition exec_data :: "rhs_t \<Rightarrow> binop_t \<Rightarrow> exec_t" where
  "exec_data rhs f rv ir dest =
    on_vunit (data_loop (vop ir) dest (two_sources rhs ir rv (sew_in rv) (\<lambda>a b. f a b (sew_in rv)))) rv"

definition rvv_exec_data_vv :: "binop_t \<Rightarrow> exec_t" where "rvv_exec_data_vv = exec_data rhs_v"
definition rvv_exec_data_vx :: "binop_t \<Rightarrow> exec_t" where "rvv_exec_data_vx = exec_data rhs_x"
definition rvv_exec_data_vi :: "binop_t \<Rightarrow> exec_t" where "rvv_exec_data_vi = exec_data rhs_i"

definition exec_mask_compare :: "rhs_t \<Rightarrow> (u32 \<Rightarrow> u32 \<Rightarrow> u32 \<Rightarrow> bool) \<Rightarrow> exec_t" where
  "exec_mask_compare rhs f rv ir dest =
    on_vunit (mask_loop (vop ir) dest (two_sources rhs ir rv (sew_in rv) (\<lambda>a b. f a b (sew_in rv)))) rv"

definition rvv_exec_mask_compare_vv :: "cmp_t \<Rightarrow> exec_t" where
  "rvv_exec_mask_compare_vv = exec_mask_compare rhs_v"

definition rvv_exec_mask_compare_vx :: "cmp_t \<Rightarrow> exec_t" where
  "rvv_exec_mask_compare_vx = exec_mask_compare rhs_x"

definition rvv_exec_mask_compare_vi :: "cmp_t \<Rightarrow> exec_t" where
  "rvv_exec_mask_compare_vi = exec_mask_compare rhs_i"

definition rvv_exec_mask_compare_vx_rev :: "cmp_t \<Rightarrow> exec_t" where
  "rvv_exec_mask_compare_vx_rev f = exec_mask_compare rhs_x (\<lambda>a b. f b a)"

definition rvv_exec_mask_compare_vi_rev :: "cmp_t \<Rightarrow> exec_t" where
  "rvv_exec_mask_compare_vi_rev f = exec_mask_compare rhs_i (\<lambda>a b. f b a)"

definition exec_data_stateful :: "rhs_t \<Rightarrow> statefulop_t \<Rightarrow> exec_t" where
  "exec_data_stateful rhs f rv ir dest =
    on_vunit (data_loop (vop ir) dest (\<lambda>elem u.
      obind (src2 ir (sew_in rv) elem u) (\<lambda>a. obind (rhs ir rv (sew_in rv) elem u) (\<lambda>b.
        Inr (f u a b (sew_in rv)))))) rv"

definition rvv_exec_data_vv_stateful :: "statefulop_t \<Rightarrow> exec_t" where
  "rvv_exec_data_vv_stateful = exec_data_stateful rhs_v"

definition rvv_exec_data_vx_stateful :: "statefulop_t \<Rightarrow> exec_t" where
  "rvv_exec_data_vx_stateful = exec_data_stateful rhs_x"

definition rvv_exec_data_vi_stateful :: "statefulop_t \<Rightarrow> exec_t" where
  "rvv_exec_data_vi_stateful = exec_data_stateful rhs_i"

section \<open>Multiply and accumulate\<close>

definition exec_mac :: "rhs_t \<Rightarrow> macop_t \<Rightarrow> exec_t" where
  "exec_mac rhs f rv ir dest =
    on_vunit (data_loop (vop ir) dest (\<lambda>elem. pure_lane (\<lambda>u.
      obind (rvv_get_elem u dest elem (sew_in rv)) (\<lambda>d.
      obind (src2 ir (sew_in rv) elem u) (\<lambda>a.
      obind (rhs ir rv (sew_in rv) elem u) (\<lambda>b. Inr (f d a b (sew_in rv)))))))) rv"

definition rvv_exec_mac_vv :: "macop_t \<Rightarrow> exec_t" where "rvv_exec_mac_vv = exec_mac rhs_v"
definition rvv_exec_mac_vx :: "macop_t \<Rightarrow> exec_t" where "rvv_exec_mac_vx = exec_mac rhs_x"

section \<open>Widening and narrowing\<close>

definition exec_wide_narrow :: "rhs_t \<Rightarrow> wideop_t \<Rightarrow> exec_t" where
  "exec_wide_narrow rhs f rv ir dest =
    on_vunit (wide_loop (vop ir) dest (two_sources rhs ir rv (sew_in rv) (\<lambda>a b. f a b (sew_in rv)))) rv"

definition rvv_exec_wide_narrow_vv :: "wideop_t \<Rightarrow> exec_t" where "rvv_exec_wide_narrow_vv = exec_wide_narrow rhs_v"
definition rvv_exec_wide_narrow_vx :: "wideop_t \<Rightarrow> exec_t" where "rvv_exec_wide_narrow_vx = exec_wide_narrow rhs_x"

definition exec_wide_mixed :: "rhs_t \<Rightarrow> mixedop_t \<Rightarrow> exec_t" where
  "exec_wide_mixed rhs f rv ir dest =
    on_vunit (wide_loop (vop ir) dest (\<lambda>elem. pure_lane (\<lambda>u.
      obind (wide2 ir (push_bit 1 (sew_in rv)) elem u) (\<lambda>a.
      obind (rhs ir rv (sew_in rv) elem u) (\<lambda>b. Inr (f a b (sew_in rv))))))) rv"

definition rvv_exec_wide_mixed_vv :: "mixedop_t \<Rightarrow> exec_t" where "rvv_exec_wide_mixed_vv = exec_wide_mixed rhs_v"
definition rvv_exec_wide_mixed_vx :: "mixedop_t \<Rightarrow> exec_t" where "rvv_exec_wide_mixed_vx = exec_wide_mixed rhs_x"

definition exec_wide_mac :: "rhs_t \<Rightarrow> wideop_t \<Rightarrow> exec_t" where
  "exec_wide_mac rhs f rv ir dest =
    on_vunit (wide_loop (vop ir) dest (\<lambda>elem. pure_lane (\<lambda>u.
      let wide = push_bit 1 (sew_in rv)
      in obind (rvv_get_elem_ext u dest elem wide) (\<lambda>acc.
         obind (src2 ir (sew_in rv) elem u) (\<lambda>a.
         obind (rhs ir rv (sew_in rv) elem u) (\<lambda>b.
           Inr (rvv_trunc_elem64 (acc + f a b (sew_in rv)) wide))))))) rv"

definition rvv_exec_wide_mac_vv :: "wideop_t \<Rightarrow> exec_t" where "rvv_exec_wide_mac_vv = exec_wide_mac rhs_v"
definition rvv_exec_wide_mac_vx :: "wideop_t \<Rightarrow> exec_t" where "rvv_exec_wide_mac_vx = exec_wide_mac rhs_x"

text \<open>The shift amount of a narrowing operation is cut to the width of its source.\<close>

definition exec_narrow_shift :: "(rv_insn_t \<Rightarrow> riscv_t \<Rightarrow> u32 \<Rightarrow> u32 \<Rightarrow> vunit_t \<Rightarrow> u32 outcome) \<Rightarrow> narrowop_t \<Rightarrow> exec_t" where
  "exec_narrow_shift shift f rv ir dest =
    on_vunit (data_loop (vop ir) dest (\<lambda>elem u.
      let sew = sew_in rv; wide = push_bit 1 sew
      in obind (wide2 ir wide elem u) (\<lambda>a. obind (shift ir rv sew elem u) (\<lambda>n.
           Inr (f u a (n AND (wide - 1)) sew))))) rv"

definition rvv_exec_narrow_shift_vv :: "narrowop_t \<Rightarrow> exec_t" where
  "rvv_exec_narrow_shift_vv = exec_narrow_shift rhs_v"

definition rvv_exec_narrow_shift_vx :: "narrowop_t \<Rightarrow> exec_t" where
  "rvv_exec_narrow_shift_vx = exec_narrow_shift (\<lambda>ir rv sew elem u. Inr (X rv (rs1 ir)))"

definition rvv_exec_narrow_shift_vi :: "narrowop_t \<Rightarrow> exec_t" where
  "rvv_exec_narrow_shift_vi = exec_narrow_shift (\<lambda>ir rv sew elem u. Inr (imm ir))"

section \<open>Masks\<close>

text \<open>\<open>mode\<close> 0 is \<open>vmsbf\<close>, 1 \<open>vmsof\<close>, and every other one \<open>vmsif\<close>.\<close>

definition prefix_bit :: "u8 \<Rightarrow> bool \<Rightarrow> bool \<Rightarrow> bool" where
  "prefix_bit mode seen b = (if mode = 0 then \<not> seen \<and> \<not> b else if mode = 1 then b \<and> \<not> seen else \<not> seen)"

definition rvv_exec_mask_prefix :: "u8 \<Rightarrow> exec_t" where
  "rvv_exec_mask_prefix mode rv ir dest =
    on_vunit (\<lambda>u0.
      obind (ofold (\<lambda>elem (seen, u). obind (rvv_mask_enabled_for_elem u (vop ir) elem) (\<lambda>on.
               if \<not> on then obind (if vma u0 then rvv_mask_set_bit dest elem True u else Inr u) (\<lambda>u. Inr (seen, u))
               else obind (rvv_mask_get_bit u (ucast (vs2 (vop ir))) elem) (\<lambda>b.
                    obind (rvv_mask_set_bit dest elem (prefix_bit mode seen b) u) (\<lambda>u. Inr (seen \<or> b, u)))))
             (elems (csr_vstart u0) (csr_vl u0)) (False, u0))
        (\<lambda>(_, u). obind (mask_tail dest u) finish)) rv"

definition both_masks :: "rv_insn_t \<Rightarrow> vunit_t \<Rightarrow> u32 \<Rightarrow> bool outcome" where
  "both_masks ir u elem =
    obind (rvv_mask_enabled_for_elem u (vop ir) elem) (\<lambda>on.
      if on then rvv_mask_get_bit u (ucast (vs2 (vop ir))) elem else Inr False)"

definition rvv_exec_viota :: exec_t where
  "rvv_exec_viota rv ir dest =
    on_vunit (\<lambda>u0. let sew = sew_of u0 in
      obind (ofold (\<lambda>elem count. obind (both_masks ir u0 elem) (\<lambda>b. Inr (if b then count + 1 else count)))
               (elems 0 (csr_vstart u0)) (0 :: u32)) (\<lambda>count0.
      obind (ofold (\<lambda>elem (count, u). obind (rvv_mask_enabled_for_elem u (vop ir) elem) (\<lambda>on.
               if \<not> on then obind (if vma u0 then fill_elem dest sew elem u else Inr u) (\<lambda>u. Inr (count, u))
               else obind (rvv_set_elem dest elem sew (rvv_trunc_elem count sew) u) (\<lambda>u.
                    obind (rvv_mask_get_bit u (ucast (vs2 (vop ir))) elem) (\<lambda>b.
                      Inr (if b then count + 1 else count, u)))))
             (elems (csr_vstart u0) (csr_vl u0)) (count0, u0))
        (\<lambda>(_, u). obind (tail_loop (fill_elem dest sew) u) finish))) rv"

definition rvv_exec_vid :: exec_t where
  "rvv_exec_vid rv ir dest =
    on_vunit (data_loop (vop ir) dest (\<lambda>elem u. Inr (rvv_trunc_elem elem (sew_in rv), u))) rv"

definition logical_bit :: "u8 \<Rightarrow> bool \<Rightarrow> bool \<Rightarrow> bool" where
  "logical_bit f a b =
    (case switch f [(0, a \<and> \<not> b), (1, a \<and> b), (2, a \<or> b), (3, a \<noteq> b), (4, a \<or> \<not> b), (5, \<not> (a \<and> b)), (6, \<not> (a \<or> b))]
     of Some r \<Rightarrow> r | None \<Rightarrow> a = b)"

text \<open>Loops that read no mask: every element of the body is active.\<close>

definition unmasked :: "v_operands_t \<Rightarrow> v_operands_t" where
  "unmasked vo = vo\<lparr>vm := 1\<rparr>"

definition rvv_exec_mask_logical :: "u32 \<Rightarrow> u32 \<Rightarrow> u8 \<Rightarrow> exec_t" where
  "rvv_exec_mask_logical lhs rhs f rv ir dest =
    on_vunit (mask_loop (unmasked (vop ir)) dest (\<lambda>elem. pure_lane (\<lambda>u.
      obind (rvv_mask_get_bit u lhs elem) (\<lambda>a. obind (rvv_mask_get_bit u rhs elem) (\<lambda>b.
        Inr (logical_bit f a b)))))) rv"

definition exec_vmerge :: "rhs_t \<Rightarrow> exec_t" where
  "exec_vmerge rhs rv ir dest =
    on_vunit (data_loop (unmasked (vop ir)) dest (\<lambda>elem. pure_lane (\<lambda>u.
      obind (rvv_mask_get_bit u 0 elem) (\<lambda>b.
        if b then rhs ir rv (sew_in rv) elem u else src2 ir (sew_in rv) elem u)))) rv"

definition rvv_exec_vmerge_vv :: exec_t where "rvv_exec_vmerge_vv = exec_vmerge rhs_v"
definition rvv_exec_vmerge_vx :: exec_t where "rvv_exec_vmerge_vx = exec_vmerge rhs_x"
definition rvv_exec_vmerge_vi :: exec_t where "rvv_exec_vmerge_vi = exec_vmerge rhs_i"

section \<open>Carry and borrow\<close>

definition exec_carry ::
    "rhs_t \<Rightarrow> (u32 \<Rightarrow> u32 \<Rightarrow> u32 \<Rightarrow> u32 \<Rightarrow> u32) \<Rightarrow> (u32 \<Rightarrow> u32 \<Rightarrow> u32 \<Rightarrow> u32 \<Rightarrow> bool) \<Rightarrow> bool \<Rightarrow> exec_t" where
  "exec_carry rhs f carry write_carry rv ir dest =
    (let sew = sew_in rv;
         lane = (\<lambda>elem. pure_lane (\<lambda>u.
           obind (if vm (vop ir) \<noteq> 0 then Inr False else rvv_mask_get_bit u 0 elem) (\<lambda>c.
           obind (src2 ir sew elem u) (\<lambda>a. obind (rhs ir rv sew elem u) (\<lambda>b. Inr (a, b, flag c))))))
     in on_vunit (if write_carry
          then mask_loop (unmasked (vop ir)) dest (\<lambda>elem u.
                 obind (lane elem u) (\<lambda>((a, b, c), u). Inr (carry a b c sew, u)))
          else data_loop (unmasked (vop ir)) dest (\<lambda>elem u.
                 obind (lane elem u) (\<lambda>((a, b, c), u). Inr (f a b c sew, u)))) rv)"

definition whole_x :: rhs_t where
  "whole_x ir rv sew elem u = Inr (X rv (rs1 ir))"

definition whole_i :: rhs_t where
  "whole_i ir rv sew elem u = Inr (imm ir)"

definition rvv_exec_adc_vv :: "bool \<Rightarrow> exec_t" where
  "rvv_exec_adc_vv = exec_carry rhs_v rvv_op_adc rvv_op_adc_carry"

definition rvv_exec_adc_vx :: "bool \<Rightarrow> exec_t" where
  "rvv_exec_adc_vx = exec_carry whole_x rvv_op_adc rvv_op_adc_carry"

definition rvv_exec_adc_vi :: "bool \<Rightarrow> exec_t" where
  "rvv_exec_adc_vi = exec_carry whole_i rvv_op_adc rvv_op_adc_carry"

definition rvv_exec_sbc_vv :: "bool \<Rightarrow> exec_t" where
  "rvv_exec_sbc_vv = exec_carry rhs_v rvv_op_sbc rvv_op_sbc_borrow"

definition rvv_exec_sbc_vx :: "bool \<Rightarrow> exec_t" where
  "rvv_exec_sbc_vx = exec_carry whole_x rvv_op_sbc rvv_op_sbc_borrow"

section \<open>Reductions\<close>

text \<open>The tail of a reduction is the rest of one register.\<close>

definition reduction_tail :: "u32 \<Rightarrow> u32 \<Rightarrow> vunit_t \<Rightarrow> vunit_t outcome" where
  "reduction_tail dest sew u = (if vta u then ofold (fill_elem dest sew) (elems 1 (VLEN div sew)) u else Inr u)"

definition reduce :: "rv_insn_t \<Rightarrow> ('a \<Rightarrow> u32 \<Rightarrow> 'a) \<Rightarrow> vunit_t \<Rightarrow> 'a \<Rightarrow> 'a outcome" where
  "reduce ir f u acc0 =
    ofold (\<lambda>elem acc. obind (rvv_mask_enabled_for_elem u (vop ir) elem) (\<lambda>on.
        if on then obind (src2 ir (sew_of u) elem u) (\<lambda>a. Inr (f acc a)) else Inr acc))
      (elems 0 (csr_vl u)) acc0"

definition rvv_exec_reduction :: "binop_t \<Rightarrow> exec_t" where
  "rvv_exec_reduction f rv ir dest =
    on_vunit (\<lambda>u. let sew = sew_of u in
      if csr_vl u = 0 then Inr u
      else obind (src1 ir sew 0 u) (\<lambda>acc0.
           obind (reduce ir (\<lambda>acc a. f acc a sew) u acc0) (\<lambda>acc.
           obind (rvv_set_elem dest 0 sew acc u) (\<lambda>u.
           obind (reduction_tail dest sew u) finish)))) rv"

definition rvv_exec_widen_reduction :: "riscv_io_t \<Rightarrow> bool \<Rightarrow> exec_t" where
  "rvv_exec_widen_reduction io is_signed rv ir dest =
    (let sew = sew_in rv; wide = push_bit 1 sew
     in if csr_vl (vu rv) = 0 then Inr rv
        else if wide > 32 then rvv_trap_illegal_state io 0 rv
        else on_vunit (\<lambda>u.
           obind (src1 ir wide 0 u) (\<lambda>acc0.
           obind (reduce ir (\<lambda>acc a. acc + (if is_signed then strunc64 a sew else utrunc64 a sew)) u (ucast acc0)) (\<lambda>acc.
           obind (rvv_set_elem dest 0 wide (ucast acc) u) (\<lambda>u.
           obind (reduction_tail dest wide u) finish)))) rv)"

section \<open>Moves and permutations\<close>

definition rvv_exec_vmv_s_x :: "riscv_t \<Rightarrow> rv_insn_t \<Rightarrow> riscv_t outcome" where
  "rvv_exec_vmv_s_x rv ir =
    on_vunit (\<lambda>u. obind
      (if csr_vstart u = 0 \<and> csr_vl u > 0
       then rvv_set_elem (ucast (vd (vop ir))) 0 (sew_of u) (rvv_trunc_elem (X rv (rs1 ir)) (sew_of u)) u
       else Inr u) finish) rv"

definition rvv_exec_vmv_x_s :: "riscv_t \<Rightarrow> rv_insn_t \<Rightarrow> riscv_t outcome" where
  "rvv_exec_vmv_x_s rv ir =
    obind (src2 ir (sew_in rv) 0 (vu rv)) (\<lambda>v.
      on_vunit finish (set_X (rd ir) (rvv_signed_elem v (sew_in rv)) rv))"

text \<open>An element of \<open>vs2\<close>, or zero from \<open>VLMAX\<close> on.\<close>

definition gathered :: "rv_insn_t \<Rightarrow> u32 \<Rightarrow> vunit_t \<Rightarrow> u32 outcome" where
  "gathered ir index u = (if index \<ge> vlmax_of u then Inr 0 else src2 ir (sew_of u) index u)"

definition rvv_exec_vrgather_vv :: "u32 \<Rightarrow> exec_t" where
  "rvv_exec_vrgather_vv index_eew rv ir dest =
    on_vunit (data_loop (vop ir) dest (\<lambda>elem. pure_lane (\<lambda>u.
      obind (src1 ir index_eew elem u) (\<lambda>index. gathered ir index u)))) rv"

definition rvv_exec_vrgather_scalar :: "u32 \<Rightarrow> exec_t" where
  "rvv_exec_vrgather_scalar index rv ir dest =
    obind (gathered ir index (vu rv)) (\<lambda>v. on_vunit (data_loop (vop ir) dest (\<lambda>elem u. Inr (v, u))) rv)"

text \<open>The loop starts at the offset, raised to \<open>vstart\<close>; the tail starts at \<open>vl\<close>.\<close>

definition rvv_exec_vslideup :: "u32 \<Rightarrow> exec_t" where
  "rvv_exec_vslideup offset0 rv ir dest =
    on_vunit (\<lambda>u0. let sew = sew_of u0; offset = (if offset0 < csr_vstart u0 then csr_vstart u0 else offset0) in
      obind (body_loop (vop ir) (fill_elem dest sew) (\<lambda>elem u.
               obind (src2 ir sew (elem - offset) u) (\<lambda>v. rvv_set_elem dest elem sew v u)) (u0\<lparr>csr_vstart := offset\<rparr>))
        (\<lambda>u. obind (tail_loop (fill_elem dest sew) u) finish)) rv"

definition rvv_exec_vslidedown :: "u32 \<Rightarrow> exec_t" where
  "rvv_exec_vslidedown offset rv ir dest =
    on_vunit (data_loop (vop ir) dest (\<lambda>elem. pure_lane (gathered ir (elem + offset)))) rv"

definition rvv_exec_vslide1up :: exec_t where
  "rvv_exec_vslide1up rv ir dest =
    on_vunit (data_loop (vop ir) dest (\<lambda>elem. pure_lane (\<lambda>u.
      if elem = 0 then Inr (rvv_trunc_elem (X rv (rs1 ir)) (sew_in rv))
      else src2 ir (sew_in rv) (elem - 1) u))) rv"

definition rvv_exec_vslide1down :: exec_t where
  "rvv_exec_vslide1down rv ir dest =
    on_vunit (data_loop (vop ir) dest (\<lambda>elem. pure_lane (\<lambda>u.
      if elem + 1 < csr_vl u then src2 ir (sew_in rv) (elem + 1) u
      else Inr (rvv_trunc_elem (X rv (rs1 ir)) (sew_in rv))))) rv"

definition rvv_exec_vcompress :: exec_t where
  "rvv_exec_vcompress rv ir dest =
    on_vunit (\<lambda>u0. let sew = sew_of u0 in
      obind (ofold (\<lambda>elem (out_idx, u). obind (rvv_mask_get_bit u (ucast (vs1 (vop ir))) elem) (\<lambda>b.
               if \<not> b then Inr (out_idx, u)
               else obind (src2 ir sew elem u) (\<lambda>v.
                    obind (rvv_set_elem dest out_idx sew v u) (\<lambda>u. Inr (out_idx + 1, u)))))
             (elems 0 (csr_vl u0)) (0, u0))
        (\<lambda>(out_idx, u).
           obind (if vta u then ofold (fill_elem dest sew) (elems out_idx (vlmax_of u)) u else Inr u) finish)) rv"

end
