(* ===== verification/VecMem.thy ===== *)
theory VecMem imports VecExec begin

text \<open>
  The vector loads and stores of \<open>src/src/rv32_v_template.c\<close>. Each access goes through the memory
  callbacks, which may run the guest's trap handler: the loops read \<open>csr_vl\<close> again before every element
  and stop where an access leaves the hart trapped.
\<close>

section \<open>Loops that access memory\<close>

lemma obind_cong [fundef_cong]:
  "\<lbrakk>m = m'; \<And>x. m' = Inr x \<Longrightarrow> f x = f' x\<rbrakk> \<Longrightarrow> obind m f = obind m' f'"
  by (auto simp: obind_def split: sum.splits)

lemma next_elem: "e < b \<Longrightarrow> unat (e + 1) = Suc (unat e)" for e b :: u32
proof -
  assume "e < b"
  then have "unat e + 1 < 2 ^ 32"
    using unsigned_less [of b, where ?'a = nat] by (simp add: word_less_nat_alt)
  then show ?thesis
    by (simp add: unat_word_ariths)
qed

lemma next_elem_nearer: "e < b \<Longrightarrow> 4294967296 - unat (e + 1) < 4294967296 - unat e" for e b :: u32
  using next_elem [of e b] unsigned_less [of e, where ?'a = nat] by simp

text \<open>\<open>for (elem = \<dots>; elem < rv->csr_vl; elem++)\<close> with a local variable; the body leaves the loop with
  \<open>Inl\<close>.\<close>

function vl_loop ::
    "(u32 \<Rightarrow> 'l \<Rightarrow> riscv_t \<Rightarrow> (('r + 'l) \<times> riscv_t) outcome) \<Rightarrow> u32 \<Rightarrow> 'l \<Rightarrow> riscv_t \<Rightarrow> (('r + 'l) \<times> riscv_t) outcome" where
  "vl_loop body elem l rv =
    (if elem < csr_vl (vu rv) then
       obind (body elem l rv) (\<lambda>(r, rv'). case r of Inl _ \<Rightarrow> Inr (r, rv') | Inr l' \<Rightarrow> vl_loop body (elem + 1) l' rv')
     else Inr (Inr l, rv))"
  by pat_completeness auto

termination
  by (relation "measure (\<lambda>(_, elem, _, _). 4294967296 - unat elem)") (auto intro: next_elem_nearer)

declare vl_loop.simps [simp del]

section \<open>Elements in memory\<close>

text \<open>\<open>None\<close> and \<open>False\<close> are C's \<open>return false\<close>.\<close>

definition rvv_read_mem_elem_ext ::
    "riscv_io_t \<Rightarrow> riscv_t \<Rightarrow> u32 \<Rightarrow> u32 \<Rightarrow> (u64 option \<times> riscv_t) outcome" where
  "rvv_read_mem_elem_ext io rv addr w =
    (let checked = (\<lambda>(rv, v). Inr (if is_trapped rv then None else Some v, rv))
     in if w = 8 then obind (mem_read_b io rv addr) (\<lambda>(rv, v). checked (rv, ucast v))
        else if w = 16 then obind (mem_read_s io rv addr) (\<lambda>(rv, v). checked (rv, ucast v))
        else if w = 32 then obind (mem_read_w io rv addr) (\<lambda>(rv, v). checked (rv, ucast v))
        else obind (mem_read_w io rv addr) (\<lambda>(rv, lo).
             if is_trapped rv then Inr (None, rv)
             else obind (mem_read_w io rv (addr + 4)) (\<lambda>(rv, hi).
                  checked (rv, ucast lo OR push_bit 32 (ucast hi)))))"

definition rvv_write_mem_elem_ext ::
    "riscv_io_t \<Rightarrow> riscv_t \<Rightarrow> u32 \<Rightarrow> u32 \<Rightarrow> u64 \<Rightarrow> (bool \<times> riscv_t) outcome" where
  "rvv_write_mem_elem_ext io rv addr w v =
    (let checked = (\<lambda>rv. Inr (\<not> is_trapped rv, rv))
     in if w = 8 then obind (mem_write_b io rv addr (ucast v)) checked
        else if w = 16 then obind (mem_write_s io rv addr (ucast v)) checked
        else if w = 32 then obind (mem_write_w io rv addr (ucast v)) checked
        else obind (mem_write_w io rv addr (ucast v)) (\<lambda>rv.
             if is_trapped rv then Inr (False, rv)
             else obind (mem_write_w io rv (addr + 4) (ucast (drop_bit 32 v))) checked))"

definition put_elem_ext :: "u32 \<Rightarrow> u32 \<Rightarrow> u32 \<Rightarrow> u64 \<Rightarrow> riscv_t \<Rightarrow> riscv_t outcome" where
  "put_elem_ext reg elem w v = on_vunit (rvv_set_elem_ext reg elem w v)"

definition set_vstart :: "u32 \<Rightarrow> riscv_t \<Rightarrow> riscv_t" where
  "set_vstart n = set_vu (\<lambda>u. u\<lparr>csr_vstart := n\<rparr>)"

section \<open>Loops of single elements\<close>

text \<open>What the loads share: element \<open>elem\<close> of width \<open>w\<close> comes from \<open>place elem rv\<close>; a fault leaves \<open>vstart\<close>
  at the element, and the end fills the tail.\<close>

type_synonym place_t = "u32 \<Rightarrow> riscv_t \<Rightarrow> u32 outcome"

definition load_elem :: "riscv_io_t \<Rightarrow> rv_insn_t \<Rightarrow> u32 \<Rightarrow> u32 \<Rightarrow> place_t \<Rightarrow> u32 \<Rightarrow> unit \<Rightarrow> riscv_t \<Rightarrow>
    ((unit + unit) \<times> riscv_t) outcome" where
  "load_elem io ir dest w place elem l rv =
    obind (rvv_mask_enabled_for_elem (vu rv) (vop ir) elem) (\<lambda>on.
      if \<not> on then Inr (Inr (), rv)
      else obind (place elem rv) (\<lambda>addr. obind (rvv_read_mem_elem_ext io rv addr w) (\<lambda>(r, rv).
           case r of None \<Rightarrow> Inr (Inl (), set_vstart elem rv)
           | Some v \<Rightarrow> obind (put_elem_ext dest elem w v rv) (\<lambda>rv. Inr (Inr (), rv)))))"

definition ext_tail :: "u32 \<Rightarrow> u32 \<Rightarrow> u32 \<Rightarrow> u32 \<Rightarrow> riscv_t \<Rightarrow> riscv_t outcome" where
  "ext_tail dest w start vlmax =
    on_vunit (\<lambda>u. if vta u
      then ofold (\<lambda>elem. rvv_set_elem_ext dest elem w (rvv_data_fill_ext w)) (elems start vlmax) u
      else Inr u)"

definition load_loop :: "riscv_io_t \<Rightarrow> rv_insn_t \<Rightarrow> u32 \<Rightarrow> u32 \<Rightarrow> place_t \<Rightarrow> riscv_t \<Rightarrow> riscv_t outcome" where
  "load_loop io ir dest w place rv0 =
    obind (vl_loop (load_elem io ir dest w place) (csr_vstart (vu rv0)) () rv0) (\<lambda>(r, rv).
      case r of Inl _ \<Rightarrow> Inr rv
      | Inr _ \<Rightarrow> obind (ext_tail dest w (csr_vl (vu rv)) (vlmax_of (vu rv0)) rv) (\<lambda>rv. Inr (set_vstart 0 rv)))"

definition store_elem :: "riscv_io_t \<Rightarrow> rv_insn_t \<Rightarrow> u32 \<Rightarrow> u32 \<Rightarrow> place_t \<Rightarrow> u32 \<Rightarrow> unit \<Rightarrow> riscv_t \<Rightarrow>
    ((unit + unit) \<times> riscv_t) outcome" where
  "store_elem io ir src w place elem l rv =
    obind (rvv_mask_enabled_for_elem (vu rv) (vop ir) elem) (\<lambda>on.
      if \<not> on then Inr (Inr (), rv)
      else obind (place elem rv) (\<lambda>addr. obind (rvv_get_elem_ext (vu rv) src elem w) (\<lambda>v.
           obind (rvv_write_mem_elem_ext io rv addr w v) (\<lambda>(ok, rv).
             if ok then Inr (Inr (), rv) else Inr (Inl (), set_vstart elem rv)))))"

definition store_loop :: "riscv_io_t \<Rightarrow> rv_insn_t \<Rightarrow> u32 \<Rightarrow> u32 \<Rightarrow> place_t \<Rightarrow> riscv_t \<Rightarrow> riscv_t outcome" where
  "store_loop io ir src w place rv0 =
    obind (vl_loop (store_elem io ir src w place) (csr_vstart (vu rv0)) () rv0) (\<lambda>(r, rv).
      case r of Inl _ \<Rightarrow> Inr rv | Inr _ \<Rightarrow> Inr (set_vstart 0 rv))"

definition eew_of :: "rv_insn_t \<Rightarrow> u32" where
  "eew_of ir = ucast (eew (vop ir))"

definition unit_place :: "rv_insn_t \<Rightarrow> u32 \<Rightarrow> place_t" where
  "unit_place ir addr elem rv = Inr (addr + elem * (eew_of ir div 8))"

definition rvv_elem_addr_stride :: "u32 \<Rightarrow> u32 \<Rightarrow> u32 \<Rightarrow> u32" where
  "rvv_elem_addr_stride base stride elem = base + ucast (scast stride * ucast elem :: u64)"

definition strided_place :: "u32 \<Rightarrow> u32 \<Rightarrow> place_t" where
  "strided_place addr stride elem rv = Inr (rvv_elem_addr_stride addr stride elem)"

definition rvv_index_offset :: "riscv_t \<Rightarrow> u32 \<Rightarrow> u32 \<Rightarrow> u32 \<Rightarrow> u32 outcome" where
  "rvv_index_offset rv reg elem index_eew = obind (rvv_get_elem_ext (vu rv) reg elem index_eew) (\<lambda>v. Inr (ucast v))"

definition indexed_place :: "rv_insn_t \<Rightarrow> u32 \<Rightarrow> place_t" where
  "indexed_place ir base elem rv =
    obind (rvv_index_offset rv (ucast (vs2 (vop ir))) elem (eew_of ir)) (\<lambda>off. Inr (base + off))"

type_synonym vmem_t = "riscv_io_t \<Rightarrow> rv_insn_t \<Rightarrow> u32 \<Rightarrow> u32 \<Rightarrow> riscv_t \<Rightarrow> riscv_t outcome"

definition rvv_unit_stride_load :: vmem_t where
  "rvv_unit_stride_load io ir dest addr = load_loop io ir dest (eew_of ir) (unit_place ir addr)"

definition rvv_unit_stride_store :: vmem_t where
  "rvv_unit_stride_store io ir src addr = store_loop io ir src (eew_of ir) (unit_place ir addr)"

definition rvv_strided_load :: vmem_t where
  "rvv_strided_load io ir dest addr rv =
    load_loop io ir dest (eew_of ir) (strided_place addr (X rv (rs2 ir))) rv"

definition rvv_strided_store :: vmem_t where
  "rvv_strided_store io ir src addr rv =
    store_loop io ir src (eew_of ir) (strided_place addr (X rv (rs2 ir))) rv"

definition rvv_indexed_load :: vmem_t where
  "rvv_indexed_load io ir dest base rv = load_loop io ir dest (sew_in rv) (indexed_place ir base) rv"

definition rvv_indexed_store :: vmem_t where
  "rvv_indexed_store io ir src base rv = store_loop io ir src (sew_in rv) (indexed_place ir base) rv"

text \<open>The first fault passes on when no element was loaded before it; a later one is dropped and cuts
  \<open>vl\<close>. The local variable is \<open>seen_active\<close>, and the two ways out of the loop are \<open>return false\<close> and
  \<open>break\<close>.\<close>

definition rvv_unit_stride_load_ff :: "riscv_io_t \<Rightarrow> rv_insn_t \<Rightarrow> u32 \<Rightarrow> u32 \<Rightarrow> riscv_t \<Rightarrow> (bool \<times> riscv_t) outcome" where
  "rvv_unit_stride_load_ff io ir dest addr rv0 =
    (let w = eew_of ir;
         body = (\<lambda>elem seen rv. obind (rvv_mask_enabled_for_elem (vu rv) (vop ir) elem) (\<lambda>on.
           if \<not> on then Inr (Inr seen, rv)
           else obind (rvv_read_mem_elem_ext io rv (addr + elem * (w div 8)) w) (\<lambda>(r, rv).
             case r of
               None \<Rightarrow> if \<not> seen then Inr (Inl None, rv)
                 else Inr (Inl (Some elem), set_vu (\<lambda>u. u\<lparr>csr_vl := elem\<rparr>) (rv\<lparr>is_trapped := False\<rparr>))
             | Some v \<Rightarrow> obind (put_elem_ext dest elem w v rv) (\<lambda>rv. Inr (Inr True, rv)))));
         finish_ff = (\<lambda>loaded_vl rv.
           obind (ext_tail dest w loaded_vl (vlmax_of (vu rv0)) rv) (\<lambda>rv. Inr (True, set_vstart 0 rv)))
     in obind (vl_loop body (csr_vstart (vu rv0)) False rv0) (\<lambda>(r, rv).
          case r of
            Inl None \<Rightarrow> Inr (False, rv)
          | Inl (Some elem) \<Rightarrow> finish_ff elem rv
          | Inr _ \<Rightarrow> finish_ff (csr_vl (vu rv0)) rv))"

section \<open>Whole registers and masks\<close>

text \<open>The register file is one array: byte \<open>i\<close> from register \<open>reg\<close> on may lie in a later register.\<close>

definition file_byte :: "u32 \<Rightarrow> u32 \<Rightarrow> u32 \<times> u32" where
  "file_byte reg i = (reg + i div 16, i mod 16)"

definition load_bytes :: "riscv_io_t \<Rightarrow> u32 \<Rightarrow> u32 \<Rightarrow> u32 \<Rightarrow> riscv_t \<Rightarrow> riscv_t outcome" where
  "load_bytes io dest n addr =
    ofold (\<lambda>i rv. obind (mem_read_b io rv (addr + i)) (\<lambda>(rv, b).
        case file_byte dest i of (r, off) \<Rightarrow> on_vunit (rvv_set_reg_byte r off b) rv))
      (elems 0 n)"

definition store_bytes :: "riscv_io_t \<Rightarrow> u32 \<Rightarrow> u32 \<Rightarrow> u32 \<Rightarrow> riscv_t \<Rightarrow> riscv_t outcome" where
  "store_bytes io src n addr =
    ofold (\<lambda>i rv. case file_byte src i of (r, off) \<Rightarrow>
        obind (rvv_reg_byte (vu rv) r off) (\<lambda>b. mem_write_b io rv (addr + i) b))
      (elems 0 n)"

definition rvv_whole_reg_bytes :: "vunit_t \<Rightarrow> u32 \<Rightarrow> u32" where
  "rvv_whole_reg_bytes u nregs = nregs * csr_vlenb u"

definition rvv_zero_reg_bytes :: "u32 \<Rightarrow> u32 \<Rightarrow> vunit_t \<Rightarrow> vunit_t outcome" where
  "rvv_zero_reg_bytes reg nregs u =
    ofold (\<lambda>i. case file_byte reg i of (r, off) \<Rightarrow> rvv_set_reg_byte r off 0) (elems 0 (rvv_whole_reg_bytes u nregs)) u"

definition rvv_whole_reg_load :: "riscv_io_t \<Rightarrow> u32 \<Rightarrow> u32 \<Rightarrow> u32 \<Rightarrow> riscv_t \<Rightarrow> riscv_t outcome" where
  "rvv_whole_reg_load io dest nregs addr rv = load_bytes io dest (rvv_whole_reg_bytes (vu rv) nregs) addr rv"

definition rvv_whole_reg_store :: "riscv_io_t \<Rightarrow> u32 \<Rightarrow> u32 \<Rightarrow> u32 \<Rightarrow> riscv_t \<Rightarrow> riscv_t outcome" where
  "rvv_whole_reg_store io src nregs addr rv = store_bytes io src (rvv_whole_reg_bytes (vu rv) nregs) addr rv"

definition rvv_mask_mem_bytes :: "u32 \<Rightarrow> u32" where
  "rvv_mask_mem_bytes vl = drop_bit 3 (vl + 7)"

definition rvv_mask_load :: "riscv_io_t \<Rightarrow> u32 \<Rightarrow> u32 \<Rightarrow> riscv_t \<Rightarrow> riscv_t outcome" where
  "rvv_mask_load io dest addr rv0 =
    obind (on_vunit (rvv_zero_reg_bytes dest 1) rv0) (\<lambda>rv.
    obind (load_bytes io dest (rvv_mask_mem_bytes (csr_vl (vu rv0))) addr rv) (\<lambda>rv.
    obind (on_vunit (rvv_mask_fill_tail dest (csr_vl (vu rv)) VLEN) rv) (\<lambda>rv. Inr (set_vstart 0 rv))))"

definition rvv_mask_store :: "riscv_io_t \<Rightarrow> u32 \<Rightarrow> u32 \<Rightarrow> riscv_t \<Rightarrow> riscv_t outcome" where
  "rvv_mask_store io src addr rv =
    obind (store_bytes io src (rvv_mask_mem_bytes (csr_vl (vu rv))) addr rv) (\<lambda>rv. Inr (set_vstart 0 rv))"

section \<open>Segments\<close>

text \<open>The fields of a segment are read into \<open>staged\<close> first, in order; a fault leaves the rest unread.\<close>

fun read_fields :: "riscv_io_t \<Rightarrow> u32 \<Rightarrow> u32 \<Rightarrow> u32 list \<Rightarrow> riscv_t \<Rightarrow> (u64 list option \<times> riscv_t) outcome" where
  "read_fields io addr w [] rv = Inr (Some [], rv)"
| "read_fields io addr w (field # fs) rv =
    obind (rvv_read_mem_elem_ext io rv (addr + field * drop_bit 3 w) w) (\<lambda>(r, rv).
      case r of None \<Rightarrow> Inr (None, rv)
      | Some v \<Rightarrow> obind (read_fields io addr w fs rv) (\<lambda>(r, rv). Inr (map_option (Cons v) r, rv)))"

fun write_fields :: "riscv_io_t \<Rightarrow> u32 \<Rightarrow> u32 \<Rightarrow> u32 \<Rightarrow> u32 \<Rightarrow> u32 \<Rightarrow> u32 list \<Rightarrow> riscv_t \<Rightarrow> (bool \<times> riscv_t) outcome" where
  "write_fields io addr src span w elem [] rv = Inr (True, rv)"
| "write_fields io addr src span w elem (field # fs) rv =
    obind (rvv_get_elem_ext (vu rv) (src + field * span) elem w) (\<lambda>v.
    obind (rvv_write_mem_elem_ext io rv (addr + field * drop_bit 3 w) w v) (\<lambda>(ok, rv).
      if ok then write_fields io addr src span w elem fs rv else Inr (False, rv)))"

definition put_fields :: "u32 \<Rightarrow> u32 \<Rightarrow> u32 \<Rightarrow> u32 \<Rightarrow> u32 list \<Rightarrow> u64 list \<Rightarrow> riscv_t \<Rightarrow> riscv_t outcome" where
  "put_fields dest span w elem fs staged =
    on_vunit (ofold (\<lambda>(field, v). rvv_set_elem_ext (dest + field * span) elem w v) (zip fs staged))"

definition segment_tail :: "u32 \<Rightarrow> u32 \<Rightarrow> u32 \<Rightarrow> u32 \<Rightarrow> u32 \<Rightarrow> u32 \<Rightarrow> riscv_t \<Rightarrow> riscv_t outcome" where
  "segment_tail dest span w nf start vlmax =
    ofold (\<lambda>field. ext_tail (dest + field * span) w start vlmax) (elems 0 nf)"

text \<open>\<open>place\<close> is the address of the segment of an element, \<open>ff\<close> whether only the first fault passes on.
  The local variable is \<open>seen_active\<close>; the loop is left with \<open>None\<close> for \<open>return false\<close> and with the new
  \<open>vl\<close> for \<open>goto done\<close>. The tail starts at \<open>vl\<close>, as it was on entry for the unit-stride loads.\<close>

definition segment_load :: "riscv_io_t \<Rightarrow> rv_insn_t \<Rightarrow> u32 \<Rightarrow> u32 \<Rightarrow> u32 \<Rightarrow> u32 \<Rightarrow> place_t \<Rightarrow> bool \<Rightarrow> bool \<Rightarrow> riscv_t \<Rightarrow>
    (bool \<times> riscv_t) outcome" where
  "segment_load io ir dest span w nf place entry_vl ff rv0 =
    (let body = (\<lambda>elem seen rv. obind (rvv_mask_enabled_for_elem (vu rv) (vop ir) elem) (\<lambda>on.
           if \<not> on then Inr (Inr seen, rv)
           else obind (place elem rv) (\<lambda>addr. obind (read_fields io addr w (elems 0 nf) rv) (\<lambda>(r, rv).
             case r of
               None \<Rightarrow> if ff \<and> seen
                 then Inr (Inl (Some elem), set_vu (\<lambda>u. u\<lparr>csr_vl := elem\<rparr>) (rv\<lparr>is_trapped := False\<rparr>))
                 else Inr (Inl None, set_vstart elem rv)
             | Some staged \<Rightarrow>
                 obind (put_fields dest span w elem (elems 0 nf) staged rv) (\<lambda>rv. Inr (Inr True, rv))))));
         finish_seg = (\<lambda>loaded_vl rv.
           obind (segment_tail dest span w nf loaded_vl (vlmax_of (vu rv0)) rv) (\<lambda>rv. Inr (True, set_vstart 0 rv)))
     in obind (vl_loop body (csr_vstart (vu rv0)) False rv0) (\<lambda>(r, rv).
          case r of
            Inl None \<Rightarrow> Inr (False, rv)
          | Inl (Some elem) \<Rightarrow> finish_seg elem rv
          | Inr _ \<Rightarrow> finish_seg (if entry_vl then csr_vl (vu rv0) else csr_vl (vu rv)) rv))"

definition segment_store :: "riscv_io_t \<Rightarrow> rv_insn_t \<Rightarrow> u32 \<Rightarrow> u32 \<Rightarrow> u32 \<Rightarrow> u32 \<Rightarrow> place_t \<Rightarrow> riscv_t \<Rightarrow>
    (bool \<times> riscv_t) outcome" where
  "segment_store io ir src span w nf place rv0 =
    (let body = (\<lambda>elem l rv. obind (rvv_mask_enabled_for_elem (vu rv) (vop ir) elem) (\<lambda>on.
           if \<not> on then Inr (Inr (), rv)
           else obind (place elem rv) (\<lambda>addr.
                obind (write_fields io addr src span w elem (elems 0 nf) rv) (\<lambda>(ok, rv).
                  if ok then Inr (Inr (), rv) else Inr (Inl (), set_vstart elem rv)))))
     in obind (vl_loop body (csr_vstart (vu rv0)) () rv0) (\<lambda>(r, rv).
          case r of Inl _ \<Rightarrow> Inr (False, rv) | Inr _ \<Rightarrow> Inr (True, set_vstart 0 rv)))"

definition illegal_seg :: "riscv_io_t \<Rightarrow> riscv_t \<Rightarrow> (bool \<times> riscv_t) outcome" where
  "illegal_seg io rv = obind (rvv_trap_illegal_state io 0 rv) (\<lambda>rv. Inr (False, rv))"

type_synonym vseg_t = "riscv_io_t \<Rightarrow> rv_insn_t \<Rightarrow> u32 \<Rightarrow> u32 \<Rightarrow> riscv_t \<Rightarrow> (bool \<times> riscv_t) outcome"

text \<open>The base register is read for every segment, the stride once.\<close>

definition unit_segment_place :: "rv_insn_t \<Rightarrow> u32 \<Rightarrow> place_t" where
  "unit_segment_place ir nf elem rv = Inr (X rv (rs1 ir) + elem * (nf * drop_bit 3 (eew_of ir)))"

definition strided_segment_place :: "rv_insn_t \<Rightarrow> u32 \<Rightarrow> place_t" where
  "strided_segment_place ir stride elem rv = Inr (rvv_elem_addr_stride (X rv (rs1 ir)) stride elem)"

definition indexed_segment_place :: "rv_insn_t \<Rightarrow> place_t" where
  "indexed_segment_place ir elem rv = indexed_place ir (X rv (rs1 ir)) elem rv"

definition rvv_segment_unit_stride_load :: "bool \<Rightarrow> vseg_t" where
  "rvv_segment_unit_stride_load ff io ir dest nf rv =
    (case rvv_eew_reg_span (vu rv) (eew_of ir) of None \<Rightarrow> illegal_seg io rv
     | Some span \<Rightarrow> segment_load io ir dest span (eew_of ir) nf (unit_segment_place ir nf) True ff rv)"

definition rvv_segment_unit_stride_store :: vseg_t where
  "rvv_segment_unit_stride_store io ir src nf rv =
    (case rvv_eew_reg_span (vu rv) (eew_of ir) of None \<Rightarrow> illegal_seg io rv
     | Some span \<Rightarrow> segment_store io ir src span (eew_of ir) nf (unit_segment_place ir nf) rv)"

definition rvv_segment_strided_load :: vseg_t where
  "rvv_segment_strided_load io ir dest nf rv =
    (case rvv_eew_reg_span (vu rv) (eew_of ir) of None \<Rightarrow> illegal_seg io rv
     | Some span \<Rightarrow> segment_load io ir dest span (eew_of ir) nf (strided_segment_place ir (X rv (rs2 ir))) False False rv)"

definition rvv_segment_strided_store :: vseg_t where
  "rvv_segment_strided_store io ir src nf rv =
    (case rvv_eew_reg_span (vu rv) (eew_of ir) of None \<Rightarrow> illegal_seg io rv
     | Some span \<Rightarrow> segment_store io ir src span (eew_of ir) nf (strided_segment_place ir (X rv (rs2 ir))) rv)"

definition rvv_segment_indexed_load :: vseg_t where
  "rvv_segment_indexed_load io ir dest nf rv =
    segment_load io ir dest (rvv_group_regs (csr_vtype (vu rv))) (sew_in rv) nf (indexed_segment_place ir) False False rv"

definition rvv_segment_indexed_store :: vseg_t where
  "rvv_segment_indexed_store io ir src nf rv =
    segment_store io ir src (rvv_group_regs (csr_vtype (vu rv))) (sew_in rv) nf (indexed_segment_place ir) rv"

end
