(* ===== verification/VecDispatch.thy ===== *)
theory VecDispatch imports VecExec begin

text \<open>
  \<open>VECTOR_DISPATCH\<close> of \<open>src/src/rv32_v_template.c\<close>: the add, subtract, logic, multiply, shift-left and move
  instructions work on whole 32-bit words of the register file, several lanes at a time, with their
  own handling of the mask, of the partly filled last word and of the tail. A word outside the register
  file, or of the mask beyond register 0, is an undefined access; the source asserts some of the bounds.
  The 8-bit counters never wrap: an assertion or a bound stops the loop before.
\<close>

section \<open>Words and lanes\<close>

definition V_read :: "vunit_t \<Rightarrow> nat \<Rightarrow> nat \<Rightarrow> u32 outcome" where
  "V_read u r i = (if r < 32 \<and> i < 4 then Inr (vregs u (of_nat r) (of_nat i)) else Inl Undefined_access)"

definition V_write :: "nat \<Rightarrow> nat \<Rightarrow> u32 \<Rightarrow> vunit_t \<Rightarrow> vunit_t outcome" where
  "V_write r i w u = (if r < 32 \<and> i < 4 then Inr (set_word (of_nat r) (of_nat i) w u) else Inl Undefined_access)"

text \<open>The second operand of the three operand types; \<open>op2_lane\<close> is its lane \<open>k\<close>.\<close>

datatype op2_t = VV u8 | VX u32 | VI u32

fun op2_word :: "op2_t \<Rightarrow> vunit_t \<Rightarrow> nat \<Rightarrow> nat \<Rightarrow> u32 outcome" where
  "op2_word (VV r) u j i = V_read u (unat r + j) i"
| "op2_word (VX w) u j i = Inr w"
| "op2_word (VI w) u j i = Inr w"

fun op2_lane :: "op2_t \<Rightarrow> u32 \<Rightarrow> nat \<Rightarrow> u32" where
  "op2_lane (VV r) w s = drop_bit s w"
| "op2_lane (VX _) w s = w"
| "op2_lane (VI _) w s = w"

text \<open>A lane layout: \<open>SHIFT\<close>, \<open>MASK\<close> and the number \<open>itr\<close> of lanes of a word.\<close>

record layout_t =
  SHIFT :: nat
  MASK :: u32
  itr :: nat

definition lanes8 :: layout_t where "lanes8 = \<lparr>SHIFT = 3, MASK = 0xFF, itr = 4\<rparr>"
definition lanes16 :: layout_t where "lanes16 = \<lparr>SHIFT = 4, MASK = 0xFFFF, itr = 2\<rparr>"
definition lanes32 :: layout_t where "lanes32 = \<lparr>SHIFT = 0, MASK = 0xFFFFFFFF, itr = 1\<rparr>"

definition lane_pos :: "layout_t \<Rightarrow> nat \<Rightarrow> nat" where
  "lane_pos d k = push_bit (SHIFT d) k"

text \<open>\<open>fill\<close> of every layout is its mask; \<open>mw\<close> holds the mask bits of the word's lanes.\<close>

definition V_LANE_VALUE :: "layout_t \<Rightarrow> v_operands_t \<Rightarrow> bool \<Rightarrow> u32 \<Rightarrow> u32 \<Rightarrow> u32 \<Rightarrow> nat \<Rightarrow> u32" where
  "V_LANE_VALUE d vo agnostic mw tmp_d v k =
    (if vm vo \<noteq> 0 \<or> mw AND push_bit k 1 \<noteq> 0 then push_bit (lane_pos d k) (v AND MASK d)
     else if agnostic then push_bit (lane_pos d k) (MASK d)
     else tmp_d AND push_bit (lane_pos d k) (MASK d))"

section \<open>Words\<close>

type_synonym laneop_t = "u32 \<Rightarrow> u32 \<Rightarrow> u32"

definition loop_word :: "layout_t \<Rightarrow> v_operands_t \<Rightarrow> laneop_t \<Rightarrow> nat \<Rightarrow> nat \<Rightarrow> op2_t \<Rightarrow> nat \<Rightarrow> nat \<Rightarrow> u32 \<Rightarrow> vunit_t \<Rightarrow> vunit_t outcome" where
  "loop_word d vo f des a b i j mw u =
    obind (V_read u (a + j) i) (\<lambda>tmp_1.
    obind (op2_word b u j i) (\<lambda>tmp_2.
    obind (V_read u (des + j) i) (\<lambda>tmp_d.
      let lane = (\<lambda>k. V_LANE_VALUE d vo (vma u) mw tmp_d
            (f (drop_bit (lane_pos d k) tmp_1) (op2_lane b tmp_2 (lane_pos d k))) k)
      in V_write (des + j) i (fold (\<lambda>k out. out OR lane k) [0..<itr d] 0) u)))"

definition loop_left :: "layout_t \<Rightarrow> v_operands_t \<Rightarrow> laneop_t \<Rightarrow> nat \<Rightarrow> nat \<Rightarrow> op2_t \<Rightarrow> nat \<Rightarrow> nat \<Rightarrow> u32 \<Rightarrow> vunit_t \<Rightarrow> vunit_t outcome" where
  "loop_left d vo f des a b i j mw u =
    obind (V_read u (a + j) i) (\<lambda>tmp_1.
    obind (op2_word b u j i) (\<lambda>tmp_2.
    obind (V_read u (des + j) i) (\<lambda>tmp_d.
      let body_count = unat (csr_vl u) mod itr d;
          body_mask = push_bit (lane_pos d body_count) 1 - 1;
          lane = (\<lambda>k. V_LANE_VALUE d vo (vma u) mw tmp_d
            (f (drop_bit (lane_pos d k) tmp_1) (op2_lane b tmp_2 (lane_pos d k))) k)
      in obind (if body_count > 0 \<and> vta u then V_write (des + j) i ((tmp_d AND body_mask) OR NOT body_mask) u
                else Inr u)
           (ofold (\<lambda>k u. if \<not> des + j < 32 then Inl Assert_failed
                else obind (V_read u (des + j) i) (\<lambda>w.
                     V_write (des + j) i ((w AND NOT (push_bit (lane_pos d k) (MASK d))) OR lane k) u))
              [0..<body_count]))))"

section \<open>The tail\<close>

definition V_FILL_LMUL_TAIL :: "nat \<Rightarrow> nat \<Rightarrow> nat \<Rightarrow> nat \<Rightarrow> vunit_t \<Rightarrow> vunit_t outcome" where
  "V_FILL_LMUL_TAIL des num_regs i j u =
    obind (ofold (\<lambda>i u. if \<not> des + j < 32 then Inl Assert_failed else V_write (des + j) i 0xFFFFFFFF u) [i..<4] u)
      (ofold (\<lambda>j. ofold (\<lambda>w. V_write (des + j) w 0xFFFFFFFF) [0..<4]) [Suc j..<num_regs])"

section \<open>The loop over full words\<close>

text \<open>\<open>t\<close> counts the words, \<open>__k\<close> of the source is \<open>(t + 1) * itr\<close> after the step; \<open>mw\<close> is its \<open>vm\<close>.\<close>

definition full_step :: "layout_t \<Rightarrow> v_operands_t \<Rightarrow> laneop_t \<Rightarrow> nat \<Rightarrow> nat \<Rightarrow> op2_t \<Rightarrow> nat \<Rightarrow>
    nat \<times> nat \<times> nat \<times> u32 \<times> vunit_t \<Rightarrow> (nat \<times> nat \<times> nat \<times> u32 \<times> vunit_t) outcome" where
  "full_step d vo f des a b t = (\<lambda>(i0, j, m, mw, u).
    let i = i0 mod 4; k = (t + 1) * itr d
    in if \<not> des + j < 32 then Inl Assert_failed
       else obind (loop_word d vo f des a b i j mw u) (\<lambda>u.
         let (i, j) = (if k mod (4 * itr d) = 0 then (0, j + 1) else (i + 1, j))
         in if k mod 32 = 0 then obind (V_read u 0 (m + 1)) (\<lambda>mw. Inr (i, j, m + 1, mw, u))
            else Inr (i, j, m, drop_bit (itr d) mw, u)))"

definition sew_handler :: "layout_t \<Rightarrow> v_operands_t \<Rightarrow> laneop_t \<Rightarrow> nat \<Rightarrow> nat \<Rightarrow> op2_t \<Rightarrow> vunit_t \<Rightarrow> vunit_t outcome" where
  "sew_handler d vo f des a b u0 =
    (let num_regs = unat (rvv_group_regs (csr_vtype u0)); vl = unat (csr_vl u0)
     in obind (ofold (full_step d vo f des a b) [0..<vl div itr d] (0, 0, 0, vregs u0 0 0, u0)) (\<lambda>(i, j, _, mw, u).
          if \<not> j < num_regs then Inr u
          else if itr d = 1 then (if vta u then V_FILL_LMUL_TAIL des num_regs i j u else Inr u)
          else obind (loop_left d vo f des a b i j mw u) (\<lambda>u.
               if vta u then V_FILL_LMUL_TAIL des num_regs (if vl mod itr d \<noteq> 0 then i + 1 else i) j u else Inr u)))"

definition sew_layout :: "u32 \<Rightarrow> layout_t" where
  "sew_layout sew = (if sew = 8 then lanes8 else if sew = 16 then lanes16 else lanes32)"

text \<open>The check for an operable state comes first and leaves 8, 16 and 32 as the element widths.\<close>

definition VECTOR_DISPATCH :: "v_operands_t \<Rightarrow> (u32 \<Rightarrow> laneop_t) \<Rightarrow> u8 \<Rightarrow> u8 \<Rightarrow> op2_t \<Rightarrow> vunit_t \<Rightarrow> vunit_t outcome" where
  "VECTOR_DISPATCH vo f des a b u =
    sew_handler (sew_layout (sew_of u)) vo (f (sew_of u)) (unat des) (unat a) b u"

definition op_add :: "u32 \<Rightarrow> laneop_t" where "op_add sew a b = a + b"
definition op_sub :: "u32 \<Rightarrow> laneop_t" where "op_sub sew a b = a - b"
definition op_rsub :: "u32 \<Rightarrow> laneop_t" where "op_rsub sew a b = b - a"
definition op_and :: "u32 \<Rightarrow> laneop_t" where "op_and sew a b = a AND b"
definition op_or :: "u32 \<Rightarrow> laneop_t" where "op_or sew a b = a OR b"
definition op_xor :: "u32 \<Rightarrow> laneop_t" where "op_xor sew a b = a XOR b"
definition op_vmv :: "u32 \<Rightarrow> laneop_t" where "op_vmv sew a b = (a AND 0) + b"
definition op_sll :: "u32 \<Rightarrow> laneop_t" where "op_sll sew a b = push_bit (unat (b AND (sew - 1))) a"
definition op_mul :: "u32 \<Rightarrow> laneop_t" where "op_mul sew a b = a * b"

end
