(* ===== verification/VecHandlers.thy ===== *)
theory VecHandlers imports VecMem VecDispatch begin

text \<open>
  The handlers of the vector instructions of \<open>src/src/rv32_v_template.c\<close>, without the floating-point
  ones: one definition \<open>do_<name>\<close> per \<open>RVOP(<name>, ...)\<close>, and the segment loads and stores as the
  macros that define them, by the number of fields. A handler first checks that its operands are
  legal and raises an illegal-instruction exception otherwise; the checks read the vector unit only.
\<close>

section \<open>Legal operands\<close>

type_synonym legal_t = "rv_insn_t \<Rightarrow> vunit_t \<Rightarrow> bool"
type_synonym operand_t = "v_operands_t \<Rightarrow> u8"
type_synonym act_t = "riscv_io_t \<Rightarrow> rv_insn_t \<Rightarrow> riscv_t \<Rightarrow> (bool \<times> riscv_t) outcome"

definition opreg :: "operand_t \<Rightarrow> rv_insn_t \<Rightarrow> u32" where
  "opreg r ir = ucast (r (vop ir))"

definition data_reg :: "rv_insn_t \<Rightarrow> vunit_t \<Rightarrow> operand_t \<Rightarrow> bool" where
  "data_reg ir u r = rvv_validate_data_reg (csr_vtype u) (opreg r ir)"

definition legal_data :: "operand_t list \<Rightarrow> legal_t" where
  "legal_data rs ir u \<longleftrightarrow> rvv_require_valid_state u \<and> list_all (data_reg ir u) rs"

definition legal_rd :: legal_t where
  "legal_rd ir u \<longleftrightarrow> rvv_require_valid_state u \<and> rvv_validate_data_reg (csr_vtype u) (ucast (rd ir))"

definition legal_eew :: "operand_t \<Rightarrow> legal_t" where
  "legal_eew r ir u \<longleftrightarrow> rvv_require_valid_state u \<and> rvv_validate_eew_reg u (eew_of ir) (opreg r ir)"

definition legal_whole :: "u32 \<Rightarrow> operand_t \<Rightarrow> legal_t" where
  "legal_whole n r ir u = rvv_validate_reg_span (opreg r ir) n"

definition legal_mask_mem :: "operand_t \<Rightarrow> legal_t" where
  "legal_mask_mem r ir u \<longleftrightarrow> rvv_require_valid_state u \<and> rvv_validate_reg_span (opreg r ir) 1"

definition legal_indexed :: "operand_t \<Rightarrow> legal_t" where
  "legal_indexed r ir u \<longleftrightarrow> rvv_require_valid_state u \<and> data_reg ir u r \<and>
    (case rvv_index_group_span u (eew_of ir) of None \<Rightarrow> False | Some span \<Rightarrow> rvv_validate_reg_span (opreg vs2 ir) span)"

text \<open>Destinations that may not overlap their sources.\<close>

definition legal_permute :: "operand_t list \<Rightarrow> legal_t" where
  "legal_permute rs ir u \<longleftrightarrow>
    (let span = rvv_group_regs (csr_vtype u)
     in rvv_require_valid_state u \<and> rvv_validate_reg_span (opreg vd ir) span \<and>
        list_all (\<lambda>r. rvv_validate_reg_span (opreg r ir) span) rs \<and>
        list_all (\<lambda>r. \<not> rvv_reg_spans_overlap (opreg vd ir) span (opreg r ir) span) rs)"

definition legal_gatherei16 :: legal_t where
  "legal_gatherei16 ir u \<longleftrightarrow>
    (let span = rvv_group_regs (csr_vtype u)
     in rvv_require_valid_state u \<and>
        (case rvv_index_group_span u 16 of None \<Rightarrow> False | Some index_span \<Rightarrow>
           rvv_validate_reg_span (opreg vd ir) span \<and> rvv_validate_reg_span (opreg vs2 ir) span \<and>
           rvv_validate_reg_span (opreg vs1 ir) index_span \<and>
           \<not> rvv_reg_spans_overlap (opreg vd ir) span (opreg vs2 ir) span \<and>
           \<not> rvv_reg_spans_overlap (opreg vd ir) span (opreg vs1 ir) index_span))"

definition legal_compress :: legal_t where
  "legal_compress ir u \<longleftrightarrow>
    (let span = rvv_group_regs (csr_vtype u)
     in rvv_require_valid_state u \<and> vm (vop ir) \<noteq> 0 \<and> csr_vstart u = 0 \<and>
        rvv_validate_reg_span (opreg vd ir) span \<and> rvv_validate_reg_span (opreg vs2 ir) span \<and>
        \<not> rvv_reg_spans_overlap (opreg vd ir) span (opreg vs2 ir) span \<and>
        \<not> rvv_reg_spans_overlap (opreg vd ir) span (opreg vs1 ir) 1)"

definition legal_reduction :: legal_t where
  "legal_reduction ir u \<longleftrightarrow> csr_vstart u = 0 \<and> legal_data [vd, vs1, vs2] ir u"

definition legal_unmasked :: legal_t where
  "legal_unmasked ir u \<longleftrightarrow> rvv_require_valid_state u \<and> vm (vop ir) \<noteq> 0"

definition legal_state :: legal_t where
  "legal_state ir u = rvv_require_valid_state u"

text \<open>\<open>rs\<close> are the narrow sources.\<close>

definition legal_narrow :: "operand_t list \<Rightarrow> legal_t" where
  "legal_narrow rs ir u \<longleftrightarrow> legal_data (vd # rs) ir u \<and> rvv_validate_wide_reg u (opreg vs2 ir) \<and>
    (case rvv_wide_group_span u of None \<Rightarrow> False
     | Some wide \<Rightarrow> \<not> rvv_cross_eew_overlap_illegal (opreg vd ir) (rvv_group_regs (csr_vtype u)) (opreg vs2 ir) wide)"

definition legal_widen :: "operand_t list \<Rightarrow> legal_t" where
  "legal_widen rs ir u \<longleftrightarrow> legal_data rs ir u \<and> rvv_validate_wide_reg u (opreg vd ir) \<and>
    (case rvv_wide_group_span u of None \<Rightarrow> False
     | Some wide \<Rightarrow> list_all (\<lambda>r.
         \<not> rvv_cross_eew_overlap_illegal (opreg vd ir) wide (opreg r ir) (rvv_group_regs (csr_vtype u))) rs)"

definition legal_mixed_v :: legal_t where
  "legal_mixed_v ir u \<longleftrightarrow> rvv_validate_wide_reg u (opreg vs2 ir) \<and> legal_widen [vs1] ir u"

definition legal_mixed_x :: legal_t where
  "legal_mixed_x ir u \<longleftrightarrow>
    rvv_require_valid_state u \<and> rvv_validate_wide_reg u (opreg vd ir) \<and> rvv_validate_wide_reg u (opreg vs2 ir)"

section \<open>Bodies\<close>

definition vguard :: "legal_t \<Rightarrow> act_t \<Rightarrow> body_t" where
  "vguard legal act env ir cycle pcv rv =
    (if legal ir (vu rv)
     then obind (act (env_io env) ir rv) (\<lambda>(ok, rv). Inr (if ok then Fall else Return_value False, pcv, rv))
     else obind (rvv_trap_illegal_state (env_io env) 0 rv) (\<lambda>rv. Inr (Return_value False, pcv, rv)))"

definition succeed :: "riscv_t outcome \<Rightarrow> (bool \<times> riscv_t) outcome" where
  "succeed m = obind m (\<lambda>rv. Inr (True, rv))"

definition on_vd :: "exec_t \<Rightarrow> act_t" where
  "on_vd f io ir rv = succeed (f rv ir (opreg vd ir))"

definition on_rd :: "exec_t \<Rightarrow> act_t" where
  "on_rd f io ir rv = succeed (f rv ir (ucast (rd ir)))"

definition on_mem :: "vmem_t \<Rightarrow> operand_t \<Rightarrow> act_t" where
  "on_mem f r io ir rv = succeed (f io ir (opreg r ir) (X rv (rs1 ir)) rv)"

definition x_offset :: "(u32 \<Rightarrow> exec_t) \<Rightarrow> act_t" where
  "x_offset f io ir rv = on_vd (f (X rv (rs1 ir))) io ir rv"

definition i_offset :: "(u32 \<Rightarrow> exec_t) \<Rightarrow> act_t" where
  "i_offset f io ir rv = on_vd (f (imm ir AND 0x1f)) io ir rv"

definition logical_act :: "u8 \<Rightarrow> act_t" where
  "logical_act f io ir rv = on_vd (rvv_exec_mask_logical (opreg vs2 ir) (opreg vs1 ir) f) io ir rv"

definition vdispatch :: "operand_t \<Rightarrow> (rv_insn_t \<Rightarrow> riscv_t \<Rightarrow> op2_t) \<Rightarrow> (u32 \<Rightarrow> laneop_t) \<Rightarrow> body_t" where
  "vdispatch a b f = vguard legal_state (\<lambda>io ir rv.
    succeed (on_vunit (VECTOR_DISPATCH (vop ir) f (vd (vop ir)) (a (vop ir)) (b ir rv)) rv))"

definition by_vv :: "rv_insn_t \<Rightarrow> riscv_t \<Rightarrow> op2_t" where "by_vv ir rv = VV (vs1 (vop ir))"
definition by_vx :: "rv_insn_t \<Rightarrow> riscv_t \<Rightarrow> op2_t" where "by_vx ir rv = VX (X rv (rs1 ir))"
definition by_vi :: "rv_insn_t \<Rightarrow> riscv_t \<Rightarrow> op2_t" where "by_vi ir rv = VI (imm ir)"
definition v0_operand :: operand_t where "v0_operand vo = 0"

section \<open>Segments\<close>

definition seg_eew_legal :: "u32 \<Rightarrow> operand_t \<Rightarrow> bool \<Rightarrow> legal_t" where
  "seg_eew_legal nf r is_load ir u \<longleftrightarrow> rvv_require_valid_state u \<and>
    (case rvv_eew_reg_span u (eew_of ir) of None \<Rightarrow> False
     | Some span \<Rightarrow> rvv_validate_segment_reg_group (opreg r ir) span nf \<and>
         \<not> (is_load \<and> vm (vop ir) = 0 \<and> rvv_reg_spans_overlap (opreg r ir) (span * nf) 0 1))"

definition seg_index_legal :: "u32 \<Rightarrow> operand_t \<Rightarrow> bool \<Rightarrow> legal_t" where
  "seg_index_legal nf r is_load ir u \<longleftrightarrow>
    (let data_span = rvv_group_regs (csr_vtype u); total = data_span * nf
     in rvv_require_valid_state u \<and> rvv_validate_segment_reg_group (opreg r ir) data_span nf \<and>
        (case rvv_index_group_span u (eew_of ir) of None \<Rightarrow> False
         | Some index_span \<Rightarrow> rvv_validate_reg_span (opreg vs2 ir) index_span \<and>
             (is_load \<longrightarrow>
                \<not> (vm (vop ir) = 0 \<and> rvv_reg_spans_overlap (opreg r ir) total 0 1) \<and>
                \<not> (if data_span \<noteq> index_span then rvv_cross_eew_overlap_illegal (opreg r ir) total (opreg vs2 ir) index_span
                   else rvv_reg_spans_overlap (opreg r ir) total (opreg vs2 ir) index_span))))"

definition on_seg :: "vseg_t \<Rightarrow> operand_t \<Rightarrow> u32 \<Rightarrow> act_t" where
  "on_seg f r nf io ir rv = f io ir (opreg r ir) nf rv"

definition RVV_SEGMENT_UNIT_STRIDE_LOAD_OP :: "u32 \<Rightarrow> bool \<Rightarrow> handler_t" where
  "RVV_SEGMENT_UNIT_STRIDE_LOAD_OP nf ff =
    VRVOP (vguard (seg_eew_legal nf vd True) (on_seg (rvv_segment_unit_stride_load ff) vd nf))"

definition RVV_SEGMENT_UNIT_STRIDE_STORE_OP :: "u32 \<Rightarrow> handler_t" where
  "RVV_SEGMENT_UNIT_STRIDE_STORE_OP nf =
    VRVOP (vguard (seg_eew_legal nf vs3 False) (on_seg rvv_segment_unit_stride_store vs3 nf))"

definition RVV_SEGMENT_STRIDED_LOAD_OP :: "u32 \<Rightarrow> handler_t" where
  "RVV_SEGMENT_STRIDED_LOAD_OP nf =
    VRVOP (vguard (seg_eew_legal nf vd True) (on_seg rvv_segment_strided_load vd nf))"

definition RVV_SEGMENT_STRIDED_STORE_OP :: "u32 \<Rightarrow> handler_t" where
  "RVV_SEGMENT_STRIDED_STORE_OP nf =
    VRVOP (vguard (seg_eew_legal nf vs3 False) (on_seg rvv_segment_strided_store vs3 nf))"

definition RVV_SEGMENT_INDEXED_LOAD_OP :: "u32 \<Rightarrow> handler_t" where
  "RVV_SEGMENT_INDEXED_LOAD_OP nf =
    VRVOP (vguard (seg_index_legal nf vd True) (on_seg rvv_segment_indexed_load vd nf))"

definition RVV_SEGMENT_INDEXED_STORE_OP :: "u32 \<Rightarrow> handler_t" where
  "RVV_SEGMENT_INDEXED_STORE_OP nf =
    VRVOP (vguard (seg_index_legal nf vs3 False) (on_seg rvv_segment_indexed_store vs3 nf))"

section \<open>Loads and stores\<close>

definition do_vle8_v :: handler_t where
  "do_vle8_v = VRVOP (vguard (legal_eew vd) (on_mem rvv_unit_stride_load vd))"

definition do_vle16_v :: handler_t where
  "do_vle16_v = VRVOP (vguard (legal_eew vd) (on_mem rvv_unit_stride_load vd))"

definition do_vle32_v :: handler_t where
  "do_vle32_v = VRVOP (vguard (legal_eew vd) (on_mem rvv_unit_stride_load vd))"

definition do_vle64_v :: handler_t where
  "do_vle64_v = VRVOP (vguard (legal_eew vd) (on_mem rvv_unit_stride_load vd))"

definition do_vl1re8_v :: handler_t where
  "do_vl1re8_v = VRVOP (vguard (legal_whole 1 vd) (on_mem (\<lambda>io _ r. rvv_whole_reg_load io r 1) vd))"

definition do_vl1re16_v :: handler_t where
  "do_vl1re16_v = VRVOP (vguard (legal_whole 1 vd) (on_mem (\<lambda>io _ r. rvv_whole_reg_load io r 1) vd))"

definition do_vl1re32_v :: handler_t where
  "do_vl1re32_v = VRVOP (vguard (legal_whole 1 vd) (on_mem (\<lambda>io _ r. rvv_whole_reg_load io r 1) vd))"

definition do_vl1re64_v :: handler_t where
  "do_vl1re64_v = VRVOP (vguard (legal_whole 1 vd) (on_mem (\<lambda>io _ r. rvv_whole_reg_load io r 1) vd))"

definition do_vl2re8_v :: handler_t where
  "do_vl2re8_v = VRVOP (vguard (legal_whole 2 vd) (on_mem (\<lambda>io _ r. rvv_whole_reg_load io r 2) vd))"

definition do_vl2re16_v :: handler_t where
  "do_vl2re16_v = VRVOP (vguard (legal_whole 2 vd) (on_mem (\<lambda>io _ r. rvv_whole_reg_load io r 2) vd))"

definition do_vl2re32_v :: handler_t where
  "do_vl2re32_v = VRVOP (vguard (legal_whole 2 vd) (on_mem (\<lambda>io _ r. rvv_whole_reg_load io r 2) vd))"

definition do_vl2re64_v :: handler_t where
  "do_vl2re64_v = VRVOP (vguard (legal_whole 2 vd) (on_mem (\<lambda>io _ r. rvv_whole_reg_load io r 2) vd))"

definition do_vl4re8_v :: handler_t where
  "do_vl4re8_v = VRVOP (vguard (legal_whole 4 vd) (on_mem (\<lambda>io _ r. rvv_whole_reg_load io r 4) vd))"

definition do_vl4re16_v :: handler_t where
  "do_vl4re16_v = VRVOP (vguard (legal_whole 4 vd) (on_mem (\<lambda>io _ r. rvv_whole_reg_load io r 4) vd))"

definition do_vl4re32_v :: handler_t where
  "do_vl4re32_v = VRVOP (vguard (legal_whole 4 vd) (on_mem (\<lambda>io _ r. rvv_whole_reg_load io r 4) vd))"

definition do_vl4re64_v :: handler_t where
  "do_vl4re64_v = VRVOP (vguard (legal_whole 4 vd) (on_mem (\<lambda>io _ r. rvv_whole_reg_load io r 4) vd))"

definition do_vl8re8_v :: handler_t where
  "do_vl8re8_v = VRVOP (vguard (legal_whole 8 vd) (on_mem (\<lambda>io _ r. rvv_whole_reg_load io r 8) vd))"

definition do_vl8re16_v :: handler_t where
  "do_vl8re16_v = VRVOP (vguard (legal_whole 8 vd) (on_mem (\<lambda>io _ r. rvv_whole_reg_load io r 8) vd))"

definition do_vl8re32_v :: handler_t where
  "do_vl8re32_v = VRVOP (vguard (legal_whole 8 vd) (on_mem (\<lambda>io _ r. rvv_whole_reg_load io r 8) vd))"

definition do_vl8re64_v :: handler_t where
  "do_vl8re64_v = VRVOP (vguard (legal_whole 8 vd) (on_mem (\<lambda>io _ r. rvv_whole_reg_load io r 8) vd))"

definition do_vlm_v :: handler_t where
  "do_vlm_v = VRVOP (vguard (legal_mask_mem vd) (on_mem (\<lambda>io _. rvv_mask_load io) vd))"

definition do_vle8ff_v :: handler_t where
  "do_vle8ff_v = VRVOP (vguard (legal_eew vd) (\<lambda>io ir rv. rvv_unit_stride_load_ff io ir (opreg vd ir) (X rv (rs1 ir)) rv))"

definition do_vle16ff_v :: handler_t where
  "do_vle16ff_v = VRVOP (vguard (legal_eew vd) (\<lambda>io ir rv. rvv_unit_stride_load_ff io ir (opreg vd ir) (X rv (rs1 ir)) rv))"

definition do_vle32ff_v :: handler_t where
  "do_vle32ff_v = VRVOP (vguard (legal_eew vd) (\<lambda>io ir rv. rvv_unit_stride_load_ff io ir (opreg vd ir) (X rv (rs1 ir)) rv))"

definition do_vle64ff_v :: handler_t where
  "do_vle64ff_v = VRVOP (vguard (legal_eew vd) (\<lambda>io ir rv. rvv_unit_stride_load_ff io ir (opreg vd ir) (X rv (rs1 ir)) rv))"

definition do_vluxei8_v :: handler_t where
  "do_vluxei8_v = VRVOP (vguard (legal_indexed vd) (on_mem rvv_indexed_load vd))"

definition do_vluxei16_v :: handler_t where
  "do_vluxei16_v = VRVOP (vguard (legal_indexed vd) (on_mem rvv_indexed_load vd))"

definition do_vluxei32_v :: handler_t where
  "do_vluxei32_v = VRVOP (vguard (legal_indexed vd) (on_mem rvv_indexed_load vd))"

definition do_vluxei64_v :: handler_t where
  "do_vluxei64_v = VRVOP (vguard (legal_indexed vd) (on_mem rvv_indexed_load vd))"

definition do_vlse8_v :: handler_t where
  "do_vlse8_v = VRVOP (vguard (legal_eew vd) (on_mem rvv_strided_load vd))"

definition do_vlse16_v :: handler_t where
  "do_vlse16_v = VRVOP (vguard (legal_eew vd) (on_mem rvv_strided_load vd))"

definition do_vlse32_v :: handler_t where
  "do_vlse32_v = VRVOP (vguard (legal_eew vd) (on_mem rvv_strided_load vd))"

definition do_vlse64_v :: handler_t where
  "do_vlse64_v = VRVOP (vguard (legal_eew vd) (on_mem rvv_strided_load vd))"

definition do_vloxei8_v :: handler_t where
  "do_vloxei8_v = VRVOP (vguard (legal_indexed vd) (on_mem rvv_indexed_load vd))"

definition do_vloxei16_v :: handler_t where
  "do_vloxei16_v = VRVOP (vguard (legal_indexed vd) (on_mem rvv_indexed_load vd))"

definition do_vloxei32_v :: handler_t where
  "do_vloxei32_v = VRVOP (vguard (legal_indexed vd) (on_mem rvv_indexed_load vd))"

definition do_vloxei64_v :: handler_t where
  "do_vloxei64_v = VRVOP (vguard (legal_indexed vd) (on_mem rvv_indexed_load vd))"

definition do_vse8_v :: handler_t where
  "do_vse8_v = VRVOP (vguard (legal_eew vs3) (on_mem rvv_unit_stride_store vs3))"

definition do_vse16_v :: handler_t where
  "do_vse16_v = VRVOP (vguard (legal_eew vs3) (on_mem rvv_unit_stride_store vs3))"

definition do_vse32_v :: handler_t where
  "do_vse32_v = VRVOP (vguard (legal_eew vs3) (on_mem rvv_unit_stride_store vs3))"

definition do_vse64_v :: handler_t where
  "do_vse64_v = VRVOP (vguard (legal_eew vs3) (on_mem rvv_unit_stride_store vs3))"

definition do_vs1r_v :: handler_t where
  "do_vs1r_v = VRVOP (vguard (legal_whole 1 vs3) (on_mem (\<lambda>io _ r. rvv_whole_reg_store io r 1) vs3))"

definition do_vs2r_v :: handler_t where
  "do_vs2r_v = VRVOP (vguard (legal_whole 2 vs3) (on_mem (\<lambda>io _ r. rvv_whole_reg_store io r 2) vs3))"

definition do_vs4r_v :: handler_t where
  "do_vs4r_v = VRVOP (vguard (legal_whole 4 vs3) (on_mem (\<lambda>io _ r. rvv_whole_reg_store io r 4) vs3))"

definition do_vs8r_v :: handler_t where
  "do_vs8r_v = VRVOP (vguard (legal_whole 8 vs3) (on_mem (\<lambda>io _ r. rvv_whole_reg_store io r 8) vs3))"

definition do_vsm_v :: handler_t where
  "do_vsm_v = VRVOP (vguard (legal_mask_mem vs3) (on_mem (\<lambda>io _. rvv_mask_store io) vs3))"

definition do_vsuxei8_v :: handler_t where
  "do_vsuxei8_v = VRVOP (vguard (legal_indexed vs3) (on_mem rvv_indexed_store vs3))"

definition do_vsuxei16_v :: handler_t where
  "do_vsuxei16_v = VRVOP (vguard (legal_indexed vs3) (on_mem rvv_indexed_store vs3))"

definition do_vsuxei32_v :: handler_t where
  "do_vsuxei32_v = VRVOP (vguard (legal_indexed vs3) (on_mem rvv_indexed_store vs3))"

definition do_vsuxei64_v :: handler_t where
  "do_vsuxei64_v = VRVOP (vguard (legal_indexed vs3) (on_mem rvv_indexed_store vs3))"

definition do_vsse8_v :: handler_t where
  "do_vsse8_v = VRVOP (vguard (legal_eew vs3) (on_mem rvv_strided_store vs3))"

definition do_vsse16_v :: handler_t where
  "do_vsse16_v = VRVOP (vguard (legal_eew vs3) (on_mem rvv_strided_store vs3))"

definition do_vsse32_v :: handler_t where
  "do_vsse32_v = VRVOP (vguard (legal_eew vs3) (on_mem rvv_strided_store vs3))"

definition do_vsse64_v :: handler_t where
  "do_vsse64_v = VRVOP (vguard (legal_eew vs3) (on_mem rvv_strided_store vs3))"

definition do_vsoxei8_v :: handler_t where
  "do_vsoxei8_v = VRVOP (vguard (legal_indexed vs3) (on_mem rvv_indexed_store vs3))"

definition do_vsoxei16_v :: handler_t where
  "do_vsoxei16_v = VRVOP (vguard (legal_indexed vs3) (on_mem rvv_indexed_store vs3))"

definition do_vsoxei32_v :: handler_t where
  "do_vsoxei32_v = VRVOP (vguard (legal_indexed vs3) (on_mem rvv_indexed_store vs3))"

definition do_vsoxei64_v :: handler_t where
  "do_vsoxei64_v = VRVOP (vguard (legal_indexed vs3) (on_mem rvv_indexed_store vs3))"

section \<open>Arithmetic and logic\<close>

definition do_vadd_vv :: handler_t where
  "do_vadd_vv = VRVOP (vdispatch vs2 by_vv op_add)"

definition do_vadd_vx :: handler_t where
  "do_vadd_vx = VRVOP (vdispatch vs2 by_vx op_add)"

definition do_vadd_vi :: handler_t where
  "do_vadd_vi = VRVOP (vdispatch vs2 by_vi op_add)"

definition do_vsub_vv :: handler_t where
  "do_vsub_vv = VRVOP (vdispatch vs2 by_vv op_sub)"

definition do_vsub_vx :: handler_t where
  "do_vsub_vx = VRVOP (vdispatch vs2 by_vx op_sub)"

definition do_vrsub_vx :: handler_t where
  "do_vrsub_vx = VRVOP (vdispatch vs2 by_vx op_rsub)"

definition do_vrsub_vi :: handler_t where
  "do_vrsub_vi = VRVOP (vdispatch vs2 by_vi op_rsub)"

definition do_vminu_vv :: handler_t where
  "do_vminu_vv = VRVOP (vguard (legal_data [vd, vs1, vs2]) (on_vd (rvv_exec_data_vv rvv_op_minu)))"

definition do_vminu_vx :: handler_t where
  "do_vminu_vx = VRVOP (vguard (legal_data [vd, vs2]) (on_vd (rvv_exec_data_vx rvv_op_minu)))"

definition do_vmin_vv :: handler_t where
  "do_vmin_vv = VRVOP (vguard (legal_data [vd, vs1, vs2]) (on_vd (rvv_exec_data_vv rvv_op_min)))"

definition do_vmin_vx :: handler_t where
  "do_vmin_vx = VRVOP (vguard (legal_data [vd, vs2]) (on_vd (rvv_exec_data_vx rvv_op_min)))"

definition do_vmaxu_vv :: handler_t where
  "do_vmaxu_vv = VRVOP (vguard (legal_data [vd, vs1, vs2]) (on_vd (rvv_exec_data_vv rvv_op_maxu)))"

definition do_vmaxu_vx :: handler_t where
  "do_vmaxu_vx = VRVOP (vguard (legal_data [vd, vs2]) (on_vd (rvv_exec_data_vx rvv_op_maxu)))"

definition do_vmax_vv :: handler_t where
  "do_vmax_vv = VRVOP (vguard (legal_data [vd, vs1, vs2]) (on_vd (rvv_exec_data_vv rvv_op_max)))"

definition do_vmax_vx :: handler_t where
  "do_vmax_vx = VRVOP (vguard (legal_data [vd, vs2]) (on_vd (rvv_exec_data_vx rvv_op_max)))"

definition do_vand_vv :: handler_t where
  "do_vand_vv = VRVOP (vdispatch vs2 by_vv op_and)"

definition do_vand_vx :: handler_t where
  "do_vand_vx = VRVOP (vdispatch vs2 by_vx op_and)"

definition do_vand_vi :: handler_t where
  "do_vand_vi = VRVOP (vdispatch vs2 by_vi op_and)"

definition do_vor_vv :: handler_t where
  "do_vor_vv = VRVOP (vdispatch vs2 by_vv op_or)"

definition do_vor_vx :: handler_t where
  "do_vor_vx = VRVOP (vdispatch vs2 by_vx op_or)"

definition do_vor_vi :: handler_t where
  "do_vor_vi = VRVOP (vdispatch vs2 by_vi op_or)"

definition do_vxor_vv :: handler_t where
  "do_vxor_vv = VRVOP (vdispatch vs2 by_vv op_xor)"

section \<open>Permutations\<close>

definition do_vxor_vx :: handler_t where
  "do_vxor_vx = VRVOP (vdispatch vs2 by_vx op_xor)"

definition do_vxor_vi :: handler_t where
  "do_vxor_vi = VRVOP (vdispatch vs2 by_vi op_xor)"

definition do_vrgather_vv :: handler_t where
  "do_vrgather_vv = VRVOP (vguard (legal_permute [vs1, vs2]) (\<lambda>io ir rv. on_vd (rvv_exec_vrgather_vv (sew_in rv)) io ir rv))"

definition do_vrgather_vx :: handler_t where
  "do_vrgather_vx = VRVOP (vguard (legal_permute [vs2]) (x_offset rvv_exec_vrgather_scalar))"

definition do_vrgather_vi :: handler_t where
  "do_vrgather_vi = VRVOP (vguard (legal_permute [vs2]) (i_offset rvv_exec_vrgather_scalar))"

definition do_vslideup_vx :: handler_t where
  "do_vslideup_vx = VRVOP (vguard (legal_permute [vs2]) (x_offset rvv_exec_vslideup))"

definition do_vslideup_vi :: handler_t where
  "do_vslideup_vi = VRVOP (vguard (legal_permute [vs2]) (i_offset rvv_exec_vslideup))"

definition do_vrgatherei16_vv :: handler_t where
  "do_vrgatherei16_vv = VRVOP (vguard legal_gatherei16 (on_vd (rvv_exec_vrgather_vv 16)))"

definition do_vslidedown_vx :: handler_t where
  "do_vslidedown_vx = VRVOP (vguard (legal_data [vd, vs2]) (x_offset rvv_exec_vslidedown))"

definition do_vslidedown_vi :: handler_t where
  "do_vslidedown_vi = VRVOP (vguard (legal_data [vd, vs2]) (i_offset rvv_exec_vslidedown))"

section \<open>Carries, merges and moves\<close>

definition do_vadc_vvm :: handler_t where
  "do_vadc_vvm = VRVOP (vguard (legal_data [vd, vs1, vs2]) (on_vd (rvv_exec_adc_vv False)))"

definition do_vadc_vxm :: handler_t where
  "do_vadc_vxm = VRVOP (vguard (legal_data [vd, vs2]) (on_vd (rvv_exec_adc_vx False)))"

definition do_vadc_vim :: handler_t where
  "do_vadc_vim = VRVOP (vguard (legal_data [vd, vs2]) (on_vd (rvv_exec_adc_vi False)))"

definition do_vmadc_vv :: handler_t where
  "do_vmadc_vv = VRVOP (vguard (legal_data [vs1, vs2]) (on_vd (rvv_exec_adc_vv True)))"

definition do_vmadc_vx :: handler_t where
  "do_vmadc_vx = VRVOP (vguard (legal_data [vs2]) (on_vd (rvv_exec_adc_vx True)))"

definition do_vmadc_vi :: handler_t where
  "do_vmadc_vi = VRVOP (vguard (legal_data [vs2]) (on_vd (rvv_exec_adc_vi True)))"

definition do_vsbc_vvm :: handler_t where
  "do_vsbc_vvm = VRVOP (vguard (legal_data [vd, vs1, vs2]) (on_vd (rvv_exec_sbc_vv False)))"

definition do_vsbc_vxm :: handler_t where
  "do_vsbc_vxm = VRVOP (vguard (legal_data [vd, vs2]) (on_vd (rvv_exec_sbc_vx False)))"

definition do_vmsbc_vv :: handler_t where
  "do_vmsbc_vv = VRVOP (vguard (legal_data [vs1, vs2]) (on_vd (rvv_exec_sbc_vv True)))"

definition do_vmsbc_vx :: handler_t where
  "do_vmsbc_vx = VRVOP (vguard (legal_data [vs2]) (on_vd (rvv_exec_sbc_vx True)))"

definition do_vmerge_vvm :: handler_t where
  "do_vmerge_vvm = VRVOP (vguard (legal_data [vd, vs1, vs2]) (on_vd rvv_exec_vmerge_vv))"

definition do_vmerge_vxm :: handler_t where
  "do_vmerge_vxm = VRVOP (vguard (legal_data [vd, vs2]) (on_vd rvv_exec_vmerge_vx))"

definition do_vmerge_vim :: handler_t where
  "do_vmerge_vim = VRVOP (vguard (legal_data [vd, vs2]) (on_vd rvv_exec_vmerge_vi))"

definition do_vmv_v_v :: handler_t where
  "do_vmv_v_v = VRVOP (vdispatch v0_operand by_vv op_vmv)"

definition do_vmv_v_x :: handler_t where
  "do_vmv_v_x = VRVOP (vdispatch v0_operand by_vx op_vmv)"

definition do_vmv_v_i :: handler_t where
  "do_vmv_v_i = VRVOP (vdispatch v0_operand by_vi op_vmv)"

section \<open>Comparisons\<close>

definition do_vmseq_vv :: handler_t where
  "do_vmseq_vv = VRVOP (vguard (legal_data [vs1, vs2]) (on_vd (rvv_exec_mask_compare_vv rvv_cmp_eq)))"

definition do_vmseq_vx :: handler_t where
  "do_vmseq_vx = VRVOP (vguard (legal_data [vs2]) (on_vd (rvv_exec_mask_compare_vx rvv_cmp_eq)))"

definition do_vmseq_vi :: handler_t where
  "do_vmseq_vi = VRVOP (vguard (legal_data [vs2]) (on_vd (rvv_exec_mask_compare_vi rvv_cmp_eq)))"

definition do_vmsne_vv :: handler_t where
  "do_vmsne_vv = VRVOP (vguard (legal_data [vs1, vs2]) (on_vd (rvv_exec_mask_compare_vv rvv_cmp_ne)))"

definition do_vmsne_vx :: handler_t where
  "do_vmsne_vx = VRVOP (vguard (legal_data [vs2]) (on_vd (rvv_exec_mask_compare_vx rvv_cmp_ne)))"

definition do_vmsne_vi :: handler_t where
  "do_vmsne_vi = VRVOP (vguard (legal_data [vs2]) (on_vd (rvv_exec_mask_compare_vi rvv_cmp_ne)))"

definition do_vmsltu_vv :: handler_t where
  "do_vmsltu_vv = VRVOP (vguard (legal_data [vs1, vs2]) (on_vd (rvv_exec_mask_compare_vv rvv_cmp_ltu)))"

definition do_vmsltu_vx :: handler_t where
  "do_vmsltu_vx = VRVOP (vguard (legal_data [vs2]) (on_vd (rvv_exec_mask_compare_vx rvv_cmp_ltu)))"

definition do_vmslt_vv :: handler_t where
  "do_vmslt_vv = VRVOP (vguard (legal_data [vs1, vs2]) (on_vd (rvv_exec_mask_compare_vv rvv_cmp_lt)))"

definition do_vmslt_vx :: handler_t where
  "do_vmslt_vx = VRVOP (vguard (legal_data [vs2]) (on_vd (rvv_exec_mask_compare_vx rvv_cmp_lt)))"

definition do_vmsleu_vv :: handler_t where
  "do_vmsleu_vv = VRVOP (vguard (legal_data [vs1, vs2]) (on_vd (rvv_exec_mask_compare_vv rvv_cmp_leu)))"

definition do_vmsleu_vx :: handler_t where
  "do_vmsleu_vx = VRVOP (vguard (legal_data [vs2]) (on_vd (rvv_exec_mask_compare_vx rvv_cmp_leu)))"

definition do_vmsleu_vi :: handler_t where
  "do_vmsleu_vi = VRVOP (vguard (legal_data [vs2]) (on_vd (rvv_exec_mask_compare_vi rvv_cmp_leu)))"

definition do_vmsle_vv :: handler_t where
  "do_vmsle_vv = VRVOP (vguard (legal_data [vs1, vs2]) (on_vd (rvv_exec_mask_compare_vv rvv_cmp_le)))"

definition do_vmsle_vx :: handler_t where
  "do_vmsle_vx = VRVOP (vguard (legal_data [vs2]) (on_vd (rvv_exec_mask_compare_vx rvv_cmp_le)))"

section \<open>Saturation and shifts\<close>

definition do_vmsle_vi :: handler_t where
  "do_vmsle_vi = VRVOP (vguard (legal_data [vs2]) (on_vd (rvv_exec_mask_compare_vi rvv_cmp_le)))"

definition do_vmsgtu_vx :: handler_t where
  "do_vmsgtu_vx = VRVOP (vguard (legal_data [vs2]) (on_vd (rvv_exec_mask_compare_vx_rev rvv_cmp_ltu)))"

definition do_vmsgtu_vi :: handler_t where
  "do_vmsgtu_vi = VRVOP (vguard (legal_data [vs2]) (on_vd (rvv_exec_mask_compare_vi_rev rvv_cmp_ltu)))"

definition do_vmsgt_vx :: handler_t where
  "do_vmsgt_vx = VRVOP (vguard (legal_data [vs2]) (on_vd (rvv_exec_mask_compare_vx_rev rvv_cmp_lt)))"

definition do_vmsgt_vi :: handler_t where
  "do_vmsgt_vi = VRVOP (vguard (legal_data [vs2]) (on_vd (rvv_exec_mask_compare_vi_rev rvv_cmp_lt)))"

definition do_vsaddu_vv :: handler_t where
  "do_vsaddu_vv = VRVOP (vguard (legal_data [vd, vs1, vs2]) (on_vd (rvv_exec_data_vv_stateful rvv_op_vsaddu)))"

definition do_vsaddu_vx :: handler_t where
  "do_vsaddu_vx = VRVOP (vguard (legal_data [vd, vs2]) (on_vd (rvv_exec_data_vx_stateful rvv_op_vsaddu)))"

definition do_vsaddu_vi :: handler_t where
  "do_vsaddu_vi = VRVOP (vguard (legal_data [vd, vs2]) (on_vd (rvv_exec_data_vi_stateful rvv_op_vsaddu)))"

definition do_vsadd_vv :: handler_t where
  "do_vsadd_vv = VRVOP (vguard (legal_data [vd, vs1, vs2]) (on_vd (rvv_exec_data_vv_stateful rvv_op_vsadd)))"

definition do_vsadd_vx :: handler_t where
  "do_vsadd_vx = VRVOP (vguard (legal_data [vd, vs2]) (on_vd (rvv_exec_data_vx_stateful rvv_op_vsadd)))"

definition do_vsadd_vi :: handler_t where
  "do_vsadd_vi = VRVOP (vguard (legal_data [vd, vs2]) (on_vd (rvv_exec_data_vi_stateful rvv_op_vsadd)))"

definition do_vssubu_vv :: handler_t where
  "do_vssubu_vv = VRVOP (vguard (legal_data [vd, vs1, vs2]) (on_vd (rvv_exec_data_vv_stateful rvv_op_vssubu)))"

definition do_vssubu_vx :: handler_t where
  "do_vssubu_vx = VRVOP (vguard (legal_data [vd, vs2]) (on_vd (rvv_exec_data_vx_stateful rvv_op_vssubu)))"

definition do_vssub_vv :: handler_t where
  "do_vssub_vv = VRVOP (vguard (legal_data [vd, vs1, vs2]) (on_vd (rvv_exec_data_vv_stateful rvv_op_vssub)))"

definition do_vssub_vx :: handler_t where
  "do_vssub_vx = VRVOP (vguard (legal_data [vd, vs2]) (on_vd (rvv_exec_data_vx_stateful rvv_op_vssub)))"

definition do_vsll_vv :: handler_t where
  "do_vsll_vv = VRVOP (vdispatch vs2 by_vv op_sll)"

definition do_vsll_vx :: handler_t where
  "do_vsll_vx = VRVOP (vdispatch vs2 by_vx op_sll)"

definition do_vsll_vi :: handler_t where
  "do_vsll_vi = VRVOP (vdispatch vs2 by_vi op_sll)"

definition do_vsmul_vv :: handler_t where
  "do_vsmul_vv = VRVOP (vguard (legal_data [vd, vs1, vs2]) (on_vd (rvv_exec_data_vv_stateful rvv_op_vsmul)))"

definition do_vsmul_vx :: handler_t where
  "do_vsmul_vx = VRVOP (vguard (legal_data [vd, vs2]) (on_vd (rvv_exec_data_vx_stateful rvv_op_vsmul)))"

definition do_vsrl_vv :: handler_t where
  "do_vsrl_vv = VRVOP (vguard (legal_data [vd, vs1, vs2]) (on_vd (rvv_exec_data_vv rvv_op_srl)))"

definition do_vsrl_vx :: handler_t where
  "do_vsrl_vx = VRVOP (vguard (legal_data [vd, vs2]) (on_vd (rvv_exec_data_vx rvv_op_srl)))"

definition do_vsrl_vi :: handler_t where
  "do_vsrl_vi = VRVOP (vguard (legal_data [vd, vs2]) (on_vd (rvv_exec_data_vi rvv_op_srl)))"

definition do_vsra_vv :: handler_t where
  "do_vsra_vv = VRVOP (vguard (legal_data [vd, vs1, vs2]) (on_vd (rvv_exec_data_vv rvv_op_sra)))"

definition do_vsra_vx :: handler_t where
  "do_vsra_vx = VRVOP (vguard (legal_data [vd, vs2]) (on_vd (rvv_exec_data_vx rvv_op_sra)))"

definition do_vsra_vi :: handler_t where
  "do_vsra_vi = VRVOP (vguard (legal_data [vd, vs2]) (on_vd (rvv_exec_data_vi rvv_op_sra)))"

definition do_vssrl_vv :: handler_t where
  "do_vssrl_vv = VRVOP (vguard (legal_data [vd, vs1, vs2]) (on_vd (rvv_exec_data_vv_stateful rvv_op_vssrl)))"

definition do_vssrl_vx :: handler_t where
  "do_vssrl_vx = VRVOP (vguard (legal_data [vd, vs2]) (on_vd (rvv_exec_data_vx_stateful rvv_op_vssrl)))"

definition do_vssrl_vi :: handler_t where
  "do_vssrl_vi = VRVOP (vguard (legal_data [vd, vs2]) (on_vd (rvv_exec_data_vi_stateful rvv_op_vssrl)))"

definition do_vssra_vv :: handler_t where
  "do_vssra_vv = VRVOP (vguard (legal_data [vd, vs1, vs2]) (on_vd (rvv_exec_data_vv_stateful rvv_op_vssra)))"

definition do_vssra_vx :: handler_t where
  "do_vssra_vx = VRVOP (vguard (legal_data [vd, vs2]) (on_vd (rvv_exec_data_vx_stateful rvv_op_vssra)))"

definition do_vssra_vi :: handler_t where
  "do_vssra_vi = VRVOP (vguard (legal_data [vd, vs2]) (on_vd (rvv_exec_data_vi_stateful rvv_op_vssra)))"

section \<open>Narrowing\<close>

definition do_vnsrl_wv :: handler_t where
  "do_vnsrl_wv = VRVOP (vguard (legal_narrow [vs1]) (on_vd (rvv_exec_narrow_shift_vv rvv_nop_vnsrl)))"

definition do_vnsrl_wx :: handler_t where
  "do_vnsrl_wx = VRVOP (vguard (legal_narrow []) (on_vd (rvv_exec_narrow_shift_vx rvv_nop_vnsrl)))"

definition do_vnsrl_wi :: handler_t where
  "do_vnsrl_wi = VRVOP (vguard (legal_narrow []) (on_vd (rvv_exec_narrow_shift_vi rvv_nop_vnsrl)))"

definition do_vnsra_wv :: handler_t where
  "do_vnsra_wv = VRVOP (vguard (legal_narrow [vs1]) (on_vd (rvv_exec_narrow_shift_vv rvv_nop_vnsra)))"

definition do_vnsra_wx :: handler_t where
  "do_vnsra_wx = VRVOP (vguard (legal_narrow []) (on_vd (rvv_exec_narrow_shift_vx rvv_nop_vnsra)))"

definition do_vnsra_wi :: handler_t where
  "do_vnsra_wi = VRVOP (vguard (legal_narrow []) (on_vd (rvv_exec_narrow_shift_vi rvv_nop_vnsra)))"

definition do_vnclipu_wv :: handler_t where
  "do_vnclipu_wv = VRVOP (vguard (legal_narrow [vs1]) (on_vd (rvv_exec_narrow_shift_vv rvv_nop_vnclipu)))"

definition do_vnclipu_wx :: handler_t where
  "do_vnclipu_wx = VRVOP (vguard (legal_narrow []) (on_vd (rvv_exec_narrow_shift_vx rvv_nop_vnclipu)))"

definition do_vnclipu_wi :: handler_t where
  "do_vnclipu_wi = VRVOP (vguard (legal_narrow []) (on_vd (rvv_exec_narrow_shift_vi rvv_nop_vnclipu)))"

definition do_vnclip_wv :: handler_t where
  "do_vnclip_wv = VRVOP (vguard (legal_narrow [vs1]) (on_vd (rvv_exec_narrow_shift_vv rvv_nop_vnclip)))"

definition do_vnclip_wx :: handler_t where
  "do_vnclip_wx = VRVOP (vguard (legal_narrow []) (on_vd (rvv_exec_narrow_shift_vx rvv_nop_vnclip)))"

definition do_vnclip_wi :: handler_t where
  "do_vnclip_wi = VRVOP (vguard (legal_narrow []) (on_vd (rvv_exec_narrow_shift_vi rvv_nop_vnclip)))"

section \<open>Reductions\<close>

definition do_vwredsumu_vs :: handler_t where
  "do_vwredsumu_vs = VRVOP (vguard legal_reduction (\<lambda>io. on_vd (rvv_exec_widen_reduction io False) io))"

definition do_vwredsum_vs :: handler_t where
  "do_vwredsum_vs = VRVOP (vguard legal_reduction (\<lambda>io. on_vd (rvv_exec_widen_reduction io True) io))"

definition do_vredsum_vs :: handler_t where
  "do_vredsum_vs = VRVOP (vguard legal_reduction (on_vd (rvv_exec_reduction rvv_op_add)))"

definition do_vredand_vs :: handler_t where
  "do_vredand_vs = VRVOP (vguard legal_reduction (on_vd (rvv_exec_reduction rvv_op_and)))"

definition do_vredor_vs :: handler_t where
  "do_vredor_vs = VRVOP (vguard legal_reduction (on_vd (rvv_exec_reduction rvv_op_or)))"

definition do_vredxor_vs :: handler_t where
  "do_vredxor_vs = VRVOP (vguard legal_reduction (on_vd (rvv_exec_reduction rvv_op_xor)))"

definition do_vredminu_vs :: handler_t where
  "do_vredminu_vs = VRVOP (vguard legal_reduction (on_vd (rvv_exec_reduction rvv_op_minu)))"

definition do_vredmin_vs :: handler_t where
  "do_vredmin_vs = VRVOP (vguard legal_reduction (on_vd (rvv_exec_reduction rvv_op_min)))"

definition do_vredmaxu_vs :: handler_t where
  "do_vredmaxu_vs = VRVOP (vguard legal_reduction (on_vd (rvv_exec_reduction rvv_op_maxu)))"

definition do_vredmax_vs :: handler_t where
  "do_vredmax_vs = VRVOP (vguard legal_reduction (on_vd (rvv_exec_reduction rvv_op_max)))"

definition do_vaaddu_vv :: handler_t where
  "do_vaaddu_vv = VRVOP (vguard (legal_data [vd, vs1, vs2]) (on_vd (rvv_exec_data_vv_stateful rvv_op_vaaddu)))"

definition do_vaaddu_vx :: handler_t where
  "do_vaaddu_vx = VRVOP (vguard (legal_data [vd, vs2]) (on_vd (rvv_exec_data_vx_stateful rvv_op_vaaddu)))"

definition do_vaadd_vv :: handler_t where
  "do_vaadd_vv = VRVOP (vguard (legal_data [vd, vs1, vs2]) (on_vd (rvv_exec_data_vv_stateful rvv_op_vaadd)))"

definition do_vaadd_vx :: handler_t where
  "do_vaadd_vx = VRVOP (vguard (legal_data [vd, vs2]) (on_vd (rvv_exec_data_vx_stateful rvv_op_vaadd)))"

definition do_vasubu_vv :: handler_t where
  "do_vasubu_vv = VRVOP (vguard (legal_data [vd, vs1, vs2]) (on_vd (rvv_exec_data_vv_stateful rvv_op_vasubu)))"

definition do_vasubu_vx :: handler_t where
  "do_vasubu_vx = VRVOP (vguard (legal_data [vd, vs2]) (on_vd (rvv_exec_data_vx_stateful rvv_op_vasubu)))"

definition do_vasub_vv :: handler_t where
  "do_vasub_vv = VRVOP (vguard (legal_data [vd, vs1, vs2]) (on_vd (rvv_exec_data_vv_stateful rvv_op_vasub)))"

definition do_vasub_vx :: handler_t where
  "do_vasub_vx = VRVOP (vguard (legal_data [vd, vs2]) (on_vd (rvv_exec_data_vx_stateful rvv_op_vasub)))"

section \<open>Slides and compression\<close>

definition do_vslide1up_vx :: handler_t where
  "do_vslide1up_vx = VRVOP (vguard (legal_permute [vs2]) (on_vd rvv_exec_vslide1up))"

definition do_vslide1down_vx :: handler_t where
  "do_vslide1down_vx = VRVOP (vguard (legal_data [vd, vs2]) (on_vd rvv_exec_vslide1down))"

definition do_vcompress_vm :: handler_t where
  "do_vcompress_vm = VRVOP (vguard legal_compress (on_vd rvv_exec_vcompress))"

section \<open>Mask logic\<close>

definition do_vmandn_mm :: handler_t where
  "do_vmandn_mm = VRVOP (vguard legal_unmasked (logical_act 0))"

definition do_vmand_mm :: handler_t where
  "do_vmand_mm = VRVOP (vguard legal_unmasked (logical_act 1))"

definition do_vmor_mm :: handler_t where
  "do_vmor_mm = VRVOP (vguard legal_unmasked (logical_act 2))"

definition do_vmxor_mm :: handler_t where
  "do_vmxor_mm = VRVOP (vguard legal_unmasked (logical_act 3))"

definition do_vmorn_mm :: handler_t where
  "do_vmorn_mm = VRVOP (vguard legal_unmasked (logical_act 4))"

definition do_vmnand_mm :: handler_t where
  "do_vmnand_mm = VRVOP (vguard legal_unmasked (logical_act 5))"

definition do_vmnor_mm :: handler_t where
  "do_vmnor_mm = VRVOP (vguard legal_unmasked (logical_act 6))"

definition do_vmxnor_mm :: handler_t where
  "do_vmxnor_mm = VRVOP (vguard legal_unmasked (logical_act 7))"

section \<open>Division and multiplication\<close>

definition do_vdivu_vv :: handler_t where
  "do_vdivu_vv = VRVOP (vguard (legal_data [vd, vs1, vs2]) (on_vd (rvv_exec_data_vv rvv_op_divu)))"

definition do_vdivu_vx :: handler_t where
  "do_vdivu_vx = VRVOP (vguard (legal_data [vd, vs2]) (on_vd (rvv_exec_data_vx rvv_op_divu)))"

definition do_vdiv_vv :: handler_t where
  "do_vdiv_vv = VRVOP (vguard (legal_data [vd, vs1, vs2]) (on_vd (rvv_exec_data_vv rvv_op_div)))"

definition do_vdiv_vx :: handler_t where
  "do_vdiv_vx = VRVOP (vguard (legal_data [vd, vs2]) (on_vd (rvv_exec_data_vx rvv_op_div)))"

definition do_vremu_vv :: handler_t where
  "do_vremu_vv = VRVOP (vguard (legal_data [vd, vs1, vs2]) (on_vd (rvv_exec_data_vv rvv_op_remu)))"

definition do_vremu_vx :: handler_t where
  "do_vremu_vx = VRVOP (vguard (legal_data [vd, vs2]) (on_vd (rvv_exec_data_vx rvv_op_remu)))"

definition do_vrem_vv :: handler_t where
  "do_vrem_vv = VRVOP (vguard (legal_data [vd, vs1, vs2]) (on_vd (rvv_exec_data_vv rvv_op_rem)))"

definition do_vrem_vx :: handler_t where
  "do_vrem_vx = VRVOP (vguard (legal_data [vd, vs2]) (on_vd (rvv_exec_data_vx rvv_op_rem)))"

definition do_vmulhu_vv :: handler_t where
  "do_vmulhu_vv = VRVOP (vguard (legal_data [vd, vs1, vs2]) (on_vd (rvv_exec_data_vv rvv_op_mulhu)))"

definition do_vmulhu_vx :: handler_t where
  "do_vmulhu_vx = VRVOP (vguard (legal_data [vd, vs2]) (on_vd (rvv_exec_data_vx rvv_op_mulhu)))"

definition do_vmul_vv :: handler_t where
  "do_vmul_vv = VRVOP (vdispatch vs2 by_vv op_mul)"

definition do_vmul_vx :: handler_t where
  "do_vmul_vx = VRVOP (vdispatch vs2 by_vx op_mul)"

definition do_vmulhsu_vv :: handler_t where
  "do_vmulhsu_vv = VRVOP (vguard (legal_data [vd, vs1, vs2]) (on_vd (rvv_exec_data_vv rvv_op_mulhsu)))"

definition do_vmulhsu_vx :: handler_t where
  "do_vmulhsu_vx = VRVOP (vguard (legal_data [vd, vs2]) (on_vd (rvv_exec_data_vx rvv_op_mulhsu)))"

definition do_vmulh_vv :: handler_t where
  "do_vmulh_vv = VRVOP (vguard (legal_data [vd, vs1, vs2]) (on_vd (rvv_exec_data_vv rvv_op_mulh)))"

definition do_vmulh_vx :: handler_t where
  "do_vmulh_vx = VRVOP (vguard (legal_data [vd, vs2]) (on_vd (rvv_exec_data_vx rvv_op_mulh)))"

definition do_vmadd_vv :: handler_t where
  "do_vmadd_vv = VRVOP (vguard (legal_data [vd, vs1, vs2]) (on_vd (rvv_exec_mac_vv rvv_op_vmadd)))"

definition do_vmadd_vx :: handler_t where
  "do_vmadd_vx = VRVOP (vguard (legal_data [vd, vs2]) (on_vd (rvv_exec_mac_vx rvv_op_vmadd)))"

definition do_vnmsub_vv :: handler_t where
  "do_vnmsub_vv = VRVOP (vguard (legal_data [vd, vs1, vs2]) (on_vd (rvv_exec_mac_vv rvv_op_vnmsub)))"

definition do_vnmsub_vx :: handler_t where
  "do_vnmsub_vx = VRVOP (vguard (legal_data [vd, vs2]) (on_vd (rvv_exec_mac_vx rvv_op_vnmsub)))"

definition do_vmacc_vv :: handler_t where
  "do_vmacc_vv = VRVOP (vguard (legal_data [vd, vs1, vs2]) (on_vd (rvv_exec_mac_vv rvv_op_vmacc)))"

definition do_vmacc_vx :: handler_t where
  "do_vmacc_vx = VRVOP (vguard (legal_data [vd, vs2]) (on_vd (rvv_exec_mac_vx rvv_op_vmacc)))"

definition do_vnmsac_vv :: handler_t where
  "do_vnmsac_vv = VRVOP (vguard (legal_data [vd, vs1, vs2]) (on_vd (rvv_exec_mac_vv rvv_op_vnmsac)))"

definition do_vnmsac_vx :: handler_t where
  "do_vnmsac_vx = VRVOP (vguard (legal_data [vd, vs2]) (on_vd (rvv_exec_mac_vx rvv_op_vnmsac)))"

section \<open>Widening and accumulation\<close>

definition do_vwaddu_vv :: handler_t where
  "do_vwaddu_vv = VRVOP (vguard (legal_widen [vs1, vs2]) (on_vd (rvv_exec_wide_narrow_vv rvv_wop_addu)))"

definition do_vwaddu_vx :: handler_t where
  "do_vwaddu_vx = VRVOP (vguard (legal_widen [vs2]) (on_vd (rvv_exec_wide_narrow_vx rvv_wop_addu)))"

definition do_vwadd_vv :: handler_t where
  "do_vwadd_vv = VRVOP (vguard (legal_widen [vs1, vs2]) (on_vd (rvv_exec_wide_narrow_vv rvv_wop_add)))"

definition do_vwadd_vx :: handler_t where
  "do_vwadd_vx = VRVOP (vguard (legal_widen [vs2]) (on_vd (rvv_exec_wide_narrow_vx rvv_wop_add)))"

definition do_vwsubu_vv :: handler_t where
  "do_vwsubu_vv = VRVOP (vguard (legal_widen [vs1, vs2]) (on_vd (rvv_exec_wide_narrow_vv rvv_wop_subu)))"

definition do_vwsubu_vx :: handler_t where
  "do_vwsubu_vx = VRVOP (vguard (legal_widen [vs2]) (on_vd (rvv_exec_wide_narrow_vx rvv_wop_subu)))"

definition do_vwsub_vv :: handler_t where
  "do_vwsub_vv = VRVOP (vguard (legal_widen [vs1, vs2]) (on_vd (rvv_exec_wide_narrow_vv rvv_wop_sub)))"

definition do_vwsub_vx :: handler_t where
  "do_vwsub_vx = VRVOP (vguard (legal_widen [vs2]) (on_vd (rvv_exec_wide_narrow_vx rvv_wop_sub)))"

definition do_vwaddu_wv :: handler_t where
  "do_vwaddu_wv = VRVOP (vguard legal_mixed_v (on_vd (rvv_exec_wide_mixed_vv rvv_wop_addu_mixed)))"

definition do_vwaddu_wx :: handler_t where
  "do_vwaddu_wx = VRVOP (vguard legal_mixed_x (on_vd (rvv_exec_wide_mixed_vx rvv_wop_addu_mixed)))"

definition do_vwadd_wv :: handler_t where
  "do_vwadd_wv = VRVOP (vguard legal_mixed_v (on_vd (rvv_exec_wide_mixed_vv rvv_wop_add_mixed)))"

definition do_vwadd_wx :: handler_t where
  "do_vwadd_wx = VRVOP (vguard legal_mixed_x (on_vd (rvv_exec_wide_mixed_vx rvv_wop_add_mixed)))"

definition do_vwsubu_wv :: handler_t where
  "do_vwsubu_wv = VRVOP (vguard legal_mixed_v (on_vd (rvv_exec_wide_mixed_vv rvv_wop_subu_mixed)))"

definition do_vwsubu_wx :: handler_t where
  "do_vwsubu_wx = VRVOP (vguard legal_mixed_x (on_vd (rvv_exec_wide_mixed_vx rvv_wop_subu_mixed)))"

definition do_vwsub_wv :: handler_t where
  "do_vwsub_wv = VRVOP (vguard legal_mixed_v (on_vd (rvv_exec_wide_mixed_vv rvv_wop_sub_mixed)))"

definition do_vwsub_wx :: handler_t where
  "do_vwsub_wx = VRVOP (vguard legal_mixed_x (on_vd (rvv_exec_wide_mixed_vx rvv_wop_sub_mixed)))"

definition do_vwmulu_vv :: handler_t where
  "do_vwmulu_vv = VRVOP (vguard (legal_widen [vs1, vs2]) (on_vd (rvv_exec_wide_narrow_vv rvv_wop_mulu)))"

definition do_vwmulu_vx :: handler_t where
  "do_vwmulu_vx = VRVOP (vguard (legal_widen [vs2]) (on_vd (rvv_exec_wide_narrow_vx rvv_wop_mulu)))"

definition do_vwmulsu_vv :: handler_t where
  "do_vwmulsu_vv = VRVOP (vguard (legal_widen [vs1, vs2]) (on_vd (rvv_exec_wide_narrow_vv rvv_wop_mulsu)))"

definition do_vwmulsu_vx :: handler_t where
  "do_vwmulsu_vx = VRVOP (vguard (legal_widen [vs2]) (on_vd (rvv_exec_wide_narrow_vx rvv_wop_mulsu)))"

definition do_vwmul_vv :: handler_t where
  "do_vwmul_vv = VRVOP (vguard (legal_widen [vs1, vs2]) (on_vd (rvv_exec_wide_narrow_vv rvv_wop_mul)))"

definition do_vwmul_vx :: handler_t where
  "do_vwmul_vx = VRVOP (vguard (legal_widen [vs2]) (on_vd (rvv_exec_wide_narrow_vx rvv_wop_mul)))"

definition do_vwmaccu_vv :: handler_t where
  "do_vwmaccu_vv = VRVOP (vguard (legal_widen [vs1, vs2]) (on_vd (rvv_exec_wide_mac_vv rvv_wop_mulu)))"

definition do_vwmaccu_vx :: handler_t where
  "do_vwmaccu_vx = VRVOP (vguard (legal_widen [vs2]) (on_vd (rvv_exec_wide_mac_vx rvv_wop_mulu)))"

definition do_vwmacc_vv :: handler_t where
  "do_vwmacc_vv = VRVOP (vguard (legal_widen [vs1, vs2]) (on_vd (rvv_exec_wide_mac_vv rvv_wop_mul)))"

definition do_vwmacc_vx :: handler_t where
  "do_vwmacc_vx = VRVOP (vguard (legal_widen [vs2]) (on_vd (rvv_exec_wide_mac_vx rvv_wop_mul)))"

definition do_vwmaccus_vx :: handler_t where
  "do_vwmaccus_vx = VRVOP (vguard (legal_widen [vs2]) (on_vd (rvv_exec_wide_mac_vx rvv_wop_mulus)))"

definition do_vwmaccsu_vv :: handler_t where
  "do_vwmaccsu_vv = VRVOP (vguard (legal_widen [vs1, vs2]) (on_vd (rvv_exec_wide_mac_vv rvv_wop_mulsu)))"

definition do_vwmaccsu_vx :: handler_t where
  "do_vwmaccsu_vx = VRVOP (vguard (legal_widen [vs2]) (on_vd (rvv_exec_wide_mac_vx rvv_wop_mulsu)))"

section \<open>Moves of element 0, masks and indices\<close>

definition do_vmv_s_x :: handler_t where
  "do_vmv_s_x = VRVOP (vguard legal_unmasked (\<lambda>io ir rv. succeed (rvv_exec_vmv_s_x rv ir)))"

definition do_vmv_x_s :: handler_t where
  "do_vmv_x_s = VRVOP (vguard legal_unmasked (\<lambda>io ir rv. succeed (rvv_exec_vmv_x_s rv ir)))"

definition do_vcpop_m :: handler_t where
  "do_vcpop_m = VRVOP (vguard legal_state (\<lambda>io ir rv.
    obind (ofold (\<lambda>elem count. obind (both_masks ir (vu rv) elem) (\<lambda>b. Inr (if b then count + 1 else count)))
             (elems 0 (csr_vl (vu rv))) (0 :: u32))
      (\<lambda>count. Inr (True, set_vstart 0 (set_X (rd ir) count rv)))))"

fun first_active :: "rv_insn_t \<Rightarrow> vunit_t \<Rightarrow> u32 list \<Rightarrow> u32 outcome" where
  "first_active ir u [] = Inr (- 1)"
| "first_active ir u (elem # es) =
    obind (both_masks ir u elem) (\<lambda>b. if b then Inr elem else first_active ir u es)"

definition do_vfirst_m :: handler_t where
  "do_vfirst_m = VRVOP (vguard legal_state (\<lambda>io ir rv.
    obind (first_active ir (vu rv) (elems 0 (csr_vl (vu rv))))
      (\<lambda>first. Inr (True, set_vstart 0 (set_X (rd ir) first rv)))))"

definition do_vmsbf_m :: handler_t where
  "do_vmsbf_m = VRVOP (vguard legal_state (on_rd (rvv_exec_mask_prefix 0)))"

definition do_vmsof_m :: handler_t where
  "do_vmsof_m = VRVOP (vguard legal_state (on_rd (rvv_exec_mask_prefix 1)))"

definition do_vmsif_m :: handler_t where
  "do_vmsif_m = VRVOP (vguard legal_state (on_rd (rvv_exec_mask_prefix 2)))"

definition do_viota_m :: handler_t where
  "do_viota_m = VRVOP (vguard legal_rd (on_rd rvv_exec_viota))"

definition do_vid_v :: handler_t where
  "do_vid_v = VRVOP (vguard (legal_data [vd]) (on_vd rvv_exec_vid))"

end
