(* ===== verification/VecConfig.thy ===== *)
theory VecConfig imports VecHandlers AluProps begin

text \<open>
  What the configuration instructions promise, and the geometry of the register groups that every
  element access rests on: a supported \<open>vtype\<close> has an element width of 8, 16 or 32 bits, a group of 1, 2, 4
  or 8 registers, and as many elements as fit into the group.
\<close>

section \<open>The supported configurations\<close>

lemma and7_cases: "(w AND 7) \<in> {0, 1, 2, 3, 4, 5, 6, 7}" for w :: u32
proof -
  have "w AND 7 = take_bit 3 w"
    by (simp add: word32_eq_iff less_32_all word_bits)
  then have "unat (w AND 7) < 8"
    using take_bit_nat_less_exp [of 3 "unat w"] by (simp add: unsigned_take_bit_eq)
  then have "unat (w AND 7) \<in> {0, 1, 2, 3, 4, 5, 6, 7}"
    by auto
  then show ?thesis
    by (auto simp: word_unat_eq_iff)
qed

lemma supported_cases:
  assumes "rvv_vtype_is_supported v"
  obtains "v AND 7 \<in> {0, 1, 2, 3}" "drop_bit 3 v AND 7 \<in> {0, 1, 2}"
  | "v AND 7 = 5" "drop_bit 3 v AND 7 \<in> {0, 1}"
  | "v AND 7 \<in> {6, 7}" "drop_bit 3 v AND 7 \<in> {0, 1, 2}"
proof -
  have l: "v AND 7 \<in> {0, 1, 2, 3, 5, 6, 7}" and s: "drop_bit 3 v AND 7 \<in> {0, 1, 2}"
    using assms and7_cases [of v] and7_cases [of "drop_bit 3 v"]
    by (auto simp: rvv_vtype_is_supported_def Let_def word_less_nat_alt)
  have "drop_bit 3 v AND 7 \<noteq> 2" if "v AND 7 = 5"
    using that assms by (auto simp: rvv_vtype_is_supported_def rvv_vlmax_def rvv_lmul_ratio_def rvv_sew_bits_def Let_def)
  then show ?thesis
    using that l s by blast
qed

text \<open>The geometry of a supported configuration, by computation in each case.\<close>

lemma supported_geometry:
  assumes "rvv_vtype_is_supported v"
  shows "rvv_sew_bits v \<in> {8, 16, 32}" "rvv_group_regs v \<in> {1, 2, 4, 8}"
    "0 < rvv_vlmax v" "unat (rvv_vlmax v) * unat (rvv_sew_bits v) \<le> 128 * unat (rvv_group_regs v)"
  using assms
  by (cases rule: supported_cases;
      auto simp: rvv_sew_bits_def rvv_group_regs_def rvv_vlmax_def rvv_lmul_ratio_def word_less_nat_alt word_le_nat_alt unat_div)+

lemma vlmax_exact:
  assumes "rvv_vtype_is_supported v" "rvv_lmul_ratio v = (num, den)"
  shows "unat (rvv_vlmax v) * unat (rvv_sew_bits v) * unat den = 128 * unat num"
  using assms
  by (cases rule: supported_cases;
      auto simp: rvv_sew_bits_def rvv_vlmax_def rvv_lmul_ratio_def word_le_nat_alt unat_div)+

section \<open>The invariant\<close>

text \<open>Between instructions the unit is either disabled with nothing to process, or it has a supported
  configuration and at most \<open>VLMAX\<close> elements.\<close>

definition vcfg_ok :: "vunit_t \<Rightarrow> bool" where
  "vcfg_ok u \<longleftrightarrow> csr_vtype u = RVV_VTYPE_VILL \<and> csr_vl u = 0
    \<or> rvv_vtype_is_supported (csr_vtype u) \<and> csr_vl u \<le> vlmax_of u"

lemma supported_no_vill: "rvv_vtype_is_supported v \<Longrightarrow> v AND RVV_VTYPE_VILL = 0"
  by (auto simp: rvv_vtype_is_supported_def word32_eq_iff less_32_all word_bits)

lemma vill_unsupported: "\<not> rvv_vtype_is_supported RVV_VTYPE_VILL"
  by (simp add: rvv_vtype_is_supported_def)

lemma require_valid_iff: "rvv_require_valid_state u \<longleftrightarrow> rvv_vtype_is_supported (csr_vtype u)"
  by (auto simp: rvv_require_valid_state_def supported_no_vill [simplified])

lemma reset_cfg_ok: "vcfg_ok (reset_vunit u)"
  by (simp add: vcfg_ok_def reset_vunit_def)

lemma compute_vl_min: "rvv_compute_vl avl vlmax = min avl vlmax"
  by (auto simp: rvv_compute_vl_def min_def)

lemma vu_set_X [simp]: "vu (set_X r v rv) = vu rv"
  by (simp add: set_X_def)

lemma vu_set_vu [simp]: "vu (set_vu f rv) = f (vu rv)"
  by (simp add: set_vu_def)

text \<open>What is asked for, what is left: the new \<open>vtype\<close> and \<open>vl\<close>.\<close>

definition vset_result :: "u32 \<Rightarrow> u32 \<Rightarrow> bool \<Rightarrow> vunit_t \<Rightarrow> u32 \<times> u32" where
  "vset_result vt avl keep u =
    (if rvv_vtype_is_supported vt \<and> \<not> keep then (vt, min avl (rvv_vlmax vt))
     else if rvv_vtype_is_supported vt \<and> rvv_vtype_is_supported (csr_vtype u) \<and> rvv_vlmax vt = vlmax_of u
     then (vt, csr_vl u)
     else (RVV_VTYPE_VILL, 0))"

lemma vset_result_ok:
  assumes "vcfg_ok u" "vset_result vt avl keep u = (t, l)"
  shows "vcfg_ok (u\<lparr>csr_vtype := t, csr_vl := l\<rparr>)"
  using assms by (auto simp: vset_result_def vcfg_ok_def vlmax_of_def vill_unsupported [simplified] split: if_splits)

lemma apply_vsetvl_result:
  assumes "vset_result vt avl keep (vu rv) = (t, l)"
  shows "rvv_apply_vsetvl r vt avl keep rv = set_X r l (rv\<lparr>vu := (vu rv)\<lparr>csr_vtype := t, csr_vl := l\<rparr>\<rparr>)"
  using assms
  by (auto simp: vset_result_def rvv_apply_vsetvl_def Let_def rvv_set_vill_def require_valid_iff compute_vl_min
      vlmax_of_def set_vu_def split: if_splits)

text \<open>The three instructions: the \<open>vtype\<close> they ask for, the length they ask for and whether they keep the
  current length. Without a length register the length is the largest number, or, when \<open>rd\<close> is \<open>x0\<close> too, the
  current \<open>vl\<close> is kept; \<open>VSETIVLI\<close> has its length in the field of \<open>rs1\<close>.\<close>

definition vset_table ::
    "(handler_t \<times> (rv_insn_t \<Rightarrow> riscv_t \<Rightarrow> u32) \<times> (rv_insn_t \<Rightarrow> riscv_t \<Rightarrow> u32) \<times> (rv_insn_t \<Rightarrow> bool)) list" where
  "vset_table =
    (let length_reg = (\<lambda>ir rv. if rs1 ir = 0 then 0xFFFFFFFF else X rv (rs1 ir)); keeps = (\<lambda>ir. rs1 ir = 0 \<and> rd ir = 0)
     in [(do_vsetvli, \<lambda>ir rv. zimm (vop ir), length_reg, keeps),
         (do_vsetivli, \<lambda>ir rv. zimm (vop ir), \<lambda>ir rv. ucast (rs1 ir), \<lambda>ir. False),
         (do_vsetvl, \<lambda>ir rv. X rv (rs2 ir), length_reg, keeps)])"

lemma vset_runs:
  assumes "(h, vt, avl, keep) \<in> set vset_table" "quiet rv"
  shows "h env ir c p rv =
    Inr (advance env (c + 1) (p + 4) (rvv_apply_vsetvl (rd ir) (vt ir rv) (avl ir rv) (keep ir) (rv\<lparr>PC := p\<rparr>)))"
proof -
  have "quiet (rvv_apply_vsetvl r t a k (rv\<lparr>PC := p\<rparr>))" for r t a k
    using assms(2) by (simp add: rvv_apply_vsetvl_def Let_def set_vu_def quiet_def)
  then show ?thesis
    using assms(1) unfolding vset_table_def Let_def list.set insert_iff prod.inject empty_iff
    by (elim disjE conjE FalseE)
      (simp_all add: do_vsetvli_def do_vsetivli_def do_vsetvl_def VRVOP_def RVOP_straight)
qed

text \<open>C32: the three configuration instructions, run in a state with nothing pending and a consistent vector
  unit. Whatever \<open>vtype\<close> and length they ask for, they advance by four bytes and one cycle, leave the vector
  unit in a consistent configuration and the destination register with the new \<open>vl\<close>, and change nothing
  else. A supported \<open>vtype\<close> is set with \<open>vl = min(AVL, VLMAX)\<close>; the form that keeps \<open>vl\<close> succeeds exactly when
  \<open>VLMAX\<close> stays the same; everything else disables the unit.\<close>

theorem vsetvl_contract:
  assumes "(h, vt, avl, keep) \<in> set vset_table" "quiet rv" "vcfg_ok (vu rv)"
  shows "\<exists>t l. h env ir c p rv = Inr (advance env (c + 1) (p + 4)
      (set_X (rd ir) l (rv\<lparr>PC := p, vu := (vu rv)\<lparr>csr_vtype := t, csr_vl := l\<rparr>\<rparr>))) \<and>
    vcfg_ok ((vu rv)\<lparr>csr_vtype := t, csr_vl := l\<rparr>) \<and>
    (if rvv_vtype_is_supported (vt ir rv) \<and> \<not> keep ir
     then t = vt ir rv \<and> l = min (avl ir rv) (rvv_vlmax (vt ir rv))
     else if rvv_vtype_is_supported (vt ir rv) \<and> rvv_vtype_is_supported (csr_vtype (vu rv))
       \<and> rvv_vlmax (vt ir rv) = vlmax_of (vu rv)
     then t = vt ir rv \<and> l = csr_vl (vu rv)
     else t = RVV_VTYPE_VILL \<and> l = 0)"
proof -
  obtain t l where tl: "vset_result (vt ir rv) (avl ir rv) (keep ir) (vu rv) = (t, l)"
    by fastforce
  then have "vset_result (vt ir rv) (avl ir rv) (keep ir) (vu (rv\<lparr>PC := p\<rparr>)) = (t, l)"
    by simp
  note run = vset_runs [OF assms(1, 2), of env ir c p, unfolded apply_vsetvl_result [OF this]]
  show ?thesis
    using run vset_result_ok [OF assms(3) tl] tl
    by (intro exI [of _ t] exI [of _ l]) (auto simp: vset_result_def split: if_splits)
qed

theorem vsetvl_contract_witness:
  "\<exists>rv'. do_vsetvl sample_env (zero_insn\<lparr>rd := 5, rs1 := 6, rs2 := 7\<rparr>) 0 0 (set_X 6 1000 (set_X 7 0xD3 sample_hart)) =
      Inr (Continue To_next 1 4, rv') \<and> csr_vl (vu rv') = 32 \<and> X rv' 5 = 32 \<and> csr_vtype (vu rv') = 0xD3"
proof -
  let ?rv = "set_X 6 1000 (set_X 7 0xD3 sample_hart)" and ?ir = "zero_insn\<lparr>rd := 5, rs1 := 6, rs2 := 7\<rparr>"
  have ok: "vcfg_ok (vu ?rv)" and q: "quiet ?rv"
    by (simp add: sample_hart_def reset_cfg_ok) (simp only: set_X_frame sample_quiet quiet_frame)
  have t: "(do_vsetvl, \<lambda>ir rv. X rv (rs2 ir), \<lambda>ir rv. if rs1 ir = 0 then 0xFFFFFFFF else X rv (rs1 ir),
      \<lambda>ir. rs1 ir = 0 \<and> rd ir = 0) \<in> set vset_table"
    by (simp add: vset_table_def Let_def)
  have s: "rvv_vtype_is_supported 0xD3" "min 1000 (rvv_vlmax 0xD3) = 32"
    by (simp_all add: rvv_vtype_is_supported_def rvv_vlmax_def rvv_lmul_ratio_def rvv_sew_bits_def)
  show ?thesis
    using vsetvl_contract [OF t q ok, of sample_env ?ir 0 0] s by (auto simp: advance_def)
qed

end
