(* ===== verification/VecLanes.thy ===== *)
theory VecLanes imports VecConfig begin

text \<open>
  The register file as a row of lanes. Under one element width the elements of all registers are
  numbered through, \<open>lane sew u n\<close> is element \<open>n\<close>; a register group is an interval of lanes. The accessors
  of the code read and write lanes, and a loop over elements writes an interval of them.
\<close>

section \<open>Lanes\<close>

definition epw :: "u32 \<Rightarrow> nat" where "epw sew = 32 div unat sew"

definition lane_word :: "u32 \<Rightarrow> nat \<Rightarrow> u32 \<times> u32" where
  "lane_word sew n = (of_nat (n div epw sew div 4), of_nat (n div epw sew mod 4))"

definition lane_shift :: "u32 \<Rightarrow> nat \<Rightarrow> nat" where
  "lane_shift sew n = (n mod epw sew) * unat sew"

definition lane :: "u32 \<Rightarrow> vunit_t \<Rightarrow> nat \<Rightarrow> u32" where
  "lane sew u n =
    (case lane_word sew n of (r, w) \<Rightarrow> drop_bit (lane_shift sew n) (vregs u r w) AND elem_mask sew)"

definition set_lane :: "u32 \<Rightarrow> nat \<Rightarrow> u32 \<Rightarrow> vunit_t \<Rightarrow> vunit_t" where
  "set_lane sew n v u =
    (case lane_word sew n of (r, w) \<Rightarrow>
      set_word r w ((vregs u r w AND NOT (push_bit (lane_shift sew n) (elem_mask sew)))
        OR push_bit (lane_shift sew n) (v AND elem_mask sew)) u)"

text \<open>The lane of an element of a group.\<close>

definition lane_of :: "u32 \<Rightarrow> u32 \<Rightarrow> u32 \<Rightarrow> nat" where
  "lane_of sew reg e = unat reg * (4 * epw sew) + unat e"

definition width_ok :: "u32 \<Rightarrow> bool" where
  "width_ok sew \<longleftrightarrow> sew \<in> {8, 16, 32}"

lemma width_cases:
  assumes "width_ok sew"
  obtains "sew = 8" "epw sew = 4" | "sew = 16" "epw sew = 2" | "sew = 32" "epw sew = 1"
  using assms by (auto simp: width_ok_def epw_def)

lemma split_word:
  fixes reg e :: u32
  assumes "unat reg * (4 * k) + unat e < 32 * (4 * k)" "k \<in> {1, 2, 4}"
  shows "of_nat ((unat reg * (4 * k) + unat e) div k div 4) = reg + e div of_nat k div 4"
    "of_nat ((unat reg * (4 * k) + unat e) div k mod 4) = e div of_nat k mod (4 :: u32)"
    "(unat reg * (4 * k) + unat e) mod k = unat (e mod of_nat k)"
    "reg + e div of_nat k div 4 < 32"
proof -
  have k: "0 < k" "unat (of_nat k :: u32) = k"
    using assms(2) by auto
  have d: "(unat reg * (4 * k) + unat e) div k = unat reg * 4 + unat e div k"
    using k by (simp add: mult.assoc [symmetric])
  have m: "unat (e div of_nat k div 4) = unat e div k div 4"
    using k by (simp add: unat_div)
  have "unat reg * 4 + unat e div k < 128"
    using assms(1) less_mult_imp_div_less [of "unat reg * (4 * k) + unat e" 128 k] d by simp
  then have "unat reg + unat e div k div 4 < 32"
    by simp
  then have s: "unat (reg + e div of_nat k div 4) = unat reg + unat e div k div 4"
    using m by (simp add: unat_word_ariths)
  show "of_nat ((unat reg * (4 * k) + unat e) div k div 4) = reg + e div of_nat k div 4"
  proof -
    have "(unat reg * (4 * k) + unat e) div k div 4 = unat (reg + e div of_nat k div 4)"
      using s d by simp
    then show ?thesis
      by (simp only: word_of_nat_eq_iff [symmetric] of_nat_unat ucast_id)
  qed
  show "of_nat ((unat reg * (4 * k) + unat e) div k mod 4) = e div of_nat k mod (4 :: u32)"
  proof -
    have "(unat reg * (4 * k) + unat e) div k mod 4 = unat (e div of_nat k mod (4 :: u32))"
      using d k by (simp add: unat_div unat_mod)
    then show ?thesis
      by (simp only: word_of_nat_eq_iff [symmetric] of_nat_unat ucast_id)
  qed
  show "(unat reg * (4 * k) + unat e) mod k = unat (e mod of_nat k)"
    using k by (simp add: unat_mod mult.assoc [symmetric])
  show "reg + e div of_nat k div 4 < 32"
    using s \<open>unat reg + unat e div k div 4 < 32\<close> by (simp add: word_less_nat_alt)
qed

lemma elem_place_lane:
  assumes "width_ok sew" "lane_of sew reg e < 128 * epw sew"
  shows "elem_place reg e sew =
    (case lane_word sew (lane_of sew reg e) of (r, w) \<Rightarrow> Inr (r, w, of_nat (lane_shift sew (lane_of sew reg e))))"
proof -
  have k: "epw sew \<in> {1, 2, 4}" "32 div sew = of_nat (epw sew)" "sew \<noteq> 0" "(of_nat (epw sew) :: u32) \<noteq> 0"
    using assms(1) by (auto simp: width_ok_def epw_def)
  have "e mod of_nat (epw sew) * sew = of_nat (unat (e mod of_nat (epw sew)) * unat sew)"
    by simp
  then show ?thesis
    using assms(2) k split_word [of reg "epw sew" e] 
    by (simp add: elem_place_def lane_word_def lane_shift_def lane_of_def Let_def)
qed

lemma lane_shift_small: "width_ok sew \<Longrightarrow> unat (of_nat (lane_shift sew n) :: u32) = lane_shift sew n"
proof -
  assume "width_ok sew"
  then have "lane_shift sew n < 32"
    by (rule width_cases) (use mod_less_divisor [of 4 n] mod_less_divisor [of 2 n] in \<open>auto simp: lane_shift_def\<close>)
  then show ?thesis
    by (simp add: unat_of_nat take_bit_nat_eq_self)
qed

lemma get_elem_lane:
  assumes "width_ok sew" "lane_of sew reg e < 128 * epw sew"
  shows "rvv_get_elem u reg e sew = Inr (lane sew u (lane_of sew reg e))"
  using elem_place_lane [OF assms] lane_shift_small [OF assms(1)]
  by (simp add: rvv_get_elem_def lane_def split: prod.splits)

lemma set_elem_lane:
  assumes "width_ok sew" "lane_of sew reg e < 128 * epw sew"
  shows "rvv_set_elem reg e sew v u = Inr (set_lane sew (lane_of sew reg e) v u)"
  using elem_place_lane [OF assms] lane_shift_small [OF assms(1)]
  by (simp add: rvv_set_elem_def set_lane_def Let_def split: prod.splits)

section \<open>Reading after writing\<close>

definition cut_elem :: "u32 \<Rightarrow> u32 \<Rightarrow> u32" where
  "cut_elem sew v = v AND elem_mask sew"

lemma lane_word_eq:
  assumes "width_ok sew" "m < 128 * epw sew" "n < 128 * epw sew"
  shows "lane_word sew m = lane_word sew n \<longleftrightarrow> m div epw sew = n div epw sew"
proof -
  have k: "m div epw sew < 128" "n div epw sew < 128"
    using assms by (auto simp: less_mult_imp_div_less)
  then have "m div epw sew div 4 < 2 ^ 32" "n div epw sew div 4 < 2 ^ 32"
    by auto
  then have "lane_word sew m = lane_word sew n \<longleftrightarrow>
    m div epw sew div 4 = n div epw sew div 4 \<and> m div epw sew mod 4 = n div epw sew mod 4"
    by (auto simp: lane_word_def word_of_nat_eq_iff take_bit_nat_eq_self)
  then show ?thesis
    by (metis mult_div_mod_eq)
qed

lemma elem_mask_mask: "width_ok sew \<Longrightarrow> elem_mask sew = mask (unat sew)"
  by (auto simp: width_ok_def elem_mask_def mask_eq_exp_minus_1)

lemma bit_elem_mask: "width_ok sew \<Longrightarrow> bit (elem_mask sew) i \<longleftrightarrow> i < unat sew"
proof -
  assume w: "width_ok sew"
  then have "unat sew \<le> 32"
    by (auto simp: width_ok_def)
  then show ?thesis
    by (simp only: elem_mask_mask [OF w] bit_mask_iff) auto
qed

lemma slots_apart:
  assumes "i < s" "b * s \<le> a * s + i" "a * s + i - b * s < s"
  shows "a = (b :: nat)"
proof -
  have "a * s < (b + 1) * s" "b * s < (a + 1) * s"
    using assms by (auto simp: algebra_simps)
  then have "a < b + 1" "b < a + 1"
    by (simp_all only: mult_less_cancel2)
  then show ?thesis
    by simp
qed

lemma shift_room: "width_ok sew \<Longrightarrow> i < unat sew \<Longrightarrow> lane_shift sew n + i < 32"
  by (erule width_cases) (use mod_less_divisor [of 4 n] mod_less_divisor [of 2 n] in \<open>auto simp: lane_shift_def\<close>)

lemma slot_bits:
  assumes "width_ok sew"
  shows "drop_bit (lane_shift sew m) ((w AND NOT (push_bit (lane_shift sew n) (elem_mask sew)))
      OR push_bit (lane_shift sew n) (v AND elem_mask sew)) AND elem_mask sew =
    (if m mod epw sew = n mod epw sew then cut_elem sew v
     else drop_bit (lane_shift sew m) w AND elem_mask sew)"
proof (rule bit_eqI)
  fix i
  have apart: "m mod epw sew = n mod epw sew"
    if "i < unat sew" "lane_shift sew n \<le> lane_shift sew m + i" "lane_shift sew m + i - lane_shift sew n < unat sew"
    using slots_apart [of i "unat sew" "n mod epw sew" "m mod epw sew"] that by (simp add: lane_shift_def)
  have same: "lane_shift sew m = lane_shift sew n" if "m mod epw sew = n mod epw sew"
    using that by (simp add: lane_shift_def)
  show "bit (drop_bit (lane_shift sew m) ((w AND NOT (push_bit (lane_shift sew n) (elem_mask sew)))
      OR push_bit (lane_shift sew n) (v AND elem_mask sew)) AND elem_mask sew) i =
    bit (if m mod epw sew = n mod epw sew then cut_elem sew v
     else drop_bit (lane_shift sew m) w AND elem_mask sew) i"
  proof (cases "i < unat sew")
    case True
    then show ?thesis
      using apart [OF True] same shift_room [OF assms True, of m]
      by (auto simp only: bit_and_iff bit_or_iff bit_not_iff bit_drop_bit_eq bit_push_bit_iff o_def
          bit_elem_mask [OF assms] cut_elem_def split: if_split)
        (auto simp: possible_bit_def cut_elem_def bit_and_iff bit_elem_mask [OF assms])
  next
    case False
    then show ?thesis
      by (simp add: bit_and_iff bit_elem_mask [OF assms] cut_elem_def)
  qed
qed

lemma lane_set_lane:
  assumes "width_ok sew" "m < 128 * epw sew" "n < 128 * epw sew"
  shows "lane sew (set_lane sew n v u) m = (if m = n then cut_elem sew v else lane sew u m)"
proof (cases "lane_word sew m = lane_word sew n")
  case True
  then have d: "m div epw sew = n div epw sew"
    using lane_word_eq [OF assms] by simp
  have "m = n \<longleftrightarrow> m mod epw sew = n mod epw sew"
    using d by (metis div_mult_mod_eq)
  then show ?thesis
    using True slot_bits [OF assms(1)]
    by (auto simp: lane_def set_lane_def set_word_def split: prod.splits)
next
  case False
  then have "m \<noteq> n" by auto
  then show ?thesis
    using False by (auto simp: lane_def set_lane_def set_word_def split: prod.splits)
qed

lemma vregs_set_lane:
  "vregs (set_lane sew n v u) = (\<lambda>r w. if (r, w) = lane_word sew n
      then (vregs u r w AND NOT (push_bit (lane_shift sew n) (elem_mask sew)))
        OR push_bit (lane_shift sew n) (v AND elem_mask sew) else vregs u r w)"
  by (cases "lane_word sew n") (simp add: set_lane_def set_word_def fun_eq_iff)

lemma set_lane_csrs [simp]:
  "csr_vstart (set_lane sew n v u) = csr_vstart u" "csr_vl (set_lane sew n v u) = csr_vl u"
  "csr_vtype (set_lane sew n v u) = csr_vtype u" "csr_vlenb (set_lane sew n v u) = csr_vlenb u"
  "csr_vxrm (set_lane sew n v u) = csr_vxrm u" "csr_vxsat (set_lane sew n v u) = csr_vxsat u"
  "csr_vcsr (set_lane sew n v u) = csr_vcsr u"
  by (auto simp: set_lane_def set_word_def split: prod.splits)

text \<open>The words of the registers are determined by their lanes.\<close>

lemma vregs_from_lanes:
  assumes "width_ok sew" "r < 32" "w < 4"
    and eq: "\<And>n. unat r * (4 * epw sew) \<le> n \<Longrightarrow> n < (unat r + 1) * (4 * epw sew) \<Longrightarrow> lane sew u n = lane sew u' n"
  shows "vregs u r w = vregs u' r w"
proof (rule bit_eqI)
  fix i
  assume "possible_bit TYPE(32 word) i"
  then have i: "i < 32" by simp
  define n where "n = (unat r * 4 + unat w) * epw sew + i div unat sew"
  have s: "unat sew * epw sew = 32" "0 < epw sew" "0 < unat sew"
    using assms(1) by (auto elim: width_cases)
  have q: "i div unat sew < epw sew"
    using i s by (metis less_mult_imp_div_less mult.commute)
  have w4: "unat w < 4"
    using assms(3) by (simp add: word_less_nat_alt)
  have nd: "n div epw sew = unat r * 4 + unat w" "n mod epw sew = i div unat sew"
    using q by (auto simp: n_def)
  then have word: "lane_word sew n = (r, w)" "lane_shift sew n = i div unat sew * unat sew"
    using w4 by (auto simp: lane_word_def lane_shift_def)
  have "unat r * (4 * epw sew) \<le> n" "n < (unat r + 1) * (4 * epw sew)"
  proof -
    show "unat r * (4 * epw sew) \<le> n"
      by (simp add: n_def algebra_simps)
    have "n < (unat r * 4 + unat w + 1) * epw sew"
      using q by (simp add: n_def algebra_simps)
    also have "\<dots> \<le> (unat r * 4 + 4) * epw sew"
      using w4 by (intro mult_right_mono) auto
    finally show "n < (unat r + 1) * (4 * epw sew)"
      by (simp add: algebra_simps)
  qed
  then have "bit (lane sew u n) (i mod unat sew) = bit (lane sew u' n) (i mod unat sew)"
    using eq by simp
  moreover have "bit (lane sew x n) (i mod unat sew) = bit (vregs x r w) i" for x
    using s word by (simp add: lane_def bit_and_iff bit_drop_bit_eq bit_elem_mask [OF assms(1)])
  ultimately show "bit (vregs u r w) i = bit (vregs u' r w) i"
    by simp
qed

section \<open>Rows of lanes\<close>

text \<open>Storage numbered through, in which a write trims its value and touches one place. A loop that writes
  the places of an interval in order leaves in each the value computed for it, whatever the loop reads
  from outside the part already written.\<close>

locale lane_row =
  fixes get :: "'s \<Rightarrow> nat \<Rightarrow> 'v"
    and put :: "nat \<Rightarrow> 'v \<Rightarrow> 's \<Rightarrow> 's"
    and trim :: "'v \<Rightarrow> 'v"
    and limit :: nat
  assumes get_put: "\<lbrakk>m < limit; n < limit\<rbrakk> \<Longrightarrow> get (put n v s) m = (if m = n then trim v else get s m)"
begin

definition written :: "'s \<Rightarrow> nat \<Rightarrow> (nat \<Rightarrow> 'v) \<Rightarrow> nat \<Rightarrow> nat \<Rightarrow> 's \<Rightarrow> bool" where
  "written s0 base val a b s \<longleftrightarrow>
    (\<forall>m<limit. get s m = (if base + a \<le> m \<and> m < base + b then val (m - base) else get s0 m))"

lemma written_self: "written s base val a a s"
  by (auto simp: written_def)

lemma written_put:
  assumes "written s0 base val a e s" "a \<le> e" "base + e < limit" "val e = trim v"
  shows "written s0 base val a (Suc e) (put (base + e) v s)"
  using assms by (auto simp: written_def get_put)

lemma written_keep:
  assumes "written s0 base val a e s" "a \<le> e" "val e = get s0 (base + e)"
  shows "written s0 base val a (Suc e) s"
  using assms by (auto simp: written_def less_Suc_eq)

lemma written_other:
  assumes "written s0 base val a e s" "m < limit" "m < base + a \<or> base + e \<le> m"
  shows "get s m = get s0 m"
  using assms by (auto simp: written_def)

lemma interval_loop:
  assumes "\<And>e s. \<lbrakk>a \<le> e; e < b; written s0 base val a e s; P s\<rbrakk>
      \<Longrightarrow> \<exists>t. step e s = Inr t \<and> written s0 base val a (Suc e) t \<and> P t"
    and "P s0" "a \<le> b"
  shows "\<exists>t. ofold step [a..<b] s0 = Inr t \<and> written s0 base val a b t \<and> P t"
  using assms(3, 1)
proof (induction b rule: dec_induct)
  case base
  then show ?case
    using \<open>P s0\<close> by (simp add: written_self)
next
  case (step n)
  then obtain t where "ofold step [a..<n] s0 = Inr t" "written s0 base val a n t" "P t"
    by (metis less_SucI)
  moreover from this step.prems [of n t] step.hyps obtain t' where
      "step n t = Inr t'" "written s0 base val a (Suc n) t'" "P t'"
    by auto
  ultimately show ?case
    using step.hyps by (auto simp: ofold_append)
qed

end

lemma lane_row_packed: "width_ok sew \<Longrightarrow> lane_row (lane sew) (set_lane sew) (cut_elem sew) (128 * epw sew)"
  by unfold_locales (rule lane_set_lane)

interpretation e8: lane_row "lane 8" "set_lane 8" "cut_elem 8" 512
  using lane_row_packed [of 8] by (simp add: width_ok_def epw_def)

interpretation e16: lane_row "lane 16" "set_lane 16" "cut_elem 16" 256
  using lane_row_packed [of 16] by (simp add: width_ok_def epw_def)

interpretation e32: lane_row "lane 32" "set_lane 32" "cut_elem 32" 128
  using lane_row_packed [of 32] by (simp add: width_ok_def epw_def)

end
