(* ===== verification/VecExecProps.thy ===== *)
theory VecExecProps imports VecLanes begin

text \<open>
  What the element loops compute: each element of the destination group is the operation applied to the
  elements of the sources, the old value or the agnostic one, as \<open>vstart\<close>, \<open>vl\<close>, the mask and the two
  policies say, and nothing else changes.
\<close>

section \<open>The mask\<close>

definition v_active :: "v_operands_t \<Rightarrow> vunit_t \<Rightarrow> nat \<Rightarrow> bool" where
  "v_active vo u e \<longleftrightarrow> vm vo \<noteq> 0 \<or> bit (vregs u 0 (of_nat (e div 32))) (e mod 32)"

lemma odd_bit0: "w AND 1 \<noteq> 0 \<longleftrightarrow> bit w 0" for w :: u32
  by (simp add: and_one_eq odd_iff_mod_2_eq_one bit_0)

lemma mask_place:
  assumes "e < 128"
  shows "drop_bit 5 (of_nat e :: u32) = of_nat (e div 32)" "unat (of_nat e AND 31 :: u32) = e mod 32"
    "(of_nat (e div 32) :: u32) < 4"
proof -
  have e: "unat (of_nat e :: u32) = e"
    using assms by (simp add: unat_of_nat take_bit_nat_eq_self)
  have "unat (drop_bit 5 (of_nat e :: u32)) = e div 32"
    using e by (simp add: drop_bit_eq_div unat_div)
  then show "drop_bit 5 (of_nat e :: u32) = of_nat (e div 32)"
    by (metis of_nat_unat ucast_id)
  have "(of_nat e AND 31 :: u32) = take_bit 5 (of_nat e)"
    by (simp add: word32_eq_iff less_32_all word_bits)
  then show "unat (of_nat e AND 31 :: u32) = e mod 32"
    using e by (simp add: unsigned_take_bit_eq take_bit_eq_mod unat_mod)
  show "(of_nat (e div 32) :: u32) < 4"
    using assms by (simp add: word_less_nat_alt unat_of_nat take_bit_nat_eq_self)
qed

lemma mask_get:
  assumes "e < 128" "reg < 32"
  shows "rvv_mask_get_bit u reg (of_nat e) = Inr (bit (vregs u reg (of_nat (e div 32))) (e mod 32))"
  using assms mask_place [OF assms(1)] by (simp add: rvv_mask_get_bit_def odd_bit0 bit_drop_bit_eq)

lemma mask_enabled: "e < 128 \<Longrightarrow> rvv_mask_enabled_for_elem u vo (of_nat e) = Inr (v_active vo u e)"
  by (simp add: rvv_mask_enabled_for_elem_def v_active_def mask_get)

section \<open>Loops over elements\<close>

lemma ofold_map: "ofold f (map g xs) s = ofold (\<lambda>x. f (g x)) xs s"
  by (induction xs arbitrary: s) (auto simp: obind_def split: sum.splits)

lemma ofold_elems: "ofold f (elems a b) s = ofold (\<lambda>n. f (of_nat n)) [unat a..<unat b] s"
  by (simp add: elems_def ofold_map)

text \<open>Everything but the words of the registers.\<close>

definition csrs :: "vunit_t \<Rightarrow> vunit_t" where
  "csrs u = u\<lparr>vregs := \<lambda>r w. if r < 32 \<and> w < 4 then 0 else vregs u r w\<rparr>"

lemma csrs_set_word: "r < 32 \<Longrightarrow> w < 4 \<Longrightarrow> csrs (set_word r w v u) = csrs u"
  by (auto simp: csrs_def set_word_def fun_eq_iff)

lemma lane_word_bound:
  assumes "n < 128 * epw sew" "lane_word sew n = (r, w)"
  shows "r < 32" "w < 4"
proof -
  have "n div epw sew < 128"
    using assms(1) by (simp add: less_mult_imp_div_less)
  then have "n div epw sew div 4 < 32" "n div epw sew mod 4 < 4"
    by auto
  then show "r < 32" "w < 4"
    using assms(2) by (auto simp: lane_word_def word_less_nat_alt unat_of_nat take_bit_nat_eq_self)
qed

lemma csrs_set_lane: "n < 128 * epw sew \<Longrightarrow> csrs (set_lane sew n v u) = csrs u"
  using lane_word_bound [of n sew] by (auto simp: set_lane_def csrs_set_word split: prod.splits)

text \<open>A vector unit is its lanes and the rest.\<close>

lemma vunit_eqI:
  assumes "width_ok sew" "\<And>n. n < 128 * epw sew \<Longrightarrow> lane sew u n = lane sew u' n" "csrs u = csrs u'"
  shows "u = u'"
proof -
  have "vregs u r w = vregs u' r w" for r w
  proof (cases "r < 32 \<and> w < 4")
    case True
    have "n < 128 * epw sew" if "n < (unat r + 1) * (4 * epw sew)" for n
    proof -
      have "(unat r + 1) * (4 * epw sew) \<le> 32 * (4 * epw sew)"
        using True by (intro mult_right_mono) (auto simp: word_less_nat_alt)
      then have "n < 32 * (4 * epw sew)"
        using that by (rule order.strict_trans2 [rotated])
      then show ?thesis by simp
    qed
    then show ?thesis
      using True assms(2) by (intro vregs_from_lanes [OF assms(1)]) auto
  next
    case False
    then show ?thesis
      using arg_cong [OF assms(3), of "\<lambda>u. vregs u r w"] by (simp add: csrs_def split: if_splits)
  qed
  moreover have "u\<lparr>vregs := x\<rparr> = u'\<lparr>vregs := x\<rparr>" for x
    using arg_cong [OF assms(3), of "\<lambda>u. u\<lparr>vregs := x\<rparr>"] by (simp add: csrs_def)
  ultimately show ?thesis
    by (metis (no_types) ext vunit_t.surjective vunit_t.update_convs(1))
qed

lemma csrs_start: "csrs (u\<lparr>csr_vstart := x\<rparr>) = (csrs u)\<lparr>csr_vstart := x\<rparr>"
  by (cases u) (simp add: csrs_def fun_eq_iff)

lemma csrs_eqD:
  assumes "csrs u = csrs u'"
  shows "csr_vl u = csr_vl u'" "csr_vtype u = csr_vtype u'" "csr_vlenb u = csr_vlenb u'"
    "csr_vstart u = csr_vstart u'"
  using arg_cong [OF assms, of csr_vl] arg_cong [OF assms, of csr_vtype] arg_cong [OF assms, of csr_vlenb]
    arg_cong [OF assms, of csr_vstart] by (simp_all add: csrs_def)

section \<open>The destination group\<close>

text \<open>A supported configuration and a destination it allows.\<close>

definition dest_ok :: "v_operands_t \<Rightarrow> u32 \<Rightarrow> vunit_t \<Rightarrow> bool" where
  "dest_ok vo dest u \<longleftrightarrow> rvv_vtype_is_supported (csr_vtype u) \<and> csr_vl u \<le> vlmax_of u
    \<and> dest < 32 \<and> rvv_validate_data_reg (csr_vtype u) dest \<and> (vm vo \<noteq> 0 \<or> dest \<noteq> 0)"

definition base_lane :: "u32 \<Rightarrow> u32 \<Rightarrow> nat" where
  "base_lane sew reg = lane_of sew reg 0"

lemma width_of_supported: "rvv_vtype_is_supported (csr_vtype u) \<Longrightarrow> width_ok (sew_of u)"
  using supported_geometry (1) [of "csr_vtype u"] by (simp add: width_ok_def sew_of_def)

lemma group_fits:
  assumes "rvv_vtype_is_supported (csr_vtype u)" "reg < 32" "rvv_validate_data_reg (csr_vtype u) reg"
  shows "base_lane (sew_of u) reg + unat (vlmax_of u) \<le> 128 * epw (sew_of u)"
    "\<exists>q. unat reg = unat (rvv_group_regs (csr_vtype u)) * q"
    "unat (vlmax_of u) \<le> 4 * epw (sew_of u) * unat (rvv_group_regs (csr_vtype u))"
    "unat (vlmax_of u) \<le> 128"
proof -
  note g = supported_geometry [OF assms(1)]
  let ?g = "rvv_group_regs (csr_vtype u)"
  have small: "unat ?g \<in> {1, 2, 4, 8}"
    using g(2) by auto
  have r: "unat reg < 32"
    using assms(2) by (simp add: word_less_nat_alt)
  have "unat (reg + ?g) = unat reg + unat ?g"
    using small r by (subst unat_word_ariths) auto
  then have fits: "unat reg + unat ?g \<le> 32" "?g = 1 \<or> reg mod ?g = 0"
    using assms(3) by (auto simp: rvv_validate_data_reg_def Let_def word_less_nat_alt split: if_splits)
  show q: "\<exists>q. unat reg = unat ?g * q"
  proof (cases "?g = 1")
    case False
    then have "unat reg mod unat ?g = 0"
      using fits(2) by (metis unat_mod unat_0)
    then show ?thesis by (metis mod_0_imp_dvd dvd_def)
  qed simp
  show lim: "unat (vlmax_of u) \<le> 4 * epw (sew_of u) * unat ?g"
    using g(1,4) by (auto simp: vlmax_of_def sew_of_def epw_def)
  show "base_lane (sew_of u) reg + unat (vlmax_of u) \<le> 128 * epw (sew_of u)"
  proof -
    have "base_lane (sew_of u) reg + unat (vlmax_of u) \<le> (unat reg + unat ?g) * (4 * epw (sew_of u))"
      using lim by (simp add: base_lane_def lane_of_def algebra_simps)
    also have "\<dots> \<le> 32 * (4 * epw (sew_of u))"
      using fits(1) by (intro mult_right_mono) auto
    finally show ?thesis by simp
  qed
  show "unat (vlmax_of u) \<le> 128"
    using assms(1) by (cases rule: supported_cases)
      (auto simp: vlmax_of_def rvv_vlmax_def rvv_lmul_ratio_def rvv_sew_bits_def word_le_nat_alt unat_div)
qed

text \<open>Lanes of two aligned groups with one element width meet only at the same element.\<close>

lemma aligned_lanes:
  assumes "lane_of sew d e = lane_of sew s f" "unat e < 4 * epw sew * g" "unat f < 4 * epw sew * g"
    "unat d = g * p" "unat s = g * q"
  shows "unat e = unat f \<and> d = s"
proof -
  have "p * (4 * epw sew * g) + unat e = q * (4 * epw sew * g) + unat f"
    using assms(1,4,5) by (simp add: lane_of_def algebra_simps)
  then have "p = q \<and> unat e = unat f"
    using assms(2,3) by (metis add.commute div_mult_self1_is_m div_mult_self3 div_less mod_less mod_mult_self3 add_0 gr_implies_not0 less_nat_zero_code)
  then show ?thesis
    using assms(4,5) by (simp add: word_unat_eq_iff)
qed

section \<open>The loop of data results\<close>

lemma lane_of_nat: "e < 2 ^ 32 \<Longrightarrow> lane_of sew dest (of_nat e) = base_lane sew dest + e"
  by (simp add: lane_of_def base_lane_def unat_of_nat take_bit_nat_eq_self)

lemma fill_cut: "width_ok sew \<Longrightarrow> cut_elem sew (rvv_data_fill sew) = elem_mask sew"
  by (auto simp: width_ok_def cut_elem_def rvv_data_fill_def elem_mask_def)

lemma cut_lane [simp]: "cut_elem sew (lane sew u n) = lane sew u n"
  by (simp add: cut_elem_def lane_def and.assoc split: prod.splits)

text \<open>The value of element \<open>e\<close> after the loop, when the operation yields \<open>v e\<close> for an active element.\<close>

definition data_result :: "v_operands_t \<Rightarrow> u32 \<Rightarrow> (nat \<Rightarrow> u32) \<Rightarrow> vunit_t \<Rightarrow> nat \<Rightarrow> u32" where
  "data_result vo dest v u e =
    (let sew = sew_of u; old = lane sew u (base_lane sew dest + e)
     in if e < unat (csr_vl u)
        then (if e < unat (csr_vstart u) then old
              else if v_active vo u e then cut_elem sew (v e)
              else if vma u then elem_mask sew else old)
        else if vta u then elem_mask sew else old)"

text \<open>The unit after a loop: the lanes of the group hold \<open>r\<close>, all others what they held.\<close>

definition group_is :: "u32 \<Rightarrow> nat \<Rightarrow> nat \<Rightarrow> (nat \<Rightarrow> u32) \<Rightarrow> vunit_t \<Rightarrow> vunit_t \<Rightarrow> bool" where
  "group_is sew base n r u u' \<longleftrightarrow>
    (\<forall>m < 128 * epw sew. lane sew u' m = (if base \<le> m \<and> m < base + n then r (m - base) else lane sew u m))"

abbreviation written_lanes :: "u32 \<Rightarrow> vunit_t \<Rightarrow> nat \<Rightarrow> (nat \<Rightarrow> u32) \<Rightarrow> nat \<Rightarrow> nat \<Rightarrow> vunit_t \<Rightarrow> bool" where
  "written_lanes sew \<equiv> lane_row.written (lane sew) (128 * epw sew)"

lemma v_active_kept:
  assumes "width_ok sew" "vm vo \<noteq> 0 \<or> 4 * epw sew \<le> base" "e < 128"
    "written_lanes sew u0 base v a b u"
  shows "v_active vo u e = v_active vo u0 e"
proof (cases "vm vo = 0")
  case True
  have "vregs u 0 w = vregs u0 0 w" if "w < 4" for w
    using that assms(2,4) True
    by (intro vregs_from_lanes [OF assms(1)])
      (auto simp: lane_row.written_def [OF lane_row_packed [OF assms(1)]])
  then show ?thesis
    using mask_place [OF assms(3)] by (simp add: v_active_def)
qed (simp add: v_active_def)

lemma dest_base:
  assumes "dest_ok vo dest u"
  shows "vm vo \<noteq> 0 \<or> 4 * epw (sew_of u) \<le> base_lane (sew_of u) dest"
  using assms by (auto simp: dest_ok_def base_lane_def lane_of_def word_neq_0_conv word_less_nat_alt)

lemma body_loop_lanes:
  assumes ok: "dest_ok vo dest u0"
    and f: "\<And>e u. \<lbrakk>e < unat (csr_vl u0); csrs u = csrs u0;
      \<forall>m < 128 * epw (sew_of u0). m < base_lane (sew_of u0) dest \<or> base_lane (sew_of u0) dest + e \<le> m
         \<longrightarrow> lane (sew_of u0) u m = lane (sew_of u0) u0 m\<rbrakk> \<Longrightarrow> f (of_nat e) u = Inr (v e, u)"
  defines "sew \<equiv> sew_of u0"
  shows "\<exists>u. body_loop vo (fill_elem dest sew) (\<lambda>elem u. obind (f elem u) (\<lambda>(x, u). rvv_set_elem dest elem sew x u)) u0 = Inr u
    \<and> written_lanes sew u0 (base_lane sew dest) (data_result vo dest v u0)
        (min (unat (csr_vstart u0)) (unat (csr_vl u0))) (unat (csr_vl u0)) u
    \<and> csrs u = csrs u0"
proof -
  have sup: "rvv_vtype_is_supported (csr_vtype u0)" and dest: "dest < 32" "rvv_validate_data_reg (csr_vtype u0) dest"
    and vl: "unat (csr_vl u0) \<le> unat (vlmax_of u0)"
    using ok by (auto simp: dest_ok_def word_le_nat_alt)
  have w: "width_ok sew"
    using width_of_supported [OF sup] by (simp add: sew_def)
  note row = lane_row_packed [OF w]
  define base where "base = base_lane sew dest"
  define b where "b = unat (csr_vl u0)"
  define a where "a = min (unat (csr_vstart u0)) b"
  have limit: "base + e < 128 * epw sew" "e < 128" if "e < b" for e
    using that vl group_fits (1,4) [OF sup dest] by (auto simp: b_def base_def sew_def)
  have set: "rvv_set_elem dest (of_nat e) sew x u = Inr (set_lane sew (base + e) x u)" if "e < b" for e x u
    using limit [OF that] set_elem_lane [OF w, of dest "of_nat e"] by (simp add: lane_of_nat base_def)
  let ?act = "\<lambda>elem u. obind (f elem u) (\<lambda>(x, u). rvv_set_elem dest elem sew x u)"
  let ?step = "\<lambda>e u. obind (rvv_mask_enabled_for_elem u vo (of_nat e)) (\<lambda>on.
    if on then ?act (of_nat e) u else if vma u0 then fill_elem dest sew (of_nat e) u else Inr u)"
  have "\<exists>t. ofold ?step [a..<b] u0 = Inr t \<and> written_lanes sew u0 base (data_result vo dest v u0) a b t
    \<and> csrs t = csrs u0"
  proof (rule lane_row.interval_loop [OF row])
    fix e u
    assume e: "a \<le> e" "e < b" and wr: "written_lanes sew u0 base (data_result vo dest v u0) a e u"
      and cs: "csrs u = csrs u0"
    have on: "rvv_mask_enabled_for_elem u vo (of_nat e) = Inr (v_active vo u0 e)"
      using mask_enabled v_active_kept [OF w _ limit(2) [OF e(2)] wr] dest_base [OF ok] limit(2) [OF e(2)]
      by (simp add: base_def sew_def)
    have started: "\<not> e < unat (csr_vstart u0)"
      using e by (auto simp: a_def)
    have untouched: "\<forall>m < 128 * epw sew. m < base \<or> base + e \<le> m \<longrightarrow> lane sew u m = lane sew u0 m"
      using lane_row.written_other [OF row wr] by auto
    have fe: "f (of_nat e) u = Inr (v e, u)"
      using f [OF _ cs] untouched e(2) by (simp add: base_def sew_def b_def)
    show "\<exists>t. ?step e u = Inr t \<and> written_lanes sew u0 base (data_result vo dest v u0) a (Suc e) t \<and> csrs t = csrs u0"
    proof (cases "v_active vo u0 e")
      case True
      then have "data_result vo dest v u0 e = cut_elem sew (v e)"
        using started e by (simp add: data_result_def b_def sew_def)
      then show ?thesis
        using True on fe set [OF e(2)] cs lane_row.written_put [OF row wr e(1) limit(1) [OF e(2)]]
          csrs_set_lane [OF limit(1) [OF e(2)]] by simp
    next
      case False
      show ?thesis
      proof (cases "vma u0")
        case True
        then have "data_result vo dest v u0 e = cut_elem sew (rvv_data_fill sew)"
          using False started e fill_cut [OF w] by (simp add: data_result_def b_def sew_def)
        then show ?thesis
          using False True on set [OF e(2)] cs lane_row.written_put [OF row wr e(1) limit(1) [OF e(2)]]
            csrs_set_lane [OF limit(1) [OF e(2)]] by (simp add: fill_elem_def)
      next
        case F: False
        then have "data_result vo dest v u0 e = lane sew u0 (base + e)"
          using False started e by (simp add: data_result_def b_def sew_def base_def Let_def)
        then show ?thesis
          using False F on cs lane_row.written_keep [OF row wr e(1)] by simp
      qed
    qed
  qed (auto simp: a_def)
  moreover have "[unat (csr_vstart u0)..<b] = [a..<b]"
    by (auto simp: a_def min_def)
  ultimately show ?thesis
    by (simp add: body_loop_def ofold_elems base_def b_def a_def)
qed

lemma fill_loop_lanes:
  assumes sup: "rvv_vtype_is_supported (csr_vtype u0)" and dest: "dest < 32" "rvv_validate_data_reg (csr_vtype u0) dest"
    and le: "a \<le> b" "b \<le> unat (vlmax_of u0)"
  defines "sew \<equiv> sew_of u0"
  shows "\<exists>t. ofold (\<lambda>e. fill_elem dest sew (of_nat e)) [a..<b] u = Inr t
    \<and> written_lanes sew u (base_lane sew dest) (\<lambda>_. elem_mask sew) a b t \<and> csrs t = csrs u"
proof -
  have w: "width_ok sew"
    using width_of_supported [OF sup] by (simp add: sew_def)
  note row = lane_row_packed [OF w]
  show ?thesis
  proof (rule lane_row.interval_loop [OF row])
    fix e s
    assume e: "a \<le> e" "e < b" and wr: "written_lanes sew u (base_lane sew dest) (\<lambda>_. elem_mask sew) a e s"
      and cs: "csrs s = csrs u"
    have lim: "base_lane sew dest + e < 128 * epw sew" "e < 2 ^ 32"
      using e le group_fits (1,4) [OF sup dest] by (auto simp: sew_def)
    have "fill_elem dest sew (of_nat e) s = Inr (set_lane sew (base_lane sew dest + e) (rvv_data_fill sew) s)"
      using set_elem_lane [OF w, of dest "of_nat e"] lim by (simp add: fill_elem_def lane_of_nat)
    then show "\<exists>t. fill_elem dest sew (of_nat e) s = Inr t
      \<and> written_lanes sew u (base_lane sew dest) (\<lambda>_. elem_mask sew) a (Suc e) t \<and> csrs t = csrs u"
      using cs lane_row.written_put [OF row wr e(1) lim(1), of "rvv_data_fill sew"] fill_cut [OF w] csrs_set_lane [OF lim(1)] by simp
  qed (use le in auto)
qed

lemma written_group:
  assumes "width_ok sew"
    and "written_lanes sew u base r a n u'" "\<And>e. e < a \<Longrightarrow> r e = lane sew u (base + e)"
  shows "group_is sew base n r u u'"
  using assms(2,3) by (auto simp: group_is_def lane_row.written_def [OF lane_row_packed [OF assms(1)]])

lemma written_tail:
  assumes "width_ok sew" "b \<le> n"
    and "group_is sew base b r u u1" "written_lanes sew u1 base (\<lambda>_. c) b n u2"
    and "\<And>e. b \<le> e \<Longrightarrow> e < n \<Longrightarrow> r e = c"
  shows "group_is sew base n r u u2"
  using assms(2-5) by (auto simp: group_is_def lane_row.written_def [OF lane_row_packed [OF assms(1)]])

lemma group_extend:
  assumes "group_is sew base b r u u'" "\<And>e. b \<le> e \<Longrightarrow> e < n \<Longrightarrow> r e = lane sew u (base + e)" "b \<le> n"
  shows "group_is sew base n r u u'"
  using assms by (auto simp: group_is_def)

lemma finish_lanes: "lane sew (u\<lparr>csr_vstart := x\<rparr>) m = lane sew u m"
  by (simp add: lane_def)

lemma data_loop_lanes:
  assumes ok: "dest_ok vo dest u0"
    and f: "\<And>e u. \<lbrakk>e < unat (csr_vl u0); csrs u = csrs u0;
      \<forall>m < 128 * epw (sew_of u0). m < base_lane (sew_of u0) dest \<or> base_lane (sew_of u0) dest + e \<le> m
         \<longrightarrow> lane (sew_of u0) u m = lane (sew_of u0) u0 m\<rbrakk> \<Longrightarrow> f (of_nat e) u = Inr (v e, u)"
  defines "sew \<equiv> sew_of u0"
  shows "\<exists>u'. data_loop vo dest f u0 = Inr u'
    \<and> group_is sew (base_lane sew dest) (unat (vlmax_of u0)) (data_result vo dest v u0) u0 u'
    \<and> csrs u' = csrs (u0\<lparr>csr_vstart := 0\<rparr>)"
proof -
  have sup: "rvv_vtype_is_supported (csr_vtype u0)" and dest: "dest < 32" "rvv_validate_data_reg (csr_vtype u0) dest"
    and vl: "unat (csr_vl u0) \<le> unat (vlmax_of u0)"
    using ok by (auto simp: dest_ok_def word_le_nat_alt)
  have w: "width_ok sew"
    using width_of_supported [OF sup] by (simp add: sew_def)
  define base where "base = base_lane sew dest"
  define r where "r = data_result vo dest v u0"
  obtain u1 where u1: "body_loop vo (fill_elem dest sew) (\<lambda>elem u. obind (f elem u) (\<lambda>(x, u). rvv_set_elem dest elem sew x u)) u0 = Inr u1"
      and w1: "written_lanes sew u0 base r (min (unat (csr_vstart u0)) (unat (csr_vl u0))) (unat (csr_vl u0)) u1"
      and c1: "csrs u1 = csrs u0"
    using body_loop_lanes [where v = v and f = f, OF ok f] unfolding sew_def base_def r_def by blast
  have g1: "group_is sew base (unat (csr_vl u0)) r u0 u1"
    using w1 by (rule written_group [OF w]) (simp add: r_def data_result_def base_def sew_def Let_def)
  have same: "vta u1 = vta u0" "csr_vl u1 = csr_vl u0" "vlmax_of u1 = vlmax_of u0"
    using csrs_eqD [OF c1] by (auto simp: vta_def vlmax_of_def)
  obtain u2 where u2: "tail_loop (fill_elem dest sew) u1 = Inr u2" "csrs u2 = csrs u0"
      and g2: "group_is sew base (unat (vlmax_of u0)) r u0 u2"
  proof (cases "vta u0")
    case True
    obtain t where t: "ofold (\<lambda>e. fill_elem dest sew (of_nat e)) [unat (csr_vl u0)..<unat (vlmax_of u0)] u1 = Inr t"
        "written_lanes sew u1 base (\<lambda>_. elem_mask sew) (unat (csr_vl u0)) (unat (vlmax_of u0)) t" "csrs t = csrs u1"
      using fill_loop_lanes [OF sup dest vl order_refl, of u1] by (auto simp: sew_def base_def)
    have "group_is sew base (unat (vlmax_of u0)) r u0 t"
      using w vl g1 t(2) by (rule written_tail) (use True in \<open>simp add: r_def data_result_def sew_def Let_def\<close>)
    then show ?thesis
      using that t c1 True by (simp add: tail_loop_def same ofold_elems)
  next
    case False
    then show ?thesis
      using that [of u1] c1 g1 vl group_extend
      by (simp add: tail_loop_def same group_extend r_def data_result_def base_def sew_def Let_def)
  qed
  have "data_loop vo dest f u0 = Inr (u2\<lparr>csr_vstart := 0\<rparr>)"
    using u1 u2 by (simp add: data_loop_def sew_def Let_def finish_def)
  moreover have "csrs (u2\<lparr>csr_vstart := 0\<rparr>) = csrs (u0\<lparr>csr_vstart := 0\<rparr>)"
    using u2(2) by (simp add: csrs_start)
  ultimately show ?thesis
    using g2 by (auto simp: group_is_def finish_lanes base_def r_def)
qed

section \<open>Operands\<close>

text \<open>Element \<open>e\<close> of the group an operand names.\<close>

definition element :: "rv_insn_t \<Rightarrow> vunit_t \<Rightarrow> operand_t \<Rightarrow> nat \<Rightarrow> u32" where
  "element ir u r e = lane (sew_of u) u (base_lane (sew_of u) (opreg r ir) + e)"

text \<open>An element not yet computed is read from outside the part already written.\<close>

lemma source_outside:
  assumes ok: "dest_ok vo dest u0" and src: "rvv_validate_data_reg (csr_vtype u0) s" "s < 32"
    and e: "b \<le> e" "e < unat (vlmax_of u0)"
  shows "base_lane (sew_of u0) s + e < base_lane (sew_of u0) dest
    \<or> base_lane (sew_of u0) dest + b \<le> base_lane (sew_of u0) s + e"
proof (rule ccontr)
  let ?sew = "sew_of u0" let ?g = "unat (rvv_group_regs (csr_vtype u0))"
  assume "\<not> ?thesis"
  then obtain f where f: "f < b" "base_lane ?sew dest + f = base_lane ?sew s + e"
    by (metis add.commute add_less_cancel_left le_Suc_ex not_less)
  have sup: "rvv_vtype_is_supported (csr_vtype u0)" and dest: "dest < 32" "rvv_validate_data_reg (csr_vtype u0) dest"
    using ok by (auto simp: dest_ok_def)
  note fs = group_fits [OF sup src(2,1)] and fd = group_fits [OF sup dest]
  have small: "e < 2 ^ 32" "f < 2 ^ 32"
    using e f(1) fs(4) by auto
  obtain p q where pq: "unat dest = ?g * p" "unat s = ?g * q"
    using fs(2) fd(2) by blast
  have "unat (of_nat f :: u32) = unat (of_nat e :: u32) \<and> dest = s"
  proof (rule aligned_lanes)
    show "lane_of ?sew dest (of_nat f) = lane_of ?sew s (of_nat e)"
      using f small by (simp add: lane_of_nat)
    show "unat (of_nat f :: u32) < 4 * epw ?sew * ?g" "unat (of_nat e :: u32) < 4 * epw ?sew * ?g"
      using f(1) e fs(3) small by (auto simp: unat_of_nat take_bit_nat_eq_self)
  qed (use pq in auto)
  then show False
    using f(1) e(1) small by (simp add: unat_of_nat take_bit_nat_eq_self)
qed

lemma source_element:
  assumes ok: "dest_ok vo dest u0" and src: "data_reg ir u0 r" "opreg r ir < 32"
    and e: "e < unat (csr_vl u0)"
    and same: "\<forall>m < 128 * epw (sew_of u0). m < base_lane (sew_of u0) dest \<or> base_lane (sew_of u0) dest + e \<le> m
         \<longrightarrow> lane (sew_of u0) u m = lane (sew_of u0) u0 m"
  shows "rvv_get_elem u (opreg r ir) (of_nat e) (sew_of u0) = Inr (element ir u0 r e)"
proof -
  let ?sew = "sew_of u0"
  have sup: "rvv_vtype_is_supported (csr_vtype u0)" and vl: "e < unat (vlmax_of u0)"
    using ok e by (auto simp: dest_ok_def word_le_nat_alt)
  have reg: "rvv_validate_data_reg (csr_vtype u0) (opreg r ir)"
    using src by (simp add: data_reg_def)
  have w: "width_ok ?sew"
    by (rule width_of_supported [OF sup])
  note fs = group_fits [OF sup src(2) reg]
  have small: "e < 2 ^ 32" and lim: "base_lane ?sew (opreg r ir) + e < 128 * epw ?sew"
    using vl fs(1,4) by auto
  have "lane ?sew u (base_lane ?sew (opreg r ir) + e) = lane ?sew u0 (base_lane ?sew (opreg r ir) + e)"
    using same lim source_outside [OF ok reg src(2) order_refl vl] by blast
  then show ?thesis
    using get_elem_lane [OF w, of "opreg r ir" "of_nat e"] lim small by (simp add: lane_of_nat element_def)
qed

text \<open>The second operand of the three forms.\<close>

definition second_v :: "rv_insn_t \<Rightarrow> riscv_t \<Rightarrow> nat \<Rightarrow> u32" where
  "second_v ir rv = element ir (vu rv) vs1"

definition second_x :: "rv_insn_t \<Rightarrow> riscv_t \<Rightarrow> nat \<Rightarrow> u32" where
  "second_x ir rv e = rvv_trunc_elem (X rv (rs1 ir)) (sew_in rv)"

definition second_i :: "rv_insn_t \<Rightarrow> riscv_t \<Rightarrow> nat \<Rightarrow> u32" where
  "second_i ir rv e = rvv_trunc_elem (imm ir) (sew_in rv)"

text \<open>The outcome of an element-wise instruction that computes \<open>v e\<close> for element \<open>e\<close>.\<close>

definition computes :: "rv_insn_t \<Rightarrow> riscv_t \<Rightarrow> (nat \<Rightarrow> u32) \<Rightarrow> riscv_t \<Rightarrow> bool" where
  "computes ir rv v rv' \<longleftrightarrow> (\<exists>u'. rv' = rv\<lparr>vu := u'\<rparr>
    \<and> group_is (sew_in rv) (base_lane (sew_in rv) (opreg vd ir)) (unat (vlmax_of (vu rv)))
        (data_result (vop ir) (opreg vd ir) v (vu rv)) (vu rv) u'
    \<and> csrs u' = csrs ((vu rv)\<lparr>csr_vstart := 0\<rparr>))"

lemma exec_data_computes:
  assumes ok: "dest_ok (vop ir) (opreg vd ir) (vu rv)" and src: "data_reg ir (vu rv) vs2" "opreg vs2 ir < 32"
    and rhs: "\<And>e u. \<lbrakk>e < unat (csr_vl (vu rv)); csrs u = csrs (vu rv);
      \<forall>m < 128 * epw (sew_in rv). m < base_lane (sew_in rv) (opreg vd ir) \<or> base_lane (sew_in rv) (opreg vd ir) + e \<le> m
         \<longrightarrow> lane (sew_in rv) u m = lane (sew_in rv) (vu rv) m\<rbrakk> \<Longrightarrow> rhs ir rv (sew_in rv) (of_nat e) u = Inr (b e)"
  shows "\<exists>rv'. exec_data rhs f rv ir (opreg vd ir) = Inr rv'
    \<and> computes ir rv (\<lambda>e. f (element ir (vu rv) vs2 e) (b e) (sew_in rv)) rv'"
proof -
  let ?v = "\<lambda>e. f (element ir (vu rv) vs2 e) (b e) (sew_in rv)"
  have "\<exists>u'. data_loop (vop ir) (opreg vd ir) (two_sources rhs ir rv (sew_in rv) (\<lambda>a b. f a b (sew_in rv))) (vu rv) = Inr u'
    \<and> group_is (sew_of (vu rv)) (base_lane (sew_of (vu rv)) (opreg vd ir)) (unat (vlmax_of (vu rv)))
        (data_result (vop ir) (opreg vd ir) ?v (vu rv)) (vu rv) u'
    \<and> csrs u' = csrs ((vu rv)\<lparr>csr_vstart := 0\<rparr>)"
  proof (rule data_loop_lanes [OF ok])
    fix e u
    assume e: "e < unat (csr_vl (vu rv))" "csrs u = csrs (vu rv)"
      and same: "\<forall>m < 128 * epw (sew_of (vu rv)). m < base_lane (sew_of (vu rv)) (opreg vd ir)
          \<or> base_lane (sew_of (vu rv)) (opreg vd ir) + e \<le> m
         \<longrightarrow> lane (sew_of (vu rv)) u m = lane (sew_of (vu rv)) (vu rv) m"
    show "two_sources rhs ir rv (sew_in rv) (\<lambda>a b. f a b (sew_in rv)) (of_nat e) u = Inr (?v e, u)"
      using source_element [OF ok src e(1) same] rhs [OF e] same
      by (simp add: two_sources_def pure_lane_def src2_def sew_in_def opreg_def)
  qed
  then show ?thesis
    by (auto simp: exec_data_def on_vunit_def computes_def sew_in_def)
qed

section \<open>The element-wise instructions\<close>

lemma legal_dest:
  assumes "legal_data (vd # rs) ir u" "csr_vl u \<le> vlmax_of u" "opreg vd ir < 32" "vm (vop ir) \<noteq> 0 \<or> opreg vd ir \<noteq> 0"
  shows "dest_ok (vop ir) (opreg vd ir) u"
  using assms by (simp add: legal_data_def dest_ok_def data_reg_def require_valid_iff)

lemma vguard_vd:
  assumes "legal ir (vu rv)" "f rv ir (opreg vd ir) = Inr rv'"
  shows "vguard legal (on_vd f) env ir cycle pcv rv = Inr (Fall, pcv, rv')"
  using assms by (simp add: vguard_def on_vd_def succeed_def)

lemma elementwise_forms:
  assumes "legal_data [vd, vs2] ir (vu rv)" "csr_vl (vu rv) \<le> vlmax_of (vu rv)"
    and "opreg vd ir < 32" "opreg vs1 ir < 32" "opreg vs2 ir < 32" "vm (vop ir) \<noteq> 0 \<or> opreg vd ir \<noteq> 0"
  shows "data_reg ir (vu rv) vs1 \<longrightarrow>
      (\<exists>rv'. vguard (legal_data [vd, vs1, vs2]) (on_vd (rvv_exec_data_vv f)) env ir cycle pcv rv = Inr (Fall, pcv, rv')
        \<and> computes ir rv (\<lambda>e. f (element ir (vu rv) vs2 e) (second_v ir rv e) (sew_in rv)) rv')"
    "\<exists>rv'. vguard (legal_data [vd, vs2]) (on_vd (rvv_exec_data_vx f)) env ir cycle pcv rv = Inr (Fall, pcv, rv')
        \<and> computes ir rv (\<lambda>e. f (element ir (vu rv) vs2 e) (second_x ir rv e) (sew_in rv)) rv'"
    "\<exists>rv'. vguard (legal_data [vd, vs2]) (on_vd (rvv_exec_data_vi f)) env ir cycle pcv rv = Inr (Fall, pcv, rv')
        \<and> computes ir rv (\<lambda>e. f (element ir (vu rv) vs2 e) (second_i ir rv e) (sew_in rv)) rv'"
proof -
  have ok: "dest_ok (vop ir) (opreg vd ir) (vu rv)" and src: "data_reg ir (vu rv) vs2"
    using assms(1) by (auto simp: legal_data_def intro!: legal_dest [OF assms(1,2,3,6)])
  note run = exec_data_computes [OF ok src assms(5)]
  show "data_reg ir (vu rv) vs1 \<longrightarrow>
      (\<exists>rv'. vguard (legal_data [vd, vs1, vs2]) (on_vd (rvv_exec_data_vv f)) env ir cycle pcv rv = Inr (Fall, pcv, rv')
        \<and> computes ir rv (\<lambda>e. f (element ir (vu rv) vs2 e) (second_v ir rv e) (sew_in rv)) rv')"
  proof
    assume one: "data_reg ir (vu rv) vs1"
    then have "legal_data [vd, vs1, vs2] ir (vu rv)"
      using assms(1) by (simp add: legal_data_def)
    moreover obtain rv' where "rvv_exec_data_vv f rv ir (opreg vd ir) = Inr rv'"
        "computes ir rv (\<lambda>e. f (element ir (vu rv) vs2 e) (second_v ir rv e) (sew_in rv)) rv'"
      using run [of rhs_v "second_v ir rv" f] source_element [OF ok one assms(4)]
      by (auto simp: rvv_exec_data_vv_def rhs_v_def src1_def second_v_def sew_in_def opreg_def)
    ultimately show "\<exists>rv'. vguard (legal_data [vd, vs1, vs2]) (on_vd (rvv_exec_data_vv f)) env ir cycle pcv rv = Inr (Fall, pcv, rv')
        \<and> computes ir rv (\<lambda>e. f (element ir (vu rv) vs2 e) (second_v ir rv e) (sew_in rv)) rv'"
      using vguard_vd by blast
  qed
  show "\<exists>rv'. vguard (legal_data [vd, vs2]) (on_vd (rvv_exec_data_vx f)) env ir cycle pcv rv = Inr (Fall, pcv, rv')
        \<and> computes ir rv (\<lambda>e. f (element ir (vu rv) vs2 e) (second_x ir rv e) (sew_in rv)) rv'"
    using run [of rhs_x "second_x ir rv" f] vguard_vd [where legal = "legal_data [vd, vs2]", OF assms(1)]
    by (auto simp: rvv_exec_data_vx_def rhs_x_def second_x_def)
  show "\<exists>rv'. vguard (legal_data [vd, vs2]) (on_vd (rvv_exec_data_vi f)) env ir cycle pcv rv = Inr (Fall, pcv, rv')
        \<and> computes ir rv (\<lambda>e. f (element ir (vu rv) vs2 e) (second_i ir rv e) (sew_in rv)) rv'"
    using run [of rhs_i "second_i ir rv" f] vguard_vd [where legal = "legal_data [vd, vs2]", OF assms(1)]
    by (auto simp: rvv_exec_data_vi_def rhs_i_def second_i_def)
qed

text \<open>C33: the body of an element-wise instruction, in its three forms and for every operation on elements.
  With legal operands and a destination that is not the mask in use, it ends regularly; every element
  of the destination holds the operation on the elements of the sources, its old value, or the agnostic
  one, as vstart, vl, the mask and the two policies say; no other lane of the register file, no other
  state of the vector unit and nothing else of the hart changes.\<close>

theorem elementwise_results:
  assumes "legal_data [vd, vs2] ir (vu rv)" "csr_vl (vu rv) \<le> vlmax_of (vu rv)"
    and "opreg vd ir < 32" "opreg vs1 ir < 32" "opreg vs2 ir < 32" "vm (vop ir) \<noteq> 0 \<or> opreg vd ir \<noteq> 0"
  shows "(data_reg ir (vu rv) vs1 \<longrightarrow>
      (\<exists>rv'. vguard (legal_data [vd, vs1, vs2]) (on_vd (rvv_exec_data_vv f)) env ir cycle pcv rv = Inr (Fall, pcv, rv')
        \<and> computes ir rv (\<lambda>e. f (element ir (vu rv) vs2 e) (second_v ir rv e) (sew_in rv)) rv'))
     \<and> (\<exists>rv'. vguard (legal_data [vd, vs2]) (on_vd (rvv_exec_data_vx f)) env ir cycle pcv rv = Inr (Fall, pcv, rv')
        \<and> computes ir rv (\<lambda>e. f (element ir (vu rv) vs2 e) (second_x ir rv e) (sew_in rv)) rv')
     \<and> (\<exists>rv'. vguard (legal_data [vd, vs2]) (on_vd (rvv_exec_data_vi f)) env ir cycle pcv rv = Inr (Fall, pcv, rv')
        \<and> computes ir rv (\<lambda>e. f (element ir (vu rv) vs2 e) (second_i ir rv e) (sew_in rv)) rv')"
  by (intro conjI elementwise_forms [OF assms])

text \<open>A hart with four elements of 32 bits, three of them to process: the sum of registers 2 and 3.\<close>

definition vec_unit :: vunit_t where
  "vec_unit = (reset_vunit zero_vunit)\<lparr>csr_vtype := 0x10, csr_vl := 3,
     vregs := (\<lambda>r w. if r = 2 then w + 5 else if r = 3 then 0xFFFFFFFF else 0)\<rparr>"

definition vec_hart :: riscv_t where
  "vec_hart = sample_hart\<lparr>vu := vec_unit\<rparr>"

definition vec_insn :: rv_insn_t where
  "vec_insn = zero_insn\<lparr>vop := no_operands\<lparr>vd := 8, vs1 := 3, vs2 := 2, vm := 1\<rparr>\<rparr>"

lemma vec_facts:
  "rvv_vtype_is_supported 0x10" "rvv_group_regs 0x10 = 1" "rvv_sew_bits 0x10 = 32" "rvv_vlmax 0x10 = 4"
  by (simp_all add: rvv_vtype_is_supported_def rvv_group_regs_def rvv_sew_bits_def rvv_vlmax_def rvv_lmul_ratio_def)

lemmas vec_sample_defs = vec_hart_def vec_unit_def vec_insn_def no_operands_def opreg_def reset_vunit_def zero_vunit_def

lemma vec_state:
  "vu vec_hart = vec_unit" "sew_of vec_unit = 32" "vlmax_of vec_unit = 4" "csr_vl vec_unit = 3" "csr_vstart vec_unit = 0"
  "csr_vtype vec_unit = 0x10" "\<not> vta vec_unit"
  "vregs vec_unit = (\<lambda>r w. if r = 2 then w + 5 else if r = 3 then 0xFFFFFFFF else 0)"
  by (simp_all add: vec_hart_def vec_unit_def sew_of_def vlmax_of_def vec_facts vta_def reset_vunit_def)

lemma vec_operands: "opreg vd vec_insn = 8" "opreg vs1 vec_insn = 3" "opreg vs2 vec_insn = 2" "vm (vop vec_insn) = 1"
  by (simp_all add: vec_sample_defs)

lemma vec_legal: "legal_data [vd, vs2] vec_insn (vu vec_hart)" "data_reg vec_insn (vu vec_hart) vs1"
proof -
  have "data_reg vec_insn vec_unit r" if "opreg r vec_insn < 32" for r
    using that by (simp add: data_reg_def vec_state vec_facts rvv_validate_data_reg_def Let_def word_less_nat_alt unat_word_ariths)
  then show "legal_data [vd, vs2] vec_insn (vu vec_hart)" "data_reg vec_insn (vu vec_hart) vs1"
    by (simp_all add: legal_data_def vec_operands vec_state require_valid_iff vec_facts)
qed

lemma lane32: "lane 32 u n = vregs u (of_nat (n div 4)) (of_nat (n mod 4))"
proof -
  have "w AND 0xFFFFFFFF = w" for w :: u32
    by (simp add: word32_eq_iff less_32_all word_bits)
  then show ?thesis
    by (simp add: lane_def lane_word_def lane_shift_def epw_def elem_mask_def)
qed

theorem elementwise_results_witness:
  "\<exists>rv'. vguard (legal_data [vd, vs1, vs2]) (on_vd (rvv_exec_data_vv rvv_op_add)) sample_env vec_insn 0 0 vec_hart = Inr (Fall, 0, rv')
    \<and> lane 32 (vu rv') 32 = 4 \<and> lane 32 (vu rv') 33 = 5 \<and> lane 32 (vu rv') 34 = 6 \<and> lane 32 (vu rv') 35 = 0"
proof -
  obtain rv' where r: "vguard (legal_data [vd, vs1, vs2]) (on_vd (rvv_exec_data_vv rvv_op_add)) sample_env vec_insn 0 0 vec_hart = Inr (Fall, 0, rv')"
      and c: "computes vec_insn vec_hart
        (\<lambda>e. rvv_op_add (element vec_insn (vu vec_hart) vs2 e) (second_v vec_insn vec_hart e) (sew_in vec_hart)) rv'"
    using conjunct1 [OF elementwise_results [OF vec_legal(1), of rvv_op_add sample_env 0 0]] vec_legal(2) by (auto simp: vec_operands vec_state)
  have res: "lane 32 (vu rv') (32 + k) = data_result (vop vec_insn) 8
      (\<lambda>e. rvv_op_add (element vec_insn vec_unit vs2 e) (second_v vec_insn vec_hart e) 32) vec_unit k" if "k < 4" for k
    using c that by (auto simp: computes_def group_is_def sew_in_def vec_state vec_operands epw_def base_lane_def lane_of_def)
  note eval = data_result_def Let_def v_active_def element_def second_v_def base_lane_def lane_of_def
    epw_def elem_mask_def rvv_op_add_def rvv_trunc_elem_def cut_elem_def vec_state vec_operands lane32 [of vec_unit]
  let ?r = "data_result (vop vec_insn) 8
      (\<lambda>e. rvv_op_add (element vec_insn vec_unit vs2 e) (second_v vec_insn vec_hart e) 32) vec_unit"
  have "?r 0 = 4" "?r 1 = 5" "?r 2 = 6" "?r 3 = 0"
    by (simp_all add: eval)
  then have "lane 32 (vu rv') 32 = 4" "lane 32 (vu rv') 33 = 5" "lane 32 (vu rv') 34 = 6" "lane 32 (vu rv') 35 = 0"
    using res [of 0] res [of 1] res [of 2] res [of 3] by simp_all
  then show ?thesis
    using r by blast
qed

end
