(* ===== verification/VecDispatchProps.thy ===== *)
theory VecDispatchProps imports VecExecProps begin

text \<open>
  The word-at-a-time loops of \<open>VECTOR_DISPATCH\<close> against the element loops: on legal operands both leave the
  same vector unit, for operations whose lanes depend on the lanes of their operands only.
\<close>

section \<open>Layouts\<close>

lemma layout_facts:
  assumes "width_ok sew"
  shows "itr (sew_layout sew) = epw sew" "MASK (sew_layout sew) = elem_mask sew"
    "k < epw sew \<Longrightarrow> lane_pos (sew_layout sew) k = k * unat sew"
  using assms
  by (auto elim!: width_cases simp: sew_layout_def lanes8_def lanes16_def lanes32_def elem_mask_def lane_pos_def
      push_bit_eq_mult)

section \<open>Words of lanes\<close>

lemma bit_or_fold: "bit (fold (\<lambda>k out. out OR g k) ks z) i \<longleftrightarrow> bit z i \<or> (\<exists>k\<in>set ks. bit (g k) i)"
  for z :: u32
  by (induction ks arbitrary: z) (auto simp: bit_or_iff)

lemma or_fold_lane:
  assumes "width_ok sew" "k < epw sew"
  shows "drop_bit (k * unat sew) (fold (\<lambda>k out. out OR push_bit (k * unat sew) (x k AND elem_mask sew)) [0..<epw sew] 0)
      AND elem_mask sew = x k AND elem_mask sew"
proof (rule bit_eqI)
  fix i
  have room: "k * unat sew + i < 32" if "i < unat sew"
    using shift_room [OF assms(1) that, of k] assms(2) by (simp add: lane_shift_def)
  show "bit (drop_bit (k * unat sew) (fold (\<lambda>k out. out OR push_bit (k * unat sew) (x k AND elem_mask sew)) [0..<epw sew] 0)
      AND elem_mask sew) i = bit (x k AND elem_mask sew) i"
  proof (cases "i < unat sew")
    case True
    let ?g = "\<lambda>k. push_bit (k * unat sew) (x k AND elem_mask sew)"
    have g: "bit (?g l) (k * unat sew + i) \<longleftrightarrow> l = k \<and> bit (x k) i" for l
    proof
      assume b: "bit (?g l) (k * unat sew + i)"
      then have "l * unat sew \<le> k * unat sew + i" "k * unat sew + i - l * unat sew < unat sew"
        by (simp_all add: bit_push_bit_iff bit_and_iff bit_elem_mask [OF assms(1)])
      then have "l = k"
        by (rule slots_apart [OF True, symmetric])
      then show "l = k \<and> bit (x k) i"
        using b by (simp add: bit_push_bit_iff bit_and_iff)
    next
      assume "l = k \<and> bit (x k) i"
      then show "bit (?g l) (k * unat sew + i)"
        using True room [OF True] by (simp add: bit_push_bit_iff bit_and_iff bit_elem_mask [OF assms(1)])
    qed
    have "bit (fold (\<lambda>k out. out OR ?g k) [0..<epw sew] 0) (k * unat sew + i) \<longleftrightarrow> bit (x k) i"
      unfolding bit_or_fold g using assms(2) by auto
    then show ?thesis
      using True by (simp add: bit_and_iff bit_drop_bit_eq bit_elem_mask [OF assms(1)])
  next
    case False
    then show ?thesis
      by (simp add: bit_and_iff bit_elem_mask [OF assms(1)])
  qed
qed

text \<open>Word \<open>t\<close> of the group at \<open>base\<close>, and its lanes.\<close>

lemma word_lane:
  assumes "width_ok sew" "k < epw sew"
  shows "lane_word sew (lane_of sew r 0 + t * epw sew + k) = (of_nat (unat r + t div 4), of_nat (t mod 4))"
    "lane_shift sew (lane_of sew r 0 + t * epw sew + k) = k * unat sew"
proof -
  have e: "0 < epw sew"
    using assms(2) by auto
  have "(lane_of sew r 0 + t * epw sew + k) div epw sew = unat r * 4 + t"
    using assms(2) e by (simp add: lane_of_def div_add1_eq mult.assoc [symmetric])
  moreover have "(unat r * 4 + t) div 4 = unat r + t div 4" "(unat r * 4 + t) mod 4 = t mod 4"
    by simp_all
  ultimately show "lane_word sew (lane_of sew r 0 + t * epw sew + k) = (of_nat (unat r + t div 4), of_nat (t mod 4))"
    by (simp add: lane_word_def)
  have "(lane_of sew r 0 + t * epw sew + k) mod epw sew = k"
    using assms(2) by (simp add: lane_of_def mult.assoc [symmetric] mod_add_eq [symmetric])
  then show "lane_shift sew (lane_of sew r 0 + t * epw sew + k) = k * unat sew"
    by (simp add: lane_shift_def)
qed

lemma lane_set_word:
  assumes "width_ok sew" "m < 128 * epw sew" "unat r * 4 + t < 128"
  shows "lane sew (set_word (of_nat (unat r + t div 4)) (of_nat (t mod 4)) w u) m =
    (if lane_of sew r 0 + t * epw sew \<le> m \<and> m < lane_of sew r 0 + Suc t * epw sew
     then drop_bit (lane_shift sew m) w AND elem_mask sew else lane sew u m)"
proof -
  have e: "0 < epw sew"
    using assms(1) by (auto elim: width_cases)
  have base: "lane_of sew r 0 + t * epw sew = (unat r * 4 + t) * epw sew"
    by (simp add: lane_of_def algebra_simps)
  have n: "(unat r * 4 + t) * epw sew < 128 * epw sew"
    using assms(3) e by simp
  have "lane_word sew m = (of_nat (unat r + t div 4), of_nat (t mod 4)) \<longleftrightarrow> m div epw sew = unat r * 4 + t"
    using word_lane(1) [OF assms(1) e, of r t] lane_word_eq [OF assms(1,2) n] e base by simp
  also have "\<dots> \<longleftrightarrow> (unat r * 4 + t) * epw sew \<le> m \<and> m < Suc (unat r * 4 + t) * epw sew"
    using less_eq_div_iff_mult_less_eq [OF e, of "unat r * 4 + t" m]
      div_less_iff_less_mult [OF e, of m "Suc (unat r * 4 + t)"] by auto
  finally have "lane_word sew m = (of_nat (unat r + t div 4), of_nat (t mod 4)) \<longleftrightarrow>
      lane_of sew r 0 + t * epw sew \<le> m \<and> m < lane_of sew r 0 + Suc t * epw sew"
    by (simp add: lane_of_def algebra_simps)
  then show ?thesis
    by (auto simp: lane_def set_word_def split: prod.splits)
qed

lemma written_word:
  assumes w: "width_ok sew" and r: "unat r * 4 + t < 128"
    and wr: "written_lanes sew u0 (lane_of sew r 0) v 0 (t * epw sew) u"
    and out: "\<And>k. k < epw sew \<Longrightarrow> drop_bit (k * unat sew) out AND elem_mask sew = v (t * epw sew + k)"
  shows "written_lanes sew u0 (lane_of sew r 0) v 0 (Suc t * epw sew)
    (set_word (of_nat (unat r + t div 4)) (of_nat (t mod 4)) out u)"
  unfolding lane_row.written_def [OF lane_row_packed [OF w]]
proof (intro allI impI)
  fix m assume m: "m < 128 * epw sew"
  let ?b = "lane_of sew r 0" and ?u = "set_word (of_nat (unat r + t div 4)) (of_nat (t mod 4)) out u"
  have old: "lane sew u m = (if ?b \<le> m \<and> m < ?b + t * epw sew then v (m - ?b) else lane sew u0 m)"
    using wr m by (simp add: lane_row.written_def [OF lane_row_packed [OF w]])
  show "lane sew ?u m = (if ?b + 0 \<le> m \<and> m < ?b + Suc t * epw sew then v (m - ?b) else lane sew u0 m)"
  proof (cases "?b + t * epw sew \<le> m \<and> m < ?b + Suc t * epw sew")
    case True
    then have k: "m = ?b + t * epw sew + (m - (?b + t * epw sew))" "m - (?b + t * epw sew) < epw sew"
      by auto
    define k where "k = m - (?b + t * epw sew)"
    have k: "m = ?b + t * epw sew + k" "k < epw sew"
      using k by (simp_all add: k_def)
    then show ?thesis
      using lane_set_word [OF w m r] True word_lane(2) [OF w k(2), of r t] out [OF k(2)] by simp
  next
    case False
    then show ?thesis
      using lane_set_word [OF w m r] old by auto
  qed
qed

text \<open>The mask bits of a word's lanes.\<close>

lemma mask_bits:
  assumes "k < 32" "vm vo \<noteq> 0 \<or> mw = drop_bit (p mod 32) (vregs u0 0 (of_nat (p div 32)))" "p mod 32 + k < 32"
  shows "vm vo \<noteq> 0 \<or> mw AND push_bit k 1 \<noteq> 0 \<longleftrightarrow> v_active vo u0 (p + k)"
proof -
  have "p + k = p mod 32 + k + 32 * (p div 32)"
    by simp
  then have "(p + k) div 32 = p div 32 + (p mod 32 + k) div 32" "(p + k) mod 32 = (p mod 32 + k) mod 32"
    by (metis div_mult_self2 zero_neq_numeral add.commute) (simp add: mod_add_left_eq)
  then have d: "(p + k) div 32 = p div 32" "(p + k) mod 32 = p mod 32 + k"
    using assms(3) by simp_all
  have "w AND push_bit k 1 \<noteq> 0 \<longleftrightarrow> bit w k" for w :: u32
    by (simp only: bit_iff_and_push_bit_not_eq_0)
  then show ?thesis
    using assms(2) d by (auto simp: v_active_def bit_drop_bit_eq)
qed

lemma lane_value:
  assumes "width_ok sew" "k < epw sew"
  shows "V_LANE_VALUE (sew_layout sew) vo agnostic mw tmp_d x k =
    push_bit (k * unat sew) ((if vm vo \<noteq> 0 \<or> mw AND push_bit k 1 \<noteq> 0 then x
      else if agnostic then elem_mask sew else drop_bit (k * unat sew) tmp_d) AND elem_mask sew)"
proof -
  have "tmp_d AND push_bit n m = push_bit n (drop_bit n tmp_d AND m)" for n and m :: u32
    by (auto simp: bit_eq_iff bit_and_iff bit_push_bit_iff bit_drop_bit_eq)
  then show ?thesis
    using layout_facts [OF assms(1)] assms(2) by (simp add: V_LANE_VALUE_def)
qed

section \<open>Operands\<close>

definition local_op :: "u32 \<Rightarrow> laneop_t \<Rightarrow> bool" where
  "local_op sew f \<longleftrightarrow>
    (\<forall>a b. f a b AND elem_mask sew = f (a AND elem_mask sew) (b AND elem_mask sew) AND elem_mask sew)"

text \<open>A group of the configuration, and the element of the second operand.\<close>

definition group_ok :: "vunit_t \<Rightarrow> u32 \<Rightarrow> bool" where
  "group_ok u r \<longleftrightarrow> r < 32 \<and> rvv_validate_data_reg (csr_vtype u) r"

fun op2_ok :: "vunit_t \<Rightarrow> op2_t \<Rightarrow> bool" where
  "op2_ok u (VV r) = group_ok u (ucast r)"
| "op2_ok u (VX w) = True"
| "op2_ok u (VI w) = True"

fun op2_elem :: "vunit_t \<Rightarrow> op2_t \<Rightarrow> nat \<Rightarrow> u32" where
  "op2_elem u (VV r) e = lane (sew_of u) u (base_lane (sew_of u) (ucast r) + e)"
| "op2_elem u (VX w) e = w AND elem_mask (sew_of u)"
| "op2_elem u (VI w) e = w AND elem_mask (sew_of u)"

definition group_words :: "vunit_t \<Rightarrow> nat" where
  "group_words u = 4 * unat (rvv_group_regs (csr_vtype u))"

lemma word_index:
  assumes ok: "rvv_vtype_is_supported (csr_vtype u)" "group_ok u r" and t: "t < group_words u"
  shows "unat r * 4 + t < 128" "unat r + t div 4 < 32"
    "V_read x (unat r + t div 4) (t mod 4) = Inr (vregs x (of_nat (unat r + t div 4)) (of_nat (t mod 4)))"
    "V_write (unat r + t div 4) (t mod 4) y x = Inr (set_word (of_nat (unat r + t div 4)) (of_nat (t mod 4)) y x)"
proof -
  let ?g = "rvv_group_regs (csr_vtype u)"
  have small: "unat ?g \<in> {1, 2, 4, 8}"
    using supported_geometry(2) [OF ok(1)] by auto
  have r: "unat r < 32"
    using ok(2) by (simp add: group_ok_def word_less_nat_alt)
  have "unat (r + ?g) = unat r + unat ?g"
    using small r by (subst unat_word_ariths) auto
  then have "unat r + unat ?g \<le> 32"
    using ok(2) by (auto simp: group_ok_def rvv_validate_data_reg_def Let_def word_less_nat_alt split: if_splits)
  then show 1: "unat r * 4 + t < 128"
    using t by (simp add: group_words_def)
  then show 2: "unat r + t div 4 < 32"
    by simp
  show "V_read x (unat r + t div 4) (t mod 4) = Inr (vregs x (of_nat (unat r + t div 4)) (of_nat (t mod 4)))"
    "V_write (unat r + t div 4) (t mod 4) y x = Inr (set_word (of_nat (unat r + t div 4)) (of_nat (t mod 4)) y x)"
    using 2 by (simp_all add: V_read_def V_write_def)
qed

lemma word_of_element:
  assumes "rvv_vtype_is_supported (csr_vtype u)" "t * epw (sew_of u) < unat (vlmax_of u)"
  shows "t < group_words u"
proof -
  have "unat (vlmax_of u) \<le> group_words u * epw (sew_of u)"
    using supported_geometry(1,4) [OF assms(1)]
    by (auto simp: vlmax_of_def sew_of_def epw_def group_words_def)
  from less_le_trans [OF assms(2) this] show ?thesis
    by simp
qed

text \<open>A lane of a source word, read while the words before it have been written.\<close>

lemma source_lane:
  assumes ok: "dest_ok vo dest u0" and r: "group_ok u0 r"
    and wr: "written_lanes (sew_of u0) u0 (base_lane (sew_of u0) dest) v 0 b u"
    and k: "k < epw (sew_of u0)" "b \<le> t * epw (sew_of u0) + k" "t * epw (sew_of u0) + k < unat (vlmax_of u0)"
  shows "drop_bit (k * unat (sew_of u0)) (vregs u (of_nat (unat r + t div 4)) (of_nat (t mod 4))) AND elem_mask (sew_of u0)
    = lane (sew_of u0) u0 (base_lane (sew_of u0) r + (t * epw (sew_of u0) + k))"
proof -
  let ?sew = "sew_of u0"
  have sup: "rvv_vtype_is_supported (csr_vtype u0)"
    using ok by (simp add: dest_ok_def)
  note w = width_of_supported [OF sup]
  let ?m = "base_lane ?sew r + (t * epw ?sew + k)"
  have "?m < 128 * epw ?sew"
    using group_fits(1) [OF sup, of r] r k(3) by (simp add: group_ok_def)
  moreover have "?m < base_lane ?sew dest \<or> base_lane ?sew dest + b \<le> ?m"
    using source_outside [OF ok _ _ k(2,3), of r] r by (simp add: group_ok_def)
  ultimately have "lane ?sew u ?m = lane ?sew u0 ?m"
    using lane_row.written_other [OF lane_row_packed [OF w] wr] by auto
  moreover have "lane ?sew u ?m = drop_bit (k * unat ?sew) (vregs u (of_nat (unat r + t div 4)) (of_nat (t mod 4))) AND elem_mask ?sew"
    using word_lane [OF w k(1), of r t] by (simp add: lane_def base_lane_def add.assoc)
  ultimately show ?thesis by simp
qed

lemma unat_ucast8: "unat (ucast r :: u32) = unat r" for r :: u8
  using unsigned_less [of r, where ?'a = nat] by (simp add: unsigned_ucast_eq take_bit_nat_eq_self)

text \<open>The second operand of a word, and a lane of it.\<close>

lemma op2_lane_elem:
  assumes ok: "dest_ok vo dest u0" and b: "op2_ok u0 b"
    and wr: "written_lanes (sew_of u0) u0 (base_lane (sew_of u0) dest) v 0 c u"
    and t: "t < group_words u0"
  shows "\<exists>x. op2_word b u (t div 4) (t mod 4) = Inr x \<and>
    (\<forall>k < epw (sew_of u0). c \<le> t * epw (sew_of u0) + k \<and> t * epw (sew_of u0) + k < unat (vlmax_of u0) \<longrightarrow>
      op2_lane b x (k * unat (sew_of u0)) AND elem_mask (sew_of u0) = op2_elem u0 b (t * epw (sew_of u0) + k))"
proof (cases b)
  case (VV r)
  have sup: "rvv_vtype_is_supported (csr_vtype u0)"
    using ok by (simp add: dest_ok_def)
  have r: "group_ok u0 (ucast r)" "unat (ucast r :: u32) = unat r"
    using b VV by (simp_all add: unat_ucast8)
  then show ?thesis
    using VV word_index(3) [OF sup r(1) t, of u] source_lane [OF ok r(1) wr] by simp
qed simp_all

section \<open>The step for a full word\<close>

text \<open>What element \<open>e\<close> of the destination becomes.\<close>

definition lane_op :: "laneop_t \<Rightarrow> u32 \<Rightarrow> op2_t \<Rightarrow> vunit_t \<Rightarrow> nat \<Rightarrow> u32" where
  "lane_op f a b u e = f (lane (sew_of u) u (base_lane (sew_of u) a + e)) (op2_elem u b e)"

abbreviation dispatch_result :: "v_operands_t \<Rightarrow> laneop_t \<Rightarrow> u32 \<Rightarrow> u32 \<Rightarrow> op2_t \<Rightarrow> vunit_t \<Rightarrow> nat \<Rightarrow> u32" where
  "dispatch_result vo f dest a b u \<equiv> data_result vo dest (lane_op f a b u) u"

abbreviation written_to :: "v_operands_t \<Rightarrow> laneop_t \<Rightarrow> u32 \<Rightarrow> u32 \<Rightarrow> op2_t \<Rightarrow> vunit_t \<Rightarrow> nat \<Rightarrow> vunit_t \<Rightarrow> bool" where
  "written_to vo f dest a b u0 n \<equiv>
    written_lanes (sew_of u0) u0 (base_lane (sew_of u0) dest) (dispatch_result vo f dest a b u0) 0 n"

text \<open>The lanes of a word's result, from the lanes of its operands.\<close>

lemma lane_result:
  assumes w: "width_ok (sew_of u0)" and k: "k < epw (sew_of u0)" "p + k < unat (csr_vl u0)" "csr_vstart u0 = 0"
    and f: "local_op (sew_of u0) f"
    and x: "drop_bit (k * unat (sew_of u0)) x AND elem_mask (sew_of u0) = lane (sew_of u0) u0 (base_lane (sew_of u0) a + (p + k))"
    and y: "y AND elem_mask (sew_of u0) = op2_elem u0 b (p + k)"
    and z: "drop_bit (k * unat (sew_of u0)) z AND elem_mask (sew_of u0) = lane (sew_of u0) u0 (base_lane (sew_of u0) dest + (p + k))"
    and on: "vm vo \<noteq> 0 \<or> mw AND push_bit k 1 \<noteq> 0 \<longleftrightarrow> v_active vo u0 (p + k)"
  shows "(if vm vo \<noteq> 0 \<or> mw AND push_bit k 1 \<noteq> 0 then f (drop_bit (k * unat (sew_of u0)) x) y
      else if vma u0 then elem_mask (sew_of u0) else drop_bit (k * unat (sew_of u0)) z) AND elem_mask (sew_of u0)
    = dispatch_result vo f dest a b u0 (p + k)"
proof -
  have "f (drop_bit (k * unat (sew_of u0)) x) y AND elem_mask (sew_of u0) = cut_elem (sew_of u0) (lane_op f a b u0 (p + k))"
  proof -
    let ?m = "elem_mask (sew_of u0)" let ?x = "drop_bit (k * unat (sew_of u0)) x"
    have "f ?x y AND ?m = f (?x AND ?m) (y AND ?m) AND ?m"
      using f unfolding local_op_def by blast
    then show ?thesis
      by (simp only: x y cut_elem_def lane_op_def)
  qed
  moreover have "op2_elem u0 b (p + k) AND elem_mask (sew_of u0) = op2_elem u0 b (p + k)"
    using y by (metis and.assoc and.idem)
  ultimately show ?thesis
    unfolding on using k z by (simp add: data_result_def Let_def)
qed

lemma of_nat_below: "n < 32 \<Longrightarrow> (of_nat n :: u32) < 32" "n < 4 \<Longrightarrow> (of_nat n :: u32) < 4"
  by (simp_all add: word_less_nat_alt unat_of_nat take_bit_nat_eq_self)

lemma mask_room:
  assumes "width_ok sew" "k < epw sew"
  shows "t * epw sew mod 32 + k < 32"
proof -
  have s: "0 < unat sew" "32 = unat sew * epw sew"
    using assms(1) by (auto elim!: width_cases)
  have m: "t * epw sew mod 32 = (t mod unat sew) * epw sew"
    using mod_mult_mult2 [of t "epw sew" "unat sew"] s(2) by (simp only:)
  have "(t mod unat sew + 1) * epw sew \<le> unat sew * epw sew"
    using s(1) by (intro mult_right_mono) (auto simp: Suc_le_eq)
  then have "(t mod unat sew) * epw sew + epw sew \<le> 32"
    using s(2) by (simp only: add_mult_distrib mult_1)
  then show ?thesis
    using assms(2) m by linarith
qed

text \<open>The value the code selects for lane \<open>k\<close> of a word, given the words of the operands.\<close>

definition lane_choice :: "u32 \<Rightarrow> v_operands_t \<Rightarrow> laneop_t \<Rightarrow> op2_t \<Rightarrow> u32 \<Rightarrow> bool \<Rightarrow> u32 \<Rightarrow> u32 \<Rightarrow> u32 \<Rightarrow> nat \<Rightarrow> u32" where
  "lane_choice sew vo f b mw agnostic z1 x zd k =
    (if vm vo \<noteq> 0 \<or> mw AND push_bit k 1 \<noteq> 0 then f (drop_bit (k * unat sew) z1) (op2_lane b x (k * unat sew))
     else if agnostic then elem_mask sew else drop_bit (k * unat sew) zd)"

lemma choice_value:
  assumes "width_ok sew" "k < epw sew"
  shows "V_LANE_VALUE (sew_layout sew) vo agnostic mw zd
      (f (drop_bit (lane_pos (sew_layout sew) k) z1) (op2_lane b x (lane_pos (sew_layout sew) k))) k
    = push_bit (k * unat sew) (lane_choice sew vo f b mw agnostic z1 x zd k AND elem_mask sew)"
  using lane_value [OF assms] layout_facts(3) [OF assms] by (simp add: lane_choice_def)

abbreviation group_word :: "vunit_t \<Rightarrow> u32 \<Rightarrow> nat \<Rightarrow> u32" where
  "group_word u r t \<equiv> vregs u (of_nat (unat r + t div 4)) (of_nat (t mod 4))"

abbreviation set_group_word :: "u32 \<Rightarrow> nat \<Rightarrow> u32 \<Rightarrow> vunit_t \<Rightarrow> vunit_t" where
  "set_group_word r t \<equiv> set_word (of_nat (unat r + t div 4)) (of_nat (t mod 4))"

lemma word_choice:
  assumes ok: "dest_ok vo dest u0" "csr_vstart u0 = 0" and a: "group_ok u0 a" and b: "op2_ok u0 b"
    and f: "local_op (sew_of u0) f" and t: "t < group_words u0"
    and wr: "written_to vo f dest a b u0 (t * epw (sew_of u0)) u"
    and mw: "vm vo \<noteq> 0 \<or> mw = drop_bit (t * epw (sew_of u0) mod 32) (vregs u0 0 (of_nat (t * epw (sew_of u0) div 32)))"
  shows "\<exists>x. op2_word b u (t div 4) (t mod 4) = Inr x \<and>
    (\<forall>k < epw (sew_of u0). t * epw (sew_of u0) + k < unat (csr_vl u0) \<longrightarrow>
      lane_choice (sew_of u0) vo f b mw (vma u0) (group_word u a t) x (group_word u dest t) k AND elem_mask (sew_of u0)
      = dispatch_result vo f dest a b u0 (t * epw (sew_of u0) + k))"
proof -
  let ?sew = "sew_of u0" let ?p = "t * epw (sew_of u0)"
  have sup: "rvv_vtype_is_supported (csr_vtype u0)" and vl: "unat (csr_vl u0) \<le> unat (vlmax_of u0)" and d: "group_ok u0 dest"
    using ok by (auto simp: dest_ok_def word_le_nat_alt group_ok_def)
  note w = width_of_supported [OF sup]
  obtain x where x: "op2_word b u (t div 4) (t mod 4) = Inr x"
      and xl: "\<forall>k < epw ?sew. ?p \<le> ?p + k \<and> ?p + k < unat (vlmax_of u0) \<longrightarrow>
        op2_lane b x (k * unat ?sew) AND elem_mask ?sew = op2_elem u0 b (?p + k)"
    using op2_lane_elem [OF ok(1) b wr t] by auto
  have "lane_choice ?sew vo f b mw (vma u0) (group_word u a t) x (group_word u dest t) k AND elem_mask ?sew
      = dispatch_result vo f dest a b u0 (?p + k)" if k: "k < epw ?sew" "?p + k < unat (csr_vl u0)" for k
    unfolding lane_choice_def
  proof (rule lane_result [OF w k ok(2) f])
    show "drop_bit (k * unat ?sew) (group_word u a t) AND elem_mask ?sew = lane ?sew u0 (base_lane ?sew a + (?p + k))"
      using source_lane [OF ok(1) a wr k(1)] k(2) vl by simp
    show "drop_bit (k * unat ?sew) (group_word u dest t) AND elem_mask ?sew = lane ?sew u0 (base_lane ?sew dest + (?p + k))"
      using source_lane [OF ok(1) d wr k(1)] k(2) vl by simp
    show "op2_lane b x (k * unat ?sew) AND elem_mask ?sew = op2_elem u0 b (?p + k)"
      using xl k vl by simp
    show "(vm vo \<noteq> 0 \<or> mw AND push_bit k 1 \<noteq> 0) = v_active vo u0 (?p + k)"
      using mask_room [OF w k(1), of t] by (intro mask_bits [OF _ mw]) simp_all
  qed
  then show ?thesis
    using x by blast
qed

lemma csrs_group_word:
  assumes "unat r + t div 4 < 32"
  shows "csrs (set_group_word r t w u) = csrs u"
  using of_nat_below(1) [OF assms] of_nat_below(2) [of "t mod 4"] by (simp add: csrs_set_word)

lemma loop_word_step:
  assumes ok: "dest_ok vo dest u0" "csr_vstart u0 = 0" and a: "group_ok u0 a" and b: "op2_ok u0 b"
    and f: "local_op (sew_of u0) f"
    and wr: "written_to vo f dest a b u0 (t * epw (sew_of u0)) u" and cs: "csrs u = csrs u0"
    and t: "Suc t * epw (sew_of u0) \<le> unat (csr_vl u0)"
    and mw: "vm vo \<noteq> 0 \<or> mw = drop_bit (t * epw (sew_of u0) mod 32) (vregs u0 0 (of_nat (t * epw (sew_of u0) div 32)))"
  shows "\<exists>u'. loop_word (sew_layout (sew_of u0)) vo f (unat dest) (unat a) b (t mod 4) (t div 4) mw u = Inr u'
    \<and> written_to vo f dest a b u0 (Suc t * epw (sew_of u0)) u' \<and> csrs u' = csrs u0"
proof -
  let ?sew = "sew_of u0" let ?p = "t * epw (sew_of u0)"
  have sup: "rvv_vtype_is_supported (csr_vtype u0)" and vl: "unat (csr_vl u0) \<le> unat (vlmax_of u0)" and d: "group_ok u0 dest"
    using ok by (auto simp: dest_ok_def word_le_nat_alt group_ok_def)
  note w = width_of_supported [OF sup]
  have t0: "t < group_words u0"
    using t vl w by (intro word_of_element [OF sup]) (auto elim!: width_cases)
  note da = word_index [OF sup a t0] and dd = word_index [OF sup d t0]
  obtain x where x: "op2_word b u (t div 4) (t mod 4) = Inr x"
      and y: "\<forall>k < epw ?sew. ?p + k < unat (csr_vl u0) \<longrightarrow>
        lane_choice ?sew vo f b mw (vma u0) (group_word u a t) x (group_word u dest t) k AND elem_mask ?sew
        = dispatch_result vo f dest a b u0 (?p + k)"
    using word_choice [OF ok a b f t0 wr mw] by blast
  define c where "c = lane_choice ?sew vo f b mw (vma u0) (group_word u a t) x (group_word u dest t)"
  define out where "out = fold (\<lambda>k out. out OR push_bit (k * unat ?sew) (c k AND elem_mask ?sew)) [0..<epw ?sew] 0"
  have vma: "vma u = vma u0"
    using csrs_eqD(2) [OF cs] by (simp add: vma_def)
  have "loop_word (sew_layout ?sew) vo f (unat dest) (unat a) b (t mod 4) (t div 4) mw u = Inr (set_group_word dest t out u)"
    unfolding loop_word_def da(3) dd(3) x obind_simps Let_def dd(4) layout_facts(1) [OF w] out_def c_def vma
    by (intro arg_cong [where f = "\<lambda>w. Inr (set_group_word dest t w u)"] fold_cong) (auto simp: choice_value [OF w])
  moreover have "written_to vo f dest a b u0 (Suc t * epw ?sew) (set_group_word dest t out u)"
    unfolding base_lane_def
  proof (rule written_word [OF w dd(1) wr [unfolded base_lane_def]])
    fix k assume k: "k < epw ?sew"
    show "drop_bit (k * unat ?sew) out AND elem_mask ?sew = dispatch_result vo f dest a b u0 (?p + k)"
      unfolding out_def or_fold_lane [OF w k] using y k t by (simp add: c_def)
  qed
  ultimately show ?thesis
    using csrs_group_word [OF dd(2)] cs by simp
qed

section \<open>The loop over full words\<close>

definition word_state :: "v_operands_t \<Rightarrow> laneop_t \<Rightarrow> u32 \<Rightarrow> u32 \<Rightarrow> op2_t \<Rightarrow> vunit_t \<Rightarrow> nat \<Rightarrow> nat \<times> nat \<times> nat \<times> u32 \<times> vunit_t \<Rightarrow> bool" where
  "word_state vo f dest a b u0 t = (\<lambda>(i, j, m, mw, u).
    let p = t * epw (sew_of u0)
    in i = t mod 4 \<and> j = t div 4 \<and> m = p div 32 \<and>
       (vm vo \<noteq> 0 \<or> mw = drop_bit (p mod 32) (vregs u0 0 (of_nat (p div 32)))) \<and>
       written_to vo f dest a b u0 p u \<and> csrs u = csrs u0)"

lemma mask_register_kept:
  assumes ok: "dest_ok vo dest u0" and wr: "written_lanes (sew_of u0) u0 (base_lane (sew_of u0) dest) v 0 c u" and "w < 4"
  shows "vm vo \<noteq> 0 \<or> vregs u 0 w = vregs u0 0 w"
proof (cases "vm vo = 0")
  case True
  have k: "width_ok (sew_of u0)"
    using ok width_of_supported by (simp add: dest_ok_def)
  show ?thesis
    using True dest_base [OF ok] wr assms(3)
    by (intro disjI2 vregs_from_lanes [OF k]) (auto simp: lane_row.written_def [OF lane_row_packed [OF k]])
qed simp

lemma count_step:
  assumes "width_ok sew"
  shows "Suc t * epw sew mod (4 * epw sew) = 0 \<longleftrightarrow> Suc t mod 4 = 0"
    "Suc t mod 4 = 0 \<Longrightarrow> Suc t div 4 = t div 4 + 1" "Suc t mod 4 \<noteq> 0 \<Longrightarrow> Suc t div 4 = t div 4"
    "Suc t mod 4 \<noteq> 0 \<Longrightarrow> Suc t mod 4 = t mod 4 + 1"
    "Suc t * epw sew mod 32 = 0 \<Longrightarrow> Suc t * epw sew div 32 = t * epw sew div 32 + 1"
    "Suc t * epw sew mod 32 \<noteq> 0 \<Longrightarrow> Suc t * epw sew div 32 = t * epw sew div 32
      \<and> Suc t * epw sew mod 32 = t * epw sew mod 32 + epw sew"
proof -
  have "0 < epw sew"
    using assms by (auto elim: width_cases)
  then show "Suc t * epw sew mod (4 * epw sew) = 0 \<longleftrightarrow> Suc t mod 4 = 0"
    using mod_mult_mult2 [of "Suc t" "epw sew" 4] by (simp only: mult_eq_0_iff) auto
  show "Suc t mod 4 = 0 \<Longrightarrow> Suc t div 4 = t div 4 + 1" "Suc t mod 4 \<noteq> 0 \<Longrightarrow> Suc t div 4 = t div 4"
    "Suc t mod 4 \<noteq> 0 \<Longrightarrow> Suc t mod 4 = t mod 4 + 1"
    by presburger+
  define p where "p = t * epw sew"
  have succ: "Suc t * epw sew = (p mod 32 + epw sew) + 32 * (p div 32)"
    by (simp add: p_def)
  have dm: "Suc t * epw sew div 32 = (p mod 32 + epw sew) div 32 + p div 32"
    "Suc t * epw sew mod 32 = (p mod 32 + epw sew) mod 32"
    unfolding succ by (simp_all only: div_mult_self2 [of 32, simplified] mod_mult_self2 add.commute)
  have "p mod 32 + epw sew \<le> 32"
    using mask_room [OF assms, of "epw sew - 1" t] \<open>0 < epw sew\<close> by (simp add: p_def)
  then consider "p mod 32 + epw sew = 32" | "p mod 32 + epw sew < 32"
    by linarith
  note word_end = this
  show "Suc t * epw sew mod 32 = 0 \<Longrightarrow> Suc t * epw sew div 32 = t * epw sew div 32 + 1"
    by (cases rule: word_end) (use dm \<open>0 < epw sew\<close> in \<open>simp_all add: p_def [symmetric] del: mult_Suc\<close>)
  show "Suc t * epw sew mod 32 \<noteq> 0 \<Longrightarrow> Suc t * epw sew div 32 = t * epw sew div 32
      \<and> Suc t * epw sew mod 32 = t * epw sew mod 32 + epw sew"
    by (cases rule: word_end) (use dm in \<open>simp_all add: p_def [symmetric] del: mult_Suc\<close>)
qed

lemma full_step_state:
  assumes ok: "dest_ok vo dest u0" "csr_vstart u0 = 0" and a: "group_ok u0 a" and b: "op2_ok u0 b"
    and f: "local_op (sew_of u0) f" and st: "word_state vo f dest a b u0 t st"
    and t: "Suc t * epw (sew_of u0) \<le> unat (csr_vl u0)" "Suc t * epw (sew_of u0) < 128"
  shows "\<exists>st'. full_step (sew_layout (sew_of u0)) vo f (unat dest) (unat a) b t st = Inr st' \<and> word_state vo f dest a b u0 (Suc t) st'"
proof -
  let ?sew = "sew_of u0" let ?p = "t * epw (sew_of u0)" let ?q = "Suc t * epw (sew_of u0)"
  obtain mw u where st_eq: "st = (t mod 4, t div 4, ?p div 32, mw, u)"
      and mw: "vm vo \<noteq> 0 \<or> mw = drop_bit (?p mod 32) (vregs u0 0 (of_nat (?p div 32)))"
      and wr: "written_to vo f dest a b u0 ?p u" and cs: "csrs u = csrs u0"
    using st by (auto simp: word_state_def Let_def)
  have sup: "rvv_vtype_is_supported (csr_vtype u0)" and vl: "unat (csr_vl u0) \<le> unat (vlmax_of u0)" and d: "group_ok u0 dest"
    using ok by (auto simp: dest_ok_def word_le_nat_alt group_ok_def)
  note w = width_of_supported [OF sup]
  have e: "0 < epw ?sew"
    using w by (auto elim: width_cases)
  obtain u' where u': "loop_word (sew_layout ?sew) vo f (unat dest) (unat a) b (t mod 4) (t div 4) mw u = Inr u'"
      "written_to vo f dest a b u0 ?q u'" "csrs u' = csrs u0"
    using loop_word_step [OF ok a b f wr cs t(1) mw] by blast
  have in32: "unat dest + t div 4 < 32"
    using word_index(2) [OF sup d word_of_element [OF sup]] t vl e by simp
  have place: "(if ?q mod (4 * epw ?sew) = 0 then (0, t div 4 + 1) else (t mod 4 + 1, t div 4)) = (Suc t mod 4, Suc t div 4)"
    using count_step(1-4) [OF w, of t] by simp
  have run: "full_step (sew_layout ?sew) vo f (unat dest) (unat a) b t st =
      (if ?q mod 32 = 0 then obind (V_read u' 0 (?p div 32 + 1)) (\<lambda>mw. Inr (Suc t mod 4, Suc t div 4, ?p div 32 + 1, mw, u'))
       else Inr (Suc t mod 4, Suc t div 4, ?p div 32, drop_bit (epw ?sew) mw, u'))"
    using place u'(1) in32 by (simp add: full_step_def st_eq layout_facts(1) [OF w] Let_def split: if_splits)
  show ?thesis
  proof (cases "?q mod 32 = 0")
    case True
    have m: "?q div 32 = ?p div 32 + 1" "?q div 32 < 4"
      using count_step(5) [OF w True] t(2) by auto
    have "vm vo \<noteq> 0 \<or> vregs u' 0 (of_nat (?q div 32)) = vregs u0 0 (of_nat (?q div 32))"
      using mask_register_kept [OF ok(1) u'(2) of_nat_below(2) [OF m(2)]] .
    then have "word_state vo f dest a b u0 (Suc t) (Suc t mod 4, Suc t div 4, ?q div 32, vregs u' 0 (of_nat (?q div 32)), u')"
      using True u'(2,3) by (simp only: word_state_def Let_def prod.case) simp
    moreover have "full_step (sew_layout ?sew) vo f (unat dest) (unat a) b t st =
        Inr (Suc t mod 4, Suc t div 4, ?q div 32, vregs u' 0 (of_nat (?q div 32)), u')"
      using run True m by (simp only: if_True V_read_def) simp
    ultimately show ?thesis by blast
  next
    case False
    note c = count_step(6) [OF w False]
    have "vm vo \<noteq> 0 \<or> drop_bit (epw ?sew) mw = drop_bit (?q mod 32) (vregs u0 0 (of_nat (?q div 32)))"
      using mw c by (auto simp: add.commute)
    then have "word_state vo f dest a b u0 (Suc t) (Suc t mod 4, Suc t div 4, ?p div 32, drop_bit (epw ?sew) mw, u')"
      using u'(2,3) c by (simp only: word_state_def Let_def prod.case)
    then show ?thesis
      using run False by (simp only: if_False) blast
  qed
qed

lemma full_words:
  assumes ok: "dest_ok vo dest u0" "csr_vstart u0 = 0" and a: "group_ok u0 a" and b: "op2_ok u0 b"
    and f: "local_op (sew_of u0) f" and n: "n * epw (sew_of u0) \<le> unat (csr_vl u0)" "unat (csr_vl u0) < 128"
  shows "\<exists>st. ofold (full_step (sew_layout (sew_of u0)) vo f (unat dest) (unat a) b) [0..<n] (0, 0, 0, vregs u0 0 0, u0) = Inr st
    \<and> word_state vo f dest a b u0 n st"
  using n
proof (induction n)
  case 0
  have "width_ok (sew_of u0)"
    using ok(1) width_of_supported by (simp add: dest_ok_def)
  then have "written_to vo f dest a b u0 0 u0"
    by (rule lane_row.written_self [OF lane_row_packed])
  then show ?case
    by (simp add: word_state_def)
next
  case (Suc n)
  then obtain st where st: "ofold (full_step (sew_layout (sew_of u0)) vo f (unat dest) (unat a) b) [0..<n] (0, 0, 0, vregs u0 0 0, u0) = Inr st"
      "word_state vo f dest a b u0 n st"
    by auto
  have "Suc n * epw (sew_of u0) < 128"
    using Suc.prems by simp
  then obtain st' where "full_step (sew_layout (sew_of u0)) vo f (unat dest) (unat a) b n st = Inr st'"
      "word_state vo f dest a b u0 (Suc n) st'"
    using full_step_state [OF ok a b f st(2) Suc.prems(1)] by blast
  then show ?case
    using st(1) by (auto simp: ofold_append)
qed

section \<open>The last word\<close>

lemma fold_slots:
  assumes w: "width_ok sew" and k: "k < epw sew" and n: "n \<le> epw sew"
  shows "drop_bit (k * unat sew) (fold (\<lambda>k w. (w AND NOT (push_bit (k * unat sew) (elem_mask sew)))
      OR push_bit (k * unat sew) (y k AND elem_mask sew)) [0..<n] w0) AND elem_mask sew =
    (if k < n then y k AND elem_mask sew else drop_bit (k * unat sew) w0 AND elem_mask sew)"
  using n
proof (induction n)
  case (Suc n)
  have sh: "lane_shift sew j = j * unat sew" "j mod epw sew = j" if "j < epw sew" for j
    using that by (simp_all add: lane_shift_def)
  show ?case
    using slot_bits [OF w, of k _ n "y n"] sh [OF k] sh [of n] Suc by (auto simp: cut_elem_def less_Suc_eq)
qed simp

lemma body_mask_lanes:
  assumes w: "width_ok sew" and k: "k < epw sew" and n: "n < epw sew"
  defines "bm \<equiv> push_bit (n * unat sew) 1 - 1"
  shows "drop_bit (k * unat sew) ((x AND bm) OR NOT bm) AND elem_mask sew =
    (if k < n then drop_bit (k * unat sew) x AND elem_mask sew else elem_mask sew)"
proof (rule bit_eqI)
  fix i
  have bm: "bit bm j \<longleftrightarrow> j < n * unat sew" if "j < 32" for j
    using that bit_mask_iff [of "n * unat sew" j, where ?'a = "32 word"]
    by (auto simp: bm_def mask_eq_exp_minus_1 push_bit_eq_mult)
  show "bit (drop_bit (k * unat sew) ((x AND bm) OR NOT bm) AND elem_mask sew) i =
    bit (if k < n then drop_bit (k * unat sew) x AND elem_mask sew else elem_mask sew) i"
  proof (cases "i < unat sew")
    case True
    have r: "k * unat sew + i < 32"
      using shift_room [OF w True, of k] k by (simp add: lane_shift_def)
    have "k * unat sew + i < n * unat sew \<longleftrightarrow> k < n"
    proof
      assume "k < n"
      then have "Suc k * unat sew \<le> n * unat sew"
        by (intro mult_right_mono) auto
      then show "k * unat sew + i < n * unat sew"
        using True by simp
    next
      assume "k * unat sew + i < n * unat sew"
      then have "k * unat sew < n * unat sew"
        by (rule le_less_trans [OF le_add1])
      then show "k < n"
        by simp
    qed
    then show ?thesis
      using True r bm [OF r] by (auto simp: bit_and_iff bit_or_iff bit_not_iff bit_drop_bit_eq bit_elem_mask [OF w] possible_bit_def)
  next
    case False
    then show ?thesis
      by (simp add: bit_and_iff bit_elem_mask [OF w])
  qed
qed

text \<open>The writes of the last word are one write.\<close>

lemma V_rewrite:
  assumes "r < 32" "i < 4"
  shows "V_read (set_word (of_nat r) (of_nat i) x u) r i = Inr x"
    "V_write r i y (set_word (of_nat r) (of_nat i) x u) = Inr (set_word (of_nat r) (of_nat i) y u)"
  using assms by (simp_all add: V_read_def V_write_def set_word_def)

lemma slot_loop:
  assumes "r < 32" "i < 4"
  shows "ofold (\<lambda>k u. if \<not> r < 32 then Inl Assert_failed else obind (V_read u r i) (\<lambda>w. V_write r i (g k w) u)) ks
      (set_word (of_nat r) (of_nat i) w0 u) = Inr (set_word (of_nat r) (of_nat i) (fold g ks w0) u)"
  using assms by (induction ks arbitrary: w0) (simp_all add: V_rewrite)

lemma set_word_same: "set_word r w (vregs u r w) u = u"
  by (simp add: set_word_def)

lemma ofold_cong: "(\<And>x s. x \<in> set xs \<Longrightarrow> f x s = g x s) \<Longrightarrow> ofold f xs s = ofold g xs s"
  by (induction xs arbitrary: s) (auto simp: obind_def split: sum.splits)

text \<open>The word before the lanes of the body are written, and after.\<close>

definition tail_word :: "u32 \<Rightarrow> bool \<Rightarrow> nat \<Rightarrow> u32 \<Rightarrow> u32" where
  "tail_word sew agnostic n zd =
    (let bm = push_bit (n * unat sew) 1 - 1 in if n > 0 \<and> agnostic then (zd AND bm) OR NOT bm else zd)"

definition put_slots :: "u32 \<Rightarrow> (nat \<Rightarrow> u32) \<Rightarrow> nat \<Rightarrow> u32 \<Rightarrow> u32" where
  "put_slots sew c n = fold (\<lambda>k w. (w AND NOT (push_bit (k * unat sew) (elem_mask sew)))
      OR push_bit (k * unat sew) (c k AND elem_mask sew)) [0..<n]"

lemma loop_left_run:
  assumes w: "width_ok sew" and n: "unat (csr_vl u) mod epw sew = n"
    and r: "des + j < 32" "i < 4" "V_read u (a + j) i = Inr z1" "V_read u (des + j) i = Inr zd" "op2_word b u j i = Inr x"
  shows "loop_left (sew_layout sew) vo f des a b i j mw u =
    Inr (set_word (of_nat (des + j)) (of_nat i)
      (put_slots sew (lane_choice sew vo f b mw (vma u) z1 x zd) n (tail_word sew (vta u) n zd)) u)"
proof -
  let ?d = "sew_layout sew" and ?w0 = "tail_word sew (vta u) n zd" and ?r = "of_nat (des + j)" and ?i = "of_nat i"
  have n_less: "n < epw sew"
    using w n by (auto elim!: width_cases)
  have zd: "zd = vregs u ?r ?i"
    using r(1,2,4) by (simp add: V_read_def)
  have first: "(if n > 0 \<and> vta u then V_write (des + j) i ((zd AND push_bit (lane_pos ?d n) 1 - 1) OR NOT (push_bit (lane_pos ?d n) 1 - 1)) u
      else Inr u) = Inr (set_word ?r ?i ?w0 u)"
    using r(1,2) layout_facts(3) [OF w n_less] zd
    by (simp only: tail_word_def Let_def V_write_def) (simp add: set_word_same)
  have slot: "(v AND NOT (push_bit (lane_pos ?d k) (MASK ?d))) OR
      V_LANE_VALUE ?d vo (vma u) mw zd (f (drop_bit (lane_pos ?d k) z1) (op2_lane b x (lane_pos ?d k))) k
      = (v AND NOT (push_bit (k * unat sew) (elem_mask sew))) OR
        push_bit (k * unat sew) (lane_choice sew vo f b mw (vma u) z1 x zd k AND elem_mask sew)" if "k < n" for k v
    unfolding choice_value [OF w less_trans [OF that n_less]]
    by (simp only: layout_facts(2) [OF w] layout_facts(3) [OF w less_trans [OF that n_less]])
  show ?thesis
    unfolding loop_left_def r(3-5) obind_simps Let_def layout_facts(1) [OF w] n first put_slots_def
    unfolding slot_loop [OF r(1,2), symmetric]
    by (intro ofold_cong) (simp only: slot set_upt atLeastLessThan_iff)
qed

lemma put_slots_lane:
  assumes w: "width_ok sew" and k: "k < epw sew" and n: "n < epw sew" "0 < n"
  shows "drop_bit (k * unat sew) (put_slots sew c n (tail_word sew agnostic n zd)) AND elem_mask sew =
    (if k < n then c k AND elem_mask sew else if agnostic then elem_mask sew
     else drop_bit (k * unat sew) zd AND elem_mask sew)"
  using fold_slots [OF w k, of n c "tail_word sew agnostic n zd"] body_mask_lanes [OF w k n(1), of zd] n
  by (simp add: put_slots_def tail_word_def Let_def)

text \<open>A word not yet written still has the lanes of the unit before the loop.\<close>

lemma unwritten_word:
  assumes w: "width_ok sew" and r: "unat r * 4 + t < 128" and k: "k < epw sew"
    and wr: "written_lanes sew u0 (base_lane sew r) v 0 (t * epw sew) u"
  shows "drop_bit (k * unat sew) (group_word u r t) AND elem_mask sew = lane sew u0 (base_lane sew r + (t * epw sew + k))"
proof -
  have "Suc (unat r * 4 + t) * epw sew \<le> 128 * epw sew"
    using r by (intro mult_right_mono) auto
  then have "base_lane sew r + (t * epw sew + k) < 128 * epw sew"
    using k by (simp add: base_lane_def lane_of_def algebra_simps)
  then have "lane sew u (base_lane sew r + (t * epw sew + k)) = lane sew u0 (base_lane sew r + (t * epw sew + k))"
    using lane_row.written_other [OF lane_row_packed [OF w] wr] by auto
  then show ?thesis
    using word_lane [OF w k, of r t] by (simp add: lane_def base_lane_def add.assoc)
qed

lemma loop_left_step:
  assumes ok: "dest_ok vo dest u0" "csr_vstart u0 = 0" and a: "group_ok u0 a" and b: "op2_ok u0 b"
    and f: "local_op (sew_of u0) f"
    and t: "t = unat (csr_vl u0) div epw (sew_of u0)" "t < group_words u0" and n: "n = unat (csr_vl u0) mod epw (sew_of u0)"
    and wr: "written_to vo f dest a b u0 (t * epw (sew_of u0)) u" and cs: "csrs u = csrs u0"
    and mw: "vm vo \<noteq> 0 \<or> mw = drop_bit (t * epw (sew_of u0) mod 32) (vregs u0 0 (of_nat (t * epw (sew_of u0) div 32)))"
  shows "\<exists>u'. loop_left (sew_layout (sew_of u0)) vo f (unat dest) (unat a) b (t mod 4) (t div 4) mw u = Inr u'
    \<and> written_to vo f dest a b u0 ((if n = 0 then t else Suc t) * epw (sew_of u0)) u' \<and> csrs u' = csrs u0"
proof -
  let ?sew = "sew_of u0" let ?p = "t * epw (sew_of u0)"
  have sup: "rvv_vtype_is_supported (csr_vtype u0)" and d: "group_ok u0 dest"
    using ok by (auto simp: dest_ok_def group_ok_def)
  note w = width_of_supported [OF sup]
  have vl_eq: "unat (csr_vl u0) = ?p + n" and n_less: "n < epw ?sew"
    using t(1) n w by (auto elim!: width_cases)
  note da = word_index [OF sup a t(2)] and dd = word_index [OF sup d t(2)]
  obtain x where x: "op2_word b u (t div 4) (t mod 4) = Inr x"
      and y: "\<forall>k < epw ?sew. ?p + k < unat (csr_vl u0) \<longrightarrow>
        lane_choice ?sew vo f b mw (vma u0) (group_word u a t) x (group_word u dest t) k AND elem_mask ?sew
        = dispatch_result vo f dest a b u0 (?p + k)"
    using word_choice [OF ok a b f t(2) wr mw] by blast
  have pol: "vta u = vta u0" "vma u = vma u0" "unat (csr_vl u) mod epw ?sew = n"
    using csrs_eqD [OF cs] n by (simp_all add: vta_def vma_def)
  define out where "out = put_slots ?sew (lane_choice ?sew vo f b mw (vma u0) (group_word u a t) x (group_word u dest t)) n
      (tail_word ?sew (vta u0) n (group_word u dest t))"
  have run: "loop_left (sew_layout ?sew) vo f (unat dest) (unat a) b (t mod 4) (t div 4) mw u = Inr (set_group_word dest t out u)"
    using loop_left_run [OF w pol(3) dd(2) _ da(3) dd(3) x] by (simp add: out_def pol)
  show ?thesis
  proof (cases "n = 0")
    case True
    then have "set_group_word dest t out u = u"
      by (simp add: out_def put_slots_def tail_word_def Let_def set_word_same)
    then show ?thesis
      using True run wr cs by simp
  next
    case False
    have "written_to vo f dest a b u0 (Suc t * epw ?sew) (set_group_word dest t out u)"
      unfolding base_lane_def
    proof (rule written_word [OF w dd(1) wr [unfolded base_lane_def]])
      fix k assume k: "k < epw ?sew"
      show "drop_bit (k * unat ?sew) out AND elem_mask ?sew = dispatch_result vo f dest a b u0 (?p + k)"
        using put_slots_lane [OF w k n_less] False y k vl_eq unwritten_word [OF w dd(1) k wr]
        by (auto simp: out_def data_result_def Let_def)
    qed
    then show ?thesis
      using False run csrs_group_word [OF dd(2)] cs by simp
  qed
qed

section \<open>The tail\<close>

lemma ofold_count:
  assumes "\<And>n s. \<lbrakk>a \<le> n; n < b; P n s\<rbrakk> \<Longrightarrow> \<exists>s'. f n s = Inr s' \<and> P (Suc n) s'" "P a s" "a \<le> b"
  shows "\<exists>s'. ofold f [a..<b] s = Inr s' \<and> P b s'"
  using assms(3,1)
proof (induction b rule: dec_induct)
  case (step n)
  then obtain s1 where s1: "ofold f [a..<n] s = Inr s1" "P n s1"
    by (meson less_SucI)
  then obtain s2 where "f n s1 = Inr s2" "P (Suc n) s2"
    using step by blast
  then show ?case
    using s1 step.hyps(1) by (auto simp: ofold_append)
qed (use assms(2) in auto)

definition filled :: "v_operands_t \<Rightarrow> laneop_t \<Rightarrow> u32 \<Rightarrow> u32 \<Rightarrow> op2_t \<Rightarrow> vunit_t \<Rightarrow> nat \<Rightarrow> vunit_t \<Rightarrow> bool" where
  "filled vo f dest a b u0 t u \<longleftrightarrow> written_to vo f dest a b u0 (t * epw (sew_of u0)) u \<and> csrs u = csrs u0"

lemma ones_lane:
  assumes "width_ok sew" "k < epw sew"
  shows "drop_bit (k * unat sew) (0xFFFFFFFF :: u32) AND elem_mask sew = elem_mask sew"
proof -
  have "k = 0 \<or> k = 1 \<or> k = 2 \<or> k = 3"
    using assms by (elim width_cases) auto
  then show ?thesis
    using assms by (elim width_cases disjE) (simp_all add: elem_mask_def)
qed

lemma fill_word:
  assumes ok: "dest_ok vo dest u0" and "vta u0" and t: "unat (csr_vl u0) \<le> t * epw (sew_of u0)" "t < group_words u0"
    and fd: "filled vo f dest a b u0 t u"
  shows "\<exists>u'. V_write (unat dest + t div 4) (t mod 4) 0xFFFFFFFF u = Inr u' \<and> filled vo f dest a b u0 (Suc t) u'"
proof -
  let ?sew = "sew_of u0" and ?u = "set_word (of_nat (unat dest + t div 4)) (of_nat (t mod 4)) 0xFFFFFFFF u"
  have sup: "rvv_vtype_is_supported (csr_vtype u0)" and d: "group_ok u0 dest"
    using ok by (auto simp: dest_ok_def group_ok_def)
  note w = width_of_supported [OF sup] and dd = word_index [OF sup d t(2)]
  have wr: "written_to vo f dest a b u0 (t * epw ?sew) u" and cs: "csrs u = csrs u0"
    using fd by (simp_all add: filled_def)
  have "written_to vo f dest a b u0 (Suc t * epw ?sew) ?u"
    unfolding base_lane_def
  proof (rule written_word [OF w dd(1) wr [unfolded base_lane_def]])
    fix k assume k: "k < epw ?sew"
    have "drop_bit (k * unat ?sew) 0xFFFFFFFF AND elem_mask ?sew = elem_mask ?sew"
      by (rule ones_lane [OF w k])
    then show "drop_bit (k * unat ?sew) 0xFFFFFFFF AND elem_mask ?sew = dispatch_result vo f dest a b u0 (t * epw ?sew + k)"
      using t(1) assms(2) by (simp add: data_result_def Let_def)
  qed
  moreover have "csrs ?u = csrs u0"
    by (rule trans [OF csrs_set_word cs]) (rule of_nat_below(1) [OF dd(2)], rule of_nat_below(2), simp)
  ultimately show ?thesis
    using dd(4) by (simp add: filled_def)
qed

lemma fill_tail:
  assumes ok: "dest_ok vo dest u0" and vta: "vta u0" and t: "unat (csr_vl u0) \<le> (4 * j + i) * epw (sew_of u0)"
    and ij: "i \<le> 4" "j < unat (rvv_group_regs (csr_vtype u0))" and fd: "filled vo f dest a b u0 (4 * j + i) u"
  shows "\<exists>u'. V_FILL_LMUL_TAIL (unat dest) (unat (rvv_group_regs (csr_vtype u0))) i j u = Inr u'
    \<and> filled vo f dest a b u0 (group_words u0) u'"
proof -
  let ?n = "unat (rvv_group_regs (csr_vtype u0))" and ?F = "filled vo f dest a b u0"
  have sup: "rvv_vtype_is_supported (csr_vtype u0)" and d: "group_ok u0 dest"
    using ok by (auto simp: dest_ok_def group_ok_def)
  have place: "(4 * q + r) div 4 = q" "(4 * q + r) mod 4 = r" if "r < 4" for q r :: nat
    using that by simp_all
  have one: "\<exists>u'. V_write (unat dest + q) r 0xFFFFFFFF u = Inr u' \<and> ?F (4 * q + Suc r) u'"
    if "?F (4 * q + r) u" "q < ?n" "r < 4" "4 * j + i \<le> 4 * q + r" for q r u
  proof -
    have "unat (csr_vl u0) \<le> (4 * q + r) * epw (sew_of u0)"
      by (rule le_trans [OF t mult_right_mono]) (use that in auto)
    moreover have "4 * q + r < group_words u0"
      using that by (simp add: group_words_def)
    ultimately show ?thesis
      using fill_word [OF ok vta _ _ that(1)] place [OF that(3)] by simp
  qed
  have in32: "unat dest + j < 32"
    using word_index(2) [OF sup d, of "4 * j"] ij(2) by (simp add: group_words_def)
  have "\<exists>u1. ofold (\<lambda>i u. if \<not> unat dest + j < 32 then Inl Assert_failed else V_write (unat dest + j) i 0xFFFFFFFF u) [i..<4] u
      = Inr u1 \<and> ?F (4 * j + 4) u1"
    by (rule ofold_count [where P = "\<lambda>i u. ?F (4 * j + i) u"]) (use one [OF _ ij(2)] in32 fd ij(1) in auto)
  then obtain u1 where u1: "ofold (\<lambda>i u. if \<not> unat dest + j < 32 then Inl Assert_failed
        else V_write (unat dest + j) i 0xFFFFFFFF u) [i..<4] u = Inr u1" "?F (4 * Suc j) u1"
    by (auto simp: algebra_simps)
  have row: "\<exists>u'. ofold (\<lambda>w. V_write (unat dest + q) w 0xFFFFFFFF) [0..<4] u = Inr u' \<and> ?F (4 * Suc q) u'"
    if "Suc j \<le> q" "q < ?n" "?F (4 * q) u" for q u
  proof -
    have "\<exists>u'. ofold (\<lambda>w. V_write (unat dest + q) w 0xFFFFFFFF) [0..<4] u = Inr u' \<and> ?F (4 * q + 4) u'"
    proof (rule ofold_count [where P = "\<lambda>w. ?F (4 * q + w)"])
      fix r u assume "r < 4" "?F (4 * q + r) u"
      then show "\<exists>u'. V_write (unat dest + q) r 0xFFFFFFFF u = Inr u' \<and> ?F (4 * q + Suc r) u'"
        using one [OF _ that(2), of r u] that(1) ij(1) by simp
    qed (use that in auto)
    then show ?thesis
      by (simp add: algebra_simps)
  qed
  have "\<exists>u'. ofold (\<lambda>j. ofold (\<lambda>w. V_write (unat dest + j) w 0xFFFFFFFF) [0..<4]) [Suc j..<?n] u1 = Inr u' \<and> ?F (4 * ?n) u'"
    by (rule ofold_count [where P = "\<lambda>q. ?F (4 * q)"]) (use row u1(2) ij(2) in auto)
  then show ?thesis
    using u1(1) by (simp add: V_FILL_LMUL_TAIL_def group_words_def)
qed

section \<open>A whole instruction\<close>

text \<open>Without the agnostic policy the words after the body keep their lanes.\<close>

lemma undisturbed_lanes:
  assumes "width_ok (sew_of u0)" "\<not> vta u0" "unat (csr_vl u0) \<le> p" "p \<le> q" "written_to vo f dest a b u0 p u"
  shows "written_to vo f dest a b u0 q u"
proof -
  have "data_result vo dest v u0 e = lane (sew_of u0) u0 (base_lane (sew_of u0) dest + e)"
    if "unat (csr_vl u0) \<le> e" for v e
    using that assms(2) by (simp add: data_result_def Let_def)
  then show ?thesis
    using assms(3-5) by (auto simp: lane_row.written_def [OF lane_row_packed [OF assms(1)]])
qed

lemma tail_filled:
  assumes ok: "dest_ok vo dest u0" and t: "unat (csr_vl u0) \<le> (4 * j + i) * epw (sew_of u0)"
    and ij: "i \<le> 4" "j < unat (rvv_group_regs (csr_vtype u0))" and fd: "filled vo f dest a b u0 (4 * j + i) u"
  shows "\<exists>u'. (if vta u then V_FILL_LMUL_TAIL (unat dest) (unat (rvv_group_regs (csr_vtype u0))) i j u else Inr u) = Inr u'
    \<and> filled vo f dest a b u0 (group_words u0) u'"
proof -
  have v: "vta u = vta u0"
    using fd csrs_eqD(2) [of u u0] by (simp add: vta_def filled_def)
  have w: "width_ok (sew_of u0)"
    using ok width_of_supported by (simp add: dest_ok_def)
  have "(4 * j + i) * epw (sew_of u0) \<le> group_words u0 * epw (sew_of u0)"
    using ij by (intro mult_right_mono) (auto simp: group_words_def)
  then have "filled vo f dest a b u0 (group_words u0) u" if "\<not> vta u0"
    using undisturbed_lanes [OF w that t] fd by (simp add: filled_def)
  then show ?thesis
    using fill_tail [OF ok _ t ij fd] v by auto
qed

lemma sew_handler_lanes:
  assumes ok: "dest_ok vo dest u0" "csr_vstart u0 = 0" and a: "group_ok u0 a" and b: "op2_ok u0 b"
    and f: "local_op (sew_of u0) f" and vl: "unat (csr_vl u0) < 128"
  shows "\<exists>u'. sew_handler (sew_layout (sew_of u0)) vo f (unat dest) (unat a) b u0 = Inr u'
    \<and> filled vo f dest a b u0 (group_words u0) u'"
proof -
  let ?sew = "sew_of u0" and ?F = "filled vo f dest a b u0" and ?d = "sew_layout (sew_of u0)"
  have sup: "rvv_vtype_is_supported (csr_vtype u0)" and vlmax: "unat (csr_vl u0) \<le> unat (vlmax_of u0)" and d: "group_ok u0 dest"
    using ok by (auto simp: dest_ok_def word_le_nat_alt group_ok_def)
  note w = width_of_supported [OF sup]
  have e: "0 < epw ?sew"
    using w by (auto elim: width_cases)
  define t n where "t = unat (csr_vl u0) div epw ?sew" and "n = unat (csr_vl u0) mod epw ?sew"
  have vl_eq: "unat (csr_vl u0) = t * epw ?sew + n" "n < epw ?sew"
    using e by (simp_all add: t_def n_def)
  obtain mw u where full: "ofold (full_step ?d vo f (unat dest) (unat a) b) [0..<t] (0, 0, 0, vregs u0 0 0, u0)
        = Inr (t mod 4, t div 4, t * epw ?sew div 32, mw, u)"
      and mw: "vm vo \<noteq> 0 \<or> mw = drop_bit (t * epw ?sew mod 32) (vregs u0 0 (of_nat (t * epw ?sew div 32)))"
      and wr: "written_to vo f dest a b u0 (t * epw ?sew) u" and cs: "csrs u = csrs u0"
    using full_words [OF ok a b f _ vl, of t] vl_eq(1) by (auto simp: word_state_def Let_def)
  have fd: "?F (4 * (t div 4) + t mod 4) u"
    using wr cs by (simp add: filled_def)
  have lt: "t div 4 < unat (rvv_group_regs (csr_vtype u0)) \<longleftrightarrow> t < group_words u0"
    by (simp add: group_words_def div_less_iff_less_mult mult.commute)
  have run: "sew_handler ?d vo f (unat dest) (unat a) b u0 =
     (if \<not> t < group_words u0 then Inr u
      else if epw ?sew = 1 then (if vta u then V_FILL_LMUL_TAIL (unat dest) (unat (rvv_group_regs (csr_vtype u0))) (t mod 4) (t div 4) u else Inr u)
      else obind (loop_left ?d vo f (unat dest) (unat a) b (t mod 4) (t div 4) mw u) (\<lambda>u.
        if vta u then V_FILL_LMUL_TAIL (unat dest) (unat (rvv_group_regs (csr_vtype u0)))
          (if n \<noteq> 0 then t mod 4 + 1 else t mod 4) (t div 4) u else Inr u))"
    using full by (simp only: sew_handler_def Let_def layout_facts(1) [OF w] t_def [symmetric] n_def [symmetric] obind_simps prod.case lt)
  show ?thesis
  proof (cases "t < group_words u0")
    case False
    have "unat (vlmax_of u0) \<le> group_words u0 * epw ?sew"
      using group_fits(3) [OF sup, of dest] d by (simp add: group_ok_def group_words_def mult_ac)
    then have "t * epw ?sew \<le> group_words u0 * epw ?sew"
      using vl_eq vlmax by linarith
    then have "t = group_words u0"
      using False e by simp
    then show ?thesis
      using run fd by simp
  next
    case True
    then have j: "t div 4 < unat (rvv_group_regs (csr_vtype u0))"
      using lt by simp
    show ?thesis
    proof (cases "epw ?sew = 1")
      case one: True
      then have "unat (csr_vl u0) \<le> (4 * (t div 4) + t mod 4) * epw ?sew"
        using vl_eq by simp
      from tail_filled [OF ok(1) this _ j fd] show ?thesis
        using run True one by simp
    next
      case False
      obtain u1 where u1: "loop_left ?d vo f (unat dest) (unat a) b (t mod 4) (t div 4) mw u = Inr u1"
          "?F (if n = 0 then t else Suc t) u1"
        using loop_left_step [OF ok a b f t_def True n_def wr cs mw] by (auto simp: filled_def)
      let ?i = "if n \<noteq> 0 then t mod 4 + 1 else t mod 4"
      have i: "4 * (t div 4) + ?i = (if n = 0 then t else Suc t)"
        by simp
      have "unat (csr_vl u0) \<le> (4 * (t div 4) + ?i) * epw ?sew"
        unfolding i using vl_eq by simp
      then have "\<exists>u'. (if vta u1 then V_FILL_LMUL_TAIL (unat dest) (unat (rvv_group_regs (csr_vtype u0))) ?i (t div 4) u1 else Inr u1)
          = Inr u' \<and> ?F (group_words u0) u'"
        by (rule tail_filled [OF ok(1) _ _ j]) (use u1(2) i in auto)
      then show ?thesis
        using run True False u1(1) by simp
    qed
  qed
qed

text \<open>For an integral register group, or with the tail undisturbed, this is the result of the element loop.\<close>

lemma integral_group:
  assumes "rvv_vtype_is_supported (csr_vtype u)" "csr_vtype u AND 7 < 4"
  shows "unat (vlmax_of u) = group_words u * epw (sew_of u)"
  using assms(1)
proof (cases rule: supported_cases)
  case 1
  then show ?thesis
    by (auto simp: vlmax_of_def sew_of_def group_words_def epw_def rvv_sew_bits_def rvv_group_regs_def rvv_vlmax_def
        rvv_lmul_ratio_def unat_div)
qed (use assms(2) in \<open>auto simp: word_less_nat_alt\<close>)

lemma dispatch_lanes:
  assumes ok: "dest_ok vo dest u0" "csr_vstart u0 = 0" and a: "group_ok u0 a" and b: "op2_ok u0 b"
    and f: "local_op (sew_of u0) f" and vl: "unat (csr_vl u0) < 128" and tail: "vta u0 \<longrightarrow> csr_vtype u0 AND 7 < 4"
  shows "\<exists>u'. sew_handler (sew_layout (sew_of u0)) vo f (unat dest) (unat a) b u0 = Inr u'
    \<and> group_is (sew_of u0) (base_lane (sew_of u0) dest) (unat (vlmax_of u0)) (dispatch_result vo f dest a b u0) u0 u'
    \<and> csrs u' = csrs u0"
proof -
  let ?sew = "sew_of u0" and ?b = "base_lane (sew_of u0) dest" and ?n = "group_words u0 * epw (sew_of u0)"
  have sup: "rvv_vtype_is_supported (csr_vtype u0)" and v: "unat (csr_vl u0) \<le> unat (vlmax_of u0)"
    using ok(1) by (auto simp: dest_ok_def word_le_nat_alt)
  note w = width_of_supported [OF sup]
  obtain u' where u': "sew_handler (sew_layout ?sew) vo f (unat dest) (unat a) b u0 = Inr u'"
      "written_to vo f dest a b u0 ?n u'" "csrs u' = csrs u0"
    using sew_handler_lanes [OF ok a b f vl] by (auto simp: filled_def)
  have lim: "unat (vlmax_of u0) \<le> ?n"
    using group_fits(3) [OF sup, of dest] ok(1) by (simp add: dest_ok_def group_words_def mult_ac)
  have keep: "dispatch_result vo f dest a b u0 e = lane ?sew u0 (?b + e)" if "unat (vlmax_of u0) \<le> e" "e < ?n" for e
  proof -
    have "\<not> vta u0"
      using tail integral_group [OF sup] that by auto
    then show ?thesis
      using that v by (simp add: data_result_def Let_def)
  qed
  have "group_is ?sew ?b (unat (vlmax_of u0)) (dispatch_result vo f dest a b u0) u0 u'"
    unfolding group_is_def
  proof (intro allI impI)
    fix m assume "m < 128 * epw ?sew"
    then have "lane ?sew u' m = (if ?b \<le> m \<and> m < ?b + ?n then dispatch_result vo f dest a b u0 (m - ?b) else lane ?sew u0 m)"
      using u'(2) by (simp add: lane_row.written_def [OF lane_row_packed [OF w]])
    then show "lane ?sew u' m = (if ?b \<le> m \<and> m < ?b + unat (vlmax_of u0) then dispatch_result vo f dest a b u0 (m - ?b)
        else lane ?sew u0 m)"
      using keep [of "m - ?b"] lim by auto
  qed
  then show ?thesis
    using u' by blast
qed

section \<open>Both loops\<close>

definition dispatch_ops :: "(u32 \<Rightarrow> laneop_t) set" where
  "dispatch_ops = {op_add, op_sub, op_rsub, op_and, op_or, op_xor, op_vmv, op_sll, op_mul}"

lemma mask_take: "width_ok sew \<Longrightarrow> v AND elem_mask sew = take_bit (unat sew) v"
  by (elim width_cases) (simp_all add: elem_mask_def take_bit_eq_mask mask_eq_exp_minus_1)

lemma take_bit_word_arith:
  "take_bit n (take_bit n a + take_bit n b) = take_bit n (a + b)"
  "take_bit n (take_bit n a - take_bit n b) = take_bit n (a - b)"
  "take_bit n (take_bit n a * take_bit n b) = take_bit n (a * b)" for a b :: u32
  by (transfer, simp add: take_bit_take_bit min_def take_bit_add take_bit_diff take_bit_mult)+

lemma shift_local:
  assumes "width_ok sew"
  shows "take_bit (unat sew) b AND (sew - 1) = b AND (sew - 1)"
proof -
  have "sew - 1 AND elem_mask sew = sew - 1"
    using assms by (elim width_cases) (simp_all add: elem_mask_def)
  then show ?thesis
    unfolding mask_take [OF assms, symmetric] by (metis and.assoc and.commute)
qed

lemma dispatch_ops_local:
  assumes "f \<in> dispatch_ops" "width_ok sew"
  shows "local_op sew (f sew)"
  using assms(1) unfolding dispatch_ops_def local_op_def mask_take [OF assms(2)]
  by (auto simp: op_add_def op_sub_def op_rsub_def op_and_def op_or_def op_xor_def op_vmv_def op_sll_def op_mul_def
      take_bit_word_arith take_bit_and take_bit_or take_bit_xor shift_local [OF assms(2)]
      take_bit_push_bit)

lemma trunc_cut:
  assumes "width_ok sew"
  shows "rvv_trunc_elem v sew = v AND elem_mask sew"
proof (cases "sew = 32")
  case True
  then show ?thesis
    using mask_take [OF assms, of v] by (simp add: rvv_trunc_elem_def take_bit_word_eq_self)
next
  case False
  then show ?thesis
    using assms by (elim width_cases) (simp_all add: rvv_trunc_elem_def elem_mask_def)
qed

lemma dispatch_equals:
  assumes f: "f \<in> dispatch_ops" and ok: "dest_ok (vop ir) (opreg vd ir) (vu rv)" "csr_vstart (vu rv) = 0"
    and src: "data_reg ir (vu rv) vs2" "opreg vs2 ir < 32" and vl: "csr_vl (vu rv) < 128"
    and tail: "vta (vu rv) \<longrightarrow> csr_vtype (vu rv) AND 7 < 4" and b: "op2_ok (vu rv) (b ir rv)"
    and rhs: "\<And>e u. \<lbrakk>e < unat (csr_vl (vu rv)); csrs u = csrs (vu rv);
      \<forall>m < 128 * epw (sew_in rv). m < base_lane (sew_in rv) (opreg vd ir) \<or> base_lane (sew_in rv) (opreg vd ir) + e \<le> m
         \<longrightarrow> lane (sew_in rv) u m = lane (sew_in rv) (vu rv) m\<rbrakk>
      \<Longrightarrow> rhs ir rv (sew_in rv) (of_nat e) u = Inr (op2_elem (vu rv) (b ir rv) e)"
    and legal: "legal ir (vu rv)"
  shows "vdispatch vs2 b f env ir cycle pcv rv =
    vguard legal (on_vd (exec_data rhs (\<lambda>a b sew. f sew a b))) env ir cycle pcv rv"
proof -
  let ?u = "vu rv"
  have sup: "rvv_vtype_is_supported (csr_vtype ?u)"
    using ok(1) by (simp add: dest_ok_def)
  note w = width_of_supported [OF sup]
  have still: "?u\<lparr>csr_vstart := 0\<rparr> = ?u"
    using ok(2) by (cases ?u) simp
  obtain u' where loop: "exec_data rhs (\<lambda>a b sew. f sew a b) rv ir (opreg vd ir) = Inr (rv\<lparr>vu := u'\<rparr>)"
      and g: "group_is (sew_of ?u) (base_lane (sew_of ?u) (opreg vd ir)) (unat (vlmax_of ?u))
        (dispatch_result (vop ir) (f (sew_of ?u)) (opreg vd ir) (opreg vs2 ir) (b ir rv) ?u) ?u u'"
      and cs: "csrs u' = csrs ?u"
    using exec_data_computes [OF ok(1) src, of rhs "op2_elem ?u (b ir rv)" "\<lambda>a b sew. f sew a b", OF rhs]
    by (auto simp: computes_def sew_in_def lane_op_def [abs_def] element_def [abs_def] still)
  have a: "group_ok ?u (opreg vs2 ir)"
    using src by (simp add: group_ok_def data_reg_def)
  obtain u2 where words: "sew_handler (sew_layout (sew_of ?u)) (vop ir) (f (sew_of ?u)) (unat (opreg vd ir)) (unat (opreg vs2 ir)) (b ir rv) ?u = Inr u2"
      and g2: "group_is (sew_of ?u) (base_lane (sew_of ?u) (opreg vd ir)) (unat (vlmax_of ?u))
        (dispatch_result (vop ir) (f (sew_of ?u)) (opreg vd ir) (opreg vs2 ir) (b ir rv) ?u) ?u u2"
      and cs2: "csrs u2 = csrs ?u"
    using dispatch_lanes [OF ok a b dispatch_ops_local [OF f w] _ tail] vl by (auto simp: word_less_nat_alt)
  have "u2 = u'"
    by (rule vunit_eqI [OF w]) (use g g2 cs cs2 in \<open>simp_all add: group_is_def\<close>)
  then have "VECTOR_DISPATCH (vop ir) f (vd (vop ir)) (vs2 (vop ir)) (b ir rv) ?u = Inr u'"
    using words by (simp add: VECTOR_DISPATCH_def opreg_def unat_ucast8)
  then show ?thesis
    using loop legal sup
    by (simp add: vdispatch_def vguard_def legal_state_def on_vd_def on_vunit_def succeed_def require_valid_iff)
qed

text \<open>C34: the word-at-a-time loops. The add, subtract, reverse subtract, logic, move, shift-left and multiply
  instructions run on whole words of several lanes, with their own treatment of the mask, the partly
  filled last word and the tail. With legal register groups, vstart zero, a vector length below 128 and an
  integral LMUL when the tail is agnostic, each of their three forms does exactly what the same
  operation does under the loop over single elements, to every bit of the hart.\<close>

theorem word_loops_agree:
  assumes "f \<in> dispatch_ops" and "legal_data [vd, vs2] ir (vu rv)"
    and "csr_vl (vu rv) \<le> vlmax_of (vu rv)" "csr_vl (vu rv) < 128" "csr_vstart (vu rv) = 0"
    and "opreg vd ir < 32" "opreg vs1 ir < 32" "opreg vs2 ir < 32" "vm (vop ir) \<noteq> 0 \<or> opreg vd ir \<noteq> 0"
    and "vta (vu rv) \<longrightarrow> csr_vtype (vu rv) AND 7 < 4"
  shows "(data_reg ir (vu rv) vs1 \<longrightarrow>
      vdispatch vs2 by_vv f env ir cycle pcv rv =
      vguard (legal_data [vd, vs1, vs2]) (on_vd (rvv_exec_data_vv (\<lambda>a b sew. f sew a b))) env ir cycle pcv rv)
    \<and> vdispatch vs2 by_vx f env ir cycle pcv rv =
      vguard (legal_data [vd, vs2]) (on_vd (rvv_exec_data_vx (\<lambda>a b sew. f sew a b))) env ir cycle pcv rv
    \<and> vdispatch vs2 by_vi f env ir cycle pcv rv =
      vguard (legal_data [vd, vs2]) (on_vd (rvv_exec_data_vi (\<lambda>a b sew. f sew a b))) env ir cycle pcv rv"
proof -
  have ok: "dest_ok (vop ir) (opreg vd ir) (vu rv)" and src: "data_reg ir (vu rv) vs2"
    using assms(2) by (auto simp: legal_data_def intro!: legal_dest [OF assms(2,3,6,9)])
  have w: "width_ok (sew_of (vu rv))"
    using ok width_of_supported by (simp add: dest_ok_def)
  note same = dispatch_equals [OF assms(1) ok assms(5) src assms(8,4,10), of _ _ _ env cycle pcv]
  have "vdispatch vs2 by_vv f env ir cycle pcv rv =
      vguard (legal_data [vd, vs1, vs2]) (on_vd (rvv_exec_data_vv (\<lambda>a b sew. f sew a b))) env ir cycle pcv rv"
    if one: "data_reg ir (vu rv) vs1"
    unfolding rvv_exec_data_vv_def
  proof (rule same)
    show "op2_ok (vu rv) (by_vv ir rv)"
      using one assms(7) by (simp add: by_vv_def group_ok_def data_reg_def opreg_def)
    show "legal_data [vd, vs1, vs2] ir (vu rv)"
      using one assms(2) by (simp add: legal_data_def)
  qed (use source_element [OF ok one assms(7)] in \<open>simp add: rhs_v_def src1_def by_vv_def sew_in_def opreg_def element_def\<close>)
  moreover have "vdispatch vs2 by_vx f env ir cycle pcv rv =
      vguard (legal_data [vd, vs2]) (on_vd (rvv_exec_data_vx (\<lambda>a b sew. f sew a b))) env ir cycle pcv rv"
    unfolding rvv_exec_data_vx_def
    by (rule same) (simp_all add: rhs_x_def by_vx_def sew_in_def trunc_cut [OF w] assms(2))
  moreover have "vdispatch vs2 by_vi f env ir cycle pcv rv =
      vguard (legal_data [vd, vs2]) (on_vd (rvv_exec_data_vi (\<lambda>a b sew. f sew a b))) env ir cycle pcv rv"
    unfolding rvv_exec_data_vi_def
    by (rule same) (simp_all add: rhs_i_def by_vi_def sew_in_def trunc_cut [OF w] assms(2))
  ultimately show ?thesis
    by blast
qed

theorem word_loops_agree_witness:
  "vdispatch vs2 by_vv op_mul sample_env vec_insn 0 0 vec_hart =
   vguard (legal_data [vd, vs1, vs2]) (on_vd (rvv_exec_data_vv (\<lambda>a b sew. op_mul sew a b))) sample_env vec_insn 0 0 vec_hart"
  using word_loops_agree [OF _ vec_legal(1), of op_mul sample_env 0 0] vec_legal(2)
  by (simp add: dispatch_ops_def vec_operands vec_state)

end
