(* ===== verification/Aes.thy ===== *)
theory Aes imports Prelude begin

text \<open>
  The AES accelerator of \<open>src/src/esp32c3.c\<close>: S-boxes, the field multiplication, key expansion, the
  cipher in both directions. A \<open>uint8_t\<close> array is a list of bytes; the key has 16, 24 or 32 bytes and
  \<open>Nk\<close> is their number of words.
\<close>

section \<open>Tables\<close>

definition esp32c3_aes_sbox :: "u8 list" where
  "esp32c3_aes_sbox =
    [0x63, 0x7C, 0x77, 0x7B, 0xF2, 0x6B, 0x6F, 0xC5, 0x30, 0x01, 0x67, 0x2B, 0xFE, 0xD7, 0xAB, 0x76,
     0xCA, 0x82, 0xC9, 0x7D, 0xFA, 0x59, 0x47, 0xF0, 0xAD, 0xD4, 0xA2, 0xAF, 0x9C, 0xA4, 0x72, 0xC0,
     0xB7, 0xFD, 0x93, 0x26, 0x36, 0x3F, 0xF7, 0xCC, 0x34, 0xA5, 0xE5, 0xF1, 0x71, 0xD8, 0x31, 0x15,
     0x04, 0xC7, 0x23, 0xC3, 0x18, 0x96, 0x05, 0x9A, 0x07, 0x12, 0x80, 0xE2, 0xEB, 0x27, 0xB2, 0x75,
     0x09, 0x83, 0x2C, 0x1A, 0x1B, 0x6E, 0x5A, 0xA0, 0x52, 0x3B, 0xD6, 0xB3, 0x29, 0xE3, 0x2F, 0x84,
     0x53, 0xD1, 0x00, 0xED, 0x20, 0xFC, 0xB1, 0x5B, 0x6A, 0xCB, 0xBE, 0x39, 0x4A, 0x4C, 0x58, 0xCF,
     0xD0, 0xEF, 0xAA, 0xFB, 0x43, 0x4D, 0x33, 0x85, 0x45, 0xF9, 0x02, 0x7F, 0x50, 0x3C, 0x9F, 0xA8,
     0x51, 0xA3, 0x40, 0x8F, 0x92, 0x9D, 0x38, 0xF5, 0xBC, 0xB6, 0xDA, 0x21, 0x10, 0xFF, 0xF3, 0xD2,
     0xCD, 0x0C, 0x13, 0xEC, 0x5F, 0x97, 0x44, 0x17, 0xC4, 0xA7, 0x7E, 0x3D, 0x64, 0x5D, 0x19, 0x73,
     0x60, 0x81, 0x4F, 0xDC, 0x22, 0x2A, 0x90, 0x88, 0x46, 0xEE, 0xB8, 0x14, 0xDE, 0x5E, 0x0B, 0xDB,
     0xE0, 0x32, 0x3A, 0x0A, 0x49, 0x06, 0x24, 0x5C, 0xC2, 0xD3, 0xAC, 0x62, 0x91, 0x95, 0xE4, 0x79,
     0xE7, 0xC8, 0x37, 0x6D, 0x8D, 0xD5, 0x4E, 0xA9, 0x6C, 0x56, 0xF4, 0xEA, 0x65, 0x7A, 0xAE, 0x08,
     0xBA, 0x78, 0x25, 0x2E, 0x1C, 0xA6, 0xB4, 0xC6, 0xE8, 0xDD, 0x74, 0x1F, 0x4B, 0xBD, 0x8B, 0x8A,
     0x70, 0x3E, 0xB5, 0x66, 0x48, 0x03, 0xF6, 0x0E, 0x61, 0x35, 0x57, 0xB9, 0x86, 0xC1, 0x1D, 0x9E,
     0xE1, 0xF8, 0x98, 0x11, 0x69, 0xD9, 0x8E, 0x94, 0x9B, 0x1E, 0x87, 0xE9, 0xCE, 0x55, 0x28, 0xDF,
     0x8C, 0xA1, 0x89, 0x0D, 0xBF, 0xE6, 0x42, 0x68, 0x41, 0x99, 0x2D, 0x0F, 0xB0, 0x54, 0xBB, 0x16]"

definition esp32c3_aes_inv_sbox :: "u8 list" where
  "esp32c3_aes_inv_sbox =
    [0x52, 0x09, 0x6A, 0xD5, 0x30, 0x36, 0xA5, 0x38, 0xBF, 0x40, 0xA3, 0x9E, 0x81, 0xF3, 0xD7, 0xFB,
     0x7C, 0xE3, 0x39, 0x82, 0x9B, 0x2F, 0xFF, 0x87, 0x34, 0x8E, 0x43, 0x44, 0xC4, 0xDE, 0xE9, 0xCB,
     0x54, 0x7B, 0x94, 0x32, 0xA6, 0xC2, 0x23, 0x3D, 0xEE, 0x4C, 0x95, 0x0B, 0x42, 0xFA, 0xC3, 0x4E,
     0x08, 0x2E, 0xA1, 0x66, 0x28, 0xD9, 0x24, 0xB2, 0x76, 0x5B, 0xA2, 0x49, 0x6D, 0x8B, 0xD1, 0x25,
     0x72, 0xF8, 0xF6, 0x64, 0x86, 0x68, 0x98, 0x16, 0xD4, 0xA4, 0x5C, 0xCC, 0x5D, 0x65, 0xB6, 0x92,
     0x6C, 0x70, 0x48, 0x50, 0xFD, 0xED, 0xB9, 0xDA, 0x5E, 0x15, 0x46, 0x57, 0xA7, 0x8D, 0x9D, 0x84,
     0x90, 0xD8, 0xAB, 0x00, 0x8C, 0xBC, 0xD3, 0x0A, 0xF7, 0xE4, 0x58, 0x05, 0xB8, 0xB3, 0x45, 0x06,
     0xD0, 0x2C, 0x1E, 0x8F, 0xCA, 0x3F, 0x0F, 0x02, 0xC1, 0xAF, 0xBD, 0x03, 0x01, 0x13, 0x8A, 0x6B,
     0x3A, 0x91, 0x11, 0x41, 0x4F, 0x67, 0xDC, 0xEA, 0x97, 0xF2, 0xCF, 0xCE, 0xF0, 0xB4, 0xE6, 0x73,
     0x96, 0xAC, 0x74, 0x22, 0xE7, 0xAD, 0x35, 0x85, 0xE2, 0xF9, 0x37, 0xE8, 0x1C, 0x75, 0xDF, 0x6E,
     0x47, 0xF1, 0x1A, 0x71, 0x1D, 0x29, 0xC5, 0x89, 0x6F, 0xB7, 0x62, 0x0E, 0xAA, 0x18, 0xBE, 0x1B,
     0xFC, 0x56, 0x3E, 0x4B, 0xC6, 0xD2, 0x79, 0x20, 0x9A, 0xDB, 0xC0, 0xFE, 0x78, 0xCD, 0x5A, 0xF4,
     0x1F, 0xDD, 0xA8, 0x33, 0x88, 0x07, 0xC7, 0x31, 0xB1, 0x12, 0x10, 0x59, 0x27, 0x80, 0xEC, 0x5F,
     0x60, 0x51, 0x7F, 0xA9, 0x19, 0xB5, 0x4A, 0x0D, 0x2D, 0xE5, 0x7A, 0x9F, 0x93, 0xC9, 0x9C, 0xEF,
     0xA0, 0xE0, 0x3B, 0x4D, 0xAE, 0x2A, 0xF5, 0xB0, 0xC8, 0xEB, 0xBB, 0x3C, 0x83, 0x53, 0x99, 0x61,
     0x17, 0x2B, 0x04, 0x7E, 0xBA, 0x77, 0xD6, 0x26, 0xE1, 0x69, 0x14, 0x63, 0x55, 0x21, 0x0C, 0x7D]"

definition sub_byte :: "u8 \<Rightarrow> u8" where
  "sub_byte b = esp32c3_aes_sbox ! unat b"

definition inv_sub_byte :: "u8 \<Rightarrow> u8" where
  "inv_sub_byte b = esp32c3_aes_inv_sbox ! unat b"

section \<open>The field\<close>

text \<open>Doubling, which the multiplication and the round constants share: \<open>a << 1\<close> in eight bits, reduced.\<close>

definition xtime :: "u8 \<Rightarrow> u8" where
  "xtime a = push_bit 1 a XOR (if a AND 0x80 \<noteq> 0 then 0x1b else 0)"

primrec gmul_loop :: "nat \<Rightarrow> u8 \<Rightarrow> u8 \<Rightarrow> u8 \<Rightarrow> u8" where
  "gmul_loop 0 a b p = p"
| "gmul_loop (Suc n) a b p = gmul_loop n (xtime a) (drop_bit 1 b) (if b AND 1 \<noteq> 0 then p XOR a else p)"

definition esp32c3_aes_gmul :: "u8 \<Rightarrow> u8 \<Rightarrow> u8" where
  "esp32c3_aes_gmul a b = gmul_loop 8 a b 0"

section \<open>Key expansion\<close>

text \<open>\<open>w\<close> grows by one word in every step; \<open>word_at w i\<close> are the bytes \<open>4*i\<close> to \<open>4*i+3\<close>.\<close>

definition word_at :: "u8 list \<Rightarrow> nat \<Rightarrow> u8 list" where
  "word_at w i = take 4 (drop (4 * i) w)"

definition rot_word :: "u8 list \<Rightarrow> u8 list" where
  "rot_word t = [t ! 1, t ! 2, t ! 3, t ! 0]"

definition keyexp_step :: "nat \<Rightarrow> nat \<Rightarrow> u8 list \<times> u8 \<Rightarrow> u8 list \<times> u8" where
  "keyexp_step Nk i = (\<lambda>(w, rcon).
    let t = word_at w (i - 1);
        (t, rcon) =
          (if i mod Nk = 0 then ((map sub_byte (rot_word t))[0 := sub_byte (t ! 1) XOR rcon], xtime rcon)
           else if Nk > 6 \<and> i mod Nk = 4 then (map sub_byte t, rcon)
           else (t, rcon))
    in (w @ map2 (XOR) (word_at w (i - Nk)) t, rcon))"

definition esp32c3_aes_keyexp :: "u8 list \<Rightarrow> nat \<Rightarrow> u8 list" where
  "esp32c3_aes_keyexp key Nk =
    fst (fold (keyexp_step Nk) [Nk..<4 * (Nk + 6 + 1)] (take (4 * Nk) key, 1))"

section \<open>Rounds\<close>

text \<open>The swaps of bytes 1, 5, 9, 13, of 2, 6, 10, 14 and of 3, 7, 11, 15.\<close>

definition shift_rows :: "u8 list \<Rightarrow> u8 list" where
  "shift_rows s = s[1 := s ! 5, 5 := s ! 9, 9 := s ! 13, 13 := s ! 1,
     2 := s ! 10, 10 := s ! 2, 6 := s ! 14, 14 := s ! 6,
     3 := s ! 15, 15 := s ! 11, 11 := s ! 7, 7 := s ! 3]"

definition inv_shift_rows :: "u8 list \<Rightarrow> u8 list" where
  "inv_shift_rows s = s[3 := s ! 7, 7 := s ! 11, 11 := s ! 15, 15 := s ! 3,
     2 := s ! 10, 10 := s ! 2, 6 := s ! 14, 14 := s ! 6,
     1 := s ! 13, 13 := s ! 9, 9 := s ! 5, 5 := s ! 1]"

definition esp32c3_aes_subshift :: "u8 list \<Rightarrow> bool \<Rightarrow> u8 list" where
  "esp32c3_aes_subshift s dec =
    (if \<not> dec then shift_rows (map sub_byte s) else inv_shift_rows s)"

definition mix_column :: "bool \<Rightarrow> u8 \<Rightarrow> u8 \<Rightarrow> u8 \<Rightarrow> u8 \<Rightarrow> u8 list" where
  "mix_column dec s0 s1 s2 s3 =
    (if \<not> dec then
      [esp32c3_aes_gmul s0 2 XOR esp32c3_aes_gmul s1 3 XOR s2 XOR s3,
       s0 XOR esp32c3_aes_gmul s1 2 XOR esp32c3_aes_gmul s2 3 XOR s3,
       s0 XOR s1 XOR esp32c3_aes_gmul s2 2 XOR esp32c3_aes_gmul s3 3,
       esp32c3_aes_gmul s0 3 XOR s1 XOR s2 XOR esp32c3_aes_gmul s3 2]
     else
      [esp32c3_aes_gmul s0 14 XOR esp32c3_aes_gmul s1 11 XOR esp32c3_aes_gmul s2 13 XOR esp32c3_aes_gmul s3 9,
       esp32c3_aes_gmul s0 9 XOR esp32c3_aes_gmul s1 14 XOR esp32c3_aes_gmul s2 11 XOR esp32c3_aes_gmul s3 13,
       esp32c3_aes_gmul s0 13 XOR esp32c3_aes_gmul s1 9 XOR esp32c3_aes_gmul s2 14 XOR esp32c3_aes_gmul s3 11,
       esp32c3_aes_gmul s0 11 XOR esp32c3_aes_gmul s1 13 XOR esp32c3_aes_gmul s2 9 XOR esp32c3_aes_gmul s3 14])"

definition esp32c3_aes_mix :: "u8 list \<Rightarrow> bool \<Rightarrow> u8 list" where
  "esp32c3_aes_mix s dec =
    concat (map (\<lambda>c. mix_column dec (s ! (4 * c)) (s ! (4 * c + 1)) (s ! (4 * c + 2)) (s ! (4 * c + 3))) [0..<4])"

definition add_round_key :: "u8 list \<Rightarrow> nat \<Rightarrow> u8 list \<Rightarrow> u8 list" where
  "add_round_key w r s = map2 (XOR) s (take 16 (drop (r * 16) w))"

section \<open>The cipher\<close>

definition cipher_round :: "u8 list \<Rightarrow> nat \<Rightarrow> nat \<Rightarrow> u8 list \<Rightarrow> u8 list" where
  "cipher_round w Nr r s =
    (let s = shift_rows (map sub_byte (add_round_key w r s))
     in if r < Nr - 1 then esp32c3_aes_mix s False else s)"

definition decipher_round :: "u8 list \<Rightarrow> nat \<Rightarrow> u8 list \<Rightarrow> u8 list" where
  "decipher_round w r s =
    esp32c3_aes_mix (add_round_key w r (map inv_sub_byte (inv_shift_rows s))) True"

definition esp32c3_aes_block :: "u8 list \<Rightarrow> u8 list \<Rightarrow> nat \<Rightarrow> bool \<Rightarrow> u8 list" where
  "esp32c3_aes_block bytes key Nk decrypt =
    (let Nr = Nk + 6; w = esp32c3_aes_keyexp key Nk; s = take 16 bytes
     in if \<not> decrypt then add_round_key w Nr (fold (cipher_round w Nr) [0..<Nr] s)
        else (let s = fold (decipher_round w) (rev [1..<Nr]) (add_round_key w Nr s)
              in add_round_key w 0 (map inv_sub_byte (inv_shift_rows s))))"

section \<open>Decryption inverts encryption\<close>

lemma sub_byte_inverse: "inv_sub_byte (sub_byte b) = b"
proof -
  have "map (\<lambda>i. esp32c3_aes_inv_sbox ! unat (esp32c3_aes_sbox ! i)) [0..<256] = map of_nat [0..<256]"
    by code_simp
  then have "\<forall>i\<in>set [0..<256]. esp32c3_aes_inv_sbox ! unat (esp32c3_aes_sbox ! i) = of_nat i"
    unfolding map_eq_conv .
  moreover have "unat b \<in> set [0..<256]"
    using unsigned_less [of b, where ?'a = nat] by simp
  ultimately show ?thesis
    by (simp add: sub_byte_def inv_sub_byte_def)
qed

lemma sub_bytes_inverse: "map inv_sub_byte (map sub_byte s) = s"
  by (simp add: sub_byte_inverse comp_def)

text \<open>A state has sixteen bytes.\<close>

lemma sixteen_bytes:
  assumes "length s = 16"
  obtains a0 a1 a2 a3 a4 a5 a6 a7 a8 a9 a10 a11 a12 a13 a14 a15
  where "s = [a0, a1, a2, a3, a4, a5, a6, a7, a8, a9, a10, a11, a12, a13, a14, a15]"
  using assms by (auto simp: numeral_eq_Suc length_Suc_conv)

lemma shift_rows_inverse: "length s = 16 \<Longrightarrow> inv_shift_rows (shift_rows s) = s"
  by (erule sixteen_bytes) (simp add: shift_rows_def inv_shift_rows_def)

text \<open>Doubling is linear; the constants of the two column mixes are sums of its powers.\<close>

lemma top_bit: "a AND 0x80 = 0 \<longleftrightarrow> \<not> bit a 7" for a :: u8
  by (simp add: word8_eq_iff less_8_all word_bits)

lemma xor_cancel: "a XOR (a XOR b) = b" for a b :: u8
  by (simp add: xor.assoc [symmetric])

lemma xtime_xor: "xtime (a XOR b) = xtime a XOR xtime b"
  by (cases "bit a 7"; cases "bit b 7") (simp_all add: xtime_def top_bit bit_xor_iff push_bit_xor xor_cancel ac_simps)

text \<open>Eight steps of the multiplication, for the six factors the column mixes use.\<close>

lemma gmul_eight:
  "esp32c3_aes_gmul a b = gmul_loop (Suc (Suc (Suc (Suc (Suc (Suc (Suc (Suc 0)))))))) a b 0"
  by (simp add: esp32c3_aes_gmul_def numeral_eq_Suc)

lemma factor_halves:
  "drop_bit 1 (2::u8) = 1" "drop_bit 1 (3::u8) = 1" "drop_bit 1 (9::u8) = 4" "drop_bit 1 (11::u8) = 5"
  "drop_bit 1 (13::u8) = 6" "drop_bit 1 (14::u8) = 7" "drop_bit 1 (4::u8) = 2" "drop_bit 1 (5::u8) = 2"
  "drop_bit 1 (6::u8) = 3" "drop_bit 1 (7::u8) = 3" "drop_bit 1 (1::u8) = 0" "drop_bit 1 (0::u8) = 0"
  by code_simp+

lemma factor_odd:
  "((2::u8) AND 1 \<noteq> 0) = False" "((3::u8) AND 1 \<noteq> 0) = True" "((9::u8) AND 1 \<noteq> 0) = True"
  "((11::u8) AND 1 \<noteq> 0) = True" "((13::u8) AND 1 \<noteq> 0) = True" "((14::u8) AND 1 \<noteq> 0) = False"
  "((4::u8) AND 1 \<noteq> 0) = False" "((5::u8) AND 1 \<noteq> 0) = True" "((6::u8) AND 1 \<noteq> 0) = False"
  "((7::u8) AND 1 \<noteq> 0) = True" "((1::u8) AND 1 \<noteq> 0) = True" "((0::u8) AND 1 \<noteq> 0) = False"
  by code_simp+

lemma gmul_constants:
  "esp32c3_aes_gmul a 2 = xtime a" "esp32c3_aes_gmul a 3 = a XOR xtime a"
  "esp32c3_aes_gmul a 9 = a XOR xtime (xtime (xtime a))"
  "esp32c3_aes_gmul a 11 = a XOR xtime a XOR xtime (xtime (xtime a))"
  "esp32c3_aes_gmul a 13 = a XOR xtime (xtime a) XOR xtime (xtime (xtime a))"
  "esp32c3_aes_gmul a 14 = xtime a XOR xtime (xtime a) XOR xtime (xtime (xtime a))"
  by (simp_all only: gmul_eight gmul_loop.simps factor_halves factor_odd if_True if_False xor.left_neutral xor.assoc)

lemma mix_column_inverse:
  "(case mix_column False s0 s1 s2 s3 of [t0, t1, t2, t3] \<Rightarrow> mix_column True t0 t1 t2 t3) = [s0, s1, s2, s3]"
  by (simp add: mix_column_def gmul_constants xtime_xor xor_cancel ac_simps)

lemma mix_inverse: "length s = 16 \<Longrightarrow> esp32c3_aes_mix (esp32c3_aes_mix s False) True = s"
  using mix_column_inverse
  by (erule_tac sixteen_bytes) (simp add: esp32c3_aes_mix_def mix_column_def [of False] upt_rec)

text \<open>The expanded key has sixteen bytes for every round key.\<close>

lemma length_keyexp_fold:
  "0 < Nk \<Longrightarrow> length (fst st) = 4 * m \<Longrightarrow> Nk \<le> m \<Longrightarrow>
    length (fst (fold (keyexp_step Nk) [m..<m + n] st)) = 4 * (m + n)"
proof (induction n arbitrary: m st)
  case (Suc n)
  have step: "length (fst (keyexp_step Nk m st)) = 4 * Suc m"
    using Suc.prems by (auto simp: keyexp_step_def word_at_def rot_word_def Let_def split: prod.split)
  have "fold (keyexp_step Nk) [m..<m + Suc n] st = fold (keyexp_step Nk) [Suc m..<Suc m + n] (keyexp_step Nk m st)"
    by (simp add: upt_conv_Cons del: upt_Suc)
  then show ?case
    using Suc.IH [OF Suc.prems(1) step] Suc.prems(3) by simp
qed simp

lemma length_keyexp:
  assumes "0 < Nk" and "length key = 4 * Nk"
  shows "length (esp32c3_aes_keyexp key Nk) = 16 * (Nk + 7)"
proof -
  have "4 * (Nk + 6 + 1) = Nk + (3 * Nk + 28)" by simp
  then show ?thesis
    using length_keyexp_fold [of Nk "(take (4 * Nk) key, 1)" Nk "3 * Nk + 28"] assms
    by (simp only: esp32c3_aes_keyexp_def) simp
qed

text \<open>Adding a round key twice, and one round in both directions.\<close>

definition round_keys :: "u8 list \<Rightarrow> nat \<Rightarrow> bool" where
  "round_keys w Nr \<longleftrightarrow> 16 * (Nr + 1) \<le> length w"

lemma length_add_round_key:
  "round_keys w Nr \<Longrightarrow> r \<le> Nr \<Longrightarrow> length s = 16 \<Longrightarrow> length (add_round_key w r s) = 16"
  by (simp add: add_round_key_def round_keys_def)

lemma map2_xor_twice: "length s = length k \<Longrightarrow> map2 (XOR) (map2 (XOR) s k) k = (s :: u8 list)"
  by (induction s k rule: list_induct2) (simp_all add: xor.assoc)

lemma add_round_key_twice:
  "round_keys w Nr \<Longrightarrow> r \<le> Nr \<Longrightarrow> length s = 16 \<Longrightarrow> add_round_key w r (add_round_key w r s) = s"
  unfolding add_round_key_def by (rule map2_xor_twice) (simp add: round_keys_def)

lemma length_shift_rows [simp]: "length (shift_rows s) = length s" "length (inv_shift_rows s) = length s"
  by (simp_all add: shift_rows_def inv_shift_rows_def)

lemma length_mix [simp]: "length (esp32c3_aes_mix s dec) = 16"
  by (simp add: esp32c3_aes_mix_def mix_column_def upt_rec)

lemma cipher_round_length:
  "round_keys w Nr \<Longrightarrow> r \<le> Nr \<Longrightarrow> length s = 16 \<Longrightarrow> length (cipher_round w Nr r s) = 16"
  by (simp add: cipher_round_def Let_def length_add_round_key)

text \<open>A round before its column mix, and what one step of the decryption makes of it.\<close>

definition half_round :: "u8 list \<Rightarrow> nat \<Rightarrow> u8 list \<Rightarrow> u8 list" where
  "half_round w r s = shift_rows (map sub_byte (add_round_key w r s))"

lemma cipher_round_half:
  "cipher_round w Nr r s = (if r < Nr - 1 then esp32c3_aes_mix (half_round w r s) False else half_round w r s)"
  by (simp add: cipher_round_def half_round_def Let_def)

lemma sub_shift_inverse: "length s = 16 \<Longrightarrow> map inv_sub_byte (inv_shift_rows (shift_rows (map sub_byte s))) = s"
  by (simp only: shift_rows_inverse length_map sub_bytes_inverse)

lemma undo_half_round:
  assumes "round_keys w Nr" and "r \<le> Nr" and "length s = 16"
  shows "add_round_key w r (map inv_sub_byte (inv_shift_rows (half_round w r s))) = s"
  using assms by (simp only: half_round_def sub_shift_inverse length_add_round_key add_round_key_twice)

lemma decipher_step:
  assumes "round_keys w Nr" and "Suc r < Nr" and "length s = 16"
  shows "decipher_round w (Suc r) (half_round w (Suc r) (cipher_round w Nr r s)) = half_round w r s"
proof -
  have "length (cipher_round w Nr r s) = 16" and len: "length (half_round w r s) = 16"
    using assms by (simp_all add: cipher_round_length half_round_def length_add_round_key)
  then have "decipher_round w (Suc r) (half_round w (Suc r) (cipher_round w Nr r s)) =
      esp32c3_aes_mix (cipher_round w Nr r s) True"
    using assms by (simp only: decipher_round_def undo_half_round less_imp_le_nat)
  moreover have "r < Nr - 1"
    using assms by simp
  ultimately show ?thesis
    using len by (simp only: cipher_round_half if_True mix_inverse)
qed

definition rounds :: "u8 list \<Rightarrow> nat \<Rightarrow> nat \<Rightarrow> u8 list \<Rightarrow> u8 list" where
  "rounds w Nr k s = fold (cipher_round w Nr) [0..<k] s"

lemma length_rounds: "round_keys w Nr \<Longrightarrow> k \<le> Nr \<Longrightarrow> length s = 16 \<Longrightarrow> length (rounds w Nr k s) = 16"
  by (induction k) (simp_all add: rounds_def cipher_round_length)

lemma decipher_rounds:
  "round_keys w Nr \<Longrightarrow> k < Nr \<Longrightarrow> length s = 16 \<Longrightarrow>
    fold (decipher_round w) (rev [1..<Suc k]) (half_round w k (rounds w Nr k s)) = half_round w 0 s"
proof (induction k)
  case (Suc k)
  have "rev [1..<Suc (Suc k)] = Suc k # rev [1..<Suc k]"
    by simp
  moreover have "rounds w Nr (Suc k) s = cipher_round w Nr k (rounds w Nr k s)"
    by (simp add: rounds_def)
  moreover have "decipher_round w (Suc k) (half_round w (Suc k) (cipher_round w Nr k (rounds w Nr k s))) =
      half_round w k (rounds w Nr k s)"
    using Suc.prems by (intro decipher_step) (simp_all add: length_rounds)
  ultimately show ?case
    using Suc by (simp only: fold_simps comp_apply Suc_lessD)
qed (simp add: rounds_def)

lemma aes_block_inverse:
  assumes Nk: "0 < Nk" and key: "length key = 4 * Nk" and b: "length b = 16"
  shows "esp32c3_aes_block (esp32c3_aes_block b key Nk False) key Nk True = b"
proof -
  define w where "w = esp32c3_aes_keyexp key Nk"
  define k where "k = Nk + 5"
  have w: "round_keys w (Suc k)"
    using length_keyexp [OF Nk key] by (simp add: w_def k_def round_keys_def)
  have Nr: "Nk + 6 = Suc k"
    by (simp add: k_def)
  define s where "s = rounds w (Suc k) (Suc k) b"
  have s: "s = half_round w k (rounds w (Suc k) k b)"
    by (simp add: s_def rounds_def cipher_round_half)
  have len: "length s = 16" "length (add_round_key w (Suc k) s) = 16"
    unfolding s_def using w b by (simp_all add: length_rounds length_add_round_key)
  have enc: "esp32c3_aes_block b key Nk False = add_round_key w (Suc k) s"
    using b by (simp add: esp32c3_aes_block_def Let_def w_def [symmetric] Nr s_def rounds_def)
  have "esp32c3_aes_block (add_round_key w (Suc k) s) key Nk True =
      add_round_key w 0 (map inv_sub_byte (inv_shift_rows (fold (decipher_round w) (rev [1..<Suc k]) s)))"
    using len w by (simp only: esp32c3_aes_block_def Let_def w_def [symmetric] Nr if_False not_not if_not_P
        take_all order_refl add_round_key_twice)
  also have "\<dots> = b"
    unfolding s using w b by (simp only: decipher_rounds lessI undo_half_round le0)
  finally show ?thesis
    by (simp only: enc)
qed

lemma aes_block_length:
  assumes Nk: "0 < Nk" and key: "length key = 4 * Nk" and b: "length b = 16"
  shows "length (esp32c3_aes_block b key Nk False) = 16"
proof -
  have w: "round_keys (esp32c3_aes_keyexp key Nk) (Nk + 6)"
    using length_keyexp [OF Nk key] by (simp add: round_keys_def)
  show ?thesis
    using length_add_round_key [OF w order_refl length_rounds [OF w order_refl b]] b
    by (simp add: esp32c3_aes_block_def Let_def rounds_def)
qed

section \<open>The register interface\<close>

text \<open>
  Byte \<open>i\<close> of a field of the register bank that starts at byte offset \<open>base\<close>, read and written in
  place; the bank \<open>soc->aes_reg\<close> is the list of its 64 registers.
\<close>

definition reg_byte :: "u32 list \<Rightarrow> nat \<Rightarrow> nat \<Rightarrow> u8" where
  "reg_byte regs base i = ucast (drop_bit (8 * (i mod 4)) (regs ! ((base + 4 * (i div 4)) div 4)))"

definition set_reg_byte :: "nat \<Rightarrow> nat \<Rightarrow> u8 \<Rightarrow> u32 list \<Rightarrow> u32 list" where
  "set_reg_byte base i b regs = (let j = (base + 4 * (i div 4)) div 4 in
     regs[j := (regs ! j AND NOT (push_bit (8 * (i mod 4)) 0xFF)) OR push_bit (8 * (i mod 4)) (ucast b)])"

definition reg_bytes :: "u32 list \<Rightarrow> nat \<Rightarrow> nat \<Rightarrow> u8 list" where
  "reg_bytes regs base n = map (reg_byte regs base) [0..<n]"

definition set_reg_bytes :: "nat \<Rightarrow> u8 list \<Rightarrow> u32 list \<Rightarrow> u32 list" where
  "set_reg_bytes base bs regs = fold (\<lambda>i. set_reg_byte base i (bs ! i)) [0..<length bs] regs"

text \<open>One block in the two chaining modes: the chained vector and the block written out.\<close>

definition cbc_block :: "u8 list \<Rightarrow> nat \<Rightarrow> bool \<Rightarrow> u8 list \<Rightarrow> u8 list \<Rightarrow> u8 list \<times> u8 list" where
  "cbc_block key Nk decrypt pin iv =
    (if \<not> decrypt then (let c = esp32c3_aes_block (map2 (XOR) pin iv) key Nk False in (c, c))
     else (pin, map2 (XOR) (esp32c3_aes_block pin key Nk True) iv))"

primrec aes_blocks :: "nat \<Rightarrow> u8 list \<Rightarrow> nat \<Rightarrow> bool \<Rightarrow> nat \<Rightarrow> u8 list \<Rightarrow> u8 list \<Rightarrow> u8 list \<times> u8 list" where
  "aes_blocks blk key Nk decrypt 0 bytes iv = (iv, [])"
| "aes_blocks blk key Nk decrypt (Suc n) bytes iv =
    (let pin = take 16 bytes;
         (iv, pout) = (if blk = 1 then cbc_block key Nk decrypt pin iv
                       else (iv, esp32c3_aes_block pin key Nk decrypt));
         (iv, rest) = aes_blocks blk key Nk decrypt n (drop 16 bytes) iv
     in (iv, pout @ rest))"

text \<open>A mode whose low bits are 3 asks for a 320-bit key, which overruns \<open>key[32]\<close>.\<close>

definition esp32c3_aes_process_buf :: "u8 list \<Rightarrow> nat \<Rightarrow> u32 list \<Rightarrow> (u32 list \<times> u8 list) outcome" where
  "esp32c3_aes_process_buf bytes nblocks regs =
    (let mode = regs ! (0x40 div 4);
         decrypt = (mode AND 4 \<noteq> 0);
         key_bytes = unat ((mode AND 3) + 2) * 8;
         Nk = key_bytes div 4;
         blk = unat (regs ! (0x94 div 4) AND 0xF)
     in if key_bytes > 32 then Inl Undefined_access
        else let (iv, out) = aes_blocks blk (reg_bytes regs 0 key_bytes) Nk decrypt nblocks bytes (reg_bytes regs 0x50 16)
             in Inr (if blk = 1 then set_reg_bytes 0x50 iv regs else regs, out))"

text \<open>The trigger path: the block in the text registers, its result in the registers behind them.\<close>

definition esp32c3_aes_run :: "u32 list \<Rightarrow> u32 list outcome" where
  "esp32c3_aes_run regs =
    obind (esp32c3_aes_process_buf (reg_bytes regs 0x20 16) 1 regs)
      (\<lambda>(regs, out). Inr (set_reg_bytes 0x30 out regs))"

lemma aes_blocks_inverse:
  assumes Nk: "0 < Nk" "length key = 4 * Nk"
  shows "length bytes = 16 * n \<Longrightarrow> length iv = 16 \<Longrightarrow>
    aes_blocks blk key Nk True n (snd (aes_blocks blk key Nk False n bytes iv)) iv =
      (fst (aes_blocks blk key Nk False n bytes iv), bytes)"
proof (induction n arbitrary: bytes iv)
  case (Suc n)
  have len: "length (take 16 bytes) = 16" "length (drop 16 bytes) = 16 * n"
    using Suc.prems by simp_all
  have join: "take 16 bytes @ drop 16 bytes = bytes"
    by simp
  note facts = aes_block_inverse [OF Nk] aes_block_length [OF Nk] map2_xor_twice
  show ?case
  proof (cases "blk = 1")
    case True
    then show ?thesis
      using len Suc.IH [OF len(2), of "esp32c3_aes_block (map2 (XOR) (take 16 bytes) iv) key Nk False"] Suc.prems
      by (simp add: cbc_block_def Let_def facts split_beta)
  next
    case False
    then show ?thesis
      using len Suc.IH [OF len(2) Suc.prems(2)]
      by (simp add: Let_def facts split_beta)
  qed
qed simp

text \<open>The mode register is none of the fields the engine reads or writes.\<close>

lemma reg_bytes_mode:
  "k \<le> 64 \<Longrightarrow> reg_bytes (regs[16 := m]) 0 k = reg_bytes regs 0 k"
  "reg_bytes (regs[16 := m]) 0x50 16 = reg_bytes regs 0x50 16"
  by (simp_all add: reg_bytes_def reg_byte_def nth_list_update)

lemma set_reg_bytes_mode: "set_reg_bytes 0x50 bs (regs[16 := m]) = (set_reg_bytes 0x50 bs regs)[16 := m]"
proof -
  have step: "set_reg_byte 0x50 i b (r[16 := m]) = (set_reg_byte 0x50 i b r)[16 := m]" for i b r
    by (simp add: set_reg_byte_def Let_def list_update_swap)
  have "fold (\<lambda>i. set_reg_byte 0x50 i (bs ! i)) is (r[16 := m]) =
      (fold (\<lambda>i. set_reg_byte 0x50 i (bs ! i)) is r)[16 := m]" for "is" r
    by (induction "is" arbitrary: r) (simp_all add: step)
  then show ?thesis
    by (simp add: set_reg_bytes_def)
qed

lemma mode_decrypt:
  "(m OR 4) AND 3 = m AND 3" "(m OR 4) AND 4 \<noteq> 0" for m :: u32
proof -
  show "(m OR 4) AND 3 = m AND 3"
    by (simp add: bit.conj_disj_distrib2)
  show "(m OR 4) AND 4 \<noteq> 0"
    by (simp add: bit.conj_disj_distrib2)
qed

lemma key_size_positive: "(m AND 3) + 2 \<noteq> 0" for m :: u32
proof
  assume eq: "(m AND 3) + 2 = 0"
  have "m AND 3 \<le> 3"
    by (rule word_and_le1)
  moreover have "m AND 3 = - 2"
    using eq by (simp add: eq_neg_iff_add_eq_0)
  ultimately show False
    by simp
qed

text \<open>C35: for every key size, in ECB and in CBC mode, running the engine over whole blocks with the
  decryption bit of the mode register set, from the same key and initial vector, returns the bytes
  that the encryption was given and leaves the same chained vector in the registers.
\<close>

theorem aes_engine_roundtrip:
  assumes "length regs = 64" and "length bytes = 16 * n" and "regs ! 16 AND 4 = 0"
    and "esp32c3_aes_process_buf bytes n regs = Inr (regs1, out)"
  shows "esp32c3_aes_process_buf out n (regs[16 := regs ! 16 OR 4]) = Inr (regs1[16 := regs ! 16 OR 4], bytes)"
proof -
  define kb where "kb = unat ((regs ! 16 AND 3) + 2) * 8"
  define blk where "blk = unat (regs ! 37 AND 0xF)"
  define key where "key = reg_bytes regs 0 kb"
  define iv where "iv = reg_bytes regs 0x50 16"
  define run where "run = aes_blocks blk key (kb div 4) False n bytes iv"
  have kb: "kb \<le> 32" and out: "out = snd run"
    and regs1: "regs1 = (if blk = 1 then set_reg_bytes 0x50 (fst run) regs else regs)"
    using assms(3,4)
    by (auto simp: esp32c3_aes_process_buf_def Let_def kb_def blk_def key_def iv_def run_def split_beta split: if_splits)
  have pos: "unat ((regs ! 16 AND 3) + 2) \<noteq> 0"
    using key_size_positive by (simp only: unat_eq_0 not_False_eq_True)
  have "aes_blocks blk key (kb div 4) True n out iv = (fst run, bytes)"
    unfolding out run_def
    using pos assms(2) by (intro aes_blocks_inverse) (simp_all add: kb_def key_def iv_def reg_bytes_def)
  moreover have "reg_bytes (regs[16 := m]) 0 kb = key" for m
    using kb by (simp add: key_def reg_bytes_mode)
  moreover have "\<not> 4 < unat ((regs ! 16 AND 3) + 2)"
    using kb by (simp add: kb_def)
  ultimately show ?thesis
    using assms(1)
    by (simp add: esp32c3_aes_process_buf_def Let_def mode_decrypt kb_def [symmetric] blk_def [symmetric]
        iv_def [symmetric] reg_bytes_mode set_reg_bytes_mode regs1)
qed

lemma aes_engine_roundtrip_witness:
  "let regs = (replicate 64 9)[16 := 2, 37 := 1]; plain = replicate 32 7
   in case esp32c3_aes_process_buf plain 2 regs of
        Inl _ \<Rightarrow> False
      | Inr (regs1, out) \<Rightarrow> esp32c3_aes_process_buf out 2 (regs[16 := 6]) = Inr (regs1[16 := 6], plain)"
proof -
  let ?regs = "(replicate 64 9)[16 := 2, 37 := 1] :: u32 list"
  obtain regs1 out where run: "esp32c3_aes_process_buf (replicate 32 7) 2 ?regs = Inr (regs1, out)"
    by (auto simp: esp32c3_aes_process_buf_def Let_def split_beta)
  have "esp32c3_aes_process_buf out 2 (?regs[16 := ?regs ! 16 OR 4]) = Inr (regs1[16 := ?regs ! 16 OR 4], replicate 32 7)"
    by (rule aes_engine_roundtrip [OF _ _ _ run]) simp_all
  then show ?thesis
    unfolding Let_def run by simp
qed

end
