(* ===== verification/Sha.thy ===== *)
theory Sha imports Prelude begin

text \<open>
  The SHA-256 accelerator of \<open>src/src/esp32c3.c\<close>: the accumulated message, and the digest computed
  when it is first read after the message changed. The static variables of the file are the record
  \<open>sha\<close>; \<open>sha_msg\<close> is a function on the indices below its size \<open>0x200000\<close>. FIPS 180-4 is the
  reference the accelerator is compared with: the ROM code pads the message, so the digest of a
  padded message is the hash of the message.
\<close>

section \<open>State and message\<close>

record sha =
  sha_msg :: "nat \<Rightarrow> u8"
  sha_len :: nat
  sha_computed :: bool
  sha_reset_pending :: bool
  sha_digest :: "u32 list"

definition sha_init :: sha where
  "sha_init = \<lparr>sha_msg = (\<lambda>_. 0), sha_len = 0, sha_computed = False, sha_reset_pending = False,
     sha_digest = replicate 8 0\<rparr>"

definition esp32_sha_reset :: "sha \<Rightarrow> sha" where
  "esp32_sha_reset s = s\<lparr>sha_len := 0, sha_computed := False\<rparr>"

definition esp32_sha_feed_word :: "u32 \<Rightarrow> sha \<Rightarrow> sha" where
  "esp32_sha_feed_word val s =
    (let s = (if sha_len s + 4 \<le> 0x200000 then
        s\<lparr>sha_msg := (sha_msg s)(
            sha_len s := ucast (val AND 0xff),
            sha_len s + 1 := ucast (drop_bit 8 val AND 0xff),
            sha_len s + 2 := ucast (drop_bit 16 val AND 0xff),
            sha_len s + 3 := ucast (drop_bit 24 val AND 0xff)),
          sha_len := sha_len s + 4\<rparr> else s)
     in s\<lparr>sha_computed := False\<rparr>)"

section \<open>Compression\<close>

definition sha_k :: "u32 list" where
  "sha_k = concat [
     [0x428a2f98, 0x71374491, 0xb5c0fbcf, 0xe9b5dba5, 0x3956c25b, 0x59f111f1, 0x923f82a4, 0xab1c5ed5],
     [0xd807aa98, 0x12835b01, 0x243185be, 0x550c7dc3, 0x72be5d74, 0x80deb1fe, 0x9bdc06a7, 0xc19bf174],
     [0xe49b69c1, 0xefbe4786, 0x0fc19dc6, 0x240ca1cc, 0x2de92c6f, 0x4a7484aa, 0x5cb0a9dc, 0x76f988da],
     [0x983e5152, 0xa831c66d, 0xb00327c8, 0xbf597fc7, 0xc6e00bf3, 0xd5a79147, 0x06ca6351, 0x14292967],
     [0x27b70a85, 0x2e1b2138, 0x4d2c6dfc, 0x53380d13, 0x650a7354, 0x766a0abb, 0x81c2c92e, 0x92722c85],
     [0xa2bfe8a1, 0xa81a664b, 0xc24b8b70, 0xc76c51a3, 0xd192e819, 0xd6990624, 0xf40e3585, 0x106aa070],
     [0x19a4c116, 0x1e376c08, 0x2748774c, 0x34b0bcb5, 0x391c0cb3, 0x4ed8aa4a, 0x5b9cca4f, 0x682e6ff3],
     [0x748f82ee, 0x78a5636f, 0x84c87814, 0x8cc70208, 0x90befffa, 0xa4506ceb, 0xbef9a3f7, 0xc67178f2]]"

definition sha_h0 :: "u32 list" where
  "sha_h0 = [0x6a09e667, 0xbb67ae85, 0x3c6ef372, 0xa54ff53a, 0x510e527f, 0x9b05688c, 0x1f83d9ab, 0x5be0cd19]"

definition sha_block_word :: "(nat \<Rightarrow> u8) \<Rightarrow> nat \<Rightarrow> nat \<Rightarrow> u32" where
  "sha_block_word msg block i =
    push_bit 24 (ucast (msg (block + 4 * i))) OR push_bit 16 (ucast (msg (block + 4 * i + 1)))
      OR push_bit 8 (ucast (msg (block + 4 * i + 2))) OR ucast (msg (block + 4 * i + 3))"

text \<open>The schedule grows by \<open>w[i]\<close> in every step.\<close>

definition sha_schedule_step :: "u32 list \<Rightarrow> u32 list" where
  "sha_schedule_step w =
    (let i = length w;
         s0 = (drop_bit 7 (w ! (i - 15)) OR push_bit 25 (w ! (i - 15)))
              XOR (drop_bit 18 (w ! (i - 15)) OR push_bit 14 (w ! (i - 15)))
              XOR drop_bit 3 (w ! (i - 15));
         s1 = (drop_bit 17 (w ! (i - 2)) OR push_bit 15 (w ! (i - 2)))
              XOR (drop_bit 19 (w ! (i - 2)) OR push_bit 13 (w ! (i - 2)))
              XOR drop_bit 10 (w ! (i - 2))
     in w @ [w ! (i - 16) + s0 + w ! (i - 7) + s1])"

definition sha_schedule :: "(nat \<Rightarrow> u8) \<Rightarrow> nat \<Rightarrow> u32 list" where
  "sha_schedule msg block = (sha_schedule_step ^^ 48) (map (sha_block_word msg block) [0..<16])"

type_synonym sha_regs = "u32 \<times> u32 \<times> u32 \<times> u32 \<times> u32 \<times> u32 \<times> u32 \<times> u32"

definition sha_step :: "u32 list \<Rightarrow> nat \<Rightarrow> sha_regs \<Rightarrow> sha_regs" where
  "sha_step w i = (\<lambda>(a, b, c, d, e, f, g, hh).
    let S1 = (drop_bit 6 e OR push_bit 26 e) XOR (drop_bit 11 e OR push_bit 21 e) XOR (drop_bit 25 e OR push_bit 7 e);
        ch = (e AND f) XOR (NOT e AND g);
        t1 = hh + S1 + ch + sha_k ! i + w ! i;
        S0 = (drop_bit 2 a OR push_bit 30 a) XOR (drop_bit 13 a OR push_bit 19 a) XOR (drop_bit 22 a OR push_bit 10 a);
        maj = (a AND b) XOR (a AND c) XOR (b AND c);
        t2 = S0 + maj
    in (t1 + t2, a, b, c, d + t1, e, f, g))"

definition sha_block :: "(nat \<Rightarrow> u8) \<Rightarrow> nat \<Rightarrow> u32 list \<Rightarrow> u32 list" where
  "sha_block msg block h =
    (let (a, b, c, d, e, f, g, hh) =
        fold (sha_step (sha_schedule msg block)) [0..<64] (h ! 0, h ! 1, h ! 2, h ! 3, h ! 4, h ! 5, h ! 6, h ! 7)
     in [h ! 0 + a, h ! 1 + b, h ! 2 + c, h ! 3 + d, h ! 4 + e, h ! 5 + f, h ! 6 + g, h ! 7 + hh])"

definition sha_swap :: "u32 \<Rightarrow> u32" where
  "sha_swap x = (drop_bit 24 x AND 0xff) OR (drop_bit 8 x AND 0xff00) OR (push_bit 8 x AND 0xff0000) OR push_bit 24 x"

text \<open>\<open>total\<close> is the length rounded up to whole blocks.\<close>

definition esp32_sha_digest_word :: "nat \<Rightarrow> sha \<Rightarrow> u32 \<times> sha" where
  "esp32_sha_digest_word idx s =
    (let s = (if \<not> sha_computed s then
        (let blocks = (sha_len s + 63) div 64;
             h = fold (\<lambda>i. sha_block (sha_msg s) (64 * i)) [0..<blocks] sha_h0
         in s\<lparr>sha_digest := map sha_swap h, sha_computed := True\<rparr>) else s)
     in (sha_digest s ! idx, s))"

section \<open>FIPS 180-4\<close>

text \<open>
  The standard defines its constants by roots of primes: the first 32 bits of the fractional parts of the
  cube roots of the first 64 primes, and of the square roots of the first eight for the initial hash.
  \<open>floor_root\<close> finds the integer root bit by bit, so nothing here is copied from the tables of the code.
\<close>

definition root_bit :: "nat \<Rightarrow> int \<Rightarrow> nat \<Rightarrow> int \<Rightarrow> int" where
  "root_bit r n b x = (if (x + 2 ^ b) ^ r \<le> n then x + 2 ^ b else x)"

definition floor_root :: "nat \<Rightarrow> int \<Rightarrow> int" where
  "floor_root r n = fold (root_bit r n) (rev [0..<40]) 0"

definition fraction_bits :: "nat \<Rightarrow> nat \<Rightarrow> u32" where
  "fraction_bits r p = word_of_int (floor_root r (int p * 2 ^ (32 * r)))"

definition first_primes :: "nat list" where
  "first_primes = concat [
     [2, 3, 5, 7, 11, 13, 17, 19], [23, 29, 31, 37, 41, 43, 47, 53],
     [59, 61, 67, 71, 73, 79, 83, 89], [97, 101, 103, 107, 109, 113, 127, 131],
     [137, 139, 149, 151, 157, 163, 167, 173], [179, 181, 191, 193, 197, 199, 211, 223],
     [227, 229, 233, 239, 241, 251, 257, 263], [269, 271, 277, 281, 283, 293, 307, 311]]"

definition fips_K :: "u32 list" where
  "fips_K = map (fraction_bits 3) first_primes"

definition fips_H0 :: "u32 list" where
  "fips_H0 = map (fraction_bits 2) (take 8 first_primes)"

lemma root_bits_correct:
  "x ^ r \<le> n \<Longrightarrow> n < (x + 2 ^ b) ^ r \<Longrightarrow>
    fold (root_bit r n) (rev [0..<b]) x ^ r \<le> n \<and> n < (fold (root_bit r n) (rev [0..<b]) x + 1) ^ r"
proof (induction b arbitrary: x)
  case (Suc b)
  show ?case
  proof (cases "(x + 2 ^ b) ^ r \<le> n")
    case True
    moreover have "n < (x + 2 ^ b + 2 ^ b) ^ r"
      using Suc.prems(2) by (simp add: add.assoc)
    ultimately show ?thesis
      using Suc.IH [of "x + 2 ^ b"] by (simp add: root_bit_def)
  next
    case False
    then show ?thesis
      using Suc.IH [of x] Suc.prems(1) by (simp add: root_bit_def)
  qed
qed simp

lemma floor_root_correct:
  assumes "0 \<le> n" and "n < (0 + 2 ^ 40) ^ r" and "0 < r"
  shows "floor_root r n ^ r \<le> n \<and> n < (floor_root r n + 1) ^ r"
  unfolding floor_root_def using assms by (intro root_bits_correct) (simp_all add: zero_power)

definition Sigma0 :: "u32 \<Rightarrow> u32" where
  "Sigma0 x = word_rotr 2 x XOR word_rotr 13 x XOR word_rotr 22 x"

definition Sigma1 :: "u32 \<Rightarrow> u32" where
  "Sigma1 x = word_rotr 6 x XOR word_rotr 11 x XOR word_rotr 25 x"

definition sigma0 :: "u32 \<Rightarrow> u32" where
  "sigma0 x = word_rotr 7 x XOR word_rotr 18 x XOR drop_bit 3 x"

definition sigma1 :: "u32 \<Rightarrow> u32" where
  "sigma1 x = word_rotr 17 x XOR word_rotr 19 x XOR drop_bit 10 x"

definition Ch :: "u32 \<Rightarrow> u32 \<Rightarrow> u32 \<Rightarrow> u32" where
  "Ch x y z = (x AND y) XOR (NOT x AND z)"

definition Maj :: "u32 \<Rightarrow> u32 \<Rightarrow> u32 \<Rightarrow> u32" where
  "Maj x y z = (x AND y) XOR (x AND z) XOR (y AND z)"

fun W :: "(nat \<Rightarrow> u32) \<Rightarrow> nat \<Rightarrow> u32" where
  "W M t = (if t < 16 then M t else sigma1 (W M (t - 2)) + W M (t - 7) + sigma0 (W M (t - 15)) + W M (t - 16))"

declare W.simps [simp del]

definition fips_round :: "(nat \<Rightarrow> u32) \<Rightarrow> nat \<Rightarrow> sha_regs \<Rightarrow> sha_regs" where
  "fips_round M t = (\<lambda>(a, b, c, d, e, f, g, h).
    let T1 = h + Sigma1 e + Ch e f g + fips_K ! t + W M t;
        T2 = Sigma0 a + Maj a b c
    in (T1 + T2, a, b, c, d + T1, e, f, g))"

definition fips_block :: "(nat \<Rightarrow> u32) \<Rightarrow> u32 list \<Rightarrow> u32 list" where
  "fips_block M H =
    (let (a, b, c, d, e, f, g, h) =
        fold (fips_round M) [0..<64] (H ! 0, H ! 1, H ! 2, H ! 3, H ! 4, H ! 5, H ! 6, H ! 7)
     in map2 (\<lambda>x y. y + x) [a, b, c, d, e, f, g, h] H)"

text \<open>A message is padded with a one bit, zeros up to 56 modulo 64 bytes, and its length in bits.\<close>

definition fips_pad :: "u8 list \<Rightarrow> u8 list" where
  "fips_pad m = m @ [0x80] @ replicate ((119 - length m mod 64) mod 64) 0
     @ map (\<lambda>i. of_nat (8 * length m div 256 ^ (7 - i))) [0..<8]"

definition be_word :: "u8 list \<Rightarrow> u32" where
  "be_word bs = fold (\<lambda>b v. push_bit 8 v OR ucast b) bs 0"

definition fips_word :: "u8 list \<Rightarrow> nat \<Rightarrow> nat \<Rightarrow> u32" where
  "fips_word bs j t = be_word (take 4 (drop (64 * j + 4 * t) bs))"

definition sha256 :: "u8 list \<Rightarrow> u32 list" where
  "sha256 m = fold (\<lambda>j. fips_block (fips_word (fips_pad m) j)) [0..<length (fips_pad m) div 64] fips_H0"

section \<open>The accelerator computes the reference hash\<close>

text \<open>The tables of the code are the constants of the standard.\<close>

lemma root_positions:
  "rev [0..<40] = [39, 38, 37, 36, 35, 34, 33, 32, 31, 30, 29, 28, 27, 26, 25, 24, 23, 22, 21, 20, 19, 18, 17, 16,
     15, 14, 13, 12, 11, 10, 9, 8, 7, 6, 5, 4, 3, 2, Suc 0, 0]"
  by (simp add: upt_rec)

lemmas root_eval = fraction_bits_def floor_root_def root_bit_def root_positions

lemma cube_roots_0:
  "map (fraction_bits 3) [2, 3, 5, 7, 11, 13, 17, 19] =
    [0x428a2f98, 0x71374491, 0xb5c0fbcf, 0xe9b5dba5, 0x3956c25b, 0x59f111f1, 0x923f82a4, 0xab1c5ed5]"
  by (simp add: root_eval)

lemma cube_roots_1:
  "map (fraction_bits 3) [23, 29, 31, 37, 41, 43, 47, 53] =
    [0xd807aa98, 0x12835b01, 0x243185be, 0x550c7dc3, 0x72be5d74, 0x80deb1fe, 0x9bdc06a7, 0xc19bf174]"
  by (simp add: root_eval)

lemma cube_roots_2:
  "map (fraction_bits 3) [59, 61, 67, 71, 73, 79, 83, 89] =
    [0xe49b69c1, 0xefbe4786, 0x0fc19dc6, 0x240ca1cc, 0x2de92c6f, 0x4a7484aa, 0x5cb0a9dc, 0x76f988da]"
  by (simp add: root_eval)

lemma cube_roots_3:
  "map (fraction_bits 3) [97, 101, 103, 107, 109, 113, 127, 131] =
    [0x983e5152, 0xa831c66d, 0xb00327c8, 0xbf597fc7, 0xc6e00bf3, 0xd5a79147, 0x06ca6351, 0x14292967]"
  by (simp add: root_eval)

lemma cube_roots_4:
  "map (fraction_bits 3) [137, 139, 149, 151, 157, 163, 167, 173] =
    [0x27b70a85, 0x2e1b2138, 0x4d2c6dfc, 0x53380d13, 0x650a7354, 0x766a0abb, 0x81c2c92e, 0x92722c85]"
  by (simp add: root_eval)

lemma cube_roots_5:
  "map (fraction_bits 3) [179, 181, 191, 193, 197, 199, 211, 223] =
    [0xa2bfe8a1, 0xa81a664b, 0xc24b8b70, 0xc76c51a3, 0xd192e819, 0xd6990624, 0xf40e3585, 0x106aa070]"
  by (simp add: root_eval)

lemma cube_roots_6:
  "map (fraction_bits 3) [227, 229, 233, 239, 241, 251, 257, 263] =
    [0x19a4c116, 0x1e376c08, 0x2748774c, 0x34b0bcb5, 0x391c0cb3, 0x4ed8aa4a, 0x5b9cca4f, 0x682e6ff3]"
  by (simp add: root_eval)

lemma cube_roots_7:
  "map (fraction_bits 3) [269, 271, 277, 281, 283, 293, 307, 311] =
    [0x748f82ee, 0x78a5636f, 0x84c87814, 0x8cc70208, 0x90befffa, 0xa4506ceb, 0xbef9a3f7, 0xc67178f2]"
  by (simp add: root_eval)

lemmas cube_roots = cube_roots_0 cube_roots_1 cube_roots_2 cube_roots_3 cube_roots_4 cube_roots_5 cube_roots_6 cube_roots_7

lemma sha_k_fips: "sha_k = fips_K"
  unfolding sha_k_def fips_K_def first_primes_def map_concat list.map(2) [of "map (fraction_bits 3)"]
    list.map(1) [of "map (fraction_bits 3)"] cube_roots by (rule refl)

lemma sha_h0_fips: "sha_h0 = fips_H0"
  by (simp add: sha_h0_def fips_H0_def first_primes_def root_eval)

lemma sha_rotations:
  "drop_bit 2 x OR push_bit 30 x = word_rotr 2 x" "drop_bit 13 x OR push_bit 19 x = word_rotr 13 x"
  "drop_bit 22 x OR push_bit 10 x = word_rotr 22 x" "drop_bit 6 x OR push_bit 26 x = word_rotr 6 x"
  "drop_bit 11 x OR push_bit 21 x = word_rotr 11 x" "drop_bit 25 x OR push_bit 7 x = word_rotr 25 x"
  "drop_bit 7 x OR push_bit 25 x = word_rotr 7 x" "drop_bit 18 x OR push_bit 14 x = word_rotr 18 x"
  "drop_bit 17 x OR push_bit 15 x = word_rotr 17 x" "drop_bit 19 x OR push_bit 13 x = word_rotr 19 x"
  for x :: u32
  using rotations(2) [of 2 x] rotations(2) [of 13 x] rotations(2) [of 22 x] rotations(2) [of 6 x]
    rotations(2) [of 11 x] rotations(2) [of 25 x] rotations(2) [of 7 x] rotations(2) [of 18 x]
    rotations(2) [of 17 x] rotations(2) [of 19 x]
  by simp_all

lemma sha_schedule_next:
  "sha_schedule_step (map (W M) [0..<n + 16]) = map (W M) [0..<Suc n + 16]"
proof -
  have "W M (n + 16) = W M n + sigma0 (W M (Suc n)) + W M (9 + n) + sigma1 (W M (14 + n))"
    by (subst W.simps) (simp add: numeral_eq_Suc ac_simps)
  moreover have "map (W M) [0..<Suc n + 16] = map (W M) [0..<n + 16] @ [W M (n + 16)]"
    by (simp only: add_Suc upt_Suc_append le_add2 map_append list.map)
  ultimately show ?thesis
    by (simp only: sha_schedule_step_def sha_rotations sigma0_def sigma1_def Let_def) simp
qed

lemma sha_schedule_prefix:
  "(sha_schedule_step ^^ n) (map M [0..<16]) = map (W M) [0..<n + 16]"
proof (induction n)
  case 0
  show ?case by (simp add: W.simps)
next
  case (Suc n)
  then show ?case
    by (simp only: funpow.simps comp_apply sha_schedule_next)
qed

lemma sha_step_fips:
  "i < 64 \<Longrightarrow> sha_step (map (W M) [0..<64]) i = fips_round M i"
  by (simp add: fun_eq_iff sha_step_def fips_round_def sha_k_fips sha_rotations Sigma0_def Sigma1_def Ch_def Maj_def Let_def)

lemma sha_block_fips:
  assumes "length h = 8" and "\<forall>t<16. sha_block_word msg block t = M t"
  shows "sha_block msg block h = fips_block M h"
proof -
  have "map (sha_block_word msg block) [0..<16] = map M [0..<16]"
    using assms(2) by simp
  then have "sha_schedule msg block = map (W M) [0..<64]"
    using sha_schedule_prefix [of 48 M] by (simp only: sha_schedule_def) simp
  moreover have "fold (sha_step (map (W M) [0..<64])) [0..<64] st = fold (fips_round M) [0..<64] st" for st
    by (intro fold_cong) (simp_all add: sha_step_fips)
  moreover obtain h0 h1 h2 h3 h4 h5 h6 h7 where "h = [h0, h1, h2, h3, h4, h5, h6, h7]"
    using assms(1) by (auto simp: numeral_eq_Suc length_Suc_conv)
  ultimately show ?thesis
    by (simp add: sha_block_def fips_block_def split_beta Let_def)
qed

text \<open>Feeding the little-endian words of a byte string appends its bytes.\<close>

definition le_word :: "u8 list \<Rightarrow> nat \<Rightarrow> u32" where
  "le_word bs j = ucast (bs ! (4 * j)) OR push_bit 8 (ucast (bs ! (4 * j + 1)))
     OR push_bit 16 (ucast (bs ! (4 * j + 2))) OR push_bit 24 (ucast (bs ! (4 * j + 3)))"

definition le_words :: "u8 list \<Rightarrow> u32 list" where
  "le_words bs = map (le_word bs) [0..<length bs div 4]"

lemma le_word_bytes:
  "ucast (le_word bs j AND 0xff) = bs ! (4 * j)"
  "ucast (drop_bit 8 (le_word bs j) AND 0xff) = bs ! (4 * j + 1)"
  "ucast (drop_bit 16 (le_word bs j) AND 0xff) = bs ! (4 * j + 2)"
  "ucast (drop_bit 24 (le_word bs j) AND 0xff) = bs ! (4 * j + 3)"
  by (simp_all add: word8_eq_iff less_8_all le_word_def word_bits)

definition holds_prefix :: "u8 list \<Rightarrow> nat \<Rightarrow> sha \<Rightarrow> bool" where
  "holds_prefix bs n s \<longleftrightarrow> sha_len s = 4 * n \<and> \<not> sha_computed s \<and> (\<forall>i<4 * n. sha_msg s i = bs ! i)"

lemma feed_word_prefix:
  assumes "holds_prefix bs n s" and "4 * Suc n \<le> 0x200000"
  shows "holds_prefix bs (Suc n) (esp32_sha_feed_word (le_word bs n) s)"
proof -
  have "i < 4 * Suc n \<longleftrightarrow> i < 4 * n \<or> i = 4 * n \<or> i = 4 * n + 1 \<or> i = 4 * n + 2 \<or> i = 4 * n + 3" for i
    by auto
  then show ?thesis
    using assms by (auto simp: holds_prefix_def esp32_sha_feed_word_def le_word_bytes Let_def)
qed

lemma feed_words:
  "4 * n \<le> length bs \<Longrightarrow> length bs \<le> 0x200000 \<Longrightarrow>
    holds_prefix bs n (fold esp32_sha_feed_word (map (le_word bs) [0..<n]) (esp32_sha_reset s))"
proof (induction n)
  case 0
  show ?case by (simp add: holds_prefix_def esp32_sha_reset_def)
next
  case (Suc n)
  then show ?case
    using feed_word_prefix [of bs n] by simp
qed

lemma be_word_four:
  "be_word [a, b, c, d] = push_bit 24 (ucast a) OR push_bit 16 (ucast b) OR push_bit 8 (ucast c) OR ucast d"
  by (simp add: be_word_def word32_eq_iff less_32_all word_bits)

lemma fips_word_block:
  assumes "64 * j + 64 \<le> length bs" and "\<forall>i<length bs. msg i = bs ! i" and "t < 16"
  shows "sha_block_word msg (64 * j) t = fips_word bs j t"
proof -
  define k where "k = 64 * j + 4 * t"
  have "k + 4 \<le> length bs"
    using assms by (simp add: k_def)
  then have "take 4 (drop k bs) = [bs ! k, bs ! (k + 1), bs ! (k + 2), bs ! (k + 3)]"
    by (intro nth_equalityI) (auto simp: less_Suc_eq numeral_eq_Suc)
  then show ?thesis
    using assms(2) \<open>k + 4 \<le> length bs\<close>
    by (simp add: fips_word_def sha_block_word_def k_def [symmetric] be_word_four)
qed

lemma length_fips_block: "length H = 8 \<Longrightarrow> length (fips_block M H) = 8"
  by (simp add: fips_block_def split_beta)

lemma fips_blocks:
  assumes "64 * n \<le> length bs" and "\<forall>i<length bs. msg i = bs ! i"
  shows "fold (\<lambda>i. sha_block msg (64 * i)) [0..<n] sha_h0 = fold (\<lambda>j. fips_block (fips_word bs j)) [0..<n] sha_h0
    \<and> length (fold (\<lambda>j. fips_block (fips_word bs j)) [0..<n] sha_h0) = 8"
  using assms(1)
proof (induction n)
  case (Suc n)
  then show ?case
    using assms(2) by (simp add: length_fips_block sha_block_fips fips_word_block)
qed (simp add: sha_h0_def)

lemma length_fips_pad: "length (fips_pad m) mod 64 = 0"
proof -
  define q r where "q = length m div 64" and "r = length m mod 64"
  have "r < 64"
    by (simp add: r_def)
  have "(119 - r) mod 64 = (if r < 56 then 55 - r else 119 - r)"
  proof (cases "r < 56")
    case True
    then have "119 - r = (55 - r) + 64" and "55 - r < 64" by simp_all
    then have "(119 - r) mod 64 = 55 - r" by (simp only: mod_add_self2 mod_less)
    with True show ?thesis by simp
  next
    case False
    then show ?thesis by simp
  qed
  moreover have "length m = 64 * q + r"
    by (simp add: q_def r_def)
  moreover have "length (fips_pad m) = length m + 9 + (119 - r) mod 64"
    by (simp add: fips_pad_def r_def)
  ultimately have "length (fips_pad m) = 64 * (if r < 56 then q + 1 else q + 2)"
    using \<open>r < 64\<close> by simp
  then show ?thesis by simp
qed

text \<open>C36: when the accelerator has been reset and fed the padded message word by word, reading its
  digest registers returns the SHA-256 hash of the message, each word in the byte order of the
  registers, for every message that fits the buffer. The reference computes its round constants and its
  initial hash from the primes, as the standard defines them.
\<close>

theorem sha_digest_is_sha256:
  assumes "length (fips_pad m) \<le> 0x200000" and "idx < 8"
  shows "fst (esp32_sha_digest_word idx (fold esp32_sha_feed_word (le_words (fips_pad m)) (esp32_sha_reset s)))
    = sha_swap (sha256 m ! idx)"
proof -
  define bs where "bs = fips_pad m"
  define n where "n = length bs div 64"
  have len: "length bs = 64 * n"
    using length_fips_pad [of m] by (auto simp: bs_def n_def)
  define s' where "s' = fold esp32_sha_feed_word (le_words bs) (esp32_sha_reset s)"
  have s': "sha_len s' = 64 * n" "\<not> sha_computed s'" "\<forall>i<length bs. sha_msg s' i = bs ! i"
    using feed_words [of "16 * n" bs s] assms(1) len
    by (simp_all add: s'_def le_words_def bs_def [symmetric] holds_prefix_def)
  have "64 * n \<le> length bs"
    using len by simp
  note blocks = fips_blocks [OF this s'(3)]
  have "(64 * n + 63) div 64 = n"
    by simp
  then show ?thesis
    using assms(2) s' blocks
    by (simp add: esp32_sha_digest_word_def sha256_def sha_h0_fips [symmetric] bs_def [symmetric] n_def [symmetric] s'_def [symmetric])
qed

lemma sha_digest_is_sha256_witness:
  "fst (esp32_sha_digest_word 3
      (fold esp32_sha_feed_word (le_words (fips_pad [0x61, 0x62, 0x63])) (esp32_sha_reset sha_init)))
    = sha_swap (sha256 [0x61, 0x62, 0x63] ! 3)"
  by (rule sha_digest_is_sha256) (simp_all add: fips_pad_def)

end
