(* ===== verification/SocState.thy ===== *)
theory SocState imports Aes Sha Memory begin

text \<open>
  The state of the ESP32-C3 model in \<open>src/src/esp32c3.c\<close>: the memory regions and their buffers, the
  peripherals, and the interrupt matrix. One record stands for each peripheral's members of
  \<open>struct esp32c3_soc\<close>; where the struct keeps an array per channel or port (\<open>uart_*[2]\<close>,
  \<open>gdma_*[3]\<close>, \<open>timg_*[2]\<close>), the model has a list of records. A register bank \<open>uint32_t reg[n]\<close> is a
  list of \<open>n\<close> words; the one-megabyte backing \<open>mmio\<close> is a function on word indices. The debugging
  output, which is switched off by constant conditions, and the \<open>logged_unknown\<close>, \<open>seen\<close> and trace
  variables it uses are left out.
\<close>

section \<open>Memory regions\<close>

text \<open>The buffers \<open>esp32c3_new\<close> allocates. The four flash regions share one of them.\<close>

datatype soc_buffer = Dram | Iram | Rtc_fast | Rom | Romdata | Flash

definition soc_buffer_size :: "soc_buffer \<Rightarrow> nat" where
  "soc_buffer_size b = (case b of Dram \<Rightarrow> 0x70000 | Iram \<Rightarrow> 0x60000 | Rtc_fast \<Rightarrow> 0x2000
     | Rom \<Rightarrow> 0x60000 | Romdata \<Rightarrow> 0x20000 | Flash \<Rightarrow> 0x400000)"

text \<open>\<open>data\<close> is \<open>NULL\<close> exactly for the region of type \<open>ESP32_REG_MMIO\<close>.\<close>

record esp32_region_t =
  region_base :: u32
  region_size :: u32
  region_data :: "soc_buffer option"

definition soc_regions :: "esp32_region_t list" where
  "soc_regions = map (\<lambda>(b, n, d). \<lparr>region_base = b, region_size = n, region_data = d\<rparr>)
    [(0x3FC80000, 0x70000, Some Dram),
     (0x40380000, 0x60000, Some Iram),
     (0x50000000, 0x2000, Some Rtc_fast),
     (0x40000000, 0x60000, Some Rom),
     (0x3FF00000, 0x20000, Some Romdata),
     (0x3C000000, 0x400000, Some Flash),
     (0x42000000, 0x400000, Some Flash),
     (0x3C7E0000, 0x10000, Some Flash),
     (0x3C7F0000, 0x10000, Some Flash),
     (0x60000000, 0x100000, None)]"

definition esp32_find_region :: "u32 \<Rightarrow> esp32_region_t option" where
  "esp32_find_region addr = find (\<lambda>r. region_base r \<le> addr \<and> addr < region_base r + region_size r) soc_regions"

section \<open>Peripherals\<close>

record uart_port =
  rx_fifo :: "u8 list"
  rx_head :: u32
  rx_tail :: u32
  tx_cnt :: u32
  tx_idle :: u8

text \<open>\<open>console\<close> is what was written to the host's console, \<open>rx_host\<close> what the host's FIFO file offers;
  \<open>None\<close> if no \<open>esp32c3_uart_rx_path\<close> is configured.\<close>

record uart_t =
  uart_ports :: "uart_port list"
  uart_line :: "u8 list"
  console :: "u8 list"
  rx_host :: "u8 list option"

record systimer_t =
  systimer_counter :: u64
  systimer_unit1_counter :: u64
  systimer_comp0 :: u64
  systimer_comp2 :: u64
  systimer_conf :: u32
  systimer_target0_conf :: u32
  systimer_target2_conf :: u32
  systimer_int_ena :: u32
  systimer_int_raw :: u32
  systimer_t0_crossed :: u64
  systimer_t2_crossed :: u64
  systimer_unit0_val :: u64
  systimer_unit1_val :: u64
  rtc_time :: u64
  rtc_frac :: u64
  last_cycle :: u64

record intc_t =
  intc_enable :: u32
  intc_type :: u32
  intc_status :: "128 word"
  intc_eip :: u32
  intc_intmap :: "u32 list"

text \<open>\<open>gpio_hook\<close>: whether \<open>esp32c3_gpio_output\<close> is set; \<open>gpio_log\<close> are the calls made to it.\<close>

record gpio_t =
  gpio_out :: u32
  gpio_enable :: u32
  gpio_status :: u32
  gpio_in :: u32
  gpio_in_prev :: u32
  gpio_hook :: bool
  gpio_log :: "(nat \<times> bool) list"

record i2c_t =
  i2c_reg :: "u32 list"
  i2c_scl_rst_cnt :: nat
  i2c_transfer_pending :: bool
  i2c_tx_fifo :: "u8 list"
  i2c_tx_len :: nat
  i2c_rx_fifo :: "u8 list"
  i2c_rx_len :: nat
  i2c_rx_pos :: nat
  i2c_slave_active :: bool
  i2c_slave_rw :: bool
  i2c_dev_mem :: "u8 list"
  i2c_dev_ptr :: nat

record spi2_t =
  spi2_reg :: "u32 list"
  spi2_transfer_pending :: bool
  spi2_jedec :: nat
  spi2_dev_mem :: "u8 list"

record twai_t =
  twai_reg :: "u32 list"
  twai_tx_pending :: bool
  twai_tx_done_cycle :: u64
  twai_rx_deliver_cycle :: u64
  twai_rx_delivered :: bool

record gdma_chan =
  out_link :: u32
  in_link :: u32
  out_conf0 :: u32
  in_conf0 :: u32
  out_conf1 :: u32
  in_conf1 :: u32
  out_peri_sel :: u32
  in_peri_sel :: u32
  int_raw :: u32
  int_ena :: u32
  out_dscr :: u32
  in_dscr :: u32
  out_eof_des :: u32
  in_eof_des :: u32
  out_run :: bool
  in_run :: bool
  out_desc_buf :: u32
  out_desc_len :: u32
  out_next_addr :: u32
  in_desc_buf :: u32
  in_desc_len :: u32
  in_next_addr :: u32
  m2m_pending :: bool
  m2m_done_cycle :: u64

record gdma_t =
  gdma_chans :: "gdma_chan list"
  gdma_out_last :: nat

record ledc_t =
  ledc_reg :: "u32 list"
  ledc_duty_r :: "u32 list"
  ledc_timer_anchor :: "u64 list"
  ledc_timer_frac :: "u64 list"

record timg_t =
  timg_reg :: "u32 list"
  wdt_en :: bool
  wdt_expire :: u64
  wdt_unlock :: bool
  timg_counter :: u64
  timg_anchor :: u64
  timg_frac :: u64

section \<open>The system on chip\<close>

record soc_t =
  soc_mem :: "soc_buffer \<Rightarrow> nat \<Rightarrow> u8"
  mmio :: "nat \<Rightarrow> u32"
  systimer :: systimer_t
  flash_sr :: u32
  flash_sr2 :: u32
  intc :: intc_t
  gpio :: gpio_t
  uart :: uart_t
  i2c :: i2c_t
  spi2 :: spi2_t
  twai :: twai_t
  gdma :: gdma_t
  adc_reg :: "u32 list"
  ledc :: ledc_t
  timgs :: "timg_t list"
  aes_reg :: "u32 list"
  i2s_reg :: "u32 list"
  i2s_rx_counter :: u32
  wdt_config0_reads :: u32
  mmu :: "u32 list"
  rmt_tx_done_cycle :: u64
  sha_engine :: sha

text \<open>A register bank is addressed by byte offsets.\<close>

abbreviation reg_at :: "u32 list \<Rightarrow> nat \<Rightarrow> u32" where
  "reg_at regs off \<equiv> regs ! (off div 4)"

abbreviation reg_put :: "nat \<Rightarrow> u32 \<Rightarrow> u32 list \<Rightarrow> u32 list" where
  "reg_put off v regs \<equiv> regs[off div 4 := v]"

abbreviation mmio_at :: "soc_t \<Rightarrow> nat \<Rightarrow> u32" where
  "mmio_at soc off \<equiv> mmio soc (off div 4)"

definition mmio_put :: "nat \<Rightarrow> u32 \<Rightarrow> soc_t \<Rightarrow> soc_t" where
  "mmio_put off v soc = soc\<lparr>mmio := (mmio soc)(off div 4 := v)\<rparr>"

text \<open>Setting and clearing a source of the interrupt matrix. \<open>irq_clear_from\<close> is
  \<open>intc_status &= ~((unsigned __int128)1) << n\<close>, which complements before it shifts.\<close>

definition irq_set :: "nat \<Rightarrow> soc_t \<Rightarrow> soc_t" where
  "irq_set n soc = soc\<lparr>intc := (intc soc)\<lparr>intc_status := intc_status (intc soc) OR push_bit n 1\<rparr>\<rparr>"

definition irq_clear :: "nat \<Rightarrow> soc_t \<Rightarrow> soc_t" where
  "irq_clear n soc = soc\<lparr>intc := (intc soc)\<lparr>intc_status := intc_status (intc soc) AND NOT (push_bit n 1)\<rparr>\<rparr>"

definition irq_clear_from :: "nat \<Rightarrow> soc_t \<Rightarrow> soc_t" where
  "irq_clear_from n soc = soc\<lparr>intc := (intc soc)\<lparr>intc_status := intc_status (intc soc) AND push_bit n (NOT 1)\<rparr>\<rparr>"

section \<open>Buffers\<close>

text \<open>
  A pointer into a region's buffer is the buffer with an offset. An access outside of the buffer,
  undefined in C, is \<open>Undefined_access\<close>.
\<close>

type_synonym dma_pointer = "soc_buffer \<times> nat"

definition buffer_get :: "dma_pointer \<Rightarrow> nat \<Rightarrow> soc_t \<Rightarrow> u8 outcome" where
  "buffer_get p i soc = (let (b, k) = p in
     if k + i < soc_buffer_size b then Inr (soc_mem soc b (k + i)) else Inl Undefined_access)"

text \<open>\<open>memcpy\<close> of \<open>n\<close> bytes out of and into a buffer.\<close>

definition buffer_read :: "dma_pointer \<Rightarrow> nat \<Rightarrow> soc_t \<Rightarrow> u8 list outcome" where
  "buffer_read p n soc = (let (b, k) = p in
     if k + n \<le> soc_buffer_size b then Inr (map (\<lambda>i. soc_mem soc b (k + i)) [0..<n]) else Inl Undefined_access)"

definition buffer_write :: "dma_pointer \<Rightarrow> u8 list \<Rightarrow> soc_t \<Rightarrow> soc_t outcome" where
  "buffer_write p bs soc = (let (b, k) = p in
     if k + length bs \<le> soc_buffer_size b
     then Inr (soc\<lparr>soc_mem := (soc_mem soc)(b := \<lambda>j. if k \<le> j \<and> j < k + length bs then bs ! (j - k) else soc_mem soc b j)\<rparr>)
     else Inl Undefined_access)"

definition word_bytes :: "u32 \<Rightarrow> u8 list" where
  "word_bytes w = map (byte_of w) [0..<4]"

definition buffer_word :: "dma_pointer \<Rightarrow> nat \<Rightarrow> soc_t \<Rightarrow> u32 outcome" where
  "buffer_word p i soc = obind (buffer_read (fst p, snd p + i) 4 soc)
     (\<lambda>bs. Inr (word_of_bytes (bs ! 0) (bs ! 1) (bs ! 2) (bs ! 3)))"

text \<open>The host pointer of a guest address, \<open>None\<close> for \<open>NULL\<close>.\<close>

definition esp32c3_dma_ptr :: "u32 \<Rightarrow> dma_pointer option" where
  "esp32c3_dma_ptr addr = (case esp32_find_region addr of
     None \<Rightarrow> None
   | Some r \<Rightarrow> (case region_data r of None \<Rightarrow> None | Some b \<Rightarrow> Some (b, unat (addr - region_base r))))"

section \<open>Construction\<close>

text \<open>The three ROM images are the byte arrays of the generated headers; they are parameters.\<close>

definition load_image :: "u8 list \<Rightarrow> nat \<Rightarrow> (nat \<Rightarrow> u8) \<Rightarrow> nat \<Rightarrow> u8" where
  "load_image img k f = (\<lambda>j. if k \<le> j \<and> j < k + length img then img ! (j - k) else f j)"

definition zero_uart_port :: uart_port where
  "zero_uart_port = \<lparr>rx_fifo = replicate 128 0, rx_head = 0, rx_tail = 0, tx_cnt = 0, tx_idle = 0\<rparr>"

definition zero_gdma_chan :: gdma_chan where
  "zero_gdma_chan = \<lparr>out_link = 0, in_link = 0, out_conf0 = 0, in_conf0 = 0, out_conf1 = 0, in_conf1 = 0,
     out_peri_sel = 0, in_peri_sel = 0, int_raw = 0, int_ena = 0, out_dscr = 0, in_dscr = 0,
     out_eof_des = 0, in_eof_des = 0, out_run = False, in_run = False, out_desc_buf = 0, out_desc_len = 0,
     out_next_addr = 0, in_desc_buf = 0, in_desc_len = 0, in_next_addr = 0, m2m_pending = False, m2m_done_cycle = 0\<rparr>"

definition zero_timg :: timg_t where
  "zero_timg = \<lparr>timg_reg = replicate 64 0, wdt_en = False, wdt_expire = 0, wdt_unlock = False,
     timg_counter = 0, timg_anchor = 0, timg_frac = 0\<rparr>"

definition esp32c3_new :: "u8 list \<Rightarrow> u8 list \<Rightarrow> u8 list \<Rightarrow> bool \<Rightarrow> u8 list option \<Rightarrow> soc_t outcome" where
  "esp32c3_new rom_bin rodata_bin sram_bin hook host =
    (if \<not> (length rom_bin \<le> 0x60000 \<and> length rodata_bin \<le> 0x20000) then Inl Assert_failed
     else if 0x4B000 + length sram_bin > soc_buffer_size Dram then Inl Undefined_access
     else Inr \<lparr>
       soc_mem = (\<lambda>b. case b of
           Dram \<Rightarrow> load_image sram_bin 0x4B000 (\<lambda>_. 0)
         | Rom \<Rightarrow> load_image rom_bin 0 (\<lambda>_. 0)
         | Romdata \<Rightarrow> load_image rodata_bin 0 (\<lambda>_. 0)
         | Flash \<Rightarrow> (\<lambda>_. 0xFF)
         | _ \<Rightarrow> (\<lambda>_. 0)),
       mmio = (\<lambda>_. 0),
       systimer = \<lparr>systimer_counter = 0, systimer_unit1_counter = 0, systimer_comp0 = 0, systimer_comp2 = 0,
         systimer_conf = 0x40000000, systimer_target0_conf = 0, systimer_target2_conf = 0,
         systimer_int_ena = 0, systimer_int_raw = 0, systimer_t0_crossed = 0, systimer_t2_crossed = 0,
         systimer_unit0_val = 0, systimer_unit1_val = 0, rtc_time = 0, rtc_frac = 0, last_cycle = 0\<rparr>,
       flash_sr = 0, flash_sr2 = 0,
       intc = \<lparr>intc_enable = 0, intc_type = 0, intc_status = 0, intc_eip = 0, intc_intmap = map of_nat [0..<72]\<rparr>,
       gpio = \<lparr>gpio_out = 0, gpio_enable = 0, gpio_status = 0, gpio_in = 0, gpio_in_prev = 0,
         gpio_hook = hook, gpio_log = []\<rparr>,
       uart = \<lparr>uart_ports = replicate 2 zero_uart_port, uart_line = [], console = [], rx_host = host\<rparr>,
       i2c = \<lparr>i2c_reg = replicate 128 0, i2c_scl_rst_cnt = 0, i2c_transfer_pending = False,
         i2c_tx_fifo = replicate 32 0, i2c_tx_len = 0, i2c_rx_fifo = replicate 32 0, i2c_rx_len = 0, i2c_rx_pos = 0,
         i2c_slave_active = False, i2c_slave_rw = False,
         i2c_dev_mem = map (\<lambda>i. 0x40 + of_nat i) [0..<16], i2c_dev_ptr = 0\<rparr>,
       spi2 = \<lparr>spi2_reg = reg_put 0x3C 0x1000 (replicate 128 0), spi2_transfer_pending = False, spi2_jedec = 0,
         spi2_dev_mem = map (\<lambda>i. 0xA0 + of_nat i) [0..<16]\<rparr>,
       twai = \<lparr>twai_reg = reg_put 0 1 (replicate 64 0), twai_tx_pending = False, twai_tx_done_cycle = 0,
         twai_rx_deliver_cycle = 0, twai_rx_delivered = False\<rparr>,
       gdma = \<lparr>gdma_chans = replicate 3 zero_gdma_chan, gdma_out_last = 0\<rparr>,
       adc_reg = replicate 257 0,
       ledc = \<lparr>ledc_reg = replicate 128 0, ledc_duty_r = replicate 6 0, ledc_timer_anchor = replicate 4 0,
         ledc_timer_frac = replicate 4 0\<rparr>,
       timgs = replicate 2 zero_timg,
       aes_reg = replicate 64 0, i2s_reg = replicate 32 0, i2s_rx_counter = 0, wdt_config0_reads = 0,
       mmu = map of_nat [0..<128], rmt_tx_done_cycle = 0, sha_engine = sha_init\<rparr>)"

end
