(* ===== verification/SocRead.thy ===== *)
theory SocRead imports SocState begin

text \<open>
  Register reads of the ESP32-C3 (\<open>esp32_mmio_read\<close> of \<open>src/src/esp32c3.c\<close>), one function per
  peripheral in the order in which the source tests the address ranges. A register is named by its
  byte offset: from the peripheral's base in the functions of the peripherals, from the base
  \<open>0x60000000\<close> of the peripheral space in the dispatcher. The offsets need not be aligned, as in the
  source. An array index out of range is \<open>Undefined_access\<close>.
\<close>

section \<open>Configuration banks\<close>

definition i2s_read :: "nat \<Rightarrow> soc_t \<Rightarrow> u32" where
  "i2s_read o1 soc =
    (case switch o1
       [(0x10, reg_at (i2s_reg soc) 0x0C AND reg_at (i2s_reg soc) 0x14),
        (0x6C, 1),
        (0x80, 0x26062022)] of
       Some v \<Rightarrow> v
     | None \<Rightarrow> reg_at (i2s_reg soc) o1)"

text \<open>The watchdog register whose repeated reads must not cancel: a single low bit rotates.\<close>

definition wdt_config0_read :: "soc_t \<Rightarrow> u32 \<times> soc_t" where
  "wdt_config0_read soc =
    (let v = mmio_at soc 0x260B0
     in if v = 0 then
          let n = wdt_config0_reads soc
          in (0x80000000 OR push_bit (unat n mod 31) 1, soc\<lparr>wdt_config0_reads := n + 1\<rparr>)
        else (v, soc))"

section \<open>UART\<close>

definition set_port :: "nat \<Rightarrow> uart_port \<Rightarrow> soc_t \<Rightarrow> soc_t" where
  "set_port p u soc = soc\<lparr>uart := (uart soc)\<lparr>uart_ports := (uart_ports (uart soc))[p := u]\<rparr>\<rparr>"

abbreviation port_of :: "nat \<Rightarrow> soc_t \<Rightarrow> uart_port" where
  "port_of p soc \<equiv> uart_ports (uart soc) ! p"

definition uart_base :: "nat \<Rightarrow> nat" where
  "uart_base p = 0x10000 * p"

definition rx_count :: "uart_port \<Rightarrow> u32" where
  "rx_count u = (rx_head u - rx_tail u) AND 127"

definition rx_pop :: "uart_port \<Rightarrow> (u8 \<times> uart_port) outcome" where
  "rx_pop u =
    (if rx_head u \<noteq> rx_tail u then
       if unat (rx_tail u) < 128
       then Inr (rx_fifo u ! unat (rx_tail u), u\<lparr>rx_tail := (rx_tail u + 1) AND 127\<rparr>)
       else Inl Undefined_access
     else Inr (0, u))"

definition uart_read :: "nat \<Rightarrow> nat \<Rightarrow> soc_t \<Rightarrow> (u32 \<times> soc_t) outcome" where
  "uart_read p o1 soc =
    (if o1 = 0x00 then
       obind (rx_pop (port_of p soc)) (\<lambda>(b, u). Inr (ucast b, set_port p u soc))
     else if o1 = 0x1C then Inr (rx_count (port_of p soc), soc)
     else if o1 = 0x08 then
       Inr (mmio_at soc (uart_base p + 0x04) AND mmio_at soc (uart_base p + 0x0C), soc)
     else if o1 = 0x98 then Inr (mmio_at soc (uart_base p + o1) AND NOT 1, soc)
     else Inr (mmio_at soc (uart_base p + o1), soc))"

section \<open>Serial buses\<close>

text \<open>The reset pulses end after a number of reads; the data register pops the receive FIFO.\<close>

definition i2c_read :: "nat \<Rightarrow> soc_t \<Rightarrow> u32 \<times> soc_t" where
  "i2c_read o1 soc =
    (let d = i2c soc;
         d = (if o1 = 0x80 \<and> 0 < i2c_scl_rst_cnt d then
               let d = d\<lparr>i2c_scl_rst_cnt := i2c_scl_rst_cnt d - 1\<rparr>
               in if i2c_scl_rst_cnt d = 0
                  then d\<lparr>i2c_reg := reg_put o1 (reg_at (i2c_reg d) o1 AND NOT 1) (i2c_reg d)\<rparr> else d
              else d)
     in if o1 = 0x2C then (reg_at (i2c_reg d) 0x20 AND reg_at (i2c_reg d) 0x28, soc\<lparr>i2c := d\<rparr>)
        else
          let d = (if o1 = 0x1C \<and> i2c_rx_pos d < i2c_rx_len d then
                     d\<lparr>i2c_rx_pos := i2c_rx_pos d + 1,
                       i2c_reg := reg_put 0x1C (ucast (i2c_rx_fifo d ! i2c_rx_pos d)) (i2c_reg d)\<rparr>
                   else d)
          in (reg_at (i2c_reg d) o1, soc\<lparr>i2c := d\<rparr>))"

definition spi2_read :: "nat \<Rightarrow> soc_t \<Rightarrow> u32" where
  "spi2_read o1 soc =
    (let r = spi2_reg (spi2 soc)
     in if o1 = 0x40 then reg_at r 0x3C AND reg_at r 0x34 else reg_at r o1)"

text \<open>
  Reading the interrupt register clears it, but the receive interrupt is a level. With the register
  empty the source is meant to be dropped; the mask that is applied clears the sources below 26.
\<close>

definition twai_read :: "nat \<Rightarrow> soc_t \<Rightarrow> u32 \<times> soc_t" where
  "twai_read o1 soc =
    (let t = twai soc; r = twai_reg t
     in if o1 = 0x08 then
          (0x4 OR (if reg_at r 0 AND 1 \<noteq> 0 then 0x10 else 0) OR (reg_at r 0x08 AND (0x1 OR 0x8)), soc)
        else if o1 = 0x0C then
          let v = reg_at r 0x0C;
              r = reg_put 0x0C 0 r;
              r = (if reg_at r 0x08 AND 0x1 \<noteq> 0 \<and> reg_at r 0x10 AND 0x1 \<noteq> 0 then reg_put 0x0C 0x1 r else r);
              soc = soc\<lparr>twai := t\<lparr>twai_reg := r\<rparr>\<rparr>
          in (v, if reg_at r 0x0C = 0 then irq_clear_from 25 soc else soc)
        else (reg_at r o1, soc))"

section \<open>GDMA\<close>

definition gdma_read :: "nat \<Rightarrow> soc_t \<Rightarrow> u32 outcome" where
  "gdma_read o1 soc =
    (let chans = gdma_chans (gdma soc)
     in if o1 < 3 * 0x10 then
          let ch = chans ! (o1 div 16)
          in Inr (case switch (o1 mod 16) [(0x0, int_raw ch), (0x4, int_raw ch AND int_ena ch), (0x8, int_ena ch)] of
                    Some v \<Rightarrow> v
                  | None \<Rightarrow> 0)
        else if o1 < 0x70 then Inr 0
        else
          let c = (o1 - 0x70) div 0xC0; r = o1 - 0x70 - c * 0xC0
          in if c < 3 then
               let ch = chans ! c
               in Inr (case switch r
                   [(0x10, (in_link ch AND 0xFFFFF) OR (if in_run ch then 0 else push_bit 24 1)),
                    (0x70, (out_link ch AND 0xFFFFF) OR (if out_run ch then 0 else push_bit 23 1)),
                    (0x30, in_peri_sel ch), (0x90, out_peri_sel ch), (0x00, in_conf0 ch), (0x60, out_conf0 ch)] of
                   Some v \<Rightarrow> v
                 | None \<Rightarrow>
                   (case (if r < 0x60 then switch r
                       [(0x00, in_conf0 ch), (0x04, in_conf1 ch), (0x08, 0x02), (0x0C, 0), (0x10, in_link ch),
                        (0x14, if in_run ch then 0x08000000 else 0), (0x18, in_eof_des ch), (0x20, in_dscr ch),
                        (0x24, in_desc_buf ch), (0x30, in_peri_sel ch)]
                     else switch (r - 0x60)
                       [(0x00, out_conf0 ch), (0x04, out_conf1 ch), (0x08, 0x02), (0x0C, 0), (0x10, out_link ch),
                        (0x14, if out_run ch then 0x08000000 else 0), (0x18, out_eof_des ch), (0x20, out_dscr ch),
                        (0x24, out_desc_buf ch), (0x30, out_peri_sel ch)]) of
                     Some v \<Rightarrow> v
                   | None \<Rightarrow> 0))
             else if r = 0x00 \<or> r = 0x04 then Inl Undefined_access
             else Inr (if r = 0x08 then 0x02 else 0))"

section \<open>GPIO, converters and PWM\<close>

text \<open>The level an output pin drives: the peripheral's if one is routed to it, else \<open>gpio_out\<close>'s.\<close>

definition esp32c3_gpio_eff_out :: "soc_t \<Rightarrow> u32" where
  "esp32c3_gpio_eff_out soc =
    fold (\<lambda>p out.
        if gpio_enable (gpio soc) AND push_bit p 1 = 0 then out
        else if mmio_at soc (0x4554 + 4 * p) AND 0x100 \<noteq> 0
        then out OR (gpio_in (gpio soc) AND push_bit p 1)
        else out OR (gpio_out (gpio soc) AND push_bit p 1))
      [0..<22] 0"

definition gpio_read :: "nat \<Rightarrow> soc_t \<Rightarrow> u32" where
  "gpio_read o1 soc =
    (case switch o1
       [(0x04, gpio_out (gpio soc)), (0x20, gpio_enable (gpio soc)),
        (0x3C, push_bit 9 1 OR gpio_in (gpio soc) OR esp32c3_gpio_eff_out soc),
        (0x38, push_bit 9 1 OR 0x8), (0x44, gpio_status (gpio soc)), (0x5C, gpio_status (gpio soc))] of
       Some v \<Rightarrow> v
     | None \<Rightarrow> mmio_at soc (0x4000 + o1))"

definition adc_read :: "nat \<Rightarrow> soc_t \<Rightarrow> u32" where
  "adc_read o1 soc =
    (let r = adc_reg soc
     in if o1 = 0x2C \<or> o1 = 0x30 then reg_at r o1
        else if o1 = 0x58 then (reg_at r o1 AND NOT 0xFF) OR 0x78
        else if o1 = 0x44 \<or> o1 = 0x40 then reg_at r o1
        else if o1 = 0x48 then reg_at r 0x44 AND reg_at r 0x40
        else if o1 = 0x400 then 0x02206840
        else reg_at r o1)"

definition ledc_read :: "nat \<Rightarrow> soc_t \<Rightarrow> u32" where
  "ledc_read o1 soc =
    (let r = ledc_reg (ledc soc)
     in case find (\<lambda>c. o1 = 0x14 * c + 0x10) [0..<6] of
          Some c \<Rightarrow> ledc_duty_r (ledc soc) ! c
        | None \<Rightarrow> if o1 = 0xC4 then reg_at r 0xC0 AND reg_at r 0xC8 else reg_at r o1)"

section \<open>Timers\<close>

abbreviation group_of :: "nat \<Rightarrow> soc_t \<Rightarrow> timg_t" where
  "group_of g soc \<equiv> timgs soc ! g"

definition timg_base :: "nat \<Rightarrow> nat" where
  "timg_base g = (if g = 0 then 0x1F000 else 0x20000)"

definition timg_read :: "nat \<Rightarrow> nat \<Rightarrow> soc_t \<Rightarrow> u32" where
  "timg_read g o1 soc =
    (let t = group_of g soc
     in if o1 = 0x04 then ucast (timg_counter t)
        else if o1 = 0x08 then ucast (drop_bit 32 (timg_counter t))
        else if o1 = 0x78 then reg_at (timg_reg t) 0x74 AND reg_at (timg_reg t) 0x70
        else reg_at (timg_reg t) o1)"

definition rtc_read :: "nat \<Rightarrow> soc_t \<Rightarrow> u32" where
  "rtc_read off soc =
    (case switch off
       [(0x8010, ucast (rtc_time (systimer soc))), (0x8014, ucast (drop_bit 32 (rtc_time (systimer soc)))),
        (0x8038, 1), (0x8850, push_bit 24 5 OR push_bit 18 5)] of
       Some v \<Rightarrow> v
     | None \<Rightarrow> mmio_at soc off)"

definition rmt_read :: "nat \<Rightarrow> soc_t \<Rightarrow> u32" where
  "rmt_read o1 soc =
    (if o1 = 0x3C then mmio_at soc (0x16000 + 0x38) AND mmio_at soc (0x16000 + 0x40)
     else mmio_at soc (0x16000 + o1))"

definition systimer_read :: "nat \<Rightarrow> soc_t \<Rightarrow> u32" where
  "systimer_read o1 soc =
    (let t = systimer soc
     in case switch o1
       [(0x00, systimer_conf t),
        (0x44, ucast (systimer_counter t)), (0x40, ucast (drop_bit 32 (systimer_counter t))),
        (0x4C, ucast (systimer_unit1_counter t)), (0x48, ucast (drop_bit 32 (systimer_unit1_counter t))),
        (0x20, ucast (systimer_comp0 t)), (0x1C, ucast (drop_bit 32 (systimer_comp0 t))),
        (0x30, ucast (systimer_comp2 t)), (0x2C, ucast (drop_bit 32 (systimer_comp2 t))),
        (0x34, systimer_target0_conf t), (0x3C, systimer_target2_conf t),
        (0x64, systimer_int_ena t), (0x68, systimer_int_raw t), (0x6C, 0),
        (0x70, systimer_int_raw t AND systimer_int_ena t)] of
       Some v \<Rightarrow> v
     | None \<Rightarrow> mmio_at soc (0x23000 + o1))"

section \<open>Interrupt matrix and the rest\<close>

definition intc_read :: "nat \<Rightarrow> soc_t \<Rightarrow> u32" where
  "intc_read o1 soc =
    (let c = intc soc
     in if o1 < 52 * 4 then reg_at (intc_intmap c) o1
        else case switch o1
          [(0xF8, ucast (intc_status c)), (0xFC, ucast (drop_bit 32 (intc_status c))),
           (0x08, ucast (drop_bit 64 (intc_status c))), (0x0C, ucast (drop_bit 96 (intc_status c))),
           (0x104, intc_enable c), (0x108, intc_type c)] of
          Some v \<Rightarrow> v
        | None \<Rightarrow> mmio_at soc (0xC2000 + o1))"

definition sha_read :: "nat \<Rightarrow> soc_t \<Rightarrow> u32 \<times> soc_t" where
  "sha_read o1 soc =
    (let (w, s) = esp32_sha_digest_word (o1 div 4) (sha_engine soc)
     in (w, soc\<lparr>sha_engine := s\<lparr>sha_reset_pending := True\<rparr>\<rparr>))"

text \<open>The stubs: a range of offsets, the register that has a value, and the value.\<close>

definition stub_ranges :: "(nat \<times> nat \<times> (nat \<times> u32) list) list" where
  "stub_ranges =
    [(0x14000, 0x15000, [(0x140E8, 0x02000000)]),
     (0x3C000, 0x3D000, []), (0x3D000, 0x3E000, []), (0x3E000, 0x3F000, []),
     (0x43000, 0x44000, [(0x43080, 0xFFFFFFFF)]),
     (0xCC000, 0xCD000, [(0xCC05C, 0x3FFFFFFF)]),
     (0xCE000, 0xCF000, [(0xCE1FC, 0x0FFFFFFF)]),
     (0xCF000, 0xD0000, []), (0xD0000, 0xD1000, []), (0xC1000, 0xC2000, [])]"

definition misc_read :: "nat \<Rightarrow> soc_t \<Rightarrow> u32 \<times> soc_t" where
  "misc_read off soc =
    (if off = 0x3B018 then (0, soc)
     else if 0x3B040 \<le> off \<and> off < 0x3B060 then sha_read (off - 0x3B040) soc
     else case switch off [(0xC401C, 0x4), (0xC4028, 0x3), (0xC4034, 0x2), (0xC4040, 0x8), (0xC40B0, 0x1)] of
            Some v \<Rightarrow> (v, soc)
          | None \<Rightarrow>
              (case find (\<lambda>(lo, hi, regs). lo \<le> off \<and> off < hi) stub_ranges of
                 Some (lo, hi, regs) \<Rightarrow> (case switch off regs of Some v \<Rightarrow> v | None \<Rightarrow> 0, soc)
               | None \<Rightarrow> (mmio_at soc off, soc)))"

definition spi_flash_read :: "nat \<Rightarrow> soc_t \<Rightarrow> u32" where
  "spi_flash_read off soc =
    (if off = 0x2000 \<or> off = 0x3000 then 0 else if off = 0x202C then 0x2 else mmio_at soc off)"

section \<open>Dispatch\<close>

definition peripheral_read :: "nat \<Rightarrow> soc_t \<Rightarrow> (u32 \<times> soc_t) outcome" where
  "peripheral_read off soc =
    (if 0xC5000 \<le> off \<and> off < 0xC5200 then Inr (reg_at (mmu soc) (off - 0xC5000), soc)
     else if 0x3A000 \<le> off \<and> off < 0x3A0B4 then Inr (reg_at (aes_reg soc) (off - 0x3A000), soc)
     else if 0x2D000 \<le> off \<and> off < 0x2D080 then Inr (i2s_read (off - 0x2D000) soc, soc)
     else if off = 0x260B0 then Inr (wdt_config0_read soc)
     else if off < 0x1000 then uart_read 0 off soc
     else if 0x10000 \<le> off \<and> off < 0x11000 then uart_read 1 (off - 0x10000) soc
     else if 0x13000 \<le> off \<and> off < 0x13200 then Inr (i2c_read (off - 0x13000) soc)
     else if 0x24000 \<le> off \<and> off < 0x24100 then Inr (spi2_read (off - 0x24000) soc, soc)
     else if 0x2B000 \<le> off \<and> off < 0x2B100 then Inr (twai_read (off - 0x2B000) soc)
     else if 0x3F000 \<le> off \<and> off < 0x3F2C0 then obind (gdma_read (off - 0x3F000) soc) (\<lambda>v. Inr (v, soc))
     else if off < 0x4000 then Inr (spi_flash_read off soc, soc)
     else if off < 0x5000 then Inr (gpio_read (off - 0x4000) soc, soc)
     else if 0x40000 \<le> off \<and> off < 0x40404 then Inr (adc_read (off - 0x40000) soc, soc)
     else if 0x19000 \<le> off \<and> off < 0x19200 then Inr (ledc_read (off - 0x19000) soc, soc)
     else if 0x1F000 \<le> off \<and> off < 0x1F100 then Inr (timg_read 0 (off - 0x1F000) soc, soc)
     else if 0x20000 \<le> off \<and> off < 0x20100 then Inr (timg_read 1 (off - 0x20000) soc, soc)
     else if off < 0xF000 then Inr (rtc_read off soc, soc)
     else if 0x16000 \<le> off \<and> off < 0x17000 then Inr (rmt_read (off - 0x16000) soc, soc)
     else if 0x1F000 \<le> off \<and> off < 0x24000 then
       Inr (if 0x23000 \<le> off then systimer_read (off - 0x23000) soc else mmio_at soc off, soc)
     else if 0xC2000 \<le> off \<and> off < 0xC3000 then Inr (intc_read (off - 0xC2000) soc, soc)
     else Inr (misc_read off soc))"

definition esp32_mmio_read :: "u32 \<Rightarrow> soc_t \<Rightarrow> (u32 \<times> soc_t) outcome" where
  "esp32_mmio_read addr soc =
    (if addr < 0x60000000 \<or> addr \<ge> 0x60000000 + 0x100000 then Inr (0, soc)
     else peripheral_read (unat (addr - 0x60000000)) soc)"

end
