(* ===== verification/SocFlash.thy ===== *)
theory SocFlash imports SocState begin

text \<open>
  The serial flash of the ESP32-C3 (\<open>esp32c3_spiflash_exec\<close> and the SPI0/SPI1 branch of
  \<open>esp32_mmio_write\<close> in \<open>src/src/esp32c3.c\<close>): the dedicated command bits, the user commands, and
  the data window \<open>W0\<close> to \<open>W15\<close> through which bytes are exchanged. The host is little-endian, so
  byte \<open>i\<close> of the window is byte \<open>i mod 4\<close> of word \<open>i div 4\<close>.
\<close>

section \<open>The data window\<close>

definition window_byte :: "nat \<Rightarrow> soc_t \<Rightarrow> nat \<Rightarrow> u8" where
  "window_byte w soc i = byte_of (mmio_at soc (w + i)) (i mod 4)"

definition put_byte :: "nat \<Rightarrow> u8 \<Rightarrow> u32 \<Rightarrow> u32" where
  "put_byte k b x = (x AND NOT (push_bit (8 * k) 0xFF)) OR push_bit (8 * k) (ucast b)"

definition window_put :: "nat \<Rightarrow> nat \<Rightarrow> u8 \<Rightarrow> soc_t \<Rightarrow> soc_t" where
  "window_put w i b soc = mmio_put (w + i) (put_byte (i mod 4) b (mmio_at soc (w + i))) soc"

text \<open>\<open>memcpy\<close> into the window.\<close>

definition window_copy :: "nat \<Rightarrow> u8 list \<Rightarrow> soc_t \<Rightarrow> soc_t" where
  "window_copy w bs soc = fold (\<lambda>i. window_put w i (bs ! i)) [0..<length bs] soc"

section \<open>The flash array\<close>

definition FLASH_SIZE :: nat where [simp]: "FLASH_SIZE = 0x400000"

definition flash_fill :: "nat \<Rightarrow> nat \<Rightarrow> soc_t \<Rightarrow> soc_t" where
  "flash_fill k n soc = soc\<lparr>soc_mem := (soc_mem soc)(Flash := \<lambda>j. if k \<le> j \<and> j < k + n then 0xFF else soc_mem soc Flash j)\<rparr>"

text \<open>Programming can only clear bits. The sum of address and index wraps at 32 bits.\<close>

definition flash_and :: "u32 \<Rightarrow> u8 \<Rightarrow> soc_t \<Rightarrow> soc_t" where
  "flash_and a b soc =
    (if unat a < FLASH_SIZE
     then soc\<lparr>soc_mem := (soc_mem soc)(Flash := (soc_mem soc Flash)(unat a := soc_mem soc Flash (unat a) AND b))\<rparr>
     else soc)"

definition flash_program :: "u32 \<Rightarrow> u8 list \<Rightarrow> soc_t \<Rightarrow> soc_t" where
  "flash_program faddr bs soc = fold (\<lambda>i. flash_and (faddr + of_nat i) (bs ! i)) [0..<length bs] soc"

definition flash_erase :: "u32 \<Rightarrow> nat \<Rightarrow> soc_t \<Rightarrow> soc_t" where
  "flash_erase faddr n soc =
    (let k = unat (faddr AND NOT (of_nat (n - 1)))
     in if k < FLASH_SIZE then flash_fill k (min n (FLASH_SIZE - k)) soc else soc)"

definition clear_wel :: "soc_t \<Rightarrow> soc_t" where
  "clear_wel soc = soc\<lparr>flash_sr := flash_sr soc AND NOT 0x02\<rparr>"

definition set_wel :: "soc_t \<Rightarrow> soc_t" where
  "set_wel soc = soc\<lparr>flash_sr := flash_sr soc OR 0x02\<rparr>"

definition flash_to_window :: "u32 \<Rightarrow> nat \<Rightarrow> nat \<Rightarrow> soc_t \<Rightarrow> soc_t outcome" where
  "flash_to_window faddr n w soc =
    (if unat faddr < FLASH_SIZE
     then obind (buffer_read (Flash, unat faddr) n soc) (\<lambda>bs. Inr (window_copy w bs soc))
     else Inr soc)"

section \<open>User commands\<close>

text \<open>
  \<open>w\<close> is the window, \<open>rn\<close> the length of the response, \<open>wb\<close> the payload captured before. The status
  command reads the window as it was before, with the bytes of the response cleared.
\<close>

definition wrsr_value :: "u32 \<Rightarrow> nat \<Rightarrow> u32" where
  "wrsr_value w0 rn =
    (let w0 = (if 1 \<le> rn then w0 AND NOT 0xFF else w0);
         w0 = (if 2 \<le> rn then w0 AND NOT 0xFF00 else w0);
         w0 = (if 3 \<le> rn then w0 AND NOT 0xFF0000 else w0);
         w0 = (if 4 \<le> rn then w0 AND NOT 0xFF000000 else w0)
     in w0)"

definition esp32c3_spiflash_exec :: "u32 \<Rightarrow> u32 \<Rightarrow> nat \<Rightarrow> nat \<Rightarrow> u8 list \<Rightarrow> soc_t \<Rightarrow> soc_t outcome" where
  "esp32c3_spiflash_exec cmd faddr w rn wb soc0 =
    (let w0orig = mmio_at soc0 w;
         soc = window_copy w (replicate rn 0) soc0
     in if cmd = 0x9F then Inr (mmio_put w 0x1640EF soc)
        else if cmd = 0x05 then Inr (mmio_put w (flash_sr soc) soc)
        else if cmd = 0x35 then Inr (mmio_put w (flash_sr2 soc) soc)
        else if cmd = 0x06 then Inr (set_wel soc)
        else if cmd = 0x04 then Inr (clear_wel soc)
        else if cmd = 0x01 then
          let w0z = wrsr_value w0orig rn
          in Inr (clear_wel (soc\<lparr>flash_sr := w0z AND 0xFF, flash_sr2 := drop_bit 8 w0z AND 0xFF\<rparr>))
        else if cmd = 0x31 then
          Inr (if wb \<noteq> [] then soc\<lparr>flash_sr2 := ucast (hd wb)\<rparr> else soc)
        else if cmd \<in> {0x03, 0x0B, 0x3B, 0x6B, 0xBB, 0xEB} then flash_to_window faddr rn w soc
        else if cmd \<in> {0x02, 0x32} then Inr (clear_wel (flash_program faddr wb soc))
        else if cmd = 0x20 then Inr (clear_wel (flash_erase faddr 4096 soc))
        else if cmd = 0x52 then Inr (clear_wel (flash_erase faddr 32768 soc))
        else if cmd = 0xD8 then Inr (clear_wel (flash_erase faddr 65536 soc))
        else if cmd \<in> {0x60, 0xC7} then Inr (clear_wel (flash_fill 0 FLASH_SIZE soc))
        else Inr soc)"

section \<open>Dedicated command bits\<close>

definition on_bit :: "nat \<Rightarrow> u32 \<Rightarrow> (soc_t \<Rightarrow> soc_t) \<Rightarrow> soc_t \<Rightarrow> soc_t" where
  "on_bit n val f soc = (if val AND push_bit n 1 \<noteq> 0 then f soc else soc)"

definition bits_to_bytes :: "u32 \<Rightarrow> nat" where
  "bits_to_bytes len = min (unat ((len + 1 + 7) div 8)) 64"

definition page_program :: "nat \<Rightarrow> u32 \<Rightarrow> soc_t \<Rightarrow> soc_t" where
  "page_program w addrreg soc =
    (let plen = unat (drop_bit 24 addrreg AND 0xFF);
         plen = (if plen = 0 then 256 else plen);
         plen = (if plen > 64 then 64 else plen)
     in clear_wel (flash_program (addrreg AND 0xFFFFFF) (map (window_byte w soc) [0..<plen]) soc))"

definition dedicated_write :: "nat \<Rightarrow> u32 \<Rightarrow> soc_t \<Rightarrow> soc_t outcome" where
  "dedicated_write base val soc =
    (let w = base + 0x58;
         addrreg = mmio_at soc (base + 0x04);
         faddr = addrreg AND 0xFFFFFF;
         soc = on_bit 30 val set_wel soc;
         soc = on_bit 29 val clear_wel soc;
         soc = on_bit 22 val (\<lambda>soc. clear_wel (flash_fill 0 FLASH_SIZE soc)) soc;
         soc = on_bit 23 val (\<lambda>soc. clear_wel (flash_erase faddr 65536 soc)) soc;
         soc = on_bit 24 val (\<lambda>soc. clear_wel (flash_erase faddr 4096 soc)) soc;
         soc = on_bit 25 val (page_program w addrreg) soc;
         soc = on_bit 26 val (\<lambda>soc. clear_wel
                 (soc\<lparr>flash_sr := mmio_at soc w AND 0xFF, flash_sr2 := drop_bit 8 (mmio_at soc w) AND 0xFF\<rparr>)) soc;
         soc = on_bit 27 val (\<lambda>soc. mmio_put w (flash_sr soc) soc) soc;
         soc = on_bit 28 val (mmio_put w 0x1640EF) soc
     in obind (if val AND push_bit 31 1 \<noteq> 0
               then flash_to_window faddr (bits_to_bytes (mmio_at soc (base + 0x28) AND 0x3FF)) w soc
               else Inr soc)
          (\<lambda>soc. Inr (if val AND NOT (0x40000 OR 0x20000) \<noteq> 0 \<and> val AND 0x40000 = 0
                        then mmio_put base 0 soc else soc)))"

definition user_write :: "nat \<Rightarrow> u32 \<Rightarrow> soc_t \<Rightarrow> soc_t outcome" where
  "user_write base amask soc =
    (let w = base + 0x58;
         cmd = mmio_at soc (base + 0x20) AND 0xFFFF;
         rn = bits_to_bytes (mmio_at soc (base + 0x28) AND 0x3FF);
         wn = bits_to_bytes (mmio_at soc (base + 0x24) AND 0xFFFFFF);
         wb = map (window_byte w soc) [0..<wn];
         faddr = mmio_at soc (base + 0x04) AND amask
     in obind (esp32c3_spiflash_exec cmd faddr w rn wb soc) (\<lambda>soc. Inr (mmio_put base 0 soc)))"

definition spi_flash_write :: "nat \<Rightarrow> u32 \<Rightarrow> soc_t \<Rightarrow> soc_t outcome" where
  "spi_flash_write off val soc =
    (let soc = mmio_put off val soc
     in obind (if off = 0x2000 \<or> off = 0x3000 then dedicated_write off val soc else Inr soc)
          (\<lambda>soc. if off = 0x2000 \<and> val AND 0x40000 \<noteq> 0 then user_write 0x2000 0xFFFFFFFF soc
                  else if off = 0x3000 \<and> val AND 0x40000 \<noteq> 0 then user_write 0x3000 0xFFFFFF soc
                  else Inr soc))"

end
