(* ===== verification/SocDma.thy ===== *)
theory SocDma imports SocState begin

text \<open>
  Direct memory access of the ESP32-C3 (\<open>esp32c3_gdma_load_desc\<close>, \<open>esp32c3_gdma_link_addr\<close>,
  \<open>esp32c3_aes_run_dma\<close> and the completion part of \<open>esp32c3_periodic\<close> in \<open>src/src/esp32c3.c\<close>).
  Descriptors are three words in RAM: length, size and flags; buffer; next descriptor.
\<close>

section \<open>Descriptors\<close>

definition esp32c3_gdma_link_addr :: "u32 \<Rightarrow> u32" where
  "esp32c3_gdma_link_addr link = (if link \<ge> 0x3FC80000 then link else 0x3FC00000 + (link AND 0x000FFFFF))"

text \<open>Length, or size where the length is zero.\<close>

definition desc_length :: "u32 \<Rightarrow> u32" where
  "desc_length dw0 = (let size' = dw0 AND 0xFFF; length' = drop_bit 12 dw0 AND 0xFFF
     in if length' \<noteq> 0 then length' else size')"

text \<open>Buffer, length and next; \<open>None\<close> if the descriptor is not in RAM.\<close>

definition esp32c3_gdma_load_desc :: "u32 \<Rightarrow> soc_t \<Rightarrow> (u32 \<times> u32 \<times> u32) option outcome" where
  "esp32c3_gdma_load_desc desc_addr soc =
    (case esp32c3_dma_ptr desc_addr of
       None \<Rightarrow> Inr None
     | Some d \<Rightarrow>
         obind (buffer_word d 0 soc) (\<lambda>dw0.
         obind (buffer_word d 4 soc) (\<lambda>dw1.
         obind (buffer_word d 8 soc) (\<lambda>dw2.
         Inr (Some (dw1, desc_length dw0, dw2))))))"

definition clear_owner :: "dma_pointer \<Rightarrow> soc_t \<Rightarrow> soc_t outcome" where
  "clear_owner d soc = obind (buffer_word d 0 soc)
     (\<lambda>dw0. buffer_write d (word_bytes (dw0 AND NOT (push_bit 31 1))) soc)"

definition clear_owner_at :: "u32 \<Rightarrow> soc_t \<Rightarrow> soc_t outcome" where
  "clear_owner_at addr soc = (case esp32c3_dma_ptr addr of None \<Rightarrow> Inr soc | Some d \<Rightarrow> clear_owner d soc)"

section \<open>Channels\<close>

abbreviation chan_of :: "nat \<Rightarrow> soc_t \<Rightarrow> gdma_chan" where
  "chan_of c soc \<equiv> gdma_chans (gdma soc) ! c"

definition set_chan :: "nat \<Rightarrow> gdma_chan \<Rightarrow> soc_t \<Rightarrow> soc_t" where
  "set_chan c ch soc = soc\<lparr>gdma := (gdma soc)\<lparr>gdma_chans := (gdma_chans (gdma soc))[c := ch]\<rparr>\<rparr>"

definition load_out :: "u32 \<Rightarrow> u32 \<Rightarrow> u32 \<Rightarrow> gdma_chan \<Rightarrow> gdma_chan" where
  "load_out b n next' ch = ch\<lparr>out_desc_buf := b, out_desc_len := n, out_next_addr := next'\<rparr>"

definition load_in :: "u32 \<Rightarrow> u32 \<Rightarrow> u32 \<Rightarrow> gdma_chan \<Rightarrow> gdma_chan" where
  "load_in b n next' ch = ch\<lparr>in_desc_buf := b, in_desc_len := n, in_next_addr := next'\<rparr>"

section \<open>The AES engine fed by descriptors\<close>

text \<open>Bytes at consecutive guest addresses, each looked up by itself. A byte outside of RAM leaves an
  element of the array \<open>in\<close> uninitialised, and is skipped on output.\<close>

primrec gather_bytes :: "nat \<Rightarrow> u32 \<Rightarrow> soc_t \<Rightarrow> u8 list outcome" where
  "gather_bytes 0 a soc = Inr []"
| "gather_bytes (Suc n) a soc =
    (case esp32c3_dma_ptr a of
       None \<Rightarrow> Inl Undefined_access
     | Some p \<Rightarrow> obind (buffer_get p 0 soc) (\<lambda>b. obind (gather_bytes n (a + 1) soc) (\<lambda>bs. Inr (b # bs))))"

primrec scatter_bytes :: "u8 list \<Rightarrow> u32 \<Rightarrow> soc_t \<Rightarrow> soc_t outcome" where
  "scatter_bytes [] a soc = Inr soc"
| "scatter_bytes (b # bs) a soc =
    obind (case esp32c3_dma_ptr a of None \<Rightarrow> Inr soc | Some p \<Rightarrow> buffer_write p [b] soc)
      (scatter_bytes bs (a + 1))"

definition run_aes :: "u8 list \<Rightarrow> nat \<Rightarrow> soc_t \<Rightarrow> (u8 list \<times> soc_t) outcome" where
  "run_aes bytes nblocks soc =
    obind (esp32c3_aes_process_buf bytes nblocks (aes_reg soc)) (\<lambda>(regs, out). Inr (out, soc\<lparr>aes_reg := regs\<rparr>))"

definition esp32c3_aes_run_dma :: "nat \<Rightarrow> soc_t \<Rightarrow> soc_t outcome" where
  "esp32c3_aes_run_dma ch_out soc =
    (case find (\<lambda>c. in_peri_sel (chan_of c soc) = 6) [2, 1, 0] of
       None \<Rightarrow> Inr soc
     | Some ch_in \<Rightarrow>
         let in_cur = esp32c3_gdma_link_addr (out_link (chan_of ch_out soc));
             out_cur = esp32c3_gdma_link_addr (in_link (chan_of ch_in soc))
         in if in_cur = 0 \<or> out_cur = 0 then Inr soc
            else case esp32c3_dma_ptr in_cur of
              None \<Rightarrow> Inr soc
            | Some d \<Rightarrow>
                obind (buffer_read d 12 soc) (\<lambda>_.
                obind (buffer_word d 0 soc) (\<lambda>dw0.
                obind (buffer_word d 4 soc) (\<lambda>in_buf.
                  if drop_bit 12 dw0 AND 0xFFF < 16 then Inr soc
                  else
                    obind (gather_bytes 16 in_buf soc) (\<lambda>bytes.
                    obind (run_aes bytes 1 soc) (\<lambda>(out, soc).
                    (case esp32c3_dma_ptr out_cur of
                       None \<Rightarrow> Inr soc
                     | Some e \<Rightarrow>
                         obind (buffer_read e 12 soc) (\<lambda>_.
                         obind (buffer_word e 0 soc) (\<lambda>dw0.
                         obind (buffer_word e 4 soc) (\<lambda>out_buf.
                         obind (if drop_bit 12 dw0 AND 0xFFF \<ge> 16 then scatter_bytes out out_buf soc else Inr soc) (\<lambda>soc.
                         obind (clear_owner d soc) (clear_owner e))))))))))))"

definition trigger_aes :: "soc_t \<Rightarrow> soc_t outcome" where
  "trigger_aes soc =
    (case find (\<lambda>c. out_peri_sel (chan_of c soc) = 6) [0, 1, 2] of
       Some c \<Rightarrow>
         obind (esp32c3_aes_run_dma c soc) (\<lambda>soc.
           Inr (set_chan c ((chan_of c soc)\<lparr>m2m_pending := False, out_run := False, in_run := False\<rparr>) soc))
     | None \<Rightarrow> obind (esp32c3_aes_run (aes_reg soc)) (\<lambda>regs. Inr (soc\<lparr>aes_reg := regs\<rparr>)))"

section \<open>Register writes of the controller\<close>

definition start_in :: "u64 \<Rightarrow> nat \<Rightarrow> gdma_chan \<Rightarrow> soc_t \<Rightarrow> soc_t outcome" where
  "start_in cycle c ch soc =
    (let ch = ch\<lparr>in_dscr := esp32c3_gdma_link_addr (in_link ch)\<rparr>
     in obind (esp32c3_gdma_load_desc (in_dscr ch) soc) (\<lambda>d.
          let ch = (case d of None \<Rightarrow> ch | Some (b, n, next') \<Rightarrow> (load_in b n next' ch)\<lparr>in_run := True\<rparr>)
          in Inr (set_chan c (ch\<lparr>in_conf0 := in_conf0 ch AND NOT (push_bit 31 1),
                out_conf0 := out_conf0 ch AND NOT (push_bit 31 1), m2m_pending := True, m2m_done_cycle := cycle + 256\<rparr>) soc)))"

definition start_out :: "u64 \<Rightarrow> nat \<Rightarrow> gdma_chan \<Rightarrow> soc_t \<Rightarrow> soc_t outcome" where
  "start_out cycle c ch soc0 =
    (let ch = ch\<lparr>out_dscr := esp32c3_gdma_link_addr (out_link ch)\<rparr>;
         soc = soc0\<lparr>gdma := (gdma soc0)\<lparr>gdma_out_last := c\<rparr>\<rparr>
     in obind (esp32c3_gdma_load_desc (out_dscr ch) soc) (\<lambda>d.
          let ch = (case d of None \<Rightarrow> ch | Some (b, n, next') \<Rightarrow> (load_out b n next' ch)\<lparr>out_run := True\<rparr>)
          in Inr (set_chan c (ch\<lparr>in_conf0 := in_conf0 ch AND NOT (push_bit 31 1),
                out_conf0 := out_conf0 ch AND NOT (push_bit 31 1), m2m_pending := True, m2m_done_cycle := cycle + 256\<rparr>) soc)))"

text \<open>The mask that is meant to drop one source when a channel's interrupts are cleared drops all below
  the next one.\<close>

definition gdma_int_write :: "nat \<Rightarrow> u32 \<Rightarrow> soc_t \<Rightarrow> soc_t" where
  "gdma_int_write o1 val soc =
    (let c = o1 div 16; ch = chan_of c soc
     in if o1 mod 16 = 0x8 then
          let ch = ch\<lparr>int_ena := val\<rparr>; soc = set_chan c ch soc
          in if int_raw ch AND int_ena ch \<noteq> 0 then irq_set (44 + c) soc else soc
        else if o1 mod 16 = 0xC then
          let ch = ch\<lparr>int_raw := int_raw ch AND NOT val\<rparr>; soc = set_chan c ch soc
          in if int_raw ch AND int_ena ch = 0 then irq_clear_from (44 + c) soc else soc
        else soc)"

definition gdma_write :: "u64 \<Rightarrow> nat \<Rightarrow> u32 \<Rightarrow> soc_t \<Rightarrow> soc_t outcome" where
  "gdma_write cycle o1 val soc =
    (if o1 < 3 * 0x10 then Inr (gdma_int_write o1 val soc)
     else if o1 < 0x70 then Inr soc
     else
       let c = (o1 - 0x70) div 0xC0; r = o1 - 0x70 - c * 0xC0; ch = chan_of c soc
       in if c > 2 then Inr soc
          else if r = 0x10 then
            let ch = ch\<lparr>in_link := val AND NOT 0x1F00000\<rparr>
            in if val AND push_bit 22 1 \<noteq> 0 then start_in cycle c ch soc
               else Inr (set_chan c (if val AND push_bit 21 1 \<noteq> 0 then ch\<lparr>in_run := False\<rparr> else ch) soc)
          else if r = 0x00 then
            let ch = ch\<lparr>in_conf0 := val AND NOT 1\<rparr>
            in Inr (set_chan c (if val AND 1 \<noteq> 0 then ch\<lparr>in_run := False, in_dscr := 0\<rparr> else ch) soc)
          else if r = 0x04 then Inr (set_chan c (ch\<lparr>in_conf1 := val\<rparr>) soc)
          else if r = 0x30 then Inr (set_chan c (ch\<lparr>in_peri_sel := val\<rparr>) soc)
          else if r = 0x70 then
            let ch = ch\<lparr>out_link := val AND NOT 0x700000\<rparr>
            in if val AND push_bit 21 1 \<noteq> 0 then start_out cycle c ch soc
               else Inr (set_chan c (if val AND push_bit 20 1 \<noteq> 0 then ch\<lparr>out_run := False\<rparr> else ch) soc)
          else if r = 0x60 then
            let ch = ch\<lparr>out_conf0 := val AND NOT 1\<rparr>
            in Inr (set_chan c (if val AND 1 \<noteq> 0 then ch\<lparr>out_run := False, out_dscr := 0\<rparr> else ch) soc)
          else if r = 0x64 then Inr (set_chan c (ch\<lparr>out_conf1 := val\<rparr>) soc)
          else if r = 0x90 then Inr (set_chan c (ch\<lparr>out_peri_sel := val\<rparr>) soc)
          else Inr soc)"

section \<open>Completion\<close>

text \<open>One pair of descriptors of a memory-to-memory transfer. The copy of a length that is no multiple
  of a block through the AES engine ends in bytes of \<open>malloc\<close> that nobody wrote.\<close>

definition m2m_copy :: "nat \<Rightarrow> soc_t \<Rightarrow> soc_t outcome" where
  "m2m_copy c soc =
    (let ch = chan_of c soc;
         n = unat (min (out_desc_len ch) (in_desc_len ch))
     in case (esp32c3_dma_ptr (out_desc_buf ch), esp32c3_dma_ptr (in_desc_buf ch)) of
          (Some src, Some dst) \<Rightarrow>
            if n = 0 then Inr soc
            else if out_peri_sel ch = 6 \<or> in_peri_sel ch = 6 then
              obind (if n div 16 > 0 then
                       obind (buffer_read src (16 * (n div 16)) soc) (\<lambda>bytes.
                       obind (run_aes bytes (n div 16) soc) (\<lambda>(enc, soc).
                         if n mod 16 \<noteq> 0 then Inl Undefined_access else buffer_write dst enc soc))
                     else Inr soc)
                (\<lambda>soc. Inr (soc\<lparr>aes_reg := reg_put 0x4C 2 (aes_reg soc)\<rparr>))
            else obind (buffer_read src n soc) (\<lambda>bytes. buffer_write dst bytes soc)
        | _ \<Rightarrow> Inr soc)"

text \<open>The walk down both chains ends when one of them ends; chains that are rings have no end, which is
  \<open>Out_of_fuel\<close>.\<close>

primrec m2m_walk :: "nat \<Rightarrow> nat \<Rightarrow> u32 \<Rightarrow> u32 \<Rightarrow> soc_t \<Rightarrow> soc_t outcome" where
  "m2m_walk 0 c out_addr in_addr soc = Inl Out_of_fuel"
| "m2m_walk (Suc k) c out_addr in_addr soc =
    (if out_addr = 0 \<or> in_addr = 0 then Inr soc
     else
       obind (m2m_copy c soc) (\<lambda>soc.
       obind (clear_owner_at out_addr soc) (\<lambda>soc.
       obind (clear_owner_at in_addr soc) (\<lambda>soc.
         let out_addr = out_next_addr (chan_of c soc); in_addr = in_next_addr (chan_of c soc)
         in if out_addr = 0 \<or> in_addr = 0 then Inr soc
            else obind (esp32c3_gdma_load_desc out_addr soc) (\<lambda>d.
              case d of None \<Rightarrow> Inr soc
              | Some (b, n, next') \<Rightarrow>
                  let soc = set_chan c (load_out b n next' (chan_of c soc)) soc
                  in obind (esp32c3_gdma_load_desc in_addr soc) (\<lambda>d.
                    case d of None \<Rightarrow> Inr soc
                    | Some (b, n, next') \<Rightarrow>
                        m2m_walk k c out_addr in_addr (set_chan c (load_in b n next' (chan_of c soc)) soc)))))))"

definition raise_eof :: "nat \<Rightarrow> nat \<Rightarrow> soc_t \<Rightarrow> soc_t" where
  "raise_eof n c soc = set_chan c ((chan_of c soc)\<lparr>int_raw := int_raw (chan_of c soc) OR push_bit n 1\<rparr>) soc"

definition retire_spi :: "nat \<Rightarrow> soc_t \<Rightarrow> soc_t outcome" where
  "retire_spi c soc0 =
    (let out_addr = out_dscr (chan_of c soc0); in_addr = in_dscr (chan_of c soc0)
     in obind (if out_run (chan_of c soc0) then
          obind (clear_owner_at out_addr (set_chan c ((chan_of c soc0)\<lparr>out_eof_des := out_addr\<rparr>) soc0)) (\<lambda>soc.
            let soc = raise_eof 4 c soc in Inr (set_chan c ((chan_of c soc)\<lparr>out_run := False\<rparr>) soc))
        else Inr soc0) (\<lambda>soc.
        if in_run (chan_of c soc) then
          obind (clear_owner_at in_addr (set_chan c ((chan_of c soc)\<lparr>in_eof_des := in_addr\<rparr>) soc)) (\<lambda>soc.
            let soc = raise_eof 1 c soc in Inr (set_chan c ((chan_of c soc)\<lparr>in_run := False\<rparr>) soc))
        else Inr soc))"

definition finish_pair :: "nat \<Rightarrow> nat \<Rightarrow> soc_t \<Rightarrow> soc_t outcome" where
  "finish_pair fuel c soc0 =
    obind (m2m_walk fuel c (out_dscr (chan_of c soc0)) (in_dscr (chan_of c soc0)) soc0) (\<lambda>soc.
      let soc = raise_eof 1 c (raise_eof 4 c soc)
      in Inr (set_chan c ((chan_of c soc)\<lparr>out_run := False, in_run := False\<rparr>) soc))"

definition finish_out :: "u64 \<Rightarrow> nat \<Rightarrow> soc_t \<Rightarrow> soc_t outcome" where
  "finish_out cycle c soc0 =
    (let out_addr = out_dscr (chan_of c soc0)
     in obind (clear_owner_at out_addr (set_chan c ((chan_of c soc0)\<lparr>out_eof_des := out_addr\<rparr>) soc0)) (\<lambda>soc.
          let soc = raise_eof 4 c soc; next1 = out_next_addr (chan_of c soc)
          in if next1 \<noteq> 0 then
               obind (esp32c3_gdma_load_desc next1 soc) (\<lambda>d.
                 case d of None \<Rightarrow> Inr soc
                 | Some (b, n, next') \<Rightarrow> Inr (set_chan c ((load_out b n next' (chan_of c soc))
                     \<lparr>out_dscr := next1, m2m_pending := True, m2m_done_cycle := cycle + 20000\<rparr>) soc))
             else Inr (set_chan c ((chan_of c soc)\<lparr>out_run := False\<rparr>) soc)))"

text \<open>The receiver of the audio interface gets consecutive numbers.\<close>

definition count_words :: "nat \<Rightarrow> u32 \<Rightarrow> u8 list" where
  "count_words nw v = concat (map (\<lambda>i. word_bytes (v + of_nat i)) [0..<nw])"

definition fill_counter :: "nat \<Rightarrow> soc_t \<Rightarrow> soc_t outcome" where
  "fill_counter c soc =
    (let ch = chan_of c soc; nw = unat (in_desc_len ch) div 4
     in case esp32c3_dma_ptr (in_desc_buf ch) of
          None \<Rightarrow> Inr soc
        | Some dst \<Rightarrow>
            if nw = 0 then Inr soc
            else obind (buffer_write dst (count_words nw (i2s_rx_counter soc)) soc)
              (\<lambda>soc. Inr (soc\<lparr>i2s_rx_counter := i2s_rx_counter soc + of_nat nw\<rparr>)))"

definition finish_in :: "u64 \<Rightarrow> nat \<Rightarrow> soc_t \<Rightarrow> soc_t outcome" where
  "finish_in cycle c soc0 =
    (let in_addr = in_dscr (chan_of c soc0)
     in obind (fill_counter c (set_chan c ((chan_of c soc0)\<lparr>in_eof_des := in_addr\<rparr>) soc0)) (\<lambda>soc.
        obind (clear_owner_at in_addr soc) (\<lambda>soc.
          let soc = raise_eof 1 c soc; next1 = in_next_addr (chan_of c soc)
          in if next1 \<noteq> 0 then
               obind (esp32c3_gdma_load_desc next1 soc) (\<lambda>d.
                 case d of None \<Rightarrow> Inr soc
                 | Some (b, n, next') \<Rightarrow> Inr (set_chan c ((load_in b n next' (chan_of c soc))
                     \<lparr>in_dscr := next1, m2m_pending := True, m2m_done_cycle := cycle + 20000\<rparr>) soc))
             else Inr (set_chan c ((chan_of c soc)\<lparr>in_run := False\<rparr>) soc))))"

text \<open>One channel of the completion loop.\<close>

definition gdma_complete :: "nat \<Rightarrow> u64 \<Rightarrow> nat \<Rightarrow> soc_t \<Rightarrow> soc_t outcome" where
  "gdma_complete fuel cycle c soc0 =
    (let ch = chan_of c soc0
     in if \<not> m2m_pending ch \<or> cycle < m2m_done_cycle ch then Inr soc0
        else
          let soc = set_chan c (ch\<lparr>m2m_pending := False\<rparr>) soc0;
              is_spi = (out_peri_sel ch = 0 \<or> in_peri_sel ch = 0)
          in obind (if is_spi then retire_spi c soc
                    else if out_run ch \<and> in_run ch then finish_pair fuel c soc
                    else if out_run ch then finish_out cycle c soc
                    else if in_run ch then finish_in cycle c soc
                    else Inr soc)
               (\<lambda>soc. Inr (if int_raw (chan_of c soc) AND int_ena (chan_of c soc) \<noteq> 0 then irq_set (44 + c) soc else soc)))"

definition periodic_gdma :: "nat \<Rightarrow> u64 \<Rightarrow> soc_t \<Rightarrow> soc_t outcome" where
  "periodic_gdma fuel cycle soc =
    obind (gdma_complete fuel cycle 0 soc) (\<lambda>soc.
    obind (gdma_complete fuel cycle 1 soc) (gdma_complete fuel cycle 2))"

end
