(* ===== verification/SocWrite.thy ===== *)
theory SocWrite imports SocRead SocFlash SocDma begin

text \<open>
  Register writes of the ESP32-C3 (\<open>esp32_mmio_write\<close> of \<open>src/src/esp32c3.c\<close>), one function per
  peripheral in the order in which the source tests the address ranges; \<open>cycle\<close> is \<open>rv->csr_cycle\<close>.
  Offsets are as in the theory of the reads.
\<close>

section \<open>AES and I2S\<close>

definition aes_write :: "nat \<Rightarrow> u32 \<Rightarrow> soc_t \<Rightarrow> soc_t outcome" where
  "aes_write o1 val soc =
    (if o1 = 0xAC then Inr (soc\<lparr>aes_reg := reg_put o1 (reg_at (aes_reg soc) o1 AND NOT val) (aes_reg soc)\<rparr>)
     else if o1 = 0xB0 then Inr (soc\<lparr>aes_reg := reg_put o1 val (aes_reg soc)\<rparr>)
     else
       let soc = soc\<lparr>aes_reg := reg_put o1 val (aes_reg soc)\<rparr>
       in if o1 = 0x48 then
            obind (trigger_aes soc) (\<lambda>soc. Inr (soc\<lparr>aes_reg := reg_put 0x4C 2 (aes_reg soc)\<rparr>))
          else Inr (soc\<lparr>aes_reg := reg_put 0x4C 0 (aes_reg soc)\<rparr>))"

definition i2s_write :: "nat \<Rightarrow> u32 \<Rightarrow> soc_t \<Rightarrow> soc_t" where
  "i2s_write o1 val soc =
    (let r = i2s_reg soc
     in if o1 = 0x18 then soc\<lparr>i2s_reg := reg_put 0x0C (reg_at r 0x0C AND NOT val) r\<rparr>
        else
          let r = reg_put o1 val r;
              r = (if o1 = 0x20 then reg_put 0x20 (reg_at r 0x20 AND NOT (push_bit 8 1)) r else r);
              r = (if o1 = 0x24 then reg_put 0x24 (reg_at r 0x24 AND NOT (push_bit 8 1)) r else r)
          in soc\<lparr>i2s_reg := r\<rparr>)"

section \<open>UART\<close>

text \<open>The line buffer keeps at most 255 bytes and is emptied by a newline.\<close>

definition esp32_uart_putc :: "u8 \<Rightarrow> soc_t \<Rightarrow> soc_t" where
  "esp32_uart_putc c soc =
    (let u = uart soc;
         u = u\<lparr>console := console u @ [c]\<rparr>;
         u = (if length (uart_line u) < 255 then u\<lparr>uart_line := uart_line u @ [c]\<rparr> else u);
         u = (if c = 10 then u\<lparr>uart_line := []\<rparr> else u)
     in soc\<lparr>uart := u\<rparr>)"

definition uart_source :: "nat \<Rightarrow> nat" where
  "uart_source p = (if p = 0 then 21 else 22)"

definition rx_push :: "u8 \<Rightarrow> uart_port \<Rightarrow> uart_port outcome" where
  "rx_push b u =
    (if rx_count u < 127 then
       if unat (rx_head u) < 128
       then Inr (u\<lparr>rx_fifo := (rx_fifo u)[unat (rx_head u) := b], rx_head := (rx_head u + 1) AND 127\<rparr>)
       else Inl Undefined_access
     else Inr u)"

definition uart_loopback :: "nat \<Rightarrow> u8 \<Rightarrow> soc_t \<Rightarrow> soc_t outcome" where
  "uart_loopback p b soc =
    (if rx_count (port_of p soc) < 127 then
       obind (rx_push b (port_of p soc)) (\<lambda>u.
         let soc = set_port p u soc;
             raw = uart_base p + 0x04;
             soc = mmio_put raw (mmio_at soc raw OR (0x100 OR 0x1)) soc
         in Inr (if mmio_at soc (uart_base p + 0x0C) AND (0x100 OR 0x1) \<noteq> 0 then irq_set (uart_source p) soc else soc))
     else Inr soc)"

definition uart_write :: "nat \<Rightarrow> nat \<Rightarrow> u32 \<Rightarrow> soc_t \<Rightarrow> soc_t outcome" where
  "uart_write p o1 val soc =
    (let raw = uart_base p + 0x04
     in if o1 = 0x00 then
          let b = ucast (val AND 0xFF);
              soc = (if p = 0 then esp32_uart_putc b soc else soc);
              u = port_of p soc;
              u = (if tx_cnt u < 128 then u\<lparr>tx_cnt := tx_cnt u + 1\<rparr> else u);
              soc = set_port p (u\<lparr>tx_idle := 0\<rparr>) soc
          in if mmio_at soc (uart_base p + 0x20) AND push_bit 14 1 \<noteq> 0 then uart_loopback p b soc else Inr soc
        else if o1 = 0x0C then
          let soc = mmio_put (uart_base p + o1) val soc
          in Inr (if val AND 0x2 \<noteq> 0
                  then irq_set (uart_source p) (mmio_put raw (mmio_at soc raw OR 0x2) soc)
                  else soc)
        else if o1 = 0x10 then
          let soc = mmio_put raw (mmio_at soc raw AND NOT val) soc
          in Inr (if mmio_at soc raw AND (0x100 OR 0x1 OR 0x2) = 0 then irq_clear (uart_source p) soc else soc)
        else Inr (mmio_put (uart_base p + o1) val soc))"

section \<open>I2C and SPI2\<close>

definition i2c_write :: "nat \<Rightarrow> u32 \<Rightarrow> soc_t \<Rightarrow> soc_t" where
  "i2c_write o1 val soc =
    (let d = i2c soc; r = i2c_reg d;
         soc = (if o1 = 0x24 then irq_clear 29 (soc\<lparr>i2c := d\<lparr>i2c_reg := reg_put 0x20 (reg_at r 0x20 AND NOT val) r\<rparr>\<rparr>)
                else if o1 = 0x18 then
                  let d = d\<lparr>i2c_reg := reg_put 0x18 val r\<rparr>;
                      d = (if val AND push_bit 13 1 \<noteq> 0 then d\<lparr>i2c_tx_len := 0\<rparr> else d);
                      d = (if val AND push_bit 12 1 \<noteq> 0 then d\<lparr>i2c_rx_len := 0, i2c_rx_pos := 0\<rparr> else d)
                  in soc\<lparr>i2c := d\<rparr>
                else if o1 = 0x1C then
                  let d = d\<lparr>i2c_reg := reg_put 0x1C val r\<rparr>;
                      d = (if i2c_tx_len d < 32
                           then d\<lparr>i2c_tx_fifo := (i2c_tx_fifo d)[i2c_tx_len d := ucast (val AND 0xFF)],
                                  i2c_tx_len := i2c_tx_len d + 1\<rparr>
                           else d)
                  in soc\<lparr>i2c := d\<rparr>
                else if o1 = 0x04 then
                  let d = d\<lparr>i2c_reg := reg_put o1 val r\<rparr>;
                      a = (if 0 < i2c_tx_len d then i2c_tx_fifo d ! 0 else 0xFF)
                  in soc\<lparr>i2c := (if val AND push_bit 5 1 \<noteq> 0 then
                         if drop_bit 1 a = 0x50
                         then d\<lparr>i2c_transfer_pending := True, i2c_slave_active := True, i2c_slave_rw := (a AND 1 \<noteq> 0)\<rparr>
                         else d\<lparr>i2c_transfer_pending := True, i2c_slave_active := False\<rparr>
                       else d)\<rparr>
                else soc\<lparr>i2c := d\<lparr>i2c_reg := reg_put o1 val r\<rparr>\<rparr>)
     in if o1 = 0x80 then soc\<lparr>i2c := (i2c soc)\<lparr>i2c_scl_rst_cnt := (if val AND 1 \<noteq> 0 then 64 else 0)\<rparr>\<rparr> else soc)"

definition esp32c3_spi2_int_update :: "soc_t \<Rightarrow> soc_t" where
  "esp32c3_spi2_int_update soc =
    (if reg_at (spi2_reg (spi2 soc)) 0x3C AND reg_at (spi2_reg (spi2 soc)) 0x34 \<noteq> 0 then irq_set 19 soc else irq_clear 19 soc)"

definition set_spi2_reg :: "nat \<Rightarrow> u32 \<Rightarrow> soc_t \<Rightarrow> soc_t" where
  "set_spi2_reg o1 v soc = soc\<lparr>spi2 := (spi2 soc)\<lparr>spi2_reg := reg_put o1 v (spi2_reg (spi2 soc))\<rparr>\<rparr>"

definition spi2_write :: "nat \<Rightarrow> u32 \<Rightarrow> soc_t \<Rightarrow> soc_t" where
  "spi2_write o1 val soc =
    (let raw = reg_at (spi2_reg (spi2 soc)) 0x3C
     in if o1 = 0x00 then
          let soc = set_spi2_reg o1 (val AND NOT (push_bit 23 1)) soc
          in if val AND push_bit 24 1 \<noteq> 0
             then esp32c3_spi2_int_update (set_spi2_reg 0x3C (raw AND NOT 0x1000)
                    (soc\<lparr>spi2 := (spi2 soc)\<lparr>spi2_transfer_pending := True\<rparr>\<rparr>))
             else soc
        else if o1 = 0x30 then set_spi2_reg o1 val soc
        else if o1 = 0x38 then esp32c3_spi2_int_update (set_spi2_reg 0x3C (raw AND NOT val) soc)
        else if o1 = 0x34 then esp32c3_spi2_int_update (set_spi2_reg o1 val soc)
        else if o1 = 0x3C then esp32c3_spi2_int_update (set_spi2_reg o1 val soc)
        else if o1 = 0x40 then soc
        else set_spi2_reg o1 val soc)"

section \<open>CAN\<close>

definition twai_write :: "u64 \<Rightarrow> nat \<Rightarrow> u32 \<Rightarrow> soc_t \<Rightarrow> soc_t" where
  "twai_write cycle o1 val soc =
    (let t = (twai soc)\<lparr>twai_reg := reg_put o1 val (twai_reg (twai soc))\<rparr>;
         t = (if o1 = 0x00 then
                if val AND 1 = 0 \<and> \<not> twai_rx_delivered t then t\<lparr>twai_rx_deliver_cycle := cycle + 150000\<rparr> else t
              else if o1 = 0x04 then
                let t = (if val AND 0x1 \<noteq> 0 then t\<lparr>twai_tx_pending := True, twai_tx_done_cycle := cycle + 20000\<rparr> else t);
                    t = (if val AND 0x4 \<noteq> 0 then
                           let r = reg_put 0x08 (reg_at (twai_reg t) 0x08 AND NOT 0x1) (twai_reg t);
                               r = (if reg_at r 0x74 \<noteq> 0 then reg_put 0x74 (reg_at r 0x74 - 1) r else r)
                           in t\<lparr>twai_reg := r\<rparr>
                         else t);
                    t = (if val AND 0x8 \<noteq> 0
                         then t\<lparr>twai_reg := reg_put 0x08 (reg_at (twai_reg t) 0x08 AND NOT 0x2) (twai_reg t)\<rparr> else t)
                in t
              else t)
     in soc\<lparr>twai := t\<rparr>)"

section \<open>GPIO\<close>

text \<open>The interrupt types of a pin: rising, falling and both edges, low and high level.\<close>

definition pin_fires :: "u32 \<Rightarrow> bool \<Rightarrow> bool \<Rightarrow> bool" where
  "pin_fires type' level prev' =
    (case switch type' [(1, level \<and> \<not> prev'), (2, \<not> level \<and> prev'), (3, level \<noteq> prev'), (4, \<not> level), (5, level)] of
       Some f \<Rightarrow> f
     | None \<Rightarrow> False)"

definition pin_conf :: "soc_t \<Rightarrow> nat \<Rightarrow> u32" where
  "pin_conf soc pin = mmio_at soc (0x4074 + 4 * pin)"

definition latch_pin :: "nat \<Rightarrow> soc_t \<Rightarrow> soc_t" where
  "latch_pin pin soc = irq_set 16 (soc\<lparr>gpio := (gpio soc)\<lparr>gpio_status := gpio_status (gpio soc) OR push_bit pin 1\<rparr>\<rparr>)"

definition edge_check_pin :: "u32 \<Rightarrow> nat \<Rightarrow> soc_t \<Rightarrow> soc_t" where
  "edge_check_pin new_live pin soc =
    (let prev' = gpio_in_prev (gpio soc); changed = new_live XOR prev'; pr = pin_conf soc pin
     in if changed AND push_bit pin 1 = 0 then soc
        else if pin_fires (drop_bit 7 pr AND 0x7) (drop_bit pin new_live AND 1 \<noteq> 0) (drop_bit pin prev' AND 1 \<noteq> 0)
                \<and> drop_bit 13 pr AND 0x1F \<noteq> 0
        then latch_pin pin soc else soc)"

definition esp32c3_gpio_edge_check :: "u32 \<Rightarrow> soc_t \<Rightarrow> soc_t" where
  "esp32c3_gpio_edge_check new_live soc =
    (if new_live XOR gpio_in_prev (gpio soc) = 0 then soc else fold (edge_check_pin new_live) [0..<22] soc)"

definition report_pins :: "soc_t \<Rightarrow> soc_t" where
  "report_pins soc =
    (let g = gpio soc
     in if gpio_hook g then
          soc\<lparr>gpio := g\<lparr>gpio_log := gpio_log g @
            map (\<lambda>p. (p, gpio_out g AND push_bit p 1 \<noteq> 0)) (filter (\<lambda>p. gpio_enable g AND push_bit p 1 \<noteq> 0) [0..<22])\<rparr>\<rparr>
        else soc)"

definition gpio_settle :: "soc_t \<Rightarrow> soc_t" where
  "gpio_settle soc =
    (let live = gpio_in (gpio soc) OR esp32c3_gpio_eff_out soc;
         soc = esp32c3_gpio_edge_check live soc
     in report_pins (soc\<lparr>gpio := (gpio soc)\<lparr>gpio_in_prev := live\<rparr>\<rparr>))"

definition gpio_write :: "nat \<Rightarrow> u32 \<Rightarrow> soc_t \<Rightarrow> soc_t" where
  "gpio_write o1 val soc =
    (let g = gpio soc
     in if o1 = 0x48 then irq_set 16 (soc\<lparr>gpio := g\<lparr>gpio_status := gpio_status g OR val\<rparr>\<rparr>)
        else if o1 = 0x4C then
          let soc = soc\<lparr>gpio := g\<lparr>gpio_status := gpio_status g AND NOT val\<rparr>\<rparr>
          in if gpio_status (gpio soc) = 0 then irq_clear 16 soc else soc
        else gpio_settle
          (case switch o1
             [(0x04, g\<lparr>gpio_out := val\<rparr>), (0x08, g\<lparr>gpio_out := gpio_out g OR val\<rparr>),
              (0x0C, g\<lparr>gpio_out := gpio_out g AND NOT val\<rparr>), (0x20, g\<lparr>gpio_enable := val\<rparr>),
              (0x24, g\<lparr>gpio_enable := gpio_enable g OR val\<rparr>), (0x28, g\<lparr>gpio_enable := gpio_enable g AND NOT val\<rparr>)] of
             Some g \<Rightarrow> soc\<lparr>gpio := g\<rparr>
           | None \<Rightarrow> mmio_put (0x4000 + o1) val soc))"

section \<open>Converter and PWM\<close>

definition adc_sample :: "u32 \<Rightarrow> u32" where
  "adc_sample ch = (if ch < 8 then 1024 + ch * 128 else 2048)"

definition adc_write :: "nat \<Rightarrow> u32 \<Rightarrow> soc_t \<Rightarrow> soc_t" where
  "adc_write o1 val soc =
    (let r = adc_reg soc
     in if o1 = 0x4C then soc\<lparr>adc_reg := reg_put 0x44 (reg_at r 0x44 AND NOT val) r\<rparr>
        else
          let r = reg_put o1 val r; ch = drop_bit 25 val AND 0xF
          in if o1 = 0x20 \<and> val AND push_bit 29 1 \<noteq> 0 then
               let r = (if val AND push_bit 31 1 \<noteq> 0 then
                          let r = reg_put 0x2C (adc_sample ch) r in reg_put 0x44 (reg_at r 0x44 OR push_bit 31 1) r else r);
                   r = (if val AND push_bit 30 1 \<noteq> 0 then
                          let r = reg_put 0x30 (adc_sample ch) r in reg_put 0x44 (reg_at r 0x44 OR push_bit 30 1) r else r)
               in soc\<lparr>adc_reg := r\<rparr>
             else soc\<lparr>adc_reg := r\<rparr>)"

definition ledc_write :: "u64 \<Rightarrow> nat \<Rightarrow> u32 \<Rightarrow> soc_t \<Rightarrow> soc_t" where
  "ledc_write cycle o1 val soc =
    (let d = ledc soc; r = ledc_reg d
     in soc\<lparr>ledc := (case find (\<lambda>c. o1 = 0x14 * c + 0xC) [0..<6] of
          Some c \<Rightarrow>
            let d = d\<lparr>ledc_reg := reg_put o1 val r\<rparr>
            in if val AND push_bit 31 1 \<noteq> 0 then
                 d\<lparr>ledc_duty_r := (ledc_duty_r d)[c := reg_at (ledc_reg d) (0x14 * c + 0x8)],
                   ledc_reg := reg_put (0x14 * c + 0xC) (reg_at (ledc_reg d) (0x14 * c + 0xC) AND NOT (push_bit 31 1)) (ledc_reg d)\<rparr>
               else d
        | None \<Rightarrow>
            (case find (\<lambda>t. o1 = 0xA0 + 8 * t) [0..<4] of
               Some t \<Rightarrow>
                 let d = (if val AND push_bit 24 1 \<noteq> 0
                          then d\<lparr>ledc_timer_anchor := (ledc_timer_anchor d)[t := cycle],
                                 ledc_timer_frac := (ledc_timer_frac d)[t := 0]\<rparr>
                          else d)
                 in d\<lparr>ledc_reg := reg_put o1 (val AND NOT (push_bit 24 1)) (ledc_reg d)\<rparr>
             | None \<Rightarrow>
                 if o1 = 0xCC then d\<lparr>ledc_reg := reg_put 0xC0 (reg_at r 0xC0 AND NOT val) r\<rparr>
                 else d\<lparr>ledc_reg := reg_put o1 val r\<rparr>))\<rparr>)"

section \<open>Timer groups and watchdogs\<close>

definition set_group :: "nat \<Rightarrow> timg_t \<Rightarrow> soc_t \<Rightarrow> soc_t" where
  "set_group g t soc = soc\<lparr>timgs := (timgs soc)[g := t]\<rparr>"

definition timg_put :: "nat \<Rightarrow> u32 \<Rightarrow> timg_t \<Rightarrow> timg_t" where
  "timg_put o1 v t = t\<lparr>timg_reg := reg_put o1 v (timg_reg t)\<rparr>"

definition t0_source :: "nat \<Rightarrow> nat" where
  "t0_source g = (if g = 0 then 32 else 34)"

definition wdt_source :: "nat \<Rightarrow> nat" where
  "wdt_source g = (if g = 0 then 33 else 35)"

definition esp32c3_wdt_cycles :: "timg_t \<Rightarrow> u64" where
  "esp32c3_wdt_cycles t =
    (let prescale = drop_bit 16 (reg_at (timg_reg t) 0x4C) AND 0xFFFF;
         hold = reg_at (timg_reg t) 0x50;
         hold = (if hold = 0 then 1 else hold)
     in ucast hold * ucast (prescale + 1) * 2)"

definition wide_load :: "u32 list \<Rightarrow> nat \<Rightarrow> nat \<Rightarrow> u64" where
  "wide_load r hi lo = push_bit 32 (ucast (reg_at r hi)) OR ucast (reg_at r lo)"

text \<open>The calibration of the slow clock is complete as soon as it starts.\<close>

definition rtc_calibrate :: "u32 \<Rightarrow> timg_t \<Rightarrow> timg_t" where
  "rtc_calibrate val t =
    (let t = timg_put 0x68 val t
     in if val AND 0x80000000 \<noteq> 0 then
          let max' = drop_bit 16 val AND 0x7FFF;
              clk_hz = (case switch (drop_bit 13 val AND 3) [(0, 150000), (1, 20000000)] of Some v \<Rightarrow> v | None \<Rightarrow> 32768);
              count = (ucast ((ucast max' :: u64) * clk_hz * 128 div 40000000) :: u32);
              t = timg_put 0x6C (push_bit 7 count) t
          in timg_put 0x68 (reg_at (timg_reg t) 0x68 OR 0x8000) t
        else t)"

definition drop_wdt_raw :: "timg_t \<Rightarrow> timg_t" where
  "drop_wdt_raw t = timg_put 0x74 (reg_at (timg_reg t) 0x74 AND NOT 0x2) t"

definition timg_write :: "u64 \<Rightarrow> nat \<Rightarrow> nat \<Rightarrow> u32 \<Rightarrow> soc_t \<Rightarrow> soc_t" where
  "timg_write cycle g o1 val soc =
    (let t = group_of g soc; r = timg_reg t
     in if o1 = 0x00 then
          set_group g (timg_put o1 (val AND NOT (push_bit 12 1)) (t\<lparr>timg_anchor := cycle, timg_frac := 0\<rparr>)) soc
        else if o1 = 0x20 then
          set_group g (timg_put o1 0 (t\<lparr>timg_counter := wide_load r 0x1C 0x18, timg_anchor := cycle, timg_frac := 0\<rparr>)) soc
        else if o1 = 0x0C then set_group g (timg_put o1 0 t) soc
        else if o1 = 0x7C then
          let t = timg_put 0x74 (reg_at r 0x74 AND NOT val) t;
              soc = (if reg_at (timg_reg t) 0x74 AND reg_at (timg_reg t) 0x70 = 0 then irq_clear (t0_source g) soc else soc)
          in set_group g (timg_put o1 0 t) soc
        else if o1 = 0x68 then set_group g (rtc_calibrate val t) soc
        else if o1 = 0x64 then set_group g (timg_put o1 val (t\<lparr>wdt_unlock := (val = 0x50D83AA1)\<rparr>)) soc
        else if o1 = 0x48 then
          let t = timg_put o1 val t
          in if \<not> wdt_unlock t then set_group g t soc
             else if val AND push_bit 31 1 \<noteq> 0 then
               set_group g (t\<lparr>wdt_en := True, wdt_expire := cycle + esp32c3_wdt_cycles t\<rparr>) soc
             else irq_clear (wdt_source g) (set_group g (drop_wdt_raw (t\<lparr>wdt_en := False\<rparr>)) soc)
        else if o1 = 0x4C \<or> o1 = 0x50 then
          let t = timg_put o1 val t
          in set_group g (if wdt_en t then t\<lparr>wdt_expire := cycle + esp32c3_wdt_cycles t\<rparr> else t) soc
        else if o1 = 0x60 then
          if wdt_unlock t then
            let t = drop_wdt_raw t;
                soc = (if reg_at (timg_reg t) 0x74 AND reg_at (timg_reg t) 0x70 = 0 then irq_clear (wdt_source g) soc else soc)
            in set_group g (timg_put o1 val (t\<lparr>wdt_expire := cycle + esp32c3_wdt_cycles t\<rparr>)) soc
          else set_group g (timg_put o1 val t) soc
        else set_group g (timg_put o1 val t) soc)"

section \<open>RMT and SYSTIMER\<close>

definition rmt_write :: "u64 \<Rightarrow> nat \<Rightarrow> u32 \<Rightarrow> soc_t \<Rightarrow> soc_t" where
  "rmt_write cycle o1 val soc =
    (let soc = mmio_put (0x16000 + o1) val soc; raw = 0x16000 + 0x38
     in if o1 \<in> {0x10, 0x14, 0x18, 0x20} then
          if val AND 1 \<noteq> 0
          then (mmio_put raw (mmio_at soc raw AND NOT 1) soc)\<lparr>rmt_tx_done_cycle := cycle + 2048\<rparr> else soc
        else if o1 = 0x44 then irq_clear 28 (mmio_put raw (mmio_at soc raw AND NOT val) soc)
        else soc)"

text \<open>The registers between the timer groups and SYSTIMER; the calibration in this branch is behind the
  branch of the timer group, which has the same address.\<close>

definition timg_rest_write :: "nat \<Rightarrow> u32 \<Rightarrow> soc_t \<Rightarrow> soc_t" where
  "timg_rest_write off val soc =
    (let soc = mmio_put off val soc
     in if off = 0x1F068 \<and> val AND 0x80000000 \<noteq> 0 then
          let max_cycles = drop_bit 16 val AND 0x7FFF;
              slow_freq = (case switch (drop_bit 13 val AND 3) [(0, 32768), (1, 8500000)] of Some v \<Rightarrow> v | None \<Rightarrow> 32768);
              count = (ucast max_cycles :: u64) * 40000000 div slow_freq;
              count = (if count = 0 then 1 else count);
              soc = mmio_put (off + 4) (ucast (push_bit 7 (ucast count :: u32)) OR 1) soc
          in mmio_put off (mmio_at soc off OR 0x00080000 OR 0x8000) soc
        else soc)"

definition low_half :: "u32 \<Rightarrow> u64 \<Rightarrow> u64" where
  "low_half v w = (w AND NOT 0xFFFFFFFF) OR ucast v"

definition high_half :: "u32 \<Rightarrow> u64 \<Rightarrow> u64" where
  "high_half v w = (w AND 0xFFFFFFFF) OR push_bit 32 (ucast v)"

definition unit_op :: "nat \<Rightarrow> u32 \<Rightarrow> (systimer_t \<Rightarrow> systimer_t) \<Rightarrow> soc_t \<Rightarrow> soc_t" where
  "unit_op off val latch soc =
    (let soc = mmio_put off val soc
     in if val AND 0x40000000 \<noteq> 0 then mmio_put off 0x20000000 (soc\<lparr>systimer := latch (systimer soc)\<rparr>) else soc)"

definition systimer_write :: "nat \<Rightarrow> u32 \<Rightarrow> soc_t \<Rightarrow> soc_t" where
  "systimer_write o1 val soc =
    (let t = systimer soc; off = 0x23000 + o1
     in if o1 = 0x04 then unit_op off val (\<lambda>t. t\<lparr>systimer_unit0_val := systimer_counter t\<rparr>) soc
        else if o1 = 0x08 then unit_op off val (\<lambda>t. t\<lparr>systimer_unit1_val := systimer_unit1_counter t\<rparr>) soc
        else if o1 = 0x6C then
          let soc = soc\<lparr>systimer := t\<lparr>systimer_int_raw := systimer_int_raw t AND NOT val\<rparr>\<rparr>;
              soc = (if val AND 1 \<noteq> 0 then irq_clear 37 soc else soc);
              soc = (if val AND 4 \<noteq> 0 then irq_clear 39 soc else soc)
          in mmio_put off val soc
        else
          (case switch o1
             [(0x00, t\<lparr>systimer_conf := val\<rparr>),
              (0x20, t\<lparr>systimer_comp0 := low_half val (systimer_comp0 t)\<rparr>),
              (0x1C, t\<lparr>systimer_comp0 := high_half val (systimer_comp0 t)\<rparr>),
              (0x34, t\<lparr>systimer_target0_conf := val\<rparr>),
              (0x30, t\<lparr>systimer_comp2 := low_half val (systimer_comp2 t)\<rparr>),
              (0x2C, t\<lparr>systimer_comp2 := high_half val (systimer_comp2 t)\<rparr>),
              (0x3C, t\<lparr>systimer_target2_conf := val\<rparr>),
              (0x64, t\<lparr>systimer_int_ena := val\<rparr>)] of
             Some t \<Rightarrow> soc\<lparr>systimer := t\<rparr>
           | None \<Rightarrow> mmio_put off val soc))"

section \<open>Interrupt matrix and the rest\<close>

definition intc_write :: "nat \<Rightarrow> u32 \<Rightarrow> soc_t \<Rightarrow> soc_t" where
  "intc_write o1 val soc =
    (if o1 < 52 * 4 then
       let src = o1 div 4;
           soc = irq_clear src soc;
           soc = soc\<lparr>intc := (intc soc)\<lparr>intc_intmap := (intc_intmap (intc soc))[src := val AND 0x1F]\<rparr>\<rparr>
       in if src = 19 then esp32c3_spi2_int_update soc else soc
     else if o1 = 0x104 then soc\<lparr>intc := (intc soc)\<lparr>intc_enable := val\<rparr>\<rparr>
     else if o1 = 0x108 then soc\<lparr>intc := (intc soc)\<lparr>intc_type := val\<rparr>\<rparr>
     else if o1 = 0x10C then
       fold (\<lambda>s soc. if val AND push_bit (unat (intc_intmap (intc soc) ! s AND 0x1F)) 1 \<noteq> 0 then irq_clear s soc else soc)
         [0..<72] (soc\<lparr>intc := (intc soc)\<lparr>intc_eip := intc_eip (intc soc) AND NOT val\<rparr>\<rparr>)
     else mmio_put (0xC2000 + o1) val soc)"

definition misc_write :: "nat \<Rightarrow> u32 \<Rightarrow> soc_t \<Rightarrow> soc_t" where
  "misc_write off val soc =
    (if off = 0xC0028 then mmio_put off val (if val AND 1 \<noteq> 0 then irq_set 50 soc else irq_clear 50 soc)
     else if off = 0x3B000 then
       let s = sha_engine soc;
           s = (if sha_reset_pending s then (esp32_sha_reset s)\<lparr>sha_reset_pending := False\<rparr> else s)
       in mmio_put off val (soc\<lparr>sha_engine := s\<rparr>)
     else if off = 0x3B010 \<or> off = 0x3B014 then mmio_put off val soc
     else if 0x3B040 \<le> off \<and> off < 0x3B0C0 then
       mmio_put off val (soc\<lparr>sha_engine := esp32_sha_feed_word val (sha_engine soc)\<rparr>)
     else if off = 0xC40CC then
       let prev' = mmio_at soc off;
           soc = mmio_put off (val AND NOT 4) soc
       in if val AND 3 \<noteq> 0 \<and> prev' AND 3 = 0 then mmio_put off (mmio_at soc off OR 4) soc
          else if val AND 3 = 0 \<and> prev' AND 3 \<noteq> 0 then mmio_put off (mmio_at soc off AND NOT 4) soc
          else soc
     else mmio_put off val soc)"

section \<open>Dispatch\<close>

definition peripheral_write :: "u64 \<Rightarrow> nat \<Rightarrow> u32 \<Rightarrow> soc_t \<Rightarrow> soc_t outcome" where
  "peripheral_write cycle off val soc =
    (if 0x3A000 \<le> off \<and> off < 0x3A0B4 then aes_write (off - 0x3A000) val soc
     else if 0x2D000 \<le> off \<and> off < 0x2D080 then Inr (i2s_write (off - 0x2D000) val soc)
     else if off < 0x1000 then uart_write 0 off val soc
     else if 0x10000 \<le> off \<and> off < 0x11000 then uart_write 1 (off - 0x10000) val soc
     else if 0x13000 \<le> off \<and> off < 0x13200 then Inr (i2c_write (off - 0x13000) val soc)
     else if 0x24000 \<le> off \<and> off < 0x24100 then Inr (spi2_write (off - 0x24000) val soc)
     else if 0x2B000 \<le> off \<and> off < 0x2B100 then Inr (twai_write cycle (off - 0x2B000) val soc)
     else if 0x3F000 \<le> off \<and> off < 0x3F2C0 then gdma_write cycle (off - 0x3F000) val soc
     else if off < 0x4000 then spi_flash_write off val soc
     else if off < 0x5000 then Inr (gpio_write (off - 0x4000) val soc)
     else if 0x40000 \<le> off \<and> off < 0x40404 then Inr (adc_write (off - 0x40000) val soc)
     else if 0x19000 \<le> off \<and> off < 0x19200 then Inr (ledc_write cycle (off - 0x19000) val soc)
     else if 0x1F000 \<le> off \<and> off < 0x1F100 then Inr (timg_write cycle 0 (off - 0x1F000) val soc)
     else if 0x20000 \<le> off \<and> off < 0x20100 then Inr (timg_write cycle 1 (off - 0x20000) val soc)
     else if off < 0xF000 then Inr (mmio_put off val soc)
     else if 0x16000 \<le> off \<and> off < 0x17000 then Inr (rmt_write cycle (off - 0x16000) val soc)
     else if 0x1F000 \<le> off \<and> off < 0x24000 then
       Inr (if off < 0x23000 then timg_rest_write off val soc else systimer_write (off - 0x23000) val soc)
     else if 0xC2000 \<le> off \<and> off < 0xC3000 then Inr (intc_write (off - 0xC2000) val soc)
     else Inr (misc_write off val soc))"

definition esp32_mmio_write :: "u64 \<Rightarrow> u32 \<Rightarrow> u32 \<Rightarrow> soc_t \<Rightarrow> soc_t outcome" where
  "esp32_mmio_write cycle addr val soc =
    (if addr < 0x60000000 \<or> addr \<ge> 0x60000000 + 0x100000 then Inr soc
     else peripheral_write cycle (unat (addr - 0x60000000)) val soc)"

end
