(* ===== verification/SocPeriodic.thy ===== *)
theory SocPeriodic imports SocWrite begin

text \<open>
  \<open>esp32c3_periodic\<close> of \<open>src/src/esp32c3.c\<close>: what the peripherals do as cycles pass. One function
  for each of its parts, in their order; the whole is \<open>esp32c3_periodic\<close> at the end. The walks down
  chains of DMA descriptors that the guest builds take a bound, as a ring of descriptors never ends.
\<close>

section \<open>UART input\<close>

text \<open>\<open>read\<close> from the host's FIFO file returns what is there, at most the bytes asked for.\<close>

definition rx_chunk :: "uart_port \<Rightarrow> nat" where
  "rx_chunk u = unat (min (128 - rx_head u mod 128) (128 - 1 - rx_count u))"

definition rx_fill :: "u8 list \<Rightarrow> uart_port \<Rightarrow> uart_port" where
  "rx_fill bs u = (let head' = unat (rx_head u mod 128) in
     u\<lparr>rx_fifo := take head' (rx_fifo u) @ bs @ drop (head' + length bs) (rx_fifo u),
       rx_head := (rx_head u + of_nat (length bs)) mod 128\<rparr>)"

function rx_poll_loop :: "u8 list \<Rightarrow> uart_port \<Rightarrow> uart_port \<times> u8 list" where
  "rx_poll_loop hs u =
    (let n = min (rx_chunk u) (length hs)
     in if n = 0 then (u, hs) else rx_poll_loop (drop n hs) (rx_fill (take n hs) u))"
  by pat_completeness auto

termination
  by (relation "measure (\<lambda>(hs, u). length hs)") (auto simp: min_def split: if_splits)

declare rx_poll_loop.simps [simp del]

definition esp32c3_uart_rx_poll :: "soc_t \<Rightarrow> soc_t" where
  "esp32c3_uart_rx_poll soc =
    (case rx_host (uart soc) of
       None \<Rightarrow> soc
     | Some hs \<Rightarrow>
         let (u, hs) = rx_poll_loop hs (port_of 0 soc)
         in (set_port 0 u soc)\<lparr>uart := (uart (set_port 0 u soc))\<lparr>rx_host := Some hs\<rparr>\<rparr>)"

definition periodic_uart :: "u64 \<Rightarrow> soc_t \<Rightarrow> soc_t" where
  "periodic_uart cycle soc0 =
    (let soc = (if cycle AND 0x1FF = 0 then esp32c3_uart_rx_poll soc0 else soc0)
     in if rx_head (port_of 0 soc) \<noteq> rx_tail (port_of 0 soc)
           \<and> mmio_at soc 0x0C AND 0x100 \<noteq> 0 \<and> mmio_at soc 0x04 AND 0x100 = 0
        then irq_set 21 (mmio_put 0x04 (mmio_at soc 0x04 OR 0x100) soc) else soc)"

section \<open>SYSTIMER\<close>

definition systimer_advance :: "u64 \<Rightarrow> systimer_t \<Rightarrow> systimer_t" where
  "systimer_advance cycle t =
    (let elapsed = cycle - last_cycle t; rtc_total = elapsed + rtc_frac t
     in t\<lparr>last_cycle := cycle, systimer_counter := systimer_counter t + elapsed,
          systimer_unit1_counter := systimer_unit1_counter t + elapsed,
          rtc_frac := rtc_total mod 64, rtc_time := rtc_time t + rtc_total div 64\<rparr>)"

text \<open>One target: whether its alarm is raised, and its count of completed periods.\<close>

definition target_alarm :: "u32 \<Rightarrow> u64 \<Rightarrow> u64 \<Rightarrow> systimer_t \<Rightarrow> bool \<times> u64" where
  "target_alarm conf target crossed0 t =
    (let cnt = (if conf AND 0x80000000 \<noteq> 0 then systimer_unit1_counter t else systimer_counter t)
     in if conf AND 0x40000000 \<noteq> 0 then
          let p = ucast (conf AND 0x03FFFFFF) :: u64;
              crossed = (if p \<noteq> 0 then cnt div p else 0)
          in if crossed > crossed0 then (True, crossed) else (False, crossed0)
        else (target \<noteq> 0 \<and> cnt \<ge> target, crossed0))"

definition raise_target :: "u32 \<Rightarrow> nat \<Rightarrow> bool \<Rightarrow> soc_t \<Rightarrow> soc_t" where
  "raise_target b src due soc =
    (if due then irq_set src (soc\<lparr>systimer := (systimer soc)\<lparr>systimer_int_raw := systimer_int_raw (systimer soc) OR b\<rparr>\<rparr>)
     else soc)"

definition periodic_systimer :: "u64 \<Rightarrow> soc_t \<Rightarrow> soc_t" where
  "periodic_systimer cycle soc0 =
    (let soc = soc0\<lparr>systimer := systimer_advance cycle (systimer soc0)\<rparr>; t = systimer soc;
         soc = (if systimer_conf t AND push_bit 24 1 \<noteq> 0 then
                  let (due, crossed) = target_alarm (systimer_target0_conf t) (systimer_comp0 t) (systimer_t0_crossed t) t
                  in raise_target 1 37 due (soc\<lparr>systimer := (systimer soc)\<lparr>systimer_t0_crossed := crossed\<rparr>\<rparr>)
                else soc)
     in if systimer_conf t AND push_bit 22 1 \<noteq> 0 then
          let (due, crossed) = target_alarm (systimer_target2_conf t) (systimer_comp2 t) (systimer_t2_crossed t) t
          in raise_target 4 39 due (soc\<lparr>systimer := (systimer soc)\<lparr>systimer_t2_crossed := crossed\<rparr>\<rparr>)
        else soc)"

section \<open>I2C\<close>

text \<open>The virtual memory device: a read of eight bytes from its pointer, and the write of the bytes
  behind the address and pointer bytes.\<close>

definition i2c_dev_read :: "nat \<Rightarrow> i2c_t \<Rightarrow> i2c_t" where
  "i2c_dev_read p d =
    d\<lparr>i2c_rx_fifo := map (\<lambda>i. i2c_dev_mem d ! ((p + i) mod 16)) [0..<8] @ drop 8 (i2c_rx_fifo d),
      i2c_rx_len := 8, i2c_rx_pos := 0, i2c_dev_ptr := (p + 8) mod 16\<rparr>"

definition i2c_dev_write :: "i2c_t \<Rightarrow> i2c_t" where
  "i2c_dev_write d =
    (let p = (if 1 < i2c_tx_len d then unat (i2c_tx_fifo d ! 1) else i2c_dev_ptr d)
     in d\<lparr>i2c_dev_mem := fold (\<lambda>i m. m[(p + i) mod 16 := i2c_tx_fifo d ! (i + 2)]) [0..<i2c_tx_len d - 2] (i2c_dev_mem d),
          i2c_dev_ptr := (p + (i2c_tx_len d - 2)) mod 16\<rparr>)"

definition i2c_finish :: "i2c_t \<Rightarrow> i2c_t" where
  "i2c_finish d0 =
    (let d = d0\<lparr>i2c_transfer_pending := False\<rparr>; t = i2c_tx_fifo d;
         d = (if i2c_slave_active d then
                let d = (if \<not> i2c_slave_rw d \<and> 3 \<le> i2c_tx_len d \<and> t ! 0 AND 1 = 0 \<and> t ! 2 AND 1 = 1
                            \<and> drop_bit 1 (t ! 0) = drop_bit 1 (t ! 2)
                         then i2c_dev_read (unat (t ! 1)) d
                         else if i2c_slave_rw d then i2c_dev_read (i2c_dev_ptr d) d
                         else i2c_dev_write d)
                in d\<lparr>i2c_reg := reg_put 0x20 (reg_at (i2c_reg d) 0x20 OR push_bit 7 1) (i2c_reg d)\<rparr>
              else d\<lparr>i2c_reg := reg_put 0x20 (reg_at (i2c_reg d) 0x20 OR push_bit 10 1 OR push_bit 7 1) (i2c_reg d)\<rparr>)
     in d\<lparr>i2c_reg := reg_put 0x04 (reg_at (i2c_reg d) 0x04 AND NOT (push_bit 5 1)) (i2c_reg d), i2c_tx_len := 0\<rparr>)"

definition periodic_i2c :: "soc_t \<Rightarrow> soc_t" where
  "periodic_i2c soc0 =
    (if i2c_transfer_pending (i2c soc0) then
       let soc = soc0\<lparr>i2c := i2c_finish (i2c soc0)\<rparr>
       in if reg_at (i2c_reg (i2c soc)) 0x20 AND reg_at (i2c_reg (i2c soc)) 0x28 \<noteq> 0 then irq_set 29 soc else soc
     else soc0)"

section \<open>SPI2\<close>

text \<open>The bytes of a descriptor chain, at most \<open>n\<close>; \<open>acc\<close> are those found so far.\<close>

primrec tx_chain :: "nat \<Rightarrow> nat \<Rightarrow> u32 \<Rightarrow> u8 list \<Rightarrow> soc_t \<Rightarrow> u8 list outcome" where
  "tx_chain 0 n daddr acc soc = Inl Out_of_fuel"
| "tx_chain (Suc k) n daddr acc soc =
    (if daddr = 0 \<or> n \<le> length acc then Inr acc
     else case esp32c3_dma_ptr daddr of
       None \<Rightarrow> Inr acc
     | Some d \<Rightarrow>
         obind (buffer_word d 0 soc) (\<lambda>dw0.
         obind (buffer_word d 4 soc) (\<lambda>dw1.
         obind (buffer_word d 8 soc) (\<lambda>dw2.
           case esp32c3_dma_ptr dw1 of
             None \<Rightarrow> Inr acc
           | Some bp \<Rightarrow>
               obind (let m = min (unat (desc_length dw0)) (n - length acc) in if m = 0 then Inr [] else buffer_read bp m soc) (\<lambda>bs.
                 if dw2 = 0 then Inr (acc @ bs) else tx_chain k n dw2 (acc @ bs) soc)))))"

definition spi2_tx :: "nat \<Rightarrow> nat \<Rightarrow> soc_t \<Rightarrow> u8 list outcome" where
  "spi2_tx fuel n soc =
    (let r = spi2_reg (spi2 soc)
     in if drop_bit 28 (reg_at r 0x30) AND 1 \<noteq> 0 then
          obind (case find (\<lambda>c. out_peri_sel (chan_of c soc) = 0 \<and> out_dscr (chan_of c soc) \<noteq> 0)
                        (map (\<lambda>k. (gdma_out_last (gdma soc) + 3 - k) mod 3) [0..<3]) of
                   None \<Rightarrow> Inr []
                 | Some c \<Rightarrow> tx_chain fuel n (out_dscr (chan_of c soc)) [] soc)
            (\<lambda>bs. Inr (bs @ replicate (n - length bs) 0xFF))
        else Inr (map (\<lambda>i. byte_of (reg_at r (0x98 + 4 * (i div 4))) (i mod 4)) [0..<n]))"

text \<open>The answer of the virtual device, a memory with an identification sequence.\<close>

definition jedec_byte :: "nat \<Rightarrow> u8" where
  "jedec_byte i = (if i < 4 then [0xEF, 0x40, 0x15, 0xFF] ! i else 0xFF)"

definition spi2_device :: "u8 list \<Rightarrow> spi2_t \<Rightarrow> u8 list \<times> spi2_t" where
  "spi2_device tx s =
    (let n = length tx
     in if spi2_jedec s < 4 \<and> (n < 1 \<or> tx ! 0 \<noteq> 0x9F) then
          (map (\<lambda>i. jedec_byte (spi2_jedec s + i)) [0..<n], s\<lparr>spi2_jedec := min 4 (spi2_jedec s + n)\<rparr>)
        else if 1 \<le> n \<and> tx ! 0 = 0x9F then (map jedec_byte [0..<n], s\<lparr>spi2_jedec := min 4 n\<rparr>)
        else if 3 \<le> n \<and> tx ! 0 = 0x03 then
          let addr = 256 * unat (tx ! 1) + unat (tx ! 2)
          in (map (\<lambda>i. spi2_dev_mem s ! ((addr + i) mod 16)) [0..<n], s)
        else if 3 \<le> n \<and> tx ! 0 = 0x02 then
          let addr = 256 * unat (tx ! 1) + unat (tx ! 2)
          in (tx, s\<lparr>spi2_dev_mem := fold (\<lambda>i m. m[(addr + i + 13) mod 16 := tx ! i]) [0..<n] (spi2_dev_mem s)\<rparr>)
        else (tx, s))"

definition spi2_response :: "u8 list \<Rightarrow> u32 list \<Rightarrow> u32 list" where
  "spi2_response rx regs =
    fold (\<lambda>i r. reg_put (0x98 + 4 * (i div 4)) (put_byte (i mod 4) (rx ! i) (reg_at r (0x98 + 4 * (i div 4)))) r)
      [0..<length rx]
      (fold (\<lambda>i r. reg_put (0x98 + 4 * i) 0xFFFFFFFF r) [0..<16] regs)"

definition mirror_rx :: "u8 list \<Rightarrow> nat \<Rightarrow> soc_t \<Rightarrow> soc_t outcome" where
  "mirror_rx rx c soc =
    (if in_dscr (chan_of c soc) = 0 then Inr soc
     else case esp32c3_dma_ptr (in_dscr (chan_of c soc)) of
       None \<Rightarrow> Inr soc
     | Some d \<Rightarrow>
         obind (buffer_word d 0 soc) (\<lambda>iw0.
         obind (buffer_word d 4 soc) (\<lambda>iw1.
           case esp32c3_dma_ptr iw1 of
             None \<Rightarrow> Inr soc
           | Some ib \<Rightarrow>
               let bs = take (unat (desc_length iw0)) rx in if bs = [] then Inr soc else buffer_write ib bs soc)))"

definition spi2_length :: "u32 \<Rightarrow> nat" where
  "spi2_length dlen = (let n = unat (((dlen AND 0x3FFFF) + 8) div 8) in if n < 1 then 1 else if n > 64 then 64 else n)"

definition periodic_spi2 :: "nat \<Rightarrow> soc_t \<Rightarrow> soc_t outcome" where
  "periodic_spi2 fuel soc0 =
    (if spi2_transfer_pending (spi2 soc0) then
       let soc = soc0\<lparr>spi2 := (spi2 soc0)\<lparr>spi2_transfer_pending := False\<rparr>\<rparr>
       in obind (spi2_tx fuel (spi2_length (reg_at (spi2_reg (spi2 soc)) 0x1C)) soc) (\<lambda>tx.
          let (rx, s) = spi2_device tx (spi2 soc);
              soc = soc\<lparr>spi2 := s\<lparr>spi2_reg := spi2_response rx (spi2_reg s)\<rparr>\<rparr>
          in obind (mirror_rx rx 0 soc) (\<lambda>soc.
             obind (mirror_rx rx 1 soc) (\<lambda>soc.
             obind (mirror_rx rx 2 soc) (\<lambda>soc.
               let soc = set_spi2_reg 0x00 (reg_at (spi2_reg (spi2 soc)) 0x00 AND NOT (push_bit 24 1)) soc;
                   soc = set_spi2_reg 0x3C (reg_at (spi2_reg (spi2 soc)) 0x3C OR 0x1000) soc
               in Inr (esp32c3_spi2_int_update soc)))))
     else Inr soc0)"

section \<open>CAN\<close>

definition set_twai_regs :: "(nat \<times> u32) list \<Rightarrow> twai_t \<Rightarrow> twai_t" where
  "set_twai_regs ws t = t\<lparr>twai_reg := fold (\<lambda>(o1, v). reg_put o1 v) ws (twai_reg t)\<rparr>"

definition periodic_twai_tx :: "u64 \<Rightarrow> soc_t \<Rightarrow> soc_t" where
  "periodic_twai_tx cycle soc =
    (let t = twai soc; r = twai_reg t
     in if twai_tx_pending t \<and> cycle \<ge> twai_tx_done_cycle t then
          irq_set 25 (soc\<lparr>twai := set_twai_regs
            [(0x04, reg_at r 0x04 AND NOT 0x1), (0x08, reg_at r 0x08 OR 0x8), (0x0C, reg_at r 0x0C OR 0x2)]
            (t\<lparr>twai_tx_pending := False\<rparr>)\<rparr>)
        else soc)"

text \<open>The frame the virtual node sends: standard identifier \<open>0x123\<close>, two bytes \<open>DE AD\<close>.\<close>

definition twai_frame :: "(nat \<times> u32) list" where
  "twai_frame = [(0x40, 0x02), (0x44, 0x24), (0x48, 0x60), (0x4C, 0xDE), (0x50, 0xAD)]
     @ map (\<lambda>i. (0x40 + 4 * i, 0)) [5..<13]"

definition periodic_twai_rx :: "u64 \<Rightarrow> soc_t \<Rightarrow> soc_t" where
  "periodic_twai_rx cycle soc =
    (let t = twai soc
     in if \<not> twai_rx_delivered t \<and> twai_rx_deliver_cycle t \<noteq> 0 \<and> cycle \<ge> twai_rx_deliver_cycle t then
          let t = set_twai_regs twai_frame (t\<lparr>twai_rx_delivered := True\<rparr>); r = twai_reg t;
              t = set_twai_regs [(0x08, reg_at r 0x08 OR 0x1), (0x74, reg_at r 0x74 + 1)] t; r = twai_reg t
          in if reg_at r 0x10 AND 0x1 \<noteq> 0
             then irq_set 25 (soc\<lparr>twai := set_twai_regs [(0x0C, reg_at r 0x0C OR 0x1)] t\<rparr>)
             else soc\<lparr>twai := t\<rparr>
        else soc)"

section \<open>RMT and PWM outputs\<close>

definition periodic_rmt :: "u64 \<Rightarrow> soc_t \<Rightarrow> soc_t" where
  "periodic_rmt cycle soc =
    (if rmt_tx_done_cycle soc \<noteq> 0 \<and> cycle \<ge> rmt_tx_done_cycle soc then
       irq_set 28 (mmio_put (0x16000 + 0x38) (mmio_at soc (0x16000 + 0x38) OR 0x1) (soc\<lparr>rmt_tx_done_cycle := 0\<rparr>))
     else soc)"

text \<open>The level of a channel, and the timer it advances.\<close>

definition ledc_level :: "u64 \<Rightarrow> nat \<Rightarrow> ledc_t \<Rightarrow> bool \<times> ledc_t" where
  "ledc_level cycle c d =
    (let r = ledc_reg d; conf0 = reg_at r (0x14 * c)
     in if conf0 AND push_bit 2 1 \<noteq> 0 then
          let t = unat (conf0 AND 0x3); conf = reg_at r (0xA0 + 8 * t);
              res = conf AND 0x1F; f = drop_bit 5 conf AND 0x3FFFF;
              ratio = (if conf AND push_bit 25 1 \<noteq> 0 then 10 else 1);
              period = push_bit (unat (if res < 25 then res else 25)) 1 :: u32
          in if f = 0 then (conf0 AND push_bit 3 1 \<noteq> 0, d)
             else
               let span = ucast f * ucast period * ratio;
                   frac = (ledc_timer_frac d ! t + (cycle - ledc_timer_anchor d ! t) * 512) mod span;
                   pos = ucast ((frac div ucast f) mod ucast period) :: u32;
                   hpoint = reg_at r (0x14 * c + 0x4) AND 0xFFFFF;
                   duty = drop_bit 4 (ledc_duty_r d ! c AND 0x1FFFFFF)
               in ((pos + period - hpoint) mod period < duty,
                   d\<lparr>ledc_timer_frac := (ledc_timer_frac d)[t := frac],
                     ledc_timer_anchor := (ledc_timer_anchor d)[t := cycle]\<rparr>)
        else (conf0 AND push_bit 3 1 \<noteq> 0, d))"

definition drive_pin :: "nat \<Rightarrow> bool \<Rightarrow> nat \<Rightarrow> soc_t \<Rightarrow> soc_t" where
  "drive_pin c level p soc =
    (if mmio_at soc (0x4554 + 4 * p) AND 0xFF = of_nat c then
       soc\<lparr>gpio := (gpio soc)\<lparr>gpio_in := (if level then gpio_in (gpio soc) OR push_bit p 1
                                          else gpio_in (gpio soc) AND NOT (push_bit p 1))\<rparr>\<rparr>
     else soc)"

definition drive_channel :: "u64 \<Rightarrow> nat \<Rightarrow> soc_t \<Rightarrow> soc_t" where
  "drive_channel cycle c soc =
    (let (level, d) = ledc_level cycle c (ledc soc)
     in fold (drive_pin c level) [0..<22] (soc\<lparr>ledc := d\<rparr>))"

definition periodic_ledc :: "u64 \<Rightarrow> soc_t \<Rightarrow> soc_t" where
  "periodic_ledc cycle soc = fold (drive_channel cycle) [0..<6] soc"

section \<open>GPIO levels\<close>

definition level_check_pin :: "u32 \<Rightarrow> nat \<Rightarrow> soc_t \<Rightarrow> soc_t" where
  "level_check_pin live pin soc =
    (let pr = pin_conf soc pin; type' = drop_bit 7 pr AND 0x7; level = (drop_bit pin live AND 1 \<noteq> 0)
     in if drop_bit 13 pr AND 0x1F = 0 \<or> type' \<noteq> 4 \<and> type' \<noteq> 5 then soc
        else if (if type' = 4 then \<not> level else level) \<and> gpio_status (gpio soc) AND push_bit pin 1 = 0
        then latch_pin pin soc else soc)"

definition periodic_gpio :: "soc_t \<Rightarrow> soc_t" where
  "periodic_gpio soc =
    (let live = gpio_in (gpio soc) OR esp32c3_gpio_eff_out soc in fold (level_check_pin live) [0..<22] soc)"

section \<open>Timer groups and watchdogs\<close>

definition timg_step :: "u32 \<Rightarrow> u64" where
  "timg_step cfg =
    (let div' = drop_bit 13 (cfg AND push_bit 13 0xFFFF) + 1;
         timer_mhz = (if cfg AND push_bit 9 1 \<noteq> 0 then 40 else 80);
         step = (ucast div' * 16) div timer_mhz
     in if step = 0 then 1 else step)"

definition timg_count :: "u64 \<Rightarrow> timg_t \<Rightarrow> timg_t" where
  "timg_count cycle t =
    (let cfg = reg_at (timg_reg t) 0x00; step = timg_step cfg;
         frac = timg_frac t + (cycle - timg_anchor t);
         elapsed = frac div step
     in t\<lparr>timg_frac := frac mod step, timg_anchor := cycle,
          timg_counter := (if cfg AND push_bit 30 1 \<noteq> 0 then timg_counter t + elapsed
                           else if elapsed > timg_counter t then 0 else timg_counter t - elapsed)\<rparr>)"

definition timg_past :: "timg_t \<Rightarrow> bool" where
  "timg_past t =
    (let cfg = reg_at (timg_reg t) 0x00; alarm = wide_load (timg_reg t) 0x14 0x10
     in cfg AND push_bit 10 1 \<noteq> 0 \<and> alarm \<noteq> 0
        \<and> (if cfg AND push_bit 30 1 \<noteq> 0 then timg_counter t \<ge> alarm else timg_counter t \<le> alarm))"

definition periodic_timg :: "u64 \<Rightarrow> nat \<Rightarrow> soc_t \<Rightarrow> soc_t" where
  "periodic_timg cycle g soc =
    (let cfg = reg_at (timg_reg (group_of g soc)) 0x00
     in if cfg AND push_bit 31 1 = 0 then soc
        else
          let t = timg_count cycle (group_of g soc)
          in if timg_past t then
               let t = timg_put 0x74 (reg_at (timg_reg t) 0x74 OR 0x1) t;
                   soc = (if reg_at (timg_reg t) 0x74 AND reg_at (timg_reg t) 0x70 \<noteq> 0 then irq_set (t0_source g) soc else soc);
                   t = (if cfg AND push_bit 29 1 \<noteq> 0
                        then t\<lparr>timg_counter := wide_load (timg_reg t) 0x1C 0x18, timg_anchor := cycle, timg_frac := 0\<rparr>
                        else t)
               in set_group g t soc
             else set_group g t soc)"

definition periodic_wdt :: "u64 \<Rightarrow> nat \<Rightarrow> soc_t \<Rightarrow> soc_t" where
  "periodic_wdt cycle g soc =
    (let t = group_of g soc
     in if \<not> wdt_en t \<or> cycle < wdt_expire t then soc
        else
          let t = timg_put 0x74 (reg_at (timg_reg t) 0x74 OR 0x2) t; soc = set_group g t soc
          in if reg_at (timg_reg t) 0x74 AND reg_at (timg_reg t) 0x70 \<noteq> 0 then irq_set (wdt_source g) soc else soc)"

section \<open>All of it\<close>

definition esp32c3_periodic :: "nat \<Rightarrow> u64 \<Rightarrow> soc_t \<Rightarrow> soc_t outcome" where
  "esp32c3_periodic fuel cycle soc =
    obind (periodic_spi2 fuel (periodic_i2c (periodic_systimer cycle (periodic_uart cycle soc)))) (\<lambda>soc.
    obind (periodic_gdma fuel cycle (periodic_twai_rx cycle (periodic_twai_tx cycle soc))) (\<lambda>soc.
      let soc = periodic_gpio (periodic_ledc cycle (periodic_rmt cycle soc));
          soc = periodic_timg cycle 1 (periodic_timg cycle 0 soc)
      in Inr (periodic_wdt cycle 1 (periodic_wdt cycle 0 soc))))"

end
