(* ===== verification/SocUart.thy ===== *)
theory SocUart imports SocPeriodic begin

text \<open>
  The receive FIFO of a UART of the ESP32-C3 as a bounded queue: the contract \<open>bounded_queue\<close>, what
  it says of every sequence of operations, and its interpretation on \<open>rx_push\<close> and \<open>rx_pop\<close>, through
  which the loopback, the register read and the host's input reach the FIFO.
\<close>

section \<open>Bounded queues\<close>

datatype 'a fifo_op = Push 'a | Pop

text \<open>The specification: a list of at most \<open>cap\<close> elements. Pushing into a full queue loses the
  element; popping an empty one gives 0. The output of an operation is what it popped.\<close>

fun queue_step :: "nat \<Rightarrow> 'a list \<Rightarrow> ('a :: zero) fifo_op \<Rightarrow> 'a list \<times> 'a list" where
  "queue_step cap q (Push x) = (if length q < cap then q @ [x] else q, [])"
| "queue_step cap q Pop = (tl q, [if q = [] then 0 else hd q])"

primrec queue_run :: "nat \<Rightarrow> ('a :: zero) fifo_op list \<Rightarrow> 'a list \<Rightarrow> 'a list \<times> 'a list" where
  "queue_run cap [] q = (q, [])"
| "queue_run cap (a # as) q =
    (let (q, out) = queue_step cap q a; (q, outs) = queue_run cap as q in (q, out @ outs))"

text \<open>The same operations on an implementation.\<close>

fun fifo_step :: "('a \<Rightarrow> 's \<Rightarrow> 's outcome) \<Rightarrow> ('s \<Rightarrow> ('a \<times> 's) outcome) \<Rightarrow> 's \<Rightarrow> 'a fifo_op \<Rightarrow> ('s \<times> 'a list) outcome" where
  "fifo_step push pop s (Push x) = obind (push x s) (\<lambda>t. Inr (t, []))"
| "fifo_step push pop s Pop = obind (pop s) (\<lambda>(x, t). Inr (t, [x]))"

primrec fifo_run :: "('a \<Rightarrow> 's \<Rightarrow> 's outcome) \<Rightarrow> ('s \<Rightarrow> ('a \<times> 's) outcome) \<Rightarrow> 'a fifo_op list \<Rightarrow> 's \<Rightarrow> ('s \<times> 'a list) outcome" where
  "fifo_run push pop [] s = Inr (s, [])"
| "fifo_run push pop (a # as) s =
    obind (fifo_step push pop s a) (\<lambda>(s, out). obind (fifo_run push pop as s) (\<lambda>(s, outs). Inr (s, out @ outs)))"

locale bounded_queue =
  fixes push :: "'a :: zero \<Rightarrow> 's \<Rightarrow> 's outcome"
    and pop :: "'s \<Rightarrow> ('a \<times> 's) outcome"
    and content :: "'s \<Rightarrow> 'a list"
    and good :: "'s \<Rightarrow> bool"
    and cap :: nat
  assumes push_law: "good s \<Longrightarrow> \<exists>t. push x s = Inr t \<and> good t
      \<and> content t = (if length (content s) < cap then content s @ [x] else content s)"
    and pop_law: "good s \<Longrightarrow> \<exists>t. pop s = Inr (if content s = [] then 0 else hd (content s), t) \<and> good t
      \<and> content t = tl (content s)"
begin

lemma step_refines:
  assumes "good s"
  shows "\<exists>t. fifo_step push pop s a = Inr (t, snd (queue_step cap (content s) a)) \<and> good t \<and> content t = fst (queue_step cap (content s) a)"
proof (cases a)
  case (Push x)
  then show ?thesis
    using push_law [OF assms, of x] by auto
next
  case Pop
  then show ?thesis
    using pop_law [OF assms] by auto
qed

lemma run_refines:
  "good s \<Longrightarrow>
    \<exists>t. fifo_run push pop as s = Inr (t, snd (queue_run cap as (content s))) \<and> good t \<and> content t = fst (queue_run cap as (content s))"
proof (induction as arbitrary: s)
  case (Cons a as)
  obtain t where t: "fifo_step push pop s a = Inr (t, snd (queue_step cap (content s) a))" "good t"
    "content t = fst (queue_step cap (content s) a)"
    using step_refines [OF Cons.prems] by blast
  obtain t' where "fifo_run push pop as t = Inr (t', snd (queue_run cap as (content t)))" "good t'"
    "content t' = fst (queue_run cap as (content t))"
    using Cons.IH [OF t(2)] by blast
  then show ?case
    using t by (simp add: split_beta)
qed simp

lemma push_room:
  "good s \<Longrightarrow> length (content s) + length xs \<le> cap \<Longrightarrow>
    \<exists>t. fifo_run push pop (map Push xs) s = Inr (t, []) \<and> good t \<and> content t = content s @ xs"
proof (induction xs arbitrary: s)
  case (Cons x xs)
  obtain t where t: "push x s = Inr t" "good t" "content t = content s @ [x]"
    using push_law [OF Cons.prems(1), of x] Cons.prems(2) by auto
  then show ?case
    using Cons.IH [of t] Cons.prems(2) by auto
qed simp

end

section \<open>The FIFO of a port\<close>

definition port_ok :: "uart_port \<Rightarrow> bool" where
  "port_ok u \<longleftrightarrow> length (rx_fifo u) = 128 \<and> rx_head u < 128 \<and> rx_tail u < 128"

definition rx_content :: "uart_port \<Rightarrow> u8 list" where
  "rx_content u = map (\<lambda>i. rx_fifo u ! ((unat (rx_tail u) + i) mod 128)) [0..<unat (rx_count u)]"

lemma port_okD:
  assumes "port_ok u"
  shows "length (rx_fifo u) = 128" "unat (rx_head u) < 128" "unat (rx_tail u) < 128"
  using assms by (auto simp: port_ok_def word_less_nat_alt)

lemma and_127: "unat (x AND 127) = unat x mod 128" for x :: u32
proof -
  have "x AND 127 = take_bit 7 x"
    by (simp add: take_bit_eq_mask mask_eq_exp_minus_1)
  then show ?thesis
    by (simp add: unsigned_take_bit_eq unat_mod_distrib take_bit_eq_mod)
qed

text \<open>Indices of a ring of 128.\<close>

lemma ring_add: "t < 128 \<Longrightarrow> i < 128 \<Longrightarrow> (t + i) mod 128 = (if t + i < 128 then t + i else t + i - 128)" for t i :: nat
  by (auto simp: le_mod_geq)

lemma ring_diff: "h < 128 \<Longrightarrow> t < 128 \<Longrightarrow> (h + 128 - t) mod 128 = (if t \<le> h then h - t else h + 128 - t)" for h t :: nat
  using le_mod_geq [of 128 "h + 128 - t"] by auto

lemma ring_next: "x < 128 \<Longrightarrow> Suc x mod 128 = (if x = 127 then 0 else x + 1)" for x :: nat
  by auto

lemma rx_count_nat:
  assumes "port_ok u"
  shows "unat (rx_count u) = (unat (rx_head u) + 128 - unat (rx_tail u)) mod 128"
proof -
  define h t where "h = unat (rx_head u)" and "t = unat (rx_tail u)"
  have lt: "h < 128" "t < 128"
    using port_okD [OF assms] by (simp_all add: h_def t_def)
  have "unat (rx_count u) = (if t \<le> h then h - t else h + 4294967296 - t) mod 128"
    by (simp add: rx_count_def and_127 unat_sub_if' h_def t_def)
  also have "\<dots> = (h + 128 - t) mod 128"
  proof (cases "t \<le> h")
    case True
    then have "h + 128 - t = (h - t) + 128" by simp
    then show ?thesis using True by (simp only: if_True mod_add_self2)
  next
    case False
    have "h + 4294967296 - t = (h + 128 - t) + 33554431 * 128"
      using lt by simp
    then show ?thesis using False by (simp only: if_False mod_mult_self1)
  qed
  finally show ?thesis by (simp add: h_def t_def)
qed

lemma advance_nat: "unat ((x + 1) AND 127) = (unat x + 1) mod 128" if "unat x < 128" for x :: u32
proof -
  have "unat (x + 1) = unat x + 1"
    using that by (simp add: unat_plus_if')
  then show ?thesis by (simp add: and_127)
qed

lemma content_length: "length (rx_content u) = unat (rx_count u)"
  by (simp add: rx_content_def)

lemma push_contract:
  assumes ok: "port_ok u"
  shows "\<exists>t. rx_push b u = Inr t \<and> port_ok t
    \<and> rx_content t = (if length (rx_content u) < 127 then rx_content u @ [b] else rx_content u)"
proof -
  define h t where "h = unat (rx_head u)" and "t = unat (rx_tail u)"
  define n where "n = unat (rx_count u)"
  have lt: "h < 128" "t < 128" "length (rx_fifo u) = 128"
    using port_okD [OF ok] by (simp_all add: h_def t_def)
  have n: "n = (h + 128 - t) mod 128"
    using rx_count_nat [OF ok] by (simp add: n_def h_def t_def)
  have full: "rx_count u < 127 \<longleftrightarrow> n < 127"
    by (simp add: word_less_nat_alt n_def)
  show ?thesis
  proof (cases "n < 127")
    case False
    then show ?thesis
      using ok full by (simp add: rx_push_def content_length n_def)
  next
    case True
    define u' where "u' = u\<lparr>rx_fifo := (rx_fifo u)[h := b], rx_head := (rx_head u + 1) AND 127\<rparr>"
    have head: "unat (rx_head u') = (h + 1) mod 128" and tail: "unat (rx_tail u') = t"
      using lt by (simp_all add: u'_def advance_nat h_def t_def)
    have ok': "port_ok u'"
      using ok head lt by (simp add: port_ok_def u'_def word_less_nat_alt)
    have count: "unat (rx_count u') = n + 1"
      using lt True n by (auto simp: rx_count_nat [OF ok'] head tail ring_next ring_diff split: if_splits)
    have here: "(t + n) mod 128 = h"
      using lt n by (auto simp: ring_diff ring_add split: if_splits)
    have apart: "h \<noteq> (t + i) mod 128" if "i < n" for i
      using that lt True n by (auto simp: ring_diff ring_add split: if_splits)
    have "rx_content u' = rx_content u @ [b]"
      unfolding rx_content_def count tail n_def [symmetric] t_def [symmetric]
      using lt here by (simp add: u'_def nth_list_update_neq [OF apart])
    moreover have "rx_push b u = Inr u'"
      using True full lt by (simp add: rx_push_def u'_def h_def)
    ultimately show ?thesis
      using ok' True by (simp add: content_length n_def)
  qed
qed

lemma pop_contract:
  assumes ok: "port_ok u"
  shows "\<exists>t. rx_pop u = Inr (if rx_content u = [] then 0 else hd (rx_content u), t) \<and> port_ok t
    \<and> rx_content t = tl (rx_content u)"
proof -
  define h t where "h = unat (rx_head u)" and "t = unat (rx_tail u)"
  define n where "n = unat (rx_count u)"
  have lt: "h < 128" "t < 128" "length (rx_fifo u) = 128"
    using port_okD [OF ok] by (simp_all add: h_def t_def)
  have n: "n = (h + 128 - t) mod 128"
    using rx_count_nat [OF ok] by (simp add: n_def h_def t_def)
  have empty: "rx_head u = rx_tail u \<longleftrightarrow> n = 0"
    unfolding word_unat_eq_iff h_def [symmetric] t_def [symmetric]
    using lt n by (auto simp: ring_diff split: if_splits)
  show ?thesis
  proof (cases "n = 0")
    case True
    then have "rx_content u = []"
      by (simp add: rx_content_def n_def)
    then show ?thesis
      using ok True empty by (simp add: rx_pop_def)
  next
    case False
    define u' where "u' = u\<lparr>rx_tail := (rx_tail u + 1) AND 127\<rparr>"
    have head: "unat (rx_head u') = h" and tail: "unat (rx_tail u') = (t + 1) mod 128"
      using lt by (simp_all add: u'_def advance_nat h_def t_def)
    have ok': "port_ok u'"
      using ok tail lt by (simp add: port_ok_def u'_def word_less_nat_alt)
    have count: "unat (rx_count u') = n - 1"
      using lt False n by (auto simp: rx_count_nat [OF ok'] head tail ring_next ring_diff split: if_splits)
    obtain m where m: "n = Suc m"
      using False by (cases n) auto
    have "rx_content u = rx_fifo u ! t # map (\<lambda>i. rx_fifo u ! ((t + 1 + i) mod 128)) [0..<m]"
      using lt by (simp add: rx_content_def n_def [symmetric] t_def [symmetric] m upt_conv_Cons map_Suc_upt [symmetric] comp_def del: upt_Suc)
    moreover have "rx_content u' = map (\<lambda>i. rx_fifo u ! ((t + 1 + i) mod 128)) [0..<m]"
      unfolding rx_content_def count tail m by (simp add: u'_def mod_add_left_eq)
    moreover have "rx_pop u = Inr (rx_fifo u ! t, u')"
      using False empty lt by (simp add: rx_pop_def u'_def t_def)
    ultimately show ?thesis
      using ok' by simp
  qed
qed

interpretation rx_queue: bounded_queue rx_push rx_pop rx_content port_ok 127
  by unfold_locales (rule push_contract pop_contract; assumption)+

section \<open>The host's input\<close>

lemma head_mod_ok: "port_ok u \<Longrightarrow> rx_head u mod 128 = rx_head u"
  using port_okD(2) [of u] by (simp add: word_unat_eq_iff unat_mod)

lemma upt_split: "[0..<n + m] = [0..<n] @ map (\<lambda>j. n + j) [0..<m]"
  by (induction m) simp_all

lemma fill_contract:
  assumes ok: "port_ok u" and len: "length bs \<le> rx_chunk u"
  shows "port_ok (rx_fill bs u) \<and> rx_content (rx_fill bs u) = rx_content u @ bs"
proof -
  define h t where "h = unat (rx_head u)" and "t = unat (rx_tail u)"
  define n where "n = unat (rx_count u)"
  define m where "m = length bs"
  have lt: "h < 128" "t < 128" "length (rx_fifo u) = 128"
    using port_okD [OF ok] by (simp_all add: h_def t_def)
  have n: "n = (h + 128 - t) mod 128"
    using rx_count_nat [OF ok] by (simp add: n_def h_def t_def)
  have n127: "n \<le> 127"
    using lt n by (auto simp: ring_diff)
  have head_mod: "rx_head u mod 128 = rx_head u"
    by (rule head_mod_ok [OF ok])
  have "unat (128 - rx_head u) = 128 - h" and "unat (127 - rx_count u) = 127 - n"
    using lt n127 by (simp_all add: unat_sub_if' h_def n_def)
  then have room: "h + m \<le> 128" "n + m \<le> 127"
    using len lt n127 by (auto simp: rx_chunk_def head_mod m_def min_def word_le_nat_alt split: if_splits)
  have m32: "unat (of_nat m :: u32) = m"
    using room by (simp add: unat_of_nat)
  have head: "unat (rx_head (rx_fill bs u)) = (h + m) mod 128"
    using lt room by (simp add: rx_fill_def Let_def head_mod unat_mod unat_plus_if' h_def [symmetric] m_def [symmetric] m32)
  have tail: "unat (rx_tail (rx_fill bs u)) = t"
    by (simp add: rx_fill_def t_def Let_def)
  have fifo: "rx_fifo (rx_fill bs u) = take h (rx_fifo u) @ bs @ drop (h + m) (rx_fifo u)"
    by (simp add: rx_fill_def head_mod h_def m_def Let_def)
  have "(h + m) mod 128 < 128" by simp
  then have ok': "port_ok (rx_fill bs u)"
    unfolding port_ok_def word_less_nat_alt head tail fifo using lt room by (simp add: m_def)
  have sum: "(h + m) mod 128 = (if h + m = 128 then 0 else h + m)"
    using room by auto
  have count: "unat (rx_count (rx_fill bs u)) = n + m"
    using lt n room by (auto simp: rx_count_nat [OF ok'] head tail sum ring_diff split: if_splits)
  have old: "rx_fifo (rx_fill bs u) ! ((t + i) mod 128) = rx_fifo u ! ((t + i) mod 128)" if "i < n" for i
  proof -
    have "(t + i) mod 128 < h \<or> h + m \<le> (t + i) mod 128"
      using that lt n room by (auto simp: ring_diff ring_add split: if_splits)
    moreover have "(t + i) mod 128 < 128" by simp
    ultimately show ?thesis
      using lt room unfolding fifo by (auto simp: nth_append m_def)
  qed
  have new: "rx_fifo (rx_fill bs u) ! ((t + (n + j)) mod 128) = bs ! j" if "j < m" for j
  proof -
    have "(t + (n + j)) mod 128 = h + j"
      using that lt n room by (auto simp: ring_diff ring_add split: if_splits)
    then show ?thesis
      using that lt unfolding fifo by (simp add: nth_append m_def)
  qed
  have "rx_content (rx_fill bs u) = map (\<lambda>i. rx_fifo (rx_fill bs u) ! ((t + i) mod 128)) ([0..<n] @ map (\<lambda>j. n + j) [0..<m])"
    unfolding rx_content_def count tail upt_split by (rule refl)
  also have "\<dots> = rx_content u @ bs"
    using old new by (auto simp: rx_content_def n_def [symmetric] t_def [symmetric] m_def intro: nth_equalityI)
  finally show ?thesis
    using ok' by blast
qed

lemma rx_chunk_zero:
  assumes "port_ok u"
  shows "rx_chunk u = 0 \<longleftrightarrow> length (rx_content u) = 127" and "length (rx_content u) \<le> 127"
    and "length (rx_content u) + rx_chunk u \<le> 127"
proof -
  define n where "n = unat (rx_count u)"
  have n127: "n \<le> 127"
    using port_okD [OF assms] rx_count_nat [OF assms] by (auto simp: n_def ring_diff)
  have head_mod: "rx_head u mod 128 = rx_head u"
    by (rule head_mod_ok [OF assms])
  have "unat (128 - rx_head u) = 128 - unat (rx_head u)" and "unat (127 - rx_count u) = 127 - n"
    using port_okD [OF assms] n127 by (simp_all add: unat_sub_if' n_def)
  then have "rx_chunk u = min (128 - unat (rx_head u)) (127 - n)"
    by (auto simp: rx_chunk_def head_mod min_def word_le_nat_alt)
  then show "rx_chunk u = 0 \<longleftrightarrow> length (rx_content u) = 127" and "length (rx_content u) \<le> 127"
    and "length (rx_content u) + rx_chunk u \<le> 127"
    using port_okD [OF assms] n127 by (auto simp: content_length n_def [symmetric] min_def)
qed

lemma poll_contract:
  assumes "port_ok u"
  shows "\<exists>u'. rx_poll_loop hs u = (u', drop (127 - length (rx_content u)) hs) \<and> port_ok u'
    \<and> rx_content u' = rx_content u @ take (127 - length (rx_content u)) hs"
  using assms
proof (induction hs u rule: rx_poll_loop.induct)
  case (1 hs u)
  define n where "n = min (rx_chunk u) (length hs)"
  define k where "k = 127 - length (rx_content u)"
  note chunk = rx_chunk_zero [OF "1.prems"]
  show ?case
  proof (cases "n = 0")
    case True
    then have "k = 0 \<or> hs = []"
      using chunk by (auto simp: n_def k_def min_def split: if_splits)
    moreover have "rx_poll_loop hs u = (u, hs)"
      using True by (subst rx_poll_loop.simps) (simp add: n_def)
    ultimately show ?thesis
      using "1.prems" by (auto simp: k_def)
  next
    case False
    define u1 where "u1 = rx_fill (take n hs) u"
    have u1: "port_ok u1" "rx_content u1 = rx_content u @ take n hs"
      using fill_contract [OF "1.prems", of "take n hs"] by (auto simp: u1_def n_def)
    have n: "n \<le> k" "n \<le> length hs" "127 - length (rx_content u1) = k - n"
      using chunk u1 by (auto simp: n_def k_def)
    have "rx_poll_loop hs u = rx_poll_loop (drop n hs) u1"
      using False by (subst rx_poll_loop.simps) (simp only: n_def [symmetric] u1_def Let_def if_False)
    moreover obtain u' where "rx_poll_loop (drop n hs) u1 = (u', drop (k - n) (drop n hs))" "port_ok u'"
        "rx_content u' = rx_content u1 @ take (k - n) (drop n hs)"
      using "1.IH" [OF n_def] False u1 n by (auto simp: u1_def)
    moreover have "take n hs @ take (k - n) (drop n hs) = take k hs"
      using n(1) by (metis le_add_diff_inverse take_add)
    ultimately show ?thesis
      using u1 n by (simp add: k_def [symmetric])
  qed
qed

text \<open>C40: polling the host's input moves the longest prefix that fits into the FIFO, in order, even
  across the end of the ring buffer, and leaves the rest for later.\<close>

theorem host_input_fills_fifo:
  assumes "port_ok u"
  shows "\<exists>u'. rx_poll_loop hs u = (u', drop (127 - length (rx_content u)) hs) \<and> port_ok u'
    \<and> rx_content u' = rx_content u @ take (127 - length (rx_content u)) hs"
  using assms by (rule poll_contract)

lemma host_input_fills_fifo_witness:
  "\<exists>u'. rx_poll_loop [1, 2, 3] zero_uart_port = (u', []) \<and> rx_content u' = [1, 2, 3]"
proof -
  have "port_ok zero_uart_port" and "rx_content zero_uart_port = []"
    by (simp_all add: port_ok_def zero_uart_port_def rx_content_def rx_count_def)
  then show ?thesis
    using host_input_fills_fifo [of zero_uart_port "[1, 2, 3]"] by auto
qed

text \<open>C39: every sequence of received bytes and register reads behaves like a list of at most 127
  bytes: reads return the bytes in the order in which they came, an empty FIFO reads as zero, a byte
  that comes when the FIFO is full is lost, and no index leaves the ring buffer.\<close>

theorem uart_fifo_refines_queue:
  assumes "port_ok u"
  shows "\<exists>t. fifo_run rx_push rx_pop as u = Inr (t, snd (queue_run 127 as (rx_content u))) \<and> port_ok t
    \<and> rx_content t = fst (queue_run 127 as (rx_content u))"
  using assms by (rule rx_queue.run_refines)

lemma uart_fifo_refines_queue_witness:
  "\<exists>t. fifo_run rx_push rx_pop [Push 7, Push 9, Pop, Pop, Pop] zero_uart_port = Inr (t, [7, 9, 0]) \<and> rx_content t = []"
proof -
  have "port_ok zero_uart_port" and "rx_content zero_uart_port = []"
    by (simp_all add: port_ok_def zero_uart_port_def rx_content_def rx_count_def)
  then show ?thesis
    using uart_fifo_refines_queue [of zero_uart_port "[Push 7, Push 9, Pop, Pop, Pop]"] by auto
qed

end
