(* ===== verification/SocBus.thy ===== *)
theory SocBus imports SocPeriodic Hart begin

text \<open>
  The ESP32-C3 as the interpreter sees it: the memory callbacks of \<open>esp32c3_install_io\<close>, the delivery
  of interrupts, and the two ways to boot (\<open>src/src/esp32c3.c\<close>). The traces that the callbacks print
  are left out; their conditions have no other effect.
\<close>

section \<open>Memory callbacks\<close>

text \<open>Reads and fetches in the flash windows go through the MMU table of the cache; \<open>None\<close> stands for
  the value \<open>~0u\<close> of the source.\<close>

definition esp32_flash_window_off :: "soc_t \<Rightarrow> u32 \<Rightarrow> u32 option" where
  "esp32_flash_window_off soc addr =
    (if 0x3C000000 \<le> addr \<and> addr < 0x3C000000 + 0x400000
        \<or> 0x42000000 \<le> addr \<and> addr < 0x42000000 + 0x400000
        \<or> 0x3C7F0000 \<le> addr \<and> addr < 0x3C800000
     then
       let off = mmu soc ! unat (drop_bit 16 addr AND 0x7F) * 0x10000 + (addr AND 0xFFFF)
       in Some (if off < 0x400000 then off else addr AND 0xFFFF)
     else None)"

definition read_pointer :: "soc_t \<Rightarrow> u32 \<Rightarrow> dma_pointer option" where
  "read_pointer soc addr =
    (case esp32c3_dma_ptr addr of
       None \<Rightarrow> None
     | Some (b, k) \<Rightarrow> Some (b, case esp32_flash_window_off soc addr of Some off \<Rightarrow> unat off | None \<Rightarrow> k))"

definition esp32_read_w :: "soc_t \<Rightarrow> u32 \<Rightarrow> (soc_t \<times> u32) outcome" where
  "esp32_read_w soc addr =
    (case read_pointer soc addr of
       None \<Rightarrow> obind (esp32_mmio_read addr soc) (\<lambda>(v, soc). Inr (soc, v))
     | Some p \<Rightarrow> obind (buffer_word p 0 soc) (\<lambda>v. Inr (soc, v)))"

definition esp32_read_s :: "soc_t \<Rightarrow> u32 \<Rightarrow> (soc_t \<times> u16) outcome" where
  "esp32_read_s soc addr =
    (case read_pointer soc addr of
       None \<Rightarrow> obind (esp32_mmio_read addr soc) (\<lambda>(v, soc). Inr (soc, ucast v))
     | Some p \<Rightarrow> obind (buffer_read p 2 soc) (\<lambda>bs. Inr (soc, half_of_bytes (bs ! 0) (bs ! 1))))"

definition esp32_read_b :: "soc_t \<Rightarrow> u32 \<Rightarrow> (soc_t \<times> u8) outcome" where
  "esp32_read_b soc addr =
    (case read_pointer soc addr of
       None \<Rightarrow> obind (esp32_mmio_read addr soc) (\<lambda>(v, soc). Inr (soc, ucast v))
     | Some p \<Rightarrow> obind (buffer_get p 0 soc) (\<lambda>b. Inr (soc, b)))"

definition esp32_write_w :: "u64 \<Rightarrow> soc_t \<Rightarrow> u32 \<Rightarrow> u32 \<Rightarrow> soc_t outcome" where
  "esp32_write_w cycle soc addr v =
    (if 0x600C5000 \<le> addr \<and> addr < 0x600C5000 + 128 * 4
     then Inr (soc\<lparr>mmu := (mmu soc)[unat (drop_bit 2 (addr - 0x600C5000)) := v]\<rparr>)
     else case esp32c3_dma_ptr addr of
       None \<Rightarrow> esp32_mmio_write cycle addr v soc
     | Some p \<Rightarrow> buffer_write p (word_bytes v) soc)"

definition esp32_write_s :: "u64 \<Rightarrow> soc_t \<Rightarrow> u32 \<Rightarrow> u16 \<Rightarrow> soc_t outcome" where
  "esp32_write_s cycle soc addr v =
    (case esp32c3_dma_ptr addr of
       None \<Rightarrow> esp32_mmio_write cycle addr (ucast v) soc
     | Some p \<Rightarrow> buffer_write p [byte_of v 0, byte_of v 1] soc)"

definition esp32_write_b :: "u64 \<Rightarrow> soc_t \<Rightarrow> u32 \<Rightarrow> u8 \<Rightarrow> soc_t outcome" where
  "esp32_write_b cycle soc addr v =
    (case esp32c3_dma_ptr addr of
       None \<Rightarrow> esp32_mmio_write cycle addr (ucast v) soc
     | Some p \<Rightarrow> buffer_write p [v] soc)"

text \<open>A fetch outside of RAM gives the illegal word 0.\<close>

definition esp32_ifetch :: "soc_t \<Rightarrow> u32 \<Rightarrow> (soc_t \<times> u32) outcome" where
  "esp32_ifetch soc addr =
    (case read_pointer soc addr of
       None \<Rightarrow> Inr (soc, 0)
     | Some p \<Rightarrow> obind (buffer_word p 0 soc) (\<lambda>v. Inr (soc, v)))"

definition esp32_translate :: "u32 \<Rightarrow> bool \<Rightarrow> u32" where
  "esp32_translate vaddr rw = vaddr"

section \<open>Interrupts\<close>

text \<open>The CPU lines with a pending source that is enabled. Line 0 is only raised for the sources 44 to 49.\<close>

definition source_line :: "soc_t \<Rightarrow> nat \<Rightarrow> nat" where
  "source_line soc s = unat (intc_intmap (intc soc) ! s AND 0x1F)"

definition source_ok :: "nat \<Rightarrow> nat \<Rightarrow> bool" where
  "source_ok s line \<longleftrightarrow> 1 \<le> line \<and> line < 31 \<or> line = 0 \<and> 44 \<le> s \<and> s \<le> 49"

definition esp32_intc_raise :: "soc_t \<Rightarrow> u32" where
  "esp32_intc_raise soc =
    fold (\<lambda>s lines.
        if intc_status (intc soc) AND push_bit s 1 \<noteq> 0 \<and> source_ok s (source_line soc s)
           \<and> intc_enable (intc soc) AND push_bit (source_line soc s) 1 \<noteq> 0
        then lines OR push_bit (source_line soc s) 1 else lines)
      [0..<72] 0"

text \<open>The priority gate. Its offsets name the matrix's registers without their base, so what is read
  are the UART registers at these offsets.\<close>

definition priority_gate :: "soc_t \<Rightarrow> u32 \<Rightarrow> u32" where
  "priority_gate soc lines =
    fold (\<lambda>b kept.
        if drop_bit b lines AND 1 \<noteq> 0 \<and> mmio_at soc (0x114 + 4 * b) \<ge> mmio_at soc 0x194
        then kept OR push_bit b 1 else kept)
      [0..<32] 0"

text \<open>\<open>__builtin_ctz\<close> of a word that is not 0.\<close>

definition lowest_line :: "u32 \<Rightarrow> nat" where
  "lowest_line lines = (case find (\<lambda>b. drop_bit b lines AND 1 \<noteq> 0) [0..<32] of Some b \<Rightarrow> b | None \<Rightarrow> 32)"

text \<open>Up to the call of \<open>on_trap\<close>; the boolean tells whether it is called.\<close>

definition esp32c3_check_interrupt :: "soc_t \<Rightarrow> riscv_t \<Rightarrow> riscv_t \<times> bool" where
  "esp32c3_check_interrupt soc rv =
    (if csr_mstatus (csr rv) AND 0x8 = 0 then (rv, False)
     else
       let lines = esp32_intc_raise soc;
           rv = rv\<lparr>csr := (csr rv)\<lparr>csr_mip := (csr_mip (csr rv) AND NOT 0x7FFFFFFE) OR lines\<rparr>\<rparr>
       in if lines = 0 then (rv, False)
          else
            let lines = priority_gate soc lines
            in if lines = 0 then (rv, False)
               else (set_cause_and_tval (push_bit 31 1 OR of_nat (lowest_line lines)) 0 rv, True))"

section \<open>Booting\<close>

text \<open>A file is the list of its bytes, \<open>None\<close> if it cannot be opened; \<open>fread\<close> of a whole object
  succeeds if that many bytes are left. The result is \<open>None\<close> where the program exits.\<close>

definition file_read :: "u8 list \<Rightarrow> nat \<Rightarrow> nat \<Rightarrow> u8 list option" where
  "file_read f k n = (if k + n \<le> length f then Some (take n (drop k f)) else None)"

definition le16 :: "u8 list \<Rightarrow> nat \<Rightarrow> u16" where
  "le16 bs k = half_of_bytes (bs ! k) (bs ! (k + 1))"

definition le32 :: "u8 list \<Rightarrow> nat \<Rightarrow> u32" where
  "le32 bs k = word_of_bytes (bs ! k) (bs ! (k + 1)) (bs ! (k + 2)) (bs ! (k + 3))"

definition region_rest :: "u32 \<Rightarrow> nat" where
  "region_rest addr = (case esp32_find_region addr of
     Some r \<Rightarrow> unat (region_base r + region_size r - addr) | None \<Rightarrow> 0)"

lemma region_rest_pos: "esp32_find_region addr = Some r \<Longrightarrow> 0 < region_rest addr"
proof -
  assume r: "esp32_find_region addr = Some r"
  then have "addr < region_base r + region_size r"
    by (auto simp: esp32_find_region_def find_Some_iff)
  then have "region_base r + region_size r - addr \<noteq> 0"
    by auto
  then show ?thesis
    using r by (simp add: region_rest_def unat_gt_0)
qed

text \<open>The bytes from \<open>pos\<close> on of a segment of \<open>sz\<close> bytes, of which the file has \<open>filesz\<close>.\<close>

function load_segment :: "u8 list \<Rightarrow> u32 \<Rightarrow> u32 \<Rightarrow> nat \<Rightarrow> nat \<Rightarrow> nat \<Rightarrow> soc_t \<Rightarrow> soc_t option outcome" where
  "load_segment f vaddr offset filesz sz pos soc =
    (if pos \<ge> sz then Inr (Some soc)
     else case esp32c3_dma_ptr (vaddr + of_nat pos) of
       None \<Rightarrow> Inr None
     | Some p \<Rightarrow>
         let chunk = min (region_rest (vaddr + of_nat pos)) (sz - pos);
             in_flash = (if pos < filesz then filesz - pos else 0);
             copy = min in_flash chunk
         in if copy = 0 then load_segment f vaddr offset filesz sz (pos + chunk) soc
            else case file_read f (unat (offset + of_nat pos)) copy of
              None \<Rightarrow> Inr None
            | Some bs \<Rightarrow> obind (buffer_write p bs soc) (load_segment f vaddr offset filesz sz (pos + chunk)))"
  by pat_completeness auto

termination
  by (relation "measure (\<lambda>(f, vaddr, offset, filesz, sz, pos, soc). sz - pos)")
    (auto simp: esp32c3_dma_ptr_def split: option.splits dest!: region_rest_pos)

declare load_segment.simps [simp del]

primrec load_headers :: "u8 list \<Rightarrow> u8 list \<Rightarrow> nat \<Rightarrow> nat \<Rightarrow> soc_t \<Rightarrow> soc_t option outcome" where
  "load_headers f hdr 0 i soc = Inr (Some soc)"
| "load_headers f hdr (Suc n) i soc =
    (case file_read f (unat (le32 hdr 28 + of_nat i * ucast (le16 hdr 42))) 32 of
       None \<Rightarrow> Inr (Some soc)
     | Some ph \<Rightarrow>
         if le32 ph 0 \<noteq> 1 then load_headers f hdr n (i + 1) soc
         else
           obind (load_segment f (le32 ph 8) (le32 ph 4) (unat (le32 ph 16)) (unat (le32 ph 20)) 0 soc)
             (\<lambda>r. case r of None \<Rightarrow> Inr None | Some soc \<Rightarrow> load_headers f hdr n (i + 1) soc))"

definition boot_elf :: "u8 list \<Rightarrow> soc_t \<Rightarrow> (soc_t \<times> u32) option outcome" where
  "boot_elf f soc =
    (case file_read f 0 52 of
       None \<Rightarrow> Inr None
     | Some hdr \<Rightarrow>
         if take 4 hdr \<noteq> [0x7F, 0x45, 0x4C, 0x46] then Inr None
         else obind (load_headers f hdr (unat (le16 hdr 44)) 0 soc)
           (\<lambda>r. Inr (map_option (\<lambda>soc. (soc, le32 hdr 24)) r)))"

definition esp32c3_boot :: "u8 list option option \<Rightarrow> u8 list option \<Rightarrow> soc_t \<Rightarrow> (soc_t \<times> u32) option outcome" where
  "esp32c3_boot flash_image elf soc =
    (case flash_image of
       Some None \<Rightarrow> Inr None
     | Some (Some f) \<Rightarrow>
         obind (buffer_write (Flash, 0) (take FLASH_SIZE f) soc) (\<lambda>soc. Inr (Some (soc, 0x40000000)))
     | None \<Rightarrow> (case elf of None \<Rightarrow> Inr None | Some f \<Rightarrow> boot_elf f soc))"

end
