(* ===== verification/SocInv.thy ===== *)
theory SocInv imports SocUart SocBus begin

text \<open>
  The invariant of the ESP32-C3 state: every bank has its length, and every index the peripherals keep
  stays in its array. The states reachable from \<open>esp32c3_new\<close> by the memory callbacks and
  \<open>esp32c3_periodic\<close> satisfy it, so that the only register reads that leave an array are the two
  that the bounds of the DMA controller let through.
\<close>

section \<open>The invariant\<close>

definition uart_ok :: "uart_t \<Rightarrow> bool" where
  "uart_ok u \<longleftrightarrow> length (uart_ports u) = 2 \<and> port_ok (uart_ports u ! 0) \<and> port_ok (uart_ports u ! 1)
     \<and> length (uart_line u) \<le> 255"

definition i2c_ok :: "i2c_t \<Rightarrow> bool" where
  "i2c_ok d \<longleftrightarrow> length (i2c_reg d) = 128 \<and> length (i2c_tx_fifo d) = 32 \<and> length (i2c_rx_fifo d) = 32
     \<and> length (i2c_dev_mem d) = 16 \<and> i2c_tx_len d \<le> 32 \<and> i2c_rx_len d \<le> 8 \<and> i2c_rx_pos d \<le> 8"

definition spi2_ok :: "spi2_t \<Rightarrow> bool" where
  "spi2_ok s \<longleftrightarrow> length (spi2_reg s) = 128 \<and> length (spi2_dev_mem s) = 16 \<and> spi2_jedec s \<le> 4"

definition gdma_ok :: "gdma_t \<Rightarrow> bool" where
  "gdma_ok g \<longleftrightarrow> length (gdma_chans g) = 3 \<and> gdma_out_last g < 3"

definition ledc_ok :: "ledc_t \<Rightarrow> bool" where
  "ledc_ok d \<longleftrightarrow> length (ledc_reg d) = 128 \<and> length (ledc_duty_r d) = 6 \<and> length (ledc_timer_anchor d) = 4
     \<and> length (ledc_timer_frac d) = 4"

definition timgs_ok :: "timg_t list \<Rightarrow> bool" where
  "timgs_ok ts \<longleftrightarrow> length ts = 2 \<and> length (timg_reg (ts ! 0)) = 64 \<and> length (timg_reg (ts ! 1)) = 64"

definition sha_ok :: "sha \<Rightarrow> bool" where
  "sha_ok s \<longleftrightarrow> sha_len s \<le> 0x200000 \<and> length (sha_digest s) = 8"

definition soc_ok :: "soc_t \<Rightarrow> bool" where
  "soc_ok soc \<longleftrightarrow> uart_ok (uart soc) \<and> i2c_ok (i2c soc) \<and> spi2_ok (spi2 soc) \<and> length (twai_reg (twai soc)) = 64
     \<and> gdma_ok (gdma soc) \<and> length (adc_reg soc) = 257 \<and> ledc_ok (ledc soc) \<and> timgs_ok (timgs soc)
     \<and> length (aes_reg soc) = 64 \<and> length (i2s_reg soc) = 32 \<and> length (mmu soc) = 128
     \<and> length (intc_intmap (intc soc)) = 72 \<and> sha_ok (sha_engine soc)"

text \<open>Operations on parts of the state that the invariant does not mention.\<close>

lemma soc_ok_irq [simp]:
  "soc_ok (irq_set n soc) = soc_ok soc" "soc_ok (irq_clear n soc) = soc_ok soc"
  "soc_ok (irq_clear_from n soc) = soc_ok soc" "soc_ok (mmio_put off v soc) = soc_ok soc"
  by (simp_all add: soc_ok_def irq_set_def irq_clear_def irq_clear_from_def mmio_put_def)

lemma soc_ok_frame [simp]:
  "soc_ok (soc\<lparr>soc_mem := x1\<rparr>) = soc_ok soc" "soc_ok (soc\<lparr>systimer := x2\<rparr>) = soc_ok soc"
  "soc_ok (soc\<lparr>flash_sr := x3\<rparr>) = soc_ok soc" "soc_ok (soc\<lparr>flash_sr2 := x3\<rparr>) = soc_ok soc"
  "soc_ok (soc\<lparr>gpio := x4\<rparr>) = soc_ok soc" "soc_ok (soc\<lparr>i2s_rx_counter := x3\<rparr>) = soc_ok soc"
  "soc_ok (soc\<lparr>wdt_config0_reads := x3\<rparr>) = soc_ok soc" "soc_ok (soc\<lparr>rmt_tx_done_cycle := x5\<rparr>) = soc_ok soc"
  by (simp_all add: soc_ok_def)

lemma soc_ok_put:
  "soc_ok soc \<Longrightarrow> uart_ok u \<Longrightarrow> soc_ok (soc\<lparr>uart := u\<rparr>)"
  "soc_ok soc \<Longrightarrow> i2c_ok d \<Longrightarrow> soc_ok (soc\<lparr>i2c := d\<rparr>)"
  "soc_ok soc \<Longrightarrow> spi2_ok s \<Longrightarrow> soc_ok (soc\<lparr>spi2 := s\<rparr>)"
  "soc_ok soc \<Longrightarrow> length (twai_reg t) = 64 \<Longrightarrow> soc_ok (soc\<lparr>twai := t\<rparr>)"
  "soc_ok soc \<Longrightarrow> gdma_ok g \<Longrightarrow> soc_ok (soc\<lparr>gdma := g\<rparr>)"
  "soc_ok soc \<Longrightarrow> length r = 257 \<Longrightarrow> soc_ok (soc\<lparr>adc_reg := r\<rparr>)"
  "soc_ok soc \<Longrightarrow> ledc_ok l \<Longrightarrow> soc_ok (soc\<lparr>ledc := l\<rparr>)"
  "soc_ok soc \<Longrightarrow> timgs_ok ts \<Longrightarrow> soc_ok (soc\<lparr>timgs := ts\<rparr>)"
  "soc_ok soc \<Longrightarrow> length r = 64 \<Longrightarrow> soc_ok (soc\<lparr>aes_reg := r\<rparr>)"
  "soc_ok soc \<Longrightarrow> length r = 32 \<Longrightarrow> soc_ok (soc\<lparr>i2s_reg := r\<rparr>)"
  "soc_ok soc \<Longrightarrow> length r = 128 \<Longrightarrow> soc_ok (soc\<lparr>mmu := r\<rparr>)"
  "soc_ok soc \<Longrightarrow> length (intc_intmap c) = 72 \<Longrightarrow> soc_ok (soc\<lparr>intc := c\<rparr>)"
  "soc_ok soc \<Longrightarrow> sha_ok e \<Longrightarrow> soc_ok (soc\<lparr>sha_engine := e\<rparr>)"
  by (simp_all add: soc_ok_def)

lemma soc_okD:
  assumes "soc_ok soc"
  shows "uart_ok (uart soc)" "i2c_ok (i2c soc)" "spi2_ok (spi2 soc)" "length (twai_reg (twai soc)) = 64"
    "gdma_ok (gdma soc)" "length (adc_reg soc) = 257" "ledc_ok (ledc soc)" "timgs_ok (timgs soc)"
    "length (aes_reg soc) = 64" "length (i2s_reg soc) = 32" "length (mmu soc) = 128"
    "length (intc_intmap (intc soc)) = 72" "sha_ok (sha_engine soc)"
  using assms by (simp_all add: soc_ok_def)

lemma fold_invariant: "P s \<Longrightarrow> (\<And>x s. P s \<Longrightarrow> P (f x s)) \<Longrightarrow> P (fold f xs s)"
  by (induction xs arbitrary: s) auto

lemma nth_update: "xs[i := x] ! j = (if j = i \<and> j < length xs then x else xs ! j)"
  by (cases "i < length xs") (auto simp: nth_list_update list_update_beyond)

lemma list_pair_cases: "p < 2 \<Longrightarrow> p = 0 \<or> p = Suc 0"
  by auto

lemma soc_ok_port: "soc_ok soc \<Longrightarrow> p < 2 \<Longrightarrow> port_ok (port_of p soc)"
  by (auto simp: soc_ok_def uart_ok_def dest!: list_pair_cases)

lemma soc_ok_set_port: "soc_ok soc \<Longrightarrow> port_ok u \<Longrightarrow> soc_ok (set_port p u soc)"
  unfolding set_port_def by (intro soc_ok_put) (auto simp: soc_ok_def uart_ok_def nth_update)

lemma soc_ok_set_group: "soc_ok soc \<Longrightarrow> length (timg_reg t) = 64 \<Longrightarrow> soc_ok (set_group g t soc)"
  unfolding set_group_def by (intro soc_ok_put) (auto simp: soc_ok_def timgs_ok_def nth_update)

lemma soc_ok_group: "soc_ok soc \<Longrightarrow> g < 2 \<Longrightarrow> length (timg_reg (group_of g soc)) = 64"
  by (auto simp: soc_ok_def timgs_ok_def dest!: list_pair_cases)

lemma soc_ok_set_chan [simp]: "soc_ok (set_chan c ch soc) = soc_ok soc"
  by (simp add: set_chan_def soc_ok_def gdma_ok_def)

lemma buffer_write_ok: "buffer_write p bs soc = Inr soc' \<Longrightarrow> soc_ok soc' = soc_ok soc"
  by (auto simp: buffer_write_def split: prod.splits if_splits)

section \<open>Reads\<close>

lemma uart_read_ok:
  assumes "soc_ok soc" and "p < 2"
  shows "\<exists>v soc'. uart_read p o1 soc = Inr (v, soc') \<and> soc_ok soc'"
proof (cases "o1 = 0")
  case True
  obtain u where "rx_pop (port_of p soc) = Inr (if rx_content (port_of p soc) = [] then 0 else hd (rx_content (port_of p soc)), u)"
      "port_ok u"
    using pop_contract [OF soc_ok_port [OF assms]] by blast
  with True show ?thesis
    by (simp add: uart_read_def soc_ok_set_port [OF assms(1)])
next
  case False
  then show ?thesis
    using assms(1) by (simp add: uart_read_def)
qed

lemma i2c_read_ok: "soc_ok soc \<Longrightarrow> soc_ok (snd (i2c_read o1 soc))"
  by (auto simp: i2c_read_def Let_def i2c_ok_def soc_ok_def)

lemma twai_read_ok: "soc_ok soc \<Longrightarrow> soc_ok (snd (twai_read o1 soc))"
  using soc_ok_put(4) [of soc] soc_okD(4) [of soc] by (simp add: twai_read_def Let_def)

lemma wdt_config0_read_ok: "soc_ok soc \<Longrightarrow> soc_ok (snd (wdt_config0_read soc))"
  by (simp add: wdt_config0_read_def Let_def)

lemma length_sha_block: "length h = 8 \<Longrightarrow> length (sha_block msg k h) = 8"
  by (simp add: sha_block_def split_beta)

lemma digest_ok: "sha_ok s \<Longrightarrow> sha_ok (snd (esp32_sha_digest_word i s))"
proof -
  have "length (fold (\<lambda>i. sha_block (sha_msg s) (64 * i)) [0..<n] sha_h0) = 8" for n
    by (rule fold_invariant) (simp_all add: sha_h0_def length_sha_block)
  then show "sha_ok s \<Longrightarrow> sha_ok (snd (esp32_sha_digest_word i s))"
    by (simp add: esp32_sha_digest_word_def Let_def sha_ok_def)
qed

lemma misc_read_ok: "soc_ok soc \<Longrightarrow> soc_ok (snd (misc_read off soc))"
proof -
  assume ok: "soc_ok soc"
  have "sha_ok (s\<lparr>sha_reset_pending := b\<rparr>) = sha_ok s" for s b
    by (simp add: sha_ok_def)
  then have "soc_ok (snd (sha_read k soc))" for k
    using soc_ok_put(13) [OF ok] digest_ok [OF soc_okD(13) [OF ok]] by (simp add: sha_read_def split_beta)
  then show ?thesis
    using ok by (auto simp: misc_read_def split: option.splits)
qed

text \<open>The two registers that read behind the third channel.\<close>

definition gdma_gap :: "nat set" where
  "gdma_gap = {0x3F2B0, 0x3F2B4}"

lemma fault_branch:
  "(if a then Inr w else if b then Inr x else if c then Inr y else if d then Inl u else Inr z) = Inl e
    \<longleftrightarrow> \<not> a \<and> \<not> b \<and> \<not> c \<and> d \<and> u = e"
  by simp

lemma gdma_read_faults:
  assumes "o1 < 0x2C0"
  shows "(\<exists>e. gdma_read o1 soc = Inl e) \<longleftrightarrow> o1 = 0x2B0 \<or> o1 = 0x2B4"
    and "gdma_read o1 soc = Inl e \<Longrightarrow> e = Undefined_access"
proof -
  define c where "c = (o1 - 0x70) div 0xC0"
  define r where "r = o1 - 0x70 - c * 0xC0"
  have branch: "gdma_read o1 soc = Inl e \<longleftrightarrow>
      \<not> o1 < 3 * 0x10 \<and> \<not> o1 < 0x70 \<and> \<not> c < 3 \<and> (r = 0x00 \<or> r = 0x04) \<and> Undefined_access = e" for e
    unfolding gdma_read_def Let_def c_def [symmetric] r_def [symmetric] by (rule fault_branch)
  have key: "gdma_read o1 soc = Inl e \<longleftrightarrow> (o1 = 0x2B0 \<or> o1 = 0x2B4) \<and> Undefined_access = e" for e
  proof (cases "o1 < 0x2B0")
    case True
    then have "c < 3"
      by (simp add: c_def div_less_iff_less_mult)
    with True branch show ?thesis by simp
  next
    case False
    then have c: "c = 3"
      using assms by (simp add: c_def div_nat_eqI)
    then have "r = o1 - 0x2B0"
      by (simp add: r_def)
    then have "r = 0x00 \<longleftrightarrow> o1 = 0x2B0" and "r = 0x04 \<longleftrightarrow> o1 = 0x2B4"
      using False by linarith+
    moreover have "\<not> o1 < 3 * 0x10" and "\<not> o1 < 0x70" and "\<not> c < 3"
      using False c by simp_all
    ultimately show ?thesis
      unfolding branch by blast
  qed
  show "(\<exists>e. gdma_read o1 soc = Inl e) \<longleftrightarrow> o1 = 0x2B0 \<or> o1 = 0x2B4"
    and "gdma_read o1 soc = Inl e \<Longrightarrow> e = Undefined_access"
    by (simp_all add: key)
qed

lemma peripheral_read_ok:
  assumes "soc_ok soc"
  shows "(case peripheral_read off soc of Inl e \<Rightarrow> off \<in> gdma_gap \<and> e = Undefined_access | Inr (v, soc') \<Rightarrow> soc_ok soc')"
proof -
  consider "off < 0x1000" | "0x10000 \<le> off \<and> off < 0x11000" | "0x3F000 \<le> off \<and> off < 0x3F2C0"
    | "\<not> off < 0x1000" "\<not> (0x10000 \<le> off \<and> off < 0x11000)" "\<not> (0x3F000 \<le> off \<and> off < 0x3F2C0)"
    by blast
  then show ?thesis
  proof cases
    case 1
    then show ?thesis
      using uart_read_ok [OF assms, of 0 off] by (auto simp: peripheral_read_def)
  next
    case 2
    then show ?thesis
      using uart_read_ok [OF assms, of 1 "off - 0x10000"] by (auto simp: peripheral_read_def)
  next
    case 3
    then have "off - 0x3F000 < 0x2C0" by linarith
    note faults = gdma_read_faults [OF this, of soc]
    have "peripheral_read off soc = obind (gdma_read (off - 0x3F000) soc) (\<lambda>v. Inr (v, soc))"
      using 3 by (simp add: peripheral_read_def)
    then show ?thesis
      using faults assms 3 by (cases "gdma_read (off - 0x3F000) soc") (auto simp: gdma_gap_def)
  next
    case 4
    note reads = i2c_read_ok [OF assms] twai_read_ok [OF assms] wdt_config0_read_ok [OF assms] misc_read_ok [OF assms]
    have inr: "case Inr p of Inl e \<Rightarrow> off \<in> gdma_gap \<and> e = Undefined_access | Inr (v, soc') \<Rightarrow> soc_ok soc'"
      if "soc_ok (snd p)" for p :: "u32 \<times> soc_t"
      using that by (simp add: split_beta)
    have if_Inr: "(if b then Inr x else Inr y) = Inr (if b then x else y)" for b and x y :: "u32 \<times> soc_t"
      by simp
    have if_snd: "snd (if b then x else y) = (if b then snd x else snd y)" for b and x y :: "u32 \<times> soc_t"
      by simp
    have ok_if: "soc_ok (if b then x else y) = (if b then soc_ok x else soc_ok y)" for b x y
      by simp
    show ?thesis
      unfolding peripheral_read_def if_not_P [OF 4(1)] if_not_P [OF 4(2)] if_not_P [OF 4(3)] if_Inr
      by (rule inr) (simp only: if_snd ok_if snd_conv reads assms if_cancel)
  qed
qed

section \<open>Writes\<close>

lemma obind_ok:
  assumes "\<And>x. m = Inr x \<Longrightarrow> obind (Inr x) f = Inr y \<Longrightarrow> P y" and "obind m f = Inr y"
  shows "P y"
  using assms by (cases m) auto

lemma length_set_reg_bytes [simp]: "length (set_reg_bytes base bs regs) = length regs"
proof -
  have "length (fold (\<lambda>i. set_reg_byte base i (bs ! i)) is regs) = length regs" for "is"
    by (rule fold_invariant [of "\<lambda>r. length r = length regs"]) (simp_all add: set_reg_byte_def Let_def)
  then show ?thesis by (simp add: set_reg_bytes_def)
qed

lemma length_process_buf: "esp32c3_aes_process_buf bytes n regs = Inr (regs', out) \<Longrightarrow> length regs' = length regs"
  by (auto simp: esp32c3_aes_process_buf_def Let_def split_beta split: if_splits)

lemma length_aes_run: "esp32c3_aes_run regs = Inr regs' \<Longrightarrow> length regs' = length regs"
  by (auto simp: esp32c3_aes_run_def obind_Inr_iff dest!: length_process_buf)

lemma run_aes_ok: "run_aes bytes n soc = Inr (out, soc') \<Longrightarrow> soc_ok soc \<Longrightarrow> soc_ok soc'"
  by (auto simp: run_aes_def obind_Inr_iff soc_okD intro!: soc_ok_put dest!: length_process_buf)

lemma clear_owner_ok: "clear_owner d soc = Inr soc' \<Longrightarrow> soc_ok soc' = soc_ok soc"
  by (auto simp: clear_owner_def obind_Inr_iff dest: buffer_write_ok)

lemma clear_owner_at_ok: "clear_owner_at a soc = Inr soc' \<Longrightarrow> soc_ok soc' = soc_ok soc"
  by (auto simp: clear_owner_at_def split: option.splits dest: clear_owner_ok)

lemma scatter_ok: "scatter_bytes bs a soc = Inr soc' \<Longrightarrow> soc_ok soc' = soc_ok soc"
  by (induction bs arbitrary: a soc) (auto simp: obind_Inr_iff split: option.splits dest: buffer_write_ok)

lemma aes_run_dma_ok:
  assumes "esp32c3_aes_run_dma c soc = Inr soc'" and "soc_ok soc"
  shows "soc_ok soc'"
  using assms
  by (auto simp: esp32c3_aes_run_dma_def obind_Inr_iff Let_def run_aes_ok clear_owner_ok scatter_ok
      split: option.splits if_splits)

lemma aes_write_ok: "aes_write o1 val soc = Inr soc' \<Longrightarrow> soc_ok soc \<Longrightarrow> soc_ok soc'"
proof -
  assume run: "aes_write o1 val soc = Inr soc'" and ok: "soc_ok soc"
  have trigger: "soc_ok s'" if "trigger_aes s = Inr s'" "soc_ok s" for s s'
    using that by (auto simp: trigger_aes_def obind_Inr_iff soc_okD split: option.splits
        intro!: soc_ok_put dest!: length_aes_run dest: aes_run_dma_ok)
  have put: "soc_ok (s\<lparr>aes_reg := r\<rparr>)" if "soc_ok s" "length r = 64" for s r
    using that by (rule soc_ok_put)
  show ?thesis
  proof (cases "o1 = 0x48")
    case True
    have "soc_ok (soc\<lparr>aes_reg := reg_put o1 val (aes_reg soc)\<rparr>)"
      by (intro put ok) (simp add: soc_okD(9) [OF ok])
    then show ?thesis
      using run True by (auto simp: aes_write_def Let_def obind_Inr_iff soc_okD intro!: put dest: trigger)
  next
    case False
    then show ?thesis
      using run ok by (auto simp: aes_write_def Let_def soc_okD intro!: put split: if_splits)
  qed
qed

lemma i2s_write_ok: "soc_ok soc \<Longrightarrow> soc_ok (i2s_write o1 val soc)"
  by (simp add: i2s_write_def Let_def soc_ok_put soc_okD)

lemma putc_ok: "soc_ok soc \<Longrightarrow> soc_ok (esp32_uart_putc c soc)"
  unfolding esp32_uart_putc_def Let_def by (intro soc_ok_put) (auto simp: soc_ok_def uart_ok_def)

lemma uart_write_ok:
  assumes ok: "soc_ok soc" and p: "p < 2"
  shows "\<exists>soc'. uart_write p o1 val soc = Inr soc' \<and> soc_ok soc'"
proof -
  have loop: "\<exists>soc'. uart_loopback p b s = Inr soc' \<and> soc_ok soc'" if "soc_ok s" for s b
    using push_contract [OF soc_ok_port [OF that p], of b] that
    by (auto simp: uart_loopback_def Let_def soc_ok_set_port)
  have sent: "port_ok (u\<lparr>tx_cnt := n, tx_idle := i\<rparr>) = port_ok u" "port_ok (u\<lparr>tx_idle := i\<rparr>) = port_ok u"
      "port_ok (u\<lparr>tx_cnt := n\<rparr>) = port_ok u" for u n i
    by (simp_all add: port_ok_def)
  show ?thesis
  proof (cases "o1 = 0x00")
    case True
    define s where "s = (if p = 0 then esp32_uart_putc (ucast (val AND 0xFF)) soc else soc)"
    define u where "u = (if tx_cnt (port_of p s) < 128 then port_of p s\<lparr>tx_cnt := tx_cnt (port_of p s) + 1\<rparr> else port_of p s)"
    have s: "soc_ok s"
      using ok by (simp add: s_def putc_ok)
    then have u: "soc_ok (set_port p (u\<lparr>tx_idle := 0\<rparr>) s)"
      using soc_ok_port [OF s p] by (intro soc_ok_set_port) (simp_all add: u_def sent)
    have "uart_write p o1 val soc = (let s = set_port p (u\<lparr>tx_idle := 0\<rparr>) s in
        if mmio_at s (uart_base p + 0x20) AND push_bit 14 1 \<noteq> 0 then uart_loopback p (ucast (val AND 0xFF)) s else Inr s)"
      unfolding uart_write_def Let_def s_def [symmetric] u_def [symmetric] using True by (simp only: if_True refl)
    then show ?thesis
      using loop [OF u] u by (simp add: Let_def)
  next
    case False
    then show ?thesis
      using ok by (simp add: uart_write_def Let_def)
  qed
qed

lemma i2c_ok_upd:
  "i2c_ok d \<Longrightarrow> length r = 128 \<Longrightarrow> i2c_ok (d\<lparr>i2c_reg := r\<rparr>)"
  "i2c_ok d \<Longrightarrow> i2c_ok (d\<lparr>i2c_scl_rst_cnt := n\<rparr>)"
  "i2c_ok d \<Longrightarrow> n \<le> 32 \<Longrightarrow> i2c_ok (d\<lparr>i2c_tx_len := n\<rparr>)"
  "i2c_ok d \<Longrightarrow> i2c_ok (d\<lparr>i2c_rx_len := 0, i2c_rx_pos := 0\<rparr>)"
  "i2c_ok d \<Longrightarrow> length f = 32 \<Longrightarrow> n \<le> 32 \<Longrightarrow> i2c_ok (d\<lparr>i2c_tx_fifo := f, i2c_tx_len := n\<rparr>)"
  "i2c_ok d \<Longrightarrow> i2c_ok (d\<lparr>i2c_transfer_pending := b, i2c_slave_active := b2, i2c_slave_rw := b3\<rparr>)"
  "i2c_ok d \<Longrightarrow> i2c_ok (d\<lparr>i2c_transfer_pending := b, i2c_slave_active := b2\<rparr>)"
  by (simp_all add: i2c_ok_def)

lemma i2c_write_ok: "soc_ok soc \<Longrightarrow> soc_ok (i2c_write o1 val soc)"
proof -
  assume ok: "soc_ok soc"
  have d: "i2c_ok (i2c soc)" and put: "i2c_ok d \<Longrightarrow> soc_ok (soc\<lparr>i2c := d\<rparr>)" for d
    using ok by (simp_all add: soc_okD soc_ok_put)
  have r: "length ((i2c_reg (i2c soc))[k := v]) = 128" for k v
    using d by (simp add: i2c_ok_def)
  have reg: "i2c_ok (i2c soc\<lparr>i2c_reg := (i2c_reg (i2c soc))[k := v]\<rparr>)" for k v
    by (rule i2c_ok_upd(1) [OF d r])
  have cnt: "soc_ok s \<Longrightarrow> soc_ok (s\<lparr>i2c := (i2c s)\<lparr>i2c_scl_rst_cnt := n\<rparr>\<rparr>)" for s n
    by (intro soc_ok_put i2c_ok_upd) (simp_all add: soc_okD)
  have fifo: "length (i2c_tx_fifo (i2c soc)) = 32"
    using d by (simp add: i2c_ok_def)
  consider "o1 = 0x24" | "o1 = 0x18" | "o1 = 0x1C" | "o1 = 0x04" | "o1 \<notin> {0x24, 0x18, 0x1C, 0x04}"
    by blast
  then show ?thesis
  proof cases
    case 1
    then show ?thesis
      using put [OF reg] by (simp add: i2c_write_def Let_def)
  next
    case 2
    then show ?thesis
      using put [OF reg] put [OF i2c_ok_upd(3) [OF reg le0]] put [OF i2c_ok_upd(4) [OF reg]]
        put [OF i2c_ok_upd(4) [OF i2c_ok_upd(3) [OF reg le0]]]
      by (simp add: i2c_write_def Let_def)
  next
    case 3
    have "soc_ok (soc\<lparr>i2c := (i2c soc\<lparr>i2c_reg := (i2c_reg (i2c soc))[7 := val]\<rparr>)
        \<lparr>i2c_tx_fifo := (i2c_tx_fifo (i2c soc))[k := b], i2c_tx_len := k + 1\<rparr>\<rparr>)" if "k < 32" for k b
      using that fifo by (intro put i2c_ok_upd(5) [OF reg]) simp_all
    then show ?thesis
      using 3 put [OF reg] by (simp add: i2c_write_def Let_def)
  next
    case 4
    then show ?thesis
      using put [OF reg] put [OF i2c_ok_upd(6) [OF reg]] put [OF i2c_ok_upd(7) [OF reg]]
      by (simp add: i2c_write_def Let_def)
  next
    case 5
    then show ?thesis
      using put [OF reg] cnt [OF put [OF reg]] by (simp add: i2c_write_def Let_def)
  qed
qed

lemma spi2_update_ok [simp]: "soc_ok (esp32c3_spi2_int_update soc) = soc_ok soc"
  by (simp add: esp32c3_spi2_int_update_def)

lemma set_spi2_reg_ok [simp]: "soc_ok (set_spi2_reg k v soc) = soc_ok soc"
  by (simp add: set_spi2_reg_def soc_ok_def spi2_ok_def)

lemma spi2_pending_ok [simp]: "soc_ok (soc\<lparr>spi2 := (spi2 soc)\<lparr>spi2_transfer_pending := b\<rparr>\<rparr>) = soc_ok soc"
  by (simp add: soc_ok_def spi2_ok_def)

lemma spi2_write_ok: "soc_ok soc \<Longrightarrow> soc_ok (spi2_write o1 val soc)"
  by (simp add: spi2_write_def Let_def)

lemma twai_write_ok: "soc_ok soc \<Longrightarrow> soc_ok (twai_write cycle o1 val soc)"
  unfolding twai_write_def Let_def by (intro soc_ok_put) (simp_all add: soc_okD)

lemma last_chan_ok: "soc_ok soc \<Longrightarrow> c < 3 \<Longrightarrow> soc_ok (soc\<lparr>gdma := (gdma soc)\<lparr>gdma_out_last := c\<rparr>\<rparr>)"
  by (simp add: soc_ok_def gdma_ok_def)

lemma if_InrE:
  assumes "(if b then x else y) = Inr z"
  obtains "b" "x = Inr z" | "\<not> b" "y = Inr z"
  using assms by (cases b) auto

lemma option_InrE:
  assumes "(case m of None \<Rightarrow> x | Some a \<Rightarrow> f a) = Inr z"
  obtains "m = None" "x = Inr z" | a where "m = Some a" "f a = Inr z"
  using assms by (cases m) auto

lemma obind_InrE:
  assumes "obind m f = Inr z"
  obtains a where "m = Inr a" "f a = Inr z"
  using assms by (cases m) auto

lemma gdma_write_ok:
  assumes "gdma_write cycle o1 val soc = Inr soc'" and ok: "soc_ok soc"
  shows "soc_ok soc'"
proof -
  define c where "c = (o1 - 0x70) div 0xC0"
  define r where "r = o1 - 0x70 - c * 0xC0"
  have starts: "start_in cycle c ch soc = Inr soc' \<Longrightarrow> soc_ok soc'"
    "start_out cycle c ch soc = Inr soc' \<Longrightarrow> c < 3 \<Longrightarrow> soc_ok soc'" for ch
    using ok by (auto simp: start_in_def start_out_def Let_def obind_Inr_iff last_chan_ok)
  have int: "soc_ok (gdma_int_write o1 val soc)"
    using ok by (simp add: gdma_int_write_def Let_def)
  have "gdma_write cycle o1 val soc = Inr soc'"
    by (rule assms)
  then show ?thesis
    unfolding gdma_write_def Let_def c_def [symmetric] r_def [symmetric]
    by (elim if_InrE) (use ok int starts in \<open>auto dest: starts\<close>)
qed

lemma flash_ok [simp]:
  "soc_ok (window_copy w bs soc) = soc_ok soc" "soc_ok (flash_fill k n soc) = soc_ok soc"
  "soc_ok (flash_program a bs soc) = soc_ok soc" "soc_ok (flash_erase a n soc) = soc_ok soc"
  "soc_ok (set_wel soc) = soc_ok soc" "soc_ok (clear_wel soc) = soc_ok soc"
proof -
  show fill: "soc_ok (flash_fill k n soc) = soc_ok soc" for k n
    by (simp add: flash_fill_def)
  show "soc_ok (window_copy w bs soc) = soc_ok soc"
    unfolding window_copy_def
    by (rule fold_invariant [of "\<lambda>s. soc_ok s = soc_ok soc"]) (simp_all add: window_put_def)
  show "soc_ok (flash_program a bs soc) = soc_ok soc"
    unfolding flash_program_def
    by (rule fold_invariant [of "\<lambda>s. soc_ok s = soc_ok soc"]) (simp_all add: flash_and_def)
  show "soc_ok (flash_erase a n soc) = soc_ok soc"
    by (simp add: flash_erase_def Let_def fill)
  show "soc_ok (set_wel soc) = soc_ok soc" "soc_ok (clear_wel soc) = soc_ok soc"
    by (simp_all add: set_wel_def clear_wel_def)
qed

lemma flash_to_window_ok: "flash_to_window a n w soc = Inr soc' \<Longrightarrow> soc_ok soc' = soc_ok soc"
  by (auto simp: flash_to_window_def obind_Inr_iff split: if_splits)

lemma spiflash_exec_ok: "esp32c3_spiflash_exec cmd a w rn wb soc = Inr soc' \<Longrightarrow> soc_ok soc' = soc_ok soc"
  unfolding esp32c3_spiflash_exec_def Let_def
  by (elim if_InrE) (auto dest: flash_to_window_ok split: if_splits)

lemma on_bit_ok: "(\<And>s. soc_ok (f s) = soc_ok s) \<Longrightarrow> soc_ok (on_bit n val f soc) = soc_ok soc"
  by (simp add: on_bit_def)

lemma page_program_ok: "soc_ok (page_program w a soc) = soc_ok soc"
  by (simp add: page_program_def Let_def)

lemma dedicated_write_ok: "dedicated_write base val soc = Inr soc' \<Longrightarrow> soc_ok soc' = soc_ok soc"
  unfolding dedicated_write_def Let_def
  by (auto simp: obind_Inr_iff on_bit_ok page_program_ok split: if_splits dest!: flash_to_window_ok)

lemma spi_flash_write_ok: "spi_flash_write off val soc = Inr soc' \<Longrightarrow> soc_ok soc' = soc_ok soc"
  by (auto simp: spi_flash_write_def Let_def obind_Inr_iff user_write_def
      split: if_splits dest!: dedicated_write_ok spiflash_exec_ok)

lemma gpio_write_ok [simp]: "soc_ok (gpio_write o1 val soc) = soc_ok soc"
proof -
  have edge: "soc_ok (esp32c3_gpio_edge_check live s) = soc_ok s" for live s
    unfolding esp32c3_gpio_edge_check_def
    using fold_invariant [of "\<lambda>t. soc_ok t = soc_ok s" s "edge_check_pin live" "[0..<22]"]
    by (simp add: edge_check_pin_def latch_pin_def Let_def)
  then have "soc_ok (gpio_settle s) = soc_ok s" for s
    by (simp add: gpio_settle_def report_pins_def Let_def)
  then show ?thesis
    by (simp add: gpio_write_def Let_def split: option.splits)
qed

lemma adc_write_ok: "soc_ok soc \<Longrightarrow> soc_ok (adc_write o1 val soc)"
  by (simp add: adc_write_def Let_def soc_ok_put soc_okD)

lemma ledc_write_ok: "soc_ok soc \<Longrightarrow> soc_ok (ledc_write cycle o1 val soc)"
  unfolding ledc_write_def Let_def
  by (intro soc_ok_put) (auto simp: ledc_ok_def soc_okD(7) [unfolded ledc_ok_def] split: option.splits)

lemma length_timg_put [simp]: "length (timg_reg (timg_put k v t)) = length (timg_reg t)"
  by (simp add: timg_put_def)

lemma length_drop_wdt [simp]: "length (timg_reg (drop_wdt_raw t)) = length (timg_reg t)"
  by (simp add: drop_wdt_raw_def)

lemma length_calibrate [simp]: "length (timg_reg (rtc_calibrate val t)) = length (timg_reg t)"
  by (simp add: rtc_calibrate_def Let_def)

lemma timg_write_ok: "soc_ok soc \<Longrightarrow> g < 2 \<Longrightarrow> soc_ok (timg_write cycle g o1 val soc)"
  by (simp add: timg_write_def Let_def soc_ok_set_group soc_ok_group)

lemma timer_writes_ok [simp]:
  "soc_ok (rmt_write cycle o1 val soc) = soc_ok soc" "soc_ok (timg_rest_write off val soc) = soc_ok soc"
  "soc_ok (systimer_write o1 val soc) = soc_ok soc"
  by (simp_all add: rmt_write_def timg_rest_write_def systimer_write_def unit_op_def Let_def split: option.splits)

lemma intc_write_ok: "soc_ok soc \<Longrightarrow> soc_ok (intc_write o1 val soc)"
proof -
  assume ok: "soc_ok soc"
  have put: "soc_ok s \<Longrightarrow> soc_ok (s\<lparr>intc := (intc s)\<lparr>intc_intmap := (intc_intmap (intc s))[k := v]\<rparr>\<rparr>)"
    "soc_ok s \<Longrightarrow> soc_ok (s\<lparr>intc := (intc s)\<lparr>intc_eip := w\<rparr>\<rparr>)"
    "soc_ok s \<Longrightarrow> soc_ok (s\<lparr>intc := (intc s)\<lparr>intc_enable := w\<rparr>\<rparr>)"
    "soc_ok s \<Longrightarrow> soc_ok (s\<lparr>intc := (intc s)\<lparr>intc_type := w\<rparr>\<rparr>)" for s k v w
    by (simp_all add: soc_ok_put soc_okD)
  have "soc_ok s \<Longrightarrow> soc_ok (fold (\<lambda>s soc. if P s soc then irq_clear s soc else soc) xs s)" for s P xs
    by (rule fold_invariant) simp_all
  then show ?thesis
    using ok by (simp add: intc_write_def Let_def put)
qed

lemma feed_ok: "sha_ok s \<Longrightarrow> sha_ok (esp32_sha_feed_word v s)"
  by (auto simp: sha_ok_def esp32_sha_feed_word_def Let_def)

lemma misc_write_ok: "soc_ok soc \<Longrightarrow> soc_ok (misc_write off val soc)"
proof -
  assume ok: "soc_ok soc"
  have "sha_ok ((esp32_sha_reset s)\<lparr>sha_reset_pending := b\<rparr>)" if "sha_ok s" for s b
    using that by (simp add: sha_ok_def esp32_sha_reset_def)
  then show ?thesis
    using ok by (simp add: misc_write_def Let_def soc_ok_put soc_okD feed_ok)
qed

lemma Inr_ok: "Inr s = (Inr s' :: soc_t outcome) \<Longrightarrow> soc_ok s \<Longrightarrow> soc_ok s'"
  by simp

lemma peripheral_write_ok:
  assumes run: "peripheral_write cycle off val soc = Inr soc'" and ok: "soc_ok soc"
  shows "soc_ok soc'"
proof -
  have uart: "uart_write 0 o1 val soc = Inr soc' \<Longrightarrow> soc_ok soc'" "uart_write 1 o1 val soc = Inr soc' \<Longrightarrow> soc_ok soc'" for o1
    using uart_write_ok [OF ok, of 0 o1 val] uart_write_ok [OF ok, of 1 o1 val] by auto
  have flash: "spi_flash_write off val soc = Inr soc' \<Longrightarrow> soc_ok soc'"
    using ok by (simp add: spi_flash_write_ok)
  have rest: "soc_ok (if b then timg_rest_write k val soc else systimer_write k' val soc)" for b k k'
    using ok by simp
  note total = i2s_write_ok i2c_write_ok spi2_write_ok twai_write_ok adc_write_ok ledc_write_ok intc_write_ok misc_write_ok
  have frame: "soc_ok (gpio_write o1 val soc)" "soc_ok (mmio_put o1 val soc)" "soc_ok (rmt_write cycle o1 val soc)"
      "soc_ok (timg_write cycle 0 o1 val soc)" "soc_ok (timg_write cycle 1 o1 val soc)" for o1
    using ok by (simp_all add: timg_write_ok)
  show ?thesis
    using run unfolding peripheral_write_def
    by (elim if_InrE)
      ((erule aes_write_ok [OF _ ok] | erule gdma_write_ok [OF _ ok] | erule uart | erule flash
        | (erule Inr_ok, (rule frame | rule rest | rule total [OF ok])))+)
qed

section \<open>Passing time\<close>

lemma uart_ok_host: "uart_ok (u\<lparr>rx_host := h\<rparr>) = uart_ok u"
  by (simp add: uart_ok_def)

lemma periodic_uart_ok: "soc_ok soc \<Longrightarrow> soc_ok (periodic_uart cycle soc)"
proof -
  assume ok: "soc_ok soc"
  have "soc_ok (esp32c3_uart_rx_poll soc)"
  proof (cases "rx_host (uart soc)")
    case (Some hs)
    obtain u where u: "rx_poll_loop hs (port_of 0 soc) = (u, drop (127 - length (rx_content (port_of 0 soc))) hs)" "port_ok u"
      using poll_contract [OF soc_ok_port [OF ok], of 0 hs] by auto
    have "soc_ok (set_port 0 u soc)"
      using ok u(2) by (rule soc_ok_set_port)
    then show ?thesis
      using Some u(1) by (simp add: esp32c3_uart_rx_poll_def uart_ok_host soc_okD soc_ok_put)
  qed (simp add: esp32c3_uart_rx_poll_def ok)
  then show ?thesis
    using ok by (simp add: periodic_uart_def Let_def)
qed

lemma periodic_systimer_ok [simp]: "soc_ok (periodic_systimer cycle soc) = soc_ok soc"
  by (simp add: periodic_systimer_def Let_def raise_target_def split_beta)

lemma length_fold_put [simp]: "length (fold (\<lambda>i m. m[f i := v i]) xs m) = length m"
  by (induction xs arbitrary: m) simp_all

lemma i2c_dev_ok:
  "i2c_ok d \<Longrightarrow> i2c_ok (i2c_dev_read p d)" "i2c_ok d \<Longrightarrow> i2c_ok (i2c_dev_write d)"
  by (simp_all add: i2c_ok_def i2c_dev_read_def i2c_dev_write_def Let_def)

lemma i2c_ok_reg: "i2c_ok d \<Longrightarrow> i2c_ok (d\<lparr>i2c_reg := reg_put o1 v (i2c_reg d)\<rparr>)"
  by (simp add: i2c_ok_def)

lemma i2c_finish_ok: "i2c_ok d \<Longrightarrow> i2c_ok (i2c_finish d)"
proof -
  have close: "i2c_ok d \<Longrightarrow> i2c_ok (d\<lparr>i2c_reg := reg_put o1 v (i2c_reg d), i2c_tx_len := 0\<rparr>)" for d o1 v
    by (simp add: i2c_ok_def)
  have begin': "i2c_ok d \<Longrightarrow> i2c_ok (d\<lparr>i2c_transfer_pending := False\<rparr>)" for d
    by (simp add: i2c_ok_def)
  have if_ok: "i2c_ok x \<Longrightarrow> i2c_ok y \<Longrightarrow> i2c_ok (if b then x else y)" for b x y
    by simp
  show "i2c_ok d \<Longrightarrow> i2c_ok (i2c_finish d)"
    unfolding i2c_finish_def Let_def by (intro close if_ok i2c_ok_reg i2c_dev_ok begin') assumption+
qed

lemma periodic_i2c_ok: "soc_ok soc \<Longrightarrow> soc_ok (periodic_i2c soc)"
  by (simp add: periodic_i2c_def Let_def soc_ok_put i2c_finish_ok soc_okD)

lemma spi2_device_ok: "spi2_ok s \<Longrightarrow> spi2_ok (snd (spi2_device tx s))"
  by (simp add: spi2_device_def Let_def spi2_ok_def)

lemma length_spi2_response [simp]: "length (spi2_response rx regs) = length regs"
  unfolding spi2_response_def by (simp add: fold_invariant [of "\<lambda>r. length r = length regs"])

lemma mirror_rx_ok: "mirror_rx rx c soc = Inr soc' \<Longrightarrow> soc_ok soc' = soc_ok soc"
  unfolding mirror_rx_def Let_def by (elim if_InrE option_InrE obind_InrE) (auto dest: buffer_write_ok)

lemma periodic_spi2_ok:
  assumes "periodic_spi2 fuel soc = Inr soc'" and ok: "soc_ok soc"
  shows "soc_ok soc'"
proof -
  have "soc_ok (soc\<lparr>spi2 := s\<lparr>spi2_reg := spi2_response rx (spi2_reg s)\<rparr>\<rparr>)" if "spi2_ok s" for rx s
    using that by (intro soc_ok_put ok) (simp add: spi2_ok_def)
  moreover have "spi2_ok (snd (spi2_device tx (spi2 soc\<lparr>spi2_transfer_pending := False\<rparr>)))" for tx
    using soc_okD(3) [OF ok] by (intro spi2_device_ok) (simp add: spi2_ok_def)
  ultimately show ?thesis
    using assms by (auto simp: periodic_spi2_def Let_def obind_Inr_iff mirror_rx_ok split_beta split: if_splits)
qed

lemma length_twai_regs [simp]: "length (twai_reg (set_twai_regs ws t)) = length (twai_reg t)"
  unfolding set_twai_regs_def
  by simp (rule fold_invariant [of "\<lambda>r. length r = length (twai_reg t)"], simp_all add: split_beta)

lemma periodic_twai_ok:
  "soc_ok soc \<Longrightarrow> soc_ok (periodic_twai_tx cycle soc)" "soc_ok soc \<Longrightarrow> soc_ok (periodic_twai_rx cycle soc)"
  by (simp_all add: periodic_twai_tx_def periodic_twai_rx_def Let_def soc_ok_put soc_okD)

lemma m2m_copy_ok: "m2m_copy c soc = Inr soc' \<Longrightarrow> soc_ok soc \<Longrightarrow> soc_ok soc'"
proof -
  have aes: "soc_ok (s\<lparr>aes_reg := (aes_reg s)[k := v]\<rparr>)" if "soc_ok s" for s k v
    using that by (simp add: soc_ok_put soc_okD)
  show "m2m_copy c soc = Inr soc' \<Longrightarrow> soc_ok soc \<Longrightarrow> soc_ok soc'"
    by (auto simp: m2m_copy_def Let_def obind_Inr_iff buffer_write_ok
        intro!: aes dest!: run_aes_ok split: option.splits if_splits)
qed

lemma m2m_walk_ok: "m2m_walk k c a b soc = Inr soc' \<Longrightarrow> soc_ok soc \<Longrightarrow> soc_ok soc'"
proof (induction k arbitrary: a b soc)
  case (Suc k)
  from Suc.prems show ?case
    by (auto simp: obind_Inr_iff Let_def clear_owner_at_ok split: if_splits option.splits
        dest!: m2m_copy_ok Suc.IH)
qed simp

lemma raise_eof_ok [simp]: "soc_ok (raise_eof n c soc) = soc_ok soc"
  by (simp add: raise_eof_def)

lemma fill_counter_ok: "fill_counter c soc = Inr soc' \<Longrightarrow> soc_ok soc' = soc_ok soc"
  by (auto simp: fill_counter_def Let_def obind_Inr_iff split: option.splits if_splits dest: buffer_write_ok)

lemma gdma_complete_ok: "gdma_complete fuel cycle c soc = Inr soc' \<Longrightarrow> soc_ok soc \<Longrightarrow> soc_ok soc'"
proof -
  have retire: "retire_spi c s = Inr s' \<Longrightarrow> soc_ok s \<Longrightarrow> soc_ok s'" for s s'
    by (auto simp: retire_spi_def Let_def obind_Inr_iff clear_owner_at_ok split: if_splits)
  have pair: "finish_pair fuel c s = Inr s' \<Longrightarrow> soc_ok s \<Longrightarrow> soc_ok s'" for s s'
    by (auto simp: finish_pair_def Let_def obind_Inr_iff dest: m2m_walk_ok)
  have out: "finish_out cycle c s = Inr s' \<Longrightarrow> soc_ok s \<Longrightarrow> soc_ok s'" for s s'
    by (auto simp: finish_out_def Let_def obind_Inr_iff clear_owner_at_ok split: if_splits option.splits)
  have in': "finish_in cycle c s = Inr s' \<Longrightarrow> soc_ok s \<Longrightarrow> soc_ok s'" for s s'
    by (auto simp: finish_in_def Let_def obind_Inr_iff clear_owner_at_ok fill_counter_ok split: if_splits option.splits)
  show "gdma_complete fuel cycle c soc = Inr soc' \<Longrightarrow> soc_ok soc \<Longrightarrow> soc_ok soc'"
    unfolding gdma_complete_def Let_def by (elim if_InrE obind_InrE) (auto dest!: retire pair out in')
qed

lemma periodic_gdma_ok: "periodic_gdma fuel cycle soc = Inr soc' \<Longrightarrow> soc_ok soc \<Longrightarrow> soc_ok soc'"
  by (auto simp: periodic_gdma_def obind_Inr_iff dest!: gdma_complete_ok)

lemma ledc_level_ok: "ledc_ok d \<Longrightarrow> ledc_ok (snd (ledc_level cycle c d))"
  by (simp add: ledc_level_def Let_def ledc_ok_def)

lemma drive_pin_ok [simp]: "soc_ok (drive_pin c level p soc) = soc_ok soc"
  by (simp add: drive_pin_def)

lemma drive_channel_ok: "soc_ok soc \<Longrightarrow> soc_ok (drive_channel cycle c soc)"
proof -
  assume ok: "soc_ok soc"
  have "soc_ok (soc\<lparr>ledc := snd (ledc_level cycle c (ledc soc))\<rparr>)"
    by (rule soc_ok_put(7) [OF ok ledc_level_ok [OF soc_okD(7) [OF ok]]])
  then show ?thesis
    unfolding drive_channel_def split_beta Let_def by (rule fold_invariant) simp
qed

lemma periodic_ledc_ok: "soc_ok soc \<Longrightarrow> soc_ok (periodic_ledc cycle soc)"
  unfolding periodic_ledc_def by (erule fold_invariant) (rule drive_channel_ok)

lemma periodic_gpio_ok: "soc_ok soc \<Longrightarrow> soc_ok (periodic_gpio soc)"
  unfolding periodic_gpio_def Let_def
  by (rule fold_invariant) (simp_all add: level_check_pin_def latch_pin_def Let_def)

lemma periodic_rmt_ok [simp]: "soc_ok (periodic_rmt cycle soc) = soc_ok soc"
  by (simp add: periodic_rmt_def)

lemma length_timg_count [simp]: "length (timg_reg (timg_count cycle t)) = length (timg_reg t)"
  by (simp add: timg_count_def Let_def)

lemma periodic_timg_ok:
  assumes "soc_ok soc" and "g < 2"
  shows "soc_ok (periodic_timg cycle g soc)" "soc_ok (periodic_wdt cycle g soc)"
  using assms by (simp_all add: periodic_timg_def periodic_wdt_def Let_def soc_ok_set_group soc_ok_group)

lemma periodic_ok:
  assumes "esp32c3_periodic fuel cycle soc = Inr soc'" and "soc_ok soc"
  shows "soc_ok soc'"
  using assms
  by (auto simp: esp32c3_periodic_def obind_Inr_iff Let_def periodic_timg_ok periodic_gpio_ok periodic_ledc_ok
      dest!: periodic_spi2_ok periodic_gdma_ok intro!: periodic_twai_ok periodic_i2c_ok periodic_uart_ok)

section \<open>Reachable states\<close>

text \<open>
  One call of the interpreter: a read of a register or of RAM by any of the read callbacks, a write by any
  of the write callbacks at the current cycle, or the periodic work.
\<close>

inductive soc_step :: "soc_t \<Rightarrow> soc_t \<Rightarrow> bool" where
  read_w: "esp32_read_w soc addr = Inr (soc', v) \<Longrightarrow> soc_step soc soc'"
| read_s: "esp32_read_s soc addr = Inr (soc', h) \<Longrightarrow> soc_step soc soc'"
| read_b: "esp32_read_b soc addr = Inr (soc', b) \<Longrightarrow> soc_step soc soc'"
| write_w: "esp32_write_w cycle soc addr v = Inr soc' \<Longrightarrow> soc_step soc soc'"
| write_s: "esp32_write_s cycle soc addr h = Inr soc' \<Longrightarrow> soc_step soc soc'"
| write_b: "esp32_write_b cycle soc addr b = Inr soc' \<Longrightarrow> soc_step soc soc'"
| time: "esp32c3_periodic fuel cycle soc = Inr soc' \<Longrightarrow> soc_step soc soc'"

inductive soc_reachable :: "soc_t \<Rightarrow> bool" where
  new: "esp32c3_new rom_bin rodata_bin sram_bin hook host = Inr soc \<Longrightarrow> soc_reachable soc"
| step: "soc_reachable soc \<Longrightarrow> soc_step soc soc' \<Longrightarrow> soc_reachable soc'"

inductive_cases soc_stepE: "soc_step soc soc'"

lemma new_ok: "esp32c3_new rom_bin rodata_bin sram_bin hook host = Inr soc \<Longrightarrow> soc_ok soc"
  by (auto simp: esp32c3_new_def soc_ok_def uart_ok_def i2c_ok_def spi2_ok_def gdma_ok_def ledc_ok_def timgs_ok_def
      sha_ok_def sha_init_def zero_timg_def zero_uart_port_def port_ok_def split: if_splits)

lemma mmio_read_ok: "esp32_mmio_read addr soc = Inr (v, soc') \<Longrightarrow> soc_ok soc \<Longrightarrow> soc_ok soc'"
  using peripheral_read_ok [of soc "unat (addr - 0x60000000)"] by (auto simp: esp32_mmio_read_def split: if_splits)

lemma mmio_write_ok: "esp32_mmio_write cycle addr v soc = Inr soc' \<Longrightarrow> soc_ok soc \<Longrightarrow> soc_ok soc'"
  by (auto simp: esp32_mmio_write_def split: if_splits dest: peripheral_write_ok)

lemmas bus_defs = esp32_read_w_def esp32_read_s_def esp32_read_b_def esp32_write_w_def esp32_write_s_def esp32_write_b_def

lemma soc_step_ok: "soc_step soc soc' \<Longrightarrow> soc_ok soc \<Longrightarrow> soc_ok soc'"
  by (erule soc_stepE)
    (auto simp: bus_defs obind_Inr_iff buffer_write_ok soc_ok_put soc_okD split: option.splits if_splits
      dest: mmio_read_ok mmio_write_ok periodic_ok)

lemma blank_new: "\<exists>soc. esp32c3_new [] [] [] False None = Inr soc"
  by (simp add: esp32c3_new_def soc_buffer_size_def)

text \<open>C37: In every state of the ESP32-C3 that construction, the six memory callbacks and the periodic work
  can reach, each register bank has its length and each position that the peripherals keep lies in its
  array: the UART ring positions, the I2C lengths, the SPI identification position, the last DMA channel,
  the number of message bytes of the SHA engine and the length of the console line.\<close>

theorem soc_reachable_ok:
  assumes "soc_reachable soc"
  shows "soc_ok soc"
  using assms by induction (simp_all add: new_ok soc_step_ok)

lemma soc_reachable_ok_witness:
  "\<exists>soc soc'. esp32c3_new [] [] [] False None = Inr soc
    \<and> esp32_write_w 0 soc 0x60000000 0x41 = Inr soc' \<and> soc_ok soc'"
proof -
  obtain soc where soc: "esp32c3_new [] [] [] False None = Inr soc"
    using blank_new by blast
  obtain soc' where soc': "uart_write 0 0 0x41 soc = Inr soc'"
    using uart_write_ok [OF new_ok [OF soc], of 0 0 "0x41"] by auto
  have put: "esp32_write_w 0 soc 0x60000000 0x41 = Inr soc'"
    using soc' by (simp add: esp32_write_w_def esp32c3_dma_ptr_def esp32_find_region_def soc_regions_def
        esp32_mmio_write_def peripheral_write_def)
  have "soc_reachable soc'"
    by (rule soc_reachable.step [OF soc_reachable.new [OF soc] write_w [OF put]])
  then show ?thesis
    using soc put soc_reachable_ok by blast
qed

lemma mmio_read_gap:
  assumes "addr = 0x6003F2B0 \<or> addr = 0x6003F2B4"
  shows "\<exists>e. esp32_mmio_read addr soc = Inl e"
proof -
  obtain o1 where o1: "o1 = 0x2B0 \<or> o1 = 0x2B4" and off: "unat (addr - 0x60000000) = 0x3F000 + o1"
    using assms by (elim disjE) (auto intro: that [of "0x2B0"] that [of "0x2B4"])
  have "peripheral_read (0x3F000 + o1) soc = obind (gdma_read o1 soc) (\<lambda>v. Inr (v, soc))"
    using o1 by (elim disjE) (simp_all add: peripheral_read_def)
  moreover have "esp32_mmio_read addr soc = peripheral_read (0x3F000 + o1) soc"
    using assms by (elim disjE) (simp_all add: esp32_mmio_read_def off [symmetric])
  ultimately show ?thesis
    using gdma_read_faults(1) [of o1 soc] o1 by auto
qed

text \<open>C38: In every reachable state a register read returns a value, except at two addresses: the guard of
  the DMA controller's range lets \<open>0x6003F2B0\<close> and \<open>0x6003F2B4\<close> through, which are the first two
  registers of a fourth channel behind the array of three.\<close>

theorem register_read_faults:
  assumes "soc_reachable soc"
  shows "(\<exists>e. esp32_mmio_read addr soc = Inl e) \<longleftrightarrow> addr = 0x6003F2B0 \<or> addr = 0x6003F2B4"
proof
  have ok: "soc_ok soc"
    using assms by induction (simp_all add: new_ok soc_step_ok)
  assume "\<exists>e. esp32_mmio_read addr soc = Inl e"
  then have "unat (addr - 0x60000000) \<in> gdma_gap"
    using peripheral_read_ok [OF ok, of "unat (addr - 0x60000000)"] by (auto simp: esp32_mmio_read_def split: if_splits)
  then have "addr - 0x60000000 = 0x3F2B0 \<or> addr - 0x60000000 = 0x3F2B4"
    by (auto simp: gdma_gap_def word_unat_eq_iff)
  then show "addr = 0x6003F2B0 \<or> addr = 0x6003F2B4"
    by (auto simp: diff_eq_eq)
next
  assume "addr = 0x6003F2B0 \<or> addr = 0x6003F2B4"
  then show "\<exists>e. esp32_mmio_read addr soc = Inl e"
    by (rule mmio_read_gap)
qed

lemma register_read_faults_witness:
  "\<exists>soc. esp32c3_new [] [] [] False None = Inr soc \<and> (\<exists>v soc'. esp32_mmio_read 0x6003F2A8 soc = Inr (v, soc'))
    \<and> (\<exists>e. esp32_mmio_read 0x6003F2B0 soc = Inl e)"
proof -
  obtain soc where soc: "esp32c3_new [] [] [] False None = Inr soc"
    using blank_new by blast
  note faults = register_read_faults [OF soc_reachable.new [OF soc]]
  have "\<not> (\<exists>e. esp32_mmio_read 0x6003F2A8 soc = Inl e)" and "\<exists>e. esp32_mmio_read 0x6003F2B0 soc = Inl e"
    unfolding faults by simp_all
  then show ?thesis
    using soc by (cases "esp32_mmio_read 0x6003F2A8 soc") auto
qed

end
