(* ===== verification/Spec2Isabelle.thy ===== *)
theory Spec2Isabelle
  imports AssemblerProps DecodeProps CountProps ConstProps TrapProps Pipeline LockstepProps MmuProps VecDispatchProps SocInv
begin

text \<open>
  Verification of the RV32 emulator in \<open>src/src\<close>.

  \<^bold>\<open>The program.\<close> An emulator for RISC-V guests (RV32IMAFC, Zicsr, Zifencei, Zba, Zbb, Zbc, Zbs) with an
  Sv32 MMU. \<open>decode.c\<close> turns instruction words into records (\<open>rv_insn_t\<close>). \<open>emulate.c\<close> fetches and decodes
  the instructions from the program counter on until one that can branch, which makes a basic block
  (\<open>block_translate\<close>), folds constants in it (\<open>rv32_constopt.c\<close>), merges runs of instructions into fused
  ones (\<open>match_pattern\<close>) and enters it into the block cache. Running a block is a chain of handlers
  (\<open>rv32_template.c\<close> under the macro \<open>RVOP\<close>), each calling the next. Handlers reach memory through the
  callbacks of \<open>system.c\<close>, which translate addresses with two TLBs and a page walk; a fault enters the
  guest's trap handler at once (\<open>trap_handler\<close>), which runs instruction by instruction inside the faulting
  access. \<open>rv_step\<close> is the loop around all this, \<open>rv_step_debug\<close> its single-step form.

  \<^bold>\<open>The build.\<close> The scalar definitions translate the configuration with \<open>SYSTEM\<close>, \<open>ELF_LOADER\<close> (so without
  \<open>SYSTEM_MMIO\<close>), \<open>EXT_M\<close>, \<open>EXT_A\<close>, \<open>EXT_F\<close>, \<open>EXT_C\<close>, \<open>Zicsr\<close>, \<open>Zifencei\<close>, \<open>Zba\<close> to \<open>Zbs\<close> and \<open>MOP_FUSION\<close> on and
  \<open>BLOCK_CHAINING\<close>, \<open>JIT\<close>, \<open>T2C\<close>, \<open>GDBSTUB\<close>, \<open>RV32E\<close> and \<open>ARCH_TEST\<close> off, as a native program with assertions and
  without an attached SoC. Diagnostic output is left out.

  \<^bold>\<open>The theories\<close>, in the order of the code:
  \<^item> \<open>Prelude\<close>: machine integers, C's \<open>switch\<close>, outcomes that stop the emulator; \<open>Interfaces\<close>: the contracts
    between components as locales (\<open>cells\<close>, \<open>bus\<close>, \<open>lookup_table\<close>), interpreted in \<open>Hart\<close>, \<open>Csr\<close>, \<open>Memory\<close>,
    \<open>Mmu\<close> and \<open>BlockMap\<close>.
  \<^item> \<open>Insn\<close>, \<open>DecodeFields\<close>, \<open>Decode\<close>: \<open>decode.h\<close> and \<open>decode.c\<close>. \<open>DecodeProps\<close>, \<open>Assembler\<close> and \<open>AssemblerProps\<close>
    prove decoding total up to one assertion, in range, and the inverse of an assembler.
  \<^item> \<open>Memory\<close> (\<open>io.c\<close>), \<open>Hart\<close> (\<open>riscv_private.h\<close>), \<open>Csr\<close> (the CSR file of \<open>emulate.c\<close>), \<open>Tlb\<close> and \<open>Mmu\<close>
    (\<open>system.c\<close>), \<open>Softfp\<close> (\<open>softfp.h\<close>). \<open>MmuProps\<close> shows that the TLBs are transparent, that walks stay inside
    memory and how page faults are served.
  \<^item> \<open>Rvop\<close> is the macro around the handlers; \<open>ExecBase\<close>, \<open>ExecMAF\<close>, \<open>ExecC\<close>, \<open>ExecB\<close> hold one definition
    \<open>do_<name>\<close> per handler \<open>RVOP(<name>)\<close>; \<open>Dispatch\<close> has the fused handlers, the dispatch table and \<open>run_insns\<close>,
    a block run. \<open>AluProps\<close>, \<open>CountProps\<close>, \<open>MemProps\<close>, \<open>FlowProps\<close> and \<open>RegFrame\<close> give the results of the
    handlers; \<open>Samples\<close> has the harts on which properties are instantiated.
  \<^item> \<open>Fusion\<close> and \<open>FuseProps\<close>, \<open>ConstOpt\<close> and \<open>ConstProps\<close>: the two optimisation passes and that they keep what a
    block computes.
  \<^item> \<open>BlockMap\<close>: the block cache, a refinement of a finite map. \<open>Translate\<close>, \<open>TranslateProps\<close>, \<open>Pipeline\<close>: block
    translation, its soundness and termination, and the composition of the passes.
  \<^item> \<open>Trap\<close>, \<open>FuelProps\<close>, \<open>TrapProps\<close>: trap entry, the loop that runs the guest's handler, and that the bound on
    their nesting does not matter. \<open>Step\<close>, \<open>Lockstep\<close>, \<open>LockstepProps\<close>: the main loop, the single step, and that
    running a block is a sequence of single steps.
  \<^item> The vector extension (\<open>rv32_v_template.c\<close>), which the build above switches off and whose handlers stand
    beside it, on the same harts and memory callbacks. \<open>Vunit\<close>: its registers. \<open>Vector\<close>: configuration, element
    access, masks and register checks. \<open>VecOps\<close>: operations on elements. \<open>VecExec\<close> and \<open>VecMem\<close>: the loops of
    the arithmetic instructions and of the loads and stores. \<open>VecDispatch\<close>: the word-at-a-time loops of
    \<open>VECTOR_DISPATCH\<close>. \<open>VecHandlers\<close>: the handlers. \<open>VecConfig\<close> proves what \<open>vsetvl\<close> promises, \<open>VecLanes\<close> that the
    register file is an array of elements of any width (locale \<open>lane_row\<close>), \<open>VecExecProps\<close> what the
    element-wise instructions compute, \<open>VecDispatchProps\<close> that the word-at-a-time loops agree with the loops over
    single elements.
  \<^item> The ESP32-C3 (\<open>esp32c3.c\<close>), which takes the place of guest RAM and MMU when the emulator runs firmware of
    that chip: \<open>soc_t\<close> is \<open>struct esp32c3\<close>. \<open>SocState\<close>: its state and memory map. \<open>Aes\<close> and \<open>Sha\<close>: the two
    cryptographic engines, with the proofs that decryption inverts encryption and that the digest is that of
    FIPS 180-4. \<open>SocRead\<close>, \<open>SocWrite\<close>: the registers of every peripheral; \<open>SocFlash\<close>: flash commands;
    \<open>SocDma\<close>: the DMA controller; \<open>SocPeriodic\<close>: what happens as cycles pass; \<open>SocBus\<close>: the memory callbacks,
    interrupts and booting. \<open>SocUart\<close>: the UART's ring buffer refines a bounded queue (locale
    \<open>bounded_queue\<close>). \<open>SocInv\<close>: the invariant of the reachable states and the reads that leave an array.

  \<^bold>\<open>State and operations.\<close> \<open>riscv_t\<close> is the record of the members of \<open>struct riscv_internal\<close> the code above
  reads, with the file-scope variables of \<open>emulate.c\<close> and \<open>system.c\<close> in \<open>glob\<close>; a handler takes the instruction,
  the cycle counter, the program counter and the hart and returns how the block goes on with the new hart,
  or what stopped the emulator (a failed assertion, undefined behaviour, a branch marked unreachable).
  Callbacks are functions in a record (\<open>riscv_io_t\<close>), tied together in \<open>Trap\<close>.

  \<^bold>\<open>Bounds.\<close> A trap inside a trap handler and repeated fetches are bounded by the argument \<open>n\<close> of \<open>trap_handler\<close>;
  theorem \<open>trap_bound_immaterial\<close> shows that a result does not depend on it. \<open>TRAP_BUDGET\<close> (20000) is the
  source's own bound. The page walk recurs on its level. The walks down
  chains of DMA descriptors are not bounded in the source, and a ring of descriptors never ends, so
  \<open>esp32c3_periodic\<close> takes a bound, and reaching it is the outcome \<open>Out_of_fuel\<close>. Probing, block translation
  and the main loop have no bound in the source and are partial functions; where they end, that is a theorem.

  \<^bold>\<open>Parameters.\<close> The SoftFloat library (a git submodule) is a record of functions, without assumptions on what
  they compute; \<open>syscall.c\<close> is a function on harts; which allocations succeed is a function.

  \<^bold>\<open>Not modelled\<close>: the JIT and its templates, the models of the ESP32-C6, H2 and P4 and the ROM images
  (parameters of \<open>esp32c3_new\<close>), devices behind \<open>SYSTEM_MMIO\<close>, the decoder and the floating-point handlers of the
  vector extension, system calls, the generic ELF loader and the front ends; the manifest lists each with its
  reason.
\<close>

end
